(* ===== verification/Prelude.thy ===== *)
theory Prelude
  imports Main "HOL-Library.List_Lexorder" "HOL-Library.Char_ord"
begin

text \<open>
  Shared vocabulary of the development.

  Results: the program's \<open>anyhow::Result\<close> is the sum \<open>error + 'a\<close>; an error is the
  format string of its \<open>bail!\<close> with the interpolated arguments, and \<open>with_context\<close>
  wraps it. A sequence of statements ending in \<open>?\<close> is \<open>seq_checks\<close>, a \<open>for\<close> loop
  of them is \<open>each\<close>, an \<open>if let Some(x)\<close> around one is \<open>given\<close>.

  Strings: a Rust \<open>str\<close> is the list of its Unicode scalar values, restricted to those below
  256 (HOL's \<open>char\<close>); the standard-library operations on strings that the sources use are
  defined here on that list.

  Maps: a \<open>BTreeMap\<close> is its list of entries in strictly increasing key order, the order in
  which the sources iterate over it.
\<close>

section \<open>Results\<close>

datatype error = Bail string "string list" | Context string error

type_synonym 'a res = "error + 'a"

named_theorems res_simps \<open>equations for the combinators on results\<close>
named_theorems str_simps \<open>equations for the string operations\<close>

fun and_then :: "'e + 'a \<Rightarrow> ('a \<Rightarrow> 'e + 'b) \<Rightarrow> 'e + 'b" where
  "and_then (Inl e) f = Inl e"
| "and_then (Inr x) f = f x"

fun map_ok :: "('a \<Rightarrow> 'b) \<Rightarrow> 'e + 'a \<Rightarrow> 'e + 'b" where
  "map_ok f (Inl e) = Inl e"
| "map_ok f (Inr x) = Inr (f x)"

fun with_context :: "string \<Rightarrow> 'a res \<Rightarrow> 'a res" where
  "with_context c (Inl e) = Inl (Context c e)"
| "with_context c (Inr x) = Inr x"

fun map_err :: "('e \<Rightarrow> 'f) \<Rightarrow> 'e + 'a \<Rightarrow> 'f + 'a" where
  "map_err f (Inl e) = Inl (f e)"
| "map_err f (Inr x) = Inr x"

definition bail_if :: "bool \<Rightarrow> 'e \<Rightarrow> 'e + unit" where
  "bail_if b e = (if b then Inl e else Inr ())"

fun seq_checks :: "('e + unit) list \<Rightarrow> 'e + unit" where
  "seq_checks [] = Inr ()"
| "seq_checks (c # cs) = (case c of Inl e \<Rightarrow> Inl e | Inr _ \<Rightarrow> seq_checks cs)"

fun each :: "('a \<Rightarrow> 'e + unit) \<Rightarrow> 'a list \<Rightarrow> 'e + unit" where
  "each f [] = Inr ()"
| "each f (x # xs) = (case f x of Inl e \<Rightarrow> Inl e | Inr _ \<Rightarrow> each f xs)"

fun given :: "('a \<Rightarrow> 'e + unit) \<Rightarrow> 'a option \<Rightarrow> 'e + unit" where
  "given f None = Inr ()"
| "given f (Some x) = f x"

fun ok_or :: "'e \<Rightarrow> 'a option \<Rightarrow> 'e + 'a" where
  "ok_or e None = Inl e"
| "ok_or e (Some x) = Inr x"

fun collect_ok :: "('a \<Rightarrow> 'e + 'b) \<Rightarrow> 'a list \<Rightarrow> 'e + 'b list" where
  "collect_ok f [] = Inr []"
| "collect_ok f (x # xs) =
     (case f x of Inl e \<Rightarrow> Inl e
      | Inr y \<Rightarrow> (case collect_ok f xs of Inl e \<Rightarrow> Inl e | Inr ys \<Rightarrow> Inr (y # ys)))"

definition is_ok :: "'e + 'a \<Rightarrow> bool" where
  "is_ok r = (case r of Inl _ \<Rightarrow> False | Inr _ \<Rightarrow> True)"

lemma is_ok_simps [simp]: "is_ok (Inl e) = False" "is_ok (Inr x) = True"
  by (simp_all add: is_ok_def)

lemma is_ok_iff: "is_ok r \<longleftrightarrow> (\<exists>x. r = Inr x)"
  by (cases r) simp_all

lemma and_then_Inr [res_simps]: "and_then r f = Inr y \<longleftrightarrow> (\<exists>x. r = Inr x \<and> f x = Inr y)"
  by (cases r) simp_all

lemma and_then_cong [fundef_cong]:
  "r = r' \<Longrightarrow> (\<And>x. r' = Inr x \<Longrightarrow> f x = g x) \<Longrightarrow> and_then r f = and_then r' g"
  by (cases r') simp_all

lemma map_ok_Inr [res_simps]: "map_ok f r = Inr y \<longleftrightarrow> (\<exists>x. r = Inr x \<and> y = f x)"
  by (cases r) auto

lemma with_context_Inr [res_simps]: "with_context c r = Inr y \<longleftrightarrow> r = Inr y"
  by (cases r) simp_all

lemma map_err_Inr [simp, res_simps]: "map_err f r = Inr y \<longleftrightarrow> r = Inr y"
  by (cases r) simp_all

lemma bail_if_Inr [res_simps]: "bail_if b e = Inr u \<longleftrightarrow> \<not> b"
  by (simp add: bail_if_def)

lemma bail_if_simps [simp]: "bail_if True e = Inl e" "bail_if False e = Inr ()"
  by (simp_all add: bail_if_def)

lemma seq_checks_Cons_Inr [simp, res_simps]:
  "seq_checks (c # cs) = Inr u \<longleftrightarrow> c = Inr () \<and> seq_checks cs = Inr ()"
  by (cases c) simp_all

lemma seq_checks_all: "seq_checks cs = Inr () \<longleftrightarrow> (\<forall>c \<in> set cs. c = Inr ())"
  by (induction cs) (auto split: sum.splits)

lemma each_Inr [simp, res_simps]: "each f xs = Inr u \<longleftrightarrow> (\<forall>x \<in> set xs. f x = Inr ())"
  by (induction xs) (auto split: sum.splits)

lemma seq_checks_run [simp]:
  "seq_checks (Inr u # cs) = seq_checks cs" "seq_checks (Inl e # cs) = Inl e"
  by simp_all

lemma each_run: "f x = Inr () \<Longrightarrow> each f (x # xs) = each f xs"
  by simp

declare seq_checks.simps(2) [simp del] each.simps(2) [simp del]

lemma given_Inr [res_simps]: "given f ox = Inr u \<longleftrightarrow> (\<forall>x. ox = Some x \<longrightarrow> f x = Inr ())"
  by (cases ox) simp_all

lemma ok_or_Inr [res_simps]: "ok_or e ox = Inr y \<longleftrightarrow> ox = Some y"
  by (cases ox) simp_all

lemma collect_ok_Inr: "collect_ok f xs = Inr ys \<longleftrightarrow> list_all2 (\<lambda>x y. f x = Inr y) xs ys"
proof (induction xs arbitrary: ys)
  case Nil
  then show ?case by auto
next
  case (Cons x xs)
  then show ?case by (cases ys; cases "collect_ok f xs") (auto split: sum.splits)
qed

lemma collect_ok_total:
  "(\<And>x. x \<in> set xs \<Longrightarrow> f x = Inr (g x)) \<Longrightarrow> collect_ok f xs = Inr (map g xs)"
  by (induction xs) auto

lemma collect_ok_is_ok: "is_ok (collect_ok f xs) \<longleftrightarrow> (\<forall>x \<in> set xs. is_ok (f x))"
proof (induction xs)
  case (Cons x xs)
  then show ?case by (cases "f x"; cases "collect_ok f xs") simp_all
qed simp

lemma collect_ok_length: "collect_ok f xs = Inr ys \<Longrightarrow> length ys = length xs"
  by (auto simp: collect_ok_Inr dest: list_all2_lengthD)

text \<open>Collecting the results for the entries of a map keeps its keys.\<close>

lemma collect_entries:
  assumes "collect_ok (\<lambda>(n, x). map_ok (Pair n) (f n x)) xs = Inr ys"
  shows "map fst ys = map fst xs" and "\<And>n y. (n, y) \<in> set ys \<Longrightarrow> \<exists>x. (n, x) \<in> set xs \<and> f n x = Inr y"
proof -
  have "list_all2 (\<lambda>(n, x) (n', y). n' = n \<and> f n x = Inr y) xs ys"
    using assms unfolding collect_ok_Inr by (rule list_all2_mono) (auto simp: map_ok_Inr)
  then have "map fst ys = map fst xs \<and> (\<forall>(n, y) \<in> set ys. \<exists>x. (n, x) \<in> set xs \<and> f n x = Inr y)"
    by induction fastforce+
  then show "map fst ys = map fst xs" and "\<And>n y. (n, y) \<in> set ys \<Longrightarrow> \<exists>x. (n, x) \<in> set xs \<and> f n x = Inr y"
    by auto
qed

text \<open>The text of an error: its outermost context or its format with the arguments filled in.\<close>

fun fill_format :: "string \<Rightarrow> string list \<Rightarrow> string" where
  "fill_format [] args = []"
| "fill_format [c] args = [c]"
| "fill_format (c # d # cs) args =
     (if c = CHR ''{'' \<and> d = CHR ''}'' \<and> args \<noteq> [] then hd args @ fill_format cs (tl args)
      else c # fill_format (d # cs) args)"

fun error_text :: "error \<Rightarrow> string" where
  "error_text (Bail fmt args) = fill_format fmt args"
| "error_text (Context c e) = c"

text \<open>What an error wraps, outermost first: the \<open>chain\<close> of \<open>anyhow\<close>.\<close>

fun in_chain :: "(error \<Rightarrow> bool) \<Rightarrow> error \<Rightarrow> bool" where
  "in_chain P (Bail fmt args) = P (Bail fmt args)"
| "in_chain P (Context c e) = (P (Context c e) \<or> in_chain P e)"

section \<open>Strings\<close>

subsection \<open>Character classes\<close>

definition is_ascii_digit :: "char \<Rightarrow> bool" where
  "is_ascii_digit c \<longleftrightarrow> CHR ''0'' \<le> c \<and> c \<le> CHR ''9''"

definition is_ascii_lowercase :: "char \<Rightarrow> bool" where
  "is_ascii_lowercase c \<longleftrightarrow> CHR ''a'' \<le> c \<and> c \<le> CHR ''z''"

definition is_ascii_uppercase :: "char \<Rightarrow> bool" where
  "is_ascii_uppercase c \<longleftrightarrow> CHR ''A'' \<le> c \<and> c \<le> CHR ''Z''"

definition is_ascii_alphanumeric :: "char \<Rightarrow> bool" where
  "is_ascii_alphanumeric c \<longleftrightarrow> is_ascii_lowercase c \<or> is_ascii_uppercase c \<or> is_ascii_digit c"

definition is_ascii_hexdigit :: "char \<Rightarrow> bool" where
  "is_ascii_hexdigit c \<longleftrightarrow> is_ascii_digit c \<or> (CHR ''a'' \<le> c \<and> c \<le> CHR ''f'')
     \<or> (CHR ''A'' \<le> c \<and> c \<le> CHR ''F'')"

definition is_ascii_control :: "char \<Rightarrow> bool" where
  "is_ascii_control c \<longleftrightarrow> c < CHR '' '' \<or> c = CHR 0x7F"

definition is_ascii_whitespace :: "char \<Rightarrow> bool" where
  "is_ascii_whitespace c \<longleftrightarrow> c \<in> {CHR '' '', CHR 0x09, CHR 0x0A, CHR 0x0C, CHR 0x0D}"

text \<open>The Unicode \<open>White_Space\<close> characters below 256 (\<open>char::is_whitespace\<close>).\<close>

definition is_whitespace :: "char \<Rightarrow> bool" where
  "is_whitespace c \<longleftrightarrow> (CHR 0x09 \<le> c \<and> c \<le> CHR 0x0D) \<or> c \<in> {CHR '' '', CHR 0x85, CHR 0xA0}"

lemmas char_class_defs =
  is_ascii_digit_def is_ascii_lowercase_def is_ascii_uppercase_def is_ascii_alphanumeric_def
  is_ascii_hexdigit_def is_ascii_control_def is_ascii_whitespace_def is_whitespace_def

text \<open>The UTF-8 length of a string of characters below 256.\<close>

definition utf8_length :: "string \<Rightarrow> nat" where
  "utf8_length s = sum_list (map (\<lambda>c. if (of_char c :: nat) < 128 then 1 else 2) s)"

lemma utf8_length_ascii: "list_all (\<lambda>c. (of_char c :: nat) < 128) s \<Longrightarrow> utf8_length s = length s"
  by (induction s) (simp_all add: utf8_length_def)

subsection \<open>Searching and splitting\<close>

fun strip_prefix :: "string \<Rightarrow> string \<Rightarrow> string option" where
  "strip_prefix [] s = Some s"
| "strip_prefix (p # ps) [] = None"
| "strip_prefix (p # ps) (c # s) = (if p = c then strip_prefix ps s else None)"

definition starts_with :: "string \<Rightarrow> string \<Rightarrow> bool" where
  "starts_with p s \<longleftrightarrow> strip_prefix p s \<noteq> None"

definition ends_with :: "string \<Rightarrow> string \<Rightarrow> bool" where
  "ends_with p s \<longleftrightarrow> strip_prefix (rev p) (rev s) \<noteq> None"

fun contains_str :: "string \<Rightarrow> string \<Rightarrow> bool" where
  "contains_str n [] \<longleftrightarrow> n = []"
| "contains_str n (c # s) \<longleftrightarrow> starts_with n (c # s) \<or> contains_str n s"

fun split_once :: "char \<Rightarrow> string \<Rightarrow> (string \<times> string) option" where
  "split_once c [] = None"
| "split_once c (x # xs) =
     (if x = c then Some ([], xs)
      else case split_once c xs of None \<Rightarrow> None | Some (a, b) \<Rightarrow> Some (x # a, b))"

definition rsplit_once :: "char \<Rightarrow> string \<Rightarrow> (string \<times> string) option" where
  "rsplit_once c s =
     (case split_once c (rev s) of None \<Rightarrow> None | Some (a, b) \<Rightarrow> Some (rev b, rev a))"

fun split_where :: "(char \<Rightarrow> bool) \<Rightarrow> string \<Rightarrow> string list" where
  "split_where P [] = [[]]"
| "split_where P (x # xs) =
     (if P x then [] # split_where P xs
      else case split_where P xs of [] \<Rightarrow> [[x]] | y # ys \<Rightarrow> (x # y) # ys)"

definition split_char :: "char \<Rightarrow> string \<Rightarrow> string list" where
  "split_char c = split_where (\<lambda>x. x = c)"

fun join :: "string \<Rightarrow> string list \<Rightarrow> string" where
  "join sep [] = []"
| "join sep [x] = x"
| "join sep (x # y # ys) = x @ sep @ join sep (y # ys)"

definition trim :: "string \<Rightarrow> string" where
  "trim s = rev (dropWhile is_whitespace (rev (dropWhile is_whitespace s)))"

lemma strip_prefix_Some [str_simps]: "strip_prefix p s = Some r \<longleftrightarrow> s = p @ r"
  by (induction p s rule: strip_prefix.induct) auto

lemma strip_prefix_append [simp]: "strip_prefix p (p @ r) = Some r"
  by (simp add: strip_prefix_Some)

lemma strip_prefix_None: "strip_prefix p s = None \<longleftrightarrow> (\<forall>r. s \<noteq> p @ r)"
  by (metis not_None_eq strip_prefix_Some)

lemma starts_with_iff: "starts_with p s \<longleftrightarrow> (\<exists>r. s = p @ r)"
  by (auto simp: starts_with_def strip_prefix_None)

lemma starts_with_Nil [simp]: "starts_with [] s"
  by (simp add: starts_with_iff)

lemma starts_with_Cons [simp]:
  "starts_with (p # ps) [] = False"
  "starts_with (p # ps) (c # s) \<longleftrightarrow> p = c \<and> starts_with ps s"
  by (auto simp: starts_with_def)

lemma ends_with_iff: "ends_with p s \<longleftrightarrow> (\<exists>r. s = r @ p)"
proof -
  have "ends_with p s \<longleftrightarrow> (\<exists>r. rev s = rev p @ r)"
    by (auto simp: ends_with_def strip_prefix_None)
  also have "\<dots> \<longleftrightarrow> (\<exists>r. s = r @ p)"
    by (metis rev_append rev_rev_ident)
  finally show ?thesis .
qed

lemma contains_str_iff: "contains_str n s \<longleftrightarrow> (\<exists>a b. s = a @ n @ b)"
proof (induction s)
  case Nil
  then show ?case by auto
next
  case (Cons c s)
  show ?case
  proof
    assume "contains_str n (c # s)"
    then consider "starts_with n (c # s)" | "contains_str n s" by auto
    then show "\<exists>a b. c # s = a @ n @ b"
    proof cases
      case 1
      then show ?thesis by (metis append_Nil starts_with_iff)
    next
      case 2
      then show ?thesis using Cons.IH by (metis append_Cons)
    qed
  next
    assume "\<exists>a b. c # s = a @ n @ b"
    then obtain a b where ab: "c # s = a @ n @ b" by blast
    then show "contains_str n (c # s)"
    proof (cases a)
      case Nil
      with ab have "starts_with n (c # s)" by (auto simp: starts_with_iff)
      then show ?thesis by simp
    next
      case (Cons y a')
      with ab Cons.IH have "contains_str n s" by auto
      then show ?thesis by simp
    qed
  qed
qed

lemma contains_char_iff [str_simps]: "contains_str [c] s \<longleftrightarrow> c \<in> set s"
  by (auto simp: contains_str_iff in_set_conv_decomp)

lemma split_once_None [str_simps]: "split_once c s = None \<longleftrightarrow> c \<notin> set s"
  by (induction s) (auto split: option.splits)

lemma split_once_Some [str_simps]: "split_once c s = Some (a, b) \<longleftrightarrow> s = a @ c # b \<and> c \<notin> set a"
proof (induction s arbitrary: a)
  case Nil
  then show ?case by simp
next
  case (Cons x xs)
  show ?case
  proof (cases a)
    case Nil
    then show ?thesis by (auto split: option.splits)
  next
    case (Cons y a')
    then show ?thesis using Cons.IH [of a'] by (auto split: option.splits)
  qed
qed

lemma split_once_length: "split_once c s = Some (a, b) \<Longrightarrow> length b < length s"
  by (simp add: split_once_Some)

lemma rsplit_once_None [str_simps]: "rsplit_once c s = None \<longleftrightarrow> c \<notin> set s"
proof (cases "split_once c (rev s)")
  case None
  then have "c \<notin> set (rev s)" by (simp only: split_once_None not_False_eq_True)
  with None show ?thesis by (simp add: rsplit_once_def)
next
  case (Some ab)
  then have "c \<in> set (rev s)" by (metis option.distinct(1) split_once_None)
  with Some show ?thesis by (auto simp: rsplit_once_def split: prod.splits)
qed

lemma rsplit_once_Some [str_simps]:
  "rsplit_once c s = Some (a, b) \<longleftrightarrow> s = a @ c # b \<and> c \<notin> set b"
proof -
  have "rsplit_once c s = Some (a, b) \<longleftrightarrow> split_once c (rev s) = Some (rev b, rev a)"
    by (force simp: rsplit_once_def split: option.splits)
  also have "\<dots> \<longleftrightarrow> rev s = rev b @ c # rev a \<and> c \<notin> set b"
    by (simp add: split_once_Some)
  also have "rev s = rev b @ c # rev a \<longleftrightarrow> s = a @ c # b"
    by (metis append.assoc append_Cons append_Nil rev.simps(2) rev_append rev_rev_ident)
  finally show ?thesis .
qed

lemma split_where_not_Nil [simp]: "split_where P s \<noteq> []"
  by (induction s) (auto split: list.splits)

lemma split_where_no_sep: "w \<in> set (split_where P s) \<Longrightarrow> x \<in> set w \<Longrightarrow> \<not> P x"
proof (induction s arbitrary: w)
  case Nil
  then show ?case by simp
next
  case (Cons c s)
  then show ?case by (fastforce split: if_splits list.splits)
qed

lemma split_where_id: "(\<And>x. x \<in> set s \<Longrightarrow> \<not> P x) \<Longrightarrow> split_where P s = [s]"
  by (induction s) auto

lemma split_where_chars: "w \<in> set (split_where P s) \<Longrightarrow> set w \<subseteq> set s"
proof (induction s arbitrary: w)
  case Nil
  then show ?case by simp
next
  case (Cons c s)
  then show ?case by (fastforce split: if_splits list.splits)
qed

lemma split_where_app:
  "P c \<Longrightarrow> split_where P (a @ c # b) = split_where P a @ split_where P b"
  by (induction a) (auto split: list.splits)

lemma split_char_join: "join [c] (split_char c s) = s"
proof (induction s)
  case Nil
  then show ?case by (simp add: split_char_def)
next
  case (Cons x s)
  then show ?case
    by (cases "split_where (\<lambda>x. x = c) s" rule: remdups_adj.cases) (auto simp: split_char_def)
qed

lemma contains_split:
  assumes "contains_str n (a @ c # b)" and "c \<notin> set n"
  shows "contains_str n a \<or> contains_str n b"
proof -
  from assms(1) obtain x y where xy: "x @ n @ y = a @ c # b" by (metis contains_str_iff)
  show ?thesis
  proof (cases "length a < length (x @ n)")
    case False
    then have "x @ n = take (length (x @ n)) a"
      using arg_cong [OF xy, of "take (length (x @ n))"] by simp
    then have "a = x @ n @ drop (length (x @ n)) a" by (metis append.assoc append_take_drop_id)
    then show ?thesis by (metis contains_str_iff)
  next
    case True
    have nth: "(x @ n @ y) ! length a = c" by (simp add: xy)
    have "\<not> length x \<le> length a"
    proof
      assume "length x \<le> length a"
      with True nth have "n ! (length a - length x) = c" by (simp add: nth_append less_diff_conv2 split: if_splits)
      with True \<open>length x \<le> length a\<close> assms(2) show False by (metis add_less_cancel_left le_add_diff_inverse length_append nth_mem)
    qed
    then have "b = drop (Suc (length a)) x @ n @ y"
      using arg_cong [OF xy, of "drop (Suc (length a))"] by simp
    then show ?thesis by (metis contains_str_iff)
  qed
qed

lemma join_snoc: "ws \<noteq> [] \<Longrightarrow> join [c] ws @ [c] = concat (map (\<lambda>w. w @ [c]) ws)"
  by (induction ws rule: induct_list012) auto

lemma split_char_iff:
  "w \<in> set (split_char c s) \<longleftrightarrow> c \<notin> set w \<and> contains_str (c # w @ [c]) (c # s @ [c])"
proof
  assume w: "w \<in> set (split_char c s)"
  then obtain xs ys where ws: "split_char c s = xs @ w # ys" by (meson split_list)
  have "\<exists>z. c # concat (map (\<lambda>w. w @ [c]) xs) = z @ [c]"
    by (cases xs rule: rev_cases) auto
  then obtain z where z: "c # concat (map (\<lambda>w. w @ [c]) xs) = z @ [c]" ..
  have "c # s @ [c] = c # join [c] (split_char c s) @ [c]" by (simp only: split_char_join)
  also have "\<dots> = z @ (c # w @ [c]) @ concat (map (\<lambda>w. w @ [c]) ys)"
    using z by (subst join_snoc) (simp_all add: ws)
  finally have "contains_str (c # w @ [c]) (c # s @ [c])" by (metis contains_str_iff)
  moreover have "c \<notin> set w"
    using w split_where_no_sep [of w "\<lambda>x. x = c" s c] by (auto simp: split_char_def)
  ultimately show "c \<notin> set w \<and> contains_str (c # w @ [c]) (c # s @ [c])" by blast
next
  assume rhs: "c \<notin> set w \<and> contains_str (c # w @ [c]) (c # s @ [c])"
  then obtain a b where ab: "c # s @ [c] = a @ (c # w @ [c]) @ b" by (metis contains_str_iff)
  have w: "split_char c w = [w]" using rhs unfolding split_char_def by (intro split_where_id) auto
  have tail: "w \<in> set (split_char c r)" if "r @ [c] = w @ c # b" for r
  proof (cases b rule: rev_cases)
    case Nil
    with that w show ?thesis by simp
  next
    case (snoc b' x)
    with that have "r = w @ c # b'" by (metis append.assoc append_Cons butlast_snoc)
    with w show ?thesis by (simp add: split_char_def split_where_app)
  qed
  show "w \<in> set (split_char c s)"
  proof (cases a)
    case Nil
    with ab show ?thesis by (intro tail) simp
  next
    case (Cons x a')
    from ab Cons have eq: "s @ [c] = a' @ c # w @ c # b" by auto
    then obtain r where r: "s = a' @ c # r" "r @ [c] = w @ c # b"
      by (cases b rule: rev_cases) (auto simp: append_eq_append_conv2 Cons_eq_append_conv)
    with tail [OF r(2)] show ?thesis by (simp add: split_char_def split_where_app)
  qed
qed

lemma trim_chars: "c \<in> set (trim s) \<Longrightarrow> c \<in> set s"
  unfolding trim_def set_rev by (drule set_dropWhileD, unfold set_rev, drule set_dropWhileD) simp

lemma trim_no_whitespace: "(\<And>c. c \<in> set s \<Longrightarrow> \<not> is_whitespace c) \<Longrightarrow> trim s = s"
proof -
  assume nw: "\<And>c. c \<in> set s \<Longrightarrow> \<not> is_whitespace c"
  then have d: "dropWhile is_whitespace s = s"
    by (cases s) auto
  have "dropWhile is_whitespace (rev s) = rev s"
    using nw by (cases s rule: rev_cases) auto
  with d show ?thesis by (simp add: trim_def)
qed

lemma dropWhile_idem [simp]: "dropWhile P (dropWhile P xs) = dropWhile P xs"
  by (induction xs) auto

lemma dropWhile_rev_fixed:
  assumes "dropWhile P s = s"
  shows "dropWhile P (rev (dropWhile P (rev s))) = rev (dropWhile P (rev s))"
proof (cases s)
  case Nil
  then show ?thesis by simp
next
  case (Cons x xs)
  have "length (dropWhile P xs) < length s"
    using Cons length_dropWhile_le [of P xs] by simp
  with assms Cons have nx: "\<not> P x" by (auto split: if_splits)
  then have "dropWhile P (rev s) = dropWhile P (rev xs) @ [x]"
    using Cons by (auto simp: dropWhile_append)
  then show ?thesis using nx by simp
qed

lemma trim_idem [simp]: "trim (trim s) = trim s"
proof -
  let ?t = "dropWhile is_whitespace s"
  have "dropWhile is_whitespace (rev (dropWhile is_whitespace (rev ?t)))
          = rev (dropWhile is_whitespace (rev ?t))"
    by (rule dropWhile_rev_fixed) simp
  then show ?thesis by (simp add: trim_def)
qed

subsection \<open>Lines, words and letter case\<close>

text \<open>\<open>str::lines\<close>: no empty last line, no carriage return before a line feed.\<close>

definition strip_cr :: "string \<Rightarrow> string" where
  "strip_cr l = (if ends_with [CHR 0x0D] l then butlast l else l)"

definition str_lines :: "string \<Rightarrow> string list" where
  "str_lines s =
     (let ls = split_char (CHR 0x0A) s
      in map strip_cr (butlast ls) @ (if last ls = [] then [] else [last ls]))"

definition split_whitespace :: "string \<Rightarrow> string list" where
  "split_whitespace s = filter (\<lambda>w. w \<noteq> []) (split_where is_whitespace s)"

definition nth_of :: "nat \<Rightarrow> 'a list \<Rightarrow> 'a option" where
  "nth_of i xs = (if i < length xs then Some (xs ! i) else None)"

fun rsplit_once_str :: "string \<Rightarrow> string \<Rightarrow> (string \<times> string) option" where
  "rsplit_once_str sep [] = (if sep = [] then Some ([], []) else None)"
| "rsplit_once_str sep (c # cs) =
     (case rsplit_once_str sep cs of
        Some (a, b) \<Rightarrow> Some (c # a, b)
      | None \<Rightarrow> map_option (Pair []) (strip_prefix sep (c # cs)))"

text \<open>\<open>to_ascii_lowercase\<close>; \<open>trim_start_matches\<close> for a character.\<close>

definition ascii_lower :: "char \<Rightarrow> char" where
  "ascii_lower c = (if is_ascii_uppercase c then char_of (of_char c + 32 :: nat) else c)"

definition to_ascii_lowercase :: "string \<Rightarrow> string" where
  "to_ascii_lowercase s = map ascii_lower s"

definition strip_suffix :: "string \<Rightarrow> string \<Rightarrow> string option" where
  "strip_suffix p s = map_option rev (strip_prefix (rev p) (rev s))"

lemma strip_suffix_Some [str_simps]: "strip_suffix p s = Some r \<longleftrightarrow> s = r @ p"
proof -
  have "strip_suffix p s = Some r \<longleftrightarrow> rev s = rev p @ rev r"
    by (auto simp: strip_suffix_def strip_prefix_Some)
  also have "\<dots> \<longleftrightarrow> s = r @ p" by (metis rev_append rev_rev_ident)
  finally show ?thesis .
qed

definition trim_start_char :: "char \<Rightarrow> string \<Rightarrow> string" where
  "trim_start_char c s = dropWhile (\<lambda>x. x = c) s"

section \<open>Vectors\<close>

text \<open>\<open>Iterator::position\<close>, \<open>Vec::insert\<close> and \<open>Vec::remove\<close>.\<close>

fun position :: "('a \<Rightarrow> bool) \<Rightarrow> 'a list \<Rightarrow> nat option" where
  "position P [] = None"
| "position P (x # xs) = (if P x then Some 0 else map_option Suc (position P xs))"

definition insert_at :: "nat \<Rightarrow> 'a \<Rightarrow> 'a list \<Rightarrow> 'a list" where
  "insert_at i x xs = take i xs @ x # drop i xs"

definition remove_at :: "nat \<Rightarrow> 'a list \<Rightarrow> 'a list" where
  "remove_at i xs = take i xs @ drop (Suc i) xs"

lemma position_None: "position P xs = None \<longleftrightarrow> (\<forall>x \<in> set xs. \<not> P x)"
  by (induction xs) auto

lemma position_Some: "position P xs = Some i \<Longrightarrow> i < length xs \<and> P (xs ! i) \<and> (\<forall>j < i. \<not> P (xs ! j))"
proof (induction xs arbitrary: i)
  case Nil
  then show ?case by simp
next
  case (Cons x xs)
  show ?case
  proof (cases "P x")
    case True
    with Cons.prems show ?thesis by simp
  next
    case False
    with Cons.prems obtain k where k: "position P xs = Some k" "i = Suc k" by auto
    from Cons.IH [OF k(1)] False k(2) show ?thesis
      by (auto simp: nth_Cons less_Suc_eq_0_disj split: nat.splits)
  qed
qed

lemma position_key_Some:
  "position (\<lambda>c. c = k) ks = Some i \<Longrightarrow> i < length ks \<and> ks ! i = k"
  using position_Some [of "\<lambda>c. c = k" ks i] by blast

lemma map_insert_at: "map f (insert_at i x xs) = insert_at i (f x) (map f xs)"
  by (simp add: insert_at_def take_map drop_map)

lemma map_remove_at: "map f (remove_at i xs) = remove_at i (map f xs)"
  by (simp add: remove_at_def take_map drop_map)

lemma set_insert_at: "set (insert_at i x xs) = insert x (set xs)"
proof -
  have "set (a @ x # b) = insert x (set (a @ b))" for a b by auto
  from this [of "take i xs" "drop i xs"] show ?thesis
    by (simp only: append_take_drop_id insert_at_def)
qed

lemma distinct_insert_at: "distinct (insert_at i x xs) \<longleftrightarrow> distinct xs \<and> x \<notin> set xs"
proof -
  have "distinct (a @ x # b) \<longleftrightarrow> distinct (a @ b) \<and> x \<notin> set (a @ b)" for a b by auto
  from this [of "take i xs" "drop i xs"] show ?thesis
    by (simp only: append_take_drop_id insert_at_def)
qed

lemma length_insert_at: "length (insert_at i x xs) = Suc (length xs)"
  by (simp add: insert_at_def)

lemma set_remove_at_subset: "set (remove_at i xs) \<subseteq> set xs"
  unfolding remove_at_def by (auto dest: in_set_takeD in_set_dropD)

lemma distinct_remove_at: "distinct xs \<Longrightarrow> distinct (remove_at i xs)"
  unfolding remove_at_def
  by (simp add: set_take_disj_set_drop_if_distinct)

lemma remove_at_not_in:
  assumes "distinct xs" and "i < length xs"
  shows "xs ! i \<notin> set (remove_at i xs)"
proof -
  have "distinct (a @ x # b) \<Longrightarrow> x \<notin> set (a @ b)" for a b and x :: 'a by auto
  moreover have "distinct (take i xs @ xs ! i # drop (Suc i) xs)"
    using assms(1) by (simp only: id_take_nth_drop [OF assms(2), symmetric])
  ultimately show ?thesis unfolding remove_at_def by blast
qed

lemma set_remove_at:
  assumes "distinct xs" and "i < length xs"
  shows "set (remove_at i xs) = set xs - {xs ! i}"
proof -
  have "set xs = set (take i xs) \<union> insert (xs ! i) (set (drop (Suc i) xs))"
    using id_take_nth_drop [OF assms(2)] by (metis list.simps(15) set_append)
  then have "set xs - {xs ! i} = set (remove_at i xs) - {xs ! i}"
    unfolding remove_at_def by auto
  with remove_at_not_in [OF assms] show ?thesis by auto
qed

lemma length_remdups_distinct: "length (remdups xs) = length xs \<longleftrightarrow> distinct xs"
  by (metis card_distinct distinct_card length_remdups_card_conv)

text \<open>Looking a key up does not depend on the order of entries with distinct keys.\<close>

lemma map_of_rev_distinct:
  assumes "distinct (map fst es)"
  shows "map_of (rev es) = map_of es"
proof
  fix k
  show "map_of (rev es) k = map_of es k"
  proof (cases "map_of es k")
    case None
    then have "k \<notin> fst ` set (rev es)" by (simp add: map_of_eq_None_iff)
    then have "map_of (rev es) k = None" by (simp only: map_of_eq_None_iff not_False_eq_True)
    with None show ?thesis by (simp only:)
  next
    case (Some v)
    then have "(k, v) \<in> set (rev es)" by (simp add: map_of_SomeD)
    moreover have "distinct (map fst (rev es))"
      using assms by (simp add: rev_map [symmetric])
    ultimately show ?thesis using Some by (simp only: map_of_is_SomeI)
  qed
qed

end
