(* ===== verification/Launch_Args.thy ===== *)
theory Launch_Args
  imports Prelude
begin

text \<open>
  \<open>src/launch_args.rs\<close>: the arguments of \<open>launch\<close>. The parser pulls arguments from an iterator
  through a callback that knows their role; both callers (\<open>parse_launch_run_strings\<close> and the
  command line in \<open>src/gateway.rs\<close>, which refuses arguments that are not UTF-8) pop a list and
  decode the item for the role, so the model takes the list and the decoder.
\<close>

record launch_run_args =
  lra_name :: string
  lra_session_id :: "string option"
  lra_vars :: "string list"
  lra_args :: "string list"

datatype launch_run_arg_role = RName | RArgument | RSessionId | RVariable | RPassthrough

fun set_session_id :: "string option \<Rightarrow> string \<Rightarrow> string option res" where
  "set_session_id None value = Inr (Some value)"
| "set_session_id (Some _) value = Inl (Bail ''--session-id may only be specified once'' [])"

definition validate_launch_var_pair :: "string \<Rightarrow> unit res" where
  "validate_launch_var_pair value =
     (case split_once CHR ''='' value of
        None \<Rightarrow> Inl (Bail ''--var must be key=value'' []) | Some _ \<Rightarrow> Inr ())"

definition push_var :: "launch_run_args \<Rightarrow> string \<Rightarrow> launch_run_args res" where
  "push_var st value =
     map_ok (\<lambda>_. st\<lparr>lra_vars := lra_vars st @ [value]\<rparr>) (validate_launch_var_pair value)"

definition put_session_id :: "launch_run_args \<Rightarrow> string \<Rightarrow> launch_run_args res" where
  "put_session_id st value =
     map_ok (\<lambda>s. st\<lparr>lra_session_id := s\<rparr>) (set_session_id (lra_session_id st) value)"

fun launch_args_loop ::
  "(launch_run_arg_role \<Rightarrow> 'r \<Rightarrow> string res) \<Rightarrow> 'r list \<Rightarrow> launch_run_args \<Rightarrow> launch_run_args res"
where
  "launch_args_loop dec [] st = Inr st"
| "launch_args_loop dec (a # rest) st =
     (case dec RArgument a of
        Inl e \<Rightarrow> Inl e
      | Inr arg \<Rightarrow>
          if arg = ''--'' then
            map_ok (\<lambda>ps. st\<lparr>lra_args := ps\<rparr>) (collect_ok (dec RPassthrough) rest)
          else if arg = ''--json'' then
            Inl (Bail ''launch execution does not support --json'' [])
          else (case strip_prefix ''--session-id='' arg of
            Some value \<Rightarrow> and_then (put_session_id st value) (\<lambda>st'. launch_args_loop dec rest st')
          | None \<Rightarrow>
          if arg = ''--session-id'' then
            (case rest of
               [] \<Rightarrow> Inl (Bail ''--session-id requires a value'' [])
             | b # bs \<Rightarrow> and_then (dec RSessionId b) (\<lambda>value.
                 and_then (put_session_id st value) (\<lambda>st'. launch_args_loop dec bs st')))
          else (case strip_prefix ''--var='' arg of
            Some value \<Rightarrow> and_then (push_var st value) (\<lambda>st'. launch_args_loop dec rest st')
          | None \<Rightarrow>
          if arg = ''--var'' then
            (case rest of
               [] \<Rightarrow> Inl (Bail ''--var must be key=value'' [])
             | b # bs \<Rightarrow> and_then (dec RVariable b) (\<lambda>value.
                 and_then (push_var st value) (\<lambda>st'. launch_args_loop dec bs st')))
          else Inl (Bail ''unexpected extra launch argument {}'' [arg]))))"

definition parse_launch_run_args_from ::
  "(launch_run_arg_role \<Rightarrow> 'r \<Rightarrow> string res) \<Rightarrow> 'r list \<Rightarrow> launch_run_args res" where
  "parse_launch_run_args_from dec raw =
     (case raw of
        [] \<Rightarrow> Inl (Bail ''launch requires a launch name'' [])
      | a # rest \<Rightarrow> and_then (dec RName a) (\<lambda>name.
          launch_args_loop dec rest
            \<lparr>lra_name = name, lra_session_id = None, lra_vars = [], lra_args = []\<rparr>))"

definition parse_launch_run_strings :: "string list \<Rightarrow> launch_run_args res" where
  "parse_launch_run_strings = parse_launch_run_args_from (\<lambda>_. Inr)"

fun launch_arg_utf8_error :: "launch_run_arg_role \<Rightarrow> string" where
  "launch_arg_utf8_error RName = ''launch name must be valid UTF-8''"
| "launch_arg_utf8_error RArgument = ''launch arguments must be valid UTF-8''"
| "launch_arg_utf8_error RSessionId = ''session id must be valid UTF-8''"
| "launch_arg_utf8_error RVariable = ''launch variable must be valid UTF-8''"
| "launch_arg_utf8_error RPassthrough = ''launch passthrough argument must be valid UTF-8''"

text \<open>An \<open>OsString\<close> is its text, or \<open>None\<close> where it is not UTF-8.\<close>

definition parse_launch_run_args :: "string option list \<Rightarrow> launch_run_args res" where
  "parse_launch_run_args =
     parse_launch_run_args_from (\<lambda>role. ok_or (Bail (launch_arg_utf8_error role) []))"

section \<open>Printing arguments back\<close>

definition print_launch_args :: "launch_run_args \<Rightarrow> string list" where
  "print_launch_args la =
     lra_name la
     # (case lra_session_id la of None \<Rightarrow> [] | Some s \<Rightarrow> [''--session-id'', s])
     @ concat (map (\<lambda>v. [''--var'', v]) (lra_vars la))
     @ ''--'' # lra_args la"

definition args_printable :: "launch_run_args \<Rightarrow> bool" where
  "args_printable la \<longleftrightarrow> (\<forall>v \<in> set (lra_vars la). CHR ''='' \<in> set v)"

lemma validate_launch_var_pair_ok: "validate_launch_var_pair v = Inr u \<longleftrightarrow> CHR ''='' \<in> set v"
  unfolding validate_launch_var_pair_def
  using split_once_None [of "CHR ''=''" v]
  by (cases "split_once CHR ''='' v") auto

lemma push_var_ok: "CHR ''='' \<in> set v \<Longrightarrow> push_var st v = Inr (st\<lparr>lra_vars := lra_vars st @ [v]\<rparr>)"
  using validate_launch_var_pair_ok [of v "()"] by (simp add: push_var_def)

lemma collect_ok_Inr_id [simp]: "collect_ok Inr xs = Inr xs"
  by (induction xs) auto

lemma launch_args_loop_vars:
  assumes "\<forall>v \<in> set vs. CHR ''='' \<in> set v"
  shows "launch_args_loop (\<lambda>_. Inr) (concat (map (\<lambda>v. [''--var'', v]) vs) @ rest) st
      = launch_args_loop (\<lambda>_. Inr) rest (st\<lparr>lra_vars := lra_vars st @ vs\<rparr>)"
  using assms
proof (induction vs arbitrary: st)
  case Nil
  then show ?case by simp
next
  case (Cons v vs)
  then show ?case by (simp add: push_var_ok)
qed

lemma launch_args_loop_vars_have_eq:
  assumes "launch_args_loop dec rest st = Inr la"
  shows "(\<forall>v \<in> set (lra_vars st). CHR ''='' \<in> set v) \<Longrightarrow> args_printable la"
  using assms
proof (induction dec rest st rule: launch_args_loop.induct)
  case (1 dec st)
  then show ?case by (simp add: args_printable_def)
next
  case (2 dec a rest st)
  have push: "(\<forall>v \<in> set (lra_vars st'). CHR ''='' \<in> set v)"
    if "push_var st v = Inr st'" for v st'
    using that "2.prems"(1) by (auto simp: push_var_def res_simps validate_launch_var_pair_ok)
  have put: "(\<forall>v \<in> set (lra_vars st'). CHR ''='' \<in> set v)"
    if "put_session_id st v = Inr st'" for v st'
    using that "2.prems"(1) by (auto simp: put_session_id_def res_simps)
  from "2.prems"(2) obtain arg where d: "dec RArgument a = Inr arg"
    by (auto split: sum.splits)
  note IH = "2.IH" [OF d]
  show ?case
  proof (cases "arg = ''--'' \<or> arg = ''--json''")
    case True
    with "2.prems" d show ?thesis by (auto simp: args_printable_def res_simps)
  next
    case False
    then have ne: "arg \<noteq> ''--''" "arg \<noteq> ''--json''" by auto
    show ?thesis
    proof (cases "strip_prefix ''--session-id='' arg")
      case (Some v)
      with "2.prems"(2) d ne obtain st' where st':
        "put_session_id st v = Inr st'" "launch_args_loop dec rest st' = Inr la"
        by (auto simp: res_simps)
      show ?thesis by (rule IH(4) [OF ne Some st'(1) put [OF st'(1)] st'(2)])
    next
      case noSid: None
      show ?thesis
      proof (cases "arg = ''--session-id''")
        case True
        with "2.prems"(2) d ne noSid obtain b bs v st' where st':
          "rest = b # bs" "dec RSessionId b = Inr v"
          "put_session_id st v = Inr st'" "launch_args_loop dec bs st' = Inr la"
          by (auto simp: res_simps split: list.splits)
        show ?thesis by (rule IH(1) [OF ne noSid True st'(1-3) put [OF st'(3)] st'(4)])
      next
        case notSid: False
        show ?thesis
        proof (cases "strip_prefix ''--var='' arg")
          case (Some v)
          with "2.prems"(2) d ne noSid notSid obtain st' where st':
            "push_var st v = Inr st'" "launch_args_loop dec rest st' = Inr la"
            by (auto simp: res_simps)
          show ?thesis
            by (rule IH(3) [OF ne noSid notSid Some st'(1) push [OF st'(1)] st'(2)])
        next
          case noVar: None
          with "2.prems"(2) d ne noSid notSid obtain b bs v st' where st':
            "arg = ''--var''" "rest = b # bs" "dec RVariable b = Inr v"
            "push_var st v = Inr st'" "launch_args_loop dec bs st' = Inr la"
            by (auto simp: res_simps split: list.splits if_splits)
          show ?thesis
            by (rule IH(2) [OF ne noSid notSid noVar st'(1-4) push [OF st'(4)] st'(5)])
        qed
      qed
    qed
  qed
qed

lemma parse_launch_run_strings_cases:
  "parse_launch_run_strings raw = Inr la \<Longrightarrow> args_printable la"
  by (auto simp: parse_launch_run_strings_def parse_launch_run_args_from_def
      dest!: launch_args_loop_vars_have_eq split: list.splits)

section \<open>Properties\<close>

text \<open>C39. Parsing the printed form of launch arguments whose variables are \<open>key=value\<close> pairs
  returns them, whatever the name, the session id and the passed-through arguments are.\<close>

theorem launch_args_roundtrip:
  assumes "args_printable la"
  shows "parse_launch_run_strings (print_launch_args la) = Inr la"
proof -
  have eqs: "\<forall>v \<in> set (lra_vars la). CHR ''='' \<in> set v"
    using assms by (simp add: args_printable_def)
  show ?thesis
    by (cases "lra_session_id la")
      (simp_all add: parse_launch_run_strings_def parse_launch_run_args_from_def
        print_launch_args_def launch_args_loop_vars [OF eqs] put_session_id_def)
qed

theorem launch_args_roundtrip_witness:
  "parse_launch_run_strings (print_launch_args
     \<lparr>lra_name = ''repo'', lra_session_id = Some ''--json'', lra_vars = [''b=--''],
      lra_args = [''--var'']\<rparr>)
   = Inr \<lparr>lra_name = ''repo'', lra_session_id = Some ''--json'', lra_vars = [''b=--''],
      lra_args = [''--var'']\<rparr>"
  by (rule launch_args_roundtrip) (simp add: args_printable_def)

text \<open>Accepted launch arguments carry only \<open>key=value\<close> variables, on either entry point.\<close>

theorem accepted_launch_vars_are_pairs:
  assumes "parse_launch_run_args raw = Inr la \<or> parse_launch_run_strings words = Inr la"
  shows "list_all (\<lambda>v. CHR ''='' \<in> set v) (lra_vars la)"
  using assms
  by (auto simp: parse_launch_run_args_def parse_launch_run_strings_def
      parse_launch_run_args_from_def res_simps list_all_iff args_printable_def [symmetric]
      dest!: launch_args_loop_vars_have_eq split: list.splits)

theorem accepted_launch_vars_are_pairs_witness:
  "list_all (\<lambda>v. CHR ''='' \<in> set v) [''a=b'']"
  using accepted_launch_vars_are_pairs [of "[]" _ "[''n'', ''--var=a=b'']"]
  by (simp add: parse_launch_run_strings_def parse_launch_run_args_from_def push_var_def
      validate_launch_var_pair_def)

end
