(* ===== verification/Ordered_Maps.thy ===== *)
theory Ordered_Maps
  imports Prelude
begin

text \<open>
  The ordered maps and sets of the sources. A \<open>BTreeMap\<close> is the list of its entries, kept in
  strictly increasing key order by \<open>bt_insert\<close> (\<open>bt_ok\<close> is that invariant), so that a loop
  over the map is a recursion over the list. The locale \<open>map_interface\<close> states what the
  components rely on (what a lookup returns after an insertion), and \<open>bt\<close> interprets it on
  these lists.
\<close>

type_synonym ('k, 'v) btree = "('k \<times> 'v) list"

definition bt_ok :: "('k::linorder, 'v) btree \<Rightarrow> bool" where
  "bt_ok m \<longleftrightarrow> sorted_wrt (<) (map fst m)"

definition bt_get :: "('k, 'v) btree \<Rightarrow> 'k \<Rightarrow> 'v option" where
  "bt_get m = map_of m"

definition bt_keys :: "('k, 'v) btree \<Rightarrow> 'k list" where
  "bt_keys m = map fst m"

fun bt_insert :: "'k::linorder \<Rightarrow> 'v \<Rightarrow> ('k, 'v) btree \<Rightarrow> ('k, 'v) btree" where
  "bt_insert k v [] = [(k, v)]"
| "bt_insert k v ((k', v') # m) =
     (if k < k' then (k, v) # (k', v') # m
      else if k = k' then (k, v) # m
      else (k', v') # bt_insert k v m)"

definition bt_extend :: "('k::linorder, 'v) btree \<Rightarrow> ('k, 'v) btree \<Rightarrow> ('k, 'v) btree" where
  "bt_extend m later = fold (\<lambda>(k, v). bt_insert k v) later m"

definition bt_contains :: "('k, 'v) btree \<Rightarrow> 'k \<Rightarrow> bool" where
  "bt_contains m k \<longleftrightarrow> k \<in> set (map fst m)"

locale map_interface =
  fixes get :: "'m \<Rightarrow> 'k \<Rightarrow> 'v option"
    and ins :: "'k \<Rightarrow> 'v \<Rightarrow> 'm \<Rightarrow> 'm"
    and entries :: "'m \<Rightarrow> ('k \<times> 'v) list"
    and inv :: "'m \<Rightarrow> bool"
  assumes get_ins: "inv m \<Longrightarrow> get (ins k v m) = (get m)(k \<mapsto> v)"
    and inv_ins: "inv m \<Longrightarrow> inv (ins k v m)"
    and get_entries: "inv m \<Longrightarrow> get m = map_of (entries m)"
    and distinct_entries: "inv m \<Longrightarrow> distinct (map fst (entries m))"
begin

lemma inv_fold: "inv m \<Longrightarrow> inv (fold (\<lambda>(k, v). ins k v) es m)"
  by (induction es arbitrary: m) (auto intro: inv_ins)

lemma get_fold:
  "inv m \<Longrightarrow> get (fold (\<lambda>(k, v). ins k v) es m) = get m ++ map_of (rev es)"
proof (induction es arbitrary: m)
  case Nil
  then show ?case by simp
next
  case (Cons e es)
  obtain k v where e: "e = (k, v)" by force
  have "get (fold (\<lambda>(k, v). ins k v) es (ins k v m)) = get (ins k v m) ++ map_of (rev es)"
    by (rule Cons.IH) (rule inv_ins [OF Cons.prems])
  then show ?case
    by (auto simp: e get_ins [OF Cons.prems] map_add_def fun_eq_iff split: option.splits)
qed

lemma get_fold_map:
  assumes "inv m" and "inv m'"
  shows "get (fold (\<lambda>(k, v). ins k v) (entries m') m) = get m ++ get m'"
proof -
  have "map_of (rev (entries m')) = map_of (entries m')"
    by (rule map_of_rev_distinct) (rule distinct_entries [OF assms(2)])
  then show ?thesis
    by (simp add: get_fold [OF assms(1)] get_entries [OF assms(2)])
qed

lemma get_None_iff: "inv m \<Longrightarrow> get m k = None \<longleftrightarrow> k \<notin> set (map fst (entries m))"
  by (simp add: get_entries map_of_eq_None_iff)

end

lemma bt_insert_keys: "set (map fst (bt_insert k v m)) = insert k (set (map fst m))"
proof (induction m)
  case Nil
  then show ?case by simp
next
  case (Cons e m)
  then show ?case by (cases e) (simp add: insert_commute)
qed

lemma bt_ok_insert: "bt_ok m \<Longrightarrow> bt_ok (bt_insert k v m)"
proof (induction m)
  case Nil
  then show ?case by (simp add: bt_ok_def)
next
  case (Cons e m)
  obtain k' v' where e: "e = (k', v')" by force
  have keys: "fst ` set (bt_insert k v m) = insert k (fst ` set m)"
    using bt_insert_keys [of k v m] by simp
  from Cons have "bt_ok (bt_insert k v m)" and "\<forall>x \<in> fst ` set m. k' < x"
    by (auto simp: e bt_ok_def)
  with Cons.prems show ?case
    by (fastforce simp: e bt_ok_def keys)
qed

lemma bt_get_insert: "bt_get (bt_insert k v m) = (bt_get m)(k \<mapsto> v)" if "bt_ok m"
  using that
proof (induction m)
  case Nil
  then show ?case by (simp add: bt_get_def)
next
  case (Cons e m)
  obtain k' v' where e: "e = (k', v')" by force
  from Cons show ?case
    by (auto simp: e bt_get_def bt_ok_def fun_eq_iff)
qed

lemma bt_ok_distinct: "bt_ok m \<Longrightarrow> distinct (map fst m)"
  by (simp add: bt_ok_def strict_sorted_iff)

interpretation bt: map_interface bt_get bt_insert "\<lambda>m. m" bt_ok
  by unfold_locales (simp_all add: bt_get_insert bt_ok_insert bt_ok_distinct, simp add: bt_get_def)

lemma bt_ok_Nil [simp]: "bt_ok []"
  by (simp add: bt_ok_def)

lemma bt_ok_extend: "bt_ok m \<Longrightarrow> bt_ok (bt_extend m later)"
  unfolding bt_extend_def by (rule bt.inv_fold)

lemma bt_get_extend: "bt_ok m \<Longrightarrow> bt_ok later \<Longrightarrow> bt_get (bt_extend m later) = bt_get m ++ bt_get later"
  unfolding bt_extend_def by (rule bt.get_fold_map)

lemma bt_contains_get: "bt_contains m k \<longleftrightarrow> bt_get m k \<noteq> None"
  by (simp add: bt_contains_def bt_get_def map_of_eq_None_iff)

lemma bt_get_in: "bt_get m k = Some v \<Longrightarrow> (k, v) \<in> set m"
  by (simp add: bt_get_def map_of_SomeD)

lemma bt_in_get: "bt_ok m \<Longrightarrow> (k, v) \<in> set m \<Longrightarrow> bt_get m k = Some v"
  by (simp add: bt_get_def bt_ok_distinct)

text \<open>An ordered map is determined by its lookups.\<close>

lemma bt_eqI:
  assumes "bt_ok m" and "bt_ok m'" and "bt_get m = bt_get m'"
  shows "m = m'"
proof -
  have mem: "e \<in> set m \<longleftrightarrow> e \<in> set m'" for e
    using assms by (cases e) (metis bt_get_in bt_in_get)
  then have "set (map fst m) = set (map fst m')" by auto
  with assms(1,2) have keys: "map fst m = map fst m'"
    by (simp add: bt_ok_def sorted_distinct_set_unique strict_sorted_iff)
  have "map snd m = map snd m'"
  proof (rule nth_equalityI)
    show "length (map snd m) = length (map snd m')"
      using keys by (metis length_map)
  next
    fix i
    assume "i < length (map snd m)"
    then have i: "i < length m" "i < length m'" using keys by (simp, metis length_map)
    then have "m' ! i \<in> set m" using mem by simp
    moreover have "m ! i \<in> set m" using i by simp
    moreover have "fst (m ! i) = fst (m' ! i)" using keys i by (metis nth_map)
    ultimately have "m ! i = m' ! i"
      using bt_ok_distinct [OF assms(1)] by (metis eq_key_imp_eq_value prod.collapse)
    then show "map snd m ! i = map snd m' ! i" using i by simp
  qed
  with keys show ?thesis by (metis zip_map_fst_snd)
qed

lemma bt_get_extend_list:
  "bt_ok m \<Longrightarrow> distinct (map fst es) \<Longrightarrow> bt_get (bt_extend m es) = bt_get m ++ map_of es"
  unfolding bt_extend_def by (simp add: bt.get_fold map_of_rev_distinct)

lemma bt_extend_Nil: "bt_ok m \<Longrightarrow> bt_extend [] m = m"
  by (intro bt_eqI bt_ok_extend) (simp_all add: bt_get_extend, simp add: bt_get_def)

end
