(* ===== verification/Templates.thy ===== *)
theory Templates
  imports Ordered_Maps
begin

text \<open>
  \<open>src/template.rs\<close>: interpolation of \<open>{key}\<close> in a template. The scanner is the source's
  loop over the rest of the input; a rest is one character shorter at least after each round.
  The abstract view of a template is its list of pieces (\<open>pieces\<close>), of which
  \<open>referenced_keys\<close> is the list of keys and \<open>render\<close> the substitution.
\<close>

type_synonym vars = "(string, string) btree"

section \<open>The operations\<close>

function referenced_keys_from :: "string \<Rightarrow> string \<Rightarrow> string list \<Rightarrow> string list res" where
  "referenced_keys_from input rest keys =
     (case split_once CHR ''{'' rest of
        None \<Rightarrow> Inr keys
      | Some (_, tail) \<Rightarrow>
          (case split_once CHR ''}'' tail of
             None \<Rightarrow> Inl (Bail ''unclosed interpolation in {}'' [input])
           | Some (key, rest') \<Rightarrow>
               if key = [] then Inl (Bail ''empty interpolation in {}'' [input])
               else referenced_keys_from input rest' (keys @ [key])))"
  by pat_completeness auto
termination
  by (relation "measure (\<lambda>(input, rest, keys). length rest)")
    (auto dest!: split_once_length)

definition referenced_keys :: "string \<Rightarrow> string list res" where
  "referenced_keys input = referenced_keys_from input input []"

definition validate_keys :: "string \<Rightarrow> string list \<Rightarrow> unit res" where
  "validate_keys input allowed =
     and_then (referenced_keys input)
       (each (\<lambda>key. bail_if (key \<notin> set allowed)
          (Bail ''unknown interpolation variable {} in {}'' [key, input])))"

function render_from :: "string \<Rightarrow> vars \<Rightarrow> string \<Rightarrow> string \<Rightarrow> string res" where
  "render_from input vars rest out =
     (case split_once CHR ''{'' rest of
        None \<Rightarrow> Inr (out @ rest)
      | Some (before, tail) \<Rightarrow>
          (case split_once CHR ''}'' tail of
             None \<Rightarrow> Inl (Bail ''unclosed interpolation in {}'' [input])
           | Some (key, rest') \<Rightarrow>
               if key = [] then Inl (Bail ''empty interpolation in {}'' [input])
               else (case bt_get vars key of
                  None \<Rightarrow> Inl (Bail ''unknown interpolation variable {} in {}'' [key, input])
                | Some value \<Rightarrow> render_from input vars rest' (out @ before @ value))))"
  by pat_completeness auto
termination
  by (relation "measure (\<lambda>(input, vars, rest, out). length rest)")
    (auto dest!: split_once_length)

declare referenced_keys_from.simps [simp del] render_from.simps [simp del]

definition render :: "string \<Rightarrow> vars \<Rightarrow> string res" where
  "render input vars = render_from input vars input []"

definition render_argv :: "string list \<Rightarrow> vars \<Rightarrow> string list res" where
  "render_argv command vars = collect_ok (\<lambda>arg. render arg vars) command"

text \<open>\<open>trim_start_matches\<close> and \<open>trim_end_matches\<close> drop the pattern repeatedly.\<close>

function trim_start_matches :: "string \<Rightarrow> string \<Rightarrow> string" where
  "trim_start_matches p s =
     (if p = [] then s
      else case strip_prefix p s of None \<Rightarrow> s | Some r \<Rightarrow> trim_start_matches p r)"
  by pat_completeness auto
termination
  by (relation "measure (\<lambda>(p, s). length s)") (auto simp: strip_prefix_Some)

declare trim_start_matches.simps [simp del]

definition trim_end_matches :: "string \<Rightarrow> string \<Rightarrow> string" where
  "trim_end_matches p s = rev (trim_start_matches (rev p) (rev s))"

definition slug_char :: "char \<Rightarrow> char" where
  "slug_char ch =
     (if is_ascii_alphanumeric ch \<or> ch \<in> {CHR ''-'', CHR ''_'', CHR ''.''} then ch
      else if ch \<in> {CHR ''/'', CHR '':''} then CHR ''-''
      else CHR ''-'')"

definition image_slug :: "string \<Rightarrow> string" where
  "image_slug img =
     map slug_char (trim_end_matches '':latest'' (trim_start_matches ''localhost/'' img))"

section \<open>The abstract view: literal pieces and keys\<close>

datatype piece = Lit string | Key string

fun piece_keys :: "piece list \<Rightarrow> string list" where
  "piece_keys [] = []"
| "piece_keys (Lit s # ps) = piece_keys ps"
| "piece_keys (Key k # ps) = k # piece_keys ps"

fun unparse :: "piece list \<Rightarrow> string" where
  "unparse [] = []"
| "unparse (Lit s # ps) = s @ unparse ps"
| "unparse (Key k # ps) = CHR ''{'' # k @ CHR ''}'' # unparse ps"

fun subst :: "(string \<Rightarrow> string option) \<Rightarrow> piece list \<Rightarrow> string option" where
  "subst v [] = Some []"
| "subst v (Lit s # ps) = map_option (\<lambda>r. s @ r) (subst v ps)"
| "subst v (Key k # ps) =
     (case v k of None \<Rightarrow> None | Some x \<Rightarrow> map_option (\<lambda>r. x @ r) (subst v ps))"

text \<open>A literal has no opening brace, a key no closing brace and at least one character.\<close>

fun well_formed_piece :: "piece \<Rightarrow> bool" where
  "well_formed_piece (Lit s) \<longleftrightarrow> CHR ''{'' \<notin> set s"
| "well_formed_piece (Key k) \<longleftrightarrow> k \<noteq> [] \<and> CHR ''}'' \<notin> set k"

function pieces :: "string \<Rightarrow> piece list option" where
  "pieces rest =
     (case split_once CHR ''{'' rest of
        None \<Rightarrow> Some [Lit rest]
      | Some (before, tail) \<Rightarrow>
          (case split_once CHR ''}'' tail of
             None \<Rightarrow> None
           | Some (key, rest') \<Rightarrow>
               if key = [] then None
               else map_option (\<lambda>ps. Lit before # Key key # ps) (pieces rest')))"
  by pat_completeness auto
termination
  by (relation "measure length") (auto dest!: split_once_length)

declare pieces.simps [simp del]

lemma pieces_unparse: "pieces s = Some ps \<Longrightarrow> unparse ps = s"
proof (induction s arbitrary: ps rule: pieces.induct)
  case (1 rest)
  then show ?case
    by (subst (asm) (2) pieces.simps)
      (auto simp: split_once_Some split: option.splits if_splits)
qed

lemma pieces_well_formed: "pieces s = Some ps \<Longrightarrow> list_all well_formed_piece ps"
proof (induction s arbitrary: ps rule: pieces.induct)
  case (1 rest)
  then show ?case
    by (subst (asm) (2) pieces.simps)
      (auto simp: split_once_Some split_once_None split: option.splits if_splits)
qed

lemma pieces_cases [consumes 0, case_names literal unclosed empty step]:
  obtains (literal) "split_once CHR ''{'' rest = None" "pieces rest = Some [Lit rest]"
  | (unclosed) before tail where "split_once CHR ''{'' rest = Some (before, tail)"
      "split_once CHR ''}'' tail = None" "pieces rest = None"
  | (empty) before tail rest' where "split_once CHR ''{'' rest = Some (before, tail)"
      "split_once CHR ''}'' tail = Some ([], rest')" "pieces rest = None"
  | (step) before tail key rest' where "split_once CHR ''{'' rest = Some (before, tail)"
      "split_once CHR ''}'' tail = Some (key, rest')" "key \<noteq> []"
      "pieces rest = map_option (\<lambda>ps. Lit before # Key key # ps) (pieces rest')"
      "length rest' < length rest"
proof -
  show thesis
  proof (cases "split_once CHR ''{'' rest")
    case None
    then show thesis by (intro literal) (simp_all add: pieces.simps [of rest])
  next
    case (Some bt)
    obtain before tail where bt: "bt = (before, tail)" by force
    show thesis
    proof (cases "split_once CHR ''}'' tail")
      case None
      with Some bt show thesis by (intro unclosed) (simp_all add: pieces.simps [of rest])
    next
      case (Some kr)
      obtain key rest' where kr: "kr = (key, rest')" by force
      show thesis
      proof (cases "key = []")
        case True
        with \<open>split_once CHR ''{'' rest = Some bt\<close> bt Some kr show thesis
          by (intro empty) (simp_all add: pieces.simps [of rest])
      next
        case False
        with \<open>split_once CHR ''{'' rest = Some bt\<close> bt Some kr show thesis
          by (intro step [of before tail key rest'])
            (auto simp: pieces.simps [of rest] dest!: split_once_length)
      qed
    qed
  qed
qed

lemma referenced_keys_from_Some:
  "pieces rest = Some ps \<Longrightarrow> referenced_keys_from input rest keys = Inr (keys @ piece_keys ps)"
proof (induction rest arbitrary: ps keys rule: length_induct)
  case (1 rest)
  from "1.prems" show ?case
    by (cases rest rule: pieces_cases)
      (auto simp: referenced_keys_from.simps [of input rest keys] "1.IH" split: prod.splits)
qed

lemma referenced_keys_from_None:
  "pieces rest = None \<Longrightarrow> \<exists>e. referenced_keys_from input rest keys = Inl e"
proof (induction rest arbitrary: keys rule: length_induct)
  case (1 rest)
  from "1.prems" show ?case
    by (cases rest rule: pieces_cases)
      (auto simp: referenced_keys_from.simps [of input rest keys] "1.IH" split: prod.splits)
qed

lemma render_from_Some:
  "pieces rest = Some ps \<Longrightarrow>
    (case subst (bt_get vars) ps of
       Some r \<Rightarrow> render_from input vars rest out = Inr (out @ r)
     | None \<Rightarrow> \<exists>e. render_from input vars rest out = Inl e)"
proof (induction rest arbitrary: ps out rule: length_induct)
  case (1 rest)
  show ?case
  proof (cases rest rule: pieces_cases)
    case (step before tail key rest')
    with "1.prems" obtain ps' where ps': "pieces rest' = Some ps'" "ps = Lit before # Key key # ps'"
      by auto
    note IH = "1.IH" [rule_format, OF step(5) ps'(1)]
    show ?thesis
    proof (cases "bt_get vars key")
      case None
      with step ps' show ?thesis by (simp add: render_from.simps [of input vars rest out])
    next
      case (Some x)
      with step ps' IH [of "out @ before @ x"] show ?thesis
        by (auto simp: render_from.simps [of input vars rest out] split: option.splits)
    qed
  qed (use "1.prems" in \<open>auto simp: render_from.simps [of input vars rest out]\<close>)
qed

lemma render_from_None:
  "pieces rest = None \<Longrightarrow> \<exists>e. render_from input vars rest out = Inl e"
proof (induction rest arbitrary: out rule: length_induct)
  case (1 rest)
  from "1.prems" show ?case
    by (cases rest rule: pieces_cases)
      (auto simp: render_from.simps [of input vars rest out] "1.IH" split: prod.splits option.splits)
qed

lemma referenced_keys_pieces:
  "referenced_keys s = Inr ks \<longleftrightarrow> (\<exists>ps. pieces s = Some ps \<and> ks = piece_keys ps)"
  using referenced_keys_from_Some [of s _ s "[]"] referenced_keys_from_None [of s s "[]"]
  by (cases "pieces s") (auto simp: referenced_keys_def)

lemma render_pieces:
  "render s vars = Inr out \<longleftrightarrow> (\<exists>ps. pieces s = Some ps \<and> subst (bt_get vars) ps = Some out)"
  using render_from_Some [of s _ s vars "[]"] render_from_None [of s s vars "[]"]
  by (cases "pieces s") (auto simp: render_def split: option.splits)

lemma subst_Some_iff: "(\<exists>r. subst v ps = Some r) \<longleftrightarrow> (\<forall>k \<in> set (piece_keys ps). v k \<noteq> None)"
  by (induction v ps rule: subst.induct) (auto split: option.splits)

lemma subst_no_keys: "piece_keys ps = [] \<Longrightarrow> subst v ps = Some (unparse ps)"
  by (induction ps rule: piece_keys.induct) auto

lemma subst_cong: "(\<And>k. k \<in> set (piece_keys ps) \<Longrightarrow> v k = w k) \<Longrightarrow> subst v ps = subst w ps"
  by (induction ps rule: piece_keys.induct) (auto split: option.splits)

text \<open>The declarative reading: literals and keys alternate, starting and ending with a literal.\<close>

fun alternating :: "piece list \<Rightarrow> bool" where
  "alternating [Lit s] = True"
| "alternating (Lit s # Key k # ps) = alternating ps"
| "alternating _ = False"

definition is_template_of :: "string \<Rightarrow> piece list \<Rightarrow> bool" where
  "is_template_of s ps \<longleftrightarrow> unparse ps = s \<and> alternating ps \<and> list_all well_formed_piece ps"

lemma split_once_app: "c \<notin> set a \<Longrightarrow> split_once c (a @ c # b) = Some (a, b)"
  by (simp add: split_once_Some)

lemma pieces_of_unparse:
  "alternating ps \<Longrightarrow> list_all well_formed_piece ps \<Longrightarrow> pieces (unparse ps) = Some ps"
proof (induction ps rule: alternating.induct)
  case (1 s)
  then have "split_once CHR ''{'' s = None" by (simp add: split_once_None)
  then show ?case by (simp add: pieces.simps [of s])
next
  case (2 s k ps)
  then show ?case by (simp add: pieces.simps [of "s @ _"] split_once_app)
qed simp_all

lemma pieces_alternating: "pieces s = Some ps \<Longrightarrow> alternating ps"
proof (induction s arbitrary: ps rule: length_induct)
  case (1 rest)
  from "1.prems" show ?case
    by (cases rest rule: pieces_cases) (auto simp: "1.IH")
qed

lemma pieces_iff: "pieces s = Some ps \<longleftrightarrow> is_template_of s ps"
  using pieces_unparse pieces_well_formed pieces_alternating pieces_of_unparse
  unfolding is_template_of_def by blast

lemma validate_keys_iff:
  "validate_keys s allowed = Inr () \<longleftrightarrow> (\<exists>ks. referenced_keys s = Inr ks \<and> set ks \<subseteq> set allowed)"
  by (auto simp: validate_keys_def res_simps)

lemma render_is_ok_iff:
  "is_ok (render s vars) \<longleftrightarrow> (\<exists>ks. referenced_keys s = Inr ks \<and> set ks \<subseteq> set (bt_keys vars))"
proof -
  have keys: "bt_get vars k \<noteq> None \<longleftrightarrow> k \<in> set (bt_keys vars)" for k
    by (simp add: bt_get_def bt_keys_def map_of_eq_None_iff)
  have "is_ok (render s vars) \<longleftrightarrow>
      (\<exists>ps. pieces s = Some ps \<and> (\<exists>r. subst (bt_get vars) ps = Some r))"
    by (auto simp: is_ok_iff render_pieces)
  also have "\<dots> \<longleftrightarrow> (\<exists>ps. pieces s = Some ps \<and> set (piece_keys ps) \<subseteq> set (bt_keys vars))"
    unfolding subst_Some_iff keys by blast
  also have "\<dots> \<longleftrightarrow> (\<exists>ks. referenced_keys s = Inr ks \<and> set ks \<subseteq> set (bt_keys vars))"
    by (auto simp: referenced_keys_pieces)
  finally show ?thesis .
qed

lemma slug_char_range: "is_ascii_alphanumeric (slug_char c) \<or> slug_char c \<in> {CHR ''-'', CHR ''_'', CHR ''.''}"
  by (simp add: slug_char_def)

text \<open>Text of a template outside its keys is text of every rendering.\<close>

lemma subst_keeps_text:
  assumes "alternating ps" and "subst v ps = Some r"
    and "CHR ''{'' \<notin> set n" "CHR ''}'' \<notin> set n" "\<And>k. k \<in> set (piece_keys ps) \<Longrightarrow> \<not> contains_str n k"
    and "contains_str n (pre @ unparse ps @ post)"
  shows "contains_str n (pre @ r @ post)"
  using assms
proof (induction ps arbitrary: pre r rule: alternating.induct)
  case (2 s k ps)
  from "2.prems"(2) obtain val r' where r: "subst v ps = Some r'" "r = s @ val @ r'"
    by (auto split: option.splits)
  have "contains_str n ((pre @ s) @ CHR ''{'' # (k @ CHR ''}'' # unparse ps @ post))"
    using "2.prems"(6) by simp
  from contains_split [OF this "2.prems"(3)]
  have "contains_str n (pre @ s) \<or> contains_str n k \<or> contains_str n (unparse ps @ post)"
    using contains_split [OF _ "2.prems"(4)] by blast
  moreover have "\<not> contains_str n k" using "2.prems"(5) by simp
  moreover have "contains_str n (r' @ post)" if "contains_str n (unparse ps @ post)"
    using "2.IH" [of r' "[]"] "2.prems" r(1) that by simp
  ultimately show ?case unfolding r(2) contains_str_iff by (metis append.assoc)
qed auto

text \<open>A template that refers to a key renders differently for different values of it.\<close>

lemma subst_length:
  assumes "\<And>k. k \<noteq> x \<Longrightarrow> v k = v' k" and "v x = Some a" "v' x = Some a'"
  shows "subst v ps = Some r \<Longrightarrow> subst v' ps = Some r' \<Longrightarrow>
    length r + count_list (piece_keys ps) x * length a' = length r' + count_list (piece_keys ps) x * length a"
proof (induction ps arbitrary: r r' rule: piece_keys.induct)
  case (3 k ps)
  then show ?case using assms by (cases "k = x") (fastforce split: option.splits)+
qed (auto split: option.splits)

lemma subst_injective:
  assumes "\<And>k. k \<noteq> x \<Longrightarrow> v k = v' k" and "v x = Some a" "v' x = Some a'"
    and "subst v ps = Some r" "subst v' ps = Some r" "x \<in> set (piece_keys ps)"
  shows "a = a'"
proof -
  have "0 < count_list (piece_keys ps) x"
    using assms(6) by (metis count_list_0_iff neq0_conv)
  with subst_length [OF assms(1-5)] have len: "length a = length a'" by simp
  from assms(4-6) show ?thesis
  proof (induction ps arbitrary: r rule: piece_keys.induct)
    case (3 k ps)
    show ?case
    proof (cases "k = x")
      case True
      with "3.prems" assms(2,3) obtain q q' where "r = a @ q" "r = a' @ q'"
        by (auto split: option.splits)
      then show ?thesis using len append_eq_append_conv by blast
    next
      case False
      with "3.prems" assms(1) [OF False] obtain val q where "subst v ps = Some q" "subst v' ps = Some q"
        by (auto split: option.splits)
      moreover have "x \<in> set (piece_keys ps)" using "3.prems"(3) False by simp
      ultimately show ?thesis by (rule "3.IH")
    qed
  qed (auto split: option.splits)
qed

lemma rendered_injective:
  assumes "render s (bt_insert x a vars) = Inr p" "render s (bt_insert x a' vars) = Inr p"
    and "bt_ok vars" "referenced_keys s = Inr ks" "x \<in> set ks"
  shows "a = a'"
proof -
  from assms(1,2,4) obtain ps where ps: "subst (bt_get (bt_insert x a vars)) ps = Some p"
    "subst (bt_get (bt_insert x a' vars)) ps = Some p" "ks = piece_keys ps"
    by (auto simp: render_pieces referenced_keys_pieces)
  show ?thesis
    by (rule subst_injective [OF _ _ _ ps(1,2)])
      (use assms(3,5) ps(3) in \<open>auto simp: bt_get_insert\<close>)
qed

section \<open>Properties\<close>

text \<open>Rendering is substitution: \<open>render\<close> returns \<open>out\<close> exactly when the template is an
  alternation of literals and keys whose substitution by the variables is \<open>out\<close>.\<close>

theorem render_refines_substitution:
  "render s vars = Inr out \<longleftrightarrow>
    (\<exists>ps. is_template_of s ps \<and> subst (bt_get vars) ps = Some out)"
  by (simp add: render_pieces pieces_iff)

text \<open>Rendering succeeds exactly when the template scans and each referenced key is bound.\<close>

theorem render_succeeds_iff:
  "is_ok (render s vars) \<longleftrightarrow> (\<exists>ks. referenced_keys s = Inr ks \<and> set ks \<subseteq> set (bt_keys vars))"
  by (rule render_is_ok_iff)

text \<open>A template validated against a list of allowed keys renders under any variables that
  bind those keys.\<close>

theorem validated_template_renders:
  assumes "validate_keys s allowed = Inr ()" and "set allowed \<subseteq> set (bt_keys vars)"
  shows "is_ok (render s vars)"
  using assms unfolding render_is_ok_iff validate_keys_iff by blast

theorem validated_template_renders_witness:
  "is_ok (render ''a{k}'' [(''k'', ''v'')])"
  by (rule validated_template_renders [where allowed = "[''k'']"])
    (simp_all add: validate_keys_def referenced_keys_def referenced_keys_from.simps bt_keys_def)

end
