(* ===== verification/Context_Vars.thy ===== *)
theory Context_Vars
  imports Templates
begin

text \<open>
  \<open>src/context.rs\<close>: the context variables of an invocation. Slugs, declarations, the checks on a
  supplied context, the container labels that store it and the command-line pairs it is parsed
  from. Reading a context file is left to the caller: \<open>parse_context_sources\<close> takes what
  \<open>parse_context_file\<close> returned for each file.
\<close>

definition CONTEXT_LABEL_PREFIX :: string where
  "CONTEXT_LABEL_PREFIX = ''io.aw-gateway.context.''"

definition MAX_CONTEXT_ENTRIES :: nat where
  "MAX_CONTEXT_ENTRIES = 64"

datatype context_value_format = Slug

record context_var_config =
  cvc_required :: bool
  cvc_format :: context_value_format
  cvc_description :: "string option"

text \<open>A \<open>RuntimeContext\<close> is its map of values.\<close>

type_synonym runtime_context = "(string, string) btree"

definition validate_context_slug :: "string \<Rightarrow> unit res" where
  "validate_context_slug v = seq_checks
     [bail_if (v = [] \<or> length v > 64) (Bail ''context slug {} must be 1-64 characters'' [v]),
      bail_if (starts_with ''-'' v \<or> ends_with ''-'' v \<or> contains_str ''--'' v)
        (Bail ''context slug {} must not start or end with - or contain consecutive -'' [v]),
      bail_if (\<not> list_all (\<lambda>ch. is_ascii_lowercase ch \<or> is_ascii_digit ch \<or> ch = CHR ''-'') v)
        (Bail ''context slug {} must contain only lowercase ASCII letters, numbers, and -'' [v])]"

definition context_label_key :: "string \<Rightarrow> string" where
  "context_label_key key = CONTEXT_LABEL_PREFIX @ key"

definition label_filters :: "runtime_context \<Rightarrow> (string, string) btree" where
  "label_filters ctx = bt_extend [] (map (\<lambda>(k, v). (context_label_key k, v)) ctx)"

definition context_from_labels :: "(string, string) btree \<Rightarrow> (string, string) btree" where
  "context_from_labels labels =
     bt_extend [] (List.map_filter (\<lambda>(key, value).
       case strip_prefix CONTEXT_LABEL_PREFIX key of
         None \<Rightarrow> None
       | Some k \<Rightarrow> if is_ok (validate_context_slug k) then Some (k, value) else None) labels)"

definition insert_template_vars :: "runtime_context \<Rightarrow> vars \<Rightarrow> vars" where
  "insert_template_vars ctx vars =
     fold (\<lambda>(k, v). bt_insert (''context.'' @ k) v) ctx vars"

definition matches_stored :: "runtime_context \<Rightarrow> (string, string) btree \<Rightarrow> bool" where
  "matches_stored ctx stored =
     (if ctx = [] then stored = []
      else list_all (\<lambda>(k, v). bt_get stored k = Some v) ctx)"

definition validate_context_var_declarations ::
  "(string, context_var_config) btree \<Rightarrow> unit res" where
  "validate_context_var_declarations decls = seq_checks
     [bail_if (length decls > MAX_CONTEXT_ENTRIES)
        (Bail ''context_vars contains more than {} entries'' [''64'']),
      each (\<lambda>k. with_context (''validate context_vars.'' @ k) (validate_context_slug k))
        (bt_keys decls)]"

definition validate_supplied_context ::
  "(string, context_var_config) btree \<Rightarrow> runtime_context \<Rightarrow> unit res" where
  "validate_supplied_context decls supplied = seq_checks
     [bail_if (length supplied > MAX_CONTEXT_ENTRIES)
        (Bail ''context contains more than {} entries'' [''64'']),
      each (\<lambda>(k, v).
        seq_checks
          [map_err (\<lambda>e. Bail ''validate context key {}: {}'' [k, error_text e]) (validate_context_slug k),
           (case bt_get decls k of
              None \<Rightarrow> Inl (Bail ''unknown context key {}'' [k])
            | Some d \<Rightarrow> (case cvc_format d of
                Slug \<Rightarrow> map_err (\<lambda>e. Bail ''validate context value for {}: {}'' [k, error_text e])
                  (validate_context_slug v)))]) supplied]"

text \<open>The errors of type \<open>ContextValidationError\<close>, by their formats.\<close>

definition is_context_validation_error :: "error \<Rightarrow> bool" where
  "is_context_validation_error e =
     (case e of
        Bail fmt args \<Rightarrow> fmt \<in> {''context contains more than {} entries'', ''validate context key {}: {}'',
          ''unknown context key {}'', ''validate context value for {}: {}'', ''missing required context key {}''}
      | Context c e \<Rightarrow> False)"

definition validate_runtime_context ::
  "(string, context_var_config) btree \<Rightarrow> runtime_context \<Rightarrow> unit res" where
  "validate_runtime_context decls supplied = seq_checks
     [validate_supplied_context decls supplied,
      each (\<lambda>(k, d). bail_if (cvc_required d \<and> \<not> bt_contains supplied k)
        (Bail ''missing required context key {}'' [k])) decls]"

text \<open>\<open>values\<close> and \<open>seen\<close> of \<open>parse_context_sources\<close>.\<close>

definition insert_unique_context_value ::
  "string \<times> string \<Rightarrow> runtime_context \<times> string set \<Rightarrow> (runtime_context \<times> string set) res" where
  "insert_unique_context_value kv st =
     (case (kv, st) of ((key, value), (values, seen)) \<Rightarrow>
        if key \<in> seen then Inl (Bail ''duplicate context key {}'' [key])
        else Inr (bt_insert key value values, insert key seen))"

fun insert_context_values ::
  "(string \<times> string) list \<Rightarrow> runtime_context \<times> string set \<Rightarrow> (runtime_context \<times> string set) res" where
  "insert_context_values [] st = Inr st"
| "insert_context_values (kv # kvs) st =
     and_then (insert_unique_context_value kv st) (insert_context_values kvs)"

fun insert_context_files ::
  "(runtime_context res) list \<Rightarrow> runtime_context \<times> string set \<Rightarrow> (runtime_context \<times> string set) res"
where
  "insert_context_files [] st = Inr st"
| "insert_context_files (f # fs) st =
     and_then f (\<lambda>file_values.
       and_then (insert_context_values file_values st) (insert_context_files fs))"

fun insert_context_pairs ::
  "string list \<Rightarrow> runtime_context \<times> string set \<Rightarrow> (runtime_context \<times> string set) res" where
  "insert_context_pairs [] st = Inr st"
| "insert_context_pairs (pair # pairs) st =
     (case split_once CHR ''='' pair of
        None \<Rightarrow> Inl (Bail ''context value {} must use key=value'' [pair])
      | Some (key, value) \<Rightarrow>
          if key = [] \<or> value = []
          then Inl (Bail ''context value {} must use non-empty key=value'' [pair])
          else and_then (insert_unique_context_value (key, value) st) (insert_context_pairs pairs))"

definition parse_context_sources ::
  "(runtime_context res) list \<Rightarrow> string list \<Rightarrow> runtime_context res" where
  "parse_context_sources files pairs =
     and_then (insert_context_files files ([], {})) (\<lambda>st.
     and_then (insert_context_pairs pairs st) (\<lambda>(values, _).
       if length values > MAX_CONTEXT_ENTRIES
       then Inl (Bail ''context contains more than {} entries'' [''64''])
       else Inr values))"

section \<open>Lemmas\<close>

definition slug :: "string \<Rightarrow> bool" where
  "slug v \<longleftrightarrow> v \<noteq> [] \<and> length v \<le> 64 \<and> hd v \<noteq> CHR ''-'' \<and> last v \<noteq> CHR ''-''
     \<and> \<not> contains_str ''--'' v
     \<and> list_all (\<lambda>ch. is_ascii_lowercase ch \<or> is_ascii_digit ch \<or> ch = CHR ''-'') v"

lemma starts_with_hd: "v \<noteq> [] \<Longrightarrow> starts_with [c] v \<longleftrightarrow> hd v = c"
  by (cases v) auto

lemma ends_with_last: "v \<noteq> [] \<Longrightarrow> ends_with [c] v \<longleftrightarrow> last v = c"
  by (cases v rule: rev_cases) (auto simp: ends_with_iff)

lemma validate_context_slug_iff: "validate_context_slug v = Inr () \<longleftrightarrow> slug v"
  by (auto simp: validate_context_slug_def slug_def res_simps starts_with_hd ends_with_last)

lemma is_ok_unit: "is_ok r \<longleftrightarrow> r = Inr ()"
  by (cases r) simp_all

lemma map_filter_fst_inj:
  assumes inj: "\<And>x y a b. f x = Some a \<Longrightarrow> f y = Some b \<Longrightarrow> fst a = fst b \<Longrightarrow> fst x = fst y"
    and "distinct (map fst m)"
  shows "distinct (map fst (List.map_filter f m))"
  using assms(2)
proof (induction m)
  case Nil
  then show ?case by (simp add: List.map_filter_simps)
next
  case (Cons e m)
  then have IH: "distinct (map fst (List.map_filter f m))" and e: "fst e \<notin> fst ` set m" by auto
  show ?case
  proof (cases "f e")
    case None
    with IH show ?thesis by (simp add: List.map_filter_simps)
  next
    case (Some a)
    have "fst a \<noteq> fst b" if "y \<in> set m" "f y = Some b" for y b
      using inj [OF Some that(2)] that(1) e by (metis image_eqI)
    then have "fst a \<notin> fst ` set (List.map_filter f m)"
      by (force simp: List.map_filter_def)
    with IH show ?thesis by (simp add: List.map_filter_simps Some)
  qed
qed

lemma prefix_inj: "context_label_key k = context_label_key k' \<longleftrightarrow> k = k'"
  by (simp add: context_label_key_def)

lemma bt_ok_label_filters: "bt_ok (label_filters ctx)"
  by (simp add: label_filters_def bt_ok_extend)

lemma bt_ok_context_from_labels: "bt_ok (context_from_labels labels)"
  by (simp add: context_from_labels_def bt_ok_extend)

lemma label_filters_get:
  assumes "bt_ok ctx"
  shows "bt_get (label_filters ctx) (context_label_key k) = bt_get ctx k"
proof -
  let ?es = "map (\<lambda>(k, v). (context_label_key k, v)) ctx"
  have "map fst ?es = map context_label_key (map fst ctx)" by auto
  then have d: "distinct (map fst ?es)"
    using bt_ok_distinct [OF assms] by (simp only: distinct_map) (simp add: inj_on_def prefix_inj)
  have "map_of ?es (context_label_key k) = map_of ctx k"
    by (induction ctx) (auto simp: prefix_inj)
  then show ?thesis
    unfolding label_filters_def bt_get_extend_list [OF bt_ok_Nil d] by (simp add: bt_get_def)
qed

lemma context_from_labels_get:
  assumes "bt_ok labels"
  shows "bt_get (context_from_labels labels) k =
    (if slug k then bt_get labels (context_label_key k) else None)"
proof -
  define f where "f = (\<lambda>(key, v :: string). case strip_prefix CONTEXT_LABEL_PREFIX key of
         None \<Rightarrow> None
       | Some k \<Rightarrow> if is_ok (validate_context_slug k) then Some (k, v) else None)"
  have f: "f (key, v) = Some (k', w) \<longleftrightarrow> key = context_label_key k' \<and> w = v \<and> slug k'" for key v k' w
    by (auto simp: f_def strip_prefix_Some context_label_key_def is_ok_unit validate_context_slug_iff
        split: option.splits)
  let ?es = "List.map_filter f labels"
  have d: "distinct (map fst ?es)"
    by (rule map_filter_fst_inj [OF _ bt_ok_distinct [OF assms]]) (auto simp: f prefix_inj split: prod.splits)
  have mem: "(k, v) \<in> set ?es \<longleftrightarrow> slug k \<and> (context_label_key k, v) \<in> set labels" for v
  proof -
    have "(k, v) \<in> set ?es \<longleftrightarrow> (\<exists>e \<in> set labels. f e = Some (k, v))"
      by (force simp: List.map_filter_def)
    also have "\<dots> \<longleftrightarrow> slug k \<and> (context_label_key k, v) \<in> set labels"
      by (auto simp: f intro!: bexI [of _ "(context_label_key k, v)"])
    finally show ?thesis .
  qed
  have "map_of ?es k = (if slug k then map_of labels (context_label_key k) else None)"
  proof -
    have eq: "map_of ?es k = Some v \<longleftrightarrow> slug k \<and> map_of labels (context_label_key k) = Some v" for v
      unfolding map_of_eq_Some_iff [OF d] map_of_eq_Some_iff [OF bt_ok_distinct [OF assms]] mem ..
    show ?thesis
      by (cases "map_of ?es k"; cases "map_of labels (context_label_key k)") (use eq in auto)
  qed
  then show ?thesis
    unfolding context_from_labels_def f_def [symmetric] bt_get_extend_list [OF bt_ok_Nil d]
    by (simp add: bt_get_def)
qed

text \<open>The state of \<open>parse_context_sources\<close>: an ordered map and exactly its keys.\<close>

definition sources_ok :: "runtime_context \<times> string set \<Rightarrow> bool" where
  "sources_ok st \<longleftrightarrow> bt_ok (fst st) \<and> snd st = set (bt_keys (fst st))"

definition extends :: "runtime_context \<times> string set \<Rightarrow> runtime_context \<times> string set \<Rightarrow> bool" where
  "extends st st' \<longleftrightarrow> map_le (bt_get (fst st)) (bt_get (fst st'))"

lemma extends_refl [simp]: "extends st st"
  by (simp add: extends_def)

lemma extends_trans: "extends a b \<Longrightarrow> extends b c \<Longrightarrow> extends a c"
  by (auto simp: extends_def intro: map_le_trans)

lemma extends_get: "extends st st' \<Longrightarrow> bt_get (fst st) k = Some v \<Longrightarrow> bt_get (fst st') k = Some v"
  by (metis domI extends_def map_le_def)

lemma insert_unique_inv:
  assumes "insert_unique_context_value (k, v) st = Inr st'" and "sources_ok st"
  shows "sources_ok st' \<and> extends st st' \<and> bt_get (fst st') k = Some v"
proof -
  obtain vs seen where s: "st = (vs, seen)" by force
  with assms(1) have new: "k \<notin> seen" "st' = (bt_insert k v vs, insert k seen)"
    by (auto simp: insert_unique_context_value_def split: if_splits)
  have "bt_get vs k = None"
    using assms(2) s new(1) by (auto simp: sources_ok_def bt_get_def bt_keys_def map_of_eq_None_iff)
  then show ?thesis
    using assms(2) s new(2) bt_insert_keys [of k v vs]
    by (auto simp: sources_ok_def extends_def bt_ok_insert bt_keys_def bt_get_insert map_le_def)
qed

lemma insert_context_values_inv:
  assumes "insert_context_values kvs st = Inr st'" and "sources_ok st"
  shows "sources_ok st' \<and> extends st st' \<and> list_all (\<lambda>(k, v). bt_get (fst st') k = Some v) kvs"
  using assms
proof (induction kvs arbitrary: st)
  case Nil
  then show ?case by simp
next
  case (Cons kv kvs)
  obtain k v where kv: "kv = (k, v)" by force
  with Cons.prems obtain st1 where st1: "insert_unique_context_value (k, v) st = Inr st1"
    "insert_context_values kvs st1 = Inr st'"
    by (auto simp: res_simps)
  note one = insert_unique_inv [OF st1(1) Cons.prems(2)]
  note rest = Cons.IH [OF st1(2)]
  from one rest show ?case
    by (auto simp: kv intro: extends_trans extends_get)
qed

lemma insert_context_files_inv:
  assumes "insert_context_files fs st = Inr st'" and "sources_ok st"
  shows "sources_ok st' \<and> extends st st' \<and>
    list_all (\<lambda>f. case f of Inl e \<Rightarrow> False | Inr m \<Rightarrow> list_all (\<lambda>(k, v). bt_get (fst st') k = Some v) m) fs"
  using assms
proof (induction fs arbitrary: st)
  case Nil
  then show ?case by simp
next
  case (Cons f fs)
  then obtain m st1 where st1: "f = Inr m" "insert_context_values m st = Inr st1"
    "insert_context_files fs st1 = Inr st'"
    by (auto simp: res_simps)
  note one = insert_context_values_inv [OF st1(2) Cons.prems(2)]
  with Cons.IH [OF st1(3)] have rest: "sources_ok st'" "extends st1 st'"
    "list_all (\<lambda>f. case f of Inl e \<Rightarrow> False | Inr m \<Rightarrow> list_all (\<lambda>(k, v). bt_get (fst st') k = Some v) m) fs"
    by auto
  have "list_all (\<lambda>(k, v). bt_get (fst st') k = Some v) m"
    using one rest(2) by (auto simp: list_all_iff intro: extends_get)
  with one rest show ?case by (auto simp: st1(1) intro: extends_trans)
qed

lemma insert_context_pairs_inv:
  assumes "insert_context_pairs ps st = Inr st'" and "sources_ok st"
  shows "sources_ok st' \<and> extends st st' \<and>
    list_all (\<lambda>p. \<exists>k v. p = k @ CHR ''='' # v \<and> k \<noteq> [] \<and> v \<noteq> [] \<and> bt_get (fst st') k = Some v) ps"
  using assms
proof (induction ps arbitrary: st)
  case Nil
  then show ?case by simp
next
  case (Cons p ps)
  then obtain k v st1 where st1: "split_once CHR ''='' p = Some (k, v)" "k \<noteq> []" "v \<noteq> []"
    "insert_unique_context_value (k, v) st = Inr st1" "insert_context_pairs ps st1 = Inr st'"
    by (auto simp: res_simps split: option.splits prod.splits if_splits)
  note one = insert_unique_inv [OF st1(4) Cons.prems(2)]
  with Cons.IH [OF st1(5)] have rest: "sources_ok st'" "extends st1 st'"
    "list_all (\<lambda>p. \<exists>k v. p = k @ CHR ''='' # v \<and> k \<noteq> [] \<and> v \<noteq> [] \<and> bt_get (fst st') k = Some v) ps"
    by auto
  have "p = k @ CHR ''='' # v" using st1(1) by (simp add: split_once_Some)
  with one rest st1(2,3) show ?case by (auto intro: extends_trans extends_get)
qed

section \<open>Properties\<close>



text \<open>An accepted runtime context has at most 64 entries, only declared keys, slug keys and
  values, and every required key.\<close>

theorem validated_runtime_context:
  assumes "validate_runtime_context decls ctx = Inr ()"
  shows "length ctx \<le> 64 \<and> set (bt_keys ctx) \<subseteq> set (bt_keys decls)
    \<and> list_all (\<lambda>(k, v). slug k \<and> slug v) ctx
    \<and> {k. \<exists>d. (k, d) \<in> set decls \<and> cvc_required d} \<subseteq> set (bt_keys ctx)"
proof -
  have sup: "validate_supplied_context decls ctx = Inr ()"
    and req: "\<And>k d. (k, d) \<in> set decls \<Longrightarrow> cvc_required d \<Longrightarrow> k \<in> set (bt_keys ctx)"
    using assms by (auto simp: validate_runtime_context_def res_simps bt_contains_def bt_keys_def)
  have len: "length ctx \<le> 64"
    using sup by (auto simp: validate_supplied_context_def res_simps MAX_CONTEXT_ENTRIES_def)
  have each: "slug k \<and> slug v \<and> bt_get decls k \<noteq> None" if "(k, v) \<in> set ctx" for k v
  proof (cases "bt_get decls k")
    case None
    with sup that show ?thesis by (auto simp: validate_supplied_context_def)
  next
    case (Some d)
    with sup that show ?thesis
      by (cases "cvc_format d")
        (auto simp: validate_supplied_context_def res_simps validate_context_slug_iff)
  qed
  have "set (bt_keys ctx) \<subseteq> set (bt_keys decls)"
    using each by (fastforce simp: bt_keys_def bt_get_def map_of_eq_None_iff)
  with len each req show ?thesis by (auto simp: list_all_iff)
qed

theorem validated_runtime_context_witness:
  "length [(''env'', ''dev'')] \<le> 64 \<and> set (bt_keys [(''env'', ''dev'')]) \<subseteq> set (bt_keys
      [(''env'', \<lparr>cvc_required = True, cvc_format = Slug, cvc_description = None\<rparr>)])
    \<and> list_all (\<lambda>(k, v). slug k \<and> slug v) [(''env'', ''dev'')]
    \<and> {k. \<exists>d. (k, d) \<in> set [(''env'', \<lparr>cvc_required = True, cvc_format = Slug,
        cvc_description = None\<rparr>)] \<and> cvc_required d} \<subseteq> set (bt_keys [(''env'', ''dev'')])"
  by (rule validated_runtime_context)
    (simp add: validate_runtime_context_def validate_supplied_context_def res_simps
      validate_context_slug_iff slug_def is_ascii_lowercase_def bt_get_def bt_contains_def
      MAX_CONTEXT_ENTRIES_def)

text \<open>No context source overrides another: the parsed context is an ordered map of at most 64
  entries that contains every entry of every file and every \<open>key=value\<close> pair as given.\<close>

theorem context_sources_never_override:
  assumes "parse_context_sources files pairs = Inr ctx"
  shows "bt_ok ctx \<and> length ctx \<le> 64
    \<and> list_all (\<lambda>f. case f of Inl e \<Rightarrow> False | Inr m \<Rightarrow> list_all (\<lambda>(k, v). bt_get ctx k = Some v) m) files
    \<and> list_all (\<lambda>p. \<exists>k v. p = k @ CHR ''='' # v \<and> k \<noteq> [] \<and> v \<noteq> [] \<and> bt_get ctx k = Some v) pairs"
proof -
  from assms obtain st1 st2 where st: "insert_context_files files ([], {}) = Inr st1"
    "insert_context_pairs pairs st1 = Inr st2" "fst st2 = ctx" "length ctx \<le> 64"
    by (auto simp: parse_context_sources_def res_simps MAX_CONTEXT_ENTRIES_def
        split: prod.splits if_splits)
  have "sources_ok ([], {})" by (simp add: sources_ok_def bt_keys_def)
  note one = insert_context_files_inv [OF st(1) this]
  then have two: "sources_ok st2" "extends st1 st2"
    "list_all (\<lambda>p. \<exists>k v. p = k @ CHR ''='' # v \<and> k \<noteq> [] \<and> v \<noteq> [] \<and> bt_get (fst st2) k = Some v) pairs"
    using insert_context_pairs_inv [OF st(2)] by auto
  have "list_all (\<lambda>f. case f of Inl e \<Rightarrow> False
      | Inr m \<Rightarrow> list_all (\<lambda>(k, v). bt_get (fst st2) k = Some v) m) files"
    using one two(2) by (fastforce simp: list_all_iff split: sum.splits intro: extends_get)
  with two st(4) show ?thesis unfolding st(3) sources_ok_def by simp
qed

theorem context_sources_never_override_witness:
  "bt_ok [(''a'', ''1''), (''b'', ''2'')] \<and> length [(''a'', ''1''), (''b'', ''2'')] \<le> 64
    \<and> list_all (\<lambda>f. case f of Inl e \<Rightarrow> False
        | Inr m \<Rightarrow> list_all (\<lambda>(k, v). bt_get [(''a'', ''1''), (''b'', ''2'')] k = Some v) m)
        [Inr [(''b'', ''2'')] :: runtime_context res]
    \<and> list_all (\<lambda>p. \<exists>k v. p = k @ CHR ''='' # v \<and> k \<noteq> [] \<and> v \<noteq> []
        \<and> bt_get [(''a'', ''1''), (''b'', ''2'')] k = Some v) [''a=1'']"
  by (rule context_sources_never_override)
    (simp add: parse_context_sources_def insert_unique_context_value_def MAX_CONTEXT_ENTRIES_def)

end
