(* ===== verification/Durations.thy ===== *)
theory Durations
  imports Prelude
begin

text \<open>
  Decimal numbers as the standard library prints and parses them, \<open>std::time::Duration\<close> as a
  number of nanoseconds up to \<open>Duration::MAX\<close>, and \<open>parse_duration\<close> of
  \<open>src/config/validation.rs\<close>.
\<close>

section \<open>Decimal numbers\<close>

definition digit_char :: "nat \<Rightarrow> char" where
  "digit_char d = char_of (48 + d)"

definition digit_value :: "char \<Rightarrow> nat" where
  "digit_value c = of_char c - 48"

fun show_nat :: "nat \<Rightarrow> string" where
  "show_nat n = (if n < 10 then [digit_char n] else show_nat (n div 10) @ [digit_char (n mod 10)])"

declare show_nat.simps [simp del]

definition digits_value :: "string \<Rightarrow> nat" where
  "digits_value s = foldl (\<lambda>acc c. acc * 10 + digit_value c) 0 s"

text \<open>\<open>str::parse\<close> for an unsigned type with values below \<open>limit\<close>: an optional plus sign.\<close>

definition parse_uint :: "nat \<Rightarrow> string \<Rightarrow> nat option" where
  "parse_uint limit s =
     (let ds = (case s of CHR ''+'' # r \<Rightarrow> r | _ \<Rightarrow> s) in
      if ds \<noteq> [] \<and> list_all is_ascii_digit ds \<and> digits_value ds < limit
      then Some (digits_value ds) else None)"

definition u64_limit :: nat where "u64_limit = 2 ^ 64"
definition u32_limit :: nat where "u32_limit = 2 ^ 32"

definition checked_mul_u64 :: "nat \<Rightarrow> nat \<Rightarrow> nat option" where
  "checked_mul_u64 a b = (if a * b < u64_limit then Some (a * b) else None)"

section \<open>Durations\<close>

type_synonym duration = nat

definition from_millis :: "nat \<Rightarrow> duration" where "from_millis v = v * 1000000"
definition from_secs :: "nat \<Rightarrow> duration" where "from_secs v = v * 1000000000"

definition duration_max :: duration where
  "duration_max = from_secs (u64_limit - 1) + 999999999"

definition saturating_mul :: "duration \<Rightarrow> nat \<Rightarrow> duration" where
  "saturating_mul d k = min (d * k) duration_max"

definition saturating_add :: "duration \<Rightarrow> duration \<Rightarrow> duration" where
  "saturating_add d e = min (d + e) duration_max"

definition parse_duration :: "string \<Rightarrow> duration res" where
  "parse_duration input0 =
     (let input = trim input0 in
      if input = [] then Inl (Bail ''duration is empty'' [])
      else let number = takeWhile is_ascii_digit (trim input);
               unit = dropWhile is_ascii_digit (trim input) in
      if number = [] then Inl (Bail ''duration {} is missing a number'' [input])
      else if unit = [] then Inl (Bail ''duration {} is missing an explicit unit'' [input])
      else case parse_uint u64_limit number of
        None \<Rightarrow> Inl (Bail ''number too large to fit in target type'' [])
      | Some value \<Rightarrow>
          if unit = ''ms'' then Inr (from_millis value)
          else if unit = ''s'' then Inr (from_secs value)
          else if unit = ''m'' then
            map_ok from_secs
              (ok_or (Bail ''duration {} is too large'' [input]) (checked_mul_u64 value 60))
          else if unit = ''h'' then
            map_ok from_secs
              (ok_or (Bail ''duration {} is too large'' [input])
                (Option.bind (checked_mul_u64 value 60) (\<lambda>v. checked_mul_u64 v 60)))
          else Inl (Bail ''unsupported duration unit {} in {}'' [unit, input]))"

section \<open>Lemmas\<close>

lemma of_digit_char: "d < 10 \<Longrightarrow> (of_char (digit_char d) :: nat) = 48 + d"
  by (simp add: digit_char_def)

lemma digit_char_is_digit: "d < 10 \<Longrightarrow> is_ascii_digit (digit_char d)"
  by (simp add: is_ascii_digit_def less_eq_char_def of_digit_char)

lemma digit_value_char: "d < 10 \<Longrightarrow> digit_value (digit_char d) = d"
  by (simp add: digit_value_def of_digit_char)

lemma show_nat_digits: "list_all is_ascii_digit (show_nat n)"
proof (induction n rule: show_nat.induct)
  case (1 n)
  then show ?case by (subst show_nat.simps) (simp add: digit_char_is_digit)
qed

lemma show_nat_not_Nil: "show_nat n \<noteq> []"
  by (subst show_nat.simps) simp

lemma digits_value_snoc: "digits_value (s @ [c]) = digits_value s * 10 + digit_value c"
  by (simp add: digits_value_def)

lemma digits_value_show: "digits_value (show_nat n) = n"
proof (induction n rule: show_nat.induct)
  case (1 n)
  show ?case
  proof (cases "n < 10")
    case True
    then show ?thesis
      by (subst show_nat.simps) (simp add: digits_value_def digit_value_char)
  next
    case False
    with 1 show ?thesis
      by (subst show_nat.simps) (simp add: digits_value_snoc digit_value_char)
  qed
qed

lemma show_nat_inj: "show_nat m = show_nat n \<longleftrightarrow> m = n"
  by (metis digits_value_show)

lemma digit_not_plus: "\<not> is_ascii_digit CHR ''+''"
  by (simp add: is_ascii_digit_def)

lemma strip_plus_digits:
  "list_all is_ascii_digit s \<Longrightarrow> (case s of CHR ''+'' # r \<Rightarrow> r | _ \<Rightarrow> s) = s"
  by (cases s) (auto simp: digit_not_plus split: char.splits bool.splits)

lemma parse_uint_digits:
  "list_all is_ascii_digit s \<Longrightarrow> s \<noteq> [] \<Longrightarrow>
    parse_uint limit s = (if digits_value s < limit then Some (digits_value s) else None)"
  by (simp add: parse_uint_def strip_plus_digits Let_def)

lemma parse_uint_show: "n < limit \<Longrightarrow> parse_uint limit (show_nat n) = Some n"
  by (simp add: parse_uint_digits show_nat_digits show_nat_not_Nil digits_value_show)

lemma parse_uint_bound: "parse_uint limit s = Some n \<Longrightarrow> n < limit"
  by (auto simp: parse_uint_def Let_def split: if_splits)

lemma takeWhile_append_stop:
  assumes "list_all P ds" and "u = [] \<or> \<not> P (hd u)"
  shows "takeWhile P (ds @ u) = ds" and "dropWhile P (ds @ u) = u"
proof -
  have "takeWhile P u = []" "dropWhile P u = u"
    using assms(2) by (cases u; simp)+
  with assms(1) show "takeWhile P (ds @ u) = ds" "dropWhile P (ds @ u) = u"
    by (simp_all add: list_all_iff takeWhile_append dropWhile_append)
qed

lemma digit_not_whitespace: "is_ascii_digit c \<Longrightarrow> \<not> is_whitespace c"
  by (auto simp: char_class_defs less_eq_char_def)

lemma trim_digits_unit:
  assumes "list_all is_ascii_digit ds" and "\<And>c. c \<in> set u \<Longrightarrow> \<not> is_whitespace c"
  shows "trim (ds @ u) = ds @ u"
  using assms by (intro trim_no_whitespace) (auto simp: list_all_iff digit_not_whitespace)

text \<open>The grammar of durations: digits and one of four units, small enough in its base unit.\<close>

definition unit_factor :: "string \<Rightarrow> nat option" where
  "unit_factor u =
     (if u = ''ms'' then Some 1 else if u = ''s'' then Some 1
      else if u = ''m'' then Some 60 else if u = ''h'' then Some 3600 else None)"

definition unit_nanos :: "string \<Rightarrow> nat" where
  "unit_nanos u = (if u = ''ms'' then 1000000 else 1000000000)"

lemma unit_factor_chars:
  "unit_factor u = Some f \<Longrightarrow> u \<noteq> [] \<and> \<not> is_ascii_digit (hd u) \<and> (\<forall>c \<in> set u. \<not> is_whitespace c)"
  by (auto simp: unit_factor_def char_class_defs split: if_splits)

definition scaled :: "nat \<Rightarrow> string \<Rightarrow> duration option" where
  "scaled v u =
     (case unit_factor u of
        None \<Rightarrow> None
      | Some f \<Rightarrow> if v < u64_limit \<and> v * f < u64_limit then Some (v * f * unit_nanos u) else None)"

lemma checked_mul_u64_Some: "checked_mul_u64 a b = Some c \<longleftrightarrow> a * b < u64_limit \<and> c = a * b"
  by (auto simp: checked_mul_u64_def)

lemma parse_duration_split:
  assumes "ds \<noteq> []" and "list_all is_ascii_digit ds" and "u \<noteq> []" and "\<not> is_ascii_digit (hd u)"
    and "trim s = ds @ u"
  shows "parse_duration s = Inr d \<longleftrightarrow> scaled (digits_value ds) u = Some d"
proof -
  note tw = takeWhile_append_stop [OF assms(2), of u, OF disjI2, OF assms(4)]
  have tt: "trim (ds @ u) = ds @ u"
    using assms(5) by (metis trim_idem)
  let ?v = "digits_value ds"
  have lt: "?v * 60 < u64_limit \<and> ?v * 60 * 60 < u64_limit \<longleftrightarrow> ?v * 3600 < u64_limit"
    by auto
  have pu: "parse_uint u64_limit ds = (if ?v < u64_limit then Some ?v else None)"
    by (rule parse_uint_digits [OF assms(2,1)])
  have pd: "parse_duration s =
     (if \<not> ?v < u64_limit then Inl (Bail ''number too large to fit in target type'' [])
      else if u = ''ms'' then Inr (from_millis ?v)
      else if u = ''s'' then Inr (from_secs ?v)
      else if u = ''m'' then map_ok from_secs
        (ok_or (Bail ''duration {} is too large'' [ds @ u]) (checked_mul_u64 ?v 60))
      else if u = ''h'' then map_ok from_secs
        (ok_or (Bail ''duration {} is too large'' [ds @ u])
          (Option.bind (checked_mul_u64 ?v 60) (\<lambda>v. checked_mul_u64 v 60)))
      else Inl (Bail ''unsupported duration unit {} in {}'' [u, ds @ u]))"
    using assms(1,3) by (simp add: parse_duration_def assms(5) tt tw pu Let_def)
  consider "u = ''ms''" | "u = ''s''" | "u = ''m''" | "u = ''h''"
    | "u \<noteq> ''ms''" "u \<noteq> ''s''" "u \<noteq> ''m''" "u \<noteq> ''h''" by blast
  then show ?thesis
  proof cases
    case 4
    then show ?thesis
      using lt by (auto simp: pd scaled_def unit_factor_def unit_nanos_def from_secs_def res_simps
          checked_mul_u64_Some Option.bind_eq_Some_conv split: if_splits)
  qed (auto simp: pd scaled_def unit_factor_def unit_nanos_def from_millis_def from_secs_def
      res_simps checked_mul_u64_Some split: if_splits)
qed

lemma parse_duration_shape:
  assumes "parse_duration s = Inr d"
  obtains ds u where "trim s = ds @ u" "ds \<noteq> []" "list_all is_ascii_digit ds" "u \<noteq> []"
    "\<not> is_ascii_digit (hd u)"
proof
  let ?ds = "takeWhile is_ascii_digit (trim s)" and ?u = "dropWhile is_ascii_digit (trim s)"
  show "trim s = ?ds @ ?u" by simp
  show "?ds \<noteq> []" "?u \<noteq> []"
    using assms by (auto simp: parse_duration_def Let_def split: if_splits)
  then show "\<not> is_ascii_digit (hd ?u)" using hd_dropWhile by blast
  show "list_all is_ascii_digit ?ds" by (auto simp: list_all_iff dest: set_takeWhileD)
qed

lemma parse_duration_iff:
  "parse_duration s = Inr d \<longleftrightarrow>
    (\<exists>ds u. trim s = ds @ u \<and> ds \<noteq> [] \<and> list_all is_ascii_digit ds
       \<and> scaled (digits_value ds) u = Some d)"
proof
  assume a: "parse_duration s = Inr d"
  then show "\<exists>ds u. trim s = ds @ u \<and> ds \<noteq> [] \<and> list_all is_ascii_digit ds
       \<and> scaled (digits_value ds) u = Some d"
    by (rule parse_duration_shape) (use a parse_duration_split in blast)
next
  assume "\<exists>ds u. trim s = ds @ u \<and> ds \<noteq> [] \<and> list_all is_ascii_digit ds
       \<and> scaled (digits_value ds) u = Some d"
  then obtain ds u where du: "trim s = ds @ u" "ds \<noteq> []" "list_all is_ascii_digit ds"
    "scaled (digits_value ds) u = Some d" by blast
  then have "u \<noteq> []" "\<not> is_ascii_digit (hd u)"
    using unit_factor_chars [of u] by (auto simp: scaled_def split: option.splits)
  with du parse_duration_split show "parse_duration s = Inr d" by blast
qed

lemma scaled_bounded: "scaled v u = Some d \<Longrightarrow> d \<le> duration_max"
  by (auto simp: scaled_def unit_nanos_def duration_max_def from_secs_def u64_limit_def
      split: option.splits if_splits)

lemma parse_duration_le_max: "parse_duration s = Inr d \<Longrightarrow> d \<le> duration_max"
  by (auto simp: parse_duration_iff dest: scaled_bounded)

lemma parse_duration_show:
  assumes "unit_factor u = Some f" and "v < u64_limit" and "v * f < u64_limit"
  shows "parse_duration (show_nat v @ u) = Inr (v * f * unit_nanos u)"
  unfolding parse_duration_iff
  using assms unit_factor_chars [OF assms(1)]
  by (intro exI [of _ "show_nat v"] exI [of _ u])
    (simp add: trim_digits_unit show_nat_digits show_nat_not_Nil digits_value_show scaled_def)

section \<open>Properties\<close>

text \<open>\<open>parse_duration\<close> accepts exactly digits followed by \<open>ms\<close>, \<open>s\<close>, \<open>m\<close> or \<open>h\<close> (after
  trimming) whose value fits 64 bits in the base unit, and returns that value in nanoseconds.\<close>

theorem parse_duration_grammar:
  "parse_duration s = Inr d \<longleftrightarrow>
    (\<exists>ds u. trim s = ds @ u \<and> ds \<noteq> [] \<and> list_all is_ascii_digit ds
       \<and> scaled (digits_value ds) u = Some d)"
  by (rule parse_duration_iff)

text \<open>Printing a number with a unit and parsing it gives the number back, and a parsed
  duration never exceeds \<open>Duration::MAX\<close>.\<close>

theorem parse_duration_roundtrip:
  assumes "unit_factor u = Some f" and "v < u64_limit" and "v * f < u64_limit"
  shows "parse_duration (show_nat v @ u) = Inr (v * f * unit_nanos u)
    \<and> v * f * unit_nanos u \<le> duration_max"
  using parse_duration_show [OF assms] parse_duration_le_max by blast

theorem parse_duration_roundtrip_witness:
  "parse_duration (show_nat 90 @ ''m'') = Inr (90 * 60 * unit_nanos ''m'')
    \<and> 90 * 60 * unit_nanos ''m'' \<le> duration_max"
  by (rule parse_duration_roundtrip) (simp_all add: unit_factor_def u64_limit_def)

end
