(* ===== verification/Std_Paths.thy ===== *)
theory Std_Paths
  imports Prelude
begin

text \<open>
  The part of \<open>std::path\<close> (Unix) the sources use: the components of a path, its last component
  and whether it is absolute. Repeated separators and inner \<open>.\<close> components vanish; a leading
  \<open>.\<close> is a component of its own.
\<close>

datatype component = RootDir | CurDir | ParentDir | Normal string

definition path_is_absolute :: "string \<Rightarrow> bool" where
  "path_is_absolute p \<longleftrightarrow> starts_with ''/'' p"

fun inner_components :: "string list \<Rightarrow> component list" where
  "inner_components [] = []"
| "inner_components (w # ws) =
     (if w = [] \<or> w = ''.'' then inner_components ws
      else if w = ''..'' then ParentDir # inner_components ws
      else Normal w # inner_components ws)"

definition path_components :: "string \<Rightarrow> component list" where
  "path_components p =
     (let ws = split_char CHR ''/'' p in
      if path_is_absolute p then RootDir # inner_components ws
      else case ws of
        w # ws' \<Rightarrow> if w = ''.'' then CurDir # inner_components ws' else inner_components ws
      | [] \<Rightarrow> [])"

definition path_eq :: "string \<Rightarrow> string \<Rightarrow> bool" where
  "path_eq p q \<longleftrightarrow> path_components p = path_components q"

definition path_file_name :: "string \<Rightarrow> string option" where
  "path_file_name p =
     (case rev (path_components p) of Normal n # _ \<Rightarrow> Some n | _ \<Rightarrow> None)"

text \<open>\<open>Path::file_name\<close> as text, or the whole path (\<open>path_basename\<close> in \<open>src/ssh_filter.rs\<close>).\<close>

definition path_basename :: "string \<Rightarrow> string" where
  "path_basename p = (case path_file_name p of None \<Rightarrow> p | Some n \<Rightarrow> n)"

lemma inner_components_Normal: "Normal w \<in> set (inner_components ws) \<Longrightarrow>
  w \<in> set ws \<and> w \<noteq> [] \<and> w \<noteq> ''.'' \<and> w \<noteq> ''..''"
  by (induction ws) (auto split: if_splits)

lemma path_components_Normal:
  assumes "Normal w \<in> set (path_components p)"
  shows "w \<in> set (split_char CHR ''/'' p) \<and> w \<noteq> [] \<and> w \<noteq> ''.'' \<and> w \<noteq> ''..''"
proof -
  obtain v vs where ws: "split_char CHR ''/'' p = v # vs"
    by (cases "split_char CHR ''/'' p") (auto simp: split_char_def)
  have "Normal w \<in> set (inner_components (v # vs)) \<or> Normal w \<in> set (inner_components vs)"
    using assms by (auto simp: path_components_def Let_def ws split: if_splits)
  then show ?thesis
    using inner_components_Normal [of w "v # vs"] inner_components_Normal [of w vs]
    unfolding ws by (auto simp del: inner_components.simps)
qed

lemma inner_components_iff: "Normal w \<in> set (inner_components ws) \<longleftrightarrow>
    w \<in> set ws \<and> w \<noteq> [] \<and> w \<noteq> ''.'' \<and> w \<noteq> ''..''"
  by (induction ws) auto

lemma path_components_iff: "Normal w \<in> set (path_components p) \<longleftrightarrow>
    w \<in> set (split_char CHR ''/'' p) \<and> w \<noteq> [] \<and> w \<noteq> ''.'' \<and> w \<noteq> ''..''"
proof -
  obtain v vs where ws: "split_char CHR ''/'' p = v # vs"
    by (cases "split_char CHR ''/'' p") (auto simp: split_char_def)
  show ?thesis
    by (auto simp: path_components_def Let_def ws inner_components_iff simp del: inner_components.simps)
qed

lemma path_file_name_Normal: "path_file_name p = Some n \<Longrightarrow> Normal n \<in> set (path_components p)"
proof -
  assume "path_file_name p = Some n"
  then have "\<exists>r. rev (path_components p) = Normal n # r"
    by (cases "rev (path_components p)"; cases "hd (rev (path_components p))")
      (auto simp: path_file_name_def)
  then have "Normal n \<in> set (rev (path_components p))" by auto
  then show ?thesis by simp
qed

lemma path_file_name_simple:
  assumes "path_file_name p = Some n"
  shows "n \<noteq> []" "CHR ''/'' \<notin> set n" "n \<noteq> ''..''" "n \<noteq> ''.''"
proof -
  note mem = path_components_Normal [OF path_file_name_Normal [OF assms]]
  show "n \<noteq> []" "n \<noteq> ''..''" "n \<noteq> ''.''" using mem by auto
  show "CHR ''/'' \<notin> set n"
    using mem split_where_no_sep [of n "\<lambda>x. x = CHR ''/''" p] by (auto simp: split_char_def)
qed

section \<open>Order, text and composition of paths\<close>

fun component_text :: "component \<Rightarrow> string" where
  "component_text RootDir = []"
| "component_text CurDir = ''.''"
| "component_text ParentDir = ''..''"
| "component_text (Normal n) = n"

fun component_rank :: "component \<Rightarrow> nat" where
  "component_rank RootDir = 0"
| "component_rank CurDir = 1"
| "component_rank ParentDir = 2"
| "component_rank (Normal n) = 3"

text \<open>The order of \<open>std::path::Component\<close>: by the kind, then by the name.\<close>

instantiation component :: linorder
begin

definition less_eq_component :: "component \<Rightarrow> component \<Rightarrow> bool" where
  "c \<le> d \<longleftrightarrow> component_rank c < component_rank d
     \<or> (component_rank c = component_rank d \<and> component_text c \<le> component_text d)"

definition less_component :: "component \<Rightarrow> component \<Rightarrow> bool" where
  "(c :: component) < d \<longleftrightarrow> c \<le> d \<and> \<not> d \<le> c"

instance
proof
  fix c d e :: component
  show "c < d \<longleftrightarrow> c \<le> d \<and> \<not> d \<le> c" by (rule less_component_def)
  show "c \<le> c" by (simp add: less_eq_component_def)
  show "c \<le> d \<Longrightarrow> d \<le> e \<Longrightarrow> c \<le> e" by (auto simp: less_eq_component_def)
  show "c \<le> d \<Longrightarrow> d \<le> c \<Longrightarrow> c = d" by (cases c; cases d) (auto simp: less_eq_component_def)
  show "c \<le> d \<or> d \<le> c" by (auto simp: less_eq_component_def)
qed

end

fun components_text :: "component list \<Rightarrow> string" where
  "components_text (RootDir # cs) = CHR ''/'' # join ''/'' (map component_text cs)"
| "components_text cs = join ''/'' (map component_text cs)"

text \<open>\<open>Path::parent\<close> and \<open>Path::join\<close>.\<close>

definition path_parent :: "string \<Rightarrow> string option" where
  "path_parent p =
     (let cs = path_components p in
      if cs = [] \<or> last cs = RootDir then None else Some (components_text (butlast cs)))"

definition path_join :: "string \<Rightarrow> string \<Rightarrow> string" where
  "path_join base p =
     (if path_is_absolute p then p
      else if base = [] \<or> ends_with ''/'' base then base @ p
      else base @ ''/'' @ p)"

end
