(* ===== verification/Validation.thy ===== *)
theory Validation
  imports Context_Vars Durations Std_Paths
begin

text \<open>
  \<open>src/config/validation.rs\<close>: the checks shared by the configuration types. Names, image
  references, environment keys, commands, and templates whose keys must come from the allowed
  variables of their place; keyed lists are merged by replacing the entry with the same key.
  \<open>parse_duration\<close> of the same file is in \<open>Durations\<close>.
\<close>

section \<open>The variables a template may use\<close>

definition GATEWAY_TEMPLATE_VARS :: "string list" where
  "GATEWAY_TEMPLATE_VARS =
    [''user'', ''uid'', ''gid'', ''home'', ''container_user'', ''container_home'',
     ''workspace'', ''state'', ''state_dir'', ''target'', ''image'', ''image_slug'',
     ''container_name'', ''container_state_dir'', ''container_state_dir_in_container'',
     ''container_pid'', ''session_id'']"

definition GATEWAY_TEMPLATE_VARS_NO_PID :: "string list" where
  "GATEWAY_TEMPLATE_VARS_NO_PID =
    [''user'', ''uid'', ''gid'', ''home'', ''container_user'', ''container_home'',
     ''workspace'', ''state'', ''state_dir'', ''target'', ''image'', ''image_slug'',
     ''container_name'', ''container_state_dir'', ''container_state_dir_in_container'',
     ''session_id'']"

definition TARGET_WORKSPACE_TEMPLATE_VARS :: "string list" where
  "TARGET_WORKSPACE_TEMPLATE_VARS =
    [''user'', ''uid'', ''gid'', ''home'', ''target'', ''image'', ''image_slug'',
     ''session_id'']"

definition WORKSPACE_CONTAINER_PATH_TEMPLATE_VARS :: "string list" where
  "WORKSPACE_CONTAINER_PATH_TEMPLATE_VARS =
    [''user'', ''uid'', ''gid'', ''container_user'', ''container_home'', ''target'',
     ''image'', ''image_slug'', ''container_name'', ''session_id'']"

definition WORKSPACE_STATE_DIR_TEMPLATE_VARS :: "string list" where
  "WORKSPACE_STATE_DIR_TEMPLATE_VARS =
    [''user'', ''uid'', ''gid'', ''target'', ''image'', ''image_slug'', ''container_name'',
     ''session_id'']"

definition CONTROL_SOCKET_TEMPLATE_VARS :: "string list" where
  "CONTROL_SOCKET_TEMPLATE_VARS =
    [''user'', ''uid'', ''gid'', ''home'', ''target'', ''image'', ''image_slug'',
     ''container_name'', ''session_id'', ''runtime_id'']"

definition AGENT_TEMPLATE_VARS :: "string list" where
  "AGENT_TEMPLATE_VARS =
    [''container_state_dir'']"

definition GATEWAY_LOGGING_TEMPLATE_VARS :: "string list" where
  "GATEWAY_LOGGING_TEMPLATE_VARS =
    [''user'', ''uid'', ''gid'', ''home'', ''workspace'', ''state'', ''state_dir'']"

definition CLIENT_TEMPLATE_VARS :: "string list" where
  "CLIENT_TEMPLATE_VARS =
    [''user'', ''home'', ''container_user'', ''container_home'', ''workspace'',
     ''state_dir'', ''target'', ''image'', ''image_slug'', ''container_name'',
     ''container_state_dir'', ''container_state_dir_in_container'', ''session_id'',
     ''host'']"

definition RUNTIME_TEMPLATE_VARS :: "string list" where
  "RUNTIME_TEMPLATE_VARS =
    [''user'', ''home'']"

definition IDENTITY_TEMPLATE_VARS :: "string list" where
  "IDENTITY_TEMPLATE_VARS =
    [''user'', ''uid'', ''gid'', ''home'']"

definition LAUNCH_TEMPLATE_BUILTINS :: "string list" where
  "LAUNCH_TEMPLATE_BUILTINS =
    [''user'', ''uid'', ''gid'', ''home'', ''container_user'', ''container_home'',
     ''workspace'', ''state'', ''state_dir'', ''target'', ''image'', ''image_slug'',
     ''container_name'', ''container_state_dir'', ''container_state_dir_in_container'',
     ''container_pid'', ''session_id'']"

definition SERVICE_USER_TEMPLATE :: string where
  "SERVICE_USER_TEMPLATE = ''{container_user}''"

section \<open>Scalars, commands and names\<close>

definition validate_passwd_scalar :: "string \<Rightarrow> string \<Rightarrow> unit res" where
  "validate_passwd_scalar field v =
     bail_if (list_ex (\<lambda>ch. ch \<in> {CHR '':'', CHR 0x0A, CHR 0x0D, CHR 0x00}) v)
       (Bail ''{} must not contain colon, newline, carriage return, or NUL'' [field])"

text \<open>\<open>u32::from_str_radix\<close> on four octal digits.\<close>

definition parse_socket_mode :: "string \<Rightarrow> nat res" where
  "parse_socket_mode input =
     (if length input \<noteq> 4 \<or> \<not> list_all (\<lambda>ch. CHR ''0'' \<le> ch \<and> ch \<le> CHR ''7'') input
      then Inl (Bail ''socket mode must be four octal digits, got {}'' [input])
      else Inr (foldl (\<lambda>n ch. n * 8 + digit_value ch) 0 input))"

definition validate_command :: "string \<Rightarrow> string list \<Rightarrow> unit res" where
  "validate_command field command = seq_checks
     [bail_if (command = []) (Bail ''{} command must not be empty'' [field]),
      bail_if (command \<noteq> [] \<and> hd command = []) (Bail ''{} command argv[0] must not be empty'' [field])]"

definition reject_template_use :: "string \<Rightarrow> string list \<Rightarrow> unit res" where
  "reject_template_use field templates =
     bail_if (templates \<noteq> []) (Bail ''{} does not support use'' [field])"

definition validate_name :: "string \<Rightarrow> string \<Rightarrow> unit res" where
  "validate_name field v =
     bail_if (v = [] \<or> starts_with ''.'' v \<or> starts_with ''-'' v
         \<or> \<not> list_all (\<lambda>ch. is_ascii_alphanumeric ch \<or> ch \<in> {CHR ''-'', CHR ''_'', CHR ''.''}) v)
       (Bail ''{} value {} must start with ASCII alnum or _ and contain only ASCII alnum, ., -, _''
         [field, v])"

definition validate_container_name :: "string \<Rightarrow> unit res" where
  "validate_container_name v = validate_name ''container name'' v"

definition validate_env_key :: "string \<Rightarrow> unit res" where
  "validate_env_key v =
     bail_if (v = []
         \<or> \<not> list_all (\<lambda>ch. is_ascii_uppercase ch \<or> is_ascii_digit ch \<or> ch = CHR ''_'') v
         \<or> (v \<noteq> [] \<and> is_ascii_digit (hd v)))
       (Bail ''invalid environment key {}'' [v])"

definition validate_ssh_config_scalar :: "string \<Rightarrow> string \<Rightarrow> unit res" where
  "validate_ssh_config_scalar field v = seq_checks
     [bail_if (v = []) (Bail ''{} must not be empty'' [field]),
      bail_if (CHR 0x0A \<in> set v \<or> CHR 0x0D \<in> set v) (Bail ''{} must not contain newlines'' [field])]"

section \<open>Templates\<close>

record template_policy =
  allow_unbound_var_prefix :: bool
  allow_unbound_context_prefix :: bool

definition STRICT :: template_policy where
  "STRICT = \<lparr>allow_unbound_var_prefix = False, allow_unbound_context_prefix = False\<rparr>"

definition ALLOW_UNBOUND_VAR_PREFIX :: template_policy where
  "ALLOW_UNBOUND_VAR_PREFIX =
     \<lparr>allow_unbound_var_prefix = True, allow_unbound_context_prefix = False\<rparr>"

definition ALLOW_UNBOUND_CONTEXT_PREFIX :: template_policy where
  "ALLOW_UNBOUND_CONTEXT_PREFIX =
     \<lparr>allow_unbound_var_prefix = False, allow_unbound_context_prefix = True\<rparr>"

text \<open>One round of the loop over the referenced keys: a key of a prefix the policy opens is
  checked for its form only.\<close>

definition check_template_key ::
  "string \<Rightarrow> string \<Rightarrow> string list \<Rightarrow> template_policy \<Rightarrow> string \<Rightarrow> unit res" where
  "check_template_key field v allowed policy key =
     (if key \<in> set allowed then Inr ()
      else if allow_unbound_var_prefix policy \<and> starts_with ''var.'' key
      then with_context (''validate '' @ field) (validate_name ''launch var'' (drop 4 key))
      else if allow_unbound_context_prefix policy \<and> starts_with ''context.'' key
      then with_context (''validate '' @ field) (validate_context_slug (drop 8 key))
      else Inl (Context (''validate '' @ field)
        (Bail ''unknown interpolation variable {} in {}'' [key, v])))"

definition validate_template_with_policy ::
  "string \<Rightarrow> string \<Rightarrow> string list \<Rightarrow> template_policy \<Rightarrow> unit res" where
  "validate_template_with_policy field v allowed policy =
     and_then (with_context (''validate '' @ field) (referenced_keys v))
       (each (check_template_key field v allowed policy))"

definition validate_template :: "string \<Rightarrow> string \<Rightarrow> string list \<Rightarrow> unit res" where
  "validate_template field v allowed = validate_template_with_policy field v allowed STRICT"

definition validate_command_templates :: "string \<Rightarrow> string list \<Rightarrow> string list \<Rightarrow> unit res" where
  "validate_command_templates field command allowed =
     each (\<lambda>arg. validate_template field arg allowed) command"

definition validate_template_with_context ::
  "string \<Rightarrow> string \<Rightarrow> string list \<Rightarrow> string list \<Rightarrow> unit res" where
  "validate_template_with_context field v allowed context_keys =
     and_then (with_context (''validate '' @ field) (referenced_keys v))
       (each (\<lambda>key.
          let unknown = Inl (Context (''validate '' @ field)
                (Bail ''unknown interpolation variable {} in {}'' [key, v])) in
          if key \<in> set allowed then Inr ()
          else case strip_prefix ''context.'' key of
            None \<Rightarrow> unknown
          | Some context_name \<Rightarrow>
              and_then (with_context (''validate '' @ field) (validate_context_slug context_name))
                (\<lambda>_. if context_name \<in> set context_keys then Inr () else unknown)))"

definition validate_command_templates_with_policy ::
  "string \<Rightarrow> string list \<Rightarrow> string list \<Rightarrow> template_policy \<Rightarrow> unit res" where
  "validate_command_templates_with_policy field command allowed policy =
     each (\<lambda>arg. validate_template_with_policy field arg allowed policy) command"

definition validate_env_map :: "string \<Rightarrow> (string, string) btree \<Rightarrow> unit res" where
  "validate_env_map field env =
     each (\<lambda>(key, v). seq_checks
       [validate_env_key key,
        validate_template (field @ ''.'' @ key) v GATEWAY_TEMPLATE_VARS_NO_PID]) env"

definition validate_env_keyed_template_map_with_policy ::
  "string \<Rightarrow> (string, string) btree \<Rightarrow> string list \<Rightarrow> template_policy \<Rightarrow> unit res" where
  "validate_env_keyed_template_map_with_policy field env allowed policy =
     each (\<lambda>(key, v). seq_checks
       [validate_env_key key,
        validate_template_with_policy (field @ ''.'' @ key) v allowed policy]) env"

definition collect_var_references :: "string option \<Rightarrow> string set \<Rightarrow> string set res" where
  "collect_var_references input refs =
     (case input of None \<Rightarrow> Inr refs
      | Some s \<Rightarrow> map_ok (\<lambda>keys.
          fold (\<lambda>key rs. case strip_prefix ''var.'' key of
              None \<Rightarrow> rs | Some var_name \<Rightarrow> insert var_name rs) keys refs) (referenced_keys s))"

fun collect_var_references_from_command :: "string list \<Rightarrow> string set \<Rightarrow> string set res" where
  "collect_var_references_from_command [] refs = Inr refs"
| "collect_var_references_from_command (arg # args) refs =
     and_then (collect_var_references (Some arg) refs) (collect_var_references_from_command args)"

fun collect_var_references_from_map :: "(string, string) btree \<Rightarrow> string set \<Rightarrow> string set res" where
  "collect_var_references_from_map [] refs = Inr refs"
| "collect_var_references_from_map ((_, v) # es) refs =
     and_then (collect_var_references (Some v) refs) (collect_var_references_from_map es)"

section \<open>Image references\<close>

text \<open>\<open>str::rfind\<close> of a character.\<close>

definition rfind :: "char \<Rightarrow> string \<Rightarrow> nat option" where
  "rfind c s = map_option (\<lambda>i. length s - 1 - i) (position (\<lambda>x. x = c) (rev s))"

definition is_registry_component :: "string \<Rightarrow> bool" where
  "is_registry_component c \<longleftrightarrow> c = ''localhost'' \<or> CHR ''.'' \<in> set c \<or> CHR '':'' \<in> set c"

definition validate_image_registry :: "string \<Rightarrow> string \<Rightarrow> unit res" where
  "validate_image_registry field v = seq_checks
     [bail_if (starts_with ''-'' v \<or> ends_with ''-'' v
         \<or> list_ex (\<lambda>ch. \<not> (is_ascii_lowercase ch \<or> is_ascii_digit ch
              \<or> ch \<in> {CHR ''.'', CHR ''-'', CHR '':''})) v)
        (Bail ''{} reference has an invalid registry component'' [field]),
      (case rsplit_once CHR '':'' v of
         None \<Rightarrow> Inr ()
       | Some (host, port) \<Rightarrow>
           bail_if (host = [] \<or> port = [] \<or> \<not> list_all is_ascii_digit port)
             (Bail ''{} reference has an invalid registry port'' [field]))]"

definition valid_edge :: "char \<Rightarrow> bool" where
  "valid_edge ch \<longleftrightarrow> is_ascii_lowercase ch \<or> is_ascii_digit ch"

definition validate_image_name_component :: "string \<Rightarrow> string \<Rightarrow> unit res" where
  "validate_image_name_component field v =
     bail_if (\<not> (v \<noteq> [] \<and> valid_edge (hd v)) \<or> \<not> (v \<noteq> [] \<and> valid_edge (last v))
         \<or> list_ex (\<lambda>ch. \<not> (is_ascii_lowercase ch \<or> is_ascii_digit ch
              \<or> ch \<in> {CHR ''.'', CHR ''_'', CHR ''-''})) v)
       (Bail ''{} reference has an invalid repository component'' [field])"

definition validate_image_tag :: "string \<Rightarrow> string \<Rightarrow> unit res" where
  "validate_image_tag field v =
     bail_if (v = [] \<or> length v > 128
         \<or> \<not> (v \<noteq> [] \<and> (is_ascii_alphanumeric (hd v) \<or> hd v = CHR ''_''))
         \<or> list_ex (\<lambda>ch. \<not> (is_ascii_alphanumeric ch \<or> ch \<in> {CHR ''.'', CHR ''_'', CHR ''-''})) v)
       (Bail ''{} reference has an invalid tag'' [field])"

definition validate_image_digest :: "string \<Rightarrow> string \<Rightarrow> unit res" where
  "validate_image_digest field v =
     (case split_once CHR '':'' v of
        None \<Rightarrow> Inl (Bail ''{} reference has an invalid digest suffix'' [field])
      | Some (algorithm, digest) \<Rightarrow>
          bail_if (algorithm = [] \<or> digest = []
              \<or> \<not> list_all (\<lambda>ch. is_ascii_alphanumeric ch
                   \<or> ch \<in> {CHR ''+'', CHR ''.'', CHR ''_'', CHR ''-''}) algorithm
              \<or> \<not> list_all is_ascii_hexdigit digest)
            (Bail ''{} reference has an invalid digest suffix'' [field]))"

text \<open>The name is what precedes the last colon, unless a slash follows that colon.\<close>

definition split_image_tag :: "string \<Rightarrow> string \<times> string option" where
  "split_image_tag name_and_tag =
     (case rfind CHR '':'' name_and_tag of
        None \<Rightarrow> (name_and_tag, None)
      | Some colon \<Rightarrow>
          if (case rfind CHR ''/'' name_and_tag of None \<Rightarrow> True | Some slash \<Rightarrow> colon > slash)
          then (take colon name_and_tag, Some (drop (Suc colon) name_and_tag))
          else (name_and_tag, None))"

definition validate_image_components :: "string \<Rightarrow> string list \<Rightarrow> unit res" where
  "validate_image_components field components = seq_checks
     [bail_if (list_ex (\<lambda>c. c = []) components)
        (Bail ''{} reference must not contain empty path components'' [field]),
      (if length components > 1 \<and> is_registry_component (components ! 0)
       then seq_checks
         [validate_image_registry field (components ! 0),
          each (validate_image_name_component field) (tl components)]
       else each (validate_image_name_component field) components)]"

definition validate_image_name_and_tag :: "string \<Rightarrow> string \<Rightarrow> unit res" where
  "validate_image_name_and_tag field name_and_tag =
     (case split_image_tag name_and_tag of (name, tag) \<Rightarrow>
        seq_checks
          [bail_if (name = []) (Bail ''{} reference must include an image name'' [field]),
           given (validate_image_tag field) tag,
           validate_image_components field (split_char CHR ''/'' name)])"

definition validate_image_reference :: "string \<Rightarrow> string \<Rightarrow> unit res" where
  "validate_image_reference field v = seq_checks
     [bail_if (v = []) (Bail ''{} reference must not be empty'' [field]),
      bail_if (v \<noteq> trim v \<or> list_ex (\<lambda>ch. is_ascii_whitespace ch \<or> is_ascii_control ch) v)
        (Bail ''{} reference must not contain whitespace or control characters'' [field]),
      bail_if (starts_with ''-'' v) (Bail ''{} reference must not start with -'' [field]),
      bail_if (contains_str ''://'' v) (Bail ''{} reference must not contain a URI scheme'' [field]),
      bail_if (count_list v CHR ''@'' > 1)
        (Bail ''{} reference must not contain multiple digest separators'' [field]),
      (case split_once CHR ''@'' v of
         Some (name, digest) \<Rightarrow> seq_checks
           [bail_if (name = [] \<or> digest = [])
              (Bail ''{} reference has an invalid digest suffix'' [field]),
            validate_image_digest field digest,
            validate_image_name_and_tag field name]
       | None \<Rightarrow> validate_image_name_and_tag field v)]"

section \<open>Keyed merges\<close>

text \<open>
  \<open>merge_services\<close> and \<open>merge_launch_steps\<close> have the same body, over the name of a service and
  of a launch step: the loop keeps \<open>keys\<close> beside the result.
\<close>

fun merge_named_loop ::
  "('a \<Rightarrow> string) \<Rightarrow> string list \<Rightarrow> 'a list \<Rightarrow> 'a list \<Rightarrow> 'a list" where
  "merge_named_loop key keys inherited [] = inherited"
| "merge_named_loop key keys inherited (s # later) =
     (case position (\<lambda>k. k = key s) keys of
        Some index \<Rightarrow> merge_named_loop key keys (inherited[index := s]) later
      | None \<Rightarrow> merge_named_loop key (keys @ [key s]) (inherited @ [s]) later)"

definition merge_named ::
  "string \<Rightarrow> ('a \<Rightarrow> string) \<Rightarrow> 'a list \<Rightarrow> 'a list \<Rightarrow> 'a list res" where
  "merge_named list_name key inherited later =
     (let keys = map key inherited in
      if length (remdups keys) \<noteq> length keys
      then Inl (Bail ''{} contains duplicate inherited keys'' [list_name])
      else Inr (merge_named_loop key keys inherited later))"

section \<open>Lemmas on names and templates\<close>

definition name_ok :: "string \<Rightarrow> bool" where
  "name_ok v \<longleftrightarrow> v \<noteq> [] \<and> hd v \<notin> {CHR ''.'', CHR ''-''}
     \<and> (\<forall>ch \<in> set v. is_ascii_alphanumeric ch \<or> ch \<in> {CHR ''-'', CHR ''_'', CHR ''.''})"

lemma validate_name_iff [res_simps]: "validate_name field v = Inr u \<longleftrightarrow> name_ok v"
  by (cases v) (auto simp: validate_name_def bail_if_Inr name_ok_def list_all_iff)

lemma name_char_not_slash: "name_ok v \<Longrightarrow> CHR ''/'' \<notin> set v"
  by (auto simp: name_ok_def char_class_defs)

lemma name_component: "name_ok v \<Longrightarrow> path_components v = [Normal v]"
proof -
  assume ok: "name_ok v"
  then have w: "split_char CHR ''/'' v = [v]"
    unfolding split_char_def by (intro split_where_id) (auto dest: name_char_not_slash)
  obtain c cs where v: "v = c # cs" "c \<noteq> CHR ''.''" "c \<noteq> CHR ''/''"
    using ok name_char_not_slash [OF ok] by (cases v) (auto simp: name_ok_def)
  show ?thesis unfolding path_components_def w using v by (auto simp: path_is_absolute_def name_ok_def)
qed

lemma validate_template_strict:
  "validate_template field v allowed = Inr () \<longleftrightarrow> validate_keys v allowed = Inr ()"
  by (auto simp: validate_template_def validate_template_with_policy_def validate_keys_iff
      check_template_key_def STRICT_def res_simps split: if_splits)

lemma validate_template_with_context_keys:
  assumes "validate_template_with_context field v allowed cks = Inr ()"
  shows "\<exists>ks. referenced_keys v = Inr ks
      \<and> set ks \<subseteq> set allowed \<union> (\<lambda>k. ''context.'' @ k) ` set cks"
proof -
  obtain ks where ks: "referenced_keys v = Inr ks"
    and body: "\<And>key. key \<in> set ks \<Longrightarrow> key \<notin> set allowed \<Longrightarrow>
      (\<exists>n. strip_prefix ''context.'' key = Some n \<and> n \<in> set cks)"
    using assms
    by (fastforce simp: validate_template_with_context_def Let_def res_simps
        split: if_splits option.splits)
  have "key \<in> set ks \<Longrightarrow> key \<in> set allowed \<union> (\<lambda>k. ''context.'' @ k) ` set cks" for key
    using body [of key] unfolding strip_prefix_Some by blast
  with ks show ?thesis by blast
qed

lemma collect_var_references_Inr:
  "collect_var_references (Some s) refs = Inr out \<longleftrightarrow>
    (\<exists>ks. referenced_keys s = Inr ks \<and> out = refs \<union> {n. ''var.'' @ n \<in> set ks})"
proof -
  have "fold (\<lambda>key rs. case strip_prefix ''var.'' key of
              None \<Rightarrow> rs | Some var_name \<Rightarrow> insert var_name rs) ks r
          = r \<union> {n. ''var.'' @ n \<in> set ks}" for ks r
  proof (induction ks arbitrary: r)
    case Nil
    then show ?case by simp
  next
    case (Cons k ks)
    show ?case
    proof (cases "strip_prefix ''var.'' k")
      case None
      then have "\<And>n. k \<noteq> ''var.'' @ n" by (simp add: strip_prefix_None)
      with None show ?thesis by (auto simp: Cons.IH)
    next
      case (Some n)
      then have "k = ''var.'' @ n" by (simp only: strip_prefix_Some)
      with Some show ?thesis by (auto simp: Cons.IH)
    qed
  qed
  then show ?thesis by (auto simp: collect_var_references_def res_simps)
qed

section \<open>Lemmas on image references\<close>

definition name_component_form :: "string \<Rightarrow> bool" where
  "name_component_form v \<longleftrightarrow> v \<noteq> [] \<and> valid_edge (hd v) \<and> valid_edge (last v)
     \<and> (\<forall>ch \<in> set v. is_ascii_lowercase ch \<or> is_ascii_digit ch \<or> ch \<in> set ''._-'')"

definition registry_form :: "string \<Rightarrow> bool" where
  "registry_form v \<longleftrightarrow> v \<noteq> [] \<and> hd v \<noteq> CHR ''-'' \<and> last v \<noteq> CHR ''-''
     \<and> (\<forall>ch \<in> set v. is_ascii_lowercase ch \<or> is_ascii_digit ch \<or> ch \<in> set ''.-:'')
     \<and> (\<forall>host port. v = host @ CHR '':'' # port \<longrightarrow> CHR '':'' \<notin> set port \<longrightarrow>
          host \<noteq> [] \<and> port \<noteq> [] \<and> (\<forall>ch \<in> set port. is_ascii_digit ch))"

definition tag_form :: "string \<Rightarrow> bool" where
  "tag_form v \<longleftrightarrow> v \<noteq> [] \<and> length v \<le> 128 \<and> hd v \<notin> {CHR ''.'', CHR ''-''}
     \<and> (\<forall>ch \<in> set v. is_ascii_alphanumeric ch \<or> ch \<in> set ''._-'')"

definition digest_form :: "string \<times> string \<Rightarrow> bool" where
  "digest_form ad \<longleftrightarrow> fst ad \<noteq> [] \<and> snd ad \<noteq> []
     \<and> (\<forall>ch \<in> set (fst ad). is_ascii_alphanumeric ch \<or> ch \<in> set ''+._-'')
     \<and> (\<forall>ch \<in> set (snd ad). is_ascii_hexdigit ch)"

definition components_form :: "string list \<Rightarrow> bool" where
  "components_form cs \<longleftrightarrow> cs \<noteq> [] \<and>
     (if length cs > 1 \<and> is_registry_component (hd cs)
      then registry_form (hd cs) \<and> (\<forall>c \<in> set (tl cs). name_component_form c)
      else (\<forall>c \<in> set cs. name_component_form c))"

definition tag_suffix :: "string option \<Rightarrow> string" where
  "tag_suffix tag = (case tag of None \<Rightarrow> [] | Some t \<Rightarrow> CHR '':'' # t)"

definition digest_suffix :: "(string \<times> string) option \<Rightarrow> string" where
  "digest_suffix digest = (case digest of None \<Rightarrow> [] | Some (a, d) \<Rightarrow> CHR ''@'' # a @ CHR '':'' # d)"

lemma rfind_None: "rfind c s = None \<longleftrightarrow> c \<notin> set s"
  by (auto simp: rfind_def position_None)

lemma rfind_app:
  assumes "c \<notin> set b"
  shows "rfind c (a @ c # b) = Some (length a)"
proof -
  have "c \<notin> set w \<Longrightarrow> position (\<lambda>x. x = c) (w @ c # r) = Some (length w)" for w r
    by (induction w) auto
  from this [of "rev b" "rev a"] assms show ?thesis by (simp add: rfind_def)
qed

lemma split_image_tag_cases:
  "(\<exists>a b. s = a @ CHR '':'' # b \<and> CHR '':'' \<notin> set b \<and> CHR ''/'' \<notin> set b
      \<and> split_image_tag s = (a, Some b))
   \<or> (split_image_tag s = (s, None)
      \<and> (\<forall>a b. s = a @ CHR '':'' # b \<longrightarrow> CHR '':'' \<notin> set b \<longrightarrow> CHR ''/'' \<in> set b))"
proof (cases "CHR '':'' \<in> set s")
  case False
  then have "rfind CHR '':'' s = None" by (simp only: rfind_None not_False_eq_True)
  with False show ?thesis by (auto simp: split_image_tag_def)
next
  case True
  then obtain a b where s: "s = a @ CHR '':'' # b" "CHR '':'' \<notin> set b"
    by (meson split_list_last)
  have colon: "rfind CHR '':'' s = Some (length a)" unfolding s(1) by (rule rfind_app) (rule s(2))
  have unique: "b' = b" if s': "s = a' @ CHR '':'' # b'" "CHR '':'' \<notin> set b'" for a' b'
  proof -
    have "length a' = length a"
      using rfind_app [OF s'(2), of a'] colon unfolding s'(1) by simp
    then show ?thesis using s(1) s'(1) by simp
  qed
  show ?thesis
  proof (cases "CHR ''/'' \<in> set b")
    case True
    then obtain b1 b2 where b: "b = b1 @ CHR ''/'' # b2" "CHR ''/'' \<notin> set b2"
      by (meson split_list_last)
    have "rfind CHR ''/'' s = Some (length (a @ CHR '':'' # b1))"
      using rfind_app [OF b(2), of "a @ CHR '':'' # b1"] by (simp add: s(1) b(1))
    with True show ?thesis by (auto simp: split_image_tag_def colon dest: unique)
  next
    case False
    have "split_image_tag s = (a, Some b)"
    proof (cases "CHR ''/'' \<in> set a")
      case True
      then obtain a1 a2 where a: "a = a1 @ CHR ''/'' # a2" "CHR ''/'' \<notin> set a2"
        by (meson split_list_last)
      have "CHR ''/'' \<notin> set (a2 @ CHR '':'' # b)" using a(2) False by simp
      from rfind_app [OF this, of a1] have "rfind CHR ''/'' s = Some (length a1)"
        by (simp add: s(1) a(1))
      then show ?thesis by (simp add: split_image_tag_def colon) (simp add: s(1) a(1))
    next
      case False
      with \<open>CHR ''/'' \<notin> set b\<close> have "rfind CHR ''/'' s = None" by (simp add: rfind_None s(1))
      then show ?thesis by (simp add: split_image_tag_def colon) (simp add: s(1))
    qed
    with False s show ?thesis by blast
  qed
qed

lemma split_char_join_id:
  "ws \<noteq> [] \<Longrightarrow> (\<And>w. w \<in> set ws \<Longrightarrow> c \<notin> set w) \<Longrightarrow> split_char c (join [c] ws) = ws"
proof (induction ws rule: induct_list012)
  case (2 x)
  then show ?case by (auto simp: split_char_def intro!: split_where_id)
next
  case (3 x y ys)
  have "split_where (\<lambda>z. z = c) x = [x]"
    using "3.prems" by (intro split_where_id) auto
  moreover have "split_char c (join [c] (y # ys)) = y # ys"
    using 3 by simp
  ultimately show ?case by (simp add: split_char_def split_where_app)
qed simp

lemma join_set: "set (join sep ws) \<subseteq> set sep \<union> \<Union> (set (map set ws))"
  by (induction ws rule: induct_list012) auto

lemma name_component_iff:
  "validate_image_name_component field v = Inr u \<longleftrightarrow> name_component_form v"
  by (auto simp: validate_image_name_component_def bail_if_Inr name_component_form_def list_ex_iff)

lemma tag_iff: "validate_image_tag field v = Inr u \<longleftrightarrow> tag_form v"
proof -
  have "\<not> is_ascii_alphanumeric CHR ''.''" "\<not> is_ascii_alphanumeric CHR ''-''"
    by (simp_all add: char_class_defs)
  then show ?thesis
    by (cases v) (auto simp: validate_image_tag_def bail_if_Inr tag_form_def list_ex_iff)
qed

lemma registry_iff:
  assumes "v \<noteq> []"
  shows "validate_image_registry field v = Inr () \<longleftrightarrow> registry_form v"
proof -
  have hd: "starts_with ''-'' v \<longleftrightarrow> hd v = CHR ''-''" using assms by (cases v) auto
  have last: "ends_with ''-'' v \<longleftrightarrow> last v = CHR ''-''"
    using assms by (cases v rule: rev_cases) (auto simp: ends_with_iff)
  have port: "(case rsplit_once CHR '':'' v of None \<Rightarrow> Inr () | Some (host, port) \<Rightarrow>
      bail_if (host = [] \<or> port = [] \<or> \<not> list_all is_ascii_digit port) e) = Inr () \<longleftrightarrow>
    (\<forall>host port. v = host @ CHR '':'' # port \<longrightarrow> CHR '':'' \<notin> set port \<longrightarrow>
          host \<noteq> [] \<and> port \<noteq> [] \<and> (\<forall>ch \<in> set port. is_ascii_digit ch))" for e :: error
  proof (cases "rsplit_once CHR '':'' v")
    case None
    then have "CHR '':'' \<notin> set v" by (simp only: rsplit_once_None not_False_eq_True)
    with None show ?thesis by auto
  next
    case (Some hp)
    obtain h p where hp: "hp = (h, p)" by force
    have eq: "v = host @ CHR '':'' # port \<and> CHR '':'' \<notin> set port \<longleftrightarrow> host = h \<and> port = p" for host port
      using Some hp by (metis option.inject prod.inject rsplit_once_Some)
    have "(\<forall>host port. v = host @ CHR '':'' # port \<longrightarrow> CHR '':'' \<notin> set port \<longrightarrow> Q host port) \<longleftrightarrow> Q h p"
      for Q using eq by metis
    then show ?thesis by (simp add: Some hp bail_if_Inr list_all_iff)
  qed
  show ?thesis
    unfolding validate_image_registry_def registry_form_def seq_checks_Cons_Inr port hd last
    using assms by (auto simp: bail_if_Inr list_ex_iff)
qed

lemma components_iff:
  assumes "cs \<noteq> []"
  shows "validate_image_components field cs = Inr () \<longleftrightarrow> components_form cs"
proof -
  obtain c cs' where cs: "cs = c # cs'" using assms by (cases cs) auto
  have comp: "name_component_form v \<Longrightarrow> v \<noteq> []" for v by (simp add: name_component_form_def)
  have reg: "registry_form v \<Longrightarrow> v \<noteq> []" for v by (simp add: registry_form_def)
  show ?thesis
  proof (cases "length cs > 1 \<and> is_registry_component c \<and> c \<noteq> []")
    case True
    then show ?thesis
      by (auto simp: validate_image_components_def components_form_def cs bail_if_Inr list_ex_iff
          name_component_iff registry_iff dest: comp)
  next
    case False
    then have "\<not> (length cs > 1 \<and> is_registry_component c)"
      by (auto simp: is_registry_component_def)
    then show ?thesis
      unfolding validate_image_components_def components_form_def cs
      by (auto simp: bail_if_Inr list_ex_iff name_component_iff dest: comp)
  qed
qed

definition name_and_tag_form :: "string \<Rightarrow> string list \<Rightarrow> string option \<Rightarrow> bool" where
  "name_and_tag_form s cs tag \<longleftrightarrow> s = join ''/'' cs @ tag_suffix tag \<and> components_form cs
     \<and> (case tag of None \<Rightarrow> True | Some t \<Rightarrow> tag_form t)"

definition safe_char :: "char \<Rightarrow> bool" where
  "safe_char x \<longleftrightarrow> \<not> is_ascii_whitespace x \<and> \<not> is_ascii_control x \<and> \<not> is_whitespace x"

lemma alphanumeric_safe: "is_ascii_alphanumeric x \<Longrightarrow> safe_char x"
  by (auto simp: char_class_defs safe_char_def less_eq_char_def less_char_def)

lemma hexdigit_alphanumeric: "is_ascii_hexdigit x \<Longrightarrow> is_ascii_alphanumeric x"
  by (auto simp: char_class_defs less_eq_char_def)

lemma punctuation_safe: "x \<in> set ''._-:/@+'' \<Longrightarrow> safe_char x"
  by (auto simp: char_class_defs safe_char_def)

lemma alphanumeric_not_punctuation: "is_ascii_alphanumeric x \<Longrightarrow> x \<notin> set ''._-:/@+''"
  by (auto simp: char_class_defs)

lemma lower_digit_alphanumeric:
  "is_ascii_lowercase x \<Longrightarrow> is_ascii_alphanumeric x" "is_ascii_digit x \<Longrightarrow> is_ascii_alphanumeric x"
  by (simp_all add: is_ascii_alphanumeric_def)

lemma alphanumeric_or_punctuation:
  assumes "is_ascii_alphanumeric x \<or> x \<in> set p" and "set p \<subseteq> set ''._-:/@+''"
  shows "safe_char x" and "y \<in> set ''._-:/@+'' \<Longrightarrow> y \<notin> set p \<Longrightarrow> x \<noteq> y"
  using assms alphanumeric_safe punctuation_safe alphanumeric_not_punctuation by blast+

lemma name_component_chars:
  assumes "name_component_form c" and "x \<in> set c"
  shows "x \<notin> {CHR ''/'', CHR '':'', CHR ''@''} \<and> safe_char x"
proof -
  have "is_ascii_alphanumeric x \<or> x \<in> set ''._-''"
    using assms lower_digit_alphanumeric [of x] unfolding name_component_form_def by auto
  note known = alphanumeric_or_punctuation [OF this]
  show ?thesis
    using known(1) known(2) [of "CHR ''/''"] known(2) [of "CHR '':''"] known(2) [of "CHR ''@''"] by simp
qed

lemma registry_chars:
  assumes "registry_form c" and "x \<in> set c"
  shows "x \<notin> {CHR ''/'', CHR ''@''} \<and> safe_char x"
proof -
  have "is_ascii_alphanumeric x \<or> x \<in> set ''.-:''"
    using assms lower_digit_alphanumeric [of x] unfolding registry_form_def by auto
  note known = alphanumeric_or_punctuation [OF this]
  show ?thesis
    using known(1) known(2) [of "CHR ''/''"] known(2) [of "CHR ''@''"] by simp
qed

lemma tag_chars:
  assumes "tag_form c" and "x \<in> set c"
  shows "x \<notin> {CHR ''/'', CHR '':'', CHR ''@''} \<and> safe_char x"
proof -
  have "is_ascii_alphanumeric x \<or> x \<in> set ''._-''"
    using assms  unfolding tag_form_def by auto
  note known = alphanumeric_or_punctuation [OF this]
  show ?thesis
    using known(1) known(2) [of "CHR ''/''"] known(2) [of "CHR '':''"] known(2) [of "CHR ''@''"] by simp
qed

lemma digest_chars:
  assumes "digest_form (a, d)" and "x \<in> set a \<union> set d"
  shows "x \<notin> {CHR ''/'', CHR '':'', CHR ''@''} \<and> safe_char x"
proof -
  have "is_ascii_alphanumeric x \<or> x \<in> set ''+._-''"
    using assms hexdigit_alphanumeric [of x] unfolding digest_form_def fst_conv snd_conv by auto
  note known = alphanumeric_or_punctuation [OF this]
  show ?thesis
    using known(1) known(2) [of "CHR ''/''"] known(2) [of "CHR '':''"] known(2) [of "CHR ''@''"] by simp
qed

lemma components_cases:
  assumes "components_form cs" and "c \<in> set cs"
  shows "name_component_form c \<or> registry_form c"
  using assms by (cases cs) (auto simp: components_form_def split: if_splits)

lemma components_chars:
  assumes "components_form cs" and "c \<in> set cs" and "x \<in> set c"
  shows "x \<notin> {CHR ''/'', CHR ''@''} \<and> safe_char x"
  using components_cases [OF assms(1,2)] name_component_chars [OF _ assms(3)]
    registry_chars [OF _ assms(3)] by auto

lemma components_nonempty: "components_form cs \<Longrightarrow> c \<in> set cs \<Longrightarrow> c \<noteq> []"
  using components_cases [of cs c] by (auto simp: name_component_form_def registry_form_def)

lemma components_not_Nil: "components_form cs \<Longrightarrow> cs \<noteq> []"
  by (simp add: components_form_def)

lemma components_split: "components_form cs \<Longrightarrow> split_char CHR ''/'' (join ''/'' cs) = cs"
  by (rule split_char_join_id) (blast dest: components_chars components_not_Nil)+

lemma join_nonempty: "cs \<noteq> [] \<Longrightarrow> (\<And>c. c \<in> set cs \<Longrightarrow> c \<noteq> []) \<Longrightarrow> join sep cs \<noteq> []"
  by (induction cs rule: induct_list012) auto

lemma components_colon:
  assumes "components_form cs" and "join ''/'' cs = a @ CHR '':'' # b" and "CHR '':'' \<notin> set b"
  shows "CHR ''/'' \<in> set b"
proof -
  obtain c cs' where cs: "cs = c # cs'"
    using assms(1) by (cases cs) (auto simp: components_form_def)
  have tail: "CHR '':'' \<notin> set (join ''/'' cs')"
    using join_set [of "''/''" cs'] assms(1)
    by (auto simp: cs components_form_def dest!: name_component_chars split: if_splits)
  have "cs' = [] \<Longrightarrow> name_component_form (a @ CHR '':'' # b)"
    using assms(1,2) by (simp add: cs components_form_def)
  then have single: "cs' \<noteq> []"
    using name_component_chars [of "a @ CHR '':'' # b" "CHR '':''"] by auto
  then have eq: "c @ CHR ''/'' # join ''/'' cs' = a @ CHR '':'' # b"
    using assms(2) cs by (cases cs') auto
  show ?thesis
  proof (rule ccontr)
    assume no: "CHR ''/'' \<notin> set b"
    from eq obtain us where
      "c = a @ us \<and> us @ CHR ''/'' # join ''/'' cs' = CHR '':'' # b
       \<or> c @ us = a \<and> CHR ''/'' # join ''/'' cs' = us @ CHR '':'' # b"
      by (auto simp: append_eq_append_conv2)
    then show False
    proof
      assume "c = a @ us \<and> us @ CHR ''/'' # join ''/'' cs' = CHR '':'' # b"
      then show False using no by (cases us) auto
    next
      assume "c @ us = a \<and> CHR ''/'' # join ''/'' cs' = us @ CHR '':'' # b"
      then show False using tail by (cases us) auto
    qed
  qed
qed

lemma split_image_tag_form:
  assumes "name_and_tag_form s cs tag"
  shows "split_image_tag s = (join ''/'' cs, tag)"
proof (cases tag)
  case None
  with assms components_colon show ?thesis
    using split_image_tag_cases [of s] by (auto simp: name_and_tag_form_def tag_suffix_def)
next
  case (Some t)
  then have t: "s = join ''/'' cs @ CHR '':'' # t" "CHR '':'' \<notin> set t" "CHR ''/'' \<notin> set t"
    using assms by (auto simp: name_and_tag_form_def tag_suffix_def dest: tag_chars)
  from split_image_tag_cases [of s] t
  obtain a b where ab: "s = a @ CHR '':'' # b" "CHR '':'' \<notin> set b" "split_image_tag s = (a, Some b)"
    by blast
  from ab t have "a = join ''/'' cs" "b = t"
    by (metis option.inject prod.inject rsplit_once_Some)+
  with ab(3) Some show ?thesis by simp
qed

lemma name_and_tag_iff:
  "validate_image_name_and_tag field s = Inr () \<longleftrightarrow> (\<exists>cs tag. name_and_tag_form s cs tag)"
proof
  assume ok: "validate_image_name_and_tag field s = Inr ()"
  obtain name tag where nt: "split_image_tag s = (name, tag)" by force
  let ?cs = "split_char CHR ''/'' name"
  have "?cs \<noteq> []" by (simp add: split_char_def)
  from ok have tag: "case tag of None \<Rightarrow> True | Some t \<Rightarrow> tag_form t"
    and cs: "components_form ?cs"
    using components_iff [OF \<open>?cs \<noteq> []\<close>]
    by (auto simp: validate_image_name_and_tag_def nt given_Inr tag_iff split: option.splits)
  moreover have "s = join ''/'' ?cs @ tag_suffix tag"
    using split_image_tag_cases [of s] nt by (auto simp: tag_suffix_def split_char_join)
  ultimately show "\<exists>cs tag. name_and_tag_form s cs tag" unfolding name_and_tag_form_def by blast
next
  assume "\<exists>cs tag. name_and_tag_form s cs tag"
  then obtain cs tag where form: "name_and_tag_form s cs tag" by blast
  then have cs: "components_form cs" "cs \<noteq> []" by (auto simp: name_and_tag_form_def components_form_def)
  have "join ''/'' cs \<noteq> []"
    by (rule join_nonempty [OF cs(2)]) (rule components_nonempty [OF cs(1)])
  moreover have "given (validate_image_tag field) tag = Inr ()"
    using form by (cases tag) (simp_all add: name_and_tag_form_def tag_iff)
  ultimately show "validate_image_name_and_tag field s = Inr ()"
    using cs by (simp add: validate_image_name_and_tag_def split_image_tag_form [OF form]
        bail_if_Inr components_split components_iff)
qed

definition image_form :: "string \<Rightarrow> string list \<Rightarrow> string option \<Rightarrow> (string \<times> string) option \<Rightarrow> bool" where
  "image_form v cs tag digest \<longleftrightarrow> v = join ''/'' cs @ tag_suffix tag @ digest_suffix digest
     \<and> components_form cs
     \<and> (case tag of None \<Rightarrow> True | Some t \<Rightarrow> tag_form t)
     \<and> (case digest of None \<Rightarrow> True | Some ad \<Rightarrow> digest_form ad)"

lemma image_form_name_and_tag:
  "image_form v cs tag digest \<longleftrightarrow> (\<exists>s. v = s @ digest_suffix digest \<and> name_and_tag_form s cs tag
     \<and> (case digest of None \<Rightarrow> True | Some ad \<Rightarrow> digest_form ad))"
  by (auto simp: image_form_def name_and_tag_form_def)

lemma digest_iff:
  "validate_image_digest field v = Inr u \<longleftrightarrow>
    (\<exists>a d. v = a @ CHR '':'' # d \<and> digest_form (a, d))"
proof (cases "split_once CHR '':'' v")
  case None
  then have "CHR '':'' \<notin> set v" by (simp only: split_once_None not_False_eq_True)
  with None show ?thesis by (auto simp: validate_image_digest_def)
next
  case (Some ad)
  obtain a d where ad: "ad = (a, d)" by force
  have v: "v = a @ CHR '':'' # d" "CHR '':'' \<notin> set a"
    using Some unfolding ad split_once_Some by auto
  have "validate_image_digest field v = Inr u \<longleftrightarrow> digest_form (a, d)"
    unfolding validate_image_digest_def Some ad
    by (auto simp: bail_if_Inr digest_form_def list_all_iff)
  moreover have "a' = a \<and> d' = d" if "v = a' @ CHR '':'' # d'" "digest_form (a', d')" for a' d'
    using that Some digest_chars [OF that(2)] split_once_app [of "CHR '':''" a' d']
    by (auto simp: ad)
  ultimately show ?thesis using v by metis
qed

lemma name_and_tag_chars:
  assumes "name_and_tag_form s cs tag" and "x \<in> set s"
  shows "x \<noteq> CHR ''@'' \<and> safe_char x"
proof -
  have "x \<in> set (join ''/'' cs) \<or> (\<exists>t. tag = Some t \<and> tag_form t \<and> (x = CHR '':'' \<or> x \<in> set t))"
    using assms by (cases tag) (auto simp: name_and_tag_form_def tag_suffix_def)
  then consider "x = CHR ''/'' \<or> x = CHR '':''" | c where "c \<in> set cs" "x \<in> set c"
      | t where "tag_form t" "x \<in> set t"
    using join_set [of "''/''" cs] by auto
  then show ?thesis
  proof cases
    case 1
    then show ?thesis using punctuation_safe [of x] by auto
  next
    case 2
    then show ?thesis using components_chars assms(1) by (auto simp: name_and_tag_form_def)
  next
    case 3
    then show ?thesis using tag_chars by auto
  qed
qed

lemma no_scheme:
  assumes "name_and_tag_form s cs tag" and "CHR ''/'' \<notin> set rest"
  shows "\<not> contains_str ''://'' (s @ rest)"
proof
  assume "contains_str ''://'' (s @ rest)"
  then obtain x y where xy: "s @ rest = (x @ '':/'') @ CHR ''/'' # y"
    unfolding contains_str_iff by auto
  define r where "r = tag_suffix tag @ rest"
  let ?n = "join ''/'' cs"
  have cs: "components_form cs" using assms(1) by (simp add: name_and_tag_form_def)
  have r: "CHR ''/'' \<notin> set r"
    using assms by (auto simp: r_def name_and_tag_form_def tag_suffix_def dest: tag_chars split: option.splits)
  have eq: "?n @ r = (x @ '':/'') @ CHR ''/'' # y"
    using assms(1) xy by (simp add: r_def name_and_tag_form_def)
  then obtain us where "?n = (x @ '':/'') @ us \<and> us @ r = CHR ''/'' # y
      \<or> ?n @ us = x @ '':/'' \<and> r = us @ CHR ''/'' # y"
    using iffD1 [OF append_eq_append_conv2 eq] by blast
  with r obtain y' where "?n = (x @ '':'') @ CHR ''/'' # CHR ''/'' # y'"
    by (cases us) auto
  then have "[] \<in> set (split_char CHR ''/'' ?n)"
    by (simp only: split_char_def split_where_app) simp
  then show False using components_nonempty [OF cs] components_split [OF cs] by auto
qed

lemma validate_image_reference_iff:
  "validate_image_reference field v = Inr () \<longleftrightarrow> (\<exists>cs tag digest. image_form v cs tag digest)"
proof
  assume ok: "validate_image_reference field v = Inr ()"
  show "\<exists>cs tag digest. image_form v cs tag digest"
  proof (cases "split_once CHR ''@'' v")
    case None
    with ok have "validate_image_name_and_tag field v = Inr ()"
      by (simp add: validate_image_reference_def)
    then obtain cs tag where "name_and_tag_form v cs tag" unfolding name_and_tag_iff by blast
    then have "image_form v cs tag None"
      by (simp add: image_form_name_and_tag digest_suffix_def)
    then show ?thesis by blast
  next
    case (Some nd)
    obtain s d where nd: "nd = (s, d)" by force
    with ok Some have "validate_image_name_and_tag field s = Inr ()"
      "validate_image_digest field d = Inr ()"
      by (simp_all add: validate_image_reference_def)
    then obtain cs tag a h where "name_and_tag_form s cs tag"
      and d: "d = a @ CHR '':'' # h" "digest_form (a, h)"
      unfolding name_and_tag_iff digest_iff by blast
    moreover have "v = s @ CHR ''@'' # d" using Some unfolding nd split_once_Some by simp
    ultimately have "image_form v cs tag (Some (a, h))"
      by (simp add: image_form_name_and_tag digest_suffix_def)
    then show ?thesis by blast
  qed
next
  assume "\<exists>cs tag digest. image_form v cs tag digest"
  then obtain cs tag digest s where v: "v = s @ digest_suffix digest"
    and form: "name_and_tag_form s cs tag"
    and dg: "case digest of None \<Rightarrow> True | Some ad \<Rightarrow> digest_form ad"
    unfolding image_form_name_and_tag by blast
  have cs: "components_form cs" using form by (simp add: name_and_tag_form_def)
  obtain c cs' where c: "cs = c # cs'" using components_not_Nil [OF cs] by (cases cs) auto
  then have "name_component_form c \<or> registry_form c" using components_cases [OF cs, of c] by simp
  then have "c \<noteq> []" "hd c \<noteq> CHR ''-''"
    by (auto simp: name_component_form_def registry_form_def valid_edge_def char_class_defs)
  note c = c this
  then obtain z zs where z: "s = z # zs" "z \<noteq> CHR ''-''"
    using form by (cases c; cases cs') (auto simp: name_and_tag_form_def)
  then have start: "v \<noteq> []" "\<not> starts_with ''-'' v" by (simp_all add: v)
  have at: "CHR ''@'' \<notin> set s" using name_and_tag_chars [OF form] by blast
  have suffix: "x \<in> set (digest_suffix digest) \<Longrightarrow> safe_char x \<and> x \<noteq> CHR ''/''" for x
    using dg digest_chars punctuation_safe [of x] by (auto simp: digest_suffix_def split: option.splits)
  have safe: "safe_char x" if "x \<in> set v" for x
    using that v name_and_tag_chars [OF form] suffix by auto
  have "CHR ''/'' \<notin> set (digest_suffix digest)" using suffix by blast
  note scheme = no_scheme [OF form this]
  have trimmed: "trim v = v" "\<not> list_ex (\<lambda>ch. is_ascii_whitespace ch \<or> is_ascii_control ch) v"
    using safe by (auto intro!: trim_no_whitespace simp: safe_char_def list_ex_iff)
  have nt: "validate_image_name_and_tag field s = Inr ()" using form name_and_tag_iff by blast
  show "validate_image_reference field v = Inr ()"
  proof (cases digest)
    case None
    then have "v = s" by (simp add: v digest_suffix_def)
    moreover have "split_once CHR ''@'' s = None" using at by (simp add: split_once_None)
    ultimately show ?thesis using trimmed scheme at nt start
      by (simp add: validate_image_reference_def bail_if_Inr v [symmetric])
  next
    case (Some ad)
    obtain a h where ad: "ad = (a, h)" by force
    let ?d = "a @ CHR '':'' # h"
    have d: "digest_form (a, h)" "CHR ''@'' \<notin> set ?d"
      using dg digest_chars [of a h] by (auto simp: Some ad)
    have v': "v = s @ CHR ''@'' # ?d" by (simp add: v digest_suffix_def Some ad)
    have "validate_image_digest field ?d = Inr ()" using d digest_iff by blast
    moreover have "split_once CHR ''@'' v = Some (s, ?d)"
      unfolding v' by (rule split_once_app) (rule at)
    moreover have "count_list v CHR ''@'' = 1"
      using at d(2) by (simp add: v' count_notin)
    ultimately show ?thesis using trimmed scheme nt start z(1) v
      by (simp add: validate_image_reference_def bail_if_Inr)
  qed
qed

section \<open>Lemmas on keyed merges\<close>

definition by_key :: "('a \<Rightarrow> 'k) \<Rightarrow> 'a list \<Rightarrow> 'k \<Rightarrow> 'a option" where
  "by_key key xs = map_of (map (\<lambda>x. (key x, x)) xs)"

lemma by_key_append: "by_key key (xs @ ys) = by_key key ys ++ by_key key xs"
  by (simp add: by_key_def)

lemma by_key_None: "by_key key xs k = None \<longleftrightarrow> k \<notin> key ` set xs"
  by (simp add: by_key_def map_of_eq_None_iff image_image)

lemma by_key_Some:
  "distinct (map key xs) \<Longrightarrow> by_key key xs k = Some x \<longleftrightarrow> x \<in> set xs \<and> key x = k"
  by (auto simp: by_key_def map_of_eq_Some_iff comp_def)

lemma by_key_eqI:
  assumes "distinct (map key xs)"
    and "\<And>k x. m k = Some x \<longleftrightarrow> x \<in> set xs \<and> key x = k"
  shows "by_key key xs = m"
proof
  fix k
  have "by_key key xs k = Some x \<longleftrightarrow> m k = Some x" for x
    unfolding by_key_Some [OF assms(1)] assms(2) ..
  then show "by_key key xs k = m k" by (metis not_None_eq)
qed

lemma by_key_update:
  "distinct (map key xs) \<Longrightarrow> i < length xs \<Longrightarrow> key (xs ! i) = key s \<Longrightarrow>
    by_key key (xs[i := s]) = (by_key key xs)(key s \<mapsto> s)"
proof (induction xs arbitrary: i)
  case Nil
  then show ?case by simp
next
  case (Cons x xs)
  show ?case
  proof (cases i)
    case 0
    with Cons.prems show ?thesis by (auto simp: by_key_def)
  next
    case (Suc j)
    have "key (xs ! j) \<in> key ` set xs" using Cons.prems(2) Suc by simp
    moreover have "key (xs ! j) = key s" using Cons.prems(3) Suc by simp
    ultimately have "key s \<noteq> key x" using Cons.prems(1) by auto
    moreover have "by_key key (xs[j := s]) = (by_key key xs)(key s \<mapsto> s)"
      using Cons.prems Suc by (intro Cons.IH) auto
    ultimately show ?thesis by (auto simp: by_key_def Suc)
  qed
qed

lemma map_update_same: "i < length xs \<Longrightarrow> f (xs ! i) = f x \<Longrightarrow> map f (xs[i := x]) = map f xs"
  by (metis list_update_id map_update nth_map)

lemma merge_named_loop_correct:
  assumes "distinct (map key inherited)"
  shows "distinct (map key (merge_named_loop key (map key inherited) inherited later))
    \<and> by_key key (merge_named_loop key (map key inherited) inherited later)
        = by_key key inherited ++ by_key key (rev later)
    \<and> take (length inherited)
        (map key (merge_named_loop key (map key inherited) inherited later)) = map key inherited"
  using assms
proof (induction later arbitrary: inherited)
  case Nil
  then show ?case by (simp add: by_key_def)
next
  case (Cons s later)
  have single: "by_key key [s] = [key s \<mapsto> s]" by (simp add: by_key_def)
  show ?case
  proof (cases "position (\<lambda>k. k = key s) (map key inherited)")
    case None
    then have new: "key s \<notin> set (map key inherited)" by (auto simp: position_None)
    then have d: "distinct (map key (inherited @ [s]))" using Cons.prems by simp
    have "by_key key (inherited @ [s]) = by_key key inherited ++ [key s \<mapsto> s]"
      unfolding by_key_append single
      using new by_key_None [of key inherited "key s"] by (intro map_add_comm) auto
    moreover from Cons.IH [OF d] have
      "take (length inherited) (take (Suc (length inherited))
         (map key (merge_named_loop key (map key inherited @ [key s]) (inherited @ [s]) later)))
        = map key inherited"
      by simp
    ultimately show ?thesis using Cons.IH [OF d]
      by (simp add: None by_key_append single min_def fun_upd_def)
  next
    case (Some i)
    then have i: "i < length inherited" "key (inherited ! i) = key s"
      using position_key_Some by fastforce+
    then have keys: "map key (inherited[i := s]) = map key inherited"
      by (rule map_update_same)
    have "by_key key (inherited[i := s]) = by_key key inherited ++ [key s \<mapsto> s]"
      by (simp add: by_key_update [OF Cons.prems i])
    then show ?thesis using Cons.IH [of "inherited[i := s]"] Cons.prems
      by (simp add: Some keys by_key_append single fun_upd_def)
  qed
qed

lemma merge_named_loop_set:
  "set (merge_named_loop key keys inherited later) \<subseteq> set inherited \<union> set later"
proof (induction key keys inherited later rule: merge_named_loop.induct)
  case (2 key keys inherited s later)
  then show ?case
    using set_update_subset_insert [of inherited _ s] by (fastforce split: option.splits)
qed simp

lemma merge_named_Inr:
  "merge_named n key inherited later = Inr out \<longleftrightarrow> distinct (map key inherited)
    \<and> out = merge_named_loop key (map key inherited) inherited later"
  by (auto simp: merge_named_def Let_def length_remdups_distinct
      length_remdups_distinct [of "map key inherited", simplified])

section \<open>Properties\<close>

text \<open>C14. An image reference is accepted exactly when it is a repository path, optionally led by a
  registry, followed by an optional tag and an optional digest, each of its form; the checks
  against whitespace, a URI scheme, a leading \<open>-\<close> and a second \<open>@\<close> reject nothing more.\<close>

theorem image_reference_grammar:
  "validate_image_reference field v = Inr () \<longleftrightarrow> (\<exists>cs tag digest. image_form v cs tag digest)"
  by (rule validate_image_reference_iff)

text \<open>An accepted name is a single ordinary path component: joined to a directory it stays in
  it, and it is not taken for a flag.\<close>

theorem validated_name_is_one_component:
  assumes "validate_name field v = Inr ()"
  shows "path_components v = [Normal v] \<and> \<not> starts_with ''-'' v"
proof -
  have ok: "name_ok v" using assms by (simp only: validate_name_iff)
  then have "\<not> starts_with ''-'' v" by (cases v) (auto simp: name_ok_def)
  with name_component [OF ok] show ?thesis by blast
qed

theorem validated_name_is_one_component_witness:
  "path_components ''aw.1'' = [Normal ''aw.1''] \<and> \<not> starts_with ''-'' ''aw.1''"
  by (rule validated_name_is_one_component [of "''name''"])
    (simp add: validate_name_def char_class_defs)

text \<open>A template accepted against allowed variables and declared context keys renders whenever
  those variables and the context values of those keys are bound.\<close>

theorem context_validated_template_renders:
  assumes "validate_template_with_context field v allowed context_keys = Inr ()"
    and "set allowed \<union> (\<lambda>k. ''context.'' @ k) ` set context_keys \<subseteq> set (bt_keys vars)"
  shows "is_ok (render v vars)"
  using validate_template_with_context_keys [OF assms(1)] assms(2) unfolding render_is_ok_iff
  by blast

theorem context_validated_template_renders_witness:
  "is_ok (render ''{context.a}'' [(''context.a'', ''x''), (''user'', ''u'')])"
  by (rule context_validated_template_renders
      [where field = "''f''" and allowed = "[''user'']" and context_keys = "[''a'']"])
    (simp_all add: validate_template_with_context_def referenced_keys_def
      referenced_keys_from.simps validate_context_slug_def ends_with_def char_class_defs
      bt_keys_def Let_def)

text \<open>Merging services or launch steps by name keeps names unique, keeps the inherited order,
  and holds for each name the last later entry, or else the inherited one.\<close>

theorem named_merge_overrides:
  assumes "merge_named list_name key inherited later = Inr out"
  shows "distinct (map key out)
    \<and> by_key key out = by_key key inherited ++ by_key key (rev later)
    \<and> take (length inherited) (map key out) = map key inherited"
  using assms merge_named_loop_correct [of key inherited later] unfolding merge_named_Inr by blast

theorem named_merge_overrides_witness:
  "by_key (\<lambda>s. s) [''a'', ''b''] = by_key (\<lambda>s. s) [''a''] ++ by_key (\<lambda>s. s) (rev [''a'', ''b''])"
  using named_merge_overrides [of "''x''" "\<lambda>s. s" "[''a'']" "[''a'', ''b'']" "[''a'', ''b'']"]
  by (simp add: merge_named_def)

end
