(* ===== verification/Small_Configs.thy ===== *)
theory Small_Configs
  imports Validation
begin

text \<open>
  The leaf configuration types of \<open>src/config/target/\<close>: \<open>idle_cleanup.rs\<close>, \<open>local_ssh.rs\<close> and
  \<open>container_ssh.rs\<close>. Each has an input of optional fields, an \<open>overlay\<close> of a later input on an
  earlier one, and a conversion to the effective configuration with its checks. The locale
  \<open>overlay_contract\<close> is what the layers of configuration rely on: overlaying is associative, and
  the empty input is neutral on both sides, so that a chain of layers may be grouped at will.
\<close>

section \<open>Overlays\<close>

text \<open>\<open>if let Some(x) = later.f { self.f = Some(x) }\<close>.\<close>

definition over :: "'a option \<Rightarrow> 'a option \<Rightarrow> 'a option" where
  "over cur later = (case later of None \<Rightarrow> cur | Some x \<Rightarrow> Some x)"

definition unwrap_or :: "'a \<Rightarrow> 'a option \<Rightarrow> 'a" where
  "unwrap_or d ox = (case ox of None \<Rightarrow> d | Some x \<Rightarrow> x)"

lemma over_simps [simp]:
  "over cur None = cur" "over cur (Some x) = Some x" "over None later = later"
  by (simp_all add: over_def split: option.splits)

lemma over_assoc [simp]: "over a (over b c) = over (over a b) c"
  by (cases c) simp_all

lemma unwrap_or_simps [simp]: "unwrap_or d None = d" "unwrap_or d (Some x) = x"
  by (simp_all add: unwrap_or_def)

locale overlay_contract =
  fixes overlay :: "'c \<Rightarrow> 'c \<Rightarrow> 'c" and empty :: 'c
  assumes overlay_assoc: "overlay (overlay a b) c = overlay a (overlay b c)"
    and overlay_empty_left: "overlay empty a = a"
    and overlay_empty_right: "overlay a empty = a"
begin

text \<open>Overlaying layers one by one is overlaying their combination.\<close>

lemma foldl_overlay: "foldl overlay a ls = overlay a (foldl overlay empty ls)"
proof (induction ls arbitrary: a)
  case Nil
  then show ?case by (simp add: overlay_empty_right)
next
  case (Cons l ls)
  have "foldl overlay (overlay a l) ls = overlay a (overlay l (foldl overlay empty ls))"
    by (simp add: Cons.IH [of "overlay a l"] overlay_assoc)
  also have "overlay l (foldl overlay empty ls) = foldl overlay l ls"
    by (simp only: Cons.IH [of l])
  finally show ?case by (simp add: overlay_empty_left)
qed

lemma foldl_overlay_append:
  "foldl overlay a (ls @ ms) = overlay (foldl overlay a ls) (foldl overlay empty ms)"
  by (simp add: foldl_overlay [of "foldl overlay a ls" ms])

end

section \<open>Idle cleanup\<close>

datatype idle_cleanup_owner = OwnerNone | OwnerGateway | OwnerAgent
datatype idle_cleanup_action = ActionNone | ExitContainer | ReapProcesses

record idle_cleanup_config =
  ic_owner :: idle_cleanup_owner
  ic_action :: idle_cleanup_action
  ic_idle_grace :: "string option"
  ic_preserve_processes :: "string list"
  ic_poll_interval :: "string option"
  ic_shutdown_timeout :: "string option"
  ic_reap_signal :: string
  ic_reap_kill_after :: "string option"

definition default_reap_signal :: string where
  "default_reap_signal = ''TERM''"

definition idle_cleanup_default :: idle_cleanup_config where
  "idle_cleanup_default =
     \<lparr>ic_owner = OwnerAgent, ic_action = ExitContainer, ic_idle_grace = None,
      ic_preserve_processes = [], ic_poll_interval = None, ic_shutdown_timeout = None,
      ic_reap_signal = default_reap_signal, ic_reap_kill_after = None\<rparr>"

text \<open>The check of an optional duration, its value dropped.\<close>

definition check_duration :: "string option \<Rightarrow> unit res" where
  "check_duration d = given (\<lambda>s. map_ok (\<lambda>_. ()) (parse_duration s)) d"

definition idle_cleanup_validate :: "idle_cleanup_config \<Rightarrow> unit res" where
  "idle_cleanup_validate c = seq_checks
     [each check_duration
        [ic_idle_grace c, ic_poll_interval c, ic_shutdown_timeout c, ic_reap_kill_after c],
      each (validate_name ''preserve_processes'') (ic_preserve_processes c),
      bail_if (ic_reap_signal c \<notin> {''TERM'', ''KILL'', ''INT'', ''HUP''})
        (Bail ''unsupported reap_signal {}'' [ic_reap_signal c])]"

record idle_cleanup_input =
  ici_owner :: "idle_cleanup_owner option"
  ici_action :: "idle_cleanup_action option"
  ici_idle_grace :: "string option"
  ici_preserve_processes :: "string list option"
  ici_poll_interval :: "string option"
  ici_shutdown_timeout :: "string option"
  ici_reap_signal :: "string option"
  ici_reap_kill_after :: "string option"

definition idle_cleanup_input_default :: idle_cleanup_input where
  "idle_cleanup_input_default =
     \<lparr>ici_owner = None, ici_action = None, ici_idle_grace = None, ici_preserve_processes = None,
      ici_poll_interval = None, ici_shutdown_timeout = None, ici_reap_signal = None,
      ici_reap_kill_after = None\<rparr>"

definition idle_cleanup_overlay ::
  "idle_cleanup_input \<Rightarrow> idle_cleanup_input \<Rightarrow> idle_cleanup_input" where
  "idle_cleanup_overlay self later =
     \<lparr>ici_owner = over (ici_owner self) (ici_owner later),
      ici_action = over (ici_action self) (ici_action later),
      ici_idle_grace = over (ici_idle_grace self) (ici_idle_grace later),
      ici_preserve_processes = over (ici_preserve_processes self) (ici_preserve_processes later),
      ici_poll_interval = over (ici_poll_interval self) (ici_poll_interval later),
      ici_shutdown_timeout = over (ici_shutdown_timeout self) (ici_shutdown_timeout later),
      ici_reap_signal = over (ici_reap_signal self) (ici_reap_signal later),
      ici_reap_kill_after = over (ici_reap_kill_after self) (ici_reap_kill_after later)\<rparr>"

definition idle_cleanup_into_effective :: "idle_cleanup_input \<Rightarrow> idle_cleanup_config res" where
  "idle_cleanup_into_effective self =
     (let cleanup =
        \<lparr>ic_owner = unwrap_or OwnerAgent (ici_owner self),
         ic_action = unwrap_or ExitContainer (ici_action self),
         ic_idle_grace = ici_idle_grace self,
         ic_preserve_processes = unwrap_or [] (ici_preserve_processes self),
         ic_poll_interval = ici_poll_interval self,
         ic_shutdown_timeout = ici_shutdown_timeout self,
         ic_reap_signal = unwrap_or default_reap_signal (ici_reap_signal self),
         ic_reap_kill_after = ici_reap_kill_after self\<rparr>
      in map_ok (\<lambda>_. cleanup) (idle_cleanup_validate cleanup))"

interpretation idle_cleanup_layers:
  overlay_contract idle_cleanup_overlay idle_cleanup_input_default
  by unfold_locales (simp_all add: idle_cleanup_overlay_def idle_cleanup_input_default_def)

section \<open>Local SSH\<close>

datatype local_ssh_mode = ProxyCommand | Listen | Direct
datatype local_ssh_backend = SocketBackend | PublishedPort
datatype local_ssh_readiness = AgentControl | SshOnly

record local_ssh_config =
  ls_mode :: local_ssh_mode
  ls_backend :: local_ssh_backend
  ls_readiness :: local_ssh_readiness
  ls_host :: string
  ls_port :: "nat option"

definition default_listen_host :: string where
  "default_listen_host = ''127.0.0.1''"

definition local_ssh_validate :: "local_ssh_config \<Rightarrow> unit res" where
  "local_ssh_validate c = seq_checks
     [bail_if (ls_mode c = Listen \<and> ls_host c \<noteq> ''127.0.0.1'' \<and> ls_host c \<noteq> ''::1'')
        (Bail ''local_ssh listen host must be loopback-only'' []),
      bail_if (ls_mode c = Direct \<and> ls_host c \<noteq> ''127.0.0.1'')
        (Bail ''local_ssh direct host must be 127.0.0.1'' []),
      bail_if (ls_mode c = Direct \<and> ls_backend c \<noteq> PublishedPort)
        (Bail ''local_ssh mode direct requires backend = published_port'' []),
      bail_if (ls_readiness c = SshOnly \<and> ls_backend c \<noteq> PublishedPort)
        (Bail ''local_ssh readiness ssh_only requires backend = published_port'' [])]"

record local_ssh_input =
  lsi_mode :: "local_ssh_mode option"
  lsi_backend :: "local_ssh_backend option"
  lsi_readiness :: "local_ssh_readiness option"
  lsi_host :: "string option"
  lsi_port :: "nat option"

definition local_ssh_input_default :: local_ssh_input where
  "local_ssh_input_default =
     \<lparr>lsi_mode = None, lsi_backend = None, lsi_readiness = None, lsi_host = None, lsi_port = None\<rparr>"

definition local_ssh_overlay :: "local_ssh_input \<Rightarrow> local_ssh_input \<Rightarrow> local_ssh_input" where
  "local_ssh_overlay self later =
     \<lparr>lsi_mode = over (lsi_mode self) (lsi_mode later),
      lsi_backend = over (lsi_backend self) (lsi_backend later),
      lsi_readiness = over (lsi_readiness self) (lsi_readiness later),
      lsi_host = over (lsi_host self) (lsi_host later),
      lsi_port = over (lsi_port self) (lsi_port later)\<rparr>"

definition local_ssh_into_effective :: "local_ssh_input \<Rightarrow> local_ssh_config" where
  "local_ssh_into_effective self =
     \<lparr>ls_mode = unwrap_or ProxyCommand (lsi_mode self),
      ls_backend = unwrap_or SocketBackend (lsi_backend self),
      ls_readiness = unwrap_or AgentControl (lsi_readiness self),
      ls_host = unwrap_or default_listen_host (lsi_host self),
      ls_port = lsi_port self\<rparr>"

definition local_ssh_validate_partial :: "local_ssh_input \<Rightarrow> unit res" where
  "local_ssh_validate_partial c = seq_checks
     [bail_if (lsi_mode c = Some Listen
         \<and> (case lsi_host c of None \<Rightarrow> False | Some host \<Rightarrow> host \<noteq> ''127.0.0.1'' \<and> host \<noteq> ''::1''))
        (Bail ''local_ssh listen host must be loopback-only'' []),
      bail_if (lsi_mode c = Some Direct
         \<and> (case lsi_host c of None \<Rightarrow> False | Some host \<Rightarrow> host \<noteq> ''127.0.0.1''))
        (Bail ''local_ssh direct host must be 127.0.0.1'' []),
      bail_if (lsi_mode c = Some Direct
         \<and> (case lsi_backend c of None \<Rightarrow> False | Some backend \<Rightarrow> backend \<noteq> PublishedPort))
        (Bail ''local_ssh mode direct requires backend = published_port'' [])]"

interpretation local_ssh_layers: overlay_contract local_ssh_overlay local_ssh_input_default
  by unfold_locales (simp_all add: local_ssh_overlay_def local_ssh_input_default_def)

section \<open>SSH into the container\<close>

datatype sftp_transfer_mode = SftpAllow | SftpDeny
datatype legacy_scp_transfer_mode = ScpAllow | ScpDeny | ScpInbound | ScpOutbound

fun sftp_allows :: "sftp_transfer_mode \<Rightarrow> bool" where
  "sftp_allows SftpAllow = True"
| "sftp_allows SftpDeny = False"

fun scp_allows_inbound :: "legacy_scp_transfer_mode \<Rightarrow> bool" where
  "scp_allows_inbound m = (m = ScpAllow \<or> m = ScpInbound)"

fun scp_allows_outbound :: "legacy_scp_transfer_mode \<Rightarrow> bool" where
  "scp_allows_outbound m = (m = ScpAllow \<or> m = ScpOutbound)"

record container_ssh_transfer =
  cst_sftp :: sftp_transfer_mode
  cst_legacy_scp :: legacy_scp_transfer_mode

definition container_ssh_transfer_default :: container_ssh_transfer where
  "container_ssh_transfer_default = \<lparr>cst_sftp = SftpAllow, cst_legacy_scp = ScpAllow\<rparr>"

record target_container_ssh_transfer =
  tct_sftp :: "sftp_transfer_mode option"
  tct_legacy_scp :: "legacy_scp_transfer_mode option"

definition target_transfer_default :: target_container_ssh_transfer where
  "target_transfer_default = \<lparr>tct_sftp = Some SftpAllow, tct_legacy_scp = Some ScpAllow\<rparr>"

definition target_transfer_overlay ::
  "target_container_ssh_transfer \<Rightarrow> target_container_ssh_transfer \<Rightarrow> target_container_ssh_transfer"
where
  "target_transfer_overlay self later =
     \<lparr>tct_sftp = over (tct_sftp self) (tct_sftp later),
      tct_legacy_scp = over (tct_legacy_scp self) (tct_legacy_scp later)\<rparr>"

definition target_transfer_to_effective ::
  "target_container_ssh_transfer \<Rightarrow> container_ssh_transfer res" where
  "target_transfer_to_effective self =
     and_then (ok_or (Bail ''target container_ssh.transfer.sftp is required'' []) (tct_sftp self))
       (\<lambda>sftp. and_then
          (ok_or (Bail ''target container_ssh.transfer.legacy_scp is required'' [])
             (tct_legacy_scp self))
          (\<lambda>legacy_scp. Inr \<lparr>cst_sftp = sftp, cst_legacy_scp = legacy_scp\<rparr>))"

text \<open>A \<open>TargetContainerSshConfig\<close> and a \<open>ContainerSshConfig\<close> are their single field.\<close>

type_synonym target_container_ssh = "target_container_ssh_transfer option"
type_synonym container_ssh_config = container_ssh_transfer

definition target_container_ssh_default :: target_container_ssh where
  "target_container_ssh_default = Some target_transfer_default"

definition target_container_ssh_overlay ::
  "target_container_ssh \<Rightarrow> target_container_ssh \<Rightarrow> target_container_ssh" where
  "target_container_ssh_overlay self later =
     (case later of None \<Rightarrow> self
      | Some transfer \<Rightarrow>
          Some (target_transfer_overlay (unwrap_or target_transfer_default self) transfer))"

definition overlay_target_container_ssh ::
  "target_container_ssh option \<Rightarrow> target_container_ssh \<Rightarrow> target_container_ssh" where
  "overlay_target_container_ssh current later =
     target_container_ssh_overlay (unwrap_or target_container_ssh_default current) later"

definition target_container_ssh_to_effective :: "target_container_ssh \<Rightarrow> container_ssh_config res" where
  "target_container_ssh_to_effective self =
     (case self of Some transfer \<Rightarrow> target_transfer_to_effective transfer
      | None \<Rightarrow> target_transfer_to_effective target_transfer_default)"

text \<open>The transfer configuration a chain of target layers ends with.\<close>

definition container_ssh_after ::
  "target_container_ssh option \<Rightarrow> target_container_ssh list \<Rightarrow> target_container_ssh option" where
  "container_ssh_after = foldl (\<lambda>cur later. Some (overlay_target_container_ssh cur later))"

section \<open>Properties\<close>

lemma check_duration_Inr [res_simps]:
  "check_duration d = Inr u \<longleftrightarrow> (\<forall>s. d = Some s \<longrightarrow> is_ok (parse_duration s))"
  by (cases d) (auto simp: check_duration_def res_simps is_ok_iff)

text \<open>Layers of idle-cleanup settings group at will: overlaying any layers on a base one after
  the other is overlaying their combination once, and a field holds what the last layer that
  sets it says.\<close>

theorem idle_cleanup_layers_combine:
  "foldl idle_cleanup_overlay base (ls @ ms)
     = idle_cleanup_overlay (foldl idle_cleanup_overlay base ls)
         (foldl idle_cleanup_overlay idle_cleanup_input_default ms)
   \<and> ici_action (foldl idle_cleanup_overlay base ls)
     = foldl over (ici_action base) (map ici_action ls)"
proof -
  have "ici_action (foldl idle_cleanup_overlay b ls) = foldl over (ici_action b) (map ici_action ls)" for b
    by (induction ls arbitrary: b) (simp_all add: idle_cleanup_overlay_def)
  then show ?thesis by (simp only: idle_cleanup_layers.foldl_overlay_append simp_thms)
qed

text \<open>A local SSH input whose completion passes the checks also passes the checks made on each
  layer, and it listens on, or connects to, the loopback interface only.\<close>

theorem local_ssh_is_loopback:
  assumes "local_ssh_validate (local_ssh_into_effective i) = Inr ()"
  shows "local_ssh_validate_partial i = Inr ()
    \<and> (lsi_mode i = Some Listen \<longrightarrow> unwrap_or ''127.0.0.1'' (lsi_host i) \<in> {''127.0.0.1'', ''::1''})
    \<and> (lsi_mode i = Some Direct \<longrightarrow> unwrap_or ''127.0.0.1'' (lsi_host i) = ''127.0.0.1''
         \<and> lsi_backend i = Some PublishedPort)"
proof (cases "lsi_mode i")
  case None
  then show ?thesis by (simp add: local_ssh_validate_partial_def)
next
  case (Some m)
  then show ?thesis using assms
    by (cases m; cases "lsi_host i"; cases "lsi_backend i")
      (auto simp: local_ssh_validate_def local_ssh_validate_partial_def local_ssh_into_effective_def
        bail_if_Inr default_listen_host_def)
qed

theorem local_ssh_is_loopback_witness:
  "local_ssh_validate_partial \<lparr>lsi_mode = Some Direct, lsi_backend = Some PublishedPort,
     lsi_readiness = Some SshOnly, lsi_host = None, lsi_port = None\<rparr> = Inr ()"
  by (rule local_ssh_is_loopback [THEN conjunct1])
    (simp add: local_ssh_validate_def local_ssh_into_effective_def default_listen_host_def)

text \<open>The last mode the layers set.\<close>

definition last_set :: "('t \<Rightarrow> 'a option) \<Rightarrow> 't option list \<Rightarrow> 'a option" where
  "last_set field ls = foldl over None (map (\<lambda>l. Option.bind l field) ls)"

lemma foldl_over: "foldl over a xs = over a (foldl over None xs)"
proof (induction xs arbitrary: a)
  case (Cons x xs)
  show ?case by (simp add: Cons.IH [of "over a x"] Cons.IH [of x])
qed simp

lemma unwrap_or_over: "unwrap_or d (over (Some s) x) = unwrap_or s x"
  by (cases x) simp_all

lemma overlay_complete:
  "overlay_target_container_ssh (Some (Some \<lparr>tct_sftp = Some s, tct_legacy_scp = Some l\<rparr>)) x
     = Some \<lparr>tct_sftp = Some (unwrap_or s (Option.bind x tct_sftp)),
             tct_legacy_scp = Some (unwrap_or l (Option.bind x tct_legacy_scp))\<rparr>"
  by (cases x; cases "tct_sftp (the x)"; cases "tct_legacy_scp (the x)")
    (auto simp: overlay_target_container_ssh_def target_container_ssh_overlay_def
      target_transfer_overlay_def)

lemma last_set_Cons: "unwrap_or s (last_set f (x # ls)) = unwrap_or (unwrap_or s (Option.bind x f)) (last_set f ls)"
  by (cases "Option.bind x f") (simp_all add: last_set_def foldl_over [of "Some _"] unwrap_or_over)

lemma container_ssh_after_complete:
  "container_ssh_after (Some (Some \<lparr>tct_sftp = Some s, tct_legacy_scp = Some l\<rparr>)) ls
     = Some (Some \<lparr>tct_sftp = Some (unwrap_or s (last_set tct_sftp ls)),
                   tct_legacy_scp = Some (unwrap_or l (last_set tct_legacy_scp ls))\<rparr>)"
proof (induction ls arbitrary: s l)
  case Nil
  then show ?case by (simp add: container_ssh_after_def last_set_def)
next
  case (Cons x ls)
  then show ?case
    by (simp add: container_ssh_after_def overlay_complete last_set_Cons)
qed

text \<open>Whatever layers a target has, its container SSH settings become effective without error:
  each transfer mode is the last one a layer sets, or \<open>allow\<close>.\<close>

theorem container_ssh_layers_effective:
  assumes "ls \<noteq> []"
  shows "\<exists>cfg. container_ssh_after None ls = Some cfg
    \<and> target_container_ssh_to_effective cfg = Inr
        \<lparr>cst_sftp = unwrap_or SftpAllow (last_set tct_sftp ls),
         cst_legacy_scp = unwrap_or ScpAllow (last_set tct_legacy_scp ls)\<rparr>"
proof -
  have "container_ssh_after None ls
      = container_ssh_after (Some target_container_ssh_default) ls"
    using assms
    by (cases ls) (simp_all add: container_ssh_after_def overlay_target_container_ssh_def)
  also have "\<dots> = Some (Some \<lparr>tct_sftp = Some (unwrap_or SftpAllow (last_set tct_sftp ls)),
      tct_legacy_scp = Some (unwrap_or ScpAllow (last_set tct_legacy_scp ls))\<rparr>)"
    by (simp add: target_container_ssh_default_def target_transfer_default_def
        container_ssh_after_complete)
  finally show ?thesis
    by (simp add: target_container_ssh_to_effective_def target_transfer_to_effective_def)
qed

theorem container_ssh_layers_effective_witness:
  "\<exists>cfg. container_ssh_after None [Some \<lparr>tct_sftp = Some SftpDeny, tct_legacy_scp = None\<rparr>] = Some cfg
    \<and> target_container_ssh_to_effective cfg = Inr \<lparr>cst_sftp = SftpDeny, cst_legacy_scp = ScpAllow\<rparr>"
  using container_ssh_layers_effective
    [of "[Some \<lparr>tct_sftp = Some SftpDeny, tct_legacy_scp = None\<rparr>]"]
  by (simp add: last_set_def)

end
