(* ===== verification/Target_Parts.thy ===== *)
theory Target_Parts
  imports Small_Configs Std_Paths
begin

text \<open>
  The parts a target is made of (\<open>src/config/target.rs\<close>): access, workspace, control sockets, container
  bootstrap, runtime arguments, identity, mounts and host socket exposures. A part that layers of
  configuration may set has an input of optional fields, whose overlay satisfies \<open>overlay_contract\<close>,
  and an effective form.
\<close>

section \<open>Access\<close>

datatype target_access_method = AccessSsh | AccessRuntimeExec
datatype target_mode = Fixed | Ephemeral
datatype workspace_cleanup = CleanupNever | CleanupSuccess | CleanupAlways
datatype container_mount_mode = MountRo | MountRw
datatype selinux_relabel = RelabelNone | RelabelShared | RelabelPrivate

fun access_method_text :: "target_access_method \<Rightarrow> string" where
  "access_method_text AccessSsh = ''ssh''"
| "access_method_text AccessRuntimeExec = ''runtime_exec''"

record target_access = ta_method :: target_access_method
record target_access_input = tai_method :: "target_access_method option"

definition target_access_default :: target_access where
  "target_access_default = \<lparr>ta_method = AccessSsh\<rparr>"

definition target_access_input_default :: target_access_input where
  "target_access_input_default = \<lparr>tai_method = None\<rparr>"

definition target_access_overlay :: "target_access_input \<Rightarrow> target_access_input \<Rightarrow> target_access_input" where
  "target_access_overlay self later = \<lparr>tai_method = over (tai_method self) (tai_method later)\<rparr>"

definition target_access_into_effective :: "target_access_input \<Rightarrow> target_access" where
  "target_access_into_effective self = \<lparr>ta_method = unwrap_or AccessSsh (tai_method self)\<rparr>"

interpretation target_access_layers: overlay_contract target_access_overlay target_access_input_default
  by unfold_locales (simp_all add: target_access_overlay_def target_access_input_default_def)

section \<open>Workspace\<close>

definition default_workspace_path :: string where
  "default_workspace_path = ''workspace''"

definition default_workspace_state_dir :: string where
  "default_workspace_state_dir = ''.aw-gateway''"

record workspace_config =
  ws_path :: string
  ws_container_path :: "string option"
  ws_state_dir :: string
  ws_cleanup :: workspace_cleanup

definition workspace_default :: workspace_config where
  "workspace_default =
     \<lparr>ws_path = default_workspace_path, ws_container_path = None,
      ws_state_dir = default_workspace_state_dir, ws_cleanup = CleanupNever\<rparr>"

record workspace_input =
  wsi_path :: "string option"
  wsi_container_path :: "string option"
  wsi_state_dir :: "string option"
  wsi_cleanup :: "workspace_cleanup option"

definition workspace_input_default :: workspace_input where
  "workspace_input_default =
     \<lparr>wsi_path = None, wsi_container_path = None, wsi_state_dir = None, wsi_cleanup = None\<rparr>"

definition workspace_overlay :: "workspace_input \<Rightarrow> workspace_input \<Rightarrow> workspace_input" where
  "workspace_overlay self later =
     \<lparr>wsi_path = over (wsi_path self) (wsi_path later),
      wsi_container_path = over (wsi_container_path self) (wsi_container_path later),
      wsi_state_dir = over (wsi_state_dir self) (wsi_state_dir later),
      wsi_cleanup = over (wsi_cleanup self) (wsi_cleanup later)\<rparr>"

definition workspace_into_effective :: "workspace_input \<Rightarrow> workspace_config" where
  "workspace_into_effective self =
     \<lparr>ws_path = unwrap_or default_workspace_path (wsi_path self),
      ws_container_path = wsi_container_path self,
      ws_state_dir = unwrap_or default_workspace_state_dir (wsi_state_dir self),
      ws_cleanup = unwrap_or CleanupNever (wsi_cleanup self)\<rparr>"

interpretation workspace_layers: overlay_contract workspace_overlay workspace_input_default
  by unfold_locales (simp_all add: workspace_overlay_def workspace_input_default_def)

definition validate_workspace_container_path_shape :: "string \<Rightarrow> string \<Rightarrow> unit res" where
  "validate_workspace_container_path_shape target_name v =
     (let starts_with_container_home = v = ''{container_home}''
        \<or> (case strip_prefix ''{container_home}'' v of
             None \<Rightarrow> False | Some suffix \<Rightarrow> starts_with ''/'' suffix)
      in seq_checks
        [bail_if (\<not> path_is_absolute v \<and> \<not> starts_with_container_home)
           (Bail ''target {} workspace.container_path must be an absolute path or start with {container_home}''
              [target_name]),
         bail_if (ParentDir \<in> set (path_components v))
           (Bail ''target {} workspace.container_path must not contain '..' components'' [target_name])])"

text \<open>\<open>Component::Prefix\<close> does not occur on Unix.\<close>

definition validate_workspace_state_dir_shape :: "string \<Rightarrow> string \<Rightarrow> unit res" where
  "validate_workspace_state_dir_shape target_name v =
     bail_if (v = ''~'' \<or> starts_with ''~/'' v \<or> path_is_absolute v
         \<or> list_ex (\<lambda>c. c = ParentDir \<or> c = RootDir) (path_components v))
       (Bail ''target {} workspace.state_dir must stay within the workspace mount and must not be absolute, home-relative, or contain '..' components''
          [target_name])"

text \<open>The checks of the three path fields, which \<open>WorkspaceConfigInput::validate_partial\<close> makes on
  what is set and \<open>TargetConfig::validate\<close> on the effective workspace.\<close>

definition workspace_path_check :: "string \<Rightarrow> string \<Rightarrow> unit res" where
  "workspace_path_check target_name path = seq_checks
     [bail_if (trim path = []) (Bail ''target {} workspace.path must not be empty'' [target_name]),
      validate_template_with_policy ''target.workspace.path'' path TARGET_WORKSPACE_TEMPLATE_VARS
        ALLOW_UNBOUND_CONTEXT_PREFIX]"

definition workspace_container_path_check :: "string \<Rightarrow> string \<Rightarrow> unit res" where
  "workspace_container_path_check target_name container_path = seq_checks
     [bail_if (trim container_path = [])
        (Bail ''target {} workspace.container_path must not be empty'' [target_name]),
      validate_workspace_container_path_shape target_name container_path,
      validate_template_with_policy ''target.workspace.container_path'' container_path
        WORKSPACE_CONTAINER_PATH_TEMPLATE_VARS ALLOW_UNBOUND_CONTEXT_PREFIX]"

definition workspace_state_dir_check :: "string \<Rightarrow> string \<Rightarrow> unit res" where
  "workspace_state_dir_check target_name state_dir = seq_checks
     [bail_if (trim state_dir = []) (Bail ''target {} workspace.state_dir must not be empty'' [target_name]),
      validate_workspace_state_dir_shape target_name state_dir,
      validate_template_with_policy ''target.workspace.state_dir'' state_dir
        WORKSPACE_STATE_DIR_TEMPLATE_VARS ALLOW_UNBOUND_CONTEXT_PREFIX]"

definition workspace_validate_partial :: "workspace_input \<Rightarrow> string \<Rightarrow> unit res" where
  "workspace_validate_partial w target_name = seq_checks
     [given (workspace_path_check target_name) (wsi_path w),
      given (workspace_container_path_check target_name) (wsi_container_path w),
      given (workspace_state_dir_check target_name) (wsi_state_dir w)]"

definition workspace_validate_context_templates ::
  "workspace_input \<Rightarrow> string \<Rightarrow> string list \<Rightarrow> unit res" where
  "workspace_validate_context_templates w field context_keys = seq_checks
     [given (\<lambda>path. validate_template_with_context (field @ ''.path'') path
         TARGET_WORKSPACE_TEMPLATE_VARS context_keys) (wsi_path w),
      given (\<lambda>path. validate_template_with_context (field @ ''.container_path'') path
         WORKSPACE_CONTAINER_PATH_TEMPLATE_VARS context_keys) (wsi_container_path w),
      given (\<lambda>dir. validate_template_with_context (field @ ''.state_dir'') dir
         WORKSPACE_STATE_DIR_TEMPLATE_VARS context_keys) (wsi_state_dir w)]"

section \<open>Control sockets\<close>

definition default_control_socket_host_dir :: string where
  "default_control_socket_host_dir = ''/run/user/{uid}/aw-gateway/{runtime_id}''"

definition default_control_socket_container_dir :: string where
  "default_control_socket_container_dir = ''/run/aw-gateway''"

record control_sockets_config =
  cso_host_dir :: string
  cso_container_dir :: string

definition control_sockets_default :: control_sockets_config where
  "control_sockets_default =
     \<lparr>cso_host_dir = default_control_socket_host_dir,
      cso_container_dir = default_control_socket_container_dir\<rparr>"

definition control_sockets_validate :: "control_sockets_config \<Rightarrow> string \<Rightarrow> unit res" where
  "control_sockets_validate c field = seq_checks
     [bail_if (trim (cso_host_dir c) = []) (Bail ''{}.host_dir must not be empty'' [field]),
      bail_if (trim (cso_container_dir c) = []) (Bail ''{}.container_dir must not be empty'' [field]),
      validate_template_with_policy (field @ ''.host_dir'') (cso_host_dir c)
        CONTROL_SOCKET_TEMPLATE_VARS ALLOW_UNBOUND_CONTEXT_PREFIX,
      validate_template_with_policy (field @ ''.container_dir'') (cso_container_dir c)
        CONTROL_SOCKET_TEMPLATE_VARS ALLOW_UNBOUND_CONTEXT_PREFIX]"

definition control_sockets_validate_context_templates ::
  "control_sockets_config \<Rightarrow> string \<Rightarrow> string list \<Rightarrow> unit res" where
  "control_sockets_validate_context_templates c field context_keys = seq_checks
     [validate_template_with_context (field @ ''.host_dir'') (cso_host_dir c)
        CONTROL_SOCKET_TEMPLATE_VARS context_keys,
      validate_template_with_context (field @ ''.container_dir'') (cso_container_dir c)
        CONTROL_SOCKET_TEMPLATE_VARS context_keys]"

record target_control_sockets =
  tcs_host_dir :: "string option"
  tcs_container_dir :: "string option"

definition target_control_sockets_default :: target_control_sockets where
  "target_control_sockets_default = \<lparr>tcs_host_dir = None, tcs_container_dir = None\<rparr>"

definition target_control_sockets_validate :: "target_control_sockets \<Rightarrow> string \<Rightarrow> unit res" where
  "target_control_sockets_validate c target_name = seq_checks
     [given (\<lambda>dir. seq_checks
        [bail_if (trim dir = []) (Bail ''target {} control_sockets.host_dir must not be empty'' [target_name]),
         validate_template_with_policy ''target.control_sockets.host_dir'' dir
           CONTROL_SOCKET_TEMPLATE_VARS ALLOW_UNBOUND_CONTEXT_PREFIX]) (tcs_host_dir c),
      given (\<lambda>dir. seq_checks
        [bail_if (trim dir = [])
           (Bail ''target {} control_sockets.container_dir must not be empty'' [target_name]),
         validate_template_with_policy ''target.control_sockets.container_dir'' dir
           CONTROL_SOCKET_TEMPLATE_VARS ALLOW_UNBOUND_CONTEXT_PREFIX]) (tcs_container_dir c)]"

definition target_control_sockets_validate_context_templates ::
  "target_control_sockets \<Rightarrow> string \<Rightarrow> string list \<Rightarrow> unit res" where
  "target_control_sockets_validate_context_templates c field context_keys = seq_checks
     [given (\<lambda>dir. validate_template_with_context (field @ ''.host_dir'') dir
         CONTROL_SOCKET_TEMPLATE_VARS context_keys) (tcs_host_dir c),
      given (\<lambda>dir. validate_template_with_context (field @ ''.container_dir'') dir
         CONTROL_SOCKET_TEMPLATE_VARS context_keys) (tcs_container_dir c)]"

definition target_control_sockets_overlay ::
  "target_control_sockets \<Rightarrow> target_control_sockets \<Rightarrow> target_control_sockets" where
  "target_control_sockets_overlay self later =
     \<lparr>tcs_host_dir = over (tcs_host_dir self) (tcs_host_dir later),
      tcs_container_dir = over (tcs_container_dir self) (tcs_container_dir later)\<rparr>"

definition target_control_sockets_to_effective :: "target_control_sockets \<Rightarrow> control_sockets_config" where
  "target_control_sockets_to_effective self =
     \<lparr>cso_host_dir = unwrap_or default_control_socket_host_dir (tcs_host_dir self),
      cso_container_dir = unwrap_or default_control_socket_container_dir (tcs_container_dir self)\<rparr>"

definition overlay_control_sockets ::
  "target_control_sockets option \<Rightarrow> target_control_sockets \<Rightarrow> target_control_sockets" where
  "overlay_control_sockets current later =
     target_control_sockets_overlay (unwrap_or target_control_sockets_default current) later"

interpretation target_control_sockets_layers:
  overlay_contract target_control_sockets_overlay target_control_sockets_default
  by unfold_locales (simp_all add: target_control_sockets_overlay_def target_control_sockets_default_def)

section \<open>Container bootstrap\<close>

definition default_bootstrap_entrypoint :: string where
  "default_bootstrap_entrypoint = ''/opt/aw-gateway/bin/aw-container-bootstrap''"

definition default_bootstrap_agent_program :: string where
  "default_bootstrap_agent_program = ''/opt/aw-gateway/bin/aw-container-agent''"

record container_bootstrap_config =
  cb_enabled :: bool
  cb_entrypoint :: string
  cb_agent_program :: string

definition container_bootstrap_default :: container_bootstrap_config where
  "container_bootstrap_default =
     \<lparr>cb_enabled = False, cb_entrypoint = default_bootstrap_entrypoint,
      cb_agent_program = default_bootstrap_agent_program\<rparr>"

definition container_bootstrap_validate :: "container_bootstrap_config \<Rightarrow> unit res" where
  "container_bootstrap_validate c = seq_checks
     [bail_if (trim (cb_entrypoint c) = []) (Bail ''container_bootstrap.entrypoint must not be empty'' []),
      bail_if (trim (cb_agent_program c) = [])
        (Bail ''container_bootstrap.agent_program must not be empty'' []),
      validate_template ''container_bootstrap.entrypoint'' (cb_entrypoint c) GATEWAY_TEMPLATE_VARS_NO_PID,
      validate_template ''container_bootstrap.agent_program'' (cb_agent_program c)
        GATEWAY_TEMPLATE_VARS_NO_PID]"

record target_container_bootstrap =
  tcb_enabled :: "bool option"
  tcb_entrypoint :: "string option"
  tcb_agent_program :: "string option"

definition target_container_bootstrap_default :: target_container_bootstrap where
  "target_container_bootstrap_default =
     \<lparr>tcb_enabled = None, tcb_entrypoint = None, tcb_agent_program = None\<rparr>"

definition target_container_bootstrap_validate :: "target_container_bootstrap \<Rightarrow> string \<Rightarrow> unit res" where
  "target_container_bootstrap_validate c target_name = seq_checks
     [given (\<lambda>entrypoint. seq_checks
        [bail_if (trim entrypoint = [])
           (Bail ''target {} container_bootstrap.entrypoint must not be empty'' [target_name]),
         validate_template ''target.container_bootstrap.entrypoint'' entrypoint
           GATEWAY_TEMPLATE_VARS_NO_PID]) (tcb_entrypoint c),
      given (\<lambda>agent_program. seq_checks
        [bail_if (trim agent_program = [])
           (Bail ''target {} container_bootstrap.agent_program must not be empty'' [target_name]),
         validate_template ''target.container_bootstrap.agent_program'' agent_program
           GATEWAY_TEMPLATE_VARS_NO_PID]) (tcb_agent_program c)]"

definition target_container_bootstrap_overlay ::
  "target_container_bootstrap \<Rightarrow> target_container_bootstrap \<Rightarrow> target_container_bootstrap" where
  "target_container_bootstrap_overlay self later =
     \<lparr>tcb_enabled = over (tcb_enabled self) (tcb_enabled later),
      tcb_entrypoint = over (tcb_entrypoint self) (tcb_entrypoint later),
      tcb_agent_program = over (tcb_agent_program self) (tcb_agent_program later)\<rparr>"

definition target_container_bootstrap_to_effective ::
  "target_container_bootstrap \<Rightarrow> container_bootstrap_config" where
  "target_container_bootstrap_to_effective self =
     \<lparr>cb_enabled = unwrap_or False (tcb_enabled self),
      cb_entrypoint = unwrap_or default_bootstrap_entrypoint (tcb_entrypoint self),
      cb_agent_program = unwrap_or default_bootstrap_agent_program (tcb_agent_program self)\<rparr>"

definition overlay_container_bootstrap ::
  "target_container_bootstrap option \<Rightarrow> target_container_bootstrap \<Rightarrow> target_container_bootstrap" where
  "overlay_container_bootstrap current later =
     target_container_bootstrap_overlay (unwrap_or target_container_bootstrap_default current) later"

interpretation target_container_bootstrap_layers:
  overlay_contract target_container_bootstrap_overlay target_container_bootstrap_default
  by unfold_locales
    (simp_all add: target_container_bootstrap_overlay_def target_container_bootstrap_default_def)

section \<open>Runtime arguments\<close>

record target_runtime = tr_extra_run_args :: "string list"
record target_runtime_input = tri_extra_run_args :: "string list option"

definition target_runtime_validate :: "target_runtime \<Rightarrow> string \<Rightarrow> unit res" where
  "target_runtime_validate r target_name =
     each (\<lambda>arg. seq_checks
       [bail_if (arg = [])
          (Bail ''target {} runtime.extra_run_args must not contain empty arguments'' [target_name]),
        validate_template ''target.runtime.extra_run_args'' arg GATEWAY_TEMPLATE_VARS_NO_PID])
       (tr_extra_run_args r)"

definition target_runtime_input_default :: target_runtime_input where
  "target_runtime_input_default = \<lparr>tri_extra_run_args = None\<rparr>"

definition target_runtime_overlay ::
  "target_runtime_input \<Rightarrow> target_runtime_input \<Rightarrow> target_runtime_input" where
  "target_runtime_overlay self later =
     \<lparr>tri_extra_run_args = over (tri_extra_run_args self) (tri_extra_run_args later)\<rparr>"

definition target_runtime_into_effective :: "target_runtime_input \<Rightarrow> target_runtime" where
  "target_runtime_into_effective self = \<lparr>tr_extra_run_args = unwrap_or [] (tri_extra_run_args self)\<rparr>"

definition target_runtime_validate_partial :: "target_runtime_input \<Rightarrow> string \<Rightarrow> unit res" where
  "target_runtime_validate_partial r target_name =
     given (\<lambda>args. target_runtime_validate \<lparr>tr_extra_run_args = args\<rparr> target_name) (tri_extra_run_args r)"

interpretation target_runtime_layers: overlay_contract target_runtime_overlay target_runtime_input_default
  by unfold_locales (simp_all add: target_runtime_overlay_def target_runtime_input_default_def)

section \<open>Identity\<close>

record target_identity =
  ti_bootstrap_user :: "string option"
  ti_session_user :: "string option"
  ti_session_uid :: "string option"
  ti_session_gid :: "string option"
  ti_session_home :: "string option"
  ti_session_shell :: "string option"

definition target_identity_default :: target_identity where
  "target_identity_default =
     \<lparr>ti_bootstrap_user = None, ti_session_user = None, ti_session_uid = None, ti_session_gid = None,
      ti_session_home = None, ti_session_shell = None\<rparr>"

definition identity_validate_partial :: "target_identity \<Rightarrow> string \<Rightarrow> unit res" where
  "identity_validate_partial i target_name =
     each (\<lambda>(field, v). seq_checks
       [bail_if (trim v = []) (Bail ''target {} identity.{} must not be empty'' [target_name, field]),
        validate_template (''target.identity.'' @ field) v IDENTITY_TEMPLATE_VARS])
       (List.map_filter (\<lambda>(field, v). map_option (Pair field) v)
          [(''bootstrap_user'', ti_bootstrap_user i), (''session_user'', ti_session_user i),
           (''session_uid'', ti_session_uid i), (''session_gid'', ti_session_gid i),
           (''session_home'', ti_session_home i), (''session_shell'', ti_session_shell i)])"

definition identity_validate :: "target_identity \<Rightarrow> string \<Rightarrow> unit res" where
  "identity_validate i target_name = seq_checks
     [identity_validate_partial i target_name,
      given (\<lambda>session_user. bail_if (\<not> contains_str ''{'' session_user
          \<and> (ti_session_uid i = None \<or> ti_session_gid i = None))
        (Bail ''target {} identity with literal session_user requires explicit session_uid and session_gid''
           [target_name])) (ti_session_user i)]"

definition overlay_identity :: "target_identity option \<Rightarrow> target_identity \<Rightarrow> target_identity" where
  "overlay_identity current later =
     (let identity = unwrap_or target_identity_default current in
      \<lparr>ti_bootstrap_user = over (ti_bootstrap_user identity) (ti_bootstrap_user later),
       ti_session_user = over (ti_session_user identity) (ti_session_user later),
       ti_session_uid = over (ti_session_uid identity) (ti_session_uid later),
       ti_session_gid = over (ti_session_gid identity) (ti_session_gid later),
       ti_session_home = over (ti_session_home identity) (ti_session_home later),
       ti_session_shell = over (ti_session_shell identity) (ti_session_shell later)\<rparr>)"

interpretation identity_layers:
  overlay_contract "\<lambda>current. overlay_identity (Some current)" target_identity_default
  by unfold_locales (simp_all add: overlay_identity_def target_identity_default_def Let_def)

definition validate_container_home :: "string \<Rightarrow> string \<Rightarrow> unit res" where
  "validate_container_home target_name container_home =
     and_then (validate_template ''target.container_home'' container_home IDENTITY_TEMPLATE_VARS) (\<lambda>_.
       let vars = fold (\<lambda>(k, v). bt_insert k v)
             [(''user'', ''user''), (''uid'', ''1000''), (''gid'', ''1000''), (''home'', ''/home/user'')] []
       in and_then (render container_home vars) (\<lambda>rendered.
            bail_if (\<not> path_is_absolute rendered)
              (Bail ''target {} container_home must render to an absolute path'' [target_name])))"

text \<open>\<open>ContainerSshConfig::validate\<close> accepts every configuration.\<close>

definition container_ssh_validate :: "container_ssh_config \<Rightarrow> unit res" where
  "container_ssh_validate c = Inr ()"

section \<open>Mounts and exposed sockets\<close>

record container_mount =
  cm_source :: string
  cm_target :: string
  cm_mode :: container_mount_mode

definition container_mount_validate :: "container_mount \<Rightarrow> unit res" where
  "container_mount_validate m = seq_checks
     [bail_if (trim (cm_source m) = []) (Bail ''container_mounts source must not be empty'' []),
      bail_if (trim (cm_target m) = []) (Bail ''container_mounts target must not be empty'' []),
      validate_template ''container_mounts.source'' (cm_source m) GATEWAY_TEMPLATE_VARS_NO_PID,
      validate_template ''container_mounts.target'' (cm_target m) GATEWAY_TEMPLATE_VARS_NO_PID]"

record host_socket_exposure =
  hse_host_path :: string
  hse_container_path :: string
  hse_user :: string
  hse_selinux_relabel :: selinux_relabel

definition default_host_socket_readiness_user :: string where
  "default_host_socket_readiness_user = ''root''"

definition leading_container_path_template_can_be_absolute :: "string \<Rightarrow> bool" where
  "leading_container_path_template_can_be_absolute key \<longleftrightarrow>
     key \<in> {''container_home'', ''container_state_dir_in_container'', ''home'', ''workspace'', ''state'',
            ''state_dir'', ''container_state_dir''} \<or> starts_with ''var.'' key"

text \<open>The part of a path after its leading separator: not empty and without empty or dot components.\<close>

definition normalized_rest :: "string \<Rightarrow> bool" where
  "normalized_rest rest \<longleftrightarrow> rest \<noteq> []
     \<and> \<not> list_ex (\<lambda>part. part = [] \<or> part = ''.'' \<or> part = ''..'') (split_char CHR ''/'' rest)"

text \<open>\<open>value.find('}')\<close> splits the value at its first closing brace, which the leading brace precedes.\<close>

definition validate_static_container_socket_path :: "string \<Rightarrow> string \<Rightarrow> unit res" where
  "validate_static_container_socket_path name v =
     and_then (referenced_keys v) (\<lambda>references.
       let normalized =
         (case strip_prefix ''/'' v of
            Some rest \<Rightarrow> normalized_rest rest
          | None \<Rightarrow>
              if references \<noteq> [] \<and> starts_with ''{'' v
              then (case split_once CHR ''}'' v of
                      None \<Rightarrow> False
                    | Some (before, suffix) \<Rightarrow>
                        leading_container_path_template_can_be_absolute (tl before)
                        \<and> (suffix = [] \<or> (case strip_prefix ''/'' suffix of
                             None \<Rightarrow> False | Some rest \<Rightarrow> normalized_rest rest)))
              else False)
       in bail_if (\<not> normalized)
            (Bail ''host_socket_exposures.{}.container_path must be a normalized absolute non-root path''
               [name]))"

definition exposure_field_check :: "string \<Rightarrow> string \<times> string \<Rightarrow> unit res" where
  "exposure_field_check name fv = (case fv of (field, v) \<Rightarrow> seq_checks
     [bail_if (trim v = []) (Bail ''host_socket_exposures.{}.{} must not be empty'' [name, field]),
      bail_if (contains_str '':'' v \<or> contains_str '','' v)
        (Bail (''host_socket_exposures.{}.{} must not contain ':' or ','' @ [CHR 0x27]) [name, field]),
      validate_template (''host_socket_exposures.'' @ name @ ''.'' @ field) v
        GATEWAY_TEMPLATE_VARS_NO_PID])"

definition exposure_validate :: "host_socket_exposure \<Rightarrow> string \<Rightarrow> unit res" where
  "exposure_validate e name = seq_checks
     [each (exposure_field_check name)
        [(''host_path'', hse_host_path e), (''container_path'', hse_container_path e)],
      bail_if (trim (hse_user e) = [] \<or> contains_str '':'' (hse_user e) \<or> contains_str '','' (hse_user e))
        (Bail ''host_socket_exposures.{}.user must name one container user'' [name]),
      validate_template (''host_socket_exposures.'' @ name @ ''.user'') (hse_user e)
        GATEWAY_TEMPLATE_VARS_NO_PID,
      validate_static_container_socket_path name (hse_container_path e)]"

definition exposure_validate_context_templates ::
  "host_socket_exposure \<Rightarrow> string \<Rightarrow> string list \<Rightarrow> unit res" where
  "exposure_validate_context_templates e field context_keys = seq_checks
     [validate_template_with_context (field @ ''.host_path'') (hse_host_path e)
        GATEWAY_TEMPLATE_VARS_NO_PID context_keys,
      validate_template_with_context (field @ ''.container_path'') (hse_container_path e)
        GATEWAY_TEMPLATE_VARS_NO_PID context_keys,
      validate_template_with_context (field @ ''.user'') (hse_user e)
        GATEWAY_TEMPLATE_VARS_NO_PID context_keys]"

text \<open>\<open>host_paths\<close> and \<open>container_paths\<close> map each path seen to the exposure that has it.\<close>

fun validate_exposures_loop ::
  "(string, string) btree \<Rightarrow> (string, string) btree \<Rightarrow> (string \<times> host_socket_exposure) list \<Rightarrow> unit res" where
  "validate_exposures_loop host_paths container_paths [] = Inr ()"
| "validate_exposures_loop host_paths container_paths ((name, exposure) # rest) = seq_checks
     [validate_name ''host socket exposure'' name,
      exposure_validate exposure name,
      (case bt_get host_paths (hse_host_path exposure) of
         Some existing \<Rightarrow> Inl (Bail ''host_socket_exposures.{}.host_path duplicates host_socket_exposures.{}.host_path'' [name, existing])
       | None \<Rightarrow> Inr ()),
      (case bt_get container_paths (hse_container_path exposure) of
         Some existing \<Rightarrow> Inl (Bail ''host_socket_exposures.{}.container_path duplicates host_socket_exposures.{}.container_path'' [name, existing])
       | None \<Rightarrow> Inr ()),
      validate_exposures_loop (bt_insert (hse_host_path exposure) name host_paths)
        (bt_insert (hse_container_path exposure) name container_paths) rest]"

definition validate_host_socket_exposures :: "(string, host_socket_exposure) btree \<Rightarrow> unit res" where
  "validate_host_socket_exposures exposures = validate_exposures_loop [] [] exposures"

end
