(* ===== verification/Services.thy ===== *)
theory Services
  imports Small_Configs
begin

text \<open>
  \<open>src/config/agent.rs\<close>: the services the container agent supervises and their checks. Reading
  files and the process environment are arguments of \<open>env_resolve\<close>. The dependency check is a
  depth-first search; its \<open>visiting\<close> set and its stack are restored on the way back, so they
  are passed down, while \<open>visited\<close> is threaded through.
\<close>

section \<open>Environment values and health checks\<close>

record env_value =
  ev_value :: "string option"
  ev_file :: "string option"
  ev_inherit :: "string option"
  ev_interpolate :: bool
  ev_required :: bool

definition env_validate :: "env_value \<Rightarrow> unit res" where
  "env_validate e = seq_checks
     [bail_if (length (filter (\<lambda>x. x \<noteq> None) [ev_value e, ev_file e, ev_inherit e]) \<noteq> 1)
        (Bail ''environment value must specify exactly one of value, file, or inherit'' []),
      given validate_env_key (ev_inherit e)]"

definition env_validate_templates :: "env_value \<Rightarrow> string list \<Rightarrow> unit res" where
  "env_validate_templates e allowed = seq_checks
     [(if ev_interpolate e then given (\<lambda>v. validate_template ''env.value'' v allowed) (ev_value e)
       else Inr ()),
      (if ev_interpolate e then given (\<lambda>f. validate_template ''env.file'' f allowed) (ev_file e)
       else Inr ())]"

text \<open>\<open>read_file\<close> is \<open>std::fs::read_to_string\<close>, \<open>env_var\<close> is \<open>std::env::var\<close>; \<open>None\<close> is an error.\<close>

definition env_resolve ::
  "(string \<Rightarrow> string option) \<Rightarrow> (string \<Rightarrow> string option) \<Rightarrow> env_value \<Rightarrow> vars \<Rightarrow> string option res"
where
  "env_resolve read_file env_var e vars =
     and_then (env_validate e) (\<lambda>_.
       case ev_value e of
         Some v \<Rightarrow> if ev_interpolate e then map_ok Some (render v vars) else Inr (Some v)
       | None \<Rightarrow>
           (case ev_file e of
              Some path \<Rightarrow>
                and_then (if ev_interpolate e then render path vars else Inr path) (\<lambda>rendered_path.
                  case read_file rendered_path of
                    Some contents \<Rightarrow>
                      let contents = trim contents in
                      if contents = [] \<and> ev_required e
                      then Inl (Bail ''environment file {} is empty'' [rendered_path])
                      else Inr (if contents = [] then None else Some contents)
                  | None \<Rightarrow>
                      if \<not> ev_required e then Inr None
                      else Inl (Bail ''read environment file {}'' [rendered_path]))
            | None \<Rightarrow>
                (case ev_inherit e of
                   Some name \<Rightarrow>
                     (case env_var name of
                        Some v \<Rightarrow> Inr (Some v)
                      | None \<Rightarrow>
                          if \<not> ev_required e then Inr None
                          else Inl (Bail ''inherit environment variable {}'' [name]))
                 | None \<Rightarrow> Inr None)))"

datatype health_check =
    HcProcess
  | HcTcp string nat "string option" "string option"
  | HcHttp string "nat option" "(string, string) btree" "string option" "string option"
  | HcCommand "string list" "string option"

fun health_check_validate :: "health_check \<Rightarrow> unit res" where
  "health_check_validate HcProcess = Inr ()"
| "health_check_validate (HcTcp host port interval timeout) = seq_checks
     [bail_if (host = []) (Bail ''tcp health check host is required'' []),
      each check_duration [interval, timeout]]"
| "health_check_validate (HcHttp url expect_status expect_json interval timeout) = seq_checks
     [bail_if (\<not> starts_with ''http://'' url)
        (Bail ''http health check url must start with http://'' []),
      each check_duration [interval, timeout]]"
| "health_check_validate (HcCommand command timeout) = seq_checks
     [validate_command ''health_check.command'' command, check_duration timeout]"

fun health_check_validate_templates :: "health_check \<Rightarrow> string list \<Rightarrow> unit res" where
  "health_check_validate_templates (HcCommand command _) allowed =
     validate_command_templates ''health_check.command'' command allowed"
| "health_check_validate_templates (HcHttp url _ _ _ _) allowed =
     validate_template ''health_check.url'' url allowed"
| "health_check_validate_templates _ allowed = Inr ()"

section \<open>Services\<close>

datatype restart_policy = RestartNever | RestartOnFailure | RestartAlways

record service_config =
  sc_name :: string
  sc_required :: bool
  sc_user :: string
  sc_command :: "string list"
  sc_cwd :: "string option"
  sc_restart :: restart_policy
  sc_restart_backoff :: "string option"
  sc_restart_backoff_max :: "string option"
  sc_startup_timeout :: "string option"
  sc_shutdown_timeout :: "string option"
  sc_depends_on :: "string list"
  sc_env :: "(string, env_value) btree"
  sc_health_check :: "health_check option"

datatype service_user_template_mode = GatewayManaged | Literal

definition validate_service_user :: "string \<Rightarrow> service_user_template_mode \<Rightarrow> unit res" where
  "validate_service_user user mode =
     (if user = SERVICE_USER_TEMPLATE \<and> mode = GatewayManaged then Inr ()
      else validate_name ''service.user'' user)"

fun is_command_check :: "health_check \<Rightarrow> bool" where
  "is_command_check (HcCommand _ _) = True"
| "is_command_check _ = False"

definition service_validate :: "service_config \<Rightarrow> service_user_template_mode \<Rightarrow> unit res" where
  "service_validate s mode = seq_checks
     [validate_name ''service'' (sc_name s),
      validate_service_user (sc_user s) mode,
      validate_command ''service.command'' (sc_command s),
      each (validate_name ''depends_on'') (sc_depends_on s),
      each validate_env_key (bt_keys (sc_env s)),
      validate_command_templates ''service.command'' (sc_command s) AGENT_TEMPLATE_VARS,
      given (\<lambda>cwd. validate_template ''service.cwd'' cwd AGENT_TEMPLATE_VARS) (sc_cwd s),
      each (\<lambda>(_, e). seq_checks [env_validate e, env_validate_templates e AGENT_TEMPLATE_VARS])
        (sc_env s),
      each check_duration
        [sc_restart_backoff s, sc_restart_backoff_max s, sc_startup_timeout s,
         sc_shutdown_timeout s],
      given (\<lambda>hc. seq_checks
          [bail_if (is_command_check hc) (Bail ''service health_check does not support command checks'' []),
           health_check_validate hc,
           health_check_validate_templates hc AGENT_TEMPLATE_VARS])
        (sc_health_check s)]"

section \<open>The dependency graph\<close>

type_synonym service_map = "(string, service_config) btree"

definition cycle_error :: "string list \<Rightarrow> error" where
  "cycle_error cycle = Bail ''container_agent service dependency cycle: {}'' [join '' -> '' cycle]"

function
  visit_service_dependency ::
    "string \<Rightarrow> service_map \<Rightarrow> string set \<Rightarrow> string list \<Rightarrow> string set \<Rightarrow> string set res"
and
  visit_dependencies ::
    "string list \<Rightarrow> service_map \<Rightarrow> string set \<Rightarrow> string list \<Rightarrow> string set \<Rightarrow> string set res"
where
  "visit_service_dependency name services_by_name visiting stack visited =
     (if name \<in> visited then Inr visited
      else if name \<in> visiting
      then Inl (cycle_error
        (drop (unwrap_or 0 (position (\<lambda>entry. entry = name) stack)) stack @ [name]))
      else case bt_get services_by_name name of
        None \<Rightarrow> Inr (insert name visited)
      | Some service \<Rightarrow>
          and_then (visit_dependencies (sc_depends_on service) services_by_name
              (insert name visiting) (stack @ [name]) visited)
            (\<lambda>visited'. Inr (insert name visited')))"
| "visit_dependencies [] services_by_name visiting stack visited = Inr visited"
| "visit_dependencies (dep # deps) services_by_name visiting stack visited =
     and_then (visit_service_dependency dep services_by_name visiting stack visited)
       (visit_dependencies deps services_by_name visiting stack)"
  by pat_completeness auto

text \<open>Each level of the search marks one more service as being visited.\<close>

termination
proof (relation "inv_image (less_than <*lex*> less_than) (\<lambda>x. case x of
     Inl (name, m, visiting, stack, visited) \<Rightarrow> (card (set (bt_keys m) - visiting), 0)
   | Inr (deps, m, visiting, stack, visited) \<Rightarrow>
       (card (set (bt_keys m) - visiting), Suc (length deps)))", goal_cases)
  case 1
  show ?case by (intro wf_inv_image wf_lex_prod wf_less_than)
next
  case (2 name m visiting stack visited service)
  then have "name \<in> set (bt_keys m) - visiting"
    using bt_get_in [of m name service] by (force simp: bt_keys_def)
  then have "card (set (bt_keys m) - insert name visiting) < card (set (bt_keys m) - visiting)"
    by (intro psubset_card_mono) auto
  then show ?case by simp
qed auto

declare visit_service_dependency.simps [simp del]

definition validate_service_dependency_graph :: "service_config list \<Rightarrow> unit res" where
  "validate_service_dependency_graph services =
     (let services_by_name = bt_extend [] (map (\<lambda>s. (sc_name s, s)) services)
      in map_ok (\<lambda>_. ()) (visit_dependencies (map sc_name services) services_by_name {} [] {}))"

section \<open>Lemmas on the dependency search\<close>

definition edges :: "service_map \<Rightarrow> (string \<times> string) set" where
  "edges m = {(n, d). \<exists>s. bt_get m n = Some s \<and> d \<in> set (sc_depends_on s)}"

definition path_in :: "(string \<times> string) set \<Rightarrow> string list \<Rightarrow> bool" where
  "path_in E p = successively (\<lambda>a b. (a, b) \<in> E) p"

definition is_cycle :: "(string \<times> string) set \<Rightarrow> string list \<Rightarrow> bool" where
  "is_cycle E c \<longleftrightarrow> length c \<ge> 2 \<and> hd c = last c \<and> path_in E c"

lemma path_in_snoc: "path_in E (p @ [a, b]) \<longleftrightarrow> path_in E (p @ [a]) \<and> (a, b) \<in> E"
  by (induction p rule: induct_list012) (auto simp: path_in_def)

lemma path_in_drop: "path_in E (p @ q) \<Longrightarrow> path_in E (drop i p @ q)"
  unfolding path_in_def by (metis append.assoc append_take_drop_id successively_append_iff)

lemma path_in_trancl: "path_in E (a # p @ [b]) \<Longrightarrow> (a, b) \<in> E\<^sup>+"
  by (induction p arbitrary: a) (auto simp: path_in_def intro: trancl_into_trancl2)

lemma is_cycle_trancl: "is_cycle E c \<Longrightarrow> \<exists>n. (n, n) \<in> E\<^sup>+"
proof -
  assume c: "is_cycle E c"
  then obtain a p b where "c = a # p @ [b]"
    by (cases c; cases "tl c" rule: rev_cases) (auto simp: is_cycle_def)
  with c show ?thesis using path_in_trancl [of E b p b] by (auto simp: is_cycle_def)
qed

text \<open>The nodes from which every path ends: the accessible part of the converse relation.\<close>

definition settled :: "(string \<times> string) set \<Rightarrow> string set" where
  "settled E = Wellfounded.acc (E\<inverse>)"

lemma acc_no_cycle: "n \<in> settled E \<Longrightarrow> (n, n) \<notin> E\<^sup>+"
  unfolding settled_def
proof (induction n rule: acc_induct_rule)
  case (1 n)
  show ?case
  proof
    assume "(n, n) \<in> E\<^sup>+"
    then obtain d where "(n, d) \<in> E" "(d, n) \<in> E\<^sup>*" by (meson tranclD)
    then have "(d, d) \<in> E\<^sup>+" by (meson rtrancl_into_trancl1)
    with 1 \<open>(n, d) \<in> E\<close> show False by blast
  qed
qed

lemma acc_step:
  assumes "\<And>d. (n, d) \<in> E \<Longrightarrow> d \<in> settled E"
  shows "n \<in> settled E"
  unfolding settled_def by (rule accI) (use assms in \<open>simp add: settled_def\<close>)

definition search_state_ok :: "service_map \<Rightarrow> string set \<Rightarrow> string list \<Rightarrow> string set \<Rightarrow> bool" where
  "search_state_ok m visiting stack visited \<longleftrightarrow>
     visiting = set stack \<and> visited \<subseteq> settled (edges m)"

definition search_result_ok :: "service_map \<Rightarrow> string list \<Rightarrow> string set \<Rightarrow> string set res \<Rightarrow> bool" where
  "search_result_ok m names visited r = (case r of
     Inr visited' \<Rightarrow> visited \<union> set names \<subseteq> visited' \<and> visited' \<subseteq> settled (edges m)
   | Inl e \<Rightarrow> \<exists>c. e = cycle_error c \<and> is_cycle (edges m) c)"

lemma search_result_insert:
  assumes "search_result_ok m deps visited r"
    and "set deps \<subseteq> settled (edges m) \<Longrightarrow> name \<in> settled (edges m)"
  shows "search_result_ok m [name] visited (and_then r (\<lambda>v. Inr (insert name v)))"
proof (cases r)
  case (Inl e)
  with assms(1) show ?thesis by (simp add: search_result_ok_def)
next
  case (Inr v)
  then have sub: "visited \<union> set deps \<subseteq> v" "v \<subseteq> settled (edges m)"
    using assms(1) by (simp_all add: search_result_ok_def)
  then have "name \<in> settled (edges m)" by (intro assms(2) order.trans [OF _ sub(2)]) blast
  then show ?thesis unfolding search_result_ok_def Inr and_then.simps sum.case using sub by auto
qed

lemma cycle_found:
  assumes "path_in E (stack @ [name])" and "name \<in> set stack"
  shows "is_cycle E (drop (unwrap_or 0 (position (\<lambda>entry. entry = name) stack)) stack @ [name])"
proof -
  obtain i where i: "position (\<lambda>entry. entry = name) stack = Some i"
    using assms(2) position_None [of "\<lambda>entry. entry = name" stack] by auto
  then have "i < length stack" "stack ! i = name" using position_key_Some by fast+
  then have "drop i stack \<noteq> []" "hd (drop i stack) = name" by (auto simp: hd_drop_conv_nth)
  with path_in_drop [OF assms(1), of i] show ?thesis
    by (cases "drop i stack") (auto simp: is_cycle_def i)
qed

lemma search_correct:
  "search_state_ok m visiting stack visited \<Longrightarrow> path_in (edges m) (stack @ [name]) \<Longrightarrow>
    search_result_ok m [name] visited (visit_service_dependency name m visiting stack visited)"
  "search_state_ok m visiting stack visited \<Longrightarrow> (\<And>d. d \<in> set deps \<Longrightarrow> path_in (edges m) (stack @ [d])) \<Longrightarrow>
    search_result_ok m deps visited (visit_dependencies deps m visiting stack visited)"
proof (induction name m visiting stack visited and deps m visiting stack visited
    rule: visit_service_dependency_visit_dependencies.induct)
  case (1 name m visiting stack visited)
  consider "name \<in> visited" | "name \<notin> visited" "name \<in> visiting"
    | "name \<notin> visited" "name \<notin> visiting" by blast
  then show ?case
  proof cases
    case 1
    with \<open>search_state_ok m visiting stack visited\<close> show ?thesis
      by (simp add: visit_service_dependency.simps search_result_ok_def search_state_ok_def)
  next
    case 2
    then show ?thesis using "1.prems" cycle_found [of "edges m" stack name]
      by (auto simp: visit_service_dependency.simps search_result_ok_def search_state_ok_def)
  next
    case 3
    show ?thesis
    proof (cases "bt_get m name")
      case None
      have "name \<in> settled (edges m)" by (rule acc_step) (simp add: edges_def None)
      moreover have "visit_service_dependency name m visiting stack visited = Inr (insert name visited)"
        using 3 None by (simp add: visit_service_dependency.simps [of name])
      ultimately show ?thesis using "1.prems"(1)
        by (auto simp: search_result_ok_def search_state_ok_def)
    next
      case (Some service)
      let ?deps = "sc_depends_on service"
      have succ: "(name, d) \<in> edges m \<longleftrightarrow> d \<in> set ?deps" for d using Some by (simp add: edges_def)
      have paths: "path_in (edges m) ((stack @ [name]) @ [d])" if "d \<in> set ?deps" for d
        using that "1.prems"(2) by (simp add: path_in_snoc succ)
      have "search_state_ok m (insert name visiting) (stack @ [name]) visited"
        using "1.prems"(1) by (auto simp: search_state_ok_def)
      from "1.IH" [OF 3 Some this] paths
      have sub: "search_result_ok m ?deps visited
          (visit_dependencies ?deps m (insert name visiting) (stack @ [name]) visited)" by blast
      have "name \<in> settled (edges m)"
        if "set ?deps \<subseteq> settled (edges m)"
        by (rule acc_step) (use that succ in blast)
      note acc = this
      have run: "visit_service_dependency name m visiting stack visited =
          and_then (visit_dependencies ?deps m (insert name visiting) (stack @ [name]) visited)
            (\<lambda>visited'. Inr (insert name visited'))"
        using 3 Some by (simp add: visit_service_dependency.simps [of name])
      show ?thesis unfolding run by (rule search_result_insert [OF sub acc])
    qed
  qed
next
  case (2 m visiting stack visited)
  then show ?case by (simp add: search_result_ok_def search_state_ok_def)
next
  case (3 dep deps m visiting stack visited)
  have first: "search_result_ok m [dep] visited (visit_service_dependency dep m visiting stack visited)"
    using 3 by simp
  show ?case
  proof (cases "visit_service_dependency dep m visiting stack visited")
    case (Inl e)
    with first show ?thesis by (simp add: search_result_ok_def)
  next
    case (Inr visited')
    with first "3.prems" have "search_state_ok m visiting stack visited'"
      by (simp add: search_result_ok_def search_state_ok_def)
    from "3.IH"(2) [OF Inr this] "3.prems"(2)
    have "search_result_ok m deps visited' (visit_dependencies deps m visiting stack visited')"
      by simp
    with first Inr show ?thesis
      by (cases "visit_dependencies deps m visiting stack visited'")
        (auto simp: search_result_ok_def)
  qed
qed

definition service_edges :: "service_config list \<Rightarrow> (string \<times> string) set" where
  "service_edges services = (\<Union>s \<in> set services. Pair (sc_name s) ` set (sc_depends_on s))"

lemma edges_services:
  assumes "distinct (map sc_name services)"
  shows "edges (bt_extend [] (map (\<lambda>s. (sc_name s, s)) services)) = service_edges services"
proof -
  let ?es = "map (\<lambda>s. (sc_name s, s)) services"
  have d: "distinct (map fst ?es)" using assms by (simp add: comp_def)
  then have "bt_get (bt_extend [] ?es) = map_of ?es"
    by (simp add: bt_get_extend_list) (simp add: bt_get_def)
  then have "bt_get (bt_extend [] ?es) n = Some s \<longleftrightarrow> s \<in> set services \<and> sc_name s = n" for n s
    using d by (auto simp: map_of_eq_Some_iff)
  then show ?thesis by (auto simp: edges_def service_edges_def)
qed

lemma acyclic_iff_acc:
  assumes "\<And>n d. (n, d) \<in> E \<Longrightarrow> n \<in> settled E"
  shows "acyclic E"
proof (rule acyclicI, intro allI notI)
  fix n
  assume loop: "(n, n) \<in> E\<^sup>+"
  then obtain d where "(n, d) \<in> E" by (meson tranclD)
  with assms acc_no_cycle loop show False by blast
qed

lemma dependency_graph_result:
  assumes "distinct (map sc_name services)"
  shows "case validate_service_dependency_graph services of
      Inr _ \<Rightarrow> acyclic (service_edges services)
    | Inl e \<Rightarrow> \<exists>c. e = cycle_error c \<and> is_cycle (service_edges services) c"
proof -
  let ?m = "bt_extend [] (map (\<lambda>s. (sc_name s, s)) services)"
  note E = edges_services [OF assms]
  define r where "r = visit_dependencies (map sc_name services) ?m {} [] {}"
  have result: "search_result_ok ?m (map sc_name services) {} r"
    unfolding r_def
    by (rule search_correct(2)) (simp_all add: search_state_ok_def path_in_def)
  have run: "validate_service_dependency_graph services = map_ok (\<lambda>_. ()) r"
    unfolding r_def validate_service_dependency_graph_def Let_def ..
  have acc: "acyclic (service_edges services)"
    if "set (map sc_name services) \<subseteq> settled (service_edges services)"
    by (rule acyclic_iff_acc) (use that in \<open>auto simp: service_edges_def\<close>)
  show ?thesis
  proof (cases r)
    case (Inl e)
    with result show ?thesis by (simp add: run search_result_ok_def E)
  next
    case (Inr v)
    with result have "set (map sc_name services) \<subseteq> settled (service_edges services)"
      unfolding search_result_ok_def E Inr sum.case by blast
    from acc [OF this] show ?thesis by (simp add: run Inr)
  qed
qed

section \<open>The container agent's configuration\<close>

datatype control_socket_config = CsPath string | CsEnabled bool

fun control_socket_is_enabled :: "control_socket_config \<Rightarrow> bool" where
  "control_socket_is_enabled c = (c \<noteq> CsEnabled False)"

fun control_socket_path :: "control_socket_config \<Rightarrow> string option" where
  "control_socket_path (CsPath path) = Some path"
| "control_socket_path (CsEnabled _) = None"

record ssh_bridge_config =
  sb_enabled :: bool
  sb_socket :: "string option"
  sb_target :: string
  sb_mode :: string

definition default_bridge_target :: string where
  "default_bridge_target = ''127.0.0.1:22''"

definition default_socket_mode :: string where
  "default_socket_mode = ''0600''"

definition check_bridge_mode :: "string \<Rightarrow> unit res" where
  "check_bridge_mode mode =
     and_then (parse_socket_mode mode) (\<lambda>m.
       bail_if (m \<noteq> 384) (Bail ''ssh_bridge mode currently supports only 0600'' []))"

definition ssh_bridge_validate_common :: "ssh_bridge_config \<Rightarrow> unit res" where
  "ssh_bridge_validate_common b = seq_checks
     [check_bridge_mode (sb_mode b),
      bail_if (\<not> contains_str '':'' (sb_target b)) (Bail ''ssh_bridge target must be host:port'' [])]"

definition ssh_bridge_validate_gateway :: "ssh_bridge_config \<Rightarrow> unit res" where
  "ssh_bridge_validate_gateway b = seq_checks
     [bail_if (sb_socket b \<noteq> None)
        (Bail ''container_agent.ssh_bridge.socket is managed by control_sockets.container_dir in gateway config'' []),
      ssh_bridge_validate_common b]"

definition ssh_bridge_validate_agent_file :: "ssh_bridge_config \<Rightarrow> unit res" where
  "ssh_bridge_validate_agent_file b = seq_checks
     [(case sb_socket b of
         Some socket \<Rightarrow>
           if trim socket = []
           then Inl (Bail ''ssh_bridge socket must not be empty when provided'' [])
           else validate_template ''ssh_bridge.socket'' socket AGENT_TEMPLATE_VARS
       | None \<Rightarrow>
           bail_if (sb_enabled b) (Bail ''ssh_bridge socket is required when enabled'' [])),
      ssh_bridge_validate_common b]"

record ssh_bridge_input =
  sbi_enabled :: "bool option"
  sbi_socket :: "string option"
  sbi_target :: "string option"
  sbi_mode :: "string option"

definition ssh_bridge_input_default :: ssh_bridge_input where
  "ssh_bridge_input_default =
     \<lparr>sbi_enabled = None, sbi_socket = None, sbi_target = None, sbi_mode = None\<rparr>"

definition ssh_bridge_overlay :: "ssh_bridge_input \<Rightarrow> ssh_bridge_input \<Rightarrow> ssh_bridge_input" where
  "ssh_bridge_overlay self later =
     \<lparr>sbi_enabled = over (sbi_enabled self) (sbi_enabled later),
      sbi_socket = over (sbi_socket self) (sbi_socket later),
      sbi_target = over (sbi_target self) (sbi_target later),
      sbi_mode = over (sbi_mode self) (sbi_mode later)\<rparr>"

definition ssh_bridge_into_effective :: "ssh_bridge_input \<Rightarrow> ssh_bridge_config" where
  "ssh_bridge_into_effective self =
     \<lparr>sb_enabled = unwrap_or True (sbi_enabled self),
      sb_socket = sbi_socket self,
      sb_target = unwrap_or default_bridge_target (sbi_target self),
      sb_mode = unwrap_or default_socket_mode (sbi_mode self)\<rparr>"

definition ssh_bridge_validate_partial_gateway :: "ssh_bridge_input \<Rightarrow> unit res" where
  "ssh_bridge_validate_partial_gateway b = seq_checks
     [bail_if (sbi_socket b \<noteq> None)
        (Bail ''container_agent.ssh_bridge.socket is managed by control_sockets.container_dir in gateway config'' []),
      given check_bridge_mode (sbi_mode b),
      given (\<lambda>t. bail_if (\<not> contains_str '':'' t) (Bail ''ssh_bridge target must be host:port'' []))
        (sbi_target b)]"

interpretation ssh_bridge_layers: overlay_contract ssh_bridge_overlay ssh_bridge_input_default
  by unfold_locales (simp_all add: ssh_bridge_overlay_def ssh_bridge_input_default_def)

record container_agent_config =
  ca_enabled :: bool
  ca_services :: "service_config list"
  ca_ssh_bridge :: "ssh_bridge_config option"
  ca_control_socket :: "control_socket_config option"
  ca_idle_cleanup :: "idle_cleanup_config option"

definition container_agent_default :: container_agent_config where
  "container_agent_default =
     \<lparr>ca_enabled = True, ca_services = [], ca_ssh_bridge = None, ca_control_socket = None,
      ca_idle_cleanup = None\<rparr>"

text \<open>The loop that validates each service and collects its name, and the one over the
  dependencies; \<open>validate_common\<close> and \<open>validate_partial\<close> share their text.\<close>

fun collect_service_names ::
  "service_user_template_mode \<Rightarrow> string set \<Rightarrow> service_config list \<Rightarrow> string set res" where
  "collect_service_names mode names [] = Inr names"
| "collect_service_names mode names (s # services) =
     and_then (service_validate s mode) (\<lambda>_.
       if sc_name s \<in> names
       then Inl (Bail ''duplicate container_agent service {}'' [sc_name s])
       else collect_service_names mode (insert (sc_name s) names) services)"

definition validate_services ::
  "service_user_template_mode \<Rightarrow> service_config list \<Rightarrow> unit res" where
  "validate_services mode services =
     and_then (collect_service_names mode {} services) (\<lambda>names. seq_checks
       [each (\<lambda>s. each (\<lambda>dep. bail_if (dep \<notin> names)
            (Bail ''service {} depends on unknown service {}'' [sc_name s, dep])) (sc_depends_on s))
          services,
        validate_service_dependency_graph services])"

definition is_path_socket :: "control_socket_config \<Rightarrow> bool" where
  "is_path_socket c = (control_socket_path c \<noteq> None)"

definition container_agent_validate_common ::
  "container_agent_config \<Rightarrow> service_user_template_mode \<Rightarrow> unit res" where
  "container_agent_validate_common c mode =
     (if \<not> ca_enabled c
      then seq_checks
        [bail_if (ca_services c \<noteq> [])
           (Bail ''container_agent services require container_agent.enabled = true'' []),
         bail_if (case ca_ssh_bridge c of None \<Rightarrow> False | Some b \<Rightarrow> sb_enabled b)
           (Bail ''enabled ssh_bridge requires container_agent.enabled = true'' []),
         bail_if (case ca_control_socket c of None \<Rightarrow> False | Some s \<Rightarrow> control_socket_is_enabled s)
           (Bail ''container_agent.control_socket requires container_agent.enabled = true'' []),
         bail_if (ca_idle_cleanup c \<noteq> None)
           (Bail ''container_agent.idle_cleanup requires container_agent.enabled = true'' [])]
      else seq_checks
        [validate_services mode (ca_services c),
         given idle_cleanup_validate (ca_idle_cleanup c)])"

definition container_agent_validate_gateway :: "container_agent_config \<Rightarrow> unit res" where
  "container_agent_validate_gateway c = seq_checks
     [bail_if (case ca_control_socket c of None \<Rightarrow> False | Some s \<Rightarrow> is_path_socket s)
        (Bail ''container_agent.control_socket path values are managed by control_sockets.container_dir in gateway config; use false to disable the control socket'' []),
      given ssh_bridge_validate_gateway (ca_ssh_bridge c),
      container_agent_validate_common c GatewayManaged]"

definition container_agent_validate_agent_file :: "container_agent_config \<Rightarrow> unit res" where
  "container_agent_validate_agent_file c = seq_checks
     [given ssh_bridge_validate_agent_file (ca_ssh_bridge c),
      given (\<lambda>path. validate_template ''container_agent.control_socket'' path AGENT_TEMPLATE_VARS)
        (Option.bind (ca_control_socket c) control_socket_path),
      container_agent_validate_common c Literal]"

definition needs_identity_token :: "container_agent_config \<Rightarrow> bool" where
  "needs_identity_token c \<longleftrightarrow> ca_enabled c \<and>
     list_ex (\<lambda>s. list_ex (\<lambda>(_, e). ev_inherit e = Some ''AW_IDENTITY_TOKEN'') (sc_env s)) (ca_services c)"

record container_agent_input =
  cai_enabled :: "bool option"
  cai_services :: "service_config list"
  cai_ssh_bridge :: "ssh_bridge_input option"
  cai_control_socket :: "control_socket_config option"
  cai_idle_cleanup :: "idle_cleanup_input option"

definition merge_services :: "service_config list \<Rightarrow> service_config list \<Rightarrow> service_config list res" where
  "merge_services = merge_named ''container_agent.services'' sc_name"

definition container_agent_overlay ::
  "container_agent_input \<Rightarrow> container_agent_input \<Rightarrow> container_agent_input res" where
  "container_agent_overlay self later =
     map_ok (\<lambda>services.
       \<lparr>cai_enabled = over (cai_enabled self) (cai_enabled later),
        cai_services = services,
        cai_ssh_bridge = (case cai_ssh_bridge later of None \<Rightarrow> cai_ssh_bridge self
          | Some b \<Rightarrow> Some (ssh_bridge_overlay
              (unwrap_or ssh_bridge_input_default (cai_ssh_bridge self)) b)),
        cai_control_socket = over (cai_control_socket self) (cai_control_socket later),
        cai_idle_cleanup = (case cai_idle_cleanup later of None \<Rightarrow> cai_idle_cleanup self
          | Some i \<Rightarrow> Some (idle_cleanup_overlay
              (unwrap_or idle_cleanup_input_default (cai_idle_cleanup self)) i))\<rparr>)
       (merge_services (cai_services self) (cai_services later))"

definition container_agent_into_effective :: "container_agent_input \<Rightarrow> container_agent_config res" where
  "container_agent_into_effective self =
     and_then (case cai_idle_cleanup self of None \<Rightarrow> Inr None
         | Some i \<Rightarrow> map_ok Some (idle_cleanup_into_effective i)) (\<lambda>idle_cleanup.
       let cfg = \<lparr>ca_enabled = unwrap_or True (cai_enabled self),
                  ca_services = cai_services self,
                  ca_ssh_bridge = map_option ssh_bridge_into_effective (cai_ssh_bridge self),
                  ca_control_socket = cai_control_socket self,
                  ca_idle_cleanup = idle_cleanup\<rparr>
       in map_ok (\<lambda>_. cfg) (container_agent_validate_gateway cfg))"

definition container_agent_validate_partial :: "container_agent_input \<Rightarrow> unit res" where
  "container_agent_validate_partial c = seq_checks
     [validate_services GatewayManaged (cai_services c),
      given ssh_bridge_validate_partial_gateway (cai_ssh_bridge c),
      bail_if (case cai_control_socket c of None \<Rightarrow> False | Some s \<Rightarrow> is_path_socket s)
        (Bail ''container_agent.control_socket path values are managed by control_sockets.container_dir in gateway config; use false to disable the control socket'' []),
      given (\<lambda>i. map_ok (\<lambda>_. ()) (idle_cleanup_into_effective i)) (cai_idle_cleanup c)]"

section \<open>Properties\<close>

text \<open>C11. The dependency check accepts exactly the service lists whose dependency relation is
  acyclic, and an error names a cycle of it.\<close>

theorem dependency_check_finds_cycles:
  assumes "distinct (map sc_name services)"
  shows "(validate_service_dependency_graph services = Inr () \<longleftrightarrow> acyclic (service_edges services))
    \<and> (\<forall>e. validate_service_dependency_graph services = Inl e \<longrightarrow>
        (\<exists>c. e = cycle_error c \<and> is_cycle (service_edges services) c))"
proof (cases "validate_service_dependency_graph services")
  case (Inl e)
  then obtain c where c: "e = cycle_error c" "is_cycle (service_edges services) c"
    using dependency_graph_result [OF assms] by auto
  then have "\<not> acyclic (service_edges services)"
    using is_cycle_trancl by (auto simp: acyclic_def)
  with Inl c show ?thesis by auto
next
  case (Inr u)
  with dependency_graph_result [OF assms] show ?thesis by simp
qed

definition plain_service :: "string \<Rightarrow> string list \<Rightarrow> service_config" where
  "plain_service name deps =
     \<lparr>sc_name = name, sc_required = True, sc_user = ''root'', sc_command = [''/bin/true''],
      sc_cwd = None, sc_restart = RestartAlways, sc_restart_backoff = None,
      sc_restart_backoff_max = None, sc_startup_timeout = None, sc_shutdown_timeout = None,
      sc_depends_on = deps, sc_env = [], sc_health_check = None\<rparr>"

theorem dependency_check_finds_cycles_witness:
  "\<exists>c. validate_service_dependency_graph [plain_service ''a'' [''b''], plain_service ''b'' [''a'']]
      = Inl (cycle_error c)
    \<and> is_cycle (service_edges [plain_service ''a'' [''b''], plain_service ''b'' [''a'']]) c"
proof -
  let ?s = "[plain_service ''a'' [''b''], plain_service ''b'' [''a'']]"
  have "(''a'', ''b'') \<in> service_edges ?s" "(''b'', ''a'') \<in> service_edges ?s"
    by (auto simp: service_edges_def plain_service_def)
  then have "(''a'', ''a'') \<in> (service_edges ?s)\<^sup>+"
    by (meson r_into_trancl trancl_into_trancl)
  then have "\<not> acyclic (service_edges ?s)" by (auto simp: acyclic_def)
  with dependency_check_finds_cycles [of ?s] show ?thesis
    by (cases "validate_service_dependency_graph ?s") (auto simp: plain_service_def)
qed

lemma collect_service_names_Inr:
  "collect_service_names mode names services = Inr out \<longleftrightarrow>
    (\<forall>s \<in> set services. service_validate s mode = Inr ())
    \<and> distinct (map sc_name services) \<and> names \<inter> sc_name ` set services = {}
    \<and> out = names \<union> sc_name ` set services"
proof (induction services arbitrary: names)
  case Nil
  then show ?case by auto
next
  case (Cons s services)
  show ?case
  proof (cases "sc_name s \<in> names")
    case True
    then show ?thesis by (auto simp: and_then_Inr)
  next
    case False
    then show ?thesis by (auto simp: and_then_Inr Cons.IH)
  qed
qed

lemma validate_services_Inr:
  "validate_services mode services = Inr () \<longleftrightarrow>
    (\<forall>s \<in> set services. service_validate s mode = Inr ())
    \<and> distinct (map sc_name services)
    \<and> (\<forall>s \<in> set services. set (sc_depends_on s) \<subseteq> sc_name ` set services)
    \<and> validate_service_dependency_graph services = Inr ()"
  by (auto simp: validate_services_def and_then_Inr collect_service_names_Inr bail_if_Inr)

text \<open>The services of an accepted container agent can be started: their names are distinct,
  every dependency is one of them, and no service waits for itself through any chain; a disabled
  agent has none, no bridge and no idle cleanup.\<close>

theorem accepted_agent_services:
  assumes "container_agent_validate_gateway c = Inr ()"
  shows "if ca_enabled c
    then distinct (map sc_name (ca_services c))
      \<and> snd ` service_edges (ca_services c) \<subseteq> sc_name ` set (ca_services c)
      \<and> acyclic (service_edges (ca_services c))
    else ca_services c = [] \<and> ca_idle_cleanup c = None
      \<and> (\<forall>b. ca_ssh_bridge c = Some b \<longrightarrow> \<not> sb_enabled b)"
proof (cases "ca_enabled c")
  case True
  with assms have "validate_services GatewayManaged (ca_services c) = Inr ()"
    by (simp add: container_agent_validate_gateway_def container_agent_validate_common_def)
  then have ok: "distinct (map sc_name (ca_services c))"
    "\<forall>s \<in> set (ca_services c). set (sc_depends_on s) \<subseteq> sc_name ` set (ca_services c)"
    "validate_service_dependency_graph (ca_services c) = Inr ()"
    unfolding validate_services_Inr by blast+
  have "acyclic (service_edges (ca_services c))"
    using dependency_graph_result [OF ok(1)] ok(3) by simp
  moreover have "snd ` service_edges (ca_services c) \<subseteq> sc_name ` set (ca_services c)"
    using ok(2) unfolding service_edges_def by force
  ultimately show ?thesis using True ok(1) by simp
next
  case False
  with assms show ?thesis
    by (auto simp: container_agent_validate_gateway_def container_agent_validate_common_def
        bail_if_Inr)
qed

theorem accepted_agent_services_witness:
  "distinct (map sc_name (ca_services (container_agent_default\<lparr>ca_services := [plain_service ''a'' []]\<rparr>)))"
  using accepted_agent_services [of "container_agent_default\<lparr>ca_services := [plain_service ''a'' []]\<rparr>"]
  by (simp add: container_agent_validate_gateway_def container_agent_validate_common_def
      container_agent_default_def validate_services_def service_validate_def plain_service_def
      validate_name_def validate_service_user_def SERVICE_USER_TEMPLATE_def validate_command_def
      validate_command_templates_def validate_template_def validate_template_with_policy_def
      referenced_keys_def referenced_keys_from.simps bt_keys_def check_duration_def
      char_class_defs validate_service_dependency_graph_def bt_extend_def
      visit_service_dependency.simps bt_get_def)

text \<open>A required environment value is never dropped: resolution either fails or yields a value,
  and what comes from a file is its content without surrounding blanks, not empty.\<close>

theorem required_environment_never_dropped:
  assumes "env_resolve read_file env_var e vars = Inr ov" and "ev_required e"
  shows "\<exists>v. ov = Some v \<and> (ev_file e \<noteq> None \<longrightarrow> v \<noteq> [] \<and> trim v = v)"
proof -
  have valid: "env_validate e = Inr ()" using assms(1) by (cases "env_validate e") (auto simp: env_resolve_def)
  consider (v) v where "ev_value e = Some v" "ev_file e = None"
    | (f) f where "ev_value e = None" "ev_file e = Some f"
    | (i) i where "ev_value e = None" "ev_file e = None" "ev_inherit e = Some i"
    using valid by (cases "ev_value e"; cases "ev_file e"; cases "ev_inherit e")
      (auto simp: env_validate_def bail_if_Inr)
  then show ?thesis
  proof cases
    case v
    have "\<exists>r. ov = Some r"
      using assms(1) by (auto simp: v env_resolve_def valid map_ok_Inr split: if_splits)
    with v show ?thesis by simp
  next
    case f
    from assms obtain p where p: "(if ev_interpolate e then render f vars else Inr f) = Inr p"
      by (cases "if ev_interpolate e then render f vars else Inr f")
        (auto simp: env_resolve_def valid f)
    from assms f show ?thesis
      by (cases "read_file p") (auto simp: env_resolve_def valid p Let_def split: if_splits)
  next
    case i
    with assms show ?thesis
      by (cases "env_var i") (auto simp: env_resolve_def valid)
  qed
qed

theorem required_environment_never_dropped_witness:
  "\<exists>v. Some ''x'' = Some v \<and> v \<noteq> [] \<and> trim v = v"
  using required_environment_never_dropped
    [of "\<lambda>_. Some ''x ''" "\<lambda>_. None"
      "\<lparr>ev_value = None, ev_file = Some ''/f'', ev_inherit = None, ev_interpolate = False, ev_required = True\<rparr>"
      "[]" "Some ''x''"]
  by (simp add: env_resolve_def env_validate_def trim_def is_whitespace_def)

end
