(* ===== verification/Steps.thy ===== *)
theory Steps
  imports Services
begin

text \<open>
  \<open>src/config/steps.rs\<close>: lifecycle, host and container-bootstrap steps of a target. A later layer
  patches the inherited list: it may replace, remove, or insert a step before or after another.
  The merge is generic in the source over a key trait and a patch trait; here it takes the patch
  of a raw step, the label of a key and the conversion. The locale \<open>step_list\<close> is its contract
  (a converted step has the key of its patch), interpreted for the three kinds of steps.
\<close>

section \<open>Keys and patches\<close>

datatype lifecycle_phase = PreStart | PostStartHost | PreStop | PostStop

fun phase_name :: "lifecycle_phase \<Rightarrow> string" where
  "phase_name PreStart = ''pre_start''"
| "phase_name PostStartHost = ''post_start_host''"
| "phase_name PreStop = ''pre_stop''"
| "phase_name PostStop = ''post_stop''"

text \<open>\<open>StepKey\<close> is its name; \<open>LifecycleStepKey\<close> is the pair of its phase and its name.\<close>

type_synonym step_key = string
type_synonym lifecycle_step_key = "lifecycle_phase option \<times> string"

definition step_reference_key :: "step_key \<Rightarrow> string \<Rightarrow> step_key" where
  "step_reference_key key name = name"

definition step_label :: "step_key \<Rightarrow> string" where
  "step_label key = key"

definition lifecycle_reference_key :: "lifecycle_step_key \<Rightarrow> string \<Rightarrow> lifecycle_step_key" where
  "lifecycle_reference_key key name = (fst key, name)"

definition lifecycle_label :: "lifecycle_step_key \<Rightarrow> string" where
  "lifecycle_label key = (case key of (Some phase, name) \<Rightarrow> phase_name phase @ ''/'' @ name
     | (None, name) \<Rightarrow> name)"

datatype patch_state = PatchEnabled | PatchRemove

datatype 'k patch_position =
  PatchAppend | PatchBefore 'k string | PatchAfter 'k string | ConflictingBeforeAfter

record 'k step_patch =
  tp_key :: 'k
  tp_state :: patch_state
  tp_position :: "'k patch_position"
  tp_payload :: bool

text \<open>\<open>TargetStepPatch::from_raw\<close> on what the accessors of a raw step return.\<close>

definition patch_from_raw ::
  "('k \<Rightarrow> string \<Rightarrow> 'k) \<Rightarrow> 'k \<Rightarrow> bool \<Rightarrow> string option \<Rightarrow> string option \<Rightarrow> bool \<Rightarrow> 'k step_patch" where
  "patch_from_raw reference_key key enabled before after has_payload =
     \<lparr>tp_key = key,
      tp_state = (if enabled then PatchEnabled else PatchRemove),
      tp_position = (case (before, after) of
          (Some b, None) \<Rightarrow> PatchBefore (reference_key key b) b
        | (None, Some a) \<Rightarrow> PatchAfter (reference_key key a) a
        | (Some _, Some _) \<Rightarrow> ConflictingBeforeAfter
        | (None, None) \<Rightarrow> PatchAppend),
      tp_payload = has_payload\<rparr>"

section \<open>The three kinds of steps\<close>

record raw_lifecycle_step =
  rls_phase :: lifecycle_phase
  rls_name :: string
  rls_enabled :: bool
  rls_before :: "string option"
  rls_after :: "string option"
  rls_required :: "bool option"
  rls_command :: "string list option"
  rls_timeout :: "string option"

record lifecycle_step =
  lcs_phase :: lifecycle_phase
  lcs_name :: string
  lcs_required :: bool
  lcs_command :: "string list"
  lcs_timeout :: "string option"

record raw_host_step =
  rhs_name :: string
  rhs_enabled :: bool
  rhs_before :: "string option"
  rhs_after :: "string option"
  rhs_required :: "bool option"
  rhs_command :: "string list option"
  rhs_health_check :: "health_check option"
  rhs_timeout :: "string option"

record host_step =
  hs_name :: string
  hs_required :: bool
  hs_command :: "string list"
  hs_health_check :: "health_check option"
  hs_timeout :: "string option"

record raw_bootstrap_step =
  rbs_name :: string
  rbs_enabled :: bool
  rbs_before :: "string option"
  rbs_after :: "string option"
  rbs_required :: "bool option"
  rbs_user :: "string option"
  rbs_command :: "string list option"
  rbs_timeout :: "string option"

record bootstrap_step =
  bs_name :: string
  bs_required :: bool
  bs_user :: string
  bs_command :: "string list"
  bs_timeout :: "string option"

subsection \<open>Inheriting the payload\<close>

datatype payload_policy = TimeoutOnlyReplacement | NoInheritedPayload

fun allows_inherited_payload :: "payload_policy \<Rightarrow> bool" where
  "allows_inherited_payload TimeoutOnlyReplacement = True"
| "allows_inherited_payload NoInheritedPayload = False"

definition lifecycle_inherits_payload :: "payload_policy \<Rightarrow> raw_lifecycle_step \<Rightarrow> bool" where
  "lifecycle_inherits_payload policy step \<longleftrightarrow> allows_inherited_payload policy
     \<and> rls_timeout step \<noteq> None \<and> rls_command step = None \<and> rls_required step = None"

definition host_inherits_payload :: "payload_policy \<Rightarrow> raw_host_step \<Rightarrow> bool" where
  "host_inherits_payload policy step \<longleftrightarrow> allows_inherited_payload policy
     \<and> rhs_timeout step \<noteq> None \<and> rhs_command step = None \<and> rhs_required step = None
     \<and> rhs_health_check step = None"

definition inherit_optional :: "payload_policy \<Rightarrow> bool \<Rightarrow> 't option \<Rightarrow> ('t \<Rightarrow> 'u) \<Rightarrow> 'u option" where
  "inherit_optional policy should_inherit inherited field =
     (if allows_inherited_payload policy \<and> should_inherit then map_option field inherited else None)"

text \<open>\<open>Option::or_else\<close>.\<close>

definition or_else :: "'a option \<Rightarrow> 'a option \<Rightarrow> 'a option" where
  "or_else a b = (case a of None \<Rightarrow> b | Some x \<Rightarrow> Some x)"

lemma or_else_simps [simp]: "or_else None b = b" "or_else (Some x) b = Some x" "or_else a None = a"
  by (simp_all add: or_else_def split: option.splits)

lemma inherit_optional_simps [simp]:
  "inherit_optional policy b None field = None" "inherit_optional policy False inherited field = None"
  by (simp_all add: inherit_optional_def)

definition lifecycle_to_effective ::
  "raw_lifecycle_step \<Rightarrow> lifecycle_step option \<Rightarrow> lifecycle_step res" where
  "lifecycle_to_effective self inherited =
     (let policy = TimeoutOnlyReplacement;
          inherit_payload = lifecycle_inherits_payload policy self;
          command = or_else (rls_command self)
            (inherit_optional policy inherit_payload inherited lcs_command)
      in map_ok (\<lambda>command.
           \<lparr>lcs_phase = rls_phase self,
            lcs_name = rls_name self,
            lcs_required = unwrap_or True (or_else (rls_required self)
              (inherit_optional policy inherit_payload inherited lcs_required)),
            lcs_command = command,
            lcs_timeout = rls_timeout self\<rparr>)
         (ok_or (Bail ''lifecycle_steps {}/{} command must be provided when enabled''
            [phase_name (rls_phase self), rls_name self]) command))"

definition lifecycle_from_effective :: "lifecycle_step \<Rightarrow> raw_lifecycle_step" where
  "lifecycle_from_effective step =
     \<lparr>rls_phase = lcs_phase step, rls_name = lcs_name step, rls_enabled = True,
      rls_before = None, rls_after = None, rls_required = Some (lcs_required step),
      rls_command = Some (lcs_command step), rls_timeout = lcs_timeout step\<rparr>"

definition host_to_effective :: "raw_host_step \<Rightarrow> host_step option \<Rightarrow> host_step res" where
  "host_to_effective self inherited =
     (let policy = TimeoutOnlyReplacement;
          inherit_payload = host_inherits_payload policy self;
          command = or_else (rhs_command self)
            (inherit_optional policy inherit_payload inherited hs_command)
      in map_ok (\<lambda>command.
           \<lparr>hs_name = rhs_name self,
            hs_required = unwrap_or True (or_else (rhs_required self)
              (inherit_optional policy inherit_payload inherited hs_required)),
            hs_command = command,
            hs_health_check = or_else (rhs_health_check self)
              (Option.bind (inherit_optional policy inherit_payload inherited hs_health_check) id),
            hs_timeout = rhs_timeout self\<rparr>)
         (ok_or (Bail ''host_steps {} command must be provided when enabled'' [rhs_name self])
            command))"

definition host_from_effective :: "host_step \<Rightarrow> raw_host_step" where
  "host_from_effective step =
     \<lparr>rhs_name = hs_name step, rhs_enabled = True, rhs_before = None, rhs_after = None,
      rhs_required = Some (hs_required step), rhs_command = Some (hs_command step),
      rhs_health_check = hs_health_check step, rhs_timeout = hs_timeout step\<rparr>"

definition default_root :: string where
  "default_root = ''root''"

definition bootstrap_to_effective :: "raw_bootstrap_step \<Rightarrow> bootstrap_step res" where
  "bootstrap_to_effective self =
     map_ok (\<lambda>command.
       \<lparr>bs_name = rbs_name self,
        bs_required = unwrap_or True (rbs_required self),
        bs_user = unwrap_or default_root (rbs_user self),
        bs_command = command,
        bs_timeout = rbs_timeout self\<rparr>)
     (ok_or (Bail ''container_bootstrap_steps {} command must be provided when enabled''
        [rbs_name self]) (rbs_command self))"

definition bootstrap_from_effective :: "bootstrap_step \<Rightarrow> raw_bootstrap_step" where
  "bootstrap_from_effective step =
     \<lparr>rbs_name = bs_name step, rbs_enabled = True, rbs_before = None, rbs_after = None,
      rbs_required = Some (bs_required step), rbs_user = Some (bs_user step),
      rbs_command = Some (bs_command step), rbs_timeout = bs_timeout step\<rparr>"

subsection \<open>Patches of raw steps\<close>

definition lifecycle_has_payload :: "raw_lifecycle_step \<Rightarrow> bool" where
  "lifecycle_has_payload s \<longleftrightarrow>
     rls_required s \<noteq> None \<or> rls_command s \<noteq> None \<or> rls_timeout s \<noteq> None"

definition host_has_payload :: "raw_host_step \<Rightarrow> bool" where
  "host_has_payload s \<longleftrightarrow> rhs_required s \<noteq> None \<or> rhs_command s \<noteq> None
     \<or> rhs_health_check s \<noteq> None \<or> rhs_timeout s \<noteq> None"

definition bootstrap_has_payload :: "raw_bootstrap_step \<Rightarrow> bool" where
  "bootstrap_has_payload s \<longleftrightarrow> rbs_required s \<noteq> None \<or> rbs_user s \<noteq> None
     \<or> rbs_command s \<noteq> None \<or> rbs_timeout s \<noteq> None"

definition lifecycle_patch :: "raw_lifecycle_step \<Rightarrow> lifecycle_step_key step_patch" where
  "lifecycle_patch s = patch_from_raw lifecycle_reference_key (Some (rls_phase s), rls_name s)
     (rls_enabled s) (rls_before s) (rls_after s) (lifecycle_has_payload s)"

definition host_patch :: "raw_host_step \<Rightarrow> step_key step_patch" where
  "host_patch s = patch_from_raw step_reference_key (rhs_name s)
     (rhs_enabled s) (rhs_before s) (rhs_after s) (host_has_payload s)"

definition bootstrap_patch :: "raw_bootstrap_step \<Rightarrow> step_key step_patch" where
  "bootstrap_patch s = patch_from_raw step_reference_key (rbs_name s)
     (rbs_enabled s) (rbs_before s) (rbs_after s) (bootstrap_has_payload s)"

definition lifecycle_key :: "lifecycle_step \<Rightarrow> lifecycle_step_key" where
  "lifecycle_key s = (Some (lcs_phase s), lcs_name s)"

subsection \<open>Validation of effective steps\<close>

definition lifecycle_validate :: "lifecycle_step \<Rightarrow> string \<Rightarrow> unit res" where
  "lifecycle_validate s field = seq_checks
     [validate_name field (lcs_name s),
      validate_command field (lcs_command s),
      validate_command_templates field (lcs_command s)
        (case lcs_phase s of PreStart \<Rightarrow> GATEWAY_TEMPLATE_VARS_NO_PID
         | _ \<Rightarrow> GATEWAY_TEMPLATE_VARS),
      check_duration (lcs_timeout s)]"

definition host_validate :: "host_step \<Rightarrow> string \<Rightarrow> unit res" where
  "host_validate s field = seq_checks
     [validate_name field (hs_name s),
      validate_command field (hs_command s),
      validate_command_templates field (hs_command s) GATEWAY_TEMPLATE_VARS,
      check_duration (hs_timeout s),
      given (\<lambda>hc. seq_checks
          [bail_if (hc = HcProcess) (Bail ''host_step health_check does not support process checks'' []),
           health_check_validate hc,
           health_check_validate_templates hc GATEWAY_TEMPLATE_VARS])
        (hs_health_check s)]"

definition bootstrap_validate :: "bootstrap_step \<Rightarrow> unit res" where
  "bootstrap_validate s = seq_checks
     [validate_name ''container_bootstrap.steps.name'' (bs_name s),
      bail_if (trim (bs_user s) = []) (Bail ''container_bootstrap.steps.user must not be empty'' []),
      validate_template ''container_bootstrap.steps.user'' (bs_user s) GATEWAY_TEMPLATE_VARS_NO_PID,
      validate_command ''container_bootstrap.steps.command'' (bs_command s),
      validate_command_templates ''container_bootstrap.steps.command'' (bs_command s)
        GATEWAY_TEMPLATE_VARS_NO_PID,
      check_duration (bs_timeout s)]"

text \<open>\<open>RenderedContainerBootstrapStep\<close> has the fields of \<open>ContainerBootstrapStep\<close>.\<close>

definition rendered_bootstrap_validate :: "bootstrap_step \<Rightarrow> unit res" where
  "rendered_bootstrap_validate s = seq_checks
     [validate_name ''bootstrap step'' (bs_name s),
      bail_if (trim (bs_user s) = []) (Bail ''bootstrap step user must not be empty'' []),
      validate_command ''bootstrap step command'' (bs_command s)]"

section \<open>Validating and merging patches\<close>

fun validate_raw_steps_loop ::
  "string \<Rightarrow> string \<Rightarrow> ('k \<Rightarrow> string) \<Rightarrow> ('r \<Rightarrow> 'k step_patch) \<Rightarrow> 'k set \<Rightarrow> 'r list \<Rightarrow> unit res" where
  "validate_raw_steps_loop target_name list_name label patch_of keys [] = Inr ()"
| "validate_raw_steps_loop target_name list_name label patch_of keys (step # steps) =
     (let patch = patch_of step; l = label (tp_key patch) in
      if tp_key patch \<in> keys
      then Inl (Bail ''target {} defines duplicate {} {}'' [target_name, list_name, l])
      else if tp_position patch = ConflictingBeforeAfter
      then Inl (Bail ''target {} {} {} sets both before and after'' [target_name, list_name, l])
      else if tp_state patch = PatchRemove \<and> tp_payload patch
      then Inl (Bail ''target {} {} {} is disabled but includes command payload''
        [target_name, list_name, l])
      else validate_raw_steps_loop target_name list_name label patch_of
        (insert (tp_key patch) keys) steps)"

definition validate_raw_target_steps ::
  "string \<Rightarrow> string \<Rightarrow> ('k \<Rightarrow> string) \<Rightarrow> ('r \<Rightarrow> 'k step_patch) \<Rightarrow> 'r list \<Rightarrow> unit res" where
  "validate_raw_target_steps target_name list_name label patch_of steps =
     validate_raw_steps_loop target_name list_name label patch_of {} steps"

text \<open>Where a step that is not in the list goes.\<close>

definition insert_index ::
  "string \<Rightarrow> ('k \<Rightarrow> string) \<Rightarrow> 'k step_patch \<Rightarrow> 'k list \<Rightarrow> nat res" where
  "insert_index list_name label patch keys =
     (case tp_position patch of
        PatchBefore reference name \<Rightarrow>
          ok_or (Bail ''{} {} references missing before = {}'' [list_name, label (tp_key patch), name])
            (position (\<lambda>c. c = reference) keys)
      | PatchAfter reference name \<Rightarrow>
          ok_or (Bail ''{} {} references missing after = {}'' [list_name, label (tp_key patch), name])
            (map_option Suc (position (\<lambda>c. c = reference) keys))
      | PatchAppend \<Rightarrow> Inr (length keys)
      | ConflictingBeforeAfter \<Rightarrow>
          Inl (Bail ''{} {} sets both before and after'' [list_name, label (tp_key patch)]))"

text \<open>One round of the loop, on \<open>result\<close> and \<open>effective_keys\<close>.\<close>

definition merge_step ::
  "string \<Rightarrow> ('k \<Rightarrow> string) \<Rightarrow> ('r \<Rightarrow> 'k step_patch) \<Rightarrow> ('r \<Rightarrow> 't option \<Rightarrow> 't res) \<Rightarrow> 'r \<Rightarrow>
     't list \<times> 'k list \<Rightarrow> ('t list \<times> 'k list) res" where
  "merge_step list_name label patch_of convert entry st =
     (let result = fst st; keys = snd st; patch = patch_of entry in
      case position (\<lambda>c. c = tp_key patch) keys of
        Some index \<Rightarrow>
          if tp_position patch \<noteq> PatchAppend
          then Inl (Bail ''{} {} replaces an inherited entry and must not set before or after''
            [list_name, label (tp_key patch)])
          else (case tp_state patch of
              PatchEnabled \<Rightarrow>
                map_ok (\<lambda>t. (result[index := t], keys[index := tp_key patch]))
                  (convert entry (Some (result ! index)))
            | PatchRemove \<Rightarrow> Inr (remove_at index result, remove_at index keys))
      | None \<Rightarrow>
          if tp_state patch = PatchRemove
          then Inl (Bail ''{} {} is disabled but does not match an inherited entry''
            [list_name, label (tp_key patch)])
          else and_then (insert_index list_name label patch keys) (\<lambda>at.
                 map_ok (\<lambda>t. (insert_at at t result, insert_at at (tp_key patch) keys))
                   (convert entry None)))"

fun merge_steps_loop ::
  "string \<Rightarrow> ('k \<Rightarrow> string) \<Rightarrow> ('r \<Rightarrow> 'k step_patch) \<Rightarrow> ('r \<Rightarrow> 't option \<Rightarrow> 't res) \<Rightarrow> 'r list \<Rightarrow>
     't list \<times> 'k list \<Rightarrow> ('t list \<times> 'k list) res" where
  "merge_steps_loop list_name label patch_of convert [] st = Inr st"
| "merge_steps_loop list_name label patch_of convert (entry # raw) st =
     and_then (merge_step list_name label patch_of convert entry st)
       (merge_steps_loop list_name label patch_of convert raw)"

definition merge_target_step_patches ::
  "string \<Rightarrow> ('k \<Rightarrow> string) \<Rightarrow> ('t \<Rightarrow> 'k) \<Rightarrow> ('r \<Rightarrow> 'k step_patch) \<Rightarrow> ('r \<Rightarrow> 't option \<Rightarrow> 't res) \<Rightarrow>
     't list \<Rightarrow> 'r list \<Rightarrow> 't list res" where
  "merge_target_step_patches list_name label inherited_key patch_of convert inherited raw =
     (let effective_keys = map inherited_key inherited in
      if length (remdups effective_keys) \<noteq> length effective_keys
      then Inl (Bail ''{} contains duplicate inherited keys'' [list_name])
      else and_then (merge_steps_loop list_name label patch_of convert raw (inherited, effective_keys))
        (\<lambda>(result, keys).
           if length (remdups keys) \<noteq> length keys
           then Inl (Bail ''{} contains duplicate effective keys'' [list_name])
           else Inr result))"

definition merge_lifecycle_steps ::
  "lifecycle_step list \<Rightarrow> raw_lifecycle_step list \<Rightarrow> lifecycle_step list res" where
  "merge_lifecycle_steps = merge_target_step_patches ''lifecycle_steps'' lifecycle_label lifecycle_key
     lifecycle_patch lifecycle_to_effective"

definition merge_host_steps :: "host_step list \<Rightarrow> raw_host_step list \<Rightarrow> host_step list res" where
  "merge_host_steps = merge_target_step_patches ''host_steps'' step_label hs_name host_patch
     host_to_effective"

definition merge_bootstrap_steps ::
  "bootstrap_step list \<Rightarrow> raw_bootstrap_step list \<Rightarrow> bootstrap_step list res" where
  "merge_bootstrap_steps = merge_target_step_patches ''container_bootstrap_steps'' step_label bs_name
     bootstrap_patch (\<lambda>step _. bootstrap_to_effective step)"

section \<open>What a merge does to the list\<close>

text \<open>The abstract view of a list of steps: the order of its keys and the step of each key.\<close>

definition view :: "('t \<Rightarrow> 'k) \<Rightarrow> 't list \<Rightarrow> 'k list \<times> ('k \<Rightarrow> 't option)" where
  "view key xs = (map key xs, by_key key xs)"

definition place :: "'k \<Rightarrow> 'k patch_position \<Rightarrow> 'k list \<Rightarrow> 'k list option" where
  "place k pos ks = (case pos of
     PatchAppend \<Rightarrow> Some (ks @ [k])
   | PatchBefore r _ \<Rightarrow>
       if r \<in> set ks then Some (takeWhile (\<lambda>c. c \<noteq> r) ks @ k # dropWhile (\<lambda>c. c \<noteq> r) ks) else None
   | PatchAfter r _ \<Rightarrow>
       if r \<in> set ks then Some (takeWhile (\<lambda>c. c \<noteq> r) ks @ r # k # tl (dropWhile (\<lambda>c. c \<noteq> r) ks))
       else None
   | ConflictingBeforeAfter \<Rightarrow> None)"

definition apply_patch ::
  "('r \<Rightarrow> 'k step_patch) \<Rightarrow> ('r \<Rightarrow> 't option \<Rightarrow> 't res) \<Rightarrow> 'r \<Rightarrow> 'k list \<times> ('k \<Rightarrow> 't option) \<Rightarrow>
     ('k list \<times> ('k \<Rightarrow> 't option)) option" where
  "apply_patch patch_of convert e st =
     (let ks = fst st; m = snd st; p = patch_of e; k = tp_key p in
      if k \<in> set ks
      then if tp_position p \<noteq> PatchAppend then None
           else (case tp_state p of
               PatchRemove \<Rightarrow> Some (filter (\<lambda>c. c \<noteq> k) ks, m(k := None))
             | PatchEnabled \<Rightarrow> (case convert e (m k) of Inl _ \<Rightarrow> None | Inr t \<Rightarrow> Some (ks, m(k \<mapsto> t))))
      else if tp_state p = PatchRemove then None
      else (case place k (tp_position p) ks of None \<Rightarrow> None
        | Some ks' \<Rightarrow> (case convert e None of Inl _ \<Rightarrow> None | Inr t \<Rightarrow> Some (ks', m(k \<mapsto> t)))))"

fun apply_patches ::
  "('r \<Rightarrow> 'k step_patch) \<Rightarrow> ('r \<Rightarrow> 't option \<Rightarrow> 't res) \<Rightarrow> 'r list \<Rightarrow> 'k list \<times> ('k \<Rightarrow> 't option) \<Rightarrow>
     ('k list \<times> ('k \<Rightarrow> 't option)) option" where
  "apply_patches patch_of convert [] st = Some st"
| "apply_patches patch_of convert (e # es) st =
     Option.bind (apply_patch patch_of convert e st) (apply_patches patch_of convert es)"

definition ok_part :: "'a res \<Rightarrow> 'a option" where
  "ok_part r = (case r of Inl _ \<Rightarrow> None | Inr x \<Rightarrow> Some x)"

lemma ok_part_simps [simp]: "ok_part (Inl e) = None" "ok_part (Inr x) = Some x"
  by (simp_all add: ok_part_def)

lemma position_split:
  assumes "position (\<lambda>c. c = k) ks = Some i"
  shows "takeWhile (\<lambda>c. c \<noteq> k) ks = take i ks" and "dropWhile (\<lambda>c. c \<noteq> k) ks = drop i ks"
    and "drop i ks = k # drop (Suc i) ks" and "take (Suc i) ks = take i ks @ [k]"
proof -
  have "takeWhile (\<lambda>c. c \<noteq> k) ks = take i ks \<and> dropWhile (\<lambda>c. c \<noteq> k) ks = drop i ks"
    using assms by (induction ks arbitrary: i) (auto split: if_splits)
  then show "takeWhile (\<lambda>c. c \<noteq> k) ks = take i ks" "dropWhile (\<lambda>c. c \<noteq> k) ks = drop i ks"
    by blast+
  have "i < length ks" "ks ! i = k" using position_key_Some [OF assms] by auto
  then show "drop i ks = k # drop (Suc i) ks" "take (Suc i) ks = take i ks @ [k]"
    by (simp_all add: Cons_nth_drop_Suc [symmetric] take_Suc_conv_app_nth)
qed

lemma insert_index_place:
  "map_option (\<lambda>at. insert_at at (tp_key p) ks) (ok_part (insert_index list_name label p ks))
     = place (tp_key p) (tp_position p) ks"
proof (cases "tp_position p")
  case (PatchBefore r n)
  show ?thesis
  proof (cases "position (\<lambda>c. c = r) ks")
    case None
    then show ?thesis using position_None [of "\<lambda>c. c = r" ks]
      by (auto simp: insert_index_def place_def PatchBefore)
  next
    case (Some i)
    then have "r \<in> set ks" using position_key_Some [OF Some] by auto
    then show ?thesis using position_split(1,2) [OF Some]
      by (simp add: insert_index_def place_def PatchBefore Some insert_at_def)
  qed
next
  case (PatchAfter r n)
  show ?thesis
  proof (cases "position (\<lambda>c. c = r) ks")
    case None
    then show ?thesis using position_None [of "\<lambda>c. c = r" ks]
      by (auto simp: insert_index_def place_def PatchAfter)
  next
    case (Some i)
    then have "r \<in> set ks" using position_key_Some [OF Some] by auto
    then show ?thesis using position_split [OF Some]
      by (simp add: insert_index_def place_def PatchAfter Some insert_at_def)
  qed
qed (simp_all add: insert_index_def place_def insert_at_def)

lemma by_key_insert_at:
  assumes "distinct (map key xs)" and "key t \<notin> key ` set xs"
  shows "by_key key (insert_at i t xs) = (by_key key xs)(key t \<mapsto> t)"
proof (rule by_key_eqI)
  show "distinct (map key (insert_at i t xs))"
    using assms by (simp add: map_insert_at distinct_insert_at)
  show "((by_key key xs)(key t \<mapsto> t)) k = Some x \<longleftrightarrow> x \<in> set (insert_at i t xs) \<and> key x = k" for k x
  proof -
    have "x \<in> set xs \<Longrightarrow> key x \<noteq> key t" using assms(2) by (metis image_eqI)
    then show ?thesis using assms(1) by (auto simp: set_insert_at by_key_Some)
  qed
qed

lemma by_key_remove_at:
  assumes "distinct (map key xs)" and "i < length xs"
  shows "by_key key (remove_at i xs) = (by_key key xs)(key (xs ! i) := None)"
proof (rule by_key_eqI)
  show "distinct (map key (remove_at i xs))"
    using assms by (simp add: map_remove_at distinct_remove_at)
  have "distinct xs" using assms(1) by (simp add: distinct_map)
  then have "set (remove_at i xs) = set xs - {xs ! i}" by (rule set_remove_at) (rule assms(2))
  moreover have "x = xs ! i" if "x \<in> set xs" "key x = key (xs ! i)" for x
    using that assms by (auto simp: distinct_map dest: inj_onD)
  ultimately show "((by_key key xs)(key (xs ! i) := None)) k = Some x
      \<longleftrightarrow> x \<in> set (remove_at i xs) \<and> key x = k" for k x
    using assms by (auto simp: by_key_Some)
qed

lemma remove_at_filter:
  assumes "distinct ks" and "i < length ks"
  shows "remove_at i ks = filter (\<lambda>c. c \<noteq> ks ! i) ks"
proof -
  have ks: "ks = take i ks @ ks ! i # drop (Suc i) ks"
    using assms(2) by (rule id_take_nth_drop)
  have "ks ! i \<notin> set (take i ks)" "ks ! i \<notin> set (drop (Suc i) ks)"
    using remove_at_not_in [OF assms] by (simp_all add: remove_at_def)
  then have "filter (\<lambda>c. c \<noteq> ks ! i) (take i ks) = take i ks"
    "filter (\<lambda>c. c \<noteq> ks ! i) (drop (Suc i) ks) = drop (Suc i) ks"
    by (metis (mono_tags, lifting) filter_True)+
  then have "filter (\<lambda>c. c \<noteq> ks ! i) (take i ks @ ks ! i # drop (Suc i) ks) = remove_at i ks"
    by (simp add: remove_at_def)
  then show ?thesis using ks by simp
qed

text \<open>A patch leaves the other keys, their order and their steps alone.\<close>

lemma place_frame:
  assumes "place k pos ks = Some ks'" and "k \<notin> set ks"
  shows "filter (\<lambda>c. c \<noteq> k) ks' = ks"
proof -
  have other: "filter (\<lambda>c. c \<noteq> k) l = l" if "set l \<subseteq> set ks" for l
    using that assms(2) by (auto simp: filter_id_conv)
  have parts: "ks = takeWhile P ks @ dropWhile P ks" for P :: "'a \<Rightarrow> bool" by simp
  have after: "dropWhile (\<lambda>c. c \<noteq> r) ks = r # tl (dropWhile (\<lambda>c. c \<noteq> r) ks)" if "r \<in> set ks" for r
    using that by (induction ks) auto
  show ?thesis
  proof (cases pos)
    case PatchAppend
    with assms other [of ks] show ?thesis by (auto simp: place_def)
  next
    case (PatchBefore r n)
    with assms(1) have ks': "ks' = takeWhile (\<lambda>c. c \<noteq> r) ks @ k # dropWhile (\<lambda>c. c \<noteq> r) ks"
      by (auto simp: place_def split: if_splits)
    then have "filter (\<lambda>c. c \<noteq> k) ks' = filter (\<lambda>c. c \<noteq> k) (takeWhile (\<lambda>c. c \<noteq> r) ks @ dropWhile (\<lambda>c. c \<noteq> r) ks)"
      by (simp only: filter_append filter.simps) simp
    then show ?thesis using other [of ks] by simp
  next
    case (PatchAfter r n)
    with assms(1) have r: "r \<in> set ks"
      and ks': "ks' = takeWhile (\<lambda>c. c \<noteq> r) ks @ r # k # tl (dropWhile (\<lambda>c. c \<noteq> r) ks)"
      by (auto simp: place_def split: if_splits)
    then have "filter (\<lambda>c. c \<noteq> k) ks'
        = filter (\<lambda>c. c \<noteq> k) (takeWhile (\<lambda>c. c \<noteq> r) ks @ r # tl (dropWhile (\<lambda>c. c \<noteq> r) ks))"
      by (simp only: filter_append filter.simps) simp
    also have "takeWhile (\<lambda>c. c \<noteq> r) ks @ r # tl (dropWhile (\<lambda>c. c \<noteq> r) ks) = ks"
      using parts [of "\<lambda>c. c \<noteq> r"] after [OF r] by simp
    finally show ?thesis using other [of ks] by simp
  next
    case ConflictingBeforeAfter
    with assms show ?thesis by (simp add: place_def)
  qed
qed

lemma apply_patch_frame:
  assumes "apply_patch patch_of convert e (ks, m) = Some (ks', m')"
  shows "filter (\<lambda>c. c \<noteq> tp_key (patch_of e)) ks' = filter (\<lambda>c. c \<noteq> tp_key (patch_of e)) ks"
    and "k \<noteq> tp_key (patch_of e) \<Longrightarrow> m' k = m k"
proof -
  let ?k = "tp_key (patch_of e)"
  have "filter (\<lambda>c. c \<noteq> ?k) ks' = filter (\<lambda>c. c \<noteq> ?k) ks \<and> (\<forall>k. k \<noteq> ?k \<longrightarrow> m' k = m k)"
  proof (cases "?k \<in> set ks")
    case True
    with assms show ?thesis
      by (auto simp: apply_patch_def Let_def split: if_splits patch_state.splits sum.splits)
  next
    case False
    then obtain t where "place ?k (tp_position (patch_of e)) ks = Some ks'" "m' = m(?k \<mapsto> t)"
      using assms by (auto simp: apply_patch_def Let_def split: if_splits option.splits sum.splits)
    moreover have "filter (\<lambda>c. c \<noteq> ?k) ks = ks" using False by (auto simp: filter_id_conv)
    ultimately show ?thesis using place_frame [OF _ False] by simp
  qed
  then show "filter (\<lambda>c. c \<noteq> ?k) ks' = filter (\<lambda>c. c \<noteq> ?k) ks" "k \<noteq> ?k \<Longrightarrow> m' k = m k"
    by blast+
qed

definition patched :: "('r \<Rightarrow> 'k step_patch) \<Rightarrow> 'r list \<Rightarrow> 'k set" where
  "patched patch_of es = (\<lambda>e. tp_key (patch_of e)) ` set es"

lemma apply_patches_frame:
  assumes "apply_patches patch_of convert es (ks, m) = Some (ks', m')"
  shows "filter (\<lambda>c. c \<notin> patched patch_of es) ks' = filter (\<lambda>c. c \<notin> patched patch_of es) ks
    \<and> (\<forall>k. k \<notin> patched patch_of es \<longrightarrow> m' k = m k)"
  using assms
proof (induction es arbitrary: ks m)
  case Nil
  then show ?case by simp
next
  case (Cons e es)
  then obtain ks1 m1 where one: "apply_patch patch_of convert e (ks, m) = Some (ks1, m1)"
    and rest: "apply_patches patch_of convert es (ks1, m1) = Some (ks', m')"
    by (auto simp: Option.bind_eq_Some_conv)
  let ?k = "tp_key (patch_of e)"
  have split: "filter (\<lambda>c. c \<notin> patched patch_of (e # es)) l
      = filter (\<lambda>c. c \<notin> patched patch_of es) (filter (\<lambda>c. c \<noteq> ?k) l)"
    "filter (\<lambda>c. c \<notin> patched patch_of (e # es)) l
      = filter (\<lambda>c. c \<noteq> ?k) (filter (\<lambda>c. c \<notin> patched patch_of es) l)" for l
    by (auto simp: patched_def intro: filter_cong)
  have "filter (\<lambda>c. c \<notin> patched patch_of (e # es)) ks' = filter (\<lambda>c. c \<notin> patched patch_of (e # es)) ks1"
    using Cons.IH [OF rest] by (simp only: split(2))
  also have "\<dots> = filter (\<lambda>c. c \<notin> patched patch_of (e # es)) ks"
    by (simp only: split(1) apply_patch_frame(1) [OF one])
  finally show ?case
    using Cons.IH [OF rest] apply_patch_frame(2) [OF one] by (auto simp: patched_def)
qed

locale step_list =
  fixes key :: "'t \<Rightarrow> 'k" and patch_of :: "'r \<Rightarrow> 'k step_patch"
    and convert :: "'r \<Rightarrow> 't option \<Rightarrow> 't res"
  assumes convert_key: "convert r inherited = Inr t \<Longrightarrow> key t = tp_key (patch_of r)"
begin

text \<open>One round keeps \<open>effective_keys\<close> the keys of \<open>result\<close>, all distinct, and is the patch on
  the view.\<close>

lemma merge_step_view:
  assumes "distinct (map key xs)"
  shows "map_option (\<lambda>(ys, ks). (ks, by_key key ys))
      (ok_part (merge_step list_name label patch_of convert e (xs, map key xs)))
    = apply_patch patch_of convert e (view key xs)"
    and "merge_step list_name label patch_of convert e (xs, map key xs) = Inr (ys, ks) \<Longrightarrow>
      ks = map key ys \<and> distinct ks"
proof -
  let ?p = "patch_of e"
  let ?step = "merge_step list_name label patch_of convert e (xs, map key xs)"
  have "map_option (\<lambda>(ys, ks). (ks, by_key key ys)) (ok_part ?step)
      = apply_patch patch_of convert e (view key xs)
    \<and> (\<forall>ys ks. ?step = Inr (ys, ks) \<longrightarrow> ks = map key ys \<and> distinct ks)"
  proof (cases "position (\<lambda>c. c = tp_key ?p) (map key xs)")
    case (Some i)
    then have i: "i < length xs" "key (xs ! i) = tp_key ?p"
      using position_key_Some [OF Some] by auto
    then have mem: "tp_key ?p \<in> key ` set xs" by (metis image_eqI nth_mem)
    have old: "by_key key xs (tp_key ?p) = Some (xs ! i)" using assms i by (simp add: by_key_Some)
    have step: "merge_step list_name label patch_of convert e (xs, map key xs) =
       (if tp_position ?p \<noteq> PatchAppend
          then Inl (Bail ''{} {} replaces an inherited entry and must not set before or after''
            [list_name, label (tp_key ?p)])
          else (case tp_state ?p of
              PatchEnabled \<Rightarrow> map_ok (\<lambda>t. (xs[i := t], (map key xs)[i := tp_key ?p]))
                  (convert e (Some (xs ! i)))
            | PatchRemove \<Rightarrow> Inr (remove_at i xs, remove_at i (map key xs))))"
      by (simp add: merge_step_def Some Let_def)
    show ?thesis
    proof (cases "tp_state ?p")
      case PatchRemove
      have "remove_at i (map key xs) = filter (\<lambda>c. c \<noteq> tp_key ?p) (map key xs)"
        using remove_at_filter [OF assms, of i] i by simp
      then show ?thesis using i mem assms
        by (auto simp: step PatchRemove apply_patch_def view_def by_key_remove_at map_remove_at
            distinct_remove_at Let_def)
    next
      case PatchEnabled
      show ?thesis
      proof (cases "convert e (Some (xs ! i))")
        case (Inl err)
        then show ?thesis using mem old
          by (simp add: step PatchEnabled apply_patch_def view_def)
      next
        case (Inr t)
        have t: "key t = tp_key ?p" by (rule convert_key [OF Inr])
        then have keys: "map key (xs[i := t]) = map key xs" using i by (simp add: map_update_same)
        then have "(map key xs)[i := tp_key ?p] = map key xs" using t by (simp add: map_update)
        then show ?thesis using mem old Inr keys t i assms
          by (simp add: step PatchEnabled apply_patch_def view_def by_key_update)
      qed
    qed
  next
    case None
    then have mem: "tp_key ?p \<notin> key ` set xs" by (auto simp: position_None)
    have step: "merge_step list_name label patch_of convert e (xs, map key xs) =
       (if tp_state ?p = PatchRemove
          then Inl (Bail ''{} {} is disabled but does not match an inherited entry''
            [list_name, label (tp_key ?p)])
          else and_then (insert_index list_name label ?p (map key xs)) (\<lambda>at.
                 map_ok (\<lambda>t. (insert_at at t xs, insert_at at (tp_key ?p) (map key xs)))
                   (convert e None)))"
      by (simp add: merge_step_def None Let_def)
    note place = insert_index_place [of ?p "map key xs" list_name label, symmetric]
    show ?thesis
    proof (cases "insert_index list_name label ?p (map key xs)")
      case (Inl err)
      then show ?thesis using mem by (simp add: step apply_patch_def view_def place)
    next
      case at: (Inr at)
      show ?thesis
      proof (cases "convert e None")
        case (Inl err)
        then show ?thesis using mem at by (simp add: step apply_patch_def view_def place)
      next
        case (Inr t)
        have t: "key t = tp_key ?p" by (rule convert_key [OF Inr])
        show ?thesis using mem Inr at t assms
          by (simp add: step apply_patch_def view_def place by_key_insert_at map_insert_at
              distinct_insert_at Let_def)
      qed
    qed
  qed
  then show "map_option (\<lambda>(ys, ks). (ks, by_key key ys)) (ok_part ?step)
      = apply_patch patch_of convert e (view key xs)"
    and "?step = Inr (ys, ks) \<Longrightarrow> ks = map key ys \<and> distinct ks"
    by blast+
qed

lemma merge_loop_view:
  assumes "distinct (map key xs)"
  shows "map_option (\<lambda>(ys, ks). (ks, by_key key ys))
      (ok_part (merge_steps_loop list_name label patch_of convert raw (xs, map key xs)))
    = apply_patches patch_of convert raw (view key xs)"
    and "merge_steps_loop list_name label patch_of convert raw (xs, map key xs) = Inr (ys, ks) \<Longrightarrow>
      ks = map key ys \<and> distinct ks"
proof -
  have "map_option (\<lambda>(ys, ks). (ks, by_key key ys))
      (ok_part (merge_steps_loop list_name label patch_of convert raw (xs, map key xs)))
      = apply_patches patch_of convert raw (view key xs)
    \<and> (\<forall>ys ks. merge_steps_loop list_name label patch_of convert raw (xs, map key xs) = Inr (ys, ks)
        \<longrightarrow> ks = map key ys \<and> distinct ks)"
    using assms
  proof (induction raw arbitrary: xs)
    case Nil
    then show ?case by (simp add: view_def)
  next
    case (Cons e raw)
    note one = merge_step_view(1) [OF Cons.prems, of list_name label e, symmetric]
    show ?case
    proof (cases "merge_step list_name label patch_of convert e (xs, map key xs)")
      case (Inl err)
      then show ?thesis by (simp add: one)
    next
      case (Inr st)
      obtain ys ks where st: "st = (ys, ks)" by force
      have ys: "ks = map key ys" "distinct (map key ys)"
        using merge_step_view(2) [OF Cons.prems Inr [unfolded st]] by auto
      from Cons.IH [OF ys(2)] show ?thesis
        by (simp add: one Inr st ys(1) view_def [symmetric])
    qed
  qed
  then show "map_option (\<lambda>(ys, ks). (ks, by_key key ys))
      (ok_part (merge_steps_loop list_name label patch_of convert raw (xs, map key xs)))
      = apply_patches patch_of convert raw (view key xs)"
    and "merge_steps_loop list_name label patch_of convert raw (xs, map key xs) = Inr (ys, ks) \<Longrightarrow>
      ks = map key ys \<and> distinct ks"
    by blast+
qed

text \<open>The merge is the patches on the view; its last check never fails.\<close>

lemma merge_view:
  "map_option (view key)
      (ok_part (merge_target_step_patches list_name label key patch_of convert inherited raw))
    = (if distinct (map key inherited) then apply_patches patch_of convert raw (view key inherited)
       else None)"
proof (cases "distinct (map key inherited)")
  case False
  then show ?thesis by (simp add: merge_target_step_patches_def length_remdups_distinct Let_def)
next
  case True
  let ?loop = "merge_steps_loop list_name label patch_of convert raw (inherited, map key inherited)"
  have run: "merge_target_step_patches list_name label key patch_of convert inherited raw =
      and_then ?loop (\<lambda>(result, keys).
           if length (remdups keys) \<noteq> length keys
           then Inl (Bail ''{} contains duplicate effective keys'' [list_name]) else Inr result)"
    using True
    by (simp only: merge_target_step_patches_def length_remdups_distinct Let_def not_True_eq_False
        if_False)
  note view = merge_loop_view(1) [OF True, of list_name label raw, symmetric]
  show ?thesis
  proof (cases ?loop)
    case (Inl err)
    then show ?thesis by (simp add: run True view)
  next
    case (Inr st)
    obtain ys ks where st: "st = (ys, ks)" by force
    have ys: "ks = map key ys" "distinct (map key ys)"
      using merge_loop_view(2) [OF True Inr [unfolded st]] by auto
    then show ?thesis by (simp add: run True view Inr st length_remdups_distinct view_def [of key ys])
  qed
qed

lemma merge_frame:
  assumes "merge_target_step_patches list_name label key patch_of convert inherited raw = Inr out"
  shows "distinct (map key inherited)
    \<and> filter (\<lambda>c. c \<notin> patched patch_of raw) (map key out)
        = filter (\<lambda>c. c \<notin> patched patch_of raw) (map key inherited)
    \<and> (\<forall>k. k \<notin> patched patch_of raw \<longrightarrow> by_key key out k = by_key key inherited k)"
proof -
  have d: "distinct (map key inherited)"
    and eq: "apply_patches patch_of convert raw (map key inherited, by_key key inherited)
      = Some (map key out, by_key key out)"
    using merge_view [of list_name label inherited raw, symmetric] assms
    by (auto simp: view_def split: if_splits)
  from d apply_patches_frame [OF eq] show ?thesis by blast
qed

end

lemma lifecycle_convert_key:
  "lifecycle_to_effective r inherited = Inr t \<Longrightarrow> lifecycle_key t = tp_key (lifecycle_patch r)"
  by (auto simp: lifecycle_to_effective_def Let_def map_ok_Inr lifecycle_key_def lifecycle_patch_def
      patch_from_raw_def)

lemma host_convert_key: "host_to_effective r inherited = Inr t \<Longrightarrow> hs_name t = tp_key (host_patch r)"
  by (auto simp: host_to_effective_def Let_def map_ok_Inr host_patch_def patch_from_raw_def)

lemma bootstrap_convert_key: "bootstrap_to_effective r = Inr t \<Longrightarrow> bs_name t = tp_key (bootstrap_patch r)"
  by (auto simp: bootstrap_to_effective_def map_ok_Inr bootstrap_patch_def patch_from_raw_def)

interpretation lifecycle: step_list lifecycle_key lifecycle_patch lifecycle_to_effective
  by unfold_locales (rule lifecycle_convert_key)

interpretation host: step_list hs_name host_patch host_to_effective
  by unfold_locales (rule host_convert_key)

interpretation bootstrap: step_list bs_name bootstrap_patch "\<lambda>step _. bootstrap_to_effective step"
  by unfold_locales (rule bootstrap_convert_key)

section \<open>Properties\<close>

text \<open>C10. Merging steps is applying the patches one by one to the ordered keys and the step of each
  key: a patch replaces, removes, or inserts exactly where it says, and the merge fails exactly
  when the inherited keys are not distinct or a patch does not apply.\<close>

theorem step_merge_refines_patches:
  "map_option (view lifecycle_key) (ok_part (merge_lifecycle_steps ls lraw))
     = (if distinct (map lifecycle_key ls)
        then apply_patches lifecycle_patch lifecycle_to_effective lraw (view lifecycle_key ls) else None)
   \<and> map_option (view hs_name) (ok_part (merge_host_steps hs hraw))
     = (if distinct (map hs_name hs)
        then apply_patches host_patch host_to_effective hraw (view hs_name hs) else None)
   \<and> map_option (view bs_name) (ok_part (merge_bootstrap_steps bs braw))
     = (if distinct (map bs_name bs)
        then apply_patches bootstrap_patch (\<lambda>step _. bootstrap_to_effective step) braw (view bs_name bs)
        else None)"
  unfolding merge_lifecycle_steps_def merge_host_steps_def merge_bootstrap_steps_def
  by (intro conjI lifecycle.merge_view host.merge_view bootstrap.merge_view)

text \<open>A merge leaves what it does not mention alone: the inherited lifecycle steps whose keys no
  patch names are all kept unchanged and in their order.\<close>

theorem unpatched_steps_are_kept:
  assumes "merge_lifecycle_steps inherited raw = Inr out"
  shows "filter (\<lambda>c. c \<notin> patched lifecycle_patch raw) (map lifecycle_key out)
        = filter (\<lambda>c. c \<notin> patched lifecycle_patch raw) (map lifecycle_key inherited)
    \<and> (\<forall>k. k \<notin> patched lifecycle_patch raw \<longrightarrow>
        by_key lifecycle_key out k = by_key lifecycle_key inherited k)"
  using lifecycle.merge_frame assms unfolding merge_lifecycle_steps_def by blast

definition demo_step :: "string \<Rightarrow> lifecycle_step" where
  "demo_step name = \<lparr>lcs_phase = PreStart, lcs_name = name, lcs_required = True,
     lcs_command = [''/bin/true''], lcs_timeout = None\<rparr>"

theorem unpatched_steps_are_kept_witness:
  "by_key lifecycle_key [demo_step ''x'', demo_step ''a''] (Some PreStart, ''a'')
     = by_key lifecycle_key [demo_step ''a''] (Some PreStart, ''a'')"
proof -
  let ?raw = "[(lifecycle_from_effective (demo_step ''x''))\<lparr>rls_before := Some ''a''\<rparr>]"
  have "merge_lifecycle_steps [demo_step ''a''] ?raw = Inr [demo_step ''x'', demo_step ''a'']"
    by (simp add: merge_lifecycle_steps_def merge_target_step_patches_def merge_step_def
        demo_step_def lifecycle_from_effective_def lifecycle_key_def lifecycle_patch_def
        patch_from_raw_def lifecycle_reference_key_def insert_index_def insert_at_def
        lifecycle_to_effective_def Let_def)
  moreover have "(Some PreStart, ''a'') \<notin> patched lifecycle_patch ?raw"
    by (simp add: patched_def lifecycle_patch_def patch_from_raw_def lifecycle_from_effective_def
        demo_step_def)
  ultimately show ?thesis using unpatched_steps_are_kept by blast
qed

text \<open>A step made raw again and converted is the same step, so that merging no patch into a list
  with distinct keys, layer after layer, changes nothing.\<close>

theorem effective_step_roundtrip:
  "lifecycle_to_effective (lifecycle_from_effective l) None = Inr l
   \<and> host_to_effective (host_from_effective h) None = Inr h
   \<and> bootstrap_to_effective (bootstrap_from_effective b) = Inr b"
  by (simp add: lifecycle_to_effective_def lifecycle_from_effective_def host_to_effective_def
      host_from_effective_def bootstrap_to_effective_def bootstrap_from_effective_def Let_def)

text \<open>A host step that replaces an inherited one takes over its command, requirement and health
  check only when it sets a timeout and nothing else; otherwise it stands on its own and must
  give a command.\<close>

theorem host_payload_inheritance:
  "host_to_effective r (Some i) =
     (if rhs_timeout r \<noteq> None \<and> rhs_command r = None \<and> rhs_required r = None
         \<and> rhs_health_check r = None
      then Inr (i\<lparr>hs_name := rhs_name r, hs_timeout := rhs_timeout r\<rparr>)
      else host_to_effective r None)"
proof (cases "host_inherits_payload TimeoutOnlyReplacement r")
  case True
  then have "rhs_timeout r \<noteq> None \<and> rhs_command r = None \<and> rhs_required r = None
      \<and> rhs_health_check r = None" by (simp add: host_inherits_payload_def)
  then show ?thesis
    by (cases "hs_health_check i") (simp_all add: host_to_effective_def inherit_optional_def True)
next
  case False
  then have "\<not> (rhs_timeout r \<noteq> None \<and> rhs_command r = None \<and> rhs_required r = None
      \<and> rhs_health_check r = None)" by (simp add: host_inherits_payload_def)
  then show ?thesis by (simp only: if_False host_to_effective_def Let_def False inherit_optional_simps)
qed

end
