(* ===== verification/Template_Chain.thy ===== *)
theory Template_Chain
  imports Ordered_Maps
begin

text \<open>
  \<open>src/config/resolver.rs\<close>: templates that use other templates. The resolver is a record of what the
  source keeps in \<open>TemplateChainResolver\<close>; the stack of names being resolved is passed down, since a
  name is taken off it again on success and an error ends the resolution. What a chain means is the
  relation \<open>unfolds\<close>: the list of templates a name stands for, in the order they are overlaid.
\<close>

section \<open>The resolver\<close>

record 'i resolver =
  tr_kind :: string
  tr_templates :: "(string, 'i) btree"
  tr_dependencies :: "'i \<Rightarrow> string list"
  tr_overlay :: "'i \<Rightarrow> 'i \<Rightarrow> 'i res"

definition template_or_cycle_error :: "'i resolver \<Rightarrow> string \<Rightarrow> string list \<Rightarrow> 'i res" where
  "template_or_cycle_error r name stack =
     (case position (\<lambda>entry. entry = name) stack of
        Some start \<Rightarrow>
          Inl (Bail ''{} template cycle: {}'' [tr_kind r, join '' -> '' (drop start stack @ [name])])
      | None \<Rightarrow>
          ok_or (Bail ''unknown {} template {}'' [tr_kind r, name]) (bt_get (tr_templates r) name))"

definition dependency_context :: "'i resolver \<Rightarrow> string \<Rightarrow> string \<Rightarrow> string" where
  "dependency_context r name dependency =
     tr_kind r @ '' template '' @ name @ '' uses '' @ tr_kind r @ '' template '' @ dependency"

lemma template_or_cycle_error_Inr:
  "template_or_cycle_error r name stack = Inr t \<longleftrightarrow> name \<notin> set stack \<and> bt_get (tr_templates r) name = Some t"
  by (auto simp: template_or_cycle_error_def ok_or_Inr position_None split: option.splits
      dest: position_Some)

text \<open>Each level of the resolution puts one more known name on the stack.\<close>

definition names_left :: "'i resolver \<Rightarrow> string list \<Rightarrow> nat" where
  "names_left r stack = card (set (bt_keys (tr_templates r)) - set stack)"

lemma names_left_push:
  assumes "template_or_cycle_error r name stack = Inr t"
  shows "names_left r (stack @ [name]) < names_left r stack"
proof -
  have "name \<in> set (bt_keys (tr_templates r)) - set stack"
    using assms bt_get_in [of "tr_templates r" name t]
    by (force simp: template_or_cycle_error_Inr bt_keys_def)
  then show ?thesis unfolding names_left_def by (intro psubset_card_mono) auto
qed

function
  check_template_references :: "'i resolver \<Rightarrow> string \<Rightarrow> string list \<Rightarrow> unit res" and
  check_dependencies :: "'i resolver \<Rightarrow> string \<Rightarrow> string list \<Rightarrow> string list \<Rightarrow> unit res"
where
  "check_template_references r name stack =
     (case template_or_cycle_error r name stack of
        Inl e \<Rightarrow> Inl e
      | Inr template \<Rightarrow> check_dependencies r name (tr_dependencies r template) (stack @ [name]))"
| "check_dependencies r name [] stack = Inr ()"
| "check_dependencies r name (dependency # rest) stack =
     (case with_context (dependency_context r name dependency)
             (check_template_references r dependency stack) of
        Inl e \<Rightarrow> Inl e
      | Inr _ \<Rightarrow> check_dependencies r name rest stack)"
  by pat_completeness auto

termination check_template_references
proof (relation "inv_image (less_than <*lex*> less_than) (\<lambda>x. case x of
     Inl (r, name, stack) \<Rightarrow> (names_left r stack, 0)
   | Inr (r, name, deps, stack) \<Rightarrow> (names_left r stack, Suc (length deps)))", goal_cases)
  case 1
  show ?case by (intro wf_inv_image wf_lex_prod wf_less_than)
qed (use names_left_push in auto)

definition validate_references :: "'i resolver \<Rightarrow> unit res" where
  "validate_references r = each (\<lambda>name. check_template_references r name []) (bt_keys (tr_templates r))"

function
  apply_template :: "'i resolver \<Rightarrow> 'i \<Rightarrow> string \<Rightarrow> string list \<Rightarrow> 'i res" and
  apply_dependencies :: "'i resolver \<Rightarrow> 'i \<Rightarrow> string \<Rightarrow> string list \<Rightarrow> string list \<Rightarrow> 'i res"
where
  "apply_template r base name stack =
     (case template_or_cycle_error r name stack of
        Inl e \<Rightarrow> Inl e
      | Inr template \<Rightarrow>
          (case apply_dependencies r base name (tr_dependencies r template) (stack @ [name]) of
             Inl e \<Rightarrow> Inl e
           | Inr base \<Rightarrow> tr_overlay r base template))"
| "apply_dependencies r base name [] stack = Inr base"
| "apply_dependencies r base name (dependency # rest) stack =
     (case with_context (dependency_context r name dependency)
             (apply_template r base dependency stack) of
        Inl e \<Rightarrow> Inl e
      | Inr base \<Rightarrow> apply_dependencies r base name rest stack)"
  by pat_completeness auto

termination apply_template
proof (relation "inv_image (less_than <*lex*> less_than) (\<lambda>x. case x of
     Inl (r, base, name, stack) \<Rightarrow> (names_left r stack, 0)
   | Inr (r, base, name, deps, stack) \<Rightarrow> (names_left r stack, Suc (length deps)))", goal_cases)
  case 1
  show ?case by (intro wf_inv_image wf_lex_prod wf_less_than)
qed (use names_left_push in auto)

declare check_template_references.simps [simp del] apply_template.simps [simp del]

fun overlay_templates :: "'i resolver \<Rightarrow> 'i \<Rightarrow> string \<Rightarrow> string list \<Rightarrow> 'i res" where
  "overlay_templates r base owner [] = Inr base"
| "overlay_templates r base owner (template # rest) =
     and_then (with_context (owner @ '' uses '' @ tr_kind r @ '' template '' @ template)
         (apply_template r base template []))
       (\<lambda>base. overlay_templates r base owner rest)"

section \<open>What a chain stands for\<close>

inductive unfolds :: "'i resolver \<Rightarrow> string \<Rightarrow> 'i list \<Rightarrow> bool" for r where
  unfolds: "unfolds r name (concat tss @ [t])"
    if "bt_get (tr_templates r) name = Some t" and "list_all2 (unfolds r) (tr_dependencies r t) tss"

fun overlay_all :: "'i resolver \<Rightarrow> 'i \<Rightarrow> 'i list \<Rightarrow> 'i res" where
  "overlay_all r base [] = Inr base"
| "overlay_all r base (t # ts) = and_then (tr_overlay r base t) (\<lambda>base. overlay_all r base ts)"

lemma overlay_all_append:
  "overlay_all r base (xs @ ys) = and_then (overlay_all r base xs) (\<lambda>base. overlay_all r base ys)"
proof (induction xs arbitrary: base)
  case (Cons x xs)
  then show ?case by (cases "tr_overlay r base x") simp_all
qed simp

lemma unfolds_unique: "unfolds r name ts \<Longrightarrow> unfolds r name ts' \<Longrightarrow> ts = ts'"
proof (induction arbitrary: ts' rule: unfolds.induct)
  case (unfolds name t tss)
  from unfolds.prems obtain tss' where ts': "ts' = concat tss' @ [t]"
    and tss': "list_all2 (unfolds r) (tr_dependencies r t) tss'"
    using unfolds.hyps(1) by (auto elim: unfolds.cases)
  have "list_all2 (=) tss tss'"
    using unfolds.IH tss' by (auto simp: list_all2_conv_all_nth)
  with ts' show ?case by (simp add: list.rel_eq)
qed

lemma unfolds_length:
  assumes "unfolds r name ts" and "bt_get (tr_templates r) name = Some t"
  obtains tss where "ts = concat tss @ [t]" "list_all2 (unfolds r) (tr_dependencies r t) tss"
    "\<And>x. x \<in> set tss \<Longrightarrow> length x < length ts"
proof -
  from assms obtain tss where tss: "ts = concat tss @ [t]" "list_all2 (unfolds r) (tr_dependencies r t) tss"
    by (auto elim: unfolds.cases)
  have "length x < length ts" if "x \<in> set tss" for x
  proof -
    have "length x \<le> sum_list (map length tss)" by (rule member_le_sum_list) (use that in auto)
    then show ?thesis by (simp add: tss(1) length_concat)
  qed
  with tss that show ?thesis by blast
qed

text \<open>Names on the stack have longer unfoldings than the name being resolved, so that it is not one of
  them.\<close>

definition stack_above :: "'i resolver \<Rightarrow> string list \<Rightarrow> nat \<Rightarrow> bool" where
  "stack_above r stack n \<longleftrightarrow> (\<forall>g \<in> set stack. \<exists>tg. unfolds r g tg \<and> n < length tg)"

lemma stack_above_not_in: "stack_above r stack (length ts) \<Longrightarrow> unfolds r name ts \<Longrightarrow> name \<notin> set stack"
  using unfolds_unique unfolding stack_above_def by blast

section \<open>Lemmas on the resolution\<close>

lemma with_context_result: "with_context c x = Inr y \<longleftrightarrow> x = Inr y"
  by (cases x) auto

lemma check_sound:
  "check_template_references r name stack = Inr () \<Longrightarrow> \<exists>ts. unfolds r name ts"
  "check_dependencies r name deps stack = Inr () \<Longrightarrow> \<exists>tss. list_all2 (unfolds r) deps tss"
proof (induction r name stack and r name deps stack
    rule: check_template_references_check_dependencies.induct)
  case (1 r name stack)
  then obtain t where t: "template_or_cycle_error r name stack = Inr t"
    and "check_dependencies r name (tr_dependencies r t) (stack @ [name]) = Inr ()"
    by (auto simp: check_template_references.simps split: sum.splits)
  with "1.IH" obtain tss where "list_all2 (unfolds r) (tr_dependencies r t) tss" by blast
  with t show ?case by (auto simp: template_or_cycle_error_Inr intro: unfolds)
next
  case (2 r name stack)
  then show ?case by (intro exI [of _ "[]"]) simp
next
  case (3 r name dependency rest stack)
  then have first: "check_template_references r dependency stack = Inr ()"
    and rest: "with_context (dependency_context r name dependency)
      (check_template_references r dependency stack) = Inr ()"
      "check_dependencies r name rest stack = Inr ()"
    by (auto simp: with_context_result split: sum.splits)
  from "3.IH"(1) [OF first] obtain ts where ts: "unfolds r dependency ts" ..
  from "3.IH"(2) [OF rest] obtain tss where "list_all2 (unfolds r) rest tss" ..
  with ts have "list_all2 (unfolds r) (dependency # rest) (ts # tss)" by simp
  then show ?case ..
qed

lemma check_complete:
  "unfolds r name ts \<Longrightarrow> stack_above r stack (length ts) \<Longrightarrow> check_template_references r name stack = Inr ()"
  "list_all2 (unfolds r) deps tss \<Longrightarrow> (\<And>ts. ts \<in> set tss \<Longrightarrow> stack_above r stack (length ts)) \<Longrightarrow>
    check_dependencies r name deps stack = Inr ()"
proof (induction r name stack and r name deps stack arbitrary: ts and tss
    rule: check_template_references_check_dependencies.induct)
  case (1 r name stack)
  from "1.prems"(1) obtain t where t: "bt_get (tr_templates r) name = Some t" by (auto elim: unfolds.cases)
  with "1.prems" have found: "template_or_cycle_error r name stack = Inr t"
    by (simp add: template_or_cycle_error_Inr stack_above_not_in)
  obtain tss where tss: "list_all2 (unfolds r) (tr_dependencies r t) tss" "\<And>x. x \<in> set tss \<Longrightarrow> length x < length ts"
    using unfolds_length [OF "1.prems"(1) t] by metis
  have "stack_above r (stack @ [name]) (length x)" if "x \<in> set tss" for x
    using "1.prems" tss(2) [OF that] by (fastforce simp: stack_above_def)
  from "1.IH" [OF found tss(1) this] found show ?case by (simp add: check_template_references.simps)
next
  case (3 r name dependency rest stack)
  then obtain ts tss' where tss: "tss = ts # tss'" "unfolds r dependency ts" "list_all2 (unfolds r) rest tss'"
    by (auto simp: list_all2_Cons1)
  with 3 have first: "check_template_references r dependency stack = Inr ()" by simp
  with "3.IH"(2) [OF _ tss(3)] 3(4) tss(1) show ?case by simp
qed simp

lemma apply_sound:
  "apply_template r base name stack = Inr out \<Longrightarrow>
    \<exists>ts. unfolds r name ts \<and> overlay_all r base ts = Inr out"
  "apply_dependencies r base name deps stack = Inr out \<Longrightarrow>
    \<exists>tss. list_all2 (unfolds r) deps tss \<and> overlay_all r base (concat tss) = Inr out"
proof (induction r base name stack and r base name deps stack arbitrary: out and out
    rule: apply_template_apply_dependencies.induct)
  case (1 r base name stack)
  then obtain t mid where t: "template_or_cycle_error r name stack = Inr t"
    and mid: "apply_dependencies r base name (tr_dependencies r t) (stack @ [name]) = Inr mid"
    and out: "tr_overlay r mid t = Inr out"
    by (auto simp: apply_template.simps split: sum.splits)
  from "1.IH" [OF t mid] obtain tss where tss: "list_all2 (unfolds r) (tr_dependencies r t) tss"
    "overlay_all r base (concat tss) = Inr mid" by blast
  have "unfolds r name (concat tss @ [t])"
    using t tss(1) by (auto simp: template_or_cycle_error_Inr intro: unfolds)
  moreover have "overlay_all r base (concat tss @ [t]) = Inr out"
    using tss(2) out by (simp add: overlay_all_append)
  ultimately show ?case by blast
next
  case (2 r base name stack)
  then show ?case by (intro exI [of _ "[]"]) simp
next
  case (3 r base name dependency rest stack)
  then obtain mid where first: "apply_template r base dependency stack = Inr mid"
    and rest: "with_context (dependency_context r name dependency) (apply_template r base dependency stack) = Inr mid"
      "apply_dependencies r mid name rest stack = Inr out"
    by (auto simp: with_context_result split: sum.splits)
  from "3.IH"(1) [OF first] obtain ts where ts: "unfolds r dependency ts" "overlay_all r base ts = Inr mid" by blast
  from "3.IH"(2) [OF rest] obtain tss where "list_all2 (unfolds r) rest tss"
    "overlay_all r mid (concat tss) = Inr out" by blast
  with ts show ?case by (intro exI [of _ "ts # tss"]) (simp add: overlay_all_append)
qed

lemma apply_complete:
  "unfolds r name ts \<Longrightarrow> stack_above r stack (length ts) \<Longrightarrow> overlay_all r base ts = Inr out \<Longrightarrow>
    apply_template r base name stack = Inr out"
  "list_all2 (unfolds r) deps tss \<Longrightarrow> (\<And>ts. ts \<in> set tss \<Longrightarrow> stack_above r stack (length ts)) \<Longrightarrow>
    overlay_all r base (concat tss) = Inr out \<Longrightarrow> apply_dependencies r base name deps stack = Inr out"
proof (induction r base name stack and r base name deps stack arbitrary: ts out and tss out
    rule: apply_template_apply_dependencies.induct)
  case (1 r base name stack)
  from "1.prems"(1) obtain t where t: "bt_get (tr_templates r) name = Some t" by (auto elim: unfolds.cases)
  with "1.prems" have found: "template_or_cycle_error r name stack = Inr t"
    by (simp add: template_or_cycle_error_Inr stack_above_not_in)
  obtain tss where tss: "ts = concat tss @ [t]" "list_all2 (unfolds r) (tr_dependencies r t) tss"
    "\<And>x. x \<in> set tss \<Longrightarrow> length x < length ts"
    using unfolds_length [OF "1.prems"(1) t] by metis
  obtain mid where mid: "overlay_all r base (concat tss) = Inr mid" "tr_overlay r mid t = Inr out"
    using "1.prems"(3) by (auto simp: tss(1) overlay_all_append and_then_Inr)
  have "stack_above r (stack @ [name]) (length x)" if "x \<in> set tss" for x
    using "1.prems" tss(3) [OF that] by (fastforce simp: stack_above_def)
  from "1.IH" [OF found tss(2) this mid(1)] found mid(2) show ?case by (simp add: apply_template.simps)
next
  case (3 r base name dependency rest stack)
  then obtain ts tss' where tss: "tss = ts # tss'" "unfolds r dependency ts" "list_all2 (unfolds r) rest tss'"
    by (auto simp: list_all2_Cons1)
  with "3.prems"(3) obtain mid where mid: "overlay_all r base ts = Inr mid" "overlay_all r mid (concat tss') = Inr out"
    by (auto simp: overlay_all_append and_then_Inr)
  have first: "apply_template r base dependency stack = Inr mid"
    using "3.IH"(1) [OF tss(2) _ mid(1)] "3.prems"(2) tss(1) by simp
  have "apply_dependencies r mid name rest stack = Inr out"
    by (rule "3.IH"(2) [OF _ tss(3) _ mid(2)]) (use first "3.prems"(2) tss(1) in auto)
  with first show ?case by simp
qed simp

lemma stack_above_empty: "stack_above r [] n"
  by (simp add: stack_above_def)

lemma overlay_templates_iff:
  "overlay_templates r base owner names = Inr out \<longleftrightarrow>
    (\<exists>tss. list_all2 (unfolds r) names tss \<and> overlay_all r base (concat tss) = Inr out)"
proof (induction names arbitrary: base)
  case (Cons name names)
  have apply_iff: "apply_template r base name [] = Inr mid \<longleftrightarrow>
      (\<exists>ts. unfolds r name ts \<and> overlay_all r base ts = Inr mid)" for mid
    by (rule iffI, erule apply_sound(1), elim exE conjE, erule (1) apply_complete(1) [OF _ stack_above_empty])
  have "overlay_templates r base owner (name # names) = Inr out \<longleftrightarrow>
      (\<exists>mid ts tss. unfolds r name ts \<and> overlay_all r base ts = Inr mid
        \<and> list_all2 (unfolds r) names tss \<and> overlay_all r mid (concat tss) = Inr out)"
    unfolding overlay_templates.simps and_then_Inr with_context_result apply_iff Cons by blast
  also have "\<dots> \<longleftrightarrow> (\<exists>ts tss. unfolds r name ts \<and> list_all2 (unfolds r) names tss
        \<and> overlay_all r base (concat (ts # tss)) = Inr out)"
    unfolding concat.simps overlay_all_append and_then_Inr by blast
  also have "\<dots> \<longleftrightarrow> (\<exists>tss. list_all2 (unfolds r) (name # names) tss
        \<and> overlay_all r base (concat tss) = Inr out)"
    unfolding list_all2_Cons1 by blast
  finally show ?case .
qed simp

lemma validate_references_iff:
  "validate_references r = Inr () \<longleftrightarrow> (\<forall>name \<in> set (bt_keys (tr_templates r)). \<exists>ts. unfolds r name ts)"
proof -
  have "check_template_references r name [] = Inr () \<longleftrightarrow> (\<exists>ts. unfolds r name ts)" for name
    by (rule iffI, erule check_sound(1), elim exE, erule check_complete(1) [OF _ stack_above_empty])
  then show ?thesis by (simp add: validate_references_def)
qed

section \<open>Properties\<close>

text \<open>C31. Resolving the templates of a target or a launch is overlaying, in order, the lists of templates
  their names unfold to; and the check of the references accepts exactly the template sets in which
  every name unfolds, so that neither a cycle nor an unknown name is left.\<close>

theorem template_chain_refines_unfolding:
  "(overlay_templates r base owner names = Inr out \<longleftrightarrow>
      (\<exists>tss. list_all2 (unfolds r) names tss \<and> overlay_all r base (concat tss) = Inr out))
    \<and> (validate_references r = Inr () \<longleftrightarrow>
        list_all (\<lambda>name. \<exists>ts. unfolds r name ts) (bt_keys (tr_templates r)))"
  by (simp only: overlay_templates_iff validate_references_iff list_all_iff simp_thms)

end
