(* ===== verification/Targets.thy ===== *)
theory Targets
  imports Target_Parts Services Steps Template_Chain
begin

text \<open>
  \<open>src/config/target.rs\<close>: the input of a target, in which every setting is optional and which layers
  of configuration are overlaid on, its checks, the effective target and the checks it has to pass.
  The name of the container of a target is rendered from the target's name pattern.
\<close>

definition DEFAULT_EPHEMERAL_NAME_PATTERN :: string where
  "DEFAULT_EPHEMERAL_NAME_PATTERN = ''{image_slug}-{session_id}''"

text \<open>Double quotes in a message.\<close>

definition quoted :: "string \<Rightarrow> string" where
  "quoted s = CHR 0x22 # s @ [CHR 0x22]"

section \<open>Target inputs\<close>

record target_input =
  tgi_use_templates :: "string list"
  tgi_image :: "string option"
  tgi_mode :: "target_mode option"
  tgi_name :: "string option"
  tgi_ephemeral_name :: "string option"
  tgi_access :: "target_access_input option"
  tgi_workspace :: "workspace_input option"
  tgi_runtime :: "target_runtime_input option"
  tgi_identity :: "target_identity option"
  tgi_container_user :: "string option"
  tgi_container_home :: "string option"
  tgi_container_env :: "(string, string) btree"
  tgi_session_env :: "(string, string) btree"
  tgi_session_env_inherit :: "string list"
  tgi_container_mounts :: "container_mount list"
  tgi_host_socket_exposures :: "(string, host_socket_exposure) btree"
  tgi_stop_when_idle :: "bool option"
  tgi_remove_on_stop :: "bool option"
  tgi_idle_cleanup :: "idle_cleanup_input option"
  tgi_local_ssh :: "local_ssh_input option"
  tgi_container_ssh :: "target_container_ssh option"
  tgi_control_sockets :: "target_control_sockets option"
  tgi_container_bootstrap :: "target_container_bootstrap option"
  tgi_lifecycle_steps :: "raw_lifecycle_step list"
  tgi_host_steps :: "raw_host_step list"
  tgi_container_bootstrap_steps :: "raw_bootstrap_step list"
  tgi_container_agent :: "container_agent_input option"

definition target_input_default :: target_input where
  "target_input_default =
     \<lparr>tgi_use_templates = [], tgi_image = None, tgi_mode = None, tgi_name = None,
      tgi_ephemeral_name = None, tgi_access = None, tgi_workspace = None, tgi_runtime = None,
      tgi_identity = None, tgi_container_user = None, tgi_container_home = None,
      tgi_container_env = [], tgi_session_env = [], tgi_session_env_inherit = [],
      tgi_container_mounts = [], tgi_host_socket_exposures = [], tgi_stop_when_idle = None,
      tgi_remove_on_stop = None, tgi_idle_cleanup = None, tgi_local_ssh = None,
      tgi_container_ssh = None, tgi_control_sockets = None, tgi_container_bootstrap = None,
      tgi_lifecycle_steps = [], tgi_host_steps = [], tgi_container_bootstrap_steps = [],
      tgi_container_agent = None\<rparr>"

definition container_agent_input_default :: container_agent_input where
  "container_agent_input_default =
     \<lparr>cai_enabled = None, cai_services = [], cai_ssh_bridge = None, cai_control_socket = None,
      cai_idle_cleanup = None\<rparr>"

definition target_builtin_defaults :: target_input where
  "target_builtin_defaults = target_input_default
     \<lparr>tgi_mode := Some Fixed,
      tgi_workspace := Some
        \<lparr>wsi_path = Some default_workspace_path, wsi_container_path = None,
         wsi_state_dir = Some default_workspace_state_dir, wsi_cleanup = Some CleanupNever\<rparr>,
      tgi_runtime := Some \<lparr>tri_extra_run_args = Some []\<rparr>,
      tgi_access := Some \<lparr>tai_method = Some AccessSsh\<rparr>,
      tgi_stop_when_idle := Some False,
      tgi_remove_on_stop := Some False,
      tgi_control_sockets := Some
        \<lparr>tcs_host_dir = Some default_control_socket_host_dir,
         tcs_container_dir = Some default_control_socket_container_dir\<rparr>,
      tgi_container_bootstrap := Some
        \<lparr>tcb_enabled = Some False, tcb_entrypoint = Some default_bootstrap_entrypoint,
         tcb_agent_program = Some default_bootstrap_agent_program\<rparr>,
      tgi_container_agent := Some
        \<lparr>cai_enabled = Some True, cai_services = [], cai_ssh_bridge = None,
         cai_control_socket = None, cai_idle_cleanup = None\<rparr>,
      tgi_container_ssh := Some (Some \<lparr>tct_sftp = Some SftpAllow, tct_legacy_scp = Some ScpAllow\<rparr>)\<rparr>"

definition access_method :: "target_input \<Rightarrow> target_access_method option" where
  "access_method t = Option.bind (tgi_access t) tai_method"

definition CONTAINER_SSHD :: string where
  "CONTAINER_SSHD = ''container-sshd''"

definition RUNTIME_EXEC :: string where
  "RUNTIME_EXEC = ''access.method = '' @ quoted ''runtime_exec''"

definition clear_inherited_ssh_access :: "target_input \<Rightarrow> target_input" where
  "clear_inherited_ssh_access t =
     t\<lparr>tgi_local_ssh := None,
       tgi_container_agent := map_option (\<lambda>agent.
         agent\<lparr>cai_ssh_bridge := None,
               cai_services := filter (\<lambda>s. sc_name s \<noteq> CONTAINER_SSHD) (cai_services agent)\<rparr>)
         (tgi_container_agent t)\<rparr>"

definition validate_runtime_exec_layer :: "target_input \<Rightarrow> unit res" where
  "validate_runtime_exec_layer t =
     (if access_method t \<noteq> Some AccessRuntimeExec then Inr ()
      else seq_checks
        [bail_if (tgi_local_ssh t \<noteq> None)
           (Bail (RUNTIME_EXEC @ '' must not be configured in the same layer as local_ssh'') []),
         bail_if (case Option.bind (tgi_container_agent t) cai_ssh_bridge of
               None \<Rightarrow> False | Some bridge \<Rightarrow> unwrap_or True (sbi_enabled bridge))
           (Bail (RUNTIME_EXEC @ '' must not be configured in the same layer as enabled container_agent.ssh_bridge'') []),
         bail_if (case tgi_container_agent t of
               None \<Rightarrow> False | Some agent \<Rightarrow> list_ex (\<lambda>s. sc_name s = CONTAINER_SSHD) (cai_services agent))
           (Bail (RUNTIME_EXEC @ '' must not be configured in the same layer as container_agent service ''
              @ quoted CONTAINER_SSHD) [])])"

text \<open>The inherited steps are made effective, patched and made raw again.\<close>

definition overlay_lifecycle_steps ::
  "raw_lifecycle_step list \<Rightarrow> raw_lifecycle_step list \<Rightarrow> raw_lifecycle_step list res" where
  "overlay_lifecycle_steps self later = map_ok (map lifecycle_from_effective)
     (and_then (collect_ok (\<lambda>step. lifecycle_to_effective step None) self)
        (\<lambda>inherited. merge_lifecycle_steps inherited later))"

definition overlay_host_steps :: "raw_host_step list \<Rightarrow> raw_host_step list \<Rightarrow> raw_host_step list res" where
  "overlay_host_steps self later = map_ok (map host_from_effective)
     (and_then (collect_ok (\<lambda>step. host_to_effective step None) self)
        (\<lambda>inherited. merge_host_steps inherited later))"

definition overlay_bootstrap_steps ::
  "raw_bootstrap_step list \<Rightarrow> raw_bootstrap_step list \<Rightarrow> raw_bootstrap_step list res" where
  "overlay_bootstrap_steps self later = map_ok (map bootstrap_from_effective)
     (and_then (collect_ok bootstrap_to_effective self)
        (\<lambda>inherited. merge_bootstrap_steps inherited later))"

text \<open>\<open>self.f = Some(self.f.take().unwrap_or_default().overlay(x))\<close> if the later layer sets \<open>f\<close>.\<close>

definition overlay_part :: "('c \<Rightarrow> 'c \<Rightarrow> 'c) \<Rightarrow> 'c \<Rightarrow> 'c option \<Rightarrow> 'c option \<Rightarrow> 'c option" where
  "overlay_part overlay dflt cur later =
     (case later of None \<Rightarrow> cur | Some x \<Rightarrow> Some (overlay (unwrap_or dflt cur) x))"

definition target_overlay :: "target_input \<Rightarrow> target_input \<Rightarrow> target_input res" where
  "target_overlay self later =
     and_then (validate_runtime_exec_layer later) (\<lambda>_.
       let self = (if access_method later = Some AccessRuntimeExec
                   then clear_inherited_ssh_access self else self)
       in and_then (overlay_lifecycle_steps (tgi_lifecycle_steps self) (tgi_lifecycle_steps later))
            (\<lambda>lifecycle_steps.
          and_then (overlay_host_steps (tgi_host_steps self) (tgi_host_steps later)) (\<lambda>host_steps.
          and_then (overlay_bootstrap_steps (tgi_container_bootstrap_steps self)
              (tgi_container_bootstrap_steps later)) (\<lambda>bootstrap_steps.
          and_then (case tgi_container_agent later of
                None \<Rightarrow> Inr (tgi_container_agent self)
              | Some agent \<Rightarrow> map_ok Some (container_agent_overlay
                  (unwrap_or container_agent_input_default (tgi_container_agent self)) agent))
            (\<lambda>container_agent. Inr
              \<lparr>tgi_use_templates = tgi_use_templates self,
               tgi_image = over (tgi_image self) (tgi_image later),
               tgi_mode = over (tgi_mode self) (tgi_mode later),
               tgi_name = over (tgi_name self) (tgi_name later),
               tgi_ephemeral_name = over (tgi_ephemeral_name self) (tgi_ephemeral_name later),
               tgi_access = overlay_part target_access_overlay target_access_input_default
                 (tgi_access self) (tgi_access later),
               tgi_workspace = overlay_part workspace_overlay workspace_input_default
                 (tgi_workspace self) (tgi_workspace later),
               tgi_runtime = overlay_part target_runtime_overlay target_runtime_input_default
                 (tgi_runtime self) (tgi_runtime later),
               tgi_identity = (case tgi_identity later of None \<Rightarrow> tgi_identity self
                 | Some identity \<Rightarrow> Some (overlay_identity (tgi_identity self) identity)),
               tgi_container_user = over (tgi_container_user self) (tgi_container_user later),
               tgi_container_home = over (tgi_container_home self) (tgi_container_home later),
               tgi_container_env = bt_extend (tgi_container_env self) (tgi_container_env later),
               tgi_session_env = bt_extend (tgi_session_env self) (tgi_session_env later),
               tgi_session_env_inherit = tgi_session_env_inherit self @ tgi_session_env_inherit later,
               tgi_container_mounts = tgi_container_mounts self @ tgi_container_mounts later,
               tgi_host_socket_exposures = bt_extend (tgi_host_socket_exposures self)
                 (tgi_host_socket_exposures later),
               tgi_stop_when_idle = over (tgi_stop_when_idle self) (tgi_stop_when_idle later),
               tgi_remove_on_stop = over (tgi_remove_on_stop self) (tgi_remove_on_stop later),
               tgi_idle_cleanup = overlay_part idle_cleanup_overlay idle_cleanup_input_default
                 (tgi_idle_cleanup self) (tgi_idle_cleanup later),
               tgi_local_ssh = overlay_part local_ssh_overlay local_ssh_input_default
                 (tgi_local_ssh self) (tgi_local_ssh later),
               tgi_container_ssh = (case tgi_container_ssh later of None \<Rightarrow> tgi_container_ssh self
                 | Some ssh \<Rightarrow> Some (overlay_target_container_ssh (tgi_container_ssh self) ssh)),
               tgi_control_sockets = (case tgi_control_sockets later of None \<Rightarrow> tgi_control_sockets self
                 | Some sockets \<Rightarrow> Some (overlay_control_sockets (tgi_control_sockets self) sockets)),
               tgi_container_bootstrap = (case tgi_container_bootstrap later of
                   None \<Rightarrow> tgi_container_bootstrap self
                 | Some bootstrap \<Rightarrow>
                     Some (overlay_container_bootstrap (tgi_container_bootstrap self) bootstrap)),
               tgi_lifecycle_steps = lifecycle_steps,
               tgi_host_steps = host_steps,
               tgi_container_bootstrap_steps = bootstrap_steps,
               tgi_container_agent = container_agent\<rparr>)))))"

definition with_target :: "string \<Rightarrow> unit res \<Rightarrow> unit res" where
  "with_target target_name r =
     (case r of Inl e \<Rightarrow> Inl (Bail ''target {} {}'' [target_name, error_text e]) | Inr u \<Rightarrow> Inr u)"

definition target_name_check :: "string \<Rightarrow> unit res" where
  "target_name_check name =
     validate_template_with_policy ''target.name'' name [''image_slug''] ALLOW_UNBOUND_CONTEXT_PREFIX"

definition target_ephemeral_name_check :: "string \<Rightarrow> unit res" where
  "target_ephemeral_name_check name =
     validate_template_with_policy ''target.ephemeral_name'' name [''image_slug'', ''session_id'']
       ALLOW_UNBOUND_CONTEXT_PREFIX"

definition target_image_field :: "string \<Rightarrow> string" where
  "target_image_field target_name = ''target '' @ target_name @ '' image''"

definition target_validate_partial :: "target_input \<Rightarrow> string \<Rightarrow> unit res" where
  "target_validate_partial t target_name = seq_checks
     [each (validate_name ''target template reference'') (tgi_use_templates t),
      with_target target_name (validate_runtime_exec_layer t),
      given (\<lambda>image. bail_if (trim image = []) (Bail ''target {} image is required'' [target_name]))
        (tgi_image t),
      given (validate_image_reference (target_image_field target_name)) (tgi_image t),
      given target_name_check (tgi_name t),
      given target_ephemeral_name_check (tgi_ephemeral_name t),
      given (\<lambda>w. workspace_validate_partial w target_name) (tgi_workspace t),
      given (\<lambda>r. target_runtime_validate_partial r target_name) (tgi_runtime t),
      given (\<lambda>i. identity_validate_partial i target_name) (tgi_identity t),
      given (validate_name ''target.container_user'') (tgi_container_user t),
      given (validate_container_home target_name) (tgi_container_home t),
      validate_env_map ''target.container_env'' (tgi_container_env t),
      validate_env_map ''target.session_env'' (tgi_session_env t),
      each validate_env_key (tgi_session_env_inherit t),
      each container_mount_validate (tgi_container_mounts t),
      validate_host_socket_exposures (tgi_host_socket_exposures t),
      given (\<lambda>c. map_ok (\<lambda>_. ()) (idle_cleanup_into_effective c)) (tgi_idle_cleanup t),
      given local_ssh_validate_partial (tgi_local_ssh t),
      validate_raw_target_steps target_name ''lifecycle_steps'' lifecycle_label lifecycle_patch
        (tgi_lifecycle_steps t),
      validate_raw_target_steps target_name ''host_steps'' step_label host_patch (tgi_host_steps t),
      validate_raw_target_steps target_name ''container_bootstrap_steps'' step_label bootstrap_patch
        (tgi_container_bootstrap_steps t),
      given (\<lambda>c. target_control_sockets_validate c target_name) (tgi_control_sockets t),
      given (\<lambda>c. target_container_bootstrap_validate c target_name) (tgi_container_bootstrap t),
      given container_agent_validate_partial (tgi_container_agent t)]"

definition target_input_validate_context_templates ::
  "target_input \<Rightarrow> string \<Rightarrow> string list \<Rightarrow> unit res" where
  "target_input_validate_context_templates t field context_keys = seq_checks
     [given (\<lambda>name. validate_template_with_context (field @ ''.name'') name [''image_slug''] context_keys)
        (tgi_name t),
      given (\<lambda>name. validate_template_with_context (field @ ''.ephemeral_name'') name
         [''image_slug'', ''session_id''] context_keys) (tgi_ephemeral_name t),
      given (\<lambda>w. workspace_validate_context_templates w (field @ ''.workspace'') context_keys)
        (tgi_workspace t),
      given (\<lambda>c. target_control_sockets_validate_context_templates c (field @ ''.control_sockets'')
         context_keys) (tgi_control_sockets t),
      each (\<lambda>(name, exposure). exposure_validate_context_templates exposure
         (field @ ''.host_socket_exposures.'' @ name) context_keys) (tgi_host_socket_exposures t)]"

section \<open>Effective targets\<close>

record target_config =
  tgt_image :: string
  tgt_mode :: target_mode
  tgt_name :: "string option"
  tgt_ephemeral_name :: "string option"
  tgt_access :: target_access
  tgt_workspace :: workspace_config
  tgt_runtime :: target_runtime
  tgt_identity :: "target_identity option"
  tgt_container_user :: "string option"
  tgt_container_home :: "string option"
  tgt_container_env :: "(string, string) btree"
  tgt_session_env :: "(string, string) btree"
  tgt_session_env_inherit :: "string list"
  tgt_container_mounts :: "container_mount list"
  tgt_host_socket_exposures :: "(string, host_socket_exposure) btree"
  tgt_stop_when_idle :: bool
  tgt_remove_on_stop :: bool
  tgt_idle_cleanup :: "idle_cleanup_config option"
  tgt_local_ssh :: "local_ssh_config option"
  tgt_container_ssh :: container_ssh_config
  tgt_control_sockets :: control_sockets_config
  tgt_container_bootstrap :: container_bootstrap_config
  tgt_lifecycle_steps :: "lifecycle_step list"
  tgt_host_steps :: "host_step list"
  tgt_container_bootstrap_steps :: "bootstrap_step list"
  tgt_container_agent :: container_agent_config

definition target_into_effective :: "target_input \<Rightarrow> string \<Rightarrow> target_config res" where
  "target_into_effective t target_name =
     and_then (collect_ok (\<lambda>step. lifecycle_to_effective step None) (tgi_lifecycle_steps t))
       (\<lambda>lifecycle_steps.
     and_then (collect_ok (\<lambda>step. host_to_effective step None) (tgi_host_steps t)) (\<lambda>host_steps.
     and_then (collect_ok bootstrap_to_effective (tgi_container_bootstrap_steps t)) (\<lambda>bootstrap_steps.
     and_then (container_agent_into_effective
         (unwrap_or container_agent_input_default (tgi_container_agent t))) (\<lambda>container_agent.
     and_then (ok_or (Bail ''target {} image is required after defaults'' [target_name]) (tgi_image t))
       (\<lambda>image.
     and_then (case tgi_idle_cleanup t of None \<Rightarrow> Inr None
         | Some c \<Rightarrow> map_ok Some (idle_cleanup_into_effective c)) (\<lambda>idle_cleanup.
     and_then (target_container_ssh_to_effective
         (unwrap_or target_container_ssh_default (tgi_container_ssh t))) (\<lambda>container_ssh. Inr
       \<lparr>tgt_image = image,
        tgt_mode = unwrap_or Fixed (tgi_mode t),
        tgt_name = tgi_name t,
        tgt_ephemeral_name = tgi_ephemeral_name t,
        tgt_access = target_access_into_effective (unwrap_or target_access_input_default (tgi_access t)),
        tgt_workspace = workspace_into_effective (unwrap_or workspace_input_default (tgi_workspace t)),
        tgt_runtime = target_runtime_into_effective
          (unwrap_or target_runtime_input_default (tgi_runtime t)),
        tgt_identity = tgi_identity t,
        tgt_container_user = tgi_container_user t,
        tgt_container_home = tgi_container_home t,
        tgt_container_env = tgi_container_env t,
        tgt_session_env = tgi_session_env t,
        tgt_session_env_inherit = tgi_session_env_inherit t,
        tgt_container_mounts = tgi_container_mounts t,
        tgt_host_socket_exposures = tgi_host_socket_exposures t,
        tgt_stop_when_idle = unwrap_or False (tgi_stop_when_idle t),
        tgt_remove_on_stop = unwrap_or False (tgi_remove_on_stop t),
        tgt_idle_cleanup = idle_cleanup,
        tgt_local_ssh = map_option local_ssh_into_effective (tgi_local_ssh t),
        tgt_container_ssh = container_ssh,
        tgt_control_sockets = target_control_sockets_to_effective
          (unwrap_or target_control_sockets_default (tgi_control_sockets t)),
        tgt_container_bootstrap = target_container_bootstrap_to_effective
          (unwrap_or target_container_bootstrap_default (tgi_container_bootstrap t)),
        tgt_lifecycle_steps = lifecycle_steps,
        tgt_host_steps = host_steps,
        tgt_container_bootstrap_steps = bootstrap_steps,
        tgt_container_agent = container_agent\<rparr>)))))))"

definition is_active_agent_idle_cleanup :: "idle_cleanup_config \<Rightarrow> bool" where
  "is_active_agent_idle_cleanup c \<longleftrightarrow> ic_owner c = OwnerAgent \<and> ic_action c \<noteq> ActionNone"

definition effective_agent_idle_cleanup :: "target_config \<Rightarrow> idle_cleanup_config option" where
  "effective_agent_idle_cleanup t =
     (case tgt_idle_cleanup t of
        Some c \<Rightarrow> if is_active_agent_idle_cleanup c then Some c else None
      | None \<Rightarrow> (case ca_idle_cleanup (tgt_container_agent t) of
          None \<Rightarrow> None
        | Some c \<Rightarrow> if is_active_agent_idle_cleanup c then Some c else None))"

definition uses_agent_idle_cleanup :: "target_config \<Rightarrow> bool" where
  "uses_agent_idle_cleanup t \<longleftrightarrow> effective_agent_idle_cleanup t \<noteq> None"

section \<open>The checks of an effective target\<close>

text \<open>The parts of \<open>TargetConfig::validate\<close>, in the order in which it makes them.\<close>

definition validate_identity_and_workspace :: "target_config \<Rightarrow> string \<Rightarrow> unit res" where
  "validate_identity_and_workspace t target_name = seq_checks
     [bail_if (trim (tgt_image t) = []) (Bail ''target {} image is required'' [target_name]),
      validate_image_reference (target_image_field target_name) (tgt_image t),
      given (validate_name ''target.container_user'') (tgt_container_user t),
      given (validate_container_home target_name) (tgt_container_home t),
      given (\<lambda>i. identity_validate i target_name) (tgt_identity t),
      workspace_path_check target_name (ws_path (tgt_workspace t)),
      given (workspace_container_path_check target_name) (ws_container_path (tgt_workspace t)),
      workspace_state_dir_check target_name (ws_state_dir (tgt_workspace t))]"

fun validate_inherited_env :: "string set \<Rightarrow> string list \<Rightarrow> unit res" where
  "validate_inherited_env seen [] = Inr ()"
| "validate_inherited_env seen (key # keys) = seq_checks
     [validate_env_key key,
      bail_if (key \<in> seen) (Bail ''target.session_env_inherit contains duplicate key {}'' [key]),
      validate_inherited_env (insert key seen) keys]"

definition validate_container_settings :: "target_config \<Rightarrow> string \<Rightarrow> unit res" where
  "validate_container_settings t target_name = seq_checks
     [target_runtime_validate (tgt_runtime t) target_name,
      validate_env_map ''target.container_env'' (tgt_container_env t),
      validate_env_map ''target.session_env'' (tgt_session_env t),
      validate_inherited_env {} (tgt_session_env_inherit t),
      each container_mount_validate (tgt_container_mounts t),
      validate_host_socket_exposures (tgt_host_socket_exposures t)]"

definition validate_mode :: "target_config \<Rightarrow> string \<Rightarrow> unit res" where
  "validate_mode t target_name =
     (case tgt_mode t of
        Fixed \<Rightarrow>
          (case tgt_name t of
             Some name \<Rightarrow> target_name_check name
           | None \<Rightarrow> Inl (Bail ''fixed target {} requires name'' [target_name]))
      | Ephemeral \<Rightarrow> seq_checks
          [(case tgt_ephemeral_name t of
              Some name \<Rightarrow> target_ephemeral_name_check name
            | None \<Rightarrow> Inl (Bail ''ephemeral target {} requires ephemeral_name'' [target_name])),
           bail_if (\<not> tgt_stop_when_idle t)
             (Bail ''ephemeral target {} requires stop_when_idle = true'' [target_name])])"

definition validate_workspace_cleanup :: "target_config \<Rightarrow> string \<Rightarrow> unit res" where
  "validate_workspace_cleanup t target_name =
     (if ws_cleanup (tgt_workspace t) = CleanupNever then Inr ()
      else seq_checks
        [bail_if (tgt_mode t \<noteq> Ephemeral)
           (Bail (''target {} workspace.cleanup requires mode = '' @ quoted ''ephemeral'') [target_name]),
         and_then (referenced_keys (ws_path (tgt_workspace t))) (\<lambda>refs.
           bail_if (''session_id'' \<notin> set refs)
             (Bail ''target {} workspace.cleanup requires workspace.path to reference {session_id}''
                [target_name])),
         bail_if (Normal ''aw-gateway'' \<notin> set (path_components (ws_path (tgt_workspace t))))
           (Bail ''target {} workspace.cleanup requires workspace.path under an aw-gateway path component''
              [target_name]),
         (case tgt_idle_cleanup t of
            None \<Rightarrow> Inl (Bail ''target {} workspace.cleanup requires gateway-owned idle_cleanup'' [target_name])
          | Some cleanup \<Rightarrow> seq_checks
              [bail_if (ic_owner cleanup \<noteq> OwnerGateway \<or> ic_action cleanup \<noteq> ExitContainer)
                 (Bail ''target {} workspace.cleanup requires gateway-owned exit_container idle_cleanup''
                    [target_name]),
               bail_if (ic_preserve_processes cleanup \<noteq> [])
                 (Bail ''target {} workspace.cleanup does not support preserve_processes''
                    [target_name])])])"

definition validate_target_idle_cleanup :: "target_config \<Rightarrow> string \<Rightarrow> unit res" where
  "validate_target_idle_cleanup t target_name =
     given (\<lambda>cleanup. seq_checks
       [idle_cleanup_validate cleanup,
        bail_if (ic_owner cleanup = OwnerGateway \<and> ic_action cleanup = ReapProcesses)
          (Bail ''target {} gateway-owned idle cleanup does not support reap_processes'' [target_name])])
       (tgt_idle_cleanup t)"

definition validate_target_local_ssh :: "target_config \<Rightarrow> string \<Rightarrow> unit res" where
  "validate_target_local_ssh t target_name =
     (let direct = ''target {} local_ssh.mode = '' @ quoted ''direct'' in
      given (\<lambda>local_ssh. seq_checks
        [local_ssh_validate local_ssh,
         (if ls_mode local_ssh \<noteq> Direct then Inr ()
          else seq_checks
            [bail_if (ta_method (tgt_access t) \<noteq> AccessSsh)
               (Bail (direct @ '' requires access.method = '' @ quoted ''ssh'') [target_name]),
             bail_if (tgt_mode t \<noteq> Fixed)
               (Bail (direct @ '' requires mode = '' @ quoted ''fixed'') [target_name]),
             bail_if (tgt_stop_when_idle t)
               (Bail (direct @ '' cannot be used with stop_when_idle = true'') [target_name]),
             bail_if (uses_agent_idle_cleanup t)
               (Bail (direct @ '' cannot be used with agent-owned idle_cleanup'') [target_name])])])
        (tgt_local_ssh t))"

definition validate_runtime_exec :: "target_config \<Rightarrow> string \<Rightarrow> unit res" where
  "validate_runtime_exec t target_name =
     (let agent = tgt_container_agent t;
          message = \<lambda>rest. Bail (''target {} '' @ RUNTIME_EXEC @ rest) [target_name]
      in if ta_method (tgt_access t) \<noteq> AccessRuntimeExec then Inr ()
      else seq_checks
        [bail_if (tgt_local_ssh t \<noteq> None) (message '' cannot configure local_ssh''),
         bail_if (case ca_ssh_bridge agent of None \<Rightarrow> False | Some bridge \<Rightarrow> sb_enabled bridge)
           (message '' cannot enable container_agent.ssh_bridge''),
         bail_if (list_ex (\<lambda>s. sc_name s = CONTAINER_SSHD) (ca_services agent))
           (message ('' cannot define container_agent service '' @ quoted CONTAINER_SSHD)),
         bail_if (cb_enabled (tgt_container_bootstrap t) \<and> \<not> ca_enabled agent)
           (message '' requires container_agent.enabled = true when container_bootstrap.enabled = true''),
         bail_if (uses_agent_idle_cleanup t
             \<and> (\<not> ca_enabled agent
                 \<or> \<not> (case ca_control_socket agent of None \<Rightarrow> True | Some s \<Rightarrow> control_socket_is_enabled s)))
           (message '' with agent-owned idle_cleanup requires container_agent.enabled = true and container_agent.control_socket to be enabled'')])"

definition target_validate :: "target_config \<Rightarrow> string \<Rightarrow> unit res" where
  "target_validate t target_name = seq_checks
     [validate_identity_and_workspace t target_name,
      validate_container_settings t target_name,
      validate_mode t target_name,
      validate_workspace_cleanup t target_name,
      validate_target_idle_cleanup t target_name,
      validate_target_local_ssh t target_name,
      container_ssh_validate (tgt_container_ssh t),
      validate_runtime_exec t target_name,
      control_sockets_validate (tgt_control_sockets t) ''target.control_sockets'',
      container_bootstrap_validate (tgt_container_bootstrap t),
      each (\<lambda>step. lifecycle_validate step ''target.lifecycle_steps'') (tgt_lifecycle_steps t),
      each (\<lambda>step. host_validate step ''target.host_steps'') (tgt_host_steps t),
      each bootstrap_validate (tgt_container_bootstrap_steps t),
      container_agent_validate_gateway (tgt_container_agent t)]"

section \<open>The name of the container\<close>

definition container_name_vars :: "target_config \<Rightarrow> string option \<Rightarrow> runtime_context \<Rightarrow> vars" where
  "container_name_vars t session_id context =
     (let vars = bt_insert ''image_slug'' (image_slug (tgt_image t)) [];
          vars = (case session_id of None \<Rightarrow> vars | Some s \<Rightarrow> bt_insert ''session_id'' s vars)
      in insert_template_vars context vars)"

definition container_name_pattern :: "target_config \<Rightarrow> string" where
  "container_name_pattern t =
     (case tgt_mode t of
        Fixed \<Rightarrow> unwrap_or ''{image_slug}'' (tgt_name t)
      | Ephemeral \<Rightarrow> unwrap_or DEFAULT_EPHEMERAL_NAME_PATTERN (tgt_ephemeral_name t))"

definition container_name_with_context ::
  "target_config \<Rightarrow> string option \<Rightarrow> runtime_context \<Rightarrow> string res" where
  "container_name_with_context t session_id context =
     and_then (render (container_name_pattern t) (container_name_vars t session_id context)) (\<lambda>rendered.
       and_then (validate_container_name rendered) (\<lambda>_. Inr rendered))"

definition container_name :: "target_config \<Rightarrow> string option \<Rightarrow> string res" where
  "container_name t session_id = container_name_with_context t session_id []"

definition target_validate_context_templates :: "target_config \<Rightarrow> string \<Rightarrow> string list \<Rightarrow> unit res" where
  "target_validate_context_templates t target_name context_keys =
     (let field = ''target '' @ target_name in seq_checks
     [given (\<lambda>name. validate_template_with_context (field @ ''.name'') name [''image_slug''] context_keys)
        (tgt_name t),
      given (\<lambda>name. validate_template_with_context (field @ ''.ephemeral_name'') name
         [''image_slug'', ''session_id''] context_keys) (tgt_ephemeral_name t),
      validate_template_with_context (field @ ''.workspace.path'') (ws_path (tgt_workspace t))
         TARGET_WORKSPACE_TEMPLATE_VARS context_keys,
      given (\<lambda>path. validate_template_with_context (field @ ''.workspace.container_path'') path
         WORKSPACE_CONTAINER_PATH_TEMPLATE_VARS context_keys) (ws_container_path (tgt_workspace t)),
      validate_template_with_context (field @ ''.workspace.state_dir'') (ws_state_dir (tgt_workspace t))
         WORKSPACE_STATE_DIR_TEMPLATE_VARS context_keys,
      control_sockets_validate_context_templates (tgt_control_sockets t) (field @ ''.control_sockets'')
         context_keys])"

section \<open>Lemmas\<close>

lemma rendered_component:
  assumes "render s vars = Inr p" and "Normal w \<in> set (path_components s)"
    and "CHR ''{'' \<notin> set w" "CHR ''}'' \<notin> set w"
    and "\<And>ks k. referenced_keys s = Inr ks \<Longrightarrow> k \<in> set ks \<Longrightarrow> CHR ''/'' \<notin> set k"
  shows "Normal w \<in> set (path_components p)"
proof -
  let ?n = "CHR ''/'' # w @ ''/''"
  from assms(1) obtain ps where ps: "pieces s = Some ps" "subst (bt_get vars) ps = Some p"
    by (auto simp: render_pieces)
  then have alt: "alternating ps" and un: "unparse ps = s"
    by (simp_all add: pieces_alternating pieces_unparse)
  have "referenced_keys s = Inr (piece_keys ps)" using ps by (simp add: referenced_keys_pieces)
  then have keys: "\<not> contains_str ?n k" if "k \<in> set (piece_keys ps)" for k
    using assms(5) that by (fastforce simp: contains_str_iff)
  have "contains_str ?n (''/'' @ unparse ps @ ''/'')"
    using assms(2) by (simp add: path_components_iff split_char_iff un del: contains_str.simps)
  from subst_keeps_text [OF alt ps(2) _ _ keys this] assms(3,4)
  have "contains_str ?n (''/'' @ p @ ''/'')" by simp
  then show ?thesis using assms(2)
    by (simp add: path_components_iff split_char_iff del: contains_str.simps)
qed

lemma context_policy_keys:
  assumes "validate_template_with_policy field v allowed ALLOW_UNBOUND_CONTEXT_PREFIX = Inr ()"
    and "referenced_keys v = Inr ks" "k \<in> set ks"
  shows "k \<in> set allowed \<or> (\<exists>c. k = ''context.'' @ c \<and> slug c)"
proof -
  have "check_template_key field v allowed ALLOW_UNBOUND_CONTEXT_PREFIX k = Inr ()"
    using assms by (simp add: validate_template_with_policy_def)
  then show ?thesis
    by (auto simp: check_template_key_def ALLOW_UNBOUND_CONTEXT_PREFIX_def with_context_Inr
        validate_context_slug_iff starts_with_iff split: if_splits)
qed

lemma slug_no_slash: "slug c \<Longrightarrow> CHR ''/'' \<notin> set c"
  by (auto simp: slug_def list_all_iff char_class_defs)

lemma workspace_path_keys:
  assumes "workspace_path_check target_name path = Inr ()" and "referenced_keys path = Inr ks" "k \<in> set ks"
  shows "CHR ''/'' \<notin> set k"
proof -
  have "k \<in> set TARGET_WORKSPACE_TEMPLATE_VARS \<or> (\<exists>c. k = ''context.'' @ c \<and> slug c)"
    using assms(1) context_policy_keys [OF _ assms(2,3)] by (auto simp: workspace_path_check_def)
  moreover have "\<forall>k \<in> set TARGET_WORKSPACE_TEMPLATE_VARS. CHR ''/'' \<notin> set k"
    by (simp add: TARGET_WORKSPACE_TEMPLATE_VARS_def)
  ultimately show ?thesis using slug_no_slash by fastforce
qed

lemma insert_template_vars_keys:
  "set (bt_keys (insert_template_vars ctx vars)) = (\<lambda>k. ''context.'' @ k) ` set (bt_keys ctx) \<union> set (bt_keys vars)"
proof (induction ctx arbitrary: vars)
  case (Cons e ctx)
  have "insert_template_vars (e # ctx) vars
      = insert_template_vars ctx (bt_insert (''context.'' @ fst e) (snd e) vars)"
    by (simp add: insert_template_vars_def case_prod_beta)
  moreover have "set (bt_keys (bt_insert (''context.'' @ fst e) (snd e) vars))
      = insert (''context.'' @ fst e) (set (bt_keys vars))"
    by (simp only: bt_keys_def bt_insert_keys)
  moreover have "set (bt_keys (e # ctx)) = insert (fst e) (set (bt_keys ctx))"
    by (simp add: bt_keys_def)
  ultimately show ?case by (simp only: Cons.IH) auto
qed (simp add: bt_keys_def insert_template_vars_def)

lemma insert_template_vars_get:
  assumes "bt_ok ctx" and "bt_ok vars"
  shows "bt_get (insert_template_vars ctx vars) k = (case strip_prefix ''context.'' k of
      Some c \<Rightarrow> (case bt_get ctx c of Some v \<Rightarrow> Some v | None \<Rightarrow> bt_get vars k)
    | None \<Rightarrow> bt_get vars k)"
proof -
  let ?es = "map (\<lambda>(k, v). (''context.'' @ k, v)) ctx"
  have "distinct (map fst ?es)"
    using bt_ok_distinct [OF assms(1)] by (simp add: comp_def case_prod_beta distinct_map inj_on_def)
  moreover have "insert_template_vars ctx vars = bt_extend vars ?es"
    by (simp add: insert_template_vars_def bt_extend_def fold_map comp_def case_prod_unfold)
  ultimately have "bt_get (insert_template_vars ctx vars) = bt_get vars ++ map_of ?es"
    using assms(2) by (simp only: bt_get_extend_list)
  moreover have "map_of ?es (''context.'' @ c) = bt_get ctx c" for c
    by (induction ctx) (auto simp: bt_get_def)
  moreover have "map_of ?es k = None" if "strip_prefix ''context.'' k = None"
    using that by (auto simp: map_of_eq_None_iff strip_prefix_None)
  ultimately show ?thesis
    by (cases "strip_prefix ''context.'' k") (auto simp: map_add_def strip_prefix_Some split: option.splits)
qed

text \<open>What it means that a layer, or an effective target, offers no SSH access.\<close>

definition input_without_ssh :: "target_input \<Rightarrow> bool" where
  "input_without_ssh t \<longleftrightarrow> tgi_local_ssh t = None
     \<and> (\<forall>agent. tgi_container_agent t = Some agent \<longrightarrow>
          (\<forall>bridge. cai_ssh_bridge agent = Some bridge \<longrightarrow> sbi_enabled bridge = Some False)
          \<and> (\<forall>s \<in> set (cai_services agent). sc_name s \<noteq> CONTAINER_SSHD))"

definition target_without_ssh :: "target_config \<Rightarrow> bool" where
  "target_without_ssh t \<longleftrightarrow> tgt_local_ssh t = None
     \<and> (\<forall>bridge. ca_ssh_bridge (tgt_container_agent t) = Some bridge \<longrightarrow> \<not> sb_enabled bridge)
     \<and> (\<forall>s \<in> set (ca_services (tgt_container_agent t)). sc_name s \<noteq> CONTAINER_SSHD)"

lemma not_unwrap_or_True: "\<not> unwrap_or True b \<longleftrightarrow> b = Some False"
  by (cases b) auto

lemma exec_layer_without_ssh:
  "access_method t = Some AccessRuntimeExec \<Longrightarrow> validate_runtime_exec_layer t = Inr () \<longleftrightarrow> input_without_ssh t"
  by (auto simp: validate_runtime_exec_layer_def input_without_ssh_def bail_if_Inr list_ex_iff
      not_unwrap_or_True split: option.splits)

lemma cleared_without_ssh: "input_without_ssh (clear_inherited_ssh_access t)"
  by (auto simp: input_without_ssh_def clear_inherited_ssh_access_def)

text \<open>What an overlay leaves of SSH access: its parts and the agents of the two layers.\<close>

lemma agent_overlay_without_sshd:
  assumes "container_agent_overlay a b = Inr c"
    and "\<forall>s \<in> set (cai_services a) \<union> set (cai_services b). sc_name s \<noteq> n"
  shows "\<forall>s \<in> set (cai_services c). sc_name s \<noteq> n"
  using assms merge_named_loop_set [of sc_name "map sc_name (cai_services a)" "cai_services a" "cai_services b"]
  by (auto simp: container_agent_overlay_def map_ok_Inr merge_services_def merge_named_Inr)

lemma agent_overlay_bridge:
  assumes "container_agent_overlay a b = Inr c"
  shows "cai_ssh_bridge c = overlay_part ssh_bridge_overlay ssh_bridge_input_default
    (cai_ssh_bridge a) (cai_ssh_bridge b)"
  using assms by (auto simp: container_agent_overlay_def map_ok_Inr overlay_part_def)

lemma overlay_without_ssh:
  assumes "target_overlay self later = Inr out" and "input_without_ssh later"
    and "input_without_ssh self \<or> access_method later = Some AccessRuntimeExec"
  shows "input_without_ssh out"
proof -
  define base where "base = (if access_method later = Some AccessRuntimeExec
    then clear_inherited_ssh_access self else self)"
  have base: "input_without_ssh base"
    using assms(3) by (auto simp: base_def cleared_without_ssh)
  obtain agent where agent: "(case tgi_container_agent later of
        None \<Rightarrow> Inr (tgi_container_agent base)
      | Some agent \<Rightarrow> map_ok Some (container_agent_overlay
          (unwrap_or container_agent_input_default (tgi_container_agent base)) agent)) = Inr agent"
    and out: "tgi_container_agent out = agent"
      "tgi_local_ssh out = overlay_part local_ssh_overlay local_ssh_input_default
        (tgi_local_ssh base) (tgi_local_ssh later)"
    using assms(1) unfolding target_overlay_def Let_def base_def [symmetric] and_then_Inr by auto
  have "tgi_local_ssh out = None"
    using base assms(2) by (simp add: out overlay_part_def input_without_ssh_def)
  moreover have "(\<forall>bridge. cai_ssh_bridge c = Some bridge \<longrightarrow> sbi_enabled bridge = Some False)
      \<and> (\<forall>s \<in> set (cai_services c). sc_name s \<noteq> CONTAINER_SSHD)" if c: "agent = Some c" for c
  proof (cases "tgi_container_agent later")
    case None
    with agent c base show ?thesis by (simp add: input_without_ssh_def)
  next
    case (Some b)
    let ?a = "unwrap_or container_agent_input_default (tgi_container_agent base)"
    have over: "container_agent_overlay ?a b = Inr c" using agent c Some by (simp add: map_ok_Inr)
    have a: "(\<forall>bridge. cai_ssh_bridge ?a = Some bridge \<longrightarrow> sbi_enabled bridge = Some False)
        \<and> (\<forall>s \<in> set (cai_services ?a). sc_name s \<noteq> CONTAINER_SSHD)"
      using base by (cases "tgi_container_agent base")
        (auto simp: input_without_ssh_def container_agent_input_default_def)
    have b: "(\<forall>bridge. cai_ssh_bridge b = Some bridge \<longrightarrow> sbi_enabled bridge = Some False)
        \<and> (\<forall>s \<in> set (cai_services b). sc_name s \<noteq> CONTAINER_SSHD)"
      using assms(2) Some by (simp add: input_without_ssh_def)
    have "\<forall>s \<in> set (cai_services c). sc_name s \<noteq> CONTAINER_SSHD"
      using a b by (intro agent_overlay_without_sshd [OF over]) blast
    moreover have "sbi_enabled bridge = Some False" if "cai_ssh_bridge c = Some bridge" for bridge
      using a b that unfolding agent_overlay_bridge [OF over]
      by (auto simp: overlay_part_def ssh_bridge_overlay_def split: option.splits)
    ultimately show ?thesis by blast
  qed
  ultimately show ?thesis by (simp add: input_without_ssh_def out)
qed

lemma effective_without_ssh:
  assumes "target_into_effective t name = Inr eff" and "input_without_ssh t"
  shows "target_without_ssh eff"
proof -
  let ?a = "unwrap_or container_agent_input_default (tgi_container_agent t)"
  from assms(1) have agent: "container_agent_into_effective ?a = Inr (tgt_container_agent eff)"
    and ssh: "tgt_local_ssh eff = map_option local_ssh_into_effective (tgi_local_ssh t)"
    by (auto simp: target_into_effective_def and_then_Inr)
  then have "ca_ssh_bridge (tgt_container_agent eff) = map_option ssh_bridge_into_effective (cai_ssh_bridge ?a)"
    "ca_services (tgt_container_agent eff) = cai_services ?a"
    by (auto simp: container_agent_into_effective_def and_then_Inr map_ok_Inr Let_def)
  with ssh assms(2) show ?thesis
    by (cases "tgi_container_agent t")
      (auto simp: input_without_ssh_def target_without_ssh_def container_agent_input_default_def
        ssh_bridge_into_effective_def)
qed

lemma container_name_vars_insert:
  assumes "bt_ok ctx"
  shows "bt_get (container_name_vars t session (bt_insert key u ctx)) k
    = (if k = ''context.'' @ key then Some u
       else bt_get (container_name_vars t session (bt_insert key v ctx)) k)"
proof -
  have ok: "bt_ok (case session of None \<Rightarrow> bt_insert ''image_slug'' s [] |
      Some x \<Rightarrow> bt_insert ''session_id'' x (bt_insert ''image_slug'' s []))" for s :: string
    by (auto intro!: bt_ok_insert simp del: bt_insert.simps split: option.split)
  show ?thesis
    by (cases "strip_prefix ''context.'' k")
      (auto simp: container_name_vars_def Let_def insert_template_vars_get [OF bt_ok_insert [OF assms] ok]
        bt_get_insert [OF assms] strip_prefix_Some simp del: bt_insert.simps)
qed

section \<open>Properties\<close>

text \<open>C32. A layer that selects the access method \<open>runtime_exec\<close> ends all SSH access it inherits: whatever
  the layers before it say, the target made of them has no local SSH, no enabled bridge and no SSH
  server, and none comes back with later layers unless one of them asks for it.\<close>

theorem runtime_exec_ends_ssh_access:
  assumes "target_overlay base layer = Inr t" and "access_method layer = Some AccessRuntimeExec"
    and "overlay_all \<lparr>tr_kind = kind, tr_templates = templates, tr_dependencies = tgi_use_templates,
           tr_overlay = target_overlay\<rparr> t later = Inr out"
    and "list_all input_without_ssh later"
    and "target_into_effective out name = Inr eff"
  shows "target_without_ssh eff"
proof -
  have "input_without_ssh t"
    using assms(1,2) by (intro overlay_without_ssh [OF assms(1)])
      (auto simp: exec_layer_without_ssh [symmetric] target_overlay_def and_then_Inr)
  then have "input_without_ssh out"
    using assms(3,4)
  proof (induction later arbitrary: t)
    case (Cons l ls)
    then show ?case by (auto simp: and_then_Inr intro: overlay_without_ssh)
  qed simp
  with assms(5) show ?thesis by (rule effective_without_ssh)
qed

text \<open>The container of an accepted target: once every declared context variable is bound, and a session
  is named where the target is ephemeral, its name pattern renders; and a name the gateway uses is a
  single path component that no tool reads as a flag.\<close>

theorem container_name_is_safe:
  assumes "target_validate t name = Inr ()" and "target_validate_context_templates t name keys = Inr ()"
    and "set keys \<subseteq> set (bt_keys ctx)" and "tgt_mode t = Ephemeral \<longrightarrow> session_id \<noteq> None"
  shows "\<exists>s. render (container_name_pattern t) (container_name_vars t session_id ctx) = Inr s
    \<and> (case container_name_with_context t session_id ctx of
         Inl e \<Rightarrow> \<not> name_ok s
       | Inr c \<Rightarrow> c = s \<and> path_components c = [Normal c] \<and> \<not> starts_with ''-'' c)"
proof -
  let ?vars = "container_name_vars t session_id ctx"
  let ?base = "if session_id = None then {''image_slug''} else {''image_slug'', ''session_id''}"
  have bound: "set (bt_keys ?vars) = (\<lambda>k. ''context.'' @ k) ` set (bt_keys ctx) \<union> ?base"
    by (cases session_id)
      (auto simp: container_name_vars_def Let_def insert_template_vars_keys bt_keys_def [of "[]"]
        bt_keys_def [of "[_]"] bt_keys_def [of "[_, _]"])
  have mode: "validate_mode t name = Inr ()" using assms(1) by (simp add: target_validate_def)
  obtain allowed field where allowed: "set allowed \<subseteq> ?base"
    and valid: "validate_template_with_context field (container_name_pattern t) allowed keys = Inr ()"
  proof (cases "tgt_mode t")
    case Fixed
    with mode obtain n where "tgt_name t = Some n" by (auto simp: validate_mode_def split: option.splits)
    with Fixed assms(2) show ?thesis
      by (intro that [of "[''image_slug'']" "''target '' @ name @ ''.name''"])
        (auto simp: container_name_pattern_def target_validate_context_templates_def Let_def)
  next
    case Ephemeral
    with mode obtain n where "tgt_ephemeral_name t = Some n"
      by (auto simp: validate_mode_def split: option.splits)
    with Ephemeral assms(2,4) show ?thesis
      by (intro that [of "[''image_slug'', ''session_id'']" "''target '' @ name @ ''.ephemeral_name''"])
        (auto simp: container_name_pattern_def target_validate_context_templates_def Let_def)
  qed
  from validate_template_with_context_keys [OF valid] obtain ks
    where ks: "referenced_keys (container_name_pattern t) = Inr ks"
      "set ks \<subseteq> set allowed \<union> (\<lambda>k. ''context.'' @ k) ` set keys" by blast
  have "set ks \<subseteq> set (bt_keys ?vars)" unfolding bound using ks(2) allowed assms(3) by blast
  with ks(1) obtain s where s: "render (container_name_pattern t) ?vars = Inr s"
    using render_is_ok_iff [of "container_name_pattern t" ?vars] by (auto simp: is_ok_iff)
  show ?thesis
  proof (cases "name_ok s")
    case True
    then have "validate_container_name s = Inr ()" by (simp add: validate_container_name_def validate_name_iff)
    moreover have "\<not> starts_with ''-'' s" using True by (cases s) (auto simp: name_ok_def)
    ultimately show ?thesis using s True by (simp add: container_name_with_context_def name_component)
  next
    case False
    then have "validate_container_name s \<noteq> Inr ()" by (simp add: validate_container_name_def validate_name_iff)
    then obtain e where "validate_container_name s = Inl e" by (cases "validate_container_name s") auto
    with s False show ?thesis by (simp add: container_name_with_context_def)
  qed
qed

text \<open>Workspaces that are removed after a session belong to it: the target is ephemeral and stops when
  idle, the rendered path lies under a component \<open>aw-gateway\<close> whatever the variables are, and two
  sessions never have the same path.\<close>

theorem cleaned_workspace_belongs_to_session:
  assumes "target_validate t name = Inr ()" and "ws_cleanup (tgt_workspace t) \<noteq> CleanupNever"
    and "bt_ok vars"
    and "render (ws_path (tgt_workspace t)) (bt_insert ''session_id'' session vars) = Inr p"
    and "render (ws_path (tgt_workspace t)) (bt_insert ''session_id'' session' vars) = Inr p'"
  shows "tgt_mode t = Ephemeral \<and> tgt_stop_when_idle t \<and> \<not> uses_agent_idle_cleanup t
    \<and> Normal ''aw-gateway'' \<in> set (path_components p) \<and> (p = p' \<longleftrightarrow> session = session')"
proof -
  let ?path = "ws_path (tgt_workspace t)"
  have path: "workspace_path_check name ?path = Inr ()"
    and cleanup: "validate_workspace_cleanup t name = Inr ()" and mode: "validate_mode t name = Inr ()"
    using assms(1) by (simp_all add: target_validate_def validate_identity_and_workspace_def)
  from cleanup assms(2) obtain ks c where eph: "tgt_mode t = Ephemeral"
    and ks: "referenced_keys ?path = Inr ks" "''session_id'' \<in> set ks"
    and component: "Normal ''aw-gateway'' \<in> set (path_components ?path)"
    and c: "tgt_idle_cleanup t = Some c" "ic_owner c = OwnerGateway"
    by (auto simp: validate_workspace_cleanup_def bail_if_Inr and_then_Inr split: option.splits)
  have "Normal ''aw-gateway'' \<in> set (path_components p)"
    by (rule rendered_component [OF assms(4) component])
      (auto dest: workspace_path_keys [OF path])
  moreover have "p = p' \<longleftrightarrow> session = session'"
  proof
    assume "p = p'"
    then show "session = session'" using assms(3-5) ks by (auto intro: rendered_injective)
  qed (use assms(4,5) in simp)
  moreover have "tgt_stop_when_idle t"
    using mode eph by (auto simp: validate_mode_def bail_if_Inr)
  moreover have "\<not> uses_agent_idle_cleanup t"
    using c by (simp add: uses_agent_idle_cleanup_def effective_agent_idle_cleanup_def
        is_active_agent_idle_cleanup_def)
  ultimately show ?thesis using eph by blast
qed

section \<open>A concrete target\<close>

definition session_target :: target_config where
  "session_target =
     \<lparr>tgt_image = ''alpine'', tgt_mode = Ephemeral, tgt_name = None,
      tgt_ephemeral_name = Some DEFAULT_EPHEMERAL_NAME_PATTERN,
      tgt_access = target_access_default,
      tgt_workspace = workspace_default\<lparr>ws_path := ''aw-gateway/{session_id}'', ws_cleanup := CleanupAlways\<rparr>,
      tgt_runtime = \<lparr>tr_extra_run_args = []\<rparr>, tgt_identity = None, tgt_container_user = None,
      tgt_container_home = None, tgt_container_env = [], tgt_session_env = [],
      tgt_session_env_inherit = [], tgt_container_mounts = [], tgt_host_socket_exposures = [],
      tgt_stop_when_idle = True, tgt_remove_on_stop = True,
      tgt_idle_cleanup = Some (idle_cleanup_default\<lparr>ic_owner := OwnerGateway\<rparr>),
      tgt_local_ssh = None, tgt_container_ssh = container_ssh_transfer_default,
      tgt_control_sockets = control_sockets_default,
      tgt_container_bootstrap = container_bootstrap_default, tgt_lifecycle_steps = [],
      tgt_host_steps = [], tgt_container_bootstrap_steps = [],
      tgt_container_agent = container_agent_default\<rparr>"

lemma session_target_valid: "target_validate session_target ''t'' = Inr ()"
  by code_simp

theorem container_name_is_safe_witness:
  "\<exists>s. render (container_name_pattern session_target)
      (container_name_vars session_target (Some ''s1'') []) = Inr s
    \<and> (case container_name_with_context session_target (Some ''s1'') [] of
         Inl e \<Rightarrow> \<not> name_ok s
       | Inr c \<Rightarrow> c = s \<and> path_components c = [Normal c] \<and> \<not> starts_with ''-'' c)"
  by (rule container_name_is_safe [OF session_target_valid, of "[]"]) (code_simp, simp_all)

theorem cleaned_workspace_belongs_to_session_witness:
  "Normal ''aw-gateway'' \<in> set (path_components ''aw-gateway/s1'') \<and> ''aw-gateway/s1'' \<noteq> ''aw-gateway/s2''"
proof -
  have renders: "render (ws_path (tgt_workspace session_target)) (bt_insert ''session_id'' ''s1'' [])
      = Inr ''aw-gateway/s1''" "render (ws_path (tgt_workspace session_target))
      (bt_insert ''session_id'' ''s2'' []) = Inr ''aw-gateway/s2''"
    by code_simp+
  have "ws_cleanup (tgt_workspace session_target) \<noteq> CleanupNever" by code_simp
  from cleaned_workspace_belongs_to_session [OF session_target_valid this _ renders]
  show ?thesis by simp
qed

definition ssh_layer :: target_input where
  "ssh_layer = target_input_default
     \<lparr>tgi_image := Some ''alpine'', tgi_local_ssh := Some local_ssh_input_default,
      tgi_container_agent := Some (container_agent_input_default
        \<lparr>cai_ssh_bridge := Some ssh_bridge_input_default, cai_services := [plain_service CONTAINER_SSHD []]\<rparr>)\<rparr>"

definition exec_layer :: target_input where
  "exec_layer = target_input_default\<lparr>tgi_access := Some \<lparr>tai_method = Some AccessRuntimeExec\<rparr>\<rparr>"

theorem runtime_exec_ends_ssh_access_witness:
  "\<exists>t eff. target_overlay ssh_layer exec_layer = Inr t \<and> target_into_effective t ''t'' = Inr eff
    \<and> target_without_ssh eff"
proof -
  have t: "is_ok (target_overlay ssh_layer exec_layer)" by code_simp
  then obtain t where t: "target_overlay ssh_layer exec_layer = Inr t" by (auto simp: is_ok_iff)
  have "is_ok (and_then (target_overlay ssh_layer exec_layer) (\<lambda>t. target_into_effective t ''t''))"
    by code_simp
  then obtain eff where eff: "target_into_effective t ''t'' = Inr eff" by (auto simp: t is_ok_iff)
  have "access_method exec_layer = Some AccessRuntimeExec" by code_simp
  from runtime_exec_ends_ssh_access [OF t this, of kind templates "[]", OF _ _ eff] have "target_without_ssh eff"
    by simp
  with t eff show ?thesis by blast
qed

end
