(* ===== verification/Launch_Config.thy ===== *)
theory Launch_Config
  imports Services
begin

text \<open>
  \<open>src/config/launch.rs\<close>: launch definitions, the overlay of a later layer and the validation of
  a complete or partial launch. Of the targets a launch may name only their names matter, and of
  a floating-point default only whether it is finite and how it prints.
\<close>

section \<open>Variables\<close>

datatype launch_var_type = VtString | VtEnum | VtBoolean | VtNumber

record float_view =
  fv_finite :: bool
  fv_text :: string

datatype launch_var_value = LvString string | LvBoolean bool | LvInteger int | LvFloat float_view

definition show_int :: "int \<Rightarrow> string" where
  "show_int i = (if i < 0 then CHR ''-'' # show_nat (nat (- i)) else show_nat (nat i))"

definition canonical_number_string :: "float_view \<Rightarrow> string" where
  "canonical_number_string f =
     (if ends_with ''.0'' (fv_text f) then take (length (fv_text f) - 2) (fv_text f) else fv_text f)"

fun launch_var_rendered :: "launch_var_value \<Rightarrow> string" where
  "launch_var_rendered (LvString v) = v"
| "launch_var_rendered (LvBoolean b) = (if b then ''true'' else ''false'')"
| "launch_var_rendered (LvInteger i) = show_int i"
| "launch_var_rendered (LvFloat f) = canonical_number_string f"

record launch_var_config =
  lv_type :: launch_var_type
  lv_required :: bool
  lv_default :: "launch_var_value option"
  lv_values :: "string list option"
  lv_description :: "string option"

definition validate_launch_var_string_value :: "string \<Rightarrow> string + unit" where
  "validate_launch_var_string_value v =
     (if CHR 0x00 \<in> set v \<or> CHR 0x0A \<in> set v \<or> CHR 0x0D \<in> set v
      then Inl ''must not contain NUL, LF, or CR'' else Inr ())"

text \<open>\<open>if let Err(reason) = ... { bail!(... {reason}) }\<close>.\<close>

definition bail_reason :: "string \<Rightarrow> string list \<Rightarrow> string + unit \<Rightarrow> unit res" where
  "bail_reason msg args r = (case r of Inl reason \<Rightarrow> Inl (Bail msg (args @ [reason])) | Inr _ \<Rightarrow> Inr ())"

definition launch_var_validate :: "launch_var_config \<Rightarrow> string \<Rightarrow> string \<Rightarrow> unit res" where
  "launch_var_validate v launch_name var_name =
     (let args = [launch_name, var_name] in seq_checks
       [bail_if (lv_required v \<and> lv_default v \<noteq> None)
          (Bail ''launch {} variable {} cannot set both required and default'' args),
        bail_if (lv_type v \<noteq> VtEnum \<and> lv_values v \<noteq> None)
          (Bail ''launch {} variable {} values are only valid for enum variables'' args),
        (case lv_type v of
           VtString \<Rightarrow> given (\<lambda>d. case d of
               LvString s \<Rightarrow> bail_reason ''launch {} variable {} string default {}'' args
                 (validate_launch_var_string_value s)
             | _ \<Rightarrow> Inl (Bail ''launch {} variable {} string default must be a TOML string'' args))
             (lv_default v)
         | VtEnum \<Rightarrow> (case lv_values v of
               None \<Rightarrow> Inl (Bail ''launch {} enum variable {} requires values'' args)
             | Some values \<Rightarrow> seq_checks
                 [bail_if (values = []) (Bail ''launch {} enum variable {} values must not be empty'' args),
                  each (\<lambda>s. seq_checks
                      [bail_if (s = [])
                         (Bail ''launch {} enum variable {} values must not include empty strings'' args),
                       bail_reason ''launch {} enum variable {} values {}'' args
                         (validate_launch_var_string_value s)]) values,
                  given (\<lambda>d. case d of
                      LvString s \<Rightarrow> bail_if (s \<notin> set values)
                        (Bail ''launch {} enum variable {} default must match one configured value'' args)
                    | _ \<Rightarrow> Inl (Bail ''launch {} enum variable {} default must be a TOML string'' args))
                    (lv_default v)])
         | VtBoolean \<Rightarrow> given (\<lambda>d. case d of LvBoolean _ \<Rightarrow> Inr ()
             | _ \<Rightarrow> Inl (Bail ''launch {} boolean variable {} default must be a TOML boolean'' args))
             (lv_default v)
         | VtNumber \<Rightarrow> given (\<lambda>d. case d of LvInteger _ \<Rightarrow> Inr ()
             | LvFloat f \<Rightarrow> bail_if (\<not> fv_finite f)
                 (Bail ''launch {} number variable {} default must be finite'' args)
             | _ \<Rightarrow> Inl (Bail ''launch {} number variable {} default must be a TOML number'' args))
             (lv_default v))])"

section \<open>Steps and launches\<close>

datatype launch_step_phase = PostReady
datatype launch_step_location = OnHost | InContainer

record launch_step =
  lst_phase :: launch_step_phase
  lst_location :: launch_step_location
  lst_name :: string
  lst_required :: bool
  lst_timeout :: "string option"
  lst_cwd :: "string option"
  lst_env :: "(string, string) btree"
  lst_command :: "string list"

definition launch_step_validate ::
  "launch_step \<Rightarrow> string \<Rightarrow> string list \<Rightarrow> template_policy \<Rightarrow> unit res" where
  "launch_step_validate s launch_name allowed policy = seq_checks
     [validate_name ''launch step'' (lst_name s),
      bail_if (lst_phase s \<noteq> PostReady)
        (Bail ''launch {} step {} only supports phase = post_ready'' [launch_name, lst_name s]),
      validate_command ''launch.steps.command'' (lst_command s),
      validate_command_templates_with_policy ''launch.steps.command'' (lst_command s) allowed policy,
      given (\<lambda>cwd. validate_template_with_policy ''launch.steps.cwd'' cwd allowed policy) (lst_cwd s),
      validate_env_keyed_template_map_with_policy ''launch.steps.env'' (lst_env s) allowed policy,
      check_duration (lst_timeout s)]"

record launch_config =
  lc_target :: string
  lc_description :: "string option"
  lc_allow_args :: bool
  lc_cwd :: "string option"
  lc_env :: "(string, string) btree"
  lc_command :: "string list"
  lc_vars :: "(string, launch_var_config) btree"
  lc_steps :: "launch_step list"

record launch_input =
  li_use :: "string list"
  li_target :: "string option"
  li_description :: "string option"
  li_allow_args :: "bool option"
  li_cwd :: "string option"
  li_env :: "(string, string) btree"
  li_command :: "string list option"
  li_vars :: "(string, launch_var_config) btree"
  li_steps :: "launch_step list"

definition merge_launch_steps :: "launch_step list \<Rightarrow> launch_step list \<Rightarrow> launch_step list res" where
  "merge_launch_steps = merge_named ''launch.steps'' lst_name"

definition launch_overlay :: "launch_input \<Rightarrow> launch_input \<Rightarrow> launch_input res" where
  "launch_overlay self later =
     map_ok (\<lambda>steps.
       \<lparr>li_use = li_use self,
        li_target = over (li_target self) (li_target later),
        li_description = over (li_description self) (li_description later),
        li_allow_args = over (li_allow_args self) (li_allow_args later),
        li_cwd = over (li_cwd self) (li_cwd later),
        li_env = bt_extend (li_env self) (li_env later),
        li_command = over (li_command self) (li_command later),
        li_vars = bt_extend (li_vars self) (li_vars later),
        li_steps = steps\<rparr>)
       (merge_launch_steps (li_steps self) (li_steps later))"

definition launch_into_effective :: "launch_input \<Rightarrow> string \<Rightarrow> launch_config res" where
  "launch_into_effective self launch_name =
     and_then (ok_or (Bail ''launch {} target is required after defaults'' [launch_name])
         (li_target self)) (\<lambda>target.
     and_then (ok_or (Bail ''launch {} command is required after defaults'' [launch_name])
         (li_command self)) (\<lambda>command.
       Inr \<lparr>lc_target = target, lc_description = li_description self,
            lc_allow_args = unwrap_or False (li_allow_args self), lc_cwd = li_cwd self,
            lc_env = li_env self, lc_command = command, lc_vars = li_vars self,
            lc_steps = li_steps self\<rparr>))"

section \<open>Validation\<close>

record launch_policy =
  lp_template_policy :: template_policy
  lp_targets :: "string list option"
  lp_collect_references :: bool
  lp_command_before_vars :: bool

definition effective_policy :: "string list \<Rightarrow> launch_policy" where
  "effective_policy targets =
     \<lparr>lp_template_policy = STRICT, lp_targets = Some targets, lp_collect_references = True,
      lp_command_before_vars = True\<rparr>"

definition partial_policy :: launch_policy where
  "partial_policy =
     \<lparr>lp_template_policy = ALLOW_UNBOUND_VAR_PREFIX, lp_targets = None,
      lp_collect_references = False, lp_command_before_vars = False\<rparr>"

record launch_shape =
  sh_target :: "string option"
  sh_allow_args :: "bool option"
  sh_cwd :: "string option"
  sh_env :: "(string, string) btree"
  sh_command :: "string list option"
  sh_vars :: "(string, launch_var_config) btree"
  sh_steps :: "launch_step list"

definition allowed_template_vars :: "(string, launch_var_config) btree \<Rightarrow> string list" where
  "allowed_template_vars vars = LAUNCH_TEMPLATE_BUILTINS @ map (\<lambda>n. ''var.'' @ n) (bt_keys vars)"

definition validate_launch_args_sentinel ::
  "string \<Rightarrow> string \<Rightarrow> bool option \<Rightarrow> bool \<Rightarrow> nat list \<Rightarrow> unit res" where
  "validate_launch_args_sentinel launch_name field allow_args effective positions =
     (let allow_args_is_false =
        (if effective then \<not> unwrap_or False allow_args else allow_args = Some False)
      in seq_checks
       [bail_if (positions \<noteq> [] \<and> hd positions = 0)
          (Bail ''launch {} {} must not place {args} at argv[0]'' [launch_name, field]),
        bail_if (length positions > 1)
          (Bail ''launch {} {} must not contain duplicate {args} argv elements'' [launch_name, field]),
        bail_if (effective \<and> unwrap_or False allow_args \<and> positions = [])
          (Bail ''launch {} allow_args = true requires exactly one {args} argv element'' [launch_name]),
        bail_if (allow_args_is_false \<and> positions \<noteq> [])
          (Bail ''launch {} {} uses {args} but allow_args is false'' [launch_name, field])])"

text \<open>The loop over the arguments of the command with their index, collecting the positions of
  \<open>{args}\<close>.\<close>

fun sentinel_loop ::
  "string \<Rightarrow> string \<Rightarrow> string list \<Rightarrow> template_policy \<Rightarrow> nat \<Rightarrow> string list \<Rightarrow> nat list \<Rightarrow> nat list res"
where
  "sentinel_loop launch_name field allowed policy index [] positions = Inr positions"
| "sentinel_loop launch_name field allowed policy index (arg # args) positions =
     (if arg = ''{args}''
      then sentinel_loop launch_name field allowed policy (Suc index) args (positions @ [index])
      else if contains_str ''{args}'' arg
      then Inl (Bail ''launch {} {} must use {args} only as a whole argv element'' [launch_name, field])
      else and_then (validate_template_with_policy field arg allowed policy) (\<lambda>_.
        sentinel_loop launch_name field allowed policy (Suc index) args positions))"

definition validate_launch_command_templates_with_policy ::
  "string \<Rightarrow> string \<Rightarrow> string list \<Rightarrow> string list \<Rightarrow> template_policy \<Rightarrow> bool option \<Rightarrow> bool \<Rightarrow> unit res"
where
  "validate_launch_command_templates_with_policy launch_name field command allowed policy
     allow_args effective =
     and_then (sentinel_loop launch_name field allowed policy 0 command [])
       (validate_launch_args_sentinel launch_name field allow_args effective)"

text \<open>\<open>collect_var_references\<close> of a working directory, an environment and a command.\<close>

definition collect_all_references ::
  "string option \<Rightarrow> (string, string) btree \<Rightarrow> string list \<Rightarrow> string set \<Rightarrow> string set res" where
  "collect_all_references cwd env command refs =
     and_then (collect_var_references cwd refs) (\<lambda>refs.
     and_then (collect_var_references_from_map env refs)
       (collect_var_references_from_command command))"

text \<open>The loop over the steps, on \<open>step_names\<close> and \<open>referenced_vars\<close>.\<close>

fun launch_steps_loop ::
  "string \<Rightarrow> string list \<Rightarrow> launch_policy \<Rightarrow> string set \<Rightarrow> string set \<Rightarrow> launch_step list \<Rightarrow> string set res"
where
  "launch_steps_loop launch_name allowed policy names refs [] = Inr refs"
| "launch_steps_loop launch_name allowed policy names refs (s # steps) =
     and_then (launch_step_validate s launch_name allowed (lp_template_policy policy)) (\<lambda>_.
       if lst_name s \<in> names
       then Inl (Bail ''launch {} defines duplicate step {}'' [launch_name, lst_name s])
       else and_then
         (if lp_collect_references policy
          then collect_all_references (lst_cwd s) (lst_env s) (lst_command s) refs else Inr refs)
         (\<lambda>refs. launch_steps_loop launch_name allowed policy (insert (lst_name s) names) refs steps))"

definition validate_launch_shape :: "string \<Rightarrow> launch_shape \<Rightarrow> launch_policy \<Rightarrow> unit res" where
  "validate_launch_shape launch_name shape policy =
     (let allowed = allowed_template_vars (sh_vars shape); tp = lp_template_policy policy in
      and_then (seq_checks
       [(case lp_targets policy of
           Some targets \<Rightarrow>
             (case sh_target shape of
                None \<Rightarrow> Inl (Bail ''launch {} target is required after defaults'' [launch_name])
              | Some target \<Rightarrow> bail_if (target \<notin> set targets)
                  (Bail ''launch {} references unknown target {}'' [launch_name, target]))
         | None \<Rightarrow> given (validate_name ''launch.target'') (sh_target shape)),
        (if lp_command_before_vars policy
         then given (validate_command ''launch.command'') (sh_command shape) else Inr ()),
        each (\<lambda>(name, var). seq_checks
            [validate_name ''launch var'' name, launch_var_validate var launch_name name])
          (sh_vars shape),
        given (\<lambda>cwd. validate_template_with_policy ''launch.cwd'' cwd allowed tp) (sh_cwd shape),
        validate_env_keyed_template_map_with_policy ''launch.env'' (sh_env shape) allowed tp,
        given (\<lambda>command. seq_checks
            [(if \<not> lp_command_before_vars policy
              then validate_command ''launch.command'' command else Inr ()),
             validate_launch_command_templates_with_policy launch_name ''launch.command'' command
               allowed tp (sh_allow_args shape) (lp_collect_references policy)])
          (sh_command shape)]) (\<lambda>_.
      and_then (if lp_collect_references policy
          then collect_all_references (sh_cwd shape) (sh_env shape)
            (unwrap_or [] (sh_command shape)) {}
          else Inr {}) (\<lambda>refs.
      and_then (launch_steps_loop launch_name allowed policy {} refs (sh_steps shape)) (\<lambda>refs.
        each (\<lambda>var_name.
            case bt_get (sh_vars shape) var_name of
              None \<Rightarrow> Inl (Bail ''launch {} references undeclared variable {}'' [launch_name, var_name])
            | Some var \<Rightarrow> bail_if (\<not> lv_required var \<and> lv_default var = None)
                (Bail ''launch {} optional variable {} is referenced by a template and must define default''
                  [launch_name, var_name]))
          (sorted_list_of_set refs)))))"

definition launch_validate :: "launch_config \<Rightarrow> string \<Rightarrow> string list \<Rightarrow> unit res" where
  "launch_validate l launch_name targets =
     validate_launch_shape launch_name
       \<lparr>sh_target = Some (lc_target l), sh_allow_args = Some (lc_allow_args l), sh_cwd = lc_cwd l,
        sh_env = lc_env l, sh_command = Some (lc_command l), sh_vars = lc_vars l,
        sh_steps = lc_steps l\<rparr>
       (effective_policy targets)"

definition launch_validate_partial :: "launch_input \<Rightarrow> string \<Rightarrow> unit res" where
  "launch_validate_partial l launch_name = seq_checks
     [each (validate_name ''launch template reference'') (li_use l),
      validate_launch_shape launch_name
        \<lparr>sh_target = li_target l, sh_allow_args = li_allow_args l, sh_cwd = li_cwd l,
         sh_env = li_env l, sh_command = li_command l, sh_vars = li_vars l, sh_steps = li_steps l\<rparr>
        partial_policy]"

section \<open>Lemmas on references\<close>

definition var_refs :: "string \<Rightarrow> string set" where
  "var_refs t = (case referenced_keys t of Inl _ \<Rightarrow> {} | Inr ks \<Rightarrow> {n. ''var.'' @ n \<in> set ks})"

definition templates_of :: "string option \<Rightarrow> (string, string) btree \<Rightarrow> string list \<Rightarrow> string set" where
  "templates_of cwd env command = set_option cwd \<union> snd ` set env \<union> set command"

lemma finite_var_refs: "finite (var_refs t)"
proof (cases "referenced_keys t")
  case (Inr ks)
  have "{n. ''var.'' @ n \<in> set ks} \<subseteq> drop 4 ` set ks" by force
  then have "finite {n. ''var.'' @ n \<in> set ks}" by (rule finite_subset) simp
  then show ?thesis by (simp add: var_refs_def Inr)
qed (simp add: var_refs_def)

lemma collect_one: "collect_var_references (Some t) refs = Inr out \<Longrightarrow> out = refs \<union> var_refs t"
  by (auto simp: collect_var_references_Inr var_refs_def)

lemma collect_command:
  "collect_var_references_from_command command refs = Inr out \<Longrightarrow>
    out = refs \<union> \<Union> (var_refs ` set command)"
proof (induction command arbitrary: refs)
  case (Cons t ts)
  then obtain r where "collect_var_references (Some t) refs = Inr r"
    "collect_var_references_from_command ts r = Inr out"
    by (auto simp: and_then_Inr)
  with Cons.IH [of r] collect_one [of t refs r] show ?case by auto
qed simp

lemma collect_map:
  "collect_var_references_from_map env refs = Inr out \<Longrightarrow>
    out = refs \<union> \<Union> (var_refs ` snd ` set env)"
proof (induction env arbitrary: refs)
  case (Cons e env)
  obtain k t where e: "e = (k, t)" by force
  with Cons.prems obtain r where "collect_var_references (Some t) refs = Inr r"
    "collect_var_references_from_map env r = Inr out"
    by (auto simp: and_then_Inr)
  with Cons.IH [of r] collect_one [of t refs r] e show ?case by auto
qed simp

lemma collect_all:
  assumes "collect_all_references cwd env command refs = Inr out"
  shows "out = refs \<union> \<Union> (var_refs ` templates_of cwd env command)"
proof -
  obtain r1 r2 where r: "collect_var_references cwd refs = Inr r1"
    "collect_var_references_from_map env r1 = Inr r2"
    "collect_var_references_from_command command r2 = Inr out"
    using assms by (auto simp: collect_all_references_def and_then_Inr)
  have "r1 = refs \<union> \<Union> (var_refs ` set_option cwd)"
    using r(1) collect_one by (cases cwd) (auto simp: collect_var_references_def)
  with collect_map [OF r(2)] collect_command [OF r(3)] show ?thesis
    by (auto simp: templates_of_def)
qed

lemma finite_collect_all:
  "collect_all_references cwd env command refs = Inr out \<Longrightarrow> finite refs \<Longrightarrow> finite out"
  by (auto dest!: collect_all simp: templates_of_def finite_var_refs)

lemma launch_steps_loop_Inr:
  assumes "launch_steps_loop launch_name allowed policy names refs steps = Inr out"
    and "lp_collect_references policy" and "finite refs"
  shows "finite out \<and> refs \<subseteq> out \<and> (\<forall>s \<in> set steps.
    launch_step_validate s launch_name allowed (lp_template_policy policy) = Inr ()
    \<and> \<Union> (var_refs ` templates_of (lst_cwd s) (lst_env s) (lst_command s)) \<subseteq> out)
    \<and> distinct (map lst_name steps) \<and> names \<inter> lst_name ` set steps = {}"
  using assms
proof (induction steps arbitrary: names refs)
  case Nil
  then show ?case by simp
next
  case (Cons s steps)
  then obtain r where s: "launch_step_validate s launch_name allowed (lp_template_policy policy) = Inr ()"
    and new: "lst_name s \<notin> names"
    and r: "collect_all_references (lst_cwd s) (lst_env s) (lst_command s) refs = Inr r"
    and rest: "launch_steps_loop launch_name allowed policy (insert (lst_name s) names) r steps = Inr out"
    by (auto simp: and_then_Inr split: if_splits)
  have "finite r" by (rule finite_collect_all [OF r Cons.prems(3)])
  from Cons.IH [OF rest Cons.prems(2) this] collect_all [OF r] s new show ?case by auto
qed

lemma strict_template_keys:
  assumes "validate_template_with_policy field t allowed STRICT = Inr ()"
  shows "\<exists>ks. referenced_keys t = Inr ks \<and> set ks \<subseteq> set allowed"
  using assms validate_template_strict [of field t allowed]
  by (simp add: validate_template_def validate_keys_iff)

lemma sentinel_loop_Inr:
  assumes "sentinel_loop launch_name field allowed policy index args positions = Inr out"
  shows "\<exists>new. out = positions @ new \<and> length new = count_list args ''{args}''
    \<and> (\<forall>a \<in> set args. a \<noteq> ''{args}'' \<longrightarrow> validate_template_with_policy field a allowed policy = Inr ())
    \<and> (\<forall>i \<in> set new. index \<le> i) \<and> (args \<noteq> [] \<and> hd args = ''{args}'' \<longrightarrow> new \<noteq> [] \<and> hd new = index)"
  using assms
proof (induction args arbitrary: index positions)
  case Nil
  then show ?case by simp
next
  case (Cons a args)
  show ?case
  proof (cases "a = ''{args}''")
    case True
    with Cons.prems Cons.IH [of "Suc index" "positions @ [index]"] show ?thesis by force
  next
    case False
    with Cons.prems have "validate_template_with_policy field a allowed policy = Inr ()"
      "sentinel_loop launch_name field allowed policy (Suc index) args positions = Inr out"
      by (auto simp: and_then_Inr split: if_splits)
    with False Cons.IH [of "Suc index" positions] show ?thesis by force
  qed
qed

section \<open>Properties\<close>

definition launch_templates :: "launch_config \<Rightarrow> string set" where
  "launch_templates l =
     (templates_of (lc_cwd l) (lc_env l) (lc_command l) - {''{args}''})
     \<union> (\<Union>s \<in> set (lc_steps l). templates_of (lst_cwd s) (lst_env s) (lst_command s))"

lemma env_templates_strict:
  "validate_env_keyed_template_map_with_policy field env allowed policy = Inr () \<Longrightarrow> t \<in> snd ` set env \<Longrightarrow>
    \<exists>f. validate_template_with_policy f t allowed policy = Inr ()"
  by (fastforce simp: validate_env_keyed_template_map_with_policy_def)

lemma launch_step_templates:
  assumes "launch_step_validate s launch_name allowed policy = Inr ()"
    and "t \<in> templates_of (lst_cwd s) (lst_env s) (lst_command s)"
  shows "\<exists>f. validate_template_with_policy f t allowed policy = Inr ()"
proof -
  have "lst_cwd s = Some t \<Longrightarrow> validate_template_with_policy ''launch.steps.cwd'' t allowed policy = Inr ()"
    "t \<in> set (lst_command s) \<Longrightarrow> validate_template_with_policy ''launch.steps.command'' t allowed policy = Inr ()"
    "validate_env_keyed_template_map_with_policy ''launch.steps.env'' (lst_env s) allowed policy = Inr ()"
    using assms(1)
    by (auto simp: launch_step_validate_def given_Inr validate_command_templates_with_policy_def)
  moreover have "lst_cwd s = Some t \<or> t \<in> snd ` set (lst_env s) \<or> t \<in> set (lst_command s)"
    using assms(2) by (cases "lst_cwd s") (auto simp: templates_of_def)
  ultimately show ?thesis using env_templates_strict by blast
qed

lemma validate_launch_shape_effective:
  "validate_launch_shape launch_name shape (effective_policy targets) = Inr () \<longleftrightarrow>
    (\<exists>target. sh_target shape = Some target \<and> target \<in> set targets)
    \<and> given (validate_command ''launch.command'') (sh_command shape) = Inr ()
    \<and> each (\<lambda>(name, var). seq_checks
            [validate_name ''launch var'' name, launch_var_validate var launch_name name])
          (sh_vars shape) = Inr ()
    \<and> given (\<lambda>cwd. validate_template_with_policy ''launch.cwd'' cwd
          (allowed_template_vars (sh_vars shape)) STRICT) (sh_cwd shape) = Inr ()
    \<and> validate_env_keyed_template_map_with_policy ''launch.env'' (sh_env shape)
          (allowed_template_vars (sh_vars shape)) STRICT = Inr ()
    \<and> given (\<lambda>command. validate_launch_command_templates_with_policy launch_name ''launch.command''
          command (allowed_template_vars (sh_vars shape)) STRICT (sh_allow_args shape) True)
          (sh_command shape) = Inr ()
    \<and> (\<exists>refs refs'. collect_all_references (sh_cwd shape) (sh_env shape)
            (unwrap_or [] (sh_command shape)) {} = Inr refs
        \<and> launch_steps_loop launch_name (allowed_template_vars (sh_vars shape))
            (effective_policy targets) {} refs (sh_steps shape) = Inr refs'
        \<and> (\<forall>n \<in> set (sorted_list_of_set refs').
            \<exists>v. bt_get (sh_vars shape) n = Some v \<and> (lv_required v \<or> lv_default v \<noteq> None)))"
proof -
  have pol: "lp_template_policy (effective_policy targets) = STRICT"
    "lp_targets (effective_policy targets) = Some targets"
    "lp_collect_references (effective_policy targets)"
    "lp_command_before_vars (effective_policy targets)" by (simp_all add: effective_policy_def)
  have target: "(case sh_target shape of None \<Rightarrow> Inl e | Some t \<Rightarrow> bail_if (t \<notin> set targets) (e' t)) = Inr ()
      \<longleftrightarrow> (\<exists>t. sh_target shape = Some t \<and> t \<in> set targets)" for e and e' :: "string \<Rightarrow> error"
    by (cases "sh_target shape") (simp_all add: bail_if_Inr)
  have var: "(case bt_get vs n of None \<Rightarrow> Inl e
        | Some v \<Rightarrow> bail_if (\<not> lv_required v \<and> lv_default v = None) e') = Inr ()
      \<longleftrightarrow> (\<exists>v. bt_get vs n = Some v \<and> (lv_required v \<or> lv_default v \<noteq> None))"
    for vs n and e e' :: error
    by (cases "bt_get vs n") (auto simp: bail_if_Inr)
  have single: "seq_checks [c] = c" for c :: "unit res" by (cases c) simp_all
  show ?thesis
    by (simp only: validate_launch_shape_def Let_def pol option.case if_True not_True_eq_False if_False
      and_then_Inr seq_checks_run single seq_checks_Cons_Inr target each_Inr var)
      (auto simp only: seq_checks.simps)
qed

text \<open>What a successful validation of a complete launch establishes.\<close>

lemma launch_validate_facts:
  assumes "launch_validate l launch_name targets = Inr ()"
  defines "allowed \<equiv> allowed_template_vars (lc_vars l)"
  shows "lc_target l \<in> set targets"
    and "validate_command ''launch.command'' (lc_command l) = Inr ()"
    and "validate_launch_command_templates_with_policy launch_name ''launch.command'' (lc_command l)
           allowed STRICT (Some (lc_allow_args l)) True = Inr ()"
    and "t \<in> launch_templates l \<Longrightarrow> \<exists>f. validate_template_with_policy f t allowed STRICT = Inr ()"
    and "t \<in> launch_templates l \<Longrightarrow> n \<in> var_refs t \<Longrightarrow>
           \<exists>v. bt_get (lc_vars l) n = Some v \<and> (lv_required v \<or> lv_default v \<noteq> None)"
    and "distinct (map lst_name (lc_steps l))"
proof -
  obtain refs refs' where checks: "lc_target l \<in> set targets"
      "validate_command ''launch.command'' (lc_command l) = Inr ()"
      "\<And>cwd. lc_cwd l = Some cwd \<Longrightarrow> validate_template_with_policy ''launch.cwd'' cwd allowed STRICT = Inr ()"
      "validate_env_keyed_template_map_with_policy ''launch.env'' (lc_env l) allowed STRICT = Inr ()"
      "validate_launch_command_templates_with_policy launch_name ''launch.command'' (lc_command l)
         allowed STRICT (Some (lc_allow_args l)) True = Inr ()"
    and refs: "collect_all_references (lc_cwd l) (lc_env l) (lc_command l) {} = Inr refs"
    and steps: "launch_steps_loop launch_name allowed (effective_policy targets) {} refs (lc_steps l) = Inr refs'"
    and bound: "\<And>n. n \<in> set (sorted_list_of_set refs') \<Longrightarrow>
      \<exists>v. bt_get (lc_vars l) n = Some v \<and> (lv_required v \<or> lv_default v \<noteq> None)"
    using assms(1) unfolding launch_validate_def validate_launch_shape_effective allowed_def
    by (auto simp: given_Inr)
  then show "lc_target l \<in> set targets"
    "validate_command ''launch.command'' (lc_command l) = Inr ()"
    "validate_launch_command_templates_with_policy launch_name ''launch.command'' (lc_command l)
           allowed STRICT (Some (lc_allow_args l)) True = Inr ()" by blast+
  have pol: "lp_collect_references (effective_policy targets)"
    "lp_template_policy (effective_policy targets) = STRICT" by (simp_all add: effective_policy_def)
  have "finite refs" by (rule finite_collect_all [OF refs]) simp
  note loop = launch_steps_loop_Inr [OF steps pol(1) this, unfolded pol(2)]
  then show "distinct (map lst_name (lc_steps l))" by blast
  obtain ps where "sentinel_loop launch_name ''launch.command'' allowed STRICT 0 (lc_command l) [] = Inr ps"
    using checks(5) by (auto simp: validate_launch_command_templates_with_policy_def and_then_Inr)
  note sentinel = sentinel_loop_Inr [OF this]
  have command: "a \<in> set (lc_command l) \<Longrightarrow> a \<noteq> ''{args}'' \<Longrightarrow>
      validate_template_with_policy ''launch.command'' a allowed STRICT = Inr ()" for a
    using sentinel by blast
  show "\<exists>f. validate_template_with_policy f t allowed STRICT = Inr ()" if "t \<in> launch_templates l"
  proof -
    from that consider s where "s \<in> set (lc_steps l)" "t \<in> templates_of (lst_cwd s) (lst_env s) (lst_command s)"
      | "lc_cwd l = Some t" | "t \<in> snd ` set (lc_env l)" | "t \<in> set (lc_command l)" "t \<noteq> ''{args}''"
      unfolding launch_templates_def templates_of_def [of "lc_cwd l"] by auto
    then show ?thesis
    proof cases
      case 1
      have "launch_step_validate s launch_name allowed STRICT = Inr ()"
        using conjunct1 [OF conjunct2 [OF conjunct2 [OF loop]]] 1(1) by simp
      from launch_step_templates [OF this 1(2)] show ?thesis .
    next
      case 2
      with checks(3) show ?thesis by blast
    next
      case 3
      with checks(4) env_templates_strict show ?thesis by blast
    next
      case 4
      with command show ?thesis by blast
    qed
  qed
  show "\<exists>v. bt_get (lc_vars l) n = Some v \<and> (lv_required v \<or> lv_default v \<noteq> None)"
    if "t \<in> launch_templates l" and "n \<in> var_refs t"
  proof -
    have "refs \<subseteq> refs'" using loop by blast
    then have "\<Union> (var_refs ` templates_of (lc_cwd l) (lc_env l) (lc_command l)) \<subseteq> refs'"
      using collect_all [OF refs] by simp
    moreover have "\<Union> (var_refs ` templates_of (lst_cwd s) (lst_env s) (lst_command s)) \<subseteq> refs'"
      if "s \<in> set (lc_steps l)" for s
      using conjunct1 [OF conjunct2 [OF conjunct2 [OF loop]]] that by simp
    moreover have "t \<in> templates_of (lc_cwd l) (lc_env l) (lc_command l)
        \<or> (\<exists>s \<in> set (lc_steps l). t \<in> templates_of (lst_cwd s) (lst_env s) (lst_command s))"
      using that(1) by (auto simp: launch_templates_def)
    ultimately have "var_refs t \<subseteq> refs'" by (metis UN_subset_iff)
    then have "n \<in> refs'" using that(2) by blast
    then show ?thesis using loop by (intro bound) simp
  qed
qed

lemma accepted_template_keys:
  assumes "launch_validate l launch_name targets = Inr ()" and "t \<in> launch_templates l"
  obtains ks where "referenced_keys t = Inr ks"
    "\<And>k. k \<in> set ks \<Longrightarrow> k \<in> set LAUNCH_TEMPLATE_BUILTINS
       \<or> (\<exists>n v. k = ''var.'' @ n \<and> bt_get (lc_vars l) n = Some v \<and> (lv_required v \<or> lv_default v \<noteq> None))"
proof -
  note facts = launch_validate_facts [OF assms(1)]
  obtain ks where ks: "referenced_keys t = Inr ks" "set ks \<subseteq> set (allowed_template_vars (lc_vars l))"
    using facts(4) [OF assms(2)] strict_template_keys by blast
  have "k \<in> set LAUNCH_TEMPLATE_BUILTINS
      \<or> (\<exists>n v. k = ''var.'' @ n \<and> bt_get (lc_vars l) n = Some v \<and> (lv_required v \<or> lv_default v \<noteq> None))"
    if "k \<in> set ks" for k
  proof -
    from that ks(2) consider "k \<in> set LAUNCH_TEMPLATE_BUILTINS" | n where "k = ''var.'' @ n"
      by (auto simp: allowed_template_vars_def)
    then show ?thesis
    proof cases
      case (2 n)
      then have "n \<in> var_refs t" using that ks(1) by (simp add: var_refs_def)
      from facts(5) [OF assms(2) this] 2 show ?thesis by blast
    qed simp
  qed
  with ks(1) that show ?thesis by blast
qed

text \<open>Every template of an accepted launch (working directory, environment and command, of the
  launch and of its steps) renders as soon as the built-in variables are bound and so is every
  declared variable that is required or has a default.\<close>

theorem accepted_launch_renders:
  assumes "launch_validate l launch_name targets = Inr ()"
    and "set LAUNCH_TEMPLATE_BUILTINS \<subseteq> set (bt_keys vars)"
    and "\<And>n v. bt_get (lc_vars l) n = Some v \<Longrightarrow> lv_required v \<or> lv_default v \<noteq> None \<Longrightarrow>
      ''var.'' @ n \<in> set (bt_keys vars)"
    and "t \<in> launch_templates l"
  shows "is_ok (render t vars)"
proof -
  obtain ks where ks: "referenced_keys t = Inr ks"
    "\<And>k. k \<in> set ks \<Longrightarrow> k \<in> set LAUNCH_TEMPLATE_BUILTINS
       \<or> (\<exists>n v. k = ''var.'' @ n \<and> bt_get (lc_vars l) n = Some v \<and> (lv_required v \<or> lv_default v \<noteq> None))"
    using accepted_template_keys [OF assms(1,4)] by blast
  have "k \<in> set (bt_keys vars)" if "k \<in> set ks" for k
    using ks(2) [OF that] assms(2,3) by blast
  with ks(1) show ?thesis unfolding render_is_ok_iff by blast
qed

definition demo_launch :: launch_config where
  "demo_launch = \<lparr>lc_target = ''t'', lc_description = None, lc_allow_args = True, lc_cwd = None,
     lc_env = [], lc_command = [''run'', ''{var.x}'', ''{args}''],
     lc_vars = [(''x'', \<lparr>lv_type = VtBoolean, lv_required = True, lv_default = None,
       lv_values = None, lv_description = None\<rparr>)], lc_steps = []\<rparr>"

lemma demo_launch_accepted: "launch_validate demo_launch ''l'' [''t''] = Inr ()"
  by (simp add: demo_launch_def launch_validate_def validate_launch_shape_def effective_policy_def
      validate_command_def validate_name_def launch_var_validate_def char_class_defs
      validate_env_keyed_template_map_with_policy_def allowed_template_vars_def
      validate_launch_command_templates_with_policy_def validate_template_with_policy_def
      check_template_key_def STRICT_def validate_launch_args_sentinel_def bt_keys_def bt_get_def
      collect_all_references_def collect_var_references_def referenced_keys_def
      referenced_keys_from.simps each_run)

theorem accepted_launch_renders_witness:
  "is_ok (render ''{var.x}'' ((''var.x'', ''true'') # map (\<lambda>k. (k, ''v'')) LAUNCH_TEMPLATE_BUILTINS))"
  by (rule accepted_launch_renders [OF demo_launch_accepted])
    (auto simp: bt_keys_def comp_def demo_launch_def bt_get_def launch_templates_def
      templates_of_def split: if_splits)

text \<open>The \<open>{args}\<close> element of an accepted launch command stands exactly once, not as the
  program, when extra arguments are allowed, and not at all otherwise; the target exists.\<close>

theorem accepted_launch_args_sentinel:
  assumes "launch_validate l launch_name targets = Inr ()"
  shows "lc_target l \<in> set targets \<and> lc_command l \<noteq> [] \<and> hd (lc_command l) \<noteq> ''{args}''
    \<and> count_list (lc_command l) ''{args}'' = (if lc_allow_args l then 1 else 0)"
proof -
  note facts = launch_validate_facts [OF assms]
  obtain ps where
    "sentinel_loop launch_name ''launch.command'' (allowed_template_vars (lc_vars l)) STRICT 0
       (lc_command l) [] = Inr ps"
    and ps: "validate_launch_args_sentinel launch_name ''launch.command'' (Some (lc_allow_args l)) True ps
       = Inr ()"
    using facts(3) by (auto simp: validate_launch_command_templates_with_policy_def and_then_Inr)
  then have len: "length ps = count_list (lc_command l) ''{args}''"
    and first: "lc_command l \<noteq> [] \<Longrightarrow> hd (lc_command l) = ''{args}'' \<Longrightarrow> ps \<noteq> [] \<and> hd ps = 0"
    using sentinel_loop_Inr by fastforce+
  have "lc_command l \<noteq> []" using facts(2) by (simp add: validate_command_def bail_if_Inr)
  moreover have "\<not> (ps \<noteq> [] \<and> hd ps = 0)" "length ps = (if lc_allow_args l then 1 else 0)"
    using ps by (cases ps; auto simp: validate_launch_args_sentinel_def bail_if_Inr Let_def)+
  moreover from calculation have "hd (lc_command l) \<noteq> ''{args}''" using first by blast
  ultimately show ?thesis using facts(1) len by simp
qed

theorem accepted_launch_args_sentinel_witness:
  "count_list (lc_command demo_launch) ''{args}'' = (if lc_allow_args demo_launch then 1 else 0)"
  using accepted_launch_args_sentinel [OF demo_launch_accepted] by blast

end
