(* ===== verification/Ssh_Dispatch.thy ===== *)
theory Ssh_Dispatch
  imports Launch_Args Std_Paths
begin

text \<open>
  \<open>src/action.rs\<close> and \<open>src/ssh_dispatch.rs\<close>: what the gateway does with the command an SSH
  client sent. \<open>shell_words::split\<close> is a parameter \<open>sw\<close> (\<open>None\<close> for text it refuses), the path
  of the running executable is the parameter \<open>exe\<close>. The index loops of the source are
  recursions over the words that are left.
\<close>

section \<open>The action registry\<close>

definition GATEWAY_ACTION_NAMES :: "string list" where
  "GATEWAY_ACTION_NAMES =
     [''connect'', ''up'', ''run'', ''launches'', ''launch-show'', ''launch'', ''status'',
      ''targets'', ''stop'', ''remove'', ''set-default'', ''show-default'', ''reset-default'',
      ''add-key'', ''add-host-key'', ''add-container-key'', ''client-config'',
      ''client-bundle'', ''help'']"

definition HTTP_ACTION_NAMES :: "string list" where
  "HTTP_ACTION_NAMES =
     [''status'', ''targets'', ''up'', ''launches'', ''launch-show'', ''launch'', ''run'',
      ''stop'', ''remove'']"

definition is_gateway_action_name :: "string \<Rightarrow> bool" where
  "is_gateway_action_name name \<longleftrightarrow> name \<in> set GATEWAY_ACTION_NAMES"

definition is_http_action_name :: "string \<Rightarrow> bool" where
  "is_http_action_name name \<longleftrightarrow> name \<in> set HTTP_ACTION_NAMES"

definition default_enabled_actions :: "string list" where
  "default_enabled_actions = GATEWAY_ACTION_NAMES"

record ssh_dispatch_config =
  allow_interactive_shell :: bool
  allow_container_commands :: bool
  enabled_actions :: "string list"

definition ssh_dispatch_default :: ssh_dispatch_config where
  "ssh_dispatch_default =
     \<lparr>allow_interactive_shell = True, allow_container_commands = True,
      enabled_actions = default_enabled_actions\<rparr>"

definition ssh_dispatch_validate :: "ssh_dispatch_config \<Rightarrow> unit res" where
  "ssh_dispatch_validate cfg =
     each (\<lambda>a. bail_if (\<not> is_gateway_action_name a)
       (Bail ''unknown enabled_actions entry {}'' [a])) (enabled_actions cfg)"

section \<open>Actions\<close>

record target_session_action =
  tsa_target :: "string option"
  tsa_session_id :: "string option"

record run_action =
  ra_target :: "string option"
  ra_session_id :: "string option"
  ra_cwd :: "string option"
  ra_command :: "string list"

record status_action =
  sta_target :: "string option"
  sta_all :: bool

record key_action =
  ka_target :: "string option"
  ka_public_key :: "string option"

record client_config_action =
  cca_target :: "string option"
  cca_identity_file :: "string option"

record client_bundle_action =
  cba_target :: "string option"
  cba_identity_file :: "string option"
  cba_rotate_key :: bool

datatype gateway_action =
    Connect target_session_action
  | Up "string option"
  | Run run_action
  | Launches bool
  | LaunchShow string bool
  | LaunchRun string "string option" "string list" "string list"
  | Status status_action
  | Targets bool
  | Stop target_session_action
  | Remove target_session_action
  | SetDefault string
  | ShowDefault
  | ResetDefault
  | AddKey key_action
  | AddHostKey "string option"
  | AddContainerKey key_action
  | ClientConfig client_config_action
  | ClientBundle client_bundle_action
  | Help

datatype dispatched =
    InteractiveShell
  | ContainerCommand string
  | Gateway gateway_action
  | Reject error

definition action_enabled :: "ssh_dispatch_config \<Rightarrow> string \<Rightarrow> bool" where
  "action_enabled cfg name \<longleftrightarrow> name \<in> set (enabled_actions cfg)"

definition shape_error :: "string list \<Rightarrow> error" where
  "shape_error words = Bail ''invalid or disabled gateway action shape: {}'' [join '' '' words]"

section \<open>Options of the single actions\<close>

definition is_flag :: "string \<Rightarrow> bool" where
  "is_flag w \<longleftrightarrow> starts_with ''-'' w"

text \<open>An optional leading target, shared by the actions with one positional argument.\<close>

fun take_target :: "string list \<Rightarrow> string option \<times> string list" where
  "take_target [] = (None, [])"
| "take_target (w # ws) = (if \<not> is_flag w then (Some w, ws) else (None, w # ws))"

fun status_flags :: "status_action \<Rightarrow> string list \<Rightarrow> status_action res" where
  "status_flags a [] = Inr a"
| "status_flags a (f # ws) =
     (if f = ''--all'' then status_flags (a\<lparr>sta_all := True\<rparr>) ws
      else if f = ''--json'' then status_flags a ws
      else Inl (Bail ''invalid status option {}'' [f]))"

definition parse_status_action :: "string list \<Rightarrow> gateway_action res" where
  "parse_status_action words =
     (let (target, ws) = take_target (tl words) in
      and_then (status_flags \<lparr>sta_target = target, sta_all = False\<rparr> ws) (\<lambda>a.
        if sta_all a \<and> sta_target a \<noteq> None
        then Inl (Bail ''--all cannot be combined with a target'' [])
        else Inr (Status a)))"

fun target_session_args ::
  "string \<Rightarrow> target_session_action \<Rightarrow> string list \<Rightarrow> target_session_action res" where
  "target_session_args name a [] = Inr a"
| "target_session_args name a (w # ws) =
     (case strip_prefix ''--session-id='' w of
        Some value \<Rightarrow> and_then (set_session_id (tsa_session_id a) value)
          (\<lambda>s. target_session_args name (a\<lparr>tsa_session_id := s\<rparr>) ws)
      | None \<Rightarrow>
        if w = ''--session-id'' then
          (case ws of
             [] \<Rightarrow> Inl (Bail ''--session-id requires a value'' [])
           | v # ws' \<Rightarrow> and_then (set_session_id (tsa_session_id a) v)
               (\<lambda>s. target_session_args name (a\<lparr>tsa_session_id := s\<rparr>) ws'))
        else if \<not> is_flag w then
          (if tsa_target a \<noteq> None then Inl (Bail ''target may only be specified once'' [])
           else target_session_args name (a\<lparr>tsa_target := Some w\<rparr>) ws)
        else Inl (Bail ''invalid {} option {}'' [name, w]))"

definition parse_target_session_action :: "string \<Rightarrow> string list \<Rightarrow> target_session_action res" where
  "parse_target_session_action name words =
     target_session_args name \<lparr>tsa_target = None, tsa_session_id = None\<rparr> (tl words)"

fun run_args :: "run_action \<Rightarrow> string list \<Rightarrow> gateway_action res" where
  "run_args a [] = Inl (Bail ''run requires -- followed by a command'' [])"
| "run_args a (w # ws) =
     (case strip_prefix ''--session-id='' w of
        Some value \<Rightarrow> and_then (set_session_id (ra_session_id a) value)
          (\<lambda>s. run_args (a\<lparr>ra_session_id := s\<rparr>) ws)
      | None \<Rightarrow>
        if w = ''--cwd'' then
          (case ws of
             [] \<Rightarrow> Inl (Bail ''--cwd requires a value'' [])
           | v # ws' \<Rightarrow> run_args (a\<lparr>ra_cwd := Some v\<rparr>) ws')
        else if w = ''--session-id'' then
          (case ws of
             [] \<Rightarrow> Inl (Bail ''--session-id requires a value'' [])
           | v # ws' \<Rightarrow> and_then (set_session_id (ra_session_id a) v)
               (\<lambda>s. run_args (a\<lparr>ra_session_id := s\<rparr>) ws'))
        else if w = ''--'' then
          (if ws = [] then Inl (Bail ''run requires -- followed by a command'' [])
           else Inr (Run (a\<lparr>ra_command := ws\<rparr>)))
        else if \<not> is_flag w then
          (if ra_target a \<noteq> None then Inl (Bail ''target may only be specified once'' [])
           else run_args (a\<lparr>ra_target := Some w\<rparr>) ws)
        else Inl (Bail ''invalid run option {}'' [w]))"

definition parse_run_action :: "string list \<Rightarrow> gateway_action res" where
  "parse_run_action words =
     run_args \<lparr>ra_target = None, ra_session_id = None, ra_cwd = None, ra_command = []\<rparr> (tl words)"

definition parse_launch_action :: "string list \<Rightarrow> ssh_dispatch_config \<Rightarrow> gateway_action res" where
  "parse_launch_action words cfg =
     (case tl words of
        [] \<Rightarrow> Inl (Bail ''launch requires a launch name'' [])
      | name # rest \<Rightarrow>
          if name = ''show'' then
            (if \<not> action_enabled cfg ''launch-show'' then Inl (shape_error words)
             else (case rest of
                 [] \<Rightarrow> Inl (Bail ''launch show requires a launch name'' [])
               | launch_name # flags \<Rightarrow>
                   if hd words = ''launch'' \<and> flags = [] then Inr (LaunchShow launch_name False)
                   else if hd words = ''launch'' \<and> flags = [''--json'']
                   then Inr (LaunchShow launch_name True)
                   else Inl (shape_error words)))
          else if \<not> action_enabled cfg ''launch'' then Inl (shape_error words)
          else map_ok
            (\<lambda>p. LaunchRun (lra_name p) (lra_session_id p) (lra_vars p) (lra_args p))
            (parse_launch_run_strings (tl words)))"

definition parse_json_flag :: "string list \<Rightarrow> string \<Rightarrow> bool res" where
  "parse_json_flag words cmd =
     (if words = [cmd] then Inr False
      else if words = [cmd, ''--json''] then Inr True
      else Inl (shape_error words))"

text \<open>The value of the last \<open>--public-key\<close>, which may occur once.\<close>

fun parse_public_key_flag :: "string option \<Rightarrow> bool \<Rightarrow> string list \<Rightarrow> string option res" where
  "parse_public_key_flag key seen [] = Inr key"
| "parse_public_key_flag key seen (f # ws) =
     (if f = ''--public-key'' then
        (if seen then Inl (Bail ''--public-key may only be specified once'' [])
         else (case ws of
             [] \<Rightarrow> Inl (Bail ''--public-key requires a value'' [])
           | v # ws' \<Rightarrow> parse_public_key_flag (Some v) True ws'))
      else Inl (Bail ''invalid key option {}'' [f]))"

definition parse_key_action :: "string list \<Rightarrow> key_action res" where
  "parse_key_action words =
     (let (target, ws) = take_target (tl words) in
      map_ok (\<lambda>k. \<lparr>ka_target = target, ka_public_key = k\<rparr>) (parse_public_key_flag None False ws))"

definition parse_key_source_action :: "string list \<Rightarrow> string option res" where
  "parse_key_source_action words = parse_public_key_flag None False (tl words)"

fun client_config_flags :: "client_config_action \<Rightarrow> string list \<Rightarrow> client_config_action res" where
  "client_config_flags a [] = Inr a"
| "client_config_flags a (f # ws) =
     (if f = ''--identity-file'' then
        (case ws of
           [] \<Rightarrow> Inl (Bail ''--identity-file requires a value'' [])
         | v # ws' \<Rightarrow> client_config_flags (a\<lparr>cca_identity_file := Some v\<rparr>) ws')
      else Inl (Bail ''invalid client-config option {}'' [f]))"

definition parse_client_config_action :: "string list \<Rightarrow> gateway_action res" where
  "parse_client_config_action words =
     (let (target, ws) = take_target (tl words) in
      map_ok ClientConfig
        (client_config_flags \<lparr>cca_target = target, cca_identity_file = None\<rparr> ws))"

fun client_bundle_flags :: "client_bundle_action \<Rightarrow> string list \<Rightarrow> client_bundle_action res" where
  "client_bundle_flags a [] = Inr a"
| "client_bundle_flags a (f # ws) =
     (if f = ''--rotate-key'' then client_bundle_flags (a\<lparr>cba_rotate_key := True\<rparr>) ws
      else if f = ''--identity-file'' then
        (case ws of
           [] \<Rightarrow> Inl (Bail ''--identity-file requires a value'' [])
         | v # ws' \<Rightarrow> client_bundle_flags (a\<lparr>cba_identity_file := Some v\<rparr>) ws')
      else Inl (Bail ''invalid client-bundle option {}'' [f]))"

definition parse_client_bundle_action :: "string list \<Rightarrow> gateway_action res" where
  "parse_client_bundle_action words =
     (let (target, ws) = take_target (tl words) in
      map_ok ClientBundle (client_bundle_flags
        \<lparr>cba_target = target, cba_identity_file = None, cba_rotate_key = False\<rparr> ws))"

section \<open>Dispatch\<close>

definition parse_native ::
  "string list \<Rightarrow> ssh_dispatch_config \<Rightarrow> gateway_action option res" where
  "parse_native words cfg =
     (case words of
        [] \<Rightarrow> Inr None
      | action # _ \<Rightarrow>
          let on = action_enabled cfg in
          if action = ''connect'' \<and> on ''connect'' then
            map_ok (Some \<circ> Connect) (parse_target_session_action ''connect'' words)
          else if action = ''up'' \<and> length words \<le> 2 \<and> on ''up'' then
            Inr (Some (Up (case words of [_, t] \<Rightarrow> Some t | _ \<Rightarrow> None)))
          else if action = ''run'' \<and> on ''run'' then map_ok Some (parse_run_action words)
          else if action = ''launches'' \<and> on ''launches'' then
            map_ok (Some \<circ> Launches) (parse_json_flag words ''launches'')
          else if action = ''launch'' then map_ok Some (parse_launch_action words cfg)
          else if action = ''status'' \<and> on ''status'' then map_ok Some (parse_status_action words)
          else if action = ''targets'' \<and> on ''targets'' then
            map_ok (Some \<circ> Targets) (parse_json_flag words ''targets'')
          else if action = ''stop'' \<and> on ''stop'' then
            map_ok (Some \<circ> Stop) (parse_target_session_action ''stop'' words)
          else if action = ''remove'' \<and> on ''remove'' then
            map_ok (Some \<circ> Remove) (parse_target_session_action ''remove'' words)
          else if action = ''set-default'' \<and> length words = 2 \<and> on ''set-default'' then
            Inr (Some (SetDefault (words ! 1)))
          else if action = ''show-default'' \<and> length words = 1 \<and> on ''show-default'' then
            Inr (Some ShowDefault)
          else if action = ''reset-default'' \<and> length words = 1 \<and> on ''reset-default'' then
            Inr (Some ResetDefault)
          else if action = ''add-key'' \<and> on ''add-key'' then
            map_ok (Some \<circ> AddKey) (parse_key_action words)
          else if action = ''add-host-key'' \<and> on ''add-host-key'' then
            map_ok (Some \<circ> AddHostKey) (parse_key_source_action words)
          else if action = ''add-container-key'' \<and> on ''add-container-key'' then
            map_ok (Some \<circ> AddContainerKey) (parse_key_action words)
          else if action = ''client-config'' \<and> on ''client-config'' then
            map_ok Some (parse_client_config_action words)
          else if action = ''client-bundle'' \<and> on ''client-bundle'' then
            map_ok Some (parse_client_bundle_action words)
          else if action = ''help'' \<and> length words = 1 \<and> on ''help'' then Inr (Some Help)
          else if is_gateway_action_name action then Inl (shape_error words)
          else Inr None)"

definition is_gateway_program_word :: "string option \<Rightarrow> string \<Rightarrow> bool" where
  "is_gateway_program_word exe word \<longleftrightarrow>
     word = ''aw-gateway'' \<or> word = ''/opt/aw-gateway/bin/aw-gateway'' \<or>
     (case exe of
        None \<Rightarrow> False
      | Some current \<Rightarrow> path_eq current word \<or>
          (case path_file_name current of
             None \<Rightarrow> False
           | Some name \<Rightarrow> word = name \<or> ends_with (''/'' @ name) word))"

definition strip_program_word :: "string option \<Rightarrow> string list \<Rightarrow> string list" where
  "strip_program_word exe words =
     (case words of
        [] \<Rightarrow> []
      | w # ws \<Rightarrow> if is_gateway_program_word exe w then ws else w # ws)"

definition parse_gateway_action ::
  "(string \<Rightarrow> string list option) \<Rightarrow> string option \<Rightarrow> string \<Rightarrow> ssh_dispatch_config
    \<Rightarrow> gateway_action option res" where
  "parse_gateway_action sw exe command cfg =
     and_then (ok_or (Bail ''missing closing quote'' []) (sw command)) (\<lambda>words.
       case words of
         [] \<Rightarrow> Inr None
       | w # _ \<Rightarrow>
           if w = ''--'' then Inl (Bail ''malformed gateway command starts with --'' [])
           else parse_native (strip_program_word exe words) cfg)"

definition dispatch ::
  "(string \<Rightarrow> string list option) \<Rightarrow> string option \<Rightarrow> string option \<Rightarrow> bool
    \<Rightarrow> ssh_dispatch_config \<Rightarrow> dispatched" where
  "dispatch sw exe original_command has_pty cfg =
     (case (case original_command of
              None \<Rightarrow> None | Some v \<Rightarrow> if trim v \<noteq> [] then Some v else None) of
        None \<Rightarrow>
          if has_pty \<and> allow_interactive_shell cfg then InteractiveShell
          else Reject (Bail ''no command and no interactive PTY'' [])
      | Some command \<Rightarrow>
          (case parse_gateway_action sw exe command cfg of
             Inr (Some action) \<Rightarrow> Gateway action
           | Inr None \<Rightarrow>
               if allow_container_commands cfg then ContainerCommand command
               else Reject (Bail ''container command passthrough is disabled'' [])
           | Inl err \<Rightarrow> Reject err))"

section \<open>Lemmas\<close>

text \<open>The registered name of an action.\<close>

fun action_name :: "gateway_action \<Rightarrow> string" where
  "action_name (Connect _) = ''connect''"
| "action_name (Up _) = ''up''"
| "action_name (Run _) = ''run''"
| "action_name (Launches _) = ''launches''"
| "action_name (LaunchShow _ _) = ''launch-show''"
| "action_name (LaunchRun _ _ _ _) = ''launch''"
| "action_name (Status _) = ''status''"
| "action_name (Targets _) = ''targets''"
| "action_name (Stop _) = ''stop''"
| "action_name (Remove _) = ''remove''"
| "action_name (SetDefault _) = ''set-default''"
| "action_name ShowDefault = ''show-default''"
| "action_name ResetDefault = ''reset-default''"
| "action_name (AddKey _) = ''add-key''"
| "action_name (AddHostKey _) = ''add-host-key''"
| "action_name (AddContainerKey _) = ''add-container-key''"
| "action_name (ClientConfig _) = ''client-config''"
| "action_name (ClientBundle _) = ''client-bundle''"
| "action_name Help = ''help''"

text \<open>The optional target of an action that takes one through the option parsers.\<close>

fun option_target :: "gateway_action \<Rightarrow> string option" where
  "option_target (Connect a) = tsa_target a"
| "option_target (Run a) = ra_target a"
| "option_target (Status a) = sta_target a"
| "option_target (Stop a) = tsa_target a"
| "option_target (Remove a) = tsa_target a"
| "option_target (AddKey a) = ka_target a"
| "option_target (AddContainerKey a) = ka_target a"
| "option_target (ClientConfig a) = cca_target a"
| "option_target (ClientBundle a) = cba_target a"
| "option_target _ = None"

definition plain :: "string option \<Rightarrow> bool" where
  "plain t \<longleftrightarrow> (case t of None \<Rightarrow> True | Some w \<Rightarrow> \<not> is_flag w)"

lemma plain_simps [simp]: "plain None" "plain (Some w) \<longleftrightarrow> \<not> is_flag w"
  by (simp_all add: plain_def)

lemma take_target_plain: "take_target ws = (t, ws') \<Longrightarrow> plain t"
  by (cases ws) (auto split: if_splits)

lemma status_flags_target: "status_flags a ws = Inr b \<Longrightarrow> sta_target b = sta_target a"
  by (induction a ws rule: status_flags.induct) (auto split: if_splits)

lemma target_session_args_plain:
  "target_session_args n a ws = Inr b \<Longrightarrow> plain (tsa_target a) \<Longrightarrow> plain (tsa_target b)"
proof (induction n a ws rule: target_session_args.induct)
  case (2 n a w ws)
  show ?case
  proof (cases "strip_prefix ''--session-id='' w")
    case (Some v)
    with "2.prems" obtain s where "target_session_args n (a\<lparr>tsa_session_id := s\<rparr>) ws = Inr b"
      "set_session_id (tsa_session_id a) v = Inr s"
      by (auto simp: res_simps)
    with "2.IH"(3) Some "2.prems"(2) show ?thesis by simp
  next
    case None
    note none = None
    show ?thesis
    proof (cases "w = ''--session-id''")
      case True
      with "2.prems" none obtain v ws' s where v: "ws = v # ws'"
        "set_session_id (tsa_session_id a) v = Inr s"
        "target_session_args n (a\<lparr>tsa_session_id := s\<rparr>) ws' = Inr b"
        by (auto simp: res_simps split: list.splits)
      show ?thesis by (rule "2.IH"(1) [OF none True v]) (simp add: "2.prems")
    next
      case False
      with "2.prems" none have "\<not> is_flag w" "tsa_target a = None"
        "target_session_args n (a\<lparr>tsa_target := Some w\<rparr>) ws = Inr b"
        by (auto split: if_splits)
      then show ?thesis by (intro "2.IH"(2) [OF none False]) simp_all
    qed
  qed
qed simp

lemma run_args_sound:
  "run_args a ws = Inr g \<Longrightarrow> plain (ra_target a) \<Longrightarrow>
     \<exists>r. g = Run r \<and> ra_command r \<noteq> [] \<and> plain (ra_target r)"
proof (induction a ws rule: run_args.induct)
  case (2 a w ws)
  show ?case
  proof (cases "strip_prefix ''--session-id='' w")
    case (Some v)
    with "2.prems" obtain s where "run_args (a\<lparr>ra_session_id := s\<rparr>) ws = Inr g"
      "set_session_id (ra_session_id a) v = Inr s"
      by (auto simp: res_simps)
    with "2.IH"(4) Some "2.prems"(2) show ?thesis by simp
  next
    case none: None
    consider "w = ''--cwd''" | "w = ''--session-id''" "w \<noteq> ''--cwd''"
      | "w = ''--''" | "w \<noteq> ''--cwd''" "w \<noteq> ''--session-id''" "w \<noteq> ''--''" by blast
    then show ?thesis
    proof cases
      case 1
      with "2.prems" none obtain v ws' where v: "ws = v # ws'"
        "run_args (a\<lparr>ra_cwd := Some v\<rparr>) ws' = Inr g"
        by (auto split: list.splits)
      show ?thesis by (rule "2.IH"(1) [OF none 1 v]) (simp add: "2.prems")
    next
      case 2
      with "2.prems" none obtain v ws' s where v: "ws = v # ws'"
        "set_session_id (ra_session_id a) v = Inr s"
        "run_args (a\<lparr>ra_session_id := s\<rparr>) ws' = Inr g"
        by (auto simp: res_simps split: list.splits)
      show ?thesis by (rule "2.IH"(2) [OF none 2(2,1) v]) (simp add: "2.prems")
    next
      case 3
      with "2.prems" none show ?thesis by (auto split: if_splits)
    next
      case 4
      with "2.prems" none have "\<not> is_flag w" "ra_target a = None"
        "run_args (a\<lparr>ra_target := Some w\<rparr>) ws = Inr g"
        by (auto split: if_splits)
      then show ?thesis by (intro "2.IH"(3) [OF none 4]) simp_all
    qed
  qed
qed simp

lemma client_config_flags_target:
  "client_config_flags a ws = Inr b \<Longrightarrow> cca_target b = cca_target a"
  by (induction a ws rule: client_config_flags.induct) (auto split: if_splits list.splits)

lemma client_bundle_flags_target:
  "client_bundle_flags a ws = Inr b \<Longrightarrow> cba_target b = cba_target a"
  by (induction a ws rule: client_bundle_flags.induct) (auto split: if_splits list.splits)

lemma parse_status_action_sound:
  "parse_status_action ws = Inr g \<Longrightarrow> action_name g = ''status'' \<and> plain (option_target g)"
  by (auto simp: parse_status_action_def res_simps status_flags_target
      split: prod.splits if_splits dest: take_target_plain status_flags_target)

lemma parse_client_config_action_sound:
  "parse_client_config_action ws = Inr g \<Longrightarrow>
     action_name g = ''client-config'' \<and> plain (option_target g)"
  by (auto simp: parse_client_config_action_def res_simps split: prod.splits
      dest: take_target_plain dest!: client_config_flags_target)

lemma parse_client_bundle_action_sound:
  "parse_client_bundle_action ws = Inr g \<Longrightarrow>
     action_name g = ''client-bundle'' \<and> plain (option_target g)"
  by (auto simp: parse_client_bundle_action_def res_simps split: prod.splits
      dest: take_target_plain dest!: client_bundle_flags_target)

lemma parse_key_action_sound: "parse_key_action ws = Inr k \<Longrightarrow> plain (ka_target k)"
  by (auto simp: parse_key_action_def res_simps split: prod.splits dest: take_target_plain)

lemma parse_target_session_action_sound:
  "parse_target_session_action n ws = Inr a \<Longrightarrow> plain (tsa_target a)"
  by (auto simp: parse_target_session_action_def dest: target_session_args_plain)

lemma parse_run_action_sound:
  "parse_run_action ws = Inr g \<Longrightarrow> action_name g = ''run'' \<and> plain (option_target g)"
  by (auto simp: parse_run_action_def dest!: run_args_sound)

lemma parse_launch_action_sound:
  "parse_launch_action ws cfg = Inr g \<Longrightarrow>
     action_enabled cfg (action_name g) \<and> option_target g = None"
  by (auto simp: parse_launch_action_def res_simps split: list.splits if_splits)

lemmas action_parsers_sound =
  parse_status_action_sound parse_client_config_action_sound parse_client_bundle_action_sound
  parse_key_action_sound parse_target_session_action_sound parse_run_action_sound
  parse_launch_action_sound

lemma parse_native_sound:
  assumes "parse_native ws cfg = Inr (Some g)"
  shows "action_enabled cfg (action_name g) \<and> plain (option_target g)"
  using assms
  by (cases ws)
    (auto simp: parse_native_def res_simps Let_def split: if_splits dest: action_parsers_sound)

lemma parse_native_None:
  "parse_native ws cfg = Inr None \<Longrightarrow> ws = [] \<or> \<not> is_gateway_action_name (hd ws)"
  by (cases ws) (auto simp: parse_native_def res_simps Let_def split: if_splits)

lemma dispatch_Gateway:
  assumes "dispatch sw exe orig pty cfg = Gateway g"
  obtains ws where "parse_native ws cfg = Inr (Some g)"
  using assms
  by (auto simp: dispatch_def parse_gateway_action_def res_simps
      split: option.splits sum.splits if_splits list.splits)

lemma parse_gateway_action_None:
  assumes "parse_gateway_action sw exe c cfg = Inr None"
  shows "\<exists>ws. sw c = Some ws \<and>
    (ws = [] \<or> (hd ws \<noteq> ''--'' \<and> parse_native (strip_program_word exe ws) cfg = Inr None))"
proof (cases "sw c")
  case None
  with assms show ?thesis by (simp add: parse_gateway_action_def)
next
  case (Some ws)
  with assms show ?thesis by (cases ws) (simp_all add: parse_gateway_action_def split: if_splits)
qed

section \<open>Properties\<close>

text \<open>The SSH dispatcher runs a gateway action only when its registered name is enabled in the
  configuration.\<close>

theorem dispatch_only_enabled_actions:
  assumes "dispatch sw exe orig pty cfg = Gateway g"
  shows "action_name g \<in> set (enabled_actions cfg)"
  using assms by (rule dispatch_Gateway) (auto dest: parse_native_sound simp: action_enabled_def)

theorem dispatch_only_enabled_actions_witness:
  "''show-default'' \<in> set (enabled_actions
     \<lparr>allow_interactive_shell = False, allow_container_commands = False,
      enabled_actions = [''show-default'']\<rparr>)"
  using dispatch_only_enabled_actions [of "\<lambda>s. Some [s]" None "Some ''show-default''" False
      "\<lparr>allow_interactive_shell = False, allow_container_commands = False,
        enabled_actions = [''show-default'']\<rparr>" ShowDefault]
  by (simp add: dispatch_def parse_gateway_action_def strip_program_word_def parse_native_def
      is_gateway_program_word_def action_enabled_def trim_def is_whitespace_def Let_def)

text \<open>A command reaches the container only when passthrough is allowed, unchanged, and only
  when its first word (after the gateway's own program name) is no gateway action: a disabled or
  malformed action is rejected, never run in the container.\<close>

theorem container_command_is_no_action:
  assumes "dispatch sw exe orig pty cfg = ContainerCommand c"
  shows "orig = Some c \<and> allow_container_commands cfg \<and> (\<exists>ws. sw c = Some ws \<and> hd (ws @ [[]]) \<noteq> ''--''
    \<and> \<not> is_gateway_action_name (hd (strip_program_word exe ws @ [[]])))"
proof -
  have e: "\<not> is_gateway_action_name []"
    by (simp add: is_gateway_action_name_def GATEWAY_ACTION_NAMES_def)
  from assms have c: "orig = Some c" "allow_container_commands cfg"
      "parse_gateway_action sw exe c cfg = Inr None"
    by (auto simp: dispatch_def split: option.splits sum.splits if_splits)
  from c(3) obtain ws where ws: "sw c = Some ws"
    "ws = [] \<or> (hd ws \<noteq> ''--'' \<and> parse_native (strip_program_word exe ws) cfg = Inr None)"
    using parse_gateway_action_None by blast
  have "\<not> is_gateway_action_name (hd (strip_program_word exe ws @ [[]]))"
  proof -
    have "strip_program_word exe ws = [] \<or> \<not> is_gateway_action_name (hd (strip_program_word exe ws))"
      using ws(2)
    proof
      assume "ws = []"
      then show ?thesis by (simp add: strip_program_word_def)
    next
      assume "hd ws \<noteq> ''--'' \<and> parse_native (strip_program_word exe ws) cfg = Inr None"
      then show ?thesis by (blast dest: parse_native_None)
    qed
    with e show ?thesis by (metis append_Nil hd_append2 list.sel(1))
  qed
  moreover have "hd (ws @ [[]]) \<noteq> ''--''"
    using ws(2) by (cases ws) auto
  ultimately show ?thesis using c ws(1) by blast
qed

theorem container_command_is_no_action_witness:
  "Some ''ls'' = Some ''ls'' \<and> allow_container_commands ssh_dispatch_default
    \<and> (\<exists>ws. Some [''ls''] = Some ws \<and> hd (ws @ [[]]) \<noteq> ''--''
    \<and> \<not> is_gateway_action_name (hd (strip_program_word None ws @ [[]])))"
  by (rule container_command_is_no_action [where sw = "\<lambda>s. Some [s]" and pty = False])
    (simp add: dispatch_def parse_gateway_action_def strip_program_word_def parse_native_def
      is_gateway_program_word_def action_enabled_def trim_def is_whitespace_def Let_def
      ssh_dispatch_default_def is_gateway_action_name_def GATEWAY_ACTION_NAMES_def)

text \<open>No option can be smuggled in as the target of an action: a target taken by the option
  parsers never starts with a dash.\<close>

theorem dispatched_target_is_no_flag:
  assumes "dispatch sw exe orig pty cfg = Gateway g" and "option_target g = Some t"
  shows "\<not> starts_with ''-'' t"
  using assms(1)
proof (rule dispatch_Gateway)
  fix ws
  assume "parse_native ws cfg = Inr (Some g)"
  then have "plain (option_target g)" by (simp add: parse_native_sound)
  with assms(2) show ?thesis by (simp add: is_flag_def)
qed

theorem dispatched_target_is_no_flag_witness: "\<not> starts_with ''-'' ''dev''"
  by (rule dispatched_target_is_no_flag [where sw = "\<lambda>s. Some [''status'', ''dev'']" and exe = None
        and orig = "Some ''status''" and pty = False and cfg = ssh_dispatch_default
        and g = "Status \<lparr>sta_target = Some ''dev'', sta_all = False\<rparr>"])
    (simp_all add: dispatch_def parse_gateway_action_def strip_program_word_def parse_native_def
      is_gateway_program_word_def action_enabled_def trim_def is_whitespace_def Let_def
      ssh_dispatch_default_def default_enabled_actions_def GATEWAY_ACTION_NAMES_def
      parse_status_action_def is_flag_def)

end
