(* ===== verification/Net_Addr.thy ===== *)
theory Net_Addr
  imports Prelude
begin

text \<open>
  The part of \<open>std::net\<close> the sources use: parsing a socket address as \<open>SocketAddr::from_str\<close> does,
  and whether its address is a loopback address. A parser returns what it read and the rest of the
  input; a parser that fails reads nothing, as \<open>read_atomically\<close> has it.
\<close>

type_synonym 'a parser = "string \<Rightarrow> ('a \<times> string) option"

datatype ip_addr = V4 "int list" | V6 "int list"

definition is_loopback :: "ip_addr \<Rightarrow> bool" where
  "is_loopback ip = (case ip of V4 octets \<Rightarrow> octets \<noteq> [] \<and> hd octets = 127
     | V6 gs \<Rightarrow> gs = [0, 0, 0, 0, 0, 0, 0, 1])"

text \<open>\<open>char::to_digit\<close> for the radices up to 16.\<close>

definition radix_digit :: "nat \<Rightarrow> char \<Rightarrow> nat option" where
  "radix_digit radix c =
     (case position (\<lambda>x. x = c) (take radix ''0123456789abcdef'') of
        Some d \<Rightarrow> Some d
      | None \<Rightarrow> position (\<lambda>x. x = c) (take radix ''0123456789ABCDEF''))"

definition radix_value :: "nat \<Rightarrow> string \<Rightarrow> int" where
  "radix_value radix = foldl (\<lambda>acc c. acc * int radix + (case radix_digit radix c of None \<Rightarrow> 0 | Some d \<Rightarrow> int d)) 0"

text \<open>\<open>read_number\<close> for an integer type with the given maximum; without a limit on the digits its
  arithmetic is checked, so that a number beyond the maximum fails as well.\<close>

definition read_number :: "nat \<Rightarrow> nat option \<Rightarrow> bool \<Rightarrow> int \<Rightarrow> int parser" where
  "read_number radix max_digits allow_zero_prefix maximum s =
     (let is_digit = \<lambda>c. radix_digit radix c \<noteq> None;
          digits = takeWhile is_digit s
      in if digits = [] \<or> (case max_digits of None \<Rightarrow> False | Some m \<Rightarrow> m < length digits)
            \<or> (\<not> allow_zero_prefix \<and> hd digits = CHR ''0'' \<and> 1 < length digits)
            \<or> maximum < radix_value radix digits
         then None
         else Some (radix_value radix digits, dropWhile is_digit s))"

definition read_given_char :: "char \<Rightarrow> unit parser" where
  "read_given_char c s = (case s of x # rest \<Rightarrow> if x = c then Some ((), rest) else None | [] \<Rightarrow> None)"

definition read_separator :: "char \<Rightarrow> nat \<Rightarrow> 'a parser \<Rightarrow> 'a parser" where
  "read_separator sep index inner s =
     (if index = 0 then inner s
      else case read_given_char sep s of None \<Rightarrow> None | Some (_, rest) \<Rightarrow> inner rest)"

fun read_octets :: "nat \<Rightarrow> nat \<Rightarrow> int list parser" where
  "read_octets index 0 s = Some ([], s)"
| "read_octets index (Suc n) s =
     (case read_separator CHR ''.'' index (read_number 10 (Some 3) False 255) s of
        None \<Rightarrow> None
      | Some (octet, rest) \<Rightarrow>
          (case read_octets (Suc index) n rest of
             None \<Rightarrow> None | Some (octets, rest) \<Rightarrow> Some (octet # octets, rest)))"

definition read_ipv4_addr :: "int list parser" where
  "read_ipv4_addr = read_octets 0 4"

text \<open>\<open>read_groups\<close> reads up to \<open>limit\<close> groups, the last two of which may be written as an IPv4 address;
  the flag tells whether they are.\<close>

fun read_groups :: "nat \<Rightarrow> nat \<Rightarrow> string \<Rightarrow> int list \<times> bool \<times> string" where
  "read_groups index 0 s = ([], False, s)"
| "read_groups index (Suc n) s =
     (case (if 0 < n then read_separator CHR '':'' index read_ipv4_addr s else None) of
        Some (octets, rest) \<Rightarrow>
          ([octets ! 0 * 256 + octets ! 1, octets ! 2 * 256 + octets ! 3], True, rest)
      | None \<Rightarrow>
          (case read_separator CHR '':'' index (read_number 16 (Some 4) True 65535) s of
             None \<Rightarrow> ([], False, s)
           | Some (g, rest) \<Rightarrow>
               (case read_groups (Suc index) n rest of
                  (gs, ipv4, rest) \<Rightarrow> (g # gs, ipv4, rest))))"

definition read_ipv6_addr :: "int list parser" where
  "read_ipv6_addr s =
     (case read_groups 0 8 s of (head, head_ipv4, rest) \<Rightarrow>
        if length head = 8 then Some (head, rest)
        else if head_ipv4 then None
        else case strip_prefix ''::'' rest of
          None \<Rightarrow> None
        | Some rest \<Rightarrow>
            (case read_groups 0 (8 - (length head + 1)) rest of (tail, _, rest) \<Rightarrow>
               Some (head @ replicate (8 - length head - length tail) 0 @ tail, rest)))"

definition read_port :: "int parser" where
  "read_port s = (case read_given_char CHR '':'' s of
     None \<Rightarrow> None | Some (_, rest) \<Rightarrow> read_number 10 None True 65535 rest)"

definition read_scope_id :: "int parser" where
  "read_scope_id s = (case read_given_char CHR ''%'' s of
     None \<Rightarrow> None | Some (_, rest) \<Rightarrow> read_number 10 None True (2 ^ 32 - 1) rest)"

definition read_socket_addr_v4 :: "(ip_addr \<times> int) parser" where
  "read_socket_addr_v4 s =
     (case read_ipv4_addr s of None \<Rightarrow> None | Some (ip, rest) \<Rightarrow>
       (case read_port rest of None \<Rightarrow> None | Some (port, rest) \<Rightarrow> Some ((V4 ip, port), rest)))"

definition read_socket_addr_v6 :: "(ip_addr \<times> int) parser" where
  "read_socket_addr_v6 s =
     (case read_given_char CHR ''['' s of None \<Rightarrow> None | Some (_, rest) \<Rightarrow>
       (case read_ipv6_addr rest of None \<Rightarrow> None | Some (ip, rest) \<Rightarrow>
         (let rest = (case read_scope_id rest of None \<Rightarrow> rest | Some (_, rest) \<Rightarrow> rest) in
          case read_given_char CHR '']'' rest of None \<Rightarrow> None | Some (_, rest) \<Rightarrow>
            (case read_port rest of None \<Rightarrow> None | Some (port, rest) \<Rightarrow> Some ((V6 ip, port), rest)))))"

definition parse_socket_addr :: "string \<Rightarrow> (ip_addr \<times> int) option" where
  "parse_socket_addr s =
     (case (case read_socket_addr_v4 s of Some r \<Rightarrow> Some r | None \<Rightarrow> read_socket_addr_v6 s) of
        Some (addr, []) \<Rightarrow> Some addr
      | _ \<Rightarrow> None)"

lemmas net_addr_defs = parse_socket_addr_def read_socket_addr_v4_def read_socket_addr_v6_def
  read_port_def read_scope_id_def read_ipv4_addr_def read_ipv6_addr_def read_number_def
  read_separator_def read_given_char_def radix_value_def radix_digit_def

end
