(* ===== verification/Gateway_Config.thy ===== *)
theory Gateway_Config
  imports Targets Launch_Config Ssh_Dispatch Net_Addr
begin

text \<open>
  \<open>src/config.rs\<close> and \<open>src/config/http.rs\<close>: the whole configuration of the gateway, the composition of
  effective targets and launches from defaults, templates and their own settings, and the checks that
  an accepted configuration has passed; also the files that the container agent and the bootstrap read.
  Parsing TOML is the library's; these definitions start from the deserialised values.
\<close>

section \<open>Sections of the configuration\<close>

datatype container_runtime_type = Podman | Docker | Colima | AppleContainer

record runtime_config =
  rc_type :: container_runtime_type
  rc_program :: "string option"
  rc_docker_host :: "string option"
  rc_profile :: "string option"

definition runtime_config_default :: runtime_config where
  "runtime_config_default = \<lparr>rc_type = Podman, rc_program = None, rc_docker_host = None, rc_profile = None\<rparr>"

definition runtime_config_validate :: "runtime_config \<Rightarrow> unit res" where
  "runtime_config_validate c = seq_checks
     [given (\<lambda>program. bail_if (trim program = []) (Bail ''runtime.program must not be empty'' []))
        (rc_program c),
      given (\<lambda>docker_host. seq_checks
        [bail_if (rc_type c \<noteq> Docker)
           (Bail (''runtime.docker_host is only valid for runtime type '' @ quoted ''docker'') []),
         validate_template ''runtime.docker_host'' docker_host RUNTIME_TEMPLATE_VARS]) (rc_docker_host c),
      given (\<lambda>profile. seq_checks
        [bail_if (rc_type c \<noteq> Colima)
           (Bail (''runtime.profile is only valid for runtime type '' @ quoted ''colima'') []),
         validate_name ''runtime.profile'' profile]) (rc_profile c)]"

record logging_config =
  lg_level :: string
  lg_directory :: "string option"
  lg_max_bytes :: "nat option"
  lg_max_files :: "nat option"
  lg_console :: bool

definition MAX_LOG_ROTATION_FILES :: nat where
  "MAX_LOG_ROTATION_FILES = 1024"

definition logging_default :: logging_config where
  "logging_default = \<lparr>lg_level = ''info'', lg_directory = None, lg_max_bytes = None, lg_max_files = None,
     lg_console = True\<rparr>"

definition logging_validate_templates :: "logging_config \<Rightarrow> string \<Rightarrow> string list \<Rightarrow> unit res" where
  "logging_validate_templates c field allowed =
     given (\<lambda>directory. validate_template (field @ ''.directory'') directory allowed) (lg_directory c)"

definition logging_validate_values :: "logging_config \<Rightarrow> string \<Rightarrow> unit res" where
  "logging_validate_values c field =
     given (\<lambda>max_files. bail_if (MAX_LOG_ROTATION_FILES < max_files)
       (Bail ''{}.max_files must not exceed {}'' [field, show_nat MAX_LOG_ROTATION_FILES])) (lg_max_files c)"

record client_config =
  cc_inner_alias_template :: string
  cc_container_host_template :: string
  cc_host :: string
  cc_gateway_path :: string
  cc_default_identity_dir :: string

definition client_config_default :: client_config where
  "client_config_default =
     \<lparr>cc_inner_alias_template = ''aw-{target}'', cc_container_host_template = ''aw-container-{target}'',
      cc_host = ''localhost'', cc_gateway_path = ''/opt/aw-gateway/bin/aw-gateway'',
      cc_default_identity_dir = ''~/.ssh/aw-gateway''\<rparr>"

text \<open>The checks \<open>GatewayConfig::validate\<close> makes on the client section.\<close>

definition client_config_checks :: "client_config \<Rightarrow> unit res" where
  "client_config_checks c = seq_checks
     [validate_template ''client_config.inner_alias_template'' (cc_inner_alias_template c) CLIENT_TEMPLATE_VARS,
      validate_template ''client_config.container_host_template'' (cc_container_host_template c)
        CLIENT_TEMPLATE_VARS,
      validate_template ''client_config.default_identity_dir'' (cc_default_identity_dir c)
        CLIENT_TEMPLATE_VARS,
      validate_ssh_config_scalar ''client_config.host'' (cc_host c),
      validate_ssh_config_scalar ''client_config.gateway_path'' (cc_gateway_path c)]"

datatype http_auth_type = AuthNone | AuthBearer

record http_auth =
  ha_type :: http_auth_type
  ha_token :: "string option"

definition http_auth_default :: http_auth where
  "http_auth_default = \<lparr>ha_type = AuthNone, ha_token = None\<rparr>"

definition MAX_HTTP_BEARER_TOKEN_BYTES :: nat where
  "MAX_HTTP_BEARER_TOKEN_BYTES = 4096"

definition http_auth_validate :: "http_auth \<Rightarrow> unit res" where
  "http_auth_validate a =
     (let bearer = quoted ''bearer'' in
      case ha_type a of
        AuthNone \<Rightarrow> bail_if (ha_token a \<noteq> None)
          (Bail (''http.auth.token is only valid when http.auth.type = '' @ bearer) [])
      | AuthBearer \<Rightarrow>
          (case ha_token a of
             None \<Rightarrow> Inl (Bail (''http.auth.token is required when http.auth.type = '' @ bearer) [])
           | Some token \<Rightarrow> seq_checks
               [bail_if (token = []) (Bail ''http.auth.token must not be empty'' []),
                bail_if (MAX_HTTP_BEARER_TOKEN_BYTES < length token)
                  (Bail ''http.auth.token must not exceed 4096 bytes'' []),
                bail_if (list_ex (\<lambda>c. c \<in> {CHR 0x0D, CHR 0x0A}) token)
                  (Bail ''http.auth.token must be a single line'' [])]))"

record http_config =
  hc_enabled :: bool
  hc_listen :: string
  hc_enabled_actions :: "string list"
  hc_auth :: http_auth

definition http_config_default :: http_config where
  "http_config_default =
     \<lparr>hc_enabled = False, hc_listen = ''127.0.0.1:8080'', hc_enabled_actions = [], hc_auth = http_auth_default\<rparr>"

definition listen_addr :: "http_config \<Rightarrow> (ip_addr \<times> int) res" where
  "listen_addr c = with_context (''parse http.listen '' @ hc_listen c)
     (ok_or (Bail ''invalid socket address syntax'' []) (parse_socket_addr (hc_listen c)))"

definition http_config_validate :: "http_config \<Rightarrow> unit res" where
  "http_config_validate c =
     and_then (listen_addr c) (\<lambda>listen. seq_checks
       [bail_if (hc_enabled c \<and> hc_enabled_actions c = [])
          (Bail ''http.enabled_actions must not be empty when http.enabled = true'' []),
        bail_if (hc_enabled c \<and> \<not> is_loopback (fst listen) \<and> ha_type (hc_auth c) = AuthNone)
          (Bail (''http.auth.type = '' @ quoted ''bearer'' @ '' is required when http.listen is non-loopback'') []),
        each (\<lambda>a. bail_if (\<not> is_http_action_name a)
          (Bail ''unknown or unsupported http.enabled_actions entry {}'' [a])) (hc_enabled_actions c),
        http_auth_validate (hc_auth c)])"

section \<open>Files read inside the container\<close>

definition AGENT_SCHEMA_VERSION :: string where
  "AGENT_SCHEMA_VERSION = ''1''"

definition BOOTSTRAP_SCHEMA_VERSION :: string where
  "BOOTSTRAP_SCHEMA_VERSION = ''2''"

record container_agent_file =
  caf_schema_version :: string
  caf_logging :: logging_config
  caf_container_agent :: container_agent_config

definition container_agent_file_validate :: "container_agent_file \<Rightarrow> unit res" where
  "container_agent_file_validate f = seq_checks
     [bail_if (caf_schema_version f \<noteq> AGENT_SCHEMA_VERSION)
        (Bail ''unsupported container agent schema_version {}; expected {}''
           [caf_schema_version f, AGENT_SCHEMA_VERSION]),
      logging_validate_templates (caf_logging f) ''logging'' AGENT_TEMPLATE_VARS,
      logging_validate_values (caf_logging f) ''logging'',
      container_agent_validate_agent_file (caf_container_agent f)]"

record bootstrap_identity =
  bi_session_user :: string
  bi_session_uid :: nat
  bi_session_gid :: nat
  bi_session_home :: string
  bi_session_shell :: string
  bi_state_dir :: string

definition bootstrap_identity_validate :: "bootstrap_identity \<Rightarrow> unit res" where
  "bootstrap_identity_validate i = seq_checks
     [validate_name ''bootstrap identity session_user'' (bi_session_user i),
      each (\<lambda>(field, v). seq_checks
        [bail_if (trim v = []) (Bail ''bootstrap identity {} must not be empty'' [field]),
         validate_passwd_scalar (''bootstrap identity '' @ field) v])
        [(''session_home'', bi_session_home i), (''session_shell'', bi_session_shell i),
         (''state_dir'', bi_state_dir i)]]"

record container_bootstrap_file =
  cbf_schema_version :: string
  cbf_agent_program :: string
  cbf_agent_config :: string
  cbf_skip_identity_prepare :: bool
  cbf_chown_existing_identity_dirs :: bool
  cbf_identity :: bootstrap_identity
  cbf_steps :: "bootstrap_step list"

definition container_bootstrap_file_validate :: "container_bootstrap_file \<Rightarrow> unit res" where
  "container_bootstrap_file_validate f = seq_checks
     [bail_if (cbf_schema_version f \<noteq> BOOTSTRAP_SCHEMA_VERSION)
        (Bail ''unsupported bootstrap schema_version {}; expected {}''
           [cbf_schema_version f, BOOTSTRAP_SCHEMA_VERSION]),
      bail_if (trim (cbf_agent_program f) = []) (Bail ''bootstrap agent_program must not be empty'' []),
      bail_if (trim (cbf_agent_config f) = []) (Bail ''bootstrap agent_config must not be empty'' []),
      bootstrap_identity_validate (cbf_identity f),
      each rendered_bootstrap_validate (cbf_steps f)]"

section \<open>The gateway's configuration\<close>

record gateway_config =
  gc_schema_version :: string
  gc_default_target :: string
  gc_includes :: "string list"
  gc_runtime :: runtime_config
  gc_logging :: logging_config
  gc_http :: http_config
  gc_ssh_dispatch :: ssh_dispatch_config
  gc_client_config :: client_config
  gc_context_vars :: "(string, context_var_config) btree"
  gc_target_defaults :: target_input
  gc_target_templates :: "(string, target_input) btree"
  gc_launch_defaults :: launch_input
  gc_launch_templates :: "(string, launch_input) btree"
  gc_targets :: "(string, target_input) btree"
  gc_launches :: "(string, launch_input) btree"

definition GATEWAY_SCHEMA_VERSION :: string where
  "GATEWAY_SCHEMA_VERSION = ''1''"

definition target_template_resolver :: "gateway_config \<Rightarrow> target_input resolver" where
  "target_template_resolver c =
     \<lparr>tr_kind = ''target'', tr_templates = gc_target_templates c, tr_dependencies = tgi_use_templates,
      tr_overlay = target_overlay\<rparr>"

definition launch_template_resolver :: "gateway_config \<Rightarrow> launch_input resolver" where
  "launch_template_resolver c =
     \<lparr>tr_kind = ''launch'', tr_templates = gc_launch_templates c, tr_dependencies = li_use,
      tr_overlay = launch_overlay\<rparr>"

definition effective_target_from_input ::
  "gateway_config \<Rightarrow> string \<Rightarrow> target_input \<Rightarrow> target_config res" where
  "effective_target_from_input c name target =
     and_then (target_overlay target_builtin_defaults (gc_target_defaults c)) (\<lambda>base.
     and_then (overlay_templates (target_template_resolver c) base (''target '' @ name)
         (tgi_use_templates target)) (\<lambda>effective_input.
     and_then (target_overlay effective_input target) (\<lambda>input.
     and_then (target_into_effective input name) (\<lambda>effective.
     and_then (target_validate effective name) (\<lambda>_. Inr effective)))))"

definition effective_target :: "gateway_config \<Rightarrow> string \<Rightarrow> target_config res" where
  "effective_target c name =
     and_then (ok_or (Bail ''unknown target {}'' [name]) (bt_get (gc_targets c) name))
       (effective_target_from_input c name)"

definition effective_targets :: "gateway_config \<Rightarrow> (string, target_config) btree res" where
  "effective_targets c =
     map_ok (bt_extend [])
       (collect_ok (\<lambda>(name, target). map_ok (Pair name) (effective_target_from_input c name target))
          (gc_targets c))"

definition effective_workspace_defaults :: "gateway_config \<Rightarrow> workspace_config res" where
  "effective_workspace_defaults c =
     map_ok (\<lambda>t. workspace_into_effective (unwrap_or workspace_input_default (tgi_workspace t)))
       (target_overlay target_builtin_defaults (gc_target_defaults c))"

definition effective_container_ssh_defaults :: "gateway_config \<Rightarrow> container_ssh_config res" where
  "effective_container_ssh_defaults c =
     and_then (target_overlay target_builtin_defaults (gc_target_defaults c)) (\<lambda>t.
       target_container_ssh_to_effective (unwrap_or target_container_ssh_default (tgi_container_ssh t)))"

text \<open>The targets that a launch is validated against are those of a map, of which it needs the names.\<close>

definition resolve_effective_launch ::
  "gateway_config \<Rightarrow> string \<Rightarrow> launch_input \<Rightarrow> (string, target_config) btree \<Rightarrow> launch_config res" where
  "resolve_effective_launch c name launch targets =
     and_then (overlay_templates (launch_template_resolver c) (gc_launch_defaults c) (''launch '' @ name)
         (li_use launch)) (\<lambda>effective_input.
     and_then (launch_overlay effective_input launch) (\<lambda>input.
     and_then (launch_into_effective input name) (\<lambda>effective.
     and_then (launch_validate effective name (bt_keys targets)) (\<lambda>_. Inr effective))))"

definition effective_launches :: "gateway_config \<Rightarrow> (string, launch_config) btree res" where
  "effective_launches c =
     and_then (effective_targets c) (\<lambda>targets.
       map_ok (bt_extend [])
         (collect_ok (\<lambda>(name, launch). map_ok (Pair name) (resolve_effective_launch c name launch targets))
            (gc_launches c)))"

definition effective_launch :: "gateway_config \<Rightarrow> string \<Rightarrow> launch_config res" where
  "effective_launch c name =
     and_then (effective_targets c) (\<lambda>targets.
     and_then (ok_or (Bail ''unknown launch {}'' [name]) (bt_get (gc_launches c) name)) (\<lambda>launch.
       resolve_effective_launch c name launch targets))"

section \<open>The checks of the whole configuration\<close>

definition validate_context_template :: "gateway_config \<Rightarrow> string \<Rightarrow> string \<Rightarrow> string list \<Rightarrow> unit res" where
  "validate_context_template c field v allowed =
     validate_template_with_context field v allowed (bt_keys (gc_context_vars c))"

definition validate_target_context_templates ::
  "gateway_config \<Rightarrow> (string, target_config) btree \<Rightarrow> unit res" where
  "validate_target_context_templates c targets =
     (let context_keys = bt_keys (gc_context_vars c) in seq_checks
       [target_input_validate_context_templates (gc_target_defaults c) ''target_defaults'' context_keys,
        each (\<lambda>(name, template). target_input_validate_context_templates template
          (''target_templates.'' @ name) context_keys) (gc_target_templates c),
        each (\<lambda>(name, target). target_validate_context_templates target name context_keys) targets,
        each (\<lambda>(name, target). target_input_validate_context_templates target
          (''targets.'' @ name) context_keys) (gc_targets c)])"

definition validate_required_context_fixed_targets ::
  "gateway_config \<Rightarrow> (string, target_config) btree \<Rightarrow> unit res" where
  "validate_required_context_fixed_targets c targets =
     (let required = List.map_filter (\<lambda>(key, cfg). if cvc_required cfg then Some key else None)
            (gc_context_vars c)
      in if required = [] then Inr ()
      else each (\<lambda>(name, target).
        if tgt_mode target \<noteq> Fixed then Inr ()
        else and_then (referenced_keys (unwrap_or ''{image_slug}'' (tgt_name target))) (\<lambda>refs.
          each (\<lambda>key. bail_if (\<not> list_ex (\<lambda>reference. reference = ''context.'' @ key) refs)
            (Bail ''fixed target {} name must reference required context key {}'' [name, ''{context.'' @ key @ ''}'']))
            required)) targets)"

definition validate_launch_definitions ::
  "gateway_config \<Rightarrow> (string, target_config) btree \<Rightarrow> unit res" where
  "validate_launch_definitions c targets =
     each (\<lambda>(name, launch). seq_checks
       [validate_name ''launch'' name,
        bail_if (name = ''show'')
          (Bail (''launch name '' @ quoted ''show'' @ '' is reserved for launch show'') []),
        launch_validate_partial launch name,
        map_ok (\<lambda>_. ()) (with_context (''validate effective launch '' @ name)
          (resolve_effective_launch c name launch targets))]) (gc_launches c)"

definition validate_target_agent_compatibility :: "(string, target_config) btree \<Rightarrow> unit res" where
  "validate_target_agent_compatibility targets =
     each (\<lambda>(name, target).
       if ca_enabled (tgt_container_agent target) then Inr ()
       else if ta_method (tgt_access target) \<noteq> AccessSsh then Inr ()
       else given (\<lambda>local_ssh. bail_if (ls_backend local_ssh = PublishedPort)
         (Bail (''target {} uses local_ssh.backend = '' @ quoted ''published_port''
            @ '' but container_agent.enabled = false; agent-disabled targets run sleep infinity and do not provide container SSH'')
            [name])) (tgt_local_ssh target)) targets"

text \<open>\<open>is_linux\<close> is \<open>cfg!(target_os = "linux")\<close>.\<close>

definition control_socket_may_be_enabled :: "container_agent_config \<Rightarrow> bool" where
  "control_socket_may_be_enabled agent \<longleftrightarrow>
     (case ca_control_socket agent of None \<Rightarrow> True | Some s \<Rightarrow> control_socket_is_enabled s)"

fun runtime_type_text :: "container_runtime_type \<Rightarrow> string" where
  "runtime_type_text Podman = ''Podman''"
| "runtime_type_text Docker = ''Docker''"
| "runtime_type_text Colima = ''Colima''"
| "runtime_type_text AppleContainer = ''AppleContainer''"

definition validate_exposure_support ::
  "bool \<Rightarrow> container_runtime_type \<Rightarrow> string \<Rightarrow> target_config \<Rightarrow> unit res" where
  "validate_exposure_support is_linux runtime_type name target =
     (if tgt_host_socket_exposures target = [] then Inr ()
      else case runtime_type of
        Colima \<Rightarrow> Inl (Bail (''target {} configures host_socket_exposures but runtime type ''
          @ quoted ''colima'' @ '' is not supported'') [name])
      | AppleContainer \<Rightarrow> each (\<lambda>(exposure_name, exposure).
          bail_if (hse_selinux_relabel exposure \<noteq> RelabelNone)
            (Bail (''target {} host_socket_exposures.{}.selinux_relabel must be '' @ quoted ''none''
               @ '' for runtime type '' @ quoted ''apple_container'') [name, exposure_name]))
          (tgt_host_socket_exposures target)
      | _ \<Rightarrow> bail_if (\<not> is_linux)
          (Bail ''target {} configures host_socket_exposures but runtime type {} requires AW Gateway to run on Linux''
             [name, runtime_type_text runtime_type]))"

definition apple_message :: "string \<Rightarrow> string \<Rightarrow> string" where
  "apple_message method rest = ''target {} uses runtime type '' @ quoted ''apple_container''
     @ '' with access.method = '' @ quoted method @ rest"

definition validate_apple_container_target :: "string \<Rightarrow> target_config \<Rightarrow> unit res" where
  "validate_apple_container_target name target =
     (case ta_method (tgt_access target) of
        AccessSsh \<Rightarrow> seq_checks
          [(case tgt_local_ssh target of
              Some local_ssh \<Rightarrow>
                if ls_backend local_ssh = PublishedPort
                then bail_if (ls_readiness local_ssh \<noteq> SshOnly)
                  (Bail (apple_message ''ssh'' ('' but local_ssh.readiness is not '' @ quoted ''ssh_only''
                     @ ''; Apple container SSH support requires local_ssh.readiness = '' @ quoted ''ssh_only'')) [name])
                else Inl (Bail (''target {} uses local_ssh.backend = '' @ quoted ''socket'' @ '' but runtime type ''
                     @ quoted ''apple_container'' @ '' only supports local_ssh.backend = ''
                     @ quoted ''published_port'' @ '' for SSH targets'') [name])
            | None \<Rightarrow> Inl (Bail (''target {} must configure local_ssh.backend = '' @ quoted ''published_port''
                     @ '' when runtime type is '' @ quoted ''apple_container'' @ '' and access.method = ''
                     @ quoted ''ssh'') [name])),
           bail_if (control_socket_may_be_enabled (tgt_container_agent target))
             (Bail (apple_message ''ssh'' '' but container_agent.control_socket is enabled; Apple container SSH support requires container_agent.control_socket = false'')
                [name])]
      | AccessRuntimeExec \<Rightarrow> seq_checks
          [bail_if (ca_enabled (tgt_container_agent target)
               \<and> control_socket_may_be_enabled (tgt_container_agent target))
             (Bail (apple_message ''runtime_exec'' '' but container_agent.control_socket is enabled; Apple container runtime-exec targets require container_agent.control_socket = false'')
                [name]),
           bail_if (uses_agent_idle_cleanup target)
             (Bail (apple_message ''runtime_exec'' '' but agent-owned idle_cleanup requires an agent control socket'')
                [name])])"

definition validate_runtime_target_compatibility ::
  "bool \<Rightarrow> gateway_config \<Rightarrow> (string, target_config) btree \<Rightarrow> unit res" where
  "validate_runtime_target_compatibility is_linux c targets =
     (let runtime_type = rc_type (gc_runtime c) in
      each (\<lambda>(name, target). seq_checks
       [validate_exposure_support is_linux runtime_type name target,
        (if runtime_type \<noteq> AppleContainer then Inr ()
         else validate_apple_container_target name target)]) targets)"

definition gateway_validate_parts :: "gateway_config \<Rightarrow> unit res" where
  "gateway_validate_parts c = seq_checks
     [bail_if (gc_schema_version c \<noteq> GATEWAY_SCHEMA_VERSION)
        (Bail ''unsupported gateway schema_version {}; expected {}''
           [gc_schema_version c, GATEWAY_SCHEMA_VERSION]),
      validate_context_var_declarations (gc_context_vars c),
      reject_template_use ''target_defaults'' (tgi_use_templates (gc_target_defaults c)),
      target_validate_partial (gc_target_defaults c) ''target_defaults'',
      each (\<lambda>(name, template). seq_checks
        [validate_name ''target template'' name, target_validate_partial template name])
        (gc_target_templates c),
      validate_references (target_template_resolver c),
      reject_template_use ''launch_defaults'' (li_use (gc_launch_defaults c)),
      launch_validate_partial (gc_launch_defaults c) ''launch_defaults'',
      each (\<lambda>(name, template). seq_checks
        [validate_name ''launch template'' name, launch_validate_partial template name])
        (gc_launch_templates c),
      validate_references (launch_template_resolver c),
      validate_name ''default_target'' (gc_default_target c),
      bail_if (\<not> bt_contains (gc_targets c) (gc_default_target c))
        (Bail ''default_target {} is not defined in targets'' [gc_default_target c]),
      bail_if (gc_targets c = []) (Bail ''at least one target is required'' []),
      each (\<lambda>(name, target). seq_checks
        [validate_name ''target'' name, target_validate_partial target name]) (gc_targets c),
      runtime_config_validate (gc_runtime c),
      client_config_checks (gc_client_config c),
      given (\<lambda>directory. validate_context_template c ''logging.directory'' directory
        GATEWAY_LOGGING_TEMPLATE_VARS) (lg_directory (gc_logging c)),
      logging_validate_values (gc_logging c) ''logging'',
      http_config_validate (gc_http c)]"

definition gateway_validate :: "bool \<Rightarrow> gateway_config \<Rightarrow> unit res" where
  "gateway_validate is_linux c =
     and_then (gateway_validate_parts c) (\<lambda>_.
     and_then (effective_targets c) (\<lambda>targets. seq_checks
       [validate_target_context_templates c targets,
        validate_required_context_fixed_targets c targets,
        validate_launch_definitions c targets,
        validate_target_agent_compatibility targets,
        validate_runtime_target_compatibility is_linux c targets,
        ssh_dispatch_validate (gc_ssh_dispatch c)]))"

section \<open>Lemmas\<close>

lemma effective_targets_entries:
  assumes "effective_targets c = Inr ts" and "bt_ok (gc_targets c)"
  shows "bt_keys ts = bt_keys (gc_targets c)"
    and "(n, t) \<in> set ts \<Longrightarrow> effective_target c n = Inr t \<and> target_validate t n = Inr ()"
proof -
  from assms(1) obtain es where es: "ts = bt_extend [] es"
    "collect_ok (\<lambda>(n, t). map_ok (Pair n) (effective_target_from_input c n t)) (gc_targets c) = Inr es"
    by (auto simp: effective_targets_def map_ok_Inr)
  note entries = collect_entries [OF es(2)]
  have "bt_ok es" using assms(2) entries(1) by (simp add: bt_ok_def)
  then have ts: "ts = es" using es(1) by (simp add: bt_extend_Nil)
  then show "bt_keys ts = bt_keys (gc_targets c)" using entries(1) by (simp add: bt_keys_def)
  assume "(n, t) \<in> set ts"
  with ts entries(2) obtain input where input: "(n, input) \<in> set (gc_targets c)"
    "effective_target_from_input c n input = Inr t" by blast
  then have "effective_target c n = Inr t"
    using bt_in_get [OF assms(2)] by (simp add: effective_target_def)
  moreover have "target_validate t n = Inr ()"
    using input(2) by (auto simp: effective_target_from_input_def and_then_Inr)
  ultimately show "effective_target c n = Inr t \<and> target_validate t n = Inr ()" by blast
qed

lemma gateway_validate_targets:
  assumes "gateway_validate is_linux c = Inr ()"
  obtains ts where "effective_targets c = Inr ts" "gateway_validate_parts c = Inr ()"
    "validate_target_context_templates c ts = Inr ()"
    "validate_required_context_fixed_targets c ts = Inr ()"
    "validate_launch_definitions c ts = Inr ()"
    "validate_runtime_target_compatibility is_linux c ts = Inr ()"
  using assms by (auto simp: gateway_validate_def and_then_Inr)

lemma accepted_launch_resolves:
  assumes "validate_launch_definitions c ts = Inr ()" and "(n, input) \<in> set (gc_launches c)"
  obtains l where "resolve_effective_launch c n input ts = Inr l" "name_ok n" "n \<noteq> ''show''"
proof -
  have "map_ok (\<lambda>_. ()) (with_context (''validate effective launch '' @ n)
      (resolve_effective_launch c n input ts)) = Inr ()" and "name_ok n" "n \<noteq> ''show''"
    using assms by (fastforce simp: validate_launch_definitions_def validate_name_iff bail_if_Inr)+
  with that show ?thesis by (auto simp: map_ok_Inr with_context_Inr)
qed

lemma effective_launches_entries:
  assumes "validate_launch_definitions c ts = Inr ()" and "effective_targets c = Inr ts"
    and "bt_ok (gc_launches c)"
  obtains ls where "effective_launches c = Inr ls" "bt_keys ls = bt_keys (gc_launches c)"
    "\<And>n l. (n, l) \<in> set ls \<Longrightarrow> effective_launch c n = Inr l \<and> lc_target l \<in> set (bt_keys ts)
      \<and> name_ok n \<and> n \<noteq> ''show''"
proof -
  let ?f = "\<lambda>n launch. resolve_effective_launch c n launch ts"
  have "is_ok (collect_ok (\<lambda>(n, launch). map_ok (Pair n) (?f n launch)) (gc_launches c))"
    unfolding collect_ok_is_ok
    by (auto simp: is_ok_iff map_ok_Inr elim!: accepted_launch_resolves [OF assms(1)])
  then obtain es where es: "collect_ok (\<lambda>(n, launch). map_ok (Pair n) (?f n launch)) (gc_launches c) = Inr es"
    by (auto simp: is_ok_iff)
  note entries = collect_entries [OF es]
  have "bt_ok es" using assms(3) entries(1) by (simp add: bt_ok_def)
  then have ls: "effective_launches c = Inr es"
    using es by (simp add: effective_launches_def assms(2) bt_extend_Nil)
  have "effective_launch c n = Inr l \<and> lc_target l \<in> set (bt_keys ts) \<and> name_ok n \<and> n \<noteq> ''show''"
    if nl: "(n, l) \<in> set es" for n l
  proof -
    from entries(2) [OF nl] obtain input where input: "(n, input) \<in> set (gc_launches c)"
      "?f n input = Inr l" by blast
    then have "effective_launch c n = Inr l"
      using bt_in_get [OF assms(3)] by (simp add: effective_launch_def assms(2))
    moreover from input(2) have "launch_validate l n (bt_keys ts) = Inr ()"
      by (auto simp: resolve_effective_launch_def and_then_Inr)
    then have "lc_target l \<in> set (bt_keys ts)" by (rule launch_validate_facts)
    ultimately show ?thesis using accepted_launch_resolves [OF assms(1) input(1)] by metis
  qed
  with ls entries(1) show ?thesis by (intro that) (simp_all add: bt_keys_def)
qed

lemma effective_target_in:
  assumes "effective_targets c = Inr ts" and "bt_ok (gc_targets c)" and "effective_target c name = Inr t"
  shows "(name, t) \<in> set ts"
proof -
  note targets = effective_targets_entries [OF assms(1,2)]
  from assms(3) obtain input where "bt_get (gc_targets c) name = Some input"
    by (auto simp: effective_target_def and_then_Inr ok_or_Inr)
  then have "name \<in> set (bt_keys ts)"
    unfolding targets(1) by (auto simp: bt_keys_def dest!: bt_get_in intro: rev_image_eqI)
  then obtain t' where "(name, t') \<in> set ts" by (auto simp: bt_keys_def)
  with targets(2) [OF this] assms(3) show ?thesis by simp
qed

lemma required_context_referenced:
  assumes "validate_required_context_fixed_targets c ts = Inr ()"
    and "(key, cfg) \<in> set (gc_context_vars c)" and "cvc_required cfg"
    and "(name, t) \<in> set ts" and "tgt_mode t = Fixed"
  shows "\<exists>ks. referenced_keys (container_name_pattern t) = Inr ks \<and> ''context.'' @ key \<in> set ks"
proof -
  let ?required = "List.map_filter (\<lambda>(key, cfg). if cvc_required cfg then Some key else None) (gc_context_vars c)"
  have key: "key \<in> set ?required" using assms(2,3) by (force simp: List.map_filter_def)
  then have "?required \<noteq> []" by (metis empty_iff list.set(1))
  with assms(1,4,5) obtain ks where "referenced_keys (container_name_pattern t) = Inr ks"
    "each (\<lambda>key. bail_if (\<not> list_ex (\<lambda>reference. reference = ''context.'' @ key) ks)
      (Bail ''fixed target {} name must reference required context key {}''
        [name, ''{context.'' @ key @ ''}''])) ?required = Inr ()"
    by (fastforce simp: validate_required_context_fixed_targets_def Let_def container_name_pattern_def and_then_Inr)
  with key show ?thesis by (auto simp: bail_if_Inr list_ex_iff)
qed

section \<open>Properties\<close>

text \<open>C6. An accepted configuration never fails to resolve later: the default target exists, every target
  and every launch has an effective form that is the one the checks were made on, every launch runs on
  a known target, and no launch takes the name of the command that shows launches.\<close>

theorem accepted_gateway_resolves:
  assumes "gateway_validate is_linux c = Inr ()" and "bt_ok (gc_targets c)" and "bt_ok (gc_launches c)"
  shows "\<exists>ts ls. effective_targets c = Inr ts \<and> effective_launches c = Inr ls
    \<and> bt_keys ts = bt_keys (gc_targets c) \<and> bt_keys ls = bt_keys (gc_launches c)
    \<and> gc_default_target c \<in> set (bt_keys ts)
    \<and> (\<forall>(n, t) \<in> set ts. name_ok n \<and> effective_target c n = Inr t \<and> target_validate t n = Inr ())
    \<and> (\<forall>(n, l) \<in> set ls. effective_launch c n = Inr l \<and> lc_target l \<in> set (bt_keys ts)
        \<and> name_ok n \<and> n \<noteq> ''show'')"
proof -
  obtain ts where ts: "effective_targets c = Inr ts" and parts: "gateway_validate_parts c = Inr ()"
    and launches: "validate_launch_definitions c ts = Inr ()"
    using gateway_validate_targets [OF assms(1)] by metis
  note targets = effective_targets_entries [OF ts assms(2)]
  obtain ls where ls: "effective_launches c = Inr ls" "bt_keys ls = bt_keys (gc_launches c)"
    "\<And>n l. (n, l) \<in> set ls \<Longrightarrow> effective_launch c n = Inr l \<and> lc_target l \<in> set (bt_keys ts)
      \<and> name_ok n \<and> n \<noteq> ''show''"
    using effective_launches_entries [OF launches ts assms(3)] by metis
  have "gc_default_target c \<in> set (bt_keys (gc_targets c))"
    using parts by (simp add: gateway_validate_parts_def bail_if_Inr bt_contains_def bt_keys_def)
  then have default: "gc_default_target c \<in> set (bt_keys ts)" by (simp only: targets(1))
  have "name_ok n" if "n \<in> set (bt_keys ts)" for n
  proof -
    from that have "n \<in> set (bt_keys (gc_targets c))" by (simp only: targets(1))
    then obtain t where "(n, t) \<in> set (gc_targets c)" by (auto simp: bt_keys_def)
    with parts show ?thesis by (fastforce simp: gateway_validate_parts_def validate_name_iff)
  qed
  then have "name_ok n" if "(n, t) \<in> set ts" for n t using that by (force simp: bt_keys_def)
  with ts ls targets default show ?thesis by blast
qed

text \<open>C29. An effective target is made of layers: the built-in defaults, the configured defaults, the
  templates its names unfold to in order, and its own settings, each overlaid on those before.\<close>

theorem effective_target_is_layered:
  "effective_target_from_input c name target = Inr t \<longleftrightarrow>
    (\<exists>tss input. list_all2 (unfolds (target_template_resolver c)) (tgi_use_templates target) tss
      \<and> overlay_all (target_template_resolver c) target_builtin_defaults
          (gc_target_defaults c # concat tss @ [target]) = Inr input
      \<and> target_into_effective input name = Inr t \<and> target_validate t name = Inr ())"
proof -
  have overlay: "tr_overlay (target_template_resolver c) = target_overlay"
    and deps: "tr_dependencies (target_template_resolver c) = tgi_use_templates"
    by (simp_all add: target_template_resolver_def)
  show ?thesis
    unfolding effective_target_from_input_def and_then_Inr overlay_templates_iff
    by (simp only: overlay_all.simps overlay_all_append overlay and_then_Inr) auto
qed

text \<open>An HTTP API without authentication is reachable from the machine itself only; with a bearer
  token, the token is one line of 1 to 4096 bytes; and only HTTP actions are enabled.\<close>

theorem open_http_api_is_loopback:
  assumes "gateway_validate is_linux c = Inr ()" and "hc_enabled (gc_http c)"
  shows "\<exists>ip port. parse_socket_addr (hc_listen (gc_http c)) = Some (ip, port)
    \<and> (case ha_type (hc_auth (gc_http c)) of
         AuthNone \<Rightarrow> is_loopback ip \<and> ha_token (hc_auth (gc_http c)) = None
       | AuthBearer \<Rightarrow> \<exists>token. ha_token (hc_auth (gc_http c)) = Some token
           \<and> 0 < length token \<and> length token \<le> 4096 \<and> CHR 0x0A \<notin> set token \<and> CHR 0x0D \<notin> set token)
    \<and> hc_enabled_actions (gc_http c) \<noteq> []
    \<and> set (hc_enabled_actions (gc_http c)) \<subseteq> set HTTP_ACTION_NAMES"
proof -
  have "http_config_validate (gc_http c) = Inr ()"
    using gateway_validate_targets [OF assms(1)] by (auto simp: gateway_validate_parts_def)
  then show ?thesis using assms(2)
    by (cases "ha_type (hc_auth (gc_http c))")
      (fastforce simp: http_config_validate_def listen_addr_def and_then_Inr with_context_Inr ok_or_Inr
        bail_if_Inr http_auth_validate_def Let_def is_http_action_name_def list_ex_iff
        MAX_HTTP_BEARER_TOKEN_BYTES_def split: option.splits)+
qed

text \<open>Contexts that differ in a required key have containers of their own: for an accepted fixed
  target the two container names differ.\<close>

theorem required_context_separates_containers:
  assumes "gateway_validate is_linux c = Inr ()" and "bt_ok (gc_targets c)"
    and "bt_get (gc_context_vars c) key = Some cfg" and "cvc_required cfg"
    and "effective_target c name = Inr t" and "tgt_mode t = Fixed"
    and "bt_ok ctx"
    and "container_name_with_context t session (bt_insert key v ctx) = Inr n"
    and "container_name_with_context t session (bt_insert key v' ctx) = Inr n'"
  shows "n = n' \<longleftrightarrow> v = v'"
proof -
  obtain ts where ts: "effective_targets c = Inr ts"
    and required: "validate_required_context_fixed_targets c ts = Inr ()"
    using gateway_validate_targets [OF assms(1)] by metis
  have "(key, cfg) \<in> set (gc_context_vars c)" using assms(3) by (rule bt_get_in)
  moreover have "(name, t) \<in> set ts" by (rule effective_target_in [OF ts assms(2,5)])
  ultimately obtain ks where ks: "referenced_keys (container_name_pattern t) = Inr ks"
    "''context.'' @ key \<in> set ks"
    using required_context_referenced [OF required] assms(4,6) by metis
  define vars where "vars = (\<lambda>v. container_name_vars t session (bt_insert key v ctx))"
  from assms(8,9) have renders: "render (container_name_pattern t) (vars v) = Inr n"
    "render (container_name_pattern t) (vars v') = Inr n'"
    by (auto simp: container_name_with_context_def vars_def and_then_Inr)
  show ?thesis
  proof
    assume "n = n'"
    with renders ks obtain ps where ps: "subst (bt_get (vars v)) ps = Some n"
      "subst (bt_get (vars v')) ps = Some n" "''context.'' @ key \<in> set (piece_keys ps)"
      by (auto simp: render_pieces referenced_keys_pieces)
    have get: "bt_get (vars u) k = (if k = ''context.'' @ key then Some u else bt_get (vars v) k)" for u k
      unfolding vars_def by (rule container_name_vars_insert [OF assms(7)])
    show "v = v'"
    proof (rule subst_injective [OF _ _ _ ps])
      show "bt_get (vars v) k = bt_get (vars v') k" if "k \<noteq> ''context.'' @ key" for k
        using get [of v' k] that by simp
    next
      have "bt_get (vars u) (''context.'' @ key) = Some u" for u
        by (subst get) (simp only: if_True refl)
      then show "bt_get (vars v) (''context.'' @ key) = Some v" "bt_get (vars v') (''context.'' @ key) = Some v'"
        by blast+
    qed
  next
    assume "v = v'"
    with renders show "n = n'" by simp
  qed
qed

section \<open>A concrete configuration\<close>

definition demo_target :: target_input where
  "demo_target = target_input_default
     \<lparr>tgi_use_templates := [''base''], tgi_name := Some ''{image_slug}-{context.env}''\<rparr>"

definition demo_launch_input :: launch_input where
  "demo_launch_input =
     \<lparr>li_use = [], li_target = Some ''t'', li_description = None, li_allow_args = None, li_cwd = None,
      li_env = [], li_command = Some [''run''], li_vars = [], li_steps = []\<rparr>"

definition demo_gateway :: gateway_config where
  "demo_gateway =
     \<lparr>gc_schema_version = ''1'', gc_default_target = ''t'', gc_includes = [],
      gc_runtime = runtime_config_default, gc_logging = logging_default,
      gc_http = http_config_default\<lparr>hc_enabled := True, hc_enabled_actions := [''status'']\<rparr>,
      gc_ssh_dispatch = ssh_dispatch_default, gc_client_config = client_config_default,
      gc_context_vars = [(''env'', \<lparr>cvc_required = True, cvc_format = Slug, cvc_description = None\<rparr>)],
      gc_target_defaults = target_input_default,
      gc_target_templates = [(''base'', target_input_default\<lparr>tgi_image := Some ''alpine''\<rparr>)],
      gc_launch_defaults = demo_launch_input\<lparr>li_target := None, li_command := None\<rparr>,
      gc_launch_templates = [], gc_targets = [(''t'', demo_target)],
      gc_launches = [(''l'', demo_launch_input)]\<rparr>"

lemma demo_gateway_valid: "gateway_validate True demo_gateway = Inr ()"
  by code_simp

lemma demo_targets_ok: "bt_ok (gc_targets demo_gateway)" "bt_ok (gc_launches demo_gateway)"
  by (simp_all add: demo_gateway_def bt_ok_def)

theorem accepted_gateway_resolves_witness:
  "\<exists>ts ls. effective_targets demo_gateway = Inr ts \<and> effective_launches demo_gateway = Inr ls
    \<and> bt_keys ts = [''t''] \<and> bt_keys ls = [''l'']"
  using accepted_gateway_resolves [OF demo_gateway_valid demo_targets_ok]
  by (auto simp: demo_gateway_def bt_keys_def)

theorem open_http_api_is_loopback_witness:
  "\<exists>ip port. parse_socket_addr ''127.0.0.1:8080'' = Some (ip, port) \<and> is_loopback ip"
  using open_http_api_is_loopback [OF demo_gateway_valid]
  by (auto simp: demo_gateway_def http_config_default_def http_auth_default_def)

theorem required_context_separates_containers_witness:
  "\<exists>t. effective_target demo_gateway ''t'' = Inr t
    \<and> container_name_with_context t None (bt_insert ''env'' ''dev'' []) = Inr ''alpine-dev''
    \<and> container_name_with_context t None (bt_insert ''env'' ''prod'' []) = Inr ''alpine-prod''
    \<and> ''alpine-dev'' \<noteq> ''alpine-prod''"
proof -
  let ?name = "\<lambda>t v. container_name_with_context t None (bt_insert ''env'' v [])"
  have "map_ok (\<lambda>t. (tgt_mode t, ?name t ''dev'', ?name t ''prod'')) (effective_target demo_gateway ''t'')
      = Inr (Fixed, Inr ''alpine-dev'', Inr ''alpine-prod'')"
    by code_simp
  then obtain t where t: "effective_target demo_gateway ''t'' = Inr t" "tgt_mode t = Fixed"
    "container_name_with_context t None (bt_insert ''env'' ''dev'' []) = Inr ''alpine-dev''"
    "container_name_with_context t None (bt_insert ''env'' ''prod'' []) = Inr ''alpine-prod''"
    by (auto simp: map_ok_Inr)
  have var: "bt_get (gc_context_vars demo_gateway) ''env''
      = Some \<lparr>cvc_required = True, cvc_format = Slug, cvc_description = None\<rparr>"
    by (simp add: demo_gateway_def bt_get_def)
  have "''alpine-dev'' = ''alpine-prod'' \<longleftrightarrow> ''dev'' = ''prod''"
    by (rule required_context_separates_containers
        [OF demo_gateway_valid demo_targets_ok(1) var _ t(1,2) _ t(3,4)]) simp_all
  with t show ?thesis by blast
qed

end
