(* ===== verification/Config_Loading.thy ===== *)
theory Config_Loading
  imports Std_Paths Ordered_Maps
begin

text \<open>
  \<open>src/config/root.rs\<close> and \<open>src/config/include.rs\<close>: how the documents of a configuration are put
  together. A document may extend another, whose values it overrides, and may include others, which
  add definitions. The file system and the TOML parser are the record \<open>loader_fs\<close>; a TOML value is
  the datatype \<open>toml\<close>, whose tables are ordered maps. A path is its text, compared by its components
  where the sources compare paths; the text of a parent directory is normalised. Includes nest as deep
  as there are files, so their composition takes a bound on the depth and is \<open>None\<close> when it runs out.
\<close>

section \<open>Documents\<close>

datatype toml = TString string | TScalar string | TArray "toml list" | TTable "(string \<times> toml) list"

type_synonym table = "(string, toml) btree"

record loader_fs =
  fs_canonicalize :: "string \<Rightarrow> string res"
  fs_read_to_string :: "string \<Rightarrow> string res"
  fs_parse :: "string \<Rightarrow> toml res"
  fs_glob :: "string \<Rightarrow> string res list res"

fun as_table :: "toml \<Rightarrow> table option" where
  "as_table (TTable t) = Some t"
| "as_table _ = None"

fun as_str :: "toml \<Rightarrow> string option" where
  "as_str (TString s) = Some s"
| "as_str _ = None"

definition table_remove :: "string \<Rightarrow> table \<Rightarrow> table" where
  "table_remove k t = filter (\<lambda>(k', _). k' \<noteq> k) t"

text \<open>\<open>Value::try_into\<close> a vector of strings.\<close>

fun toml_string_list :: "toml \<Rightarrow> string list res" where
  "toml_string_list (TArray vs) =
     collect_ok (\<lambda>v. ok_or (Bail ''invalid type, expected a string'' []) (as_str v)) vs"
| "toml_string_list _ = Inl (Bail ''invalid type, expected a sequence'' [])"

section \<open>Merging an extending document into its base\<close>

fun all_match :: "string list \<Rightarrow> string list \<Rightarrow> bool" where
  "all_match (a # as) (e # es) \<longleftrightarrow> (e = ''*'' \<or> a = e) \<and> all_match as es"
| "all_match _ _ \<longleftrightarrow> True"

definition matches_path :: "string list \<Rightarrow> string list \<Rightarrow> bool" where
  "matches_path path pat \<longleftrightarrow> length path = length pat \<and> all_match path pat"

definition is_atomic_host_socket_exposure_map :: "string list \<Rightarrow> bool" where
  "is_atomic_host_socket_exposure_map path \<longleftrightarrow>
     matches_path path [''target_defaults'', ''host_socket_exposures'']
     \<or> matches_path path [''target_templates'', ''*'', ''host_socket_exposures'']
     \<or> matches_path path [''targets'', ''*'', ''host_socket_exposures'']"

definition is_named_array_path :: "string list \<Rightarrow> bool" where
  "is_named_array_path path \<longleftrightarrow>
     matches_path path [''target_defaults'', ''container_agent'', ''services'']
     \<or> matches_path path [''target_defaults'', ''lifecycle_steps'']
     \<or> matches_path path [''target_defaults'', ''host_steps'']
     \<or> matches_path path [''target_defaults'', ''container_bootstrap_steps'']
     \<or> matches_path path [''target_templates'', ''*'', ''container_agent'', ''services'']
     \<or> matches_path path [''target_templates'', ''*'', ''lifecycle_steps'']
     \<or> matches_path path [''target_templates'', ''*'', ''host_steps'']
     \<or> matches_path path [''target_templates'', ''*'', ''container_bootstrap_steps'']
     \<or> matches_path path [''targets'', ''*'', ''container_agent'', ''services'']
     \<or> matches_path path [''targets'', ''*'', ''lifecycle_steps'']
     \<or> matches_path path [''targets'', ''*'', ''host_steps'']
     \<or> matches_path path [''targets'', ''*'', ''container_bootstrap_steps'']
     \<or> matches_path path [''launch_defaults'', ''steps'']
     \<or> matches_path path [''launch_templates'', ''*'', ''steps'']
     \<or> matches_path path [''launches'', ''*'', ''steps'']"

definition is_service_env_table_path :: "string list \<Rightarrow> bool" where
  "is_service_env_table_path path \<longleftrightarrow>
     matches_path path [''target_defaults'', ''container_agent'', ''services'', ''env'']
     \<or> matches_path path [''target_templates'', ''*'', ''container_agent'', ''services'', ''env'']
     \<or> matches_path path [''targets'', ''*'', ''container_agent'', ''services'', ''env'']"

definition named_array_key :: "toml \<Rightarrow> string list \<Rightarrow> string res" where
  "named_array_key v path =
     ok_or (Bail ''{} entries must be tables with string name fields'' [join ''.'' path])
       (Option.bind (Option.bind (as_table v) (\<lambda>t. bt_get t ''name'')) as_str)"

text \<open>\<open>merge_items\<close> is the loop of \<open>merge_named_arrays\<close> over the items of the extending array, with the
  names of the base's items and those seen so far.\<close>

function
  merge_values :: "toml \<Rightarrow> toml \<Rightarrow> string list \<Rightarrow> toml res" and
  merge_tables :: "table \<Rightarrow> table \<Rightarrow> string list \<Rightarrow> table res" and
  merge_named_arrays :: "toml list \<Rightarrow> toml list \<Rightarrow> string list \<Rightarrow> toml list res" and
  merge_items :: "toml list \<Rightarrow> string list \<Rightarrow> string set \<Rightarrow> toml list \<Rightarrow> string list \<Rightarrow> toml list res"
where
  "merge_values base child path =
     (case (base, child) of
        (TTable base, TTable child) \<Rightarrow> map_ok TTable (merge_tables base child path)
      | (TArray base, TArray items) \<Rightarrow>
          if is_named_array_path path then map_ok TArray (merge_named_arrays base items path) else Inr child
      | _ \<Rightarrow> Inr child)"
| "merge_tables base [] path = Inr base"
| "merge_tables base ((key, child_value) # rest) path =
     (if is_service_env_table_path path \<or> is_atomic_host_socket_exposure_map path
      then merge_tables (bt_insert key child_value base) rest path
      else case bt_get base key of
        Some base_value \<Rightarrow>
          (case merge_values base_value child_value (path @ [key]) of
             Inl e \<Rightarrow> Inl e
           | Inr v \<Rightarrow> merge_tables (bt_insert key v (table_remove key base)) rest path)
      | None \<Rightarrow> merge_tables (bt_insert key child_value base) rest path)"
| "merge_named_arrays base child path =
     (case collect_ok (\<lambda>item. named_array_key item path) base of
        Inl e \<Rightarrow> Inl e
      | Inr keys \<Rightarrow>
          if length (remdups keys) \<noteq> length keys
          then Inl (Bail ''{} contains duplicate inherited names'' [join ''.'' path])
          else merge_items base keys {} child path)"
| "merge_items base keys child_keys [] path = Inr base"
| "merge_items base keys child_keys (child_item # rest) path =
     (case named_array_key child_item path of
        Inl e \<Rightarrow> Inl e
      | Inr child_key \<Rightarrow>
          if child_key \<in> child_keys
          then Inl (Bail ''{} contains duplicate extending names'' [join ''.'' path])
          else case position (\<lambda>key. key = child_key) keys of
            Some index \<Rightarrow>
              (case merge_values (base ! index) child_item path of
                 Inl e \<Rightarrow> Inl e
               | Inr v \<Rightarrow> merge_items (base[index := v]) (keys[index := child_key])
                   (insert child_key child_keys) rest path)
          | None \<Rightarrow> merge_items (base @ [child_item]) (keys @ [child_key])
              (insert child_key child_keys) rest path)"
  by pat_completeness auto

termination merge_values
proof (relation "measure (\<lambda>x. case x of
     Inl (Inl (base, child, path)) \<Rightarrow> 3 * size child
   | Inl (Inr (base, child, path)) \<Rightarrow> 3 * size_list (size_prod (\<lambda>_. 0) size) child + 1
   | Inr (Inl (base, child, path)) \<Rightarrow> 3 * size_list size child + 2
   | Inr (Inr (base, keys, child_keys, child, path)) \<Rightarrow> 3 * size_list size child + 1)", goal_cases)
qed auto

declare merge_values.simps [simp del] merge_named_arrays.simps [simp del]

section \<open>Including documents\<close>

definition DEFINITION_KINDS :: "string list" where
  "DEFINITION_KINDS = [''target_templates'', ''launch_templates'', ''targets'', ''launches'']"

definition ROOT_ONLY :: "string list" where
  "ROOT_ONLY = [''schema_version'', ''default_target'', ''runtime'', ''logging'', ''http'', ''ssh_dispatch'',
     ''client_config'', ''target_defaults'', ''launch_defaults'', ''extends'']"

definition singular_definition_kind :: "string \<Rightarrow> string" where
  "singular_definition_kind key =
     (if key = ''target_templates'' then ''target template''
      else if key = ''launch_templates'' then ''launch template''
      else if key = ''targets'' then ''target''
      else if key = ''launches'' then ''launch'' else ''definition'')"

definition ensure_table :: "table \<Rightarrow> string \<Rightarrow> string \<Rightarrow> table res" where
  "ensure_table root key path =
     (case bt_get root key of
        None \<Rightarrow> Inr []
      | Some v \<Rightarrow> ok_or (Bail ''include {} cannot merge into non-table root field {}'' [path, key])
          (as_table v))"

fun insert_new :: "string \<Rightarrow> string \<Rightarrow> table \<Rightarrow> table \<Rightarrow> table res" where
  "insert_new key path root_definitions [] = Inr root_definitions"
| "insert_new key path root_definitions ((name, definition) # rest) =
     (if bt_contains root_definitions name
      then Inl (Bail ''duplicate {} {} from include {}'' [singular_definition_kind key, name, path])
      else insert_new key path (bt_insert name definition root_definitions) rest)"

fun insert_kinds :: "table \<Rightarrow> string \<Rightarrow> string list \<Rightarrow> table \<Rightarrow> table res" where
  "insert_kinds include_table path [] root = Inr root"
| "insert_kinds include_table path (key # keys) root =
     (case Option.bind (bt_get include_table key) as_table of
        None \<Rightarrow> insert_kinds include_table path keys root
      | Some definitions \<Rightarrow>
          and_then (ensure_table root key path) (\<lambda>root_definitions.
          and_then (insert_new key path root_definitions definitions) (\<lambda>root_definitions.
            insert_kinds include_table path keys (bt_insert key (TTable root_definitions) root))))"

definition insert_definitions :: "table \<Rightarrow> toml \<Rightarrow> string \<Rightarrow> table res" where
  "insert_definitions root include path =
     (case as_table include of
        None \<Rightarrow> Inr root
      | Some include_table \<Rightarrow> insert_kinds include_table path DEFINITION_KINDS root)"

definition strip_include_loader_fields :: "toml \<Rightarrow> toml" where
  "strip_include_loader_fields v =
     (case as_table v of None \<Rightarrow> v | Some t \<Rightarrow> TTable (table_remove ''includes'' t))"

text \<open>The include patterns of a table.\<close>

definition table_includes :: "table \<Rightarrow> string \<Rightarrow> string list res" where
  "table_includes t path =
     (case bt_get t ''includes'' of
        None \<Rightarrow> Inr []
      | Some v \<Rightarrow> with_context (''parse includes from '' @ path) (toml_string_list v))"

definition include_patterns :: "toml \<Rightarrow> string \<Rightarrow> string list res" where
  "include_patterns v path = (case as_table v of None \<Rightarrow> Inr [] | Some t \<Rightarrow> table_includes t path)"

definition reject_unknown_include_fields :: "toml \<Rightarrow> string \<Rightarrow> unit res" where
  "reject_unknown_include_fields v path =
     (case as_table v of
        None \<Rightarrow> Inr ()
      | Some t \<Rightarrow> seq_checks
          [each (\<lambda>key. bail_if (key \<notin> set (''includes'' # DEFINITION_KINDS))
             (Bail ''include {} contains unknown field {}'' [path, key])) (bt_keys t),
           each (\<lambda>key. given (\<lambda>v. bail_if (as_table v = None)
             (Bail ''include {} field {} must be a TOML table'' [path, key])) (bt_get t key))
             DEFINITION_KINDS])"

definition reject_root_only_include_sections :: "toml \<Rightarrow> string \<Rightarrow> unit res" where
  "reject_root_only_include_sections v path =
     (case as_table v of
        None \<Rightarrow> Inr ()
      | Some t \<Rightarrow> each (\<lambda>key. bail_if (bt_contains t key)
          (Bail ''include {} defines root-only config section or field {}'' [path, key])) ROOT_ONLY)"

fun expand_patterns :: "loader_fs \<Rightarrow> string \<Rightarrow> string list \<Rightarrow> string list \<Rightarrow> string list res" where
  "expand_patterns fs base_dir [] paths = Inr paths"
| "expand_patterns fs base_dir (pat # pats) paths =
     and_then (with_context (''expand glob '' @ pat) (fs_glob fs (path_join base_dir pat))) (\<lambda>entries.
     and_then (collect_ok (with_context (''read glob entry for '' @ pat)) entries) (\<lambda>found.
       if found = []
       then Inl (Bail ''include pattern {} matched no files under {}'' [pat, base_dir])
       else expand_patterns fs base_dir pats (paths @ found)))"

definition expand_include_patterns :: "loader_fs \<Rightarrow> string list \<Rightarrow> string \<Rightarrow> string list res" where
  "expand_include_patterns fs pats base_dir =
     map_ok (sort_key path_components) (expand_patterns fs base_dir pats [])"

definition canonical_existing_path :: "loader_fs \<Rightarrow> string \<Rightarrow> string res" where
  "canonical_existing_path fs path = with_context (''canonicalize '' @ path) (fs_canonicalize fs path)"

definition read_document :: "loader_fs \<Rightarrow> string \<Rightarrow> toml res" where
  "read_document fs path =
     and_then (with_context (''read '' @ path) (fs_read_to_string fs path)) (\<lambda>raw.
       with_context (''parse '' @ path) (fs_parse fs raw))"

text \<open>What is read of one included document before its own includes.\<close>

definition read_include :: "loader_fs \<Rightarrow> string \<Rightarrow> (toml \<times> string list) res" where
  "read_include fs path =
     and_then (read_document fs path) (\<lambda>v.
     and_then (reject_root_only_include_sections v path) (\<lambda>_.
     and_then (reject_unknown_include_fields v path) (\<lambda>_.
     and_then (include_patterns v path) (\<lambda>includes. Inr (v, includes)))))"

text \<open>\<open>compose\<close> threads the root table and the documents seen; the stack is restored on the way back.\<close>

function
  compose :: "loader_fs \<Rightarrow> nat \<Rightarrow> table \<times> string set \<Rightarrow> string set \<Rightarrow> string list \<Rightarrow> string \<Rightarrow>
    (table \<times> string set) res option" and
  compose_paths :: "loader_fs \<Rightarrow> nat \<Rightarrow> table \<times> string set \<Rightarrow> string set \<Rightarrow> string list \<Rightarrow> string \<Rightarrow>
    (table \<times> string set) res option"
where
  "compose fs 0 st stack pats base_dir = None"
| "compose fs (Suc fuel) st stack pats base_dir =
     (case expand_include_patterns fs pats base_dir of
        Inl e \<Rightarrow> Some (Inl e)
      | Inr paths \<Rightarrow> compose_paths fs fuel st stack paths base_dir)"
| "compose_paths fs fuel st stack [] base_dir = Some (Inr st)"
| "compose_paths fs fuel st stack (path # paths) base_dir =
     (case canonical_existing_path fs path of
        Inl e \<Rightarrow> Some (Inl e)
      | Inr canonical \<Rightarrow>
          if canonical \<in> stack then Some (Inl (Bail ''includes cycle detected at {}'' [path]))
          else if canonical \<in> snd st then compose_paths fs fuel st stack paths base_dir
          else case read_include fs path of
            Inl e \<Rightarrow> Some (Inl e)
          | Inr (v, includes) \<Rightarrow>
              (case compose fs fuel (fst st, insert canonical (snd st)) (insert canonical stack) includes
                   (case path_parent path of None \<Rightarrow> base_dir | Some dir \<Rightarrow> dir) of
                 None \<Rightarrow> None
               | Some (Inl e) \<Rightarrow> Some (Inl e)
               | Some (Inr st') \<Rightarrow>
                   (case insert_definitions (fst st') (strip_include_loader_fields v) path of
                      Inl e \<Rightarrow> Some (Inl e)
                    | Inr root \<Rightarrow> compose_paths fs fuel (root, snd st') stack paths base_dir)))"
  by pat_completeness auto

termination compose
  by (relation "measures [\<lambda>x. case x of Inl (fs, fuel, st, stack, pats, dir) \<Rightarrow> fuel
      | Inr (fs, fuel, st, stack, paths, dir) \<Rightarrow> fuel, \<lambda>x. case x of Inl _ \<Rightarrow> 0
      | Inr (fs, fuel, st, stack, paths, dir) \<Rightarrow> length paths]") auto

definition compose_gateway_includes_value ::
  "loader_fs \<Rightarrow> nat \<Rightarrow> toml \<Rightarrow> string \<Rightarrow> toml res option" where
  "compose_gateway_includes_value fs fuel v root_path =
     (case as_table v of
        None \<Rightarrow> Some (Inl (Bail ''gateway config {} must be a TOML table'' [root_path]))
      | Some root \<Rightarrow>
          (case table_includes root root_path of
             Inl e \<Rightarrow> Some (Inl e)
           | Inr includes \<Rightarrow>
               (case canonical_existing_path fs root_path of
                  Inl e \<Rightarrow> Some (Inl e)
                | Inr canonical \<Rightarrow>
                    map_option (map_ok (\<lambda>st. TTable (fst st)))
                      (compose fs fuel (root, {}) {canonical} includes
                         (case path_parent root_path of None \<Rightarrow> ''.'' | Some dir \<Rightarrow> dir)))))"

section \<open>Loading\<close>

definition MAX_EXTENDS_DEPTH :: nat where
  "MAX_EXTENDS_DEPTH = 64"

definition root_extends :: "toml \<Rightarrow> string \<Rightarrow> string option res" where
  "root_extends v path =
     (case as_table v of
        None \<Rightarrow> Inl (Bail ''gateway config {} must be a TOML table'' [path])
      | Some t \<Rightarrow>
          (case bt_get t ''extends'' of
             None \<Rightarrow> Inr None
           | Some (TString extends) \<Rightarrow>
               if list_ex (\<lambda>c. c \<in> {CHR ''*'', CHR ''?'', CHR ''[''}) extends
               then Inl (Bail ''gateway config {} extends must be a single path; globs are not supported'' [path])
               else Inr (Some extends)
           | Some _ \<Rightarrow> Inl (Bail ''gateway config {} extends must be a string'' [path])))"

definition resolve_extends_path :: "string \<Rightarrow> string \<Rightarrow> string" where
  "resolve_extends_path path extends =
     (if path_is_absolute extends then extends
      else path_join (case path_parent path of None \<Rightarrow> ''.'' | Some dir \<Rightarrow> dir) extends)"

definition strip_loader_fields :: "toml \<Rightarrow> toml" where
  "strip_loader_fields v =
     (case as_table v of
        None \<Rightarrow> v | Some t \<Rightarrow> TTable (table_remove ''includes'' (table_remove ''extends'' t)))"

text \<open>One document of the chain: its values with its includes, and what it extends.\<close>

definition load_layer :: "loader_fs \<Rightarrow> nat \<Rightarrow> string \<Rightarrow> (toml \<times> string option) res option" where
  "load_layer fs fuel path =
     (case read_document fs path of
        Inl e \<Rightarrow> Some (Inl e)
      | Inr v \<Rightarrow>
          (case root_extends v path of
             Inl e \<Rightarrow> Some (Inl e)
           | Inr extends \<Rightarrow>
               map_option (map_ok (\<lambda>v. (strip_loader_fields v, extends)))
                 (compose_gateway_includes_value fs fuel v path)))"

function load_gateway_root_inner :: "loader_fs \<Rightarrow> nat \<Rightarrow> string \<Rightarrow> string list \<Rightarrow> toml res option" where
  "load_gateway_root_inner fs fuel path stack =
     (if MAX_EXTENDS_DEPTH \<le> length stack
      then Some (Inl (Bail ''extends chain exceeds maximum depth of 64 at {}'' [path]))
      else case canonical_existing_path fs path of
        Inl e \<Rightarrow> Some (Inl e)
      | Inr canonical \<Rightarrow>
          if canonical \<in> set stack then Some (Inl (Bail ''extends cycle detected at {}'' [path]))
          else case load_layer fs fuel path of
            None \<Rightarrow> None
          | Some (Inl e) \<Rightarrow> Some (Inl e)
          | Some (Inr (v, None)) \<Rightarrow> Some (Inr v)
          | Some (Inr (v, Some extends)) \<Rightarrow>
              (let base_path = resolve_extends_path path extends in
               map_option (\<lambda>r. and_then (with_context
                   (''load base config '' @ base_path @ '' extended by '' @ path) r)
                   (\<lambda>base. merge_values base v []))
                 (load_gateway_root_inner fs fuel base_path (canonical # stack))))"
  by pat_completeness auto

termination load_gateway_root_inner
  by (relation "measure (\<lambda>(fs, fuel, path, stack). MAX_EXTENDS_DEPTH - length stack)") auto

declare load_gateway_root_inner.simps [simp del]

definition load_gateway_root :: "loader_fs \<Rightarrow> nat \<Rightarrow> string \<Rightarrow> toml res option" where
  "load_gateway_root fs fuel path = load_gateway_root_inner fs fuel path []"

section \<open>Lemmas on merging\<close>

lemma get_insert: "bt_get (bt_insert k v m) k' = (if k' = k then Some v else bt_get m k')"
proof (induction m)
  case (Cons e m)
  then show ?case by (cases e) (auto simp: bt_get_def)
qed (simp add: bt_get_def)

lemma get_table_remove: "bt_get (table_remove k t) k' = (if k' = k then None else bt_get t k')"
  by (induction t) (auto simp: table_remove_def bt_get_def)

text \<open>The value at a path of keys.\<close>

fun toml_at :: "toml \<Rightarrow> string list \<Rightarrow> toml option" where
  "toml_at v [] = Some v"
| "toml_at v (k # ks) =
     (case as_table v of None \<Rightarrow> None | Some t \<Rightarrow> Option.bind (bt_get t k) (\<lambda>w. toml_at w ks))"

fun is_leaf :: "toml \<Rightarrow> bool" where
  "is_leaf (TString s) = True" | "is_leaf (TScalar s) = True" | "is_leaf _ = False"

text \<open>A document that has tables along a path, but not its last key.\<close>

fun silent_on :: "toml \<Rightarrow> string list \<Rightarrow> bool" where
  "silent_on v [] \<longleftrightarrow> False"
| "silent_on v (k # ks) \<longleftrightarrow> (case as_table v of None \<Rightarrow> False
     | Some t \<Rightarrow> (case bt_get t k of None \<Rightarrow> True | Some w \<Rightarrow> silent_on w ks))"

text \<open>Every table of a document has each key once.\<close>

function wf_toml :: "toml \<Rightarrow> bool" where
  "wf_toml (TString s) \<longleftrightarrow> True"
| "wf_toml (TScalar s) \<longleftrightarrow> True"
| "wf_toml (TArray vs) \<longleftrightarrow> (\<forall>v \<in> set vs. wf_toml v)"
| "wf_toml (TTable t) \<longleftrightarrow> distinct (map fst t) \<and> (\<forall>v \<in> snd ` set t. wf_toml v)"
  by pat_completeness auto

termination wf_toml
proof (relation "measure size", goal_cases)
  case (2 vs v)
  then show ?case using size_list_estimation' [of v vs "size v" size] by auto
next
  case (3 t v)
  then obtain k where "(k, v) \<in> set t" by auto
  then have "size_prod (\<lambda>_. 0) size (k, v) \<le> size_list (size_prod (\<lambda>_. 0) size) t"
    by (rule size_list_estimation') simp
  then show ?case by simp
qed simp

definition replaces_entries :: "string list \<Rightarrow> bool" where
  "replaces_entries path \<longleftrightarrow> is_service_env_table_path path \<or> is_atomic_host_socket_exposure_map path"

lemma as_table_Some: "as_table v = Some t \<longleftrightarrow> v = TTable t"
  by (cases v) auto

lemma merge_tables_other:
  "merge_tables base child path = Inr out \<Longrightarrow> k \<notin> fst ` set child \<Longrightarrow> bt_get out k = bt_get base k"
proof (induction child arbitrary: base)
  case (Cons e child)
  obtain key v where e: "e = (key, v)" by force
  with Cons show ?case
    by (auto simp: get_insert get_table_remove split: if_splits option.splits sum.splits)
qed simp

lemma merge_tables_get:
  assumes "merge_tables base child path = Inr out" and "distinct (map fst child)" "bt_get child k = Some cv"
  shows "\<exists>v. bt_get out k = Some v
    \<and> (v = cv \<or> (\<exists>bv. bt_get base k = Some bv \<and> merge_values bv cv (path @ [k]) = Inr v))
    \<and> (\<forall>bv. bt_get base k = Some bv \<longrightarrow> replaces_entries path \<or> merge_values bv cv (path @ [k]) = Inr v)"
  using assms
proof (induction child arbitrary: base)
  case Nil
  then show ?case by (simp add: bt_get_def)
next
  case (Cons e child)
  obtain key u where e: "e = (key, u)" by force
  show ?case
  proof (cases "key = k")
    case True
    with Cons.prems e have u: "u = cv" and new: "k \<notin> fst ` set child" by (auto simp: bt_get_def)
    show ?thesis
    proof (cases "replaces_entries path")
      case rep: True
      with Cons.prems(1) e True have "merge_tables (bt_insert k cv base) child path = Inr out"
        by (simp add: replaces_entries_def u)
      from merge_tables_other [OF this new] rep show ?thesis by (simp add: get_insert)
    next
      case rep: False
      show ?thesis
      proof (cases "bt_get base k")
        case None
        with Cons.prems(1) e True rep have "merge_tables (bt_insert k cv base) child path = Inr out"
          by (simp add: replaces_entries_def u)
        from merge_tables_other [OF this new] None show ?thesis by (simp add: get_insert)
      next
        case (Some bv)
        with Cons.prems(1) e True rep obtain v where v: "merge_values bv cv (path @ [k]) = Inr v"
          "merge_tables (bt_insert k v (table_remove k base)) child path = Inr out"
          by (auto simp: replaces_entries_def u split: sum.splits)
        from merge_tables_other [OF v(2) new] v(1) Some show ?thesis by (simp add: get_insert)
      qed
    qed
  next
    case False
    with Cons.prems e have child: "distinct (map fst child)" "bt_get child k = Some cv"
      by (auto simp: bt_get_def)
    obtain base' where base': "merge_tables base' child path = Inr out" "bt_get base' k = bt_get base k"
      using Cons.prems(1) e False
      by (auto simp: get_insert get_table_remove split: if_splits option.splits sum.splits)
    from Cons.IH [OF base'(1) child] base'(2) show ?thesis by simp
  qed
qed

lemma wf_table_get: "wf_toml (TTable t) \<Longrightarrow> bt_get t k = Some v \<Longrightarrow> wf_toml v"
  by (force simp: bt_get_def dest: map_of_SomeD)

lemma merge_values_table:
  assumes "merge_values base (TTable c) path = Inr out"
  shows "out = TTable c \<and> as_table base = None
    \<or> (\<exists>b t. base = TTable b \<and> out = TTable t \<and> merge_tables b c path = Inr t)"
  using assms by (cases base) (auto simp: merge_values.simps map_ok_Inr)

lemma merged_leaf:
  "merge_values base child path = Inr out \<Longrightarrow> wf_toml child \<Longrightarrow> toml_at child p = Some v \<Longrightarrow> is_leaf v \<Longrightarrow>
    toml_at out p = Some v"
proof (induction p arbitrary: base child path out)
  case Nil
  then show ?case by (cases v; cases base) (simp_all add: merge_values.simps)
next
  case (Cons k ks)
  then obtain c cv where c: "child = TTable c" "bt_get c k = Some cv" "toml_at cv ks = Some v"
    by (auto simp: as_table_Some Option.bind_eq_Some_conv split: option.splits)
  from merge_values_table [OF Cons.prems(1) [unfolded c(1)]] show ?case
  proof (elim disjE conjE exE)
    assume "out = TTable c"
    with Cons.prems(3) c(1) show ?thesis by simp
  next
    fix b t
    assume "out = TTable t" and merged: "merge_tables b c path = Inr t"
    have "distinct (map fst c)" using Cons.prems(2) c(1) by simp
    from merge_tables_get [OF merged this c(2)] obtain w where w: "bt_get t k = Some w"
      "w = cv \<or> (\<exists>bv. merge_values bv cv (path @ [k]) = Inr w)" by blast
    have "wf_toml cv" using Cons.prems(2) c by (blast intro: wf_table_get)
    with w(2) c(3) Cons.IH Cons.prems(4) have "toml_at w ks = Some v" by blast
    with w(1) \<open>out = TTable t\<close> show ?thesis by simp
  qed
qed

lemma merged_silent:
  "merge_values base child path = Inr out \<Longrightarrow> wf_toml child \<Longrightarrow> toml_at base p = Some v \<Longrightarrow> silent_on child p \<Longrightarrow>
    (\<And>q r. p = q @ r \<Longrightarrow> r \<noteq> [] \<Longrightarrow> \<not> replaces_entries (path @ q)) \<Longrightarrow> toml_at out p = Some v"
proof (induction p arbitrary: base child path out)
  case (Cons k ks)
  then obtain b bv where b: "base = TTable b" "bt_get b k = Some bv" "toml_at bv ks = Some v"
    by (auto simp: as_table_Some Option.bind_eq_Some_conv split: option.splits)
  from Cons.prems(4) obtain c where c: "child = TTable c"
    and sil: "\<And>cv. bt_get c k = Some cv \<Longrightarrow> silent_on cv ks"
    by (auto simp: as_table_Some split: option.splits)
  from Cons.prems(1) b(1) c obtain t where t: "out = TTable t" "merge_tables b c path = Inr t"
    by (auto simp: merge_values.simps map_ok_Inr)
  show ?case
  proof (cases "bt_get c k")
    case None
    then have "k \<notin> fst ` set c" by (simp add: bt_get_def map_of_eq_None_iff)
    from merge_tables_other [OF t(2) this] b t(1) show ?thesis by simp
  next
    case (Some cv)
    have "distinct (map fst c)" "wf_toml cv" using Cons.prems(2) c Some by (auto intro: wf_table_get)
    moreover have "\<not> replaces_entries path" using Cons.prems(5) [of "[]" "k # ks"] by simp
    ultimately obtain w where w: "bt_get t k = Some w" "merge_values bv cv (path @ [k]) = Inr w"
      using merge_tables_get [OF t(2) _ Some] b(2) by blast
    have "toml_at w ks = Some v"
      by (rule Cons.IH [OF w(2) \<open>wf_toml cv\<close> b(3) sil [OF Some]])
        (use Cons.prems(5) [of "k # q" r for q r] in auto)
    with w(1) t(1) show ?thesis by simp
  qed
qed simp

section \<open>Lemmas on includes\<close>

text \<open>A bound on the documents there are bounds the depth of includes.\<close>

definition canonical_within :: "loader_fs \<Rightarrow> string set \<Rightarrow> bool" where
  "canonical_within fs docs \<longleftrightarrow> finite docs \<and> (\<forall>p c. fs_canonicalize fs p = Inr c \<longrightarrow> c \<in> docs)"

lemma canonical_within_D:
  "canonical_within fs docs \<Longrightarrow> canonical_existing_path fs p = Inr c \<Longrightarrow> c \<in> docs"
  by (auto simp: canonical_within_def canonical_existing_path_def with_context_Inr)

lemma card_left_insert: "finite docs \<Longrightarrow> c \<in> docs \<Longrightarrow> c \<notin> stack \<Longrightarrow> card (docs - insert c stack) < card (docs - stack)"
  by (rule psubset_card_mono) auto

lemma compose_enough_fuel:
  "canonical_within fs docs \<Longrightarrow> card (docs - stack) < fuel \<Longrightarrow> compose fs fuel st stack pats dir \<noteq> None"
  "canonical_within fs docs \<Longrightarrow> card (docs - stack) \<le> fuel \<Longrightarrow> compose_paths fs fuel st stack paths dir \<noteq> None"
proof (induction fs fuel st stack pats dir and fs fuel st stack paths dir rule: compose_compose_paths.induct)
  case (4 fs fuel st stack path paths dir)
  show ?case
  proof (cases "canonical_existing_path fs path")
    case (Inr c)
    consider "c \<in> stack" | "c \<notin> stack" "c \<in> snd st" | "c \<notin> stack" "c \<notin> snd st" by blast
    then show ?thesis
    proof cases
      case 3
      let ?dir = "case path_parent path of None \<Rightarrow> dir | Some d \<Rightarrow> d"
      have "card (docs - insert c stack) < card (docs - stack)"
        using "4.prems"(1) canonical_within_D [OF "4.prems"(1) Inr] 3(1)
        by (intro card_left_insert) (simp_all add: canonical_within_def)
      then have less: "card (docs - insert c stack) < fuel" using "4.prems" by simp
      show ?thesis
      proof (cases "read_include fs path")
        case read: (Inr r)
        obtain v incs where r: "r = (v, incs)" by force
        let ?r = "compose fs fuel (fst st, insert c (snd st)) (insert c stack) incs ?dir"
        have "?r \<noteq> None" using "4.IH"(2) [OF Inr 3 read [unfolded r] refl "4.prems"(1) less] .
        then obtain res where res: "?r = Some res" by blast
        show ?thesis
        proof (cases res)
          case mid: (Inr mid)
          show ?thesis
          proof (cases "insert_definitions (fst mid) (strip_include_loader_fields v) path")
            case root: (Inr root)
            have "compose_paths fs fuel (root, snd mid) stack paths dir \<noteq> None"
              using "4.IH"(3) [OF Inr 3 read [unfolded r] refl res mid root "4.prems"] .
            with Inr 3 read r res mid root show ?thesis by simp
          qed (use Inr 3 read r res mid in simp)
        qed (use Inr 3 read r res in simp)
      qed (use Inr 3 in simp)
    qed (use "4.IH"(1) [OF Inr] "4.prems" Inr in simp_all)
  qed simp
qed (auto split: sum.splits)

text \<open>Composition only adds: what the root has stays, and only definitions are added.\<close>

definition grows :: "string \<Rightarrow> toml \<Rightarrow> toml \<Rightarrow> bool" where
  "grows k v v' \<longleftrightarrow> v' = v \<or> (k \<in> set DEFINITION_KINDS
     \<and> (\<exists>d d'. v = TTable d \<and> v' = TTable d' \<and> bt_get d \<subseteq>\<^sub>m bt_get d'))"

definition only_adds :: "table \<Rightarrow> table \<Rightarrow> bool" where
  "only_adds root root' \<longleftrightarrow>
     (\<forall>k v. bt_get root k = Some v \<longrightarrow> (\<exists>v'. bt_get root' k = Some v' \<and> grows k v v'))
     \<and> (\<forall>k. bt_get root k = None \<longrightarrow> k \<in> set DEFINITION_KINDS \<or> bt_get root' k = None)"

lemma grows_trans: "grows k a b \<Longrightarrow> grows k b c \<Longrightarrow> grows k a c"
  unfolding grows_def by (auto intro: map_le_trans)

lemma only_adds_refl: "only_adds root root"
  by (simp add: only_adds_def grows_def)

lemma only_adds_trans: "only_adds a b \<Longrightarrow> only_adds b c \<Longrightarrow> only_adds a c"
proof -
  assume ab: "only_adds a b" and bc: "only_adds b c"
  have "\<exists>v'. bt_get c k = Some v' \<and> grows k v v'" if "bt_get a k = Some v" for k v
  proof -
    from ab that obtain w where w: "bt_get b k = Some w" "grows k v w" unfolding only_adds_def by blast
    with bc obtain x where "bt_get c k = Some x" "grows k w x" unfolding only_adds_def by blast
    with w(2) grows_trans show ?thesis by blast
  qed
  moreover have "k \<in> set DEFINITION_KINDS \<or> bt_get c k = None" if "bt_get a k = None" for k
  proof (cases "bt_get b k")
    case None
    with bc show ?thesis by (simp only: only_adds_def)
  next
    case (Some v)
    with ab that show ?thesis by (simp only: only_adds_def) (metis option.distinct(1))
  qed
  ultimately show "only_adds a c" unfolding only_adds_def by blast
qed

lemma insert_new_grows: "insert_new key path d ds = Inr d' \<Longrightarrow> bt_get d \<subseteq>\<^sub>m bt_get d'"
proof (induction key path d ds rule: insert_new.induct)
  case (2 key path d name x rest)
  then have "\<not> bt_contains d name" "bt_get (bt_insert name x d) \<subseteq>\<^sub>m bt_get d'"
    by (auto split: if_splits)
  moreover from this(1) have "bt_get d \<subseteq>\<^sub>m bt_get (bt_insert name x d)"
    by (auto simp: map_le_def get_insert bt_contains_get)
  ultimately show ?case by (blast intro: map_le_trans)
qed simp

lemma insert_kinds_only_adds:
  "insert_kinds t path keys root = Inr root' \<Longrightarrow> set keys \<subseteq> set DEFINITION_KINDS \<Longrightarrow> only_adds root root'"
proof (induction t path keys root rule: insert_kinds.induct)
  case (2 t path key keys root)
  show ?case
  proof (cases "Option.bind (bt_get t key) as_table")
    case None
    with "2.IH"(1) "2.prems" show ?thesis by simp
  next
    case (Some ds)
    with "2.prems"(1) obtain d d' where d: "ensure_table root key path = Inr d"
      "insert_new key path d ds = Inr d'" and rest: "insert_kinds t path keys (bt_insert key (TTable d') root) = Inr root'"
      by (auto simp: and_then_Inr)
    have "bt_get d \<subseteq>\<^sub>m bt_get d'" using d(2) by (rule insert_new_grows)
    moreover have "v = TTable d" if "bt_get root key = Some v" for v
      using d(1) that by (auto simp: ensure_table_def ok_or_Inr as_table_Some)
    ultimately have "only_adds root (bt_insert key (TTable d') root)"
      using "2.prems"(2) by (auto simp: only_adds_def get_insert grows_def)
    with "2.IH"(2) [OF Some d rest] "2.prems"(2) show ?thesis by (auto intro: only_adds_trans)
  qed
qed (simp add: only_adds_refl)

lemma insert_definitions_only_adds: "insert_definitions root v path = Inr root' \<Longrightarrow> only_adds root root'"
  by (auto simp: insert_definitions_def only_adds_refl split: option.splits intro: insert_kinds_only_adds)

lemma compose_only_adds:
  "compose fs fuel st stack pats dir = Some (Inr st') \<Longrightarrow> only_adds (fst st) (fst st')"
  "compose_paths fs fuel st stack paths dir = Some (Inr st') \<Longrightarrow> only_adds (fst st) (fst st')"
proof (induction fs fuel st stack pats dir and fs fuel st stack paths dir
    arbitrary: st' and st' rule: compose_compose_paths.induct)
  case (4 fs fuel st stack path paths dir)
  from "4.prems" obtain c where c: "canonical_existing_path fs path = Inr c" "c \<notin> stack"
    by (auto split: sum.splits if_splits)
  show ?case
  proof (cases "c \<in> snd st")
    case True
    with "4.prems" c "4.IH"(1) [OF c] show ?thesis by simp
  next
    case False
    with "4.prems" c obtain v incs where v: "read_include fs path = Inr (v, incs)"
      by (cases "read_include fs path") auto
    let ?dir = "case path_parent path of None \<Rightarrow> dir | Some d \<Rightarrow> d"
    let ?r = "compose fs fuel (fst st, insert c (snd st)) (insert c stack) incs ?dir"
    from "4.prems" c False v obtain mid root where mid: "?r = Some (Inr mid)"
      and root: "insert_definitions (fst mid) (strip_include_loader_fields v) path = Inr root"
      and rest: "compose_paths fs fuel (root, snd mid) stack paths dir = Some (Inr st')"
      by (auto split: option.splits sum.splits)
    have "only_adds (fst st) (fst mid)" using "4.IH"(2) [OF c False v refl mid] by simp
    moreover have "only_adds (fst mid) root" using root by (rule insert_definitions_only_adds)
    moreover have "only_adds root (fst st')" using "4.IH"(3) [OF c False v refl mid refl root rest] by simp
    ultimately show ?thesis by (blast intro: only_adds_trans)
  qed
qed (auto simp: only_adds_refl split: sum.splits)

section \<open>The chain of extended documents\<close>

text \<open>\<open>extends_chain fs fuel path cs vs\<close>: from \<open>path\<close> on, the documents with the canonical paths \<open>cs\<close>
  extend one another and have the values \<open>vs\<close>; the last one extends nothing.\<close>

inductive extends_chain :: "loader_fs \<Rightarrow> nat \<Rightarrow> string \<Rightarrow> string list \<Rightarrow> toml list \<Rightarrow> bool" for fs fuel where
  last: "extends_chain fs fuel path [c] [v]"
    if "canonical_existing_path fs path = Inr c" and "load_layer fs fuel path = Some (Inr (v, None))"
| extends: "extends_chain fs fuel path (c # cs) (v # vs)"
    if "canonical_existing_path fs path = Inr c" and "load_layer fs fuel path = Some (Inr (v, Some e))"
      and "extends_chain fs fuel (resolve_extends_path path e) cs vs"

inductive_cases extends_chainE: "extends_chain fs fuel path cs vs"

text \<open>Each document is merged into what it extends.\<close>

fun merge_chain :: "toml list \<Rightarrow> toml res" where
  "merge_chain [] = Inl (Bail '''' [])"
| "merge_chain [v] = Inr v"
| "merge_chain (v # vs) = and_then (merge_chain vs) (\<lambda>base. merge_values base v [])"

lemma chain_not_Nil: "extends_chain fs fuel path cs vs \<Longrightarrow> vs \<noteq> []"
  by (erule extends_chainE) auto

lemma load_inner_sound:
  "load_gateway_root_inner fs fuel path stack = Some (Inr out) \<Longrightarrow> length stack \<le> 64 \<Longrightarrow>
    \<exists>cs vs. extends_chain fs fuel path cs vs \<and> distinct cs \<and> set cs \<inter> set stack = {}
      \<and> length cs + length stack \<le> 64 \<and> merge_chain vs = Inr out"
proof (induction fs fuel path stack arbitrary: out rule: load_gateway_root_inner.induct)
  case (1 fs fuel path stack)
  from "1.prems"(1) obtain c v ext where c: "length stack < 64" "canonical_existing_path fs path = Inr c"
    "c \<notin> set stack" and layer: "load_layer fs fuel path = Some (Inr (v, ext))"
    by (auto simp: load_gateway_root_inner.simps MAX_EXTENDS_DEPTH_def
        split: if_splits sum.splits option.splits prod.splits)
  show ?case
  proof (cases ext)
    case None
    with "1.prems"(1) c layer have "out = v"
      by (simp add: load_gateway_root_inner.simps MAX_EXTENDS_DEPTH_def)
    with c layer None show ?thesis
      by (intro exI [of _ "[c]"] exI [of _ "[v]"]) (auto intro: extends_chain.last)
  next
    case (Some e)
    from "1.prems"(1) c layer Some obtain base where
      inner: "load_gateway_root_inner fs fuel (resolve_extends_path path e) (c # stack) = Some (Inr base)"
      and merged: "merge_values base v [] = Inr out"
      by (subst (asm) load_gateway_root_inner.simps)
        (auto simp: MAX_EXTENDS_DEPTH_def Let_def and_then_Inr with_context_Inr)
    have depth: "\<not> MAX_EXTENDS_DEPTH \<le> length stack" using c(1) by (simp add: MAX_EXTENDS_DEPTH_def)
    have "length (c # stack) \<le> 64" using c(1) by simp
    from "1.IH" [OF depth c(2,3) layer [unfolded Some] refl refl refl refl inner this]
    obtain cs vs where chain: "extends_chain fs fuel (resolve_extends_path path e) cs vs" "distinct cs"
      "set cs \<inter> set (c # stack) = {}" "length cs + length (c # stack) \<le> 64" "merge_chain vs = Inr base"
      by blast
    have "merge_chain (v # vs) = Inr out"
      using chain(5) merged chain_not_Nil [OF chain(1)] by (cases vs) simp_all
    moreover have "extends_chain fs fuel path (c # cs) (v # vs)"
      using c(2) layer chain(1) unfolding Some by (rule extends_chain.extends)
    ultimately show ?thesis using chain c(3)
      by (intro exI [of _ "c # cs"] exI [of _ "v # vs"]) auto
  qed
qed

lemma load_inner_complete:
  "extends_chain fs fuel path cs vs \<Longrightarrow> distinct cs \<Longrightarrow> set cs \<inter> set stack = {} \<Longrightarrow>
    length cs + length stack \<le> 64 \<Longrightarrow> merge_chain vs = Inr out \<Longrightarrow>
    load_gateway_root_inner fs fuel path stack = Some (Inr out)"
proof (induction arbitrary: stack out rule: extends_chain.induct)
  case (last path c v)
  then show ?case by (simp add: load_gateway_root_inner.simps MAX_EXTENDS_DEPTH_def)
next
  case (extends path c v e cs vs)
  from extends.prems(4) chain_not_Nil [OF extends.hyps(3)] obtain base where
    base: "merge_chain vs = Inr base" "merge_values base v [] = Inr out"
    by (cases vs) (auto simp: and_then_Inr)
  have "load_gateway_root_inner fs fuel (resolve_extends_path path e) (c # stack) = Some (Inr base)"
    using extends.prems(1-3) by (intro extends.IH [OF _ _ _ base(1)]) auto
  with extends.hyps(1,2) extends.prems base(2) show ?case
    by (subst load_gateway_root_inner.simps) (auto simp: MAX_EXTENDS_DEPTH_def Let_def)
qed

lemma load_layer_enough_fuel:
  "canonical_within fs docs \<Longrightarrow> card docs < fuel \<Longrightarrow> load_layer fs fuel path \<noteq> None"
proof -
  assume docs: "canonical_within fs docs" and fuel: "card docs < fuel"
  have "card (docs - stack) < fuel" for stack
    using docs fuel card_mono [of docs "docs - stack"] by (auto simp: canonical_within_def)
  then have "compose fs fuel st stack pats dir \<noteq> None" for st stack pats dir
    using compose_enough_fuel(1) [OF docs] by blast
  then show ?thesis
    by (auto simp: load_layer_def compose_gateway_includes_value_def split: sum.splits option.splits)
qed

lemma load_inner_enough_fuel:
  "canonical_within fs docs \<Longrightarrow> card docs < fuel \<Longrightarrow> load_gateway_root_inner fs fuel path stack \<noteq> None"
proof (induction fs fuel path stack rule: load_gateway_root_inner.induct)
  case (1 fs fuel path stack)
  obtain r where "load_layer fs fuel path = Some r"
    using load_layer_enough_fuel [OF "1.prems"] by blast
  with 1 show ?case
    by (subst load_gateway_root_inner.simps) (auto simp: Let_def split: sum.splits option.splits prod.splits)
qed

section \<open>Properties\<close>

text \<open>C30. Loading a configuration always returns, once the bound on the depth of includes exceeds the number
  of documents; and it succeeds exactly when the document and those it extends are a chain of at most
  64 different files, each of which merges into the one it extends.\<close>

theorem loading_merges_a_finite_chain:
  assumes "canonical_within fs docs" and "card docs < fuel"
  shows "load_gateway_root fs fuel path \<noteq> None
    \<and> (load_gateway_root fs fuel path = Some (Inr out) \<longleftrightarrow>
        (\<exists>cs vs. extends_chain fs fuel path cs vs \<and> distinct cs \<and> length cs \<le> 64
          \<and> merge_chain vs = Inr out))"
proof -
  have "load_gateway_root fs fuel path = Some (Inr out) \<longleftrightarrow>
      (\<exists>cs vs. extends_chain fs fuel path cs vs \<and> distinct cs \<and> length cs \<le> 64 \<and> merge_chain vs = Inr out)"
  proof
    assume "load_gateway_root fs fuel path = Some (Inr out)"
    then show "\<exists>cs vs. extends_chain fs fuel path cs vs \<and> distinct cs \<and> length cs \<le> 64 \<and> merge_chain vs = Inr out"
      using load_inner_sound [of fs fuel path "[]" out] by (auto simp: load_gateway_root_def)
  next
    assume "\<exists>cs vs. extends_chain fs fuel path cs vs \<and> distinct cs \<and> length cs \<le> 64 \<and> merge_chain vs = Inr out"
    then show "load_gateway_root fs fuel path = Some (Inr out)"
      using load_inner_complete [of fs fuel path _ _ "[]" out] by (auto simp: load_gateway_root_def)
  qed
  then show ?thesis using load_inner_enough_fuel [OF assms] by (simp add: load_gateway_root_def)
qed

text \<open>An extending document overrides its base value by value: a string, number, boolean or date that it
  sets is the result's, and what the base sets where the extending document is silent stays, but for
  the tables whose entries are replaced as a whole.\<close>

theorem extending_document_overrides:
  assumes "merge_values base child [] = Inr out" and "wf_toml child"
  shows "(\<forall>p v. toml_at child p = Some v \<longrightarrow> is_leaf v \<longrightarrow> toml_at out p = Some v)
    \<and> (\<forall>p v. toml_at base p = Some v \<longrightarrow> silent_on child p
        \<longrightarrow> (\<forall>q r. p = q @ r \<longrightarrow> r \<noteq> [] \<longrightarrow> \<not> replaces_entries q) \<longrightarrow> toml_at out p = Some v)"
  using merged_leaf [OF assms] merged_silent [OF assms] by simp

text \<open>Includes only add definitions: no section of the root document changes, and every target, launch or
  template the root defines is still the one it defines.\<close>

theorem includes_only_add:
  assumes "compose_gateway_includes_value fs fuel (TTable root) path = Some (Inr out)"
  shows "\<exists>root'. out = TTable root'
    \<and> (\<forall>k. k \<notin> set DEFINITION_KINDS \<longrightarrow> bt_get root' k = bt_get root k)
    \<and> (\<forall>k d. bt_get root k = Some (TTable d) \<longrightarrow>
        (\<exists>d'. bt_get root' k = Some (TTable d') \<and> bt_get d \<subseteq>\<^sub>m bt_get d'))"
proof -
  obtain st where out: "out = TTable (fst st)" and adds: "only_adds root (fst st)"
    using assms by (fastforce simp: compose_gateway_includes_value_def map_ok_Inr
        dest: compose_only_adds(1) split: sum.splits)
  have "bt_get (fst st) k = bt_get root k" if "k \<notin> set DEFINITION_KINDS" for k
    using adds that by (cases "bt_get root k") (auto simp: only_adds_def grows_def)
  moreover have "\<exists>d'. bt_get (fst st) k = Some (TTable d') \<and> bt_get d \<subseteq>\<^sub>m bt_get d'"
    if "bt_get root k = Some (TTable d)" for k d
  proof -
    from adds that obtain v' where "bt_get (fst st) k = Some v'" "grows k (TTable d) v'"
      unfolding only_adds_def by blast
    then show ?thesis by (auto simp: grows_def)
  qed
  ultimately show ?thesis using out by blast
qed

section \<open>A concrete configuration\<close>

definition demo_documents :: "(string \<times> toml) list" where
  "demo_documents =
     [(''a.toml'', TTable [(''default_target'', TString ''x''), (''extends'', TString ''b.toml''),
        (''includes'', TArray [TString ''c.toml'']), (''targets'', TTable [])]),
      (''b.toml'', TTable [(''default_target'', TString ''y''), (''schema_version'', TString ''1'')]),
      (''c.toml'', TTable [(''targets'', TTable [(''x'', TTable [])])])]"

definition demo_loader :: loader_fs where
  "demo_loader =
     \<lparr>fs_canonicalize = (\<lambda>p. if p \<in> fst ` set demo_documents then Inr p else Inl (Bail ''not found'' [])),
      fs_read_to_string = (\<lambda>p. Inr p),
      fs_parse = (\<lambda>raw. ok_or (Bail ''invalid'' []) (map_of demo_documents raw)),
      fs_glob = (\<lambda>pat. Inr [Inr pat])\<rparr>"

definition demo_loaded :: toml where
  "demo_loaded = TTable [(''default_target'', TString ''x''), (''schema_version'', TString ''1''),
     (''targets'', TTable [(''x'', TTable [])])]"

lemma demo_within: "canonical_within demo_loader {''a.toml'', ''b.toml'', ''c.toml''}"
  by (auto simp: canonical_within_def demo_loader_def demo_documents_def split: if_splits)

theorem loading_merges_a_finite_chain_witness:
  "\<exists>cs vs. extends_chain demo_loader 4 ''a.toml'' cs vs \<and> length cs \<le> 64 \<and> merge_chain vs = Inr demo_loaded"
proof -
  have "load_gateway_root demo_loader 4 ''a.toml'' = Some (Inr demo_loaded)" by code_simp
  with loading_merges_a_finite_chain [OF demo_within, of 4 "''a.toml''" demo_loaded] show ?thesis by auto
qed

theorem extending_document_overrides_witness:
  "toml_at demo_loaded [''default_target''] = Some (TString ''x'')
    \<and> toml_at demo_loaded [''schema_version''] = Some (TString ''1'')"
proof -
  let ?base = "TTable [(''default_target'', TString ''y''), (''schema_version'', TString ''1'')]"
  let ?child = "TTable [(''default_target'', TString ''x''), (''targets'', TTable [(''x'', TTable [])])]"
  have "merge_values ?base ?child [] = Inr demo_loaded" by code_simp
  moreover have "wf_toml ?child" by simp
  ultimately have laws: "(\<forall>p v. toml_at ?child p = Some v \<longrightarrow> is_leaf v \<longrightarrow> toml_at demo_loaded p = Some v)
    \<and> (\<forall>p v. toml_at ?base p = Some v \<longrightarrow> silent_on ?child p
        \<longrightarrow> (\<forall>q r. p = q @ r \<longrightarrow> r \<noteq> [] \<longrightarrow> \<not> replaces_entries q) \<longrightarrow> toml_at demo_loaded p = Some v)"
    by (rule extending_document_overrides)
  have at: "toml_at ?child [''default_target''] = Some (TString ''x'')"
    "toml_at ?base [''schema_version''] = Some (TString ''1'')" "silent_on ?child [''schema_version'']"
    by (simp_all add: bt_get_def)
  have "\<not> replaces_entries []" by code_simp
  then have kept: "\<forall>q r. [''schema_version''] = q @ r \<longrightarrow> r \<noteq> [] \<longrightarrow> \<not> replaces_entries q"
    by (auto simp: Cons_eq_append_conv)
  note laws [THEN conjunct1, THEN spec, THEN spec, THEN mp, OF at(1)]
    laws [THEN conjunct2, THEN spec, THEN spec, THEN mp, OF at(2), THEN mp, OF at(3), THEN mp, OF kept]
  then show ?thesis by simp
qed

theorem includes_only_add_witness:
  "\<exists>root'. compose_gateway_includes_value demo_loader 4
      (TTable [(''includes'', TArray [TString ''c.toml'']), (''targets'', TTable [(''y'', TArray [])])]) ''a.toml''
      = Some (Inr (TTable root'))
    \<and> (\<exists>d'. bt_get root' ''targets'' = Some (TTable d') \<and> [''y'' \<mapsto> TArray []] \<subseteq>\<^sub>m bt_get d')"
proof -
  let ?root = "[(''includes'', TArray [TString ''c.toml'']), (''targets'', TTable [(''y'', TArray [])])]"
  let ?out = "TTable [(''includes'', TArray [TString ''c.toml'']),
    (''targets'', TTable [(''x'', TTable []), (''y'', TArray [])])]"
  have run: "compose_gateway_includes_value demo_loader 4 (TTable ?root) ''a.toml'' = Some (Inr ?out)" by code_simp
  have "bt_get [(''y'', TArray [])] = [''y'' \<mapsto> TArray []]" by (auto simp: bt_get_def)
  moreover obtain root' where root': "?out = TTable root'"
    and laws: "\<forall>k d. bt_get ?root k = Some (TTable d) \<longrightarrow>
      (\<exists>d'. bt_get root' k = Some (TTable d') \<and> bt_get d \<subseteq>\<^sub>m bt_get d')"
    using includes_only_add [OF run] by blast
  moreover have "bt_get ?root ''targets'' = Some (TTable [(''y'', TArray [])])" by (simp add: bt_get_def)
  ultimately have "\<exists>d'. bt_get root' ''targets'' = Some (TTable d') \<and> [''y'' \<mapsto> TArray []] \<subseteq>\<^sub>m bt_get d'"
    by metis
  with run [unfolded root'] show ?thesis by blast
qed

end
