(* ===== verification/Ssh_Filter.thy ===== *)
theory Ssh_Filter
  imports Small_Configs Durations
begin

text \<open>
  \<open>src/ssh_filter.rs\<close>: the command filter of the container's SSH server. \<open>shell_words::split\<close> is
  the argument \<open>sw\<close> (\<open>None\<close> is its parse error). The scan of nested \<open>sh -c\<close> scripts has a bound
  on its depth, \<open>None\<close> when it is exhausted; the length of the command is always enough
  (\<open>contains_denied_enough\<close>), because the words of a command are not longer than the command.
\<close>

section \<open>The filter\<close>

text \<open>\<open>SshCommandFilterPolicy\<close> has the two fields of \<open>ContainerSshTransferConfig\<close>.\<close>

type_synonym ssh_filter_policy = container_ssh_transfer

datatype ssh_decision =
  LoginShell | RunCommand string | RejectLegacyScp | RejectSftp | RejectComposedTransfer

datatype scp_direction = Inbound | Outbound | Ambiguous

fun legacy_scp_direction_from_args :: "string list \<Rightarrow> scp_direction option" where
  "legacy_scp_direction_from_args [] = None"
| "legacy_scp_direction_from_args (arg # args) =
     (if arg = ''--'' then None
      else if \<not> starts_with ''-'' arg then legacy_scp_direction_from_args args
      else let inbound = CHR ''t'' \<in> set (drop 1 arg); outbound = CHR ''f'' \<in> set (drop 1 arg) in
        if inbound \<and> outbound then Some Ambiguous
        else if inbound then Some Inbound
        else if outbound then Some Outbound
        else legacy_scp_direction_from_args args)"

definition legacy_scp_server_direction ::
  "(string \<Rightarrow> string list option) \<Rightarrow> string \<Rightarrow> scp_direction option" where
  "legacy_scp_server_direction sw command =
     (case sw command of
        Some (program # args) \<Rightarrow>
          if path_basename program \<noteq> ''scp'' then None else legacy_scp_direction_from_args args
      | _ \<Rightarrow> None)"

definition is_legacy_scp_server_command :: "(string \<Rightarrow> string list option) \<Rightarrow> string \<Rightarrow> bool" where
  "is_legacy_scp_server_command sw command \<longleftrightarrow> legacy_scp_server_direction sw command \<noteq> None"

fun legacy_scp_mode_allows :: "legacy_scp_transfer_mode \<Rightarrow> scp_direction \<Rightarrow> bool" where
  "legacy_scp_mode_allows m Inbound = scp_allows_inbound m"
| "legacy_scp_mode_allows m Outbound = scp_allows_outbound m"
| "legacy_scp_mode_allows m Ambiguous = False"

definition is_sftp_server_command :: "(string \<Rightarrow> string list option) \<Rightarrow> string \<Rightarrow> bool" where
  "is_sftp_server_command sw command =
     (case sw command of
        Some (program # _) \<Rightarrow> path_basename program \<in> {''sftp-server'', ''internal-sftp''}
      | _ \<Rightarrow> False)"

definition is_shell_control_character :: "char \<Rightarrow> bool" where
  "is_shell_control_character c \<longleftrightarrow>
     c \<in> {CHR '';'', CHR ''|'', CHR ''&'', CHR ''('', CHR '')'', CHR 0x60, CHR 0x0A, CHR 0x0D}"

definition is_shell_interpreter :: "string \<Rightarrow> bool" where
  "is_shell_interpreter program \<longleftrightarrow>
     path_basename program \<in> {''bash'', ''dash'', ''fish'', ''ksh'', ''sh'', ''zsh''}"

definition shell_tokens :: "string list \<Rightarrow> string list" where
  "shell_tokens words =
     filter (\<lambda>t. t \<noteq> []) (concat (map (split_where is_shell_control_character) words))"

text \<open>The loop over the tokens: a denied \<open>scp\<close> server or a denied SFTP server.\<close>

fun denied_tokens :: "ssh_filter_policy \<Rightarrow> string list \<Rightarrow> bool" where
  "denied_tokens policy [] = False"
| "denied_tokens policy (program # rest) =
     ((path_basename program = ''scp''
         \<and> (case legacy_scp_direction_from_args rest of
              None \<Rightarrow> False
            | Some direction \<Rightarrow> \<not> legacy_scp_mode_allows (cst_legacy_scp policy) direction))
      \<or> (path_basename program \<in> {''internal-sftp'', ''sftp-server''}
         \<and> \<not> sftp_allows (cst_sftp policy))
      \<or> denied_tokens policy rest)"

text \<open>\<open>words.windows(3)\<close>: an interpreter, options with a \<open>c\<close>, a script.\<close>

definition runs_script :: "string \<Rightarrow> string \<Rightarrow> bool" where
  "runs_script program options \<longleftrightarrow> is_shell_interpreter program \<and> starts_with ''-'' options
     \<and> CHR ''c'' \<in> set (drop 1 options)"

fun scan_windows :: "(string \<Rightarrow> bool option) \<Rightarrow> bool option \<Rightarrow> string list \<Rightarrow> bool option" where
  "scan_windows scan rest (a # b # c # ws) =
     (if runs_script a b
      then (case scan c of
          None \<Rightarrow> None
        | Some True \<Rightarrow> Some True
        | Some False \<Rightarrow> scan_windows scan rest (b # c # ws))
      else scan_windows scan rest (b # c # ws))"
| "scan_windows scan rest _ = rest"

fun contains_denied_transfer_invocation ::
  "(string \<Rightarrow> string list option) \<Rightarrow> nat \<Rightarrow> ssh_filter_policy \<Rightarrow> string \<Rightarrow> bool option" where
  "contains_denied_transfer_invocation sw 0 policy command = None"
| "contains_denied_transfer_invocation sw (Suc depth) policy command =
     (case sw command of
        None \<Rightarrow> Some False
      | Some words \<Rightarrow>
          scan_windows (contains_denied_transfer_invocation sw depth policy)
            (Some (denied_tokens policy (shell_tokens words))) words)"

definition decide_command ::
  "(string \<Rightarrow> string list option) \<Rightarrow> ssh_filter_policy \<Rightarrow> string option \<Rightarrow> ssh_decision option" where
  "decide_command sw policy original_command =
     (case map_option trim original_command of
        None \<Rightarrow> Some LoginShell
      | Some command \<Rightarrow>
          if command = [] then Some LoginShell
          else if (case legacy_scp_server_direction sw command of
                None \<Rightarrow> False
              | Some direction \<Rightarrow> \<not> legacy_scp_mode_allows (cst_legacy_scp policy) direction)
          then Some RejectLegacyScp
          else if \<not> sftp_allows (cst_sftp policy) \<and> is_sftp_server_command sw command
          then Some RejectSftp
          else (case contains_denied_transfer_invocation sw (Suc (length command)) policy command of
              None \<Rightarrow> None
            | Some True \<Rightarrow> Some RejectComposedTransfer
            | Some False \<Rightarrow> Some (RunCommand command)))"

definition shell_basename :: "string \<Rightarrow> string" where
  "shell_basename shell = path_basename shell"

section \<open>Displaying a rejected command\<close>

definition MAX_DISPLAYED_SSH_COMMAND_CHARS :: nat where
  "MAX_DISPLAYED_SSH_COMMAND_CHARS = 1000"

definition TRUNCATION_MARKER :: string where
  "TRUNCATION_MARKER = ''... [truncated]''"

definition is_printable :: "char \<Rightarrow> bool" where
  "is_printable c \<longleftrightarrow> CHR '' '' \<le> c \<and> c \<le> CHR ''~''"

definition hex_digit :: "nat \<Rightarrow> char" where
  "hex_digit d = (if d < 10 then char_of (48 + d) else char_of (87 + d))"

text \<open>\<open>char::escape_default\<close> on a character outside the printable ASCII range.\<close>

definition escape_default :: "char \<Rightarrow> string" where
  "escape_default c =
     (if c = CHR 0x09 then [CHR 0x5C, CHR ''t'']
      else if c = CHR 0x0D then [CHR 0x5C, CHR ''r'']
      else if c = CHR 0x0A then [CHR 0x5C, CHR ''n'']
      else let n = of_char c :: nat in
        [CHR 0x5C, CHR ''u'', CHR ''{'']
          @ (if n < 16 then [hex_digit n] else [hex_digit (n div 16), hex_digit (n mod 16)])
          @ [CHR ''}''])"

definition render_char :: "char \<Rightarrow> string" where
  "render_char c = (if is_printable c then [c] else escape_default c)"

text \<open>The inner loop; \<open>boundaries\<close> is the vector with its last element first, \<open>None\<close> the panic of
  \<open>unwrap\<close> on an empty one.\<close>

fun drop_to_marker :: "(nat \<times> nat) list \<Rightarrow> string \<Rightarrow> nat \<Rightarrow> string option" where
  "drop_to_marker boundaries escaped rendered_chars =
     (if rendered_chars + length TRUNCATION_MARKER > MAX_DISPLAYED_SSH_COMMAND_CHARS
      then (case boundaries of
          _ # (byte_length, character_length) # bs \<Rightarrow>
            drop_to_marker ((byte_length, character_length) # bs) (take byte_length escaped)
              character_length
        | _ \<Rightarrow> None)
      else Some (escaped @ TRUNCATION_MARKER))"

declare drop_to_marker.simps [simp del]

fun format_loop :: "string \<Rightarrow> nat \<Rightarrow> (nat \<times> nat) list \<Rightarrow> string \<Rightarrow> string option" where
  "format_loop escaped rendered_chars boundaries [] = Some escaped"
| "format_loop escaped rendered_chars boundaries (c # cs) =
     (let rendered = render_char c; character_count = length rendered in
      if rendered_chars + character_count > MAX_DISPLAYED_SSH_COMMAND_CHARS
      then drop_to_marker boundaries escaped rendered_chars
      else format_loop (escaped @ rendered) (rendered_chars + character_count)
        ((length (escaped @ rendered), rendered_chars + character_count) # boundaries) cs)"

definition format_ssh_original_command :: "string \<Rightarrow> string option" where
  "format_ssh_original_command command = format_loop [] 0 [(0, 0)] command"

section \<open>Lemmas on the scan\<close>

text \<open>A command invokes a denied transfer if one of its tokens does, or a script it hands to a shell
  interpreter.\<close>

inductive invokes_denied :: "(string \<Rightarrow> string list option) \<Rightarrow> ssh_filter_policy \<Rightarrow> string \<Rightarrow> bool"
  for sw policy where
  token: "sw c = Some ws \<Longrightarrow> denied_tokens policy (shell_tokens ws) \<Longrightarrow> invokes_denied sw policy c"
| nested: "sw c = Some (xs @ a # b # s # ys) \<Longrightarrow> runs_script a b \<Longrightarrow> invokes_denied sw policy s \<Longrightarrow>
    invokes_denied sw policy c"

inductive_cases invokes_denied_cases: "invokes_denied sw policy c"

text \<open>What the scan relies on: the words of a command are together not longer than it.\<close>

definition splits_words :: "(string \<Rightarrow> string list option) \<Rightarrow> bool" where
  "splits_words sw \<longleftrightarrow> (\<forall>c ws. sw c = Some ws \<longrightarrow> sum_list (map length ws) \<le> length c)"

lemma runs_script_nonempty: "runs_script a b \<Longrightarrow> a \<noteq> [] \<and> b \<noteq> []"
proof -
  assume r: "runs_script a b"
  have "path_basename [] = []"
    by (simp add: path_basename_def path_file_name_def path_components_def path_is_absolute_def
        split_char_def starts_with_def)
  with r show ?thesis by (auto simp: runs_script_def is_shell_interpreter_def)
qed

lemma scan_windows_total:
  assumes "\<And>xs a b s ys. ws = xs @ a # b # s # ys \<Longrightarrow> runs_script a b \<Longrightarrow> scan s = Some (P s)"
  shows "scan_windows scan (Some r) ws
    = Some (r \<or> (\<exists>xs a b s ys. ws = xs @ a # b # s # ys \<and> runs_script a b \<and> P s))"
  using assms
proof (induction scan "Some r" ws rule: scan_windows.induct)
  case (1 scan a b c ws)
  have rest: "scan s = Some (P s)" if "b # c # ws = xs @ a' # b' # s # ys" "runs_script a' b'" for xs a' b' s ys
    using that "1.prems" [of "a # xs" a' b' s ys] by simp
  have split: "(\<exists>xs a' b' s ys. a # b # c # ws = xs @ a' # b' # s # ys \<and> runs_script a' b' \<and> P s)
      \<longleftrightarrow> (runs_script a b \<and> P c)
        \<or> (\<exists>xs a' b' s ys. b # c # ws = xs @ a' # b' # s # ys \<and> runs_script a' b' \<and> P s)"
    (is "?L \<longleftrightarrow> ?R")
  proof
    assume ?L
    then obtain xs a' b' s ys where *: "a # b # c # ws = xs @ a' # b' # s # ys" "runs_script a' b'" "P s"
      by blast
    show ?R
    proof (cases xs)
      case Nil
      with * show ?thesis by simp
    next
      case (Cons x xs')
      with *(1) have "b # c # ws = xs' @ a' # b' # s # ys" by simp
      with *(2,3) show ?thesis by blast
    qed
  next
    assume ?R
    then show ?L by (metis append_Cons append_Nil)
  qed
  show ?case
  proof (cases "runs_script a b")
    case True
    then have c: "scan c = Some (P c)" using "1.prems" [of "[]" a b c ws] by simp
    show ?thesis
    proof (cases "P c")
      case True
      with c \<open>runs_script a b\<close> show ?thesis unfolding split by simp
    next
      case False
      with c \<open>runs_script a b\<close> have "scan_windows scan (Some r) (a # b # c # ws)
          = scan_windows scan (Some r) (b # c # ws)" by simp
      also have "\<dots> = Some (r \<or> (\<exists>xs a' b' s ys. b # c # ws = xs @ a' # b' # s # ys \<and> runs_script a' b' \<and> P s))"
        using "1.hyps"(1) c False True rest by blast
      finally show ?thesis unfolding split using False by simp
    qed
  next
    case False
    then have "scan_windows scan (Some r) (a # b # c # ws) = scan_windows scan (Some r) (b # c # ws)"
      by simp
    also have "\<dots> = Some (r \<or> (\<exists>xs a' b' s ys. b # c # ws = xs @ a' # b' # s # ys \<and> runs_script a' b' \<and> P s))"
      using "1.hyps"(2) False rest by blast
    finally show ?thesis unfolding split using False by simp
  qed
qed (auto simp: Cons_eq_append_conv)

lemma script_is_shorter:
  assumes "splits_words sw" and "sw c = Some (xs @ a # b # s # ys)" and "runs_script a b"
  shows "length s < length c"
proof -
  have "sum_list (map length (xs @ a # b # s # ys)) \<le> length c"
    using assms(1,2) unfolding splits_words_def by blast
  then have "length a + length s \<le> length c" by simp
  moreover have "0 < length a" using runs_script_nonempty [OF assms(3)] by simp
  ultimately show ?thesis by linarith
qed

lemma contains_denied_enough:
  assumes "splits_words sw" and "length c < depth"
  shows "contains_denied_transfer_invocation sw depth policy c = Some (invokes_denied sw policy c)"
  using assms(2)
proof (induction depth arbitrary: c)
  case 0
  then show ?case by simp
next
  case (Suc depth)
  show ?case
  proof (cases "sw c")
    case None
    then have "\<not> invokes_denied sw policy c" by (auto elim: invokes_denied_cases)
    with None show ?thesis by simp
  next
    case (Some ws)
    have scan: "contains_denied_transfer_invocation sw depth policy s = Some (invokes_denied sw policy s)"
      if "ws = xs @ a # b # s # ys" "runs_script a b" for xs a b s ys
    proof (rule Suc.IH)
      show "length s < depth"
        using script_is_shorter [OF assms(1), of c xs a b s ys] that Some Suc.prems by simp
    qed
    have "invokes_denied sw policy c \<longleftrightarrow> denied_tokens policy (shell_tokens ws)
        \<or> (\<exists>xs a b s ys. ws = xs @ a # b # s # ys \<and> runs_script a b \<and> invokes_denied sw policy s)"
      (is "?L \<longleftrightarrow> ?R")
    proof
      assume ?L
      then show ?R
      proof (cases rule: invokes_denied.cases)
        case (token ws')
        with Some show ?thesis by simp
      next
        case (nested xs a b s ys)
        with Some have "ws = xs @ a # b # s # ys" by simp
        with nested show ?thesis by blast
      qed
    next
      assume ?R
      then show ?L using Some by (auto intro: token nested)
    qed
    then show ?thesis by (simp add: Some scan_windows_total [of ws, OF scan])
  qed
qed

section \<open>Lemmas on the display\<close>

definition rendered :: "string \<Rightarrow> string" where
  "rendered cs = concat (map render_char cs)"

lemma rendered_simps [simp]: "rendered [] = []" "rendered (cs @ [c]) = rendered cs @ render_char c"
  by (simp_all add: rendered_def)

lemma char_of_printable: "32 \<le> n \<Longrightarrow> n \<le> 126 \<Longrightarrow> is_printable (char_of (n :: nat))"
  by (simp add: is_printable_def less_eq_char_def)

lemma hex_digit_printable: "d < 16 \<Longrightarrow> is_printable (hex_digit d)"
  by (simp add: hex_digit_def char_of_printable)

lemma render_char_printable: "x \<in> set (render_char c) \<Longrightarrow> is_printable x"
proof -
  assume x: "x \<in> set (render_char c)"
  have p: "is_printable CHR 0x5C" "is_printable CHR ''t''" "is_printable CHR ''r''"
    "is_printable CHR ''n''" "is_printable CHR ''u''" "is_printable CHR ''{''" "is_printable CHR ''}''"
    by (simp_all add: is_printable_def)
  have "(of_char c :: nat) < 256" by simp
  then have "is_printable (hex_digit (of_char c div 16))" "is_printable (hex_digit (of_char c mod 16))"
    by (intro hex_digit_printable; simp add: div_less_iff_less_mult)+
  moreover have "(of_char c :: nat) < 16 \<Longrightarrow> is_printable (hex_digit (of_char c))"
    by (rule hex_digit_printable)
  ultimately show ?thesis using x p
    by (auto simp: render_char_def escape_default_def Let_def split: if_splits)
qed

lemma rendered_printable: "x \<in> set (rendered cs) \<Longrightarrow> is_printable x"
  by (auto simp: rendered_def dest: render_char_printable)

lemma rendered_take_Suc:
  "k < length cs \<Longrightarrow> rendered (take (Suc k) cs) = rendered (take k cs) @ render_char (cs ! k)"
  by (simp add: take_Suc_conv_app_nth)

lemma rendered_take_prefix:
  "take (length (rendered (take k cs))) (rendered (take (Suc k) cs)) = rendered (take k cs)"
proof (cases "k < length cs")
  case True
  then show ?thesis by (simp add: rendered_take_Suc)
qed simp

definition boundaries_of :: "string \<Rightarrow> nat \<Rightarrow> (nat \<times> nat) list" where
  "boundaries_of cs n =
     map (\<lambda>k. (length (rendered (take k cs)), length (rendered (take k cs)))) (rev [0..<Suc n])"

lemma boundaries_of_Suc:
  "boundaries_of cs (Suc n) =
    (length (rendered (take (Suc n) cs)), length (rendered (take (Suc n) cs))) # boundaries_of cs n"
  by (simp add: boundaries_of_def)

lemma drop_to_marker_boundary:
  "\<exists>k \<le> n. drop_to_marker (boundaries_of cs n) (rendered (take n cs)) (length (rendered (take n cs)))
      = Some (rendered (take k cs) @ TRUNCATION_MARKER)
    \<and> length (rendered (take k cs)) + length TRUNCATION_MARKER \<le> 1000"
proof (induction n)
  case 0
  then show ?case
    by (auto simp: drop_to_marker.simps TRUNCATION_MARKER_def MAX_DISPLAYED_SSH_COMMAND_CHARS_def)
next
  case (Suc n)
  show ?case
  proof (cases "length (rendered (take (Suc n) cs)) + length TRUNCATION_MARKER > 1000")
    case True
    obtain b bs where b: "boundaries_of cs n = b # bs"
      "b = (length (rendered (take n cs)), length (rendered (take n cs)))"
      by (cases "boundaries_of cs n") (auto simp: boundaries_of_def)
    have "drop_to_marker (boundaries_of cs (Suc n)) (rendered (take (Suc n) cs))
        (length (rendered (take (Suc n) cs)))
      = drop_to_marker (boundaries_of cs n) (rendered (take n cs)) (length (rendered (take n cs)))"
      unfolding boundaries_of_Suc
      using True rendered_take_prefix [of n cs]
      by (subst drop_to_marker.simps) (simp add: b MAX_DISPLAYED_SSH_COMMAND_CHARS_def)
    with Suc.IH show ?thesis using le_Suc_eq by auto
  next
    case False
    then show ?thesis
      by (subst drop_to_marker.simps)
        (auto simp: MAX_DISPLAYED_SSH_COMMAND_CHARS_def intro!: exI [of _ "Suc n"])
  qed
qed

lemma format_loop_result:
  assumes "n \<le> length cs" and "length (rendered (take n cs)) \<le> 1000"
  shows "format_loop (rendered (take n cs)) (length (rendered (take n cs))) (boundaries_of cs n) (drop n cs)
      = Some (rendered cs) \<and> length (rendered cs) \<le> 1000
    \<or> (\<exists>k \<le> length cs. format_loop (rendered (take n cs)) (length (rendered (take n cs)))
          (boundaries_of cs n) (drop n cs) = Some (rendered (take k cs) @ TRUNCATION_MARKER)
        \<and> length (rendered (take k cs)) + length TRUNCATION_MARKER \<le> 1000)"
  using assms
proof (induction "length cs - n" arbitrary: n)
  case 0
  then show ?case by simp
next
  case (Suc m)
  then have n: "n < length cs" by simp
  let ?r = "rendered (take n cs)"
  have step: "drop n cs = cs ! n # drop (Suc n) cs" using n by (simp add: Cons_nth_drop_Suc)
  have next_r: "rendered (take (Suc n) cs) = ?r @ render_char (cs ! n)" using n by (rule rendered_take_Suc)
  show ?case
  proof (cases "length ?r + length (render_char (cs ! n)) > 1000")
    case True
    then have "format_loop ?r (length ?r) (boundaries_of cs n) (drop n cs)
        = drop_to_marker (boundaries_of cs n) ?r (length ?r)"
      by (simp add: step MAX_DISPLAYED_SSH_COMMAND_CHARS_def)
    with drop_to_marker_boundary [of n cs] n show ?thesis
      by (metis less_imp_le order_trans)
  next
    case False
    then have run: "format_loop ?r (length ?r) (boundaries_of cs n) (drop n cs)
        = format_loop (rendered (take (Suc n) cs)) (length (rendered (take (Suc n) cs)))
            (boundaries_of cs (Suc n)) (drop (Suc n) cs)"
      by (simp add: step boundaries_of_Suc next_r MAX_DISPLAYED_SSH_COMMAND_CHARS_def Let_def)
    have "length (rendered (take (Suc n) cs)) \<le> 1000" using False by (simp add: next_r)
    from Suc.hyps(1) [of "Suc n", OF _ _ this] Suc.hyps(2) n show ?thesis unfolding run by simp
  qed
qed

lemma format_result:
  "format_ssh_original_command cs = Some (rendered cs) \<and> length (rendered cs) \<le> 1000
    \<or> (\<exists>k \<le> length cs. format_ssh_original_command cs = Some (rendered (take k cs) @ TRUNCATION_MARKER)
        \<and> length (rendered (take k cs)) + length TRUNCATION_MARKER \<le> 1000)"
proof -
  have "boundaries_of cs 0 = [(0, 0)]" by (simp add: boundaries_of_def)
  with format_loop_result [of 0 cs] show ?thesis by (simp add: format_ssh_original_command_def)
qed

section \<open>Properties\<close>

text \<open>C1. The filter always decides, and it runs a command exactly when that command, without its
  surrounding blanks, is not empty, is not itself a denied transfer server, and invokes none through
  its tokens or through any nesting of shell scripts.\<close>

theorem filter_runs_only_allowed_commands:
  assumes "splits_words sw"
  shows "\<exists>d. decide_command sw policy original = Some d
    \<and> (\<forall>c. d = RunCommand c \<longleftrightarrow>
        (\<exists>o'. original = Some o' \<and> c = trim o') \<and> c \<noteq> []
        \<and> (\<forall>direction. legacy_scp_server_direction sw c = Some direction \<longrightarrow>
             legacy_scp_mode_allows (cst_legacy_scp policy) direction)
        \<and> (is_sftp_server_command sw c \<longrightarrow> sftp_allows (cst_sftp policy))
        \<and> \<not> invokes_denied sw policy c)"
proof (cases original)
  case None
  then show ?thesis by (simp add: decide_command_def)
next
  case (Some o')
  have scan: "contains_denied_transfer_invocation sw (Suc (length (trim o'))) policy (trim o')
      = Some (invokes_denied sw policy (trim o'))"
    by (rule contains_denied_enough [OF assms]) simp
  show ?thesis
    by (cases "legacy_scp_server_direction sw (trim o')"; cases "invokes_denied sw policy (trim o')")
      (auto simp: decide_command_def Some scan simp del: contains_denied_transfer_invocation.simps)
qed

definition split_blanks :: "string \<Rightarrow> string list option" where
  "split_blanks c = Some (filter (\<lambda>w. w \<noteq> []) (split_char CHR '' '' c))"

lemma split_blanks_splits: "splits_words split_blanks"
proof -
  have "sum_list (map length (split_where P c)) \<le> length c" for P :: "char \<Rightarrow> bool" and c
    by (induction c) (auto split: list.splits)
  moreover have "sum_list (map length (filter Q ws)) \<le> sum_list (map length ws)"
    for Q :: "string \<Rightarrow> bool" and ws
    by (induction ws) auto
  ultimately show ?thesis unfolding splits_words_def split_blanks_def split_char_def
    by (metis le_trans option.inject)
qed

theorem filter_runs_only_allowed_commands_witness:
  "\<exists>d. decide_command split_blanks \<lparr>cst_sftp = SftpDeny, cst_legacy_scp = ScpDeny\<rparr> (Some ''ls'') = Some d"
  using filter_runs_only_allowed_commands [OF split_blanks_splits] by blast

text \<open>The text shown for a rejected command exists, has at most 1000 characters, all printable
  ASCII, and is the escaped command, cut only between the escapes of two characters.\<close>

theorem displayed_command_is_bounded:
  "\<exists>out. format_ssh_original_command cs = Some out \<and> length out \<le> 1000
    \<and> (\<forall>x \<in> set out. is_printable x)
    \<and> (out = rendered cs \<or> (\<exists>k. out = rendered (take k cs) @ TRUNCATION_MARKER))"
proof -
  have "x \<in> set TRUNCATION_MARKER \<Longrightarrow> is_printable x" for x
    by (auto simp: TRUNCATION_MARKER_def is_printable_def)
  with format_result [of cs] rendered_printable show ?thesis by fastforce
qed

theorem displayed_command_is_bounded_witness:
  "format_ssh_original_command [CHR ''l'', CHR ''s'', CHR 0x0A]
     = Some [CHR ''l'', CHR ''s'', CHR 0x5C, CHR ''n'']
    \<and> is_printable (CHR 0x5C)"
  using displayed_command_is_bounded [of "[CHR ''l'', CHR ''s'', CHR 0x0A]"]
  by (simp add: format_ssh_original_command_def render_char_def is_printable_def
      escape_default_def Let_def MAX_DISPLAYED_SSH_COMMAND_CHARS_def)

end
