(* ===== verification/Rotation.thy ===== *)
theory Rotation
  imports Durations
begin

text \<open>
  \<open>src/rotating_log.rs\<close> and its use for service logs in \<open>src/agent/service.rs\<close>
  (\<open>RotatingServiceLog\<close>). A file system is a directory of inodes and their contents: a handle
  keeps its inode when the file is renamed, which is what the reopening after a rotation is
  about. Which renames fail (other than for a missing source) and whether the reopening fails
  are arguments; a failed removal is ignored, as in the source. Byte counts are natural numbers:
  the source adds them as \<open>u64\<close>, which a log would have to exceed \<open>2 ^ 64\<close> bytes to overflow.
\<close>

section \<open>Rotation plans\<close>

record rotation_state =
  rs_path :: string
  rs_max_bytes :: nat
  rs_max_files :: nat
  rs_bytes_written :: nat

datatype rotation_step = RemoveStep string | RenameStep string string

record rotation_plan =
  rp_active_path :: string
  rp_steps :: "rotation_step list"

definition rotation_state_new :: "string \<Rightarrow> nat \<Rightarrow> nat \<Rightarrow> nat \<Rightarrow> rotation_state" where
  "rotation_state_new path max_bytes max_files bytes_written =
     \<lparr>rs_path = path, rs_max_bytes = max max_bytes 1, rs_max_files = max_files,
      rs_bytes_written = bytes_written\<rparr>"

definition path_for_generation :: "rotation_state \<Rightarrow> nat \<Rightarrow> string" where
  "path_for_generation st generation =
     (if generation = 0 then rs_path st else rs_path st @ ''.'' @ show_nat generation)"

definition make_rotation_plan :: "rotation_state \<Rightarrow> rotation_plan" where
  "make_rotation_plan st =
     \<lparr>rp_active_path = rs_path st,
      rp_steps = map (\<lambda>generation.
          if generation = rs_max_files st then RemoveStep (path_for_generation st generation)
          else RenameStep (path_for_generation st generation)
            (path_for_generation st (generation + 1)))
        (rev [1..<Suc (rs_max_files st)])
        @ [RenameStep (path_for_generation st 0) (path_for_generation st 1)]\<rparr>"

definition should_rotate :: "rotation_state \<Rightarrow> nat \<Rightarrow> bool" where
  "should_rotate st incoming \<longleftrightarrow>
     rs_max_files st \<noteq> 0 \<and> rs_bytes_written st + incoming > rs_max_bytes st"

definition record_write :: "nat \<Rightarrow> rotation_state \<Rightarrow> rotation_state" where
  "record_write written st = st\<lparr>rs_bytes_written := rs_bytes_written st + written\<rparr>"

definition reset_after_rotation :: "rotation_state \<Rightarrow> rotation_state" where
  "reset_after_rotation st = st\<lparr>rs_bytes_written := 0\<rparr>"

section \<open>The service log\<close>

record file_system =
  fs_dir :: "string \<Rightarrow> nat option"
  fs_data :: "nat \<Rightarrow> string"
  fs_next :: nat

definition remove_file :: "string \<Rightarrow> file_system \<Rightarrow> file_system" where
  "remove_file p fs = fs\<lparr>fs_dir := (fs_dir fs)(p := None)\<rparr>"

definition rename_if_exists :: "string \<Rightarrow> string \<Rightarrow> file_system \<Rightarrow> file_system" where
  "rename_if_exists from to fs =
     (case fs_dir fs from of None \<Rightarrow> fs
      | Some i \<Rightarrow> fs\<lparr>fs_dir := (fs_dir fs)(from := None, to \<mapsto> i)\<rparr>)"

definition open_append :: "string \<Rightarrow> file_system \<Rightarrow> nat \<times> file_system" where
  "open_append p fs =
     (case fs_dir fs p of Some i \<Rightarrow> (i, fs)
      | None \<Rightarrow> (fs_next fs,
          fs\<lparr>fs_dir := (fs_dir fs)(p \<mapsto> fs_next fs), fs_data := (fs_data fs)(fs_next fs := []),
             fs_next := Suc (fs_next fs)\<rparr>))"

definition append_to :: "nat \<Rightarrow> string \<Rightarrow> file_system \<Rightarrow> file_system" where
  "append_to i buffer fs = fs\<lparr>fs_data := (fs_data fs)(i := fs_data fs i @ buffer)\<rparr>"

record service_log =
  sl_rotation :: rotation_state
  sl_handle :: nat
  sl_fs :: file_system

definition service_log_new :: "string \<Rightarrow> nat \<Rightarrow> nat \<Rightarrow> file_system \<Rightarrow> service_log" where
  "service_log_new path max_bytes max_files fs =
     (case open_append path fs of (file, fs') \<Rightarrow>
        \<lparr>sl_rotation = rotation_state_new path max_bytes max_files (length (fs_data fs' file)),
         sl_handle = file, sl_fs = fs'\<rparr>)"

text \<open>The loop over the steps of a plan; the flag says whether it ran to its end.\<close>

fun run_steps :: "(rotation_step \<Rightarrow> bool) \<Rightarrow> rotation_step list \<Rightarrow> file_system \<Rightarrow> bool \<times> file_system" where
  "run_steps fails [] fs = (True, fs)"
| "run_steps fails (RemoveStep p # steps) fs =
     run_steps fails steps (if fails (RemoveStep p) then fs else remove_file p fs)"
| "run_steps fails (RenameStep from to # steps) fs =
     (if fails (RenameStep from to) then (False, fs)
      else run_steps fails steps (rename_if_exists from to fs))"

definition rotate_if_needed ::
  "(rotation_step \<Rightarrow> bool) \<Rightarrow> bool \<Rightarrow> nat \<Rightarrow> service_log \<Rightarrow> unit res \<times> service_log" where
  "rotate_if_needed fails open_fails incoming log =
     (if \<not> should_rotate (sl_rotation log) incoming then (Inr (), log)
      else let plan = make_rotation_plan (sl_rotation log) in
        case run_steps fails (rp_steps plan) (sl_fs log) of
          (False, fs) \<Rightarrow> (Inl (Bail ''rename'' []), log\<lparr>sl_fs := fs\<rparr>)
        | (True, fs) \<Rightarrow>
            if open_fails
            then (Inl (Bail ''open {}'' [rp_active_path plan]),
              log\<lparr>sl_fs := fs, sl_rotation := reset_after_rotation (sl_rotation log)\<rparr>)
            else (case open_append (rp_active_path plan) fs of (file, fs') \<Rightarrow>
              (Inr (), log\<lparr>sl_fs := fs', sl_rotation := reset_after_rotation (sl_rotation log),
                         sl_handle := file\<rparr>)))"

definition write_all ::
  "(rotation_step \<Rightarrow> bool) \<Rightarrow> bool \<Rightarrow> string \<Rightarrow> service_log \<Rightarrow> unit res \<times> service_log" where
  "write_all fails open_fails buffer log =
     (case rotate_if_needed fails open_fails (length buffer) log of
        (Inl e, log') \<Rightarrow> (Inl e, log')
      | (Inr _, log') \<Rightarrow>
          (Inr (), log'\<lparr>sl_fs := append_to (sl_handle log') buffer (sl_fs log'),
                       sl_rotation := record_write (length buffer) (sl_rotation log')\<rparr>))"

section \<open>Lemmas\<close>

text \<open>What the operations keep: the handle is the active file, its size is accounted, and no two
  names share an inode.\<close>

definition log_ok :: "service_log \<Rightarrow> bool" where
  "log_ok log \<longleftrightarrow>
     fs_dir (sl_fs log) (rs_path (sl_rotation log)) = Some (sl_handle log)
     \<and> rs_bytes_written (sl_rotation log) = length (fs_data (sl_fs log) (sl_handle log))
     \<and> (\<forall>p q i. fs_dir (sl_fs log) p = Some i \<longrightarrow> fs_dir (sl_fs log) q = Some i \<longrightarrow> p = q)
     \<and> (\<forall>p i. fs_dir (sl_fs log) p = Some i \<longrightarrow> i < fs_next (sl_fs log))"

definition generation :: "service_log \<Rightarrow> nat \<Rightarrow> string option" where
  "generation log g =
     map_option (fs_data (sl_fs log)) (fs_dir (sl_fs log) (path_for_generation (sl_rotation log) g))"

lemma path_for_generation_inj: "path_for_generation st g = path_for_generation st h \<longleftrightarrow> g = h"
  by (simp add: path_for_generation_def show_nat_inj)

lemma plan_steps:
  assumes "rs_max_files st \<noteq> 0"
  shows "rp_steps (make_rotation_plan st)
    = RemoveStep (path_for_generation st (rs_max_files st))
      # map (\<lambda>g. RenameStep (path_for_generation st g) (path_for_generation st (Suc g)))
          (rev [0..<rs_max_files st])"
proof -
  let ?m = "rs_max_files st"
  have "rev [1..<Suc ?m] = ?m # rev [1..<?m]" using assms by simp
  moreover have "rev [0..<?m] = rev [1..<?m] @ [0]" using assms by (simp add: upt_rec [of 0])
  ultimately show ?thesis
    by (simp add: make_rotation_plan_def)
qed

lemma run_renames:
  assumes "inj p" and "fs_dir fs (p m) = None"
  shows "\<exists>fs'. run_steps (\<lambda>_. False) (map (\<lambda>g. RenameStep (p g) (p (Suc g))) (rev [0..<m])) fs = (True, fs')
    \<and> fs_data fs' = fs_data fs \<and> fs_next fs' = fs_next fs \<and> fs_dir fs' (p 0) = None
    \<and> (\<forall>g < m. fs_dir fs' (p (Suc g)) = fs_dir fs (p g))
    \<and> (\<forall>q. q \<notin> p ` {..m} \<longrightarrow> fs_dir fs' q = fs_dir fs q)"
  using assms(2)
proof (induction m arbitrary: fs)
  case 0
  then show ?case by simp
next
  case (Suc m)
  let ?fs = "rename_if_exists (p m) (p (Suc m)) fs"
  have ne: "p i = p j \<longleftrightarrow> i = j" for i j using assms(1) by (simp add: inj_eq)
  have dir: "fs_dir ?fs = (fs_dir fs)(p m := None, p (Suc m) := fs_dir fs (p m))"
    using Suc.prems by (auto simp: rename_if_exists_def fun_eq_iff split: option.splits)
  have same: "fs_data ?fs = fs_data fs" "fs_next ?fs = fs_next fs"
    by (simp_all add: rename_if_exists_def split: option.splits)
  have "fs_dir ?fs (p m) = None" by (simp add: dir ne)
  from Suc.IH [OF this] obtain fs' where fs':
    "run_steps (\<lambda>_. False) (map (\<lambda>g. RenameStep (p g) (p (Suc g))) (rev [0..<m])) ?fs = (True, fs')"
    "fs_data fs' = fs_data fs" "fs_next fs' = fs_next fs" "fs_dir fs' (p 0) = None"
    "\<forall>g < m. fs_dir fs' (p (Suc g)) = fs_dir ?fs (p g)"
    "\<forall>q. q \<notin> p ` {..m} \<longrightarrow> fs_dir fs' q = fs_dir ?fs q"
    unfolding same by blast
  have "fs_dir fs' (p (Suc g)) = fs_dir fs (p g)" if "g < Suc m" for g
  proof (cases "g = m")
    case True
    have "p (Suc m) \<notin> p ` {..m}" by (auto simp: ne)
    with fs'(6) True show ?thesis by (simp add: dir)
  next
    case False
    with that fs'(5) show ?thesis by (simp add: dir ne)
  qed
  moreover have "fs_dir fs' q = fs_dir fs q" if "q \<notin> p ` {..Suc m}" for q
  proof -
    have "q \<notin> p ` {..m}" "q \<noteq> p m" "q \<noteq> p (Suc m)" using that by auto
    with fs'(6) show ?thesis by (simp add: dir)
  qed
  ultimately show ?case using fs'(1-4) by auto
qed

lemma run_plan:
  fixes st :: rotation_state
  defines "p \<equiv> path_for_generation st"
  assumes "rs_max_files st \<noteq> 0"
  shows "\<exists>fs'. run_steps (\<lambda>_. False) (rp_steps (make_rotation_plan st)) fs = (True, fs')
    \<and> fs_data fs' = fs_data fs \<and> fs_next fs' = fs_next fs \<and> fs_dir fs' (p 0) = None
    \<and> (\<forall>g < rs_max_files st. fs_dir fs' (p (Suc g)) = fs_dir fs (p g))
    \<and> (\<forall>q. q \<notin> p ` {..rs_max_files st} \<longrightarrow> fs_dir fs' q = fs_dir fs q)"
proof -
  let ?m = "rs_max_files st" and ?fs = "remove_file (p (rs_max_files st)) fs"
  have ne: "p g = p h \<longleftrightarrow> g = h" for g h unfolding p_def by (rule path_for_generation_inj)
  then have "inj p" by (simp add: inj_def)
  moreover have "fs_dir ?fs (p ?m) = None" by (simp add: remove_file_def)
  ultimately obtain fs' where fs':
    "run_steps (\<lambda>_. False) (map (\<lambda>g. RenameStep (p g) (p (Suc g))) (rev [0..<?m])) ?fs = (True, fs')"
    "fs_data fs' = fs_data ?fs" "fs_next fs' = fs_next ?fs" "fs_dir fs' (p 0) = None"
    "\<forall>g < ?m. fs_dir fs' (p (Suc g)) = fs_dir ?fs (p g)"
    "\<forall>q. q \<notin> p ` {..?m} \<longrightarrow> fs_dir fs' q = fs_dir ?fs q"
    using run_renames [of p ?fs ?m] by blast
  have run: "run_steps (\<lambda>_. False) (rp_steps (make_rotation_plan st)) fs = (True, fs')"
    using fs'(1) unfolding plan_steps [OF assms(2)] p_def by simp
  have shift: "\<forall>g < ?m. fs_dir fs' (p (Suc g)) = fs_dir fs (p g)"
    using fs'(5) by (auto simp: remove_file_def ne)
  have other: "\<forall>q. q \<notin> p ` {..?m} \<longrightarrow> fs_dir fs' q = fs_dir fs q"
    using fs'(6) by (auto simp: remove_file_def)
  have "fs_data fs' = fs_data fs \<and> fs_next fs' = fs_next fs"
    using fs'(2,3) by (simp add: remove_file_def)
  with run shift other fs'(4) show ?thesis by blast
qed

text \<open>A directory whose entries are moved or dropped still has no two names for an inode.\<close>

lemma dir_of_plan:
  fixes st :: rotation_state
  defines "p \<equiv> path_for_generation st"
  assumes run: "fs_dir fs' (p 0) = None"
      "\<forall>g < rs_max_files st. fs_dir fs' (p (Suc g)) = fs_dir fs (p g)"
      "\<forall>q. q \<notin> p ` {..rs_max_files st} \<longrightarrow> fs_dir fs' q = fs_dir fs q"
    and inj: "\<forall>q r i. fs_dir fs q = Some i \<longrightarrow> fs_dir fs r = Some i \<longrightarrow> q = r"
  shows "fs_dir fs' q = Some i \<Longrightarrow> fs_dir fs' r = Some i \<Longrightarrow> q = r"
    and "fs_dir fs' q = Some i \<Longrightarrow> \<exists>r. fs_dir fs r = Some i"
proof -
  have source: "\<exists>q'. fs_dir fs q' = Some i \<and>
      (q = q' \<and> q \<notin> p ` {..rs_max_files st} \<or> (\<exists>g < rs_max_files st. q = p (Suc g) \<and> q' = p g))"
    if "fs_dir fs' q = Some i" for q i
  proof (cases "q \<in> p ` {..rs_max_files st}")
    case True
    then obtain g where g: "g \<le> rs_max_files st" "q = p g" by blast
    with that run(1) obtain h where h: "g = Suc h" by (cases g) auto
    then have "h < rs_max_files st" "fs_dir fs (p h) = Some i" using g that run(2) by auto
    then show ?thesis using g h by blast
  next
    case False
    with that run(3) show ?thesis by auto
  qed
  show "fs_dir fs' q = Some i \<Longrightarrow> \<exists>r. fs_dir fs r = Some i" using source by blast
  assume q: "fs_dir fs' q = Some i" and r: "fs_dir fs' r = Some i"
  from source [OF q] source [OF r] obtain q' r' where
    "q' = r'" and
    "q = q' \<and> q \<notin> p ` {..rs_max_files st} \<or> (\<exists>g < rs_max_files st. q = p (Suc g) \<and> q' = p g)"
    "r = r' \<and> r \<notin> p ` {..rs_max_files st} \<or> (\<exists>g < rs_max_files st. r = p (Suc g) \<and> r' = p g)"
    using inj by blast
  then show "q = r" unfolding p_def by (auto simp: path_for_generation_inj)
qed

lemma write_without_rotation:
  assumes "log_ok log" and "\<not> should_rotate (sl_rotation log) (length buffer)"
  shows "\<exists>log'. write_all fails open_fails buffer log = (Inr (), log') \<and> log_ok log'
    \<and> sl_rotation log' = record_write (length buffer) (sl_rotation log)
    \<and> generation log' 0 = map_option (\<lambda>c. c @ buffer) (generation log 0)
    \<and> (\<forall>g. g \<noteq> 0 \<longrightarrow> generation log' g = generation log g)"
proof -
  let ?log' = "log\<lparr>sl_fs := append_to (sl_handle log) buffer (sl_fs log),
                   sl_rotation := record_write (length buffer) (sl_rotation log)\<rparr>"
  have run: "write_all fails open_fails buffer log = (Inr (), ?log')"
    using assms(2) by (simp add: write_all_def rotate_if_needed_def)
  have path: "path_for_generation (record_write n st) = path_for_generation st" for n st
    by (simp add: path_for_generation_def record_write_def fun_eq_iff)
  have h: "fs_dir (sl_fs log) (path_for_generation (sl_rotation log) 0) = Some (sl_handle log)"
    using assms(1) by (simp add: log_ok_def path_for_generation_def)
  have other: "fs_dir (sl_fs log) (path_for_generation (sl_rotation log) g) \<noteq> Some (sl_handle log)"
    if "g \<noteq> 0" for g
    using assms(1) h that path_for_generation_inj [of "sl_rotation log" g 0]
    unfolding log_ok_def by blast
  have ok: "log_ok ?log'"
    using assms(1) by (simp add: log_ok_def append_to_def record_write_def)
  have active: "generation ?log' 0 = map_option (\<lambda>c. c @ buffer) (generation log 0)"
    using h by (simp add: generation_def append_to_def path)
  have rest: "generation ?log' g = generation log g" if "g \<noteq> 0" for g
    using other [OF that]
    by (cases "fs_dir (sl_fs log) (path_for_generation (sl_rotation log) g)")
      (auto simp: generation_def append_to_def path)
  from run ok active rest show ?thesis
    by (intro exI [of _ ?log']) simp
qed

lemma write_with_rotation:
  assumes "log_ok log" and "should_rotate (sl_rotation log) (length buffer)"
  shows "\<exists>log'. write_all (\<lambda>_. False) False buffer log = (Inr (), log') \<and> log_ok log'
    \<and> sl_rotation log' = (sl_rotation log)\<lparr>rs_bytes_written := length buffer\<rparr>
    \<and> generation log' 0 = Some buffer
    \<and> (\<forall>g < rs_max_files (sl_rotation log). generation log' (Suc g) = generation log g)"
proof -
  let ?st = "sl_rotation log"
  let ?p = "path_for_generation ?st"
  have m: "rs_max_files ?st \<noteq> 0" using assms(2) by (simp add: should_rotate_def)
  obtain fs where run: "run_steps (\<lambda>_. False) (rp_steps (make_rotation_plan ?st)) (sl_fs log) = (True, fs)"
    and fs: "fs_data fs = fs_data (sl_fs log)" "fs_next fs = fs_next (sl_fs log)"
      "fs_dir fs (?p 0) = None"
      "\<forall>g < rs_max_files ?st. fs_dir fs (?p (Suc g)) = fs_dir (sl_fs log) (?p g)"
      "\<forall>q. q \<notin> ?p ` {..rs_max_files ?st} \<longrightarrow> fs_dir fs q = fs_dir (sl_fs log) q"
    using run_plan [OF m, of "sl_fs log"] by blast
  have inj: "\<forall>q r i. fs_dir (sl_fs log) q = Some i \<longrightarrow> fs_dir (sl_fs log) r = Some i \<longrightarrow> q = r"
    and bound: "\<forall>q i. fs_dir (sl_fs log) q = Some i \<longrightarrow> i < fs_next (sl_fs log)"
    using assms(1) by (auto simp: log_ok_def)
  note moved = dir_of_plan [OF fs(3-5) inj]
  let ?new = "fs_next (sl_fs log)"
  let ?fs' = "\<lparr>fs_dir = (fs_dir fs)(?p 0 \<mapsto> ?new), fs_data = (fs_data fs)(?new := buffer),
    fs_next = Suc ?new\<rparr>"
  let ?log' = "\<lparr>sl_rotation = ?st\<lparr>rs_bytes_written := length buffer\<rparr>, sl_handle = ?new, sl_fs = ?fs'\<rparr>"
  have p0: "?p 0 = rs_path ?st" by (simp add: path_for_generation_def)
  have active: "rp_active_path (make_rotation_plan ?st) = ?p 0"
    by (simp add: make_rotation_plan_def p0)
  have open_fs: "open_append (?p 0) fs = (?new, \<lparr>fs_dir = (fs_dir fs)(?p 0 \<mapsto> ?new),
      fs_data = (fs_data fs)(?new := []), fs_next = Suc ?new\<rparr>)"
    using fs(2,3) by (cases fs) (simp add: open_append_def)
  have "rotate_if_needed (\<lambda>_. False) False (length buffer) log
      = (Inr (), log\<lparr>sl_fs := snd (open_append (?p 0) fs), sl_rotation := reset_after_rotation ?st,
          sl_handle := ?new\<rparr>)"
    using assms(2) by (simp add: rotate_if_needed_def run active open_fs Let_def)
  then have result: "write_all (\<lambda>_. False) False buffer log = (Inr (), ?log')"
    by (simp add: write_all_def open_fs append_to_def record_write_def reset_after_rotation_def)
  have old: "fs_dir fs q = Some i \<Longrightarrow> i < ?new" for q i using moved(2) bound by blast
  have ok: "log_ok ?log'"
    unfolding log_ok_def using moved(1) old by (auto simp: p0) (use less_SucI old in blast)+
  have path: "path_for_generation (?st\<lparr>rs_bytes_written := length buffer\<rparr>) = ?p"
    by (simp add: path_for_generation_def fun_eq_iff)
  have shifted: "generation ?log' (Suc g) = generation log g" if "g < rs_max_files ?st" for g
  proof -
    have dir: "fs_dir fs (?p (Suc g)) = fs_dir (sl_fs log) (?p g)" using fs(4) that by blast
    show ?thesis
    proof (cases "fs_dir (sl_fs log) (?p g)")
      case None
      with dir show ?thesis by (simp add: generation_def path path_for_generation_inj)
    next
      case (Some i)
      then have "i \<noteq> ?new" using bound by blast
      with Some dir fs(1) show ?thesis
        by (simp add: generation_def path path_for_generation_inj)
    qed
  qed
  have "generation ?log' 0 = Some buffer" by (simp add: generation_def path)
  with result ok shifted show ?thesis by (intro exI [of _ ?log']) simp
qed

section \<open>Properties\<close>

text \<open>C17. A write that meets no I/O error either appends to the active file and leaves the older
  generations alone, or, past the size limit, moves each generation to the next, drops the oldest
  and puts the text alone in a fresh active file; nothing else is lost, and the handle and the byte
  count stay those of the active file.\<close>

theorem service_log_write:
  assumes "log_ok log"
  shows "\<exists>log'. write_all (\<lambda>_. False) False buffer log = (Inr (), log') \<and> log_ok log'
    \<and> (if should_rotate (sl_rotation log) (length buffer)
       then generation log' 0 = Some buffer
         \<and> (\<forall>g < rs_max_files (sl_rotation log). generation log' (Suc g) = generation log g)
       else generation log' 0 = map_option (\<lambda>c. c @ buffer) (generation log 0)
         \<and> (\<forall>g. g \<noteq> 0 \<longrightarrow> generation log' g = generation log g))"
proof (cases "should_rotate (sl_rotation log) (length buffer)")
  case True
  with write_with_rotation [OF assms True] show ?thesis by auto
next
  case False
  with write_without_rotation [OF assms False, of "\<lambda>_. False" False] show ?thesis by auto
qed

definition empty_fs :: file_system where
  "empty_fs = \<lparr>fs_dir = \<lambda>_. None, fs_data = \<lambda>_. [], fs_next = 0\<rparr>"

lemma service_log_new_ok: "log_ok (service_log_new path max_bytes max_files empty_fs)"
  by (simp add: service_log_new_def open_append_def empty_fs_def log_ok_def rotation_state_new_def)

theorem service_log_write_witness:
  "\<exists>log'. write_all (\<lambda>_. False) False ''x'' (service_log_new ''/l'' 8 2 empty_fs) = (Inr (), log') \<and> log_ok log'"
  using service_log_write [OF service_log_new_ok, of "''x''" "''/l''" 8 2] by blast

fun write_many :: "string list \<Rightarrow> service_log \<Rightarrow> service_log" where
  "write_many [] log = log"
| "write_many (b # bs) log = write_many bs (snd (write_all (\<lambda>_. False) False b log))"

definition sizes_below :: "nat \<Rightarrow> service_log \<Rightarrow> bool" where
  "sizes_below bound log \<longleftrightarrow> (\<forall>g \<le> rs_max_files (sl_rotation log). \<forall>c.
     generation log g = Some c \<longrightarrow> length c \<le> bound)"

lemma write_all_sizes:
  assumes "log_ok log" and "sizes_below bound log" and "rs_max_files (sl_rotation log) \<noteq> 0"
    and "rs_max_bytes (sl_rotation log) \<le> bound" and "length b \<le> bound"
  shows "\<exists>log'. write_all (\<lambda>_. False) False b log = (Inr (), log') \<and> log_ok log' \<and> sizes_below bound log'
    \<and> rs_max_files (sl_rotation log') = rs_max_files (sl_rotation log)
    \<and> rs_max_bytes (sl_rotation log') = rs_max_bytes (sl_rotation log)"
proof (cases "should_rotate (sl_rotation log) (length b)")
  case True
  from write_with_rotation [OF assms(1) True] obtain log' where log':
    "write_all (\<lambda>_. False) False b log = (Inr (), log')" "log_ok log'"
    "sl_rotation log' = (sl_rotation log)\<lparr>rs_bytes_written := length b\<rparr>"
    "generation log' 0 = Some b"
    "\<forall>g < rs_max_files (sl_rotation log). generation log' (Suc g) = generation log g" by blast
  have "length c \<le> bound" if "g \<le> rs_max_files (sl_rotation log')" "generation log' g = Some c" for g c
  proof (cases g)
    case 0
    with that log'(4) assms(5) show ?thesis by simp
  next
    case (Suc h)
    with that log'(3,5) have "h < rs_max_files (sl_rotation log)" "generation log h = Some c" by auto
    then show ?thesis using assms(2) unfolding sizes_below_def by (metis less_imp_le)
  qed
  with log' show ?thesis by (auto simp: sizes_below_def)
next
  case False
  from write_without_rotation [OF assms(1) False, of "\<lambda>_. False" False] obtain log' where log':
    "write_all (\<lambda>_. False) False b log = (Inr (), log')" "log_ok log'"
    "sl_rotation log' = record_write (length b) (sl_rotation log)"
    "generation log' 0 = map_option (\<lambda>c. c @ b) (generation log 0)"
    "\<forall>g. g \<noteq> 0 \<longrightarrow> generation log' g = generation log g" by blast
  have active: "generation log 0 = Some (fs_data (sl_fs log) (sl_handle log))"
    "length (fs_data (sl_fs log) (sl_handle log)) = rs_bytes_written (sl_rotation log)"
    using assms(1) by (simp_all add: log_ok_def generation_def path_for_generation_def)
  have "rs_bytes_written (sl_rotation log) + length b \<le> bound"
    using False assms(3,4) by (simp add: should_rotate_def)
  with active log'(4) have "\<And>c. generation log' 0 = Some c \<Longrightarrow> length c \<le> bound" by auto
  moreover have "\<And>g c. g \<noteq> 0 \<Longrightarrow> g \<le> rs_max_files (sl_rotation log) \<Longrightarrow> generation log' g = Some c \<Longrightarrow> length c \<le> bound"
    using log'(5) assms(2) by (auto simp: sizes_below_def)
  ultimately have "sizes_below bound log'"
    using log'(3) unfolding sizes_below_def record_write_def by (metis rotation_state.select_convs(3)
        rotation_state.surjective rotation_state.update_convs(4))
  with log' show ?thesis by (simp add: record_write_def)
qed

text \<open>However many writes a rotating log takes, none of its files outgrows the size limit or the
  longest single write, whichever is larger.\<close>

theorem rotating_log_is_bounded:
  assumes "log_ok log" and "sizes_below bound log" and "rs_max_files (sl_rotation log) \<noteq> 0"
    and "rs_max_bytes (sl_rotation log) \<le> bound" and "\<And>b. b \<in> set bs \<Longrightarrow> length b \<le> bound"
  shows "sizes_below bound (write_many bs log)"
  using assms
proof (induction bs arbitrary: log)
  case Nil
  then show ?case by simp
next
  case (Cons b bs)
  obtain log' where log': "write_all (\<lambda>_. False) False b log = (Inr (), log')" "log_ok log'"
    "sizes_below bound log'" "rs_max_files (sl_rotation log') = rs_max_files (sl_rotation log)"
    "rs_max_bytes (sl_rotation log') = rs_max_bytes (sl_rotation log)"
    using write_all_sizes [OF Cons.prems(1-4), of b] Cons.prems(5) by auto
  then show ?case using Cons.IH [OF log'(2,3)] Cons.prems by simp
qed

theorem rotating_log_is_bounded_witness:
  "sizes_below 8 (write_many [''12345678'', ''abcdef''] (service_log_new ''/l'' 8 2 empty_fs))"
  by (rule rotating_log_is_bounded [OF service_log_new_ok])
    (auto simp: sizes_below_def generation_def service_log_new_def open_append_def empty_fs_def
      rotation_state_new_def split: if_splits)

end
