(* ===== verification/Supervision.thy ===== *)
theory Supervision
  imports Services
begin

text \<open>
  \<open>src/agent/service.rs\<close> and the parts of \<open>src/agent/lifecycle.rs\<close> that stop services: how a
  supervised service is started, waited for, restarted and stopped. A loop that waits is a function
  of the list of what it observes on each round (the stop flag, the health of the other services,
  the state of the child, the clock); a list that ends before the loop does gives \<open>None\<close>. Sockets,
  files, the user database and \<open>spawn\<close> are arguments. Durations are numbers of nanoseconds.
\<close>

section \<open>Configured times\<close>

definition parse_or :: "duration \<Rightarrow> string \<Rightarrow> duration" where
  "parse_or d v = (case parse_duration v of Inr x \<Rightarrow> x | Inl _ \<Rightarrow> d)"

definition duration_or :: "duration \<Rightarrow> string option \<Rightarrow> duration" where
  "duration_or d ov = (case ov of None \<Rightarrow> d | Some v \<Rightarrow> parse_or d v)"

definition health_check_interval :: "health_check option \<Rightarrow> duration" where
  "health_check_interval check = (case check of
       Some (HcTcp _ _ (Some v) _) \<Rightarrow> parse_or (from_secs 2) v
     | Some (HcHttp _ _ _ (Some v) _) \<Rightarrow> parse_or (from_secs 2) v
     | _ \<Rightarrow> from_millis 250)"

definition health_check_timeout :: "health_check option \<Rightarrow> duration" where
  "health_check_timeout check = (case check of
       Some (HcTcp _ _ _ (Some v)) \<Rightarrow> parse_or (from_secs 1) v
     | Some (HcHttp _ _ _ _ (Some v)) \<Rightarrow> parse_or (from_secs 1) v
     | _ \<Rightarrow> from_secs 1)"

definition service_startup_timeout :: "service_config \<Rightarrow> duration" where
  "service_startup_timeout s = duration_or (from_secs 10) (sc_startup_timeout s)"

lemma duration_or_le_max: "d \<le> duration_max \<Longrightarrow> duration_or d ov \<le> duration_max"
  by (auto simp: duration_or_def parse_or_def parse_duration_le_max split: option.splits sum.splits)

section \<open>Health and status\<close>

text \<open>A child is its process id and whether that process still exists.\<close>

record managed_service =
  ms_config :: service_config
  ms_child :: "(nat \<times> bool) option"
  ms_stopping :: bool
  ms_restart_count :: nat
  ms_last_error :: "string option"

definition managed_service_new :: "service_config \<Rightarrow> managed_service" where
  "managed_service_new config =
     \<lparr>ms_config = config, ms_child = None, ms_stopping = False, ms_restart_count = 0,
      ms_last_error = None\<rparr>"

text \<open>The network within a timeout: a TCP connection that succeeds, an HTTP answer that matches.\<close>

record network =
  nw_tcp :: "string \<Rightarrow> nat \<Rightarrow> duration \<Rightarrow> bool"
  nw_http :: "string \<Rightarrow> nat \<Rightarrow> (string, string) btree \<Rightarrow> duration \<Rightarrow> bool"

definition service_vars :: "string \<Rightarrow> vars" where
  "service_vars state_dir = [(''container_state_dir'', state_dir)]"

definition child_running :: "managed_service \<Rightarrow> bool" where
  "child_running m = (case ms_child m of Some (_, alive) \<Rightarrow> alive | None \<Rightarrow> False)"

definition health_check :: "network \<Rightarrow> string \<Rightarrow> managed_service \<Rightarrow> bool res" where
  "health_check nw state_dir m =
     (let check = sc_health_check (ms_config m); timeout = health_check_timeout check in
      case check of
        None \<Rightarrow> Inr (child_running m)
      | Some HcProcess \<Rightarrow> Inr (child_running m)
      | Some (HcTcp host port _ _) \<Rightarrow> Inr (nw_tcp nw host port timeout)
      | Some (HcHttp url expect_status expect_json _ _) \<Rightarrow>
          map_ok (\<lambda>u. nw_http nw u (unwrap_or 200 expect_status) expect_json timeout)
            (render url (service_vars state_dir))
      | Some (HcCommand _ _) \<Rightarrow> Inr False)"

definition is_healthy :: "network \<Rightarrow> string \<Rightarrow> managed_service \<Rightarrow> bool" where
  "is_healthy nw state_dir m = (case health_check nw state_dir m of Inr b \<Rightarrow> b | Inl _ \<Rightarrow> False)"

record service_status =
  ss_name :: string
  ss_required :: bool
  ss_state :: string
  ss_pid :: "nat option"
  ss_healthy :: bool
  ss_restart_count :: nat
  ss_last_error :: "string option"

definition managed_service_status :: "network \<Rightarrow> string \<Rightarrow> managed_service \<Rightarrow> service_status" where
  "managed_service_status nw state_dir m =
     (let (state, pid) = (case ms_child m of
          Some (pid, True) \<Rightarrow> (''running'', Some pid)
        | Some (_, False) \<Rightarrow> (''exited'', None)
        | None \<Rightarrow> (''stopped'', None))
      in \<lparr>ss_name = sc_name (ms_config m), ss_required = sc_required (ms_config m),
          ss_state = state, ss_pid = pid, ss_healthy = is_healthy nw state_dir m,
          ss_restart_count = ms_restart_count m, ss_last_error = ms_last_error m\<rparr>)"

section \<open>Starting a service\<close>

record service_launch =
  sl_program :: string
  sl_args :: "string list"
  sl_cwd :: "string option"
  sl_env :: "(string, string) btree"

record service_identity =
  si_uid :: nat
  si_gid :: nat
  si_groups :: "nat list"

record host =
  ho_read_file :: "string \<Rightarrow> string option"
  ho_env_var :: "string \<Rightarrow> string option"
  ho_getpwnam :: "string \<Rightarrow> (nat \<times> nat) option"
  ho_groups :: "string \<Rightarrow> nat \<Rightarrow> nat list res"
  ho_open_log :: "string \<Rightarrow> unit res"
  ho_spawn :: "service_launch \<Rightarrow> service_identity option \<Rightarrow> nat res"

definition contains_nul :: "string \<Rightarrow> bool" where
  "contains_nul s \<longleftrightarrow> CHR 0x00 \<in> set s"

definition resolve_service_user :: "host \<Rightarrow> string \<Rightarrow> (nat \<times> nat) res" where
  "resolve_service_user h name =
     (if contains_nul name then Inl (Bail ''service user contains NUL byte'' [])
      else ok_or (Bail ''service user {} does not exist'' [name]) (ho_getpwnam h name))"

definition service_identity :: "host \<Rightarrow> string \<Rightarrow> service_identity option res" where
  "service_identity h user =
     (if user = ''root'' then Inr None
      else and_then (resolve_service_user h user) (\<lambda>(uid, gid).
        map_ok (\<lambda>groups. Some \<lparr>si_uid = uid, si_gid = gid, si_groups = groups\<rparr>)
          (with_context ''resolve groups for service user'' (ho_groups h user gid))))"

fun service_env_loop ::
  "host \<Rightarrow> vars \<Rightarrow> (string \<times> env_value) list \<Rightarrow> (string, string) btree \<Rightarrow> (string, string) btree res"
where
  "service_env_loop h vars [] env = Inr env"
| "service_env_loop h vars ((key, e) # rest) env =
     and_then (env_resolve (ho_read_file h) (ho_env_var h) e vars) (\<lambda>v.
       service_env_loop h vars rest (case v of Some x \<Rightarrow> bt_insert key x env | None \<Rightarrow> env))"

definition base_env :: "host \<Rightarrow> (string, string) btree" where
  "base_env h =
     (let env = bt_insert ''PATH''
            (unwrap_or ''/usr/local/bin:/usr/bin:/bin'' (ho_env_var h ''PATH'')) []
      in case ho_env_var h ''HOME'' of Some home \<Rightarrow> bt_insert ''HOME'' home env | None \<Rightarrow> env)"

definition service_launch_of ::
  "host \<Rightarrow> vars \<Rightarrow> service_config \<Rightarrow> string \<Rightarrow> string list \<Rightarrow> service_launch res" where
  "service_launch_of h vars s program args =
     and_then (case sc_cwd s of Some cwd \<Rightarrow> map_ok Some (render cwd vars) | None \<Rightarrow> Inr None) (\<lambda>cwd.
       map_ok (\<lambda>env. \<lparr>sl_program = program, sl_args = args, sl_cwd = cwd, sl_env = env\<rparr>)
         (service_env_loop h vars (sc_env s) (base_env h)))"

text \<open>\<open>None\<close> is the panic of \<open>command_argv[0]\<close> on an empty command; the working directory and the
  environment are prepared only after it.\<close>

definition start_service ::
  "host \<Rightarrow> string \<Rightarrow> managed_service \<Rightarrow> managed_service res option" where
  "start_service h state_dir m =
     (let s = ms_config m; vars = service_vars state_dir in
      case and_then (ho_open_log h (sc_name s)) (\<lambda>_. render_argv (sc_command s) vars) of
        Inl e \<Rightarrow> Some (Inl e)
      | Inr [] \<Rightarrow> None
      | Inr (program # args) \<Rightarrow> Some
          (and_then (service_launch_of h vars s program args) (\<lambda>launch.
           and_then (bail_if (ms_stopping m) (Bail ''service {} is stopping'' [sc_name s])) (\<lambda>_.
           and_then (service_identity h (sc_user s)) (\<lambda>identity.
             map_ok (\<lambda>pid. m\<lparr>ms_child := Some (pid, True)\<rparr>)
               (with_context ''spawn service'' (ho_spawn h launch identity)))))))"

section \<open>Waiting for the dependencies\<close>

text \<open>What one round of the loop sees: the stop flag and the health of each service.\<close>

record dep_round =
  dr_stopping :: bool
  dr_healthy :: "service_config \<Rightarrow> bool"

fun missing_dependencies ::
  "(service_config \<Rightarrow> bool) \<Rightarrow> service_config list \<Rightarrow> string list \<Rightarrow> string list \<Rightarrow> string list res"
where
  "missing_dependencies healthy all [] missing = Inr missing"
| "missing_dependencies healthy all (dep # deps) missing =
     (case find (\<lambda>candidate. sc_name candidate = dep) all of
        None \<Rightarrow> Inl (Bail ''dependency {} is not configured'' [dep])
      | Some dep_service \<Rightarrow>
          missing_dependencies healthy all deps
            (if healthy dep_service then missing else missing @ [dep]))"

definition dependency_health_interval :: "string list \<Rightarrow> service_config list \<Rightarrow> duration" where
  "dependency_health_interval missing all =
     (let found = List.map_filter (\<lambda>name. find (\<lambda>s. sc_name s = name) all) missing;
          intervals = map (\<lambda>s. health_check_interval (sc_health_check s)) found
      in if intervals = [] then from_millis 250 else Min (set intervals))"

definition WAITING :: string where
  "WAITING = ''waiting for dependencies: ''"

record wait_state =
  ws_last_error :: "string option"
  ws_sleeps :: "duration list"

fun wait_loop ::
  "service_config \<Rightarrow> service_config list \<Rightarrow> dep_round list \<Rightarrow> wait_state \<Rightarrow>
    bool res option \<times> wait_state"
where
  "wait_loop s all [] st = (None, st)"
| "wait_loop s all (r # rs) st =
     (if dr_stopping r then (Some (Inr False), st)
      else case missing_dependencies (dr_healthy r) all (sc_depends_on s) [] of
        Inl e \<Rightarrow> (Some (Inl e), st)
      | Inr [] \<Rightarrow> (Some (Inr True),
          (case ws_last_error st of
             Some e \<Rightarrow> if starts_with WAITING e then st\<lparr>ws_last_error := None\<rparr> else st
           | None \<Rightarrow> st))
      | Inr missing \<Rightarrow> wait_loop s all rs
          (st\<lparr>ws_last_error := Some (WAITING @ join '', '' missing),
              ws_sleeps := ws_sleeps st @ [dependency_health_interval missing all]\<rparr>))"

definition wait_for_dependencies ::
  "service_config \<Rightarrow> service_config list \<Rightarrow> dep_round list \<Rightarrow> wait_state \<Rightarrow>
    bool res option \<times> wait_state" where
  "wait_for_dependencies s all rounds st =
     (if sc_depends_on s = [] then (Some (Inr True), st) else wait_loop s all rounds st)"

section \<open>Watching a running child\<close>

record run_result =
  run_exit_success :: bool
  run_healthy_uptime :: bool

text \<open>The outcome of \<open>try_wait\<close> on the child slot; an empty slot counts as a successful exit.\<close>

datatype child_poll = Exited bool | WaitError string | StillRunning | NoChild

record watch_poll =
  wp_child :: child_poll
  wp_elapsed :: duration
  wp_healthy :: bool

definition required_health_restart :: "service_config \<Rightarrow> bool" where
  "required_health_restart s \<longleftrightarrow>
     sc_required s \<and> (case sc_health_check s of None \<Rightarrow> False | Some HcProcess \<Rightarrow> False | _ \<Rightarrow> True)"

text \<open>The result, the last error, and whether the child was stopped for being unhealthy.\<close>

fun watch_loop ::
  "service_config \<Rightarrow> watch_poll list \<Rightarrow> bool \<Rightarrow> string option \<Rightarrow>
    run_result option \<times> string option \<times> bool"
where
  "watch_loop s [] healthy_uptime last_error = (None, last_error, False)"
| "watch_loop s (p # ps) healthy_uptime last_error =
     (let health_grace = service_startup_timeout s;
          exited = (\<lambda>success.
            (Some \<lparr>run_exit_success = success,
                   run_healthy_uptime = healthy_uptime \<or> success \<and> wp_elapsed p \<ge> health_grace\<rparr>,
             (if success then None else Some ''service exited unsuccessfully''), False))
      in case wp_child p of
        Exited success \<Rightarrow> exited success
      | NoChild \<Rightarrow> exited True
      | WaitError e \<Rightarrow>
          (Some \<lparr>run_exit_success = False, run_healthy_uptime = healthy_uptime\<rparr>, Some e, False)
      | StillRunning \<Rightarrow>
          if wp_elapsed p \<ge> health_grace
          then
            if required_health_restart s \<and> \<not> wp_healthy p
            then (Some \<lparr>run_exit_success = False, run_healthy_uptime = healthy_uptime\<rparr>,
              Some ''required service health check failed'', True)
            else watch_loop s ps True last_error
          else watch_loop s ps healthy_uptime last_error)"

definition wait_for_service_exit_or_unhealthy ::
  "service_config \<Rightarrow> watch_poll list \<Rightarrow> string option \<Rightarrow> run_result option \<times> string option \<times> bool"
where
  "wait_for_service_exit_or_unhealthy s polls last_error = watch_loop s polls False last_error"

section \<open>The supervisor\<close>

fun should_restart :: "restart_policy \<Rightarrow> bool \<Rightarrow> bool" where
  "should_restart RestartNever exit_success = False"
| "should_restart RestartOnFailure exit_success = (\<not> exit_success)"
| "should_restart RestartAlways exit_success = True"

definition base_backoff :: "service_config \<Rightarrow> duration" where
  "base_backoff s = duration_or (from_secs 2) (sc_restart_backoff s)"

definition max_backoff :: "service_config \<Rightarrow> duration" where
  "max_backoff s = duration_or (from_secs 30) (sc_restart_backoff_max s)"

text \<open>What one round of the supervisor sees: the stop flag at its top, the outcome of the wait, the
  result of starting and watching the child (\<open>Inl\<close> for a failed start), the stop flag after it.\<close>

record supervisor_round =
  sr_stopping :: bool
  sr_wait :: "bool res"
  sr_run :: "error + run_result"
  sr_stopping_after :: bool

record supervisor =
  sv_backoff :: duration
  sv_restart_count :: nat
  sv_sleeps :: "duration list"

text \<open>One round: the new state, or \<open>None\<close> with the final state when the loop ends.\<close>

definition sleep_and_double :: "service_config \<Rightarrow> supervisor \<Rightarrow> supervisor" where
  "sleep_and_double s sv =
     sv\<lparr>sv_sleeps := sv_sleeps sv @ [sv_backoff sv],
        sv_backoff := min (saturating_mul (sv_backoff sv) 2) (max_backoff s)\<rparr>"

definition run_outcome :: "error + run_result \<Rightarrow> run_result" where
  "run_outcome r = (case r of
       Inl _ \<Rightarrow> \<lparr>run_exit_success = False, run_healthy_uptime = False\<rparr>
     | Inr rr \<Rightarrow> rr)"

fun supervise :: "service_config \<Rightarrow> supervisor_round list \<Rightarrow> supervisor \<Rightarrow> bool \<times> supervisor" where
  "supervise s [] sv = (False, sv)"
| "supervise s (r # rs) sv =
     (if sr_stopping r then (True, sv)
      else case sr_wait r of
        Inl e \<Rightarrow> supervise s rs (sleep_and_double s sv)
      | Inr False \<Rightarrow> (True, sv)
      | Inr True \<Rightarrow>
          let result = run_outcome (sr_run r);
              sv = (if run_healthy_uptime result then sv\<lparr>sv_backoff := base_backoff s\<rparr> else sv)
          in if sr_stopping_after r \<or> \<not> should_restart (sc_restart s) (run_exit_success result)
             then (True, sv)
             else supervise s rs
               (sleep_and_double s (sv\<lparr>sv_restart_count := Suc (sv_restart_count sv)\<rparr>)))"

definition service_supervisor :: "service_config \<Rightarrow> supervisor_round list \<Rightarrow> bool \<times> supervisor" where
  "service_supervisor s rounds =
     supervise s rounds \<lparr>sv_backoff = base_backoff s, sv_restart_count = 0, sv_sleeps = []\<rparr>"

section \<open>Stopping the services\<close>

abbreviation ms_name :: "managed_service \<Rightarrow> string" where
  "ms_name m \<equiv> sc_name (ms_config m)"

abbreviation ms_depends_on :: "managed_service \<Rightarrow> string list" where
  "ms_depends_on m \<equiv> sc_depends_on (ms_config m)"

definition dependents :: "managed_service list \<Rightarrow> string \<Rightarrow> string list" where
  "dependents services name =
     map ms_name (filter (\<lambda>candidate. name \<in> set (ms_depends_on candidate)) services)"

function
  stop_visit :: "managed_service list \<Rightarrow> string \<Rightarrow> string set \<Rightarrow> managed_service list \<Rightarrow>
    string set \<times> managed_service list"
and
  stop_visits :: "managed_service list \<Rightarrow> string list \<Rightarrow> string set \<Rightarrow> managed_service list \<Rightarrow>
    string set \<times> managed_service list"
where
  "stop_visit services name visited ordered =
     (if name \<in> visited then (visited, ordered)
      else case stop_visits services (dependents services name) (insert name visited) ordered of
        (visited', ordered') \<Rightarrow>
          (visited',
           case find (\<lambda>candidate. ms_name candidate = name) services of
             Some service \<Rightarrow> ordered' @ [service]
           | None \<Rightarrow> ordered'))"
| "stop_visits services [] visited ordered = (visited, ordered)"
| "stop_visits services (name # names) visited ordered =
     (case stop_visit services name visited ordered of
        (visited', ordered') \<Rightarrow> stop_visits services names visited' ordered')"
  by pat_completeness auto

text \<open>Each call marks names and never unmarks one, so that the names still to be marked decrease.\<close>

lemma stop_visit_marks_dom:
  "stop_visit_stop_visits_dom (Inl (services, name, visited, ordered)) \<Longrightarrow>
    visited \<subseteq> fst (stop_visit services name visited ordered)"
  "stop_visit_stop_visits_dom (Inr (services, names, visited, ordered)) \<Longrightarrow>
    visited \<subseteq> fst (stop_visits services names visited ordered)"
proof (induction services name visited ordered and services names visited ordered
    rule: stop_visit_stop_visits.pinduct)
  case (1 services name visited ordered)
  then show ?case by (auto simp: stop_visit.psimps split: prod.splits option.splits)
next
  case (2 services visited ordered)
  then show ?case by (simp add: stop_visits.psimps)
next
  case (3 services name names visited ordered)
  then show ?case by (fastforce simp: stop_visits.psimps split: prod.splits)
qed

lemma dependents_known: "set (dependents services name) \<subseteq> ms_name ` set services"
  by (auto simp: dependents_def)

termination stop_visit
proof (relation "inv_image (less_than <*lex*> less_than) (\<lambda>x. case x of
     Inl (services, name, visited, ordered) \<Rightarrow>
       (card (ms_name ` set services \<union> {name} - visited), 0)
   | Inr (services, names, visited, ordered) \<Rightarrow>
       (card (ms_name ` set services \<union> set names - visited), Suc (length names)))", goal_cases)
  case 1
  show ?case by (intro wf_inv_image wf_lex_prod wf_less_than)
next
  case (2 services name visited ordered)
  have "ms_name ` set services \<union> set (dependents services name) - insert name visited
      \<subset> ms_name ` set services \<union> {name} - visited"
    using 2 dependents_known [of services name] by blast
  then have "card (ms_name ` set services \<union> set (dependents services name) - insert name visited)
      < card (ms_name ` set services \<union> {name} - visited)"
    by (intro psubset_card_mono) auto
  then show ?case by simp
next
  case (3 services name names visited ordered)
  have "card (ms_name ` set services \<union> {name} - visited)
      \<le> card (ms_name ` set services \<union> set (name # names) - visited)"
    by (intro card_mono) auto
  then show ?case by auto
next
  case (4 services name names visited ordered visited' ordered')
  then have "visited \<subseteq> visited'" using stop_visit_marks_dom(1) by (metis fst_conv)
  then have "card (ms_name ` set services \<union> set names - visited')
      \<le> card (ms_name ` set services \<union> set (name # names) - visited)"
    by (intro card_mono) auto
  then show ?case by auto
qed

declare stop_visit.simps [simp del]

definition service_stop_order :: "managed_service list \<Rightarrow> managed_service list" where
  "service_stop_order services = snd (stop_visits services (map ms_name services) {} [])"

definition shutdown_timeout :: "service_config \<Rightarrow> duration" where
  "shutdown_timeout s = duration_or (from_secs 10) (sc_shutdown_timeout s)"

datatype stop_signal = SIGTERM | SIGKILL

text \<open>A child that exits \<open>exits\<close> after the signal (never for \<open>None\<close>) and the time until the wait for it
  ends.\<close>

definition stop_child_gracefully ::
  "service_config \<Rightarrow> duration option \<Rightarrow> duration \<times> stop_signal list" where
  "stop_child_gracefully s exits =
     (let timeout = shutdown_timeout s in
      case exits of
        Some t \<Rightarrow> if t \<le> timeout then (t, [SIGTERM]) else (timeout, [SIGTERM, SIGKILL])
      | None \<Rightarrow> (timeout, [SIGTERM, SIGKILL]))"

definition managed_service_stop ::
  "(string \<Rightarrow> duration option) \<Rightarrow> managed_service \<Rightarrow>
    managed_service \<times> duration \<times> (string \<times> stop_signal) list" where
  "managed_service_stop exits m =
     (let stopped = m\<lparr>ms_stopping := True, ms_child := None\<rparr> in
      case ms_child m of
        Some _ \<Rightarrow>
          (case stop_child_gracefully (ms_config m) (exits (ms_name m)) of
             (t, signals) \<Rightarrow> (stopped, t, map (Pair (ms_name m)) signals))
      | None \<Rightarrow> (stopped, 0, []))"

fun stop_each ::
  "(string \<Rightarrow> duration option) \<Rightarrow> managed_service list \<Rightarrow>
    managed_service list \<times> duration \<times> (string \<times> stop_signal) list" where
  "stop_each exits [] = ([], 0, [])"
| "stop_each exits (m # ms) =
     (case managed_service_stop exits m of (m', t, signals) \<Rightarrow>
      case stop_each exits ms of (ms', ts, signals') \<Rightarrow> (m' # ms', t + ts, signals @ signals'))"

definition stop_services ::
  "(string \<Rightarrow> duration option) \<Rightarrow> managed_service list \<Rightarrow>
    managed_service list \<times> duration \<times> (string \<times> stop_signal) list" where
  "stop_services exits services = stop_each exits (service_stop_order services)"

definition SHUTDOWN_WATCHDOG_MARGIN :: duration where
  "SHUTDOWN_WATCHDOG_MARGIN = from_secs 5"

definition shutdown_watchdog_delay :: "managed_service list \<Rightarrow> duration \<Rightarrow> duration" where
  "shutdown_watchdog_delay services minimum =
     max minimum
       (saturating_add
         (foldl saturating_add 0
           (map (\<lambda>m. shutdown_timeout (ms_config m)) (service_stop_order services)))
         SHUTDOWN_WATCHDOG_MARGIN)"

section \<open>Lemmas on the stop order\<close>

lemma find_Some_iff_distinct:
  assumes "distinct (map f xs)"
  shows "find (\<lambda>x. f x = k) xs = Some x \<longleftrightarrow> x \<in> set xs \<and> f x = k"
proof -
  have "find (\<lambda>x. f x = k) xs = map_of (map (\<lambda>x. (f x, x)) xs) k"
    by (induction xs) auto
  then show ?thesis using assms by (auto simp: map_of_eq_Some_iff comp_def)
qed

text \<open>\<open>waits_for\<close> is the dependency relation on names; an order is closed when all dependents of
  each of its elements come before it.\<close>

definition waits_for :: "managed_service list \<Rightarrow> (string \<times> string) set" where
  "waits_for services = service_edges (map ms_config services)"

lemma waits_for_iff:
  "(a, b) \<in> waits_for services \<longleftrightarrow> (\<exists>m \<in> set services. ms_name m = a \<and> b \<in> set (ms_depends_on m))"
  by (auto simp: waits_for_def service_edges_def)

lemma dependents_iff: "d \<in> set (dependents services name) \<longleftrightarrow> (d, name) \<in> waits_for services"
  by (auto simp: dependents_def waits_for_iff)

definition stop_state_ok ::
  "managed_service list \<Rightarrow> string set \<Rightarrow> string set \<Rightarrow> managed_service list \<Rightarrow> bool" where
  "stop_state_ok services open_names visited ordered \<longleftrightarrow>
     visited = open_names \<union> ms_name ` set ordered \<and> open_names \<inter> ms_name ` set ordered = {}
     \<and> set ordered \<subseteq> set services \<and> distinct (map ms_name ordered)
     \<and> (\<forall>i < length ordered. \<forall>d. (d, ms_name (ordered ! i)) \<in> waits_for services \<longrightarrow>
         d \<in> ms_name ` set (take i ordered))"

lemma stop_state_extend:
  assumes "stop_state_ok services (insert name open_names) visited ordered"
    and "m \<in> set services" and "ms_name m = name" and "name \<notin> open_names"
    and "\<And>d. (d, name) \<in> waits_for services \<Longrightarrow> d \<in> ms_name ` set ordered"
  shows "stop_state_ok services open_names visited (ordered @ [m])"
proof -
  have "\<forall>i < length (ordered @ [m]). \<forall>d. (d, ms_name ((ordered @ [m]) ! i)) \<in> waits_for services \<longrightarrow>
      d \<in> ms_name ` set (take i (ordered @ [m]))"
    using assms(1,3,5) unfolding stop_state_ok_def by (auto simp: nth_append less_Suc_eq)
  with assms(1-4) show ?thesis unfolding stop_state_ok_def by auto
qed

text \<open>Visiting a name whose open ancestors all lead to it closes it and everything that waits for it.\<close>

lemma stop_visit_ok:
  assumes "distinct (map ms_name services)" and "acyclic (waits_for services)"
  shows "stop_state_ok services open_names visited ordered \<Longrightarrow> name \<in> ms_name ` set services \<Longrightarrow>
      (\<And>g. g \<in> open_names \<Longrightarrow> (name, g) \<in> (waits_for services)\<^sup>+) \<Longrightarrow>
      stop_visit services name visited ordered = (visited', ordered') \<Longrightarrow>
      stop_state_ok services open_names visited' ordered'
        \<and> set ordered \<subseteq> set ordered' \<and> name \<in> ms_name ` set ordered'"
    and "stop_state_ok services open_names visited ordered \<Longrightarrow> set names \<subseteq> ms_name ` set services \<Longrightarrow>
      (\<And>n g. n \<in> set names \<Longrightarrow> g \<in> open_names \<Longrightarrow> (n, g) \<in> (waits_for services)\<^sup>+) \<Longrightarrow>
      stop_visits services names visited ordered = (visited', ordered') \<Longrightarrow>
      stop_state_ok services open_names visited' ordered'
        \<and> set ordered \<subseteq> set ordered' \<and> set names \<subseteq> ms_name ` set ordered'"
  using assms
proof (induction services name visited ordered and services names visited ordered
    arbitrary: open_names visited' ordered' and open_names visited' ordered'
    rule: stop_visit_stop_visits.induct)
  case (1 services name visited ordered)
  show ?case
  proof (cases "name \<in> visited")
    case True
    moreover have "name \<notin> open_names" using "1.prems"(3,6) by (meson acyclic_def)
    ultimately show ?thesis using "1.prems"(1,4)
      by (auto simp: stop_visit.simps stop_state_ok_def)
  next
    case False
    obtain v o' where run: "stop_visits services (dependents services name) (insert name visited) ordered
        = (v, o')" by fastforce
    from "1.prems"(2) obtain m where m: "m \<in> set services" "ms_name m = name" by auto
    then have result: "visited' = v" "ordered' = o' @ [m]"
      using "1.prems"(4,5) False run find_Some_iff_distinct [of ms_name services name m]
      by (auto simp: stop_visit.simps)
    have opened: "stop_state_ok services (insert name open_names) (insert name visited) ordered"
      using "1.prems"(1) False by (auto simp: stop_state_ok_def)
    have paths: "(n, g) \<in> (waits_for services)\<^sup>+"
      if "n \<in> set (dependents services name)" "g \<in> insert name open_names" for n g
      using that "1.prems"(3) by (auto simp: dependents_iff intro: trancl_into_trancl2)
    have sub: "stop_state_ok services (insert name open_names) v o' \<and> set ordered \<subseteq> set o'
        \<and> set (dependents services name) \<subseteq> ms_name ` set o'"
      by (rule "1.IH" [OF False opened dependents_known paths run "1.prems"(5,6)])
    have "stop_state_ok services open_names v (o' @ [m])"
      by (rule stop_state_extend [of services name])
        (use sub m False "1.prems"(1) dependents_iff in \<open>auto simp: stop_state_ok_def\<close>)
    with sub m result show ?thesis by auto
  qed
next
  case (2 services visited ordered)
  then show ?case by simp
next
  case (3 services name names visited ordered)
  obtain v o' where run: "stop_visit services name visited ordered = (v, o')" by fastforce
  have first: "stop_state_ok services open_names v o' \<and> set ordered \<subseteq> set o'
      \<and> name \<in> ms_name ` set o'"
    by (rule "3.IH"(1) [OF "3.prems"(1) _ _ run "3.prems"(5,6)]) (use "3.prems"(2,3) in auto)
  have rest: "stop_visits services names v o' = (visited', ordered')"
    using "3.prems"(4) run by simp
  have "stop_state_ok services open_names visited' ordered' \<and> set o' \<subseteq> set ordered'
      \<and> set names \<subseteq> ms_name ` set ordered'"
    by (rule "3.IH"(2) [OF run [symmetric] _ _ _ rest "3.prems"(5,6)])
      (use first "3.prems"(2,3) in auto)
  with first show ?case by auto
qed

lemma stop_order_ok:
  assumes "distinct (map ms_name services)" and "acyclic (waits_for services)"
  shows "set (service_stop_order services) = set services \<and> distinct (map ms_name (service_stop_order services))
    \<and> (\<forall>i < length (service_stop_order services). \<forall>d.
        (d, ms_name (service_stop_order services ! i)) \<in> waits_for services \<longrightarrow>
        d \<in> ms_name ` set (take i (service_stop_order services)))"
proof -
  obtain visited ordered where run: "stop_visits services (map ms_name services) {} [] = (visited, ordered)"
    by fastforce
  have start: "stop_state_ok services {} {} []" by (simp add: stop_state_ok_def)
  have final: "stop_state_ok services {} visited ordered \<and> set (map ms_name services) \<subseteq> ms_name ` set ordered"
    using stop_visit_ok(2) [OF assms start _ _ run] by simp
  have "set services \<subseteq> set ordered"
  proof
    fix m
    assume m: "m \<in> set services"
    with final obtain n where n: "n \<in> set ordered" "ms_name n = ms_name m" by auto
    with final m assms(1) have "n = m" by (auto simp: stop_state_ok_def distinct_map dest: inj_onD)
    with n show "m \<in> set ordered" by simp
  qed
  with final run show ?thesis by (auto simp: service_stop_order_def stop_state_ok_def)
qed

lemma validated_services_order:
  assumes "validate_services mode (map ms_config services) = Inr ()"
  shows "distinct (map ms_name services)" and "acyclic (waits_for services)"
proof -
  have "distinct (map sc_name (map ms_config services))"
    and "validate_service_dependency_graph (map ms_config services) = Inr ()"
    using assms unfolding validate_services_Inr by blast+
  then show "distinct (map ms_name services)" "acyclic (waits_for services)"
    using dependency_graph_result [of "map ms_config services"] by (auto simp: waits_for_def comp_def)
qed

lemma stop_each_time:
  "fst (snd (stop_each exits ms)) \<le> (\<Sum>m \<leftarrow> ms. shutdown_timeout (ms_config m))"
proof (induction ms)
  case (Cons m ms)
  have "fst (snd (managed_service_stop exits m)) \<le> shutdown_timeout (ms_config m)"
    by (auto simp: managed_service_stop_def stop_child_gracefully_def Let_def
        split: option.splits prod.splits if_splits)
  with Cons show ?case by (auto split: prod.splits)
qed simp

lemma foldl_saturating_add:
  "foldl saturating_add (min a duration_max) ts = min (a + sum_list ts) duration_max"
proof (induction ts arbitrary: a)
  case (Cons t ts)
  have "saturating_add (min a duration_max) t = min (a + t) duration_max"
    by (auto simp: saturating_add_def min_def)
  with Cons [of "a + t"] show ?case by (simp add: add.assoc)
qed simp

lemma watchdog_delay_eq:
  "shutdown_watchdog_delay services minimum = max minimum (min
    ((\<Sum>m \<leftarrow> service_stop_order services. shutdown_timeout (ms_config m)) + SHUTDOWN_WATCHDOG_MARGIN)
    duration_max)"
proof -
  have "foldl saturating_add 0 ts = min (sum_list ts) duration_max" for ts
    using foldl_saturating_add [of 0 ts] by simp
  then show ?thesis by (simp add: shutdown_watchdog_delay_def saturating_add_def min_def)
qed

section \<open>Lemmas on waiting and restarting\<close>

lemma missing_dependencies_known:
  assumes "set deps \<subseteq> sc_name ` set all"
  shows "missing_dependencies healthy all deps missing = Inr (missing @
    filter (\<lambda>dep. \<forall>s. find (\<lambda>c. sc_name c = dep) all = Some s \<longrightarrow> \<not> healthy s) deps)"
  using assms
proof (induction deps arbitrary: missing)
  case (Cons dep deps)
  then have "find (\<lambda>c. sc_name c = dep) all \<noteq> None" by (auto simp: find_None_iff)
  with Cons show ?case by auto
qed simp

text \<open>All dependencies of a service are healthy in a round.\<close>

definition dependencies_healthy :: "service_config \<Rightarrow> service_config list \<Rightarrow> dep_round \<Rightarrow> bool" where
  "dependencies_healthy s all r \<longleftrightarrow>
     (\<forall>dep \<in> set (sc_depends_on s). \<exists>d. find (\<lambda>c. sc_name c = dep) all = Some d \<and> dr_healthy r d)"

lemma no_missing_iff:
  assumes "set (sc_depends_on s) \<subseteq> sc_name ` set all"
  shows "missing_dependencies (dr_healthy r) all (sc_depends_on s) [] = Inr [] \<longleftrightarrow> dependencies_healthy s all r"
proof -
  have "find (\<lambda>c. sc_name c = dep) all \<noteq> None" if "dep \<in> set (sc_depends_on s)" for dep
    using that assms by (auto simp: find_None_iff)
  then show ?thesis
    by (fastforce simp: missing_dependencies_known [OF assms] dependencies_healthy_def filter_empty_conv)
qed

lemma wait_loop_result:
  assumes "set (sc_depends_on s) \<subseteq> sc_name ` set all"
  shows "fst (wait_loop s all rounds st) =
    map_option (\<lambda>r. Inr (\<not> dr_stopping r))
      (find (\<lambda>r. dr_stopping r \<or> dependencies_healthy s all r) rounds)"
proof (induction rounds arbitrary: st)
  case (Cons r rounds)
  show ?case
  proof (cases "dr_stopping r")
    case False
    obtain missing where run: "missing_dependencies (dr_healthy r) all (sc_depends_on s) [] = Inr missing"
      using missing_dependencies_known [OF assms] by blast
    then have "missing = [] \<longleftrightarrow> dependencies_healthy s all r" using no_missing_iff [OF assms, of r] by simp
    with False run Cons show ?thesis by (cases missing) auto
  qed simp
qed simp

definition retry_delay :: "service_config \<Rightarrow> nat \<Rightarrow> duration" where
  "retry_delay s k =
     (if k = 0 then base_backoff s else min (2 ^ k * base_backoff s) (max_backoff s))"

lemma retry_delay_step:
  "min (saturating_mul (retry_delay s k) 2) (max_backoff s) = retry_delay s (Suc k)"
proof -
  have "max_backoff s \<le> duration_max"
    unfolding max_backoff_def
    by (rule duration_or_le_max) (simp add: duration_max_def from_secs_def u64_limit_def)
  then show ?thesis by (auto simp: retry_delay_def saturating_mul_def min_def)
qed

definition round_retried :: "service_config \<Rightarrow> supervisor_round \<Rightarrow> bool" where
  "round_retried s r \<longleftrightarrow> \<not> sr_stopping r \<and>
     (case sr_wait r of
        Inl _ \<Rightarrow> True
      | Inr ready \<Rightarrow> ready \<and> \<not> sr_stopping_after r
          \<and> should_restart (sc_restart s) (run_exit_success (run_outcome (sr_run r))))"

definition round_healthy :: "supervisor_round \<Rightarrow> bool" where
  "round_healthy r \<longleftrightarrow> sr_wait r = Inr True \<and> run_healthy_uptime (run_outcome (sr_run r))"

text \<open>For each retry, the number of retries since the service was last up and healthy.\<close>

fun retries :: "service_config \<Rightarrow> nat \<Rightarrow> supervisor_round list \<Rightarrow> nat list" where
  "retries s k [] = []"
| "retries s k (r # rs) =
     (if round_retried s r
      then (let k' = (if round_healthy r then 0 else k) in k' # retries s (Suc k') rs) else [])"

lemma supervise_retries:
  assumes "sv_backoff sv = retry_delay s k"
  shows "sv_sleeps (snd (supervise s rounds sv)) = sv_sleeps sv @ map (retry_delay s) (retries s k rounds)
    \<and> (fst (supervise s rounds sv) \<longleftrightarrow> (\<exists>r \<in> set rounds. \<not> round_retried s r))"
  using assms
proof (induction rounds arbitrary: sv k)
  case (Cons r rounds)
  show ?case
  proof (cases "round_retried s r")
    case False
    consider e where "sr_wait r = Inl e" | "sr_wait r = Inr True" | "sr_wait r = Inr False"
      by (cases "sr_wait r") auto
    then show ?thesis
      using False by cases (auto simp: round_retried_def Let_def)
  next
    case True
    let ?k = "if round_healthy r then 0 else k"
    obtain sv' where run: "supervise s (r # rounds) sv = supervise s rounds (sleep_and_double s sv')"
      and sv': "sv_backoff sv' = retry_delay s ?k" "sv_sleeps sv' = sv_sleeps sv"
    proof -
      consider e where "sr_wait r = Inl e" | "sr_wait r = Inr True"
        using True by (cases "sr_wait r") (auto simp: round_retried_def)
      then show ?thesis
      proof cases
        case 1
        with True Cons.prems show ?thesis
          by (intro that [of sv]) (auto simp: round_retried_def round_healthy_def)
      next
        case 2
        let ?sv = "if round_healthy r then sv\<lparr>sv_backoff := base_backoff s\<rparr> else sv"
        from 2 True Cons.prems show ?thesis
          by (intro that [of "?sv\<lparr>sv_restart_count := Suc (sv_restart_count sv)\<rparr>"])
            (auto simp: round_retried_def round_healthy_def Let_def retry_delay_def)
      qed
    qed
    have "sv_backoff (sleep_and_double s sv') = retry_delay s (Suc ?k)"
      by (simp add: sleep_and_double_def sv'(1) retry_delay_step)
    from Cons.IH [OF this] show ?thesis using True sv'
      by (simp add: run Let_def sleep_and_double_def del: supervise.simps)
  qed
qed simp

section \<open>Properties\<close>

text \<open>The stop order of accepted services holds each of them once, and none is stopped while a
  service that depends on it is still to be stopped.\<close>

theorem services_stop_before_their_dependencies:
  assumes "validate_services mode (map ms_config services) = Inr ()"
    and "service_stop_order services = order"
  shows "set order = set services \<and> distinct order
    \<and> (\<forall>i j. i < j \<and> j < length order \<longrightarrow> ms_name (order ! i) \<notin> set (ms_depends_on (order ! j)))"
proof -
  note ok = stop_order_ok [OF validated_services_order [OF assms(1)], unfolded assms(2)]
  have "ms_name (order ! i) \<notin> set (ms_depends_on (order ! j))" if ij: "i < j" "j < length order" for i j
  proof
    assume "ms_name (order ! i) \<in> set (ms_depends_on (order ! j))"
    moreover have "order ! j \<in> set services" using ok ij(2) nth_mem by blast
    ultimately have "(ms_name (order ! j), ms_name (order ! i)) \<in> waits_for services"
      by (auto simp: waits_for_iff)
    then have "ms_name (order ! j) \<in> ms_name ` set (take i order)" using ok ij by simp
    then obtain k where "k < i" "map ms_name order ! k = map ms_name order ! j"
      using ij by (auto simp: in_set_conv_nth)
    with ok ij show False by (metis length_map less_imp_neq nth_eq_iff_index_eq order.strict_trans)
  qed
  with ok show ?thesis by (simp add: distinct_map)
qed

definition demo_services :: "managed_service list" where
  "demo_services = [managed_service_new (plain_service ''a'' []),
     managed_service_new (plain_service ''b'' [''a''])]"

lemma plain_service_valid:
  "n \<in> {''a'', ''b''} \<Longrightarrow> set deps \<subseteq> {''a'', ''b''} \<Longrightarrow>
    service_validate (plain_service n deps) Literal = Inr ()"
  by (auto simp: service_validate_def plain_service_def validate_name_def validate_service_user_def
      SERVICE_USER_TEMPLATE_def validate_command_def validate_command_templates_def
      validate_template_def validate_template_with_policy_def referenced_keys_def
      referenced_keys_from.simps bt_keys_def check_duration_def char_class_defs)

lemma demo_services_valid: "validate_services Literal (map ms_config demo_services) = Inr ()"
proof -
  let ?ss = "[plain_service ''a'' [], plain_service ''b'' [''a'']]"
  have "validate_service_dependency_graph ?ss = Inr ()"
    by (simp add: plain_service_def validate_service_dependency_graph_def bt_extend_def
        visit_service_dependency.simps bt_get_def)
  then have "validate_services Literal ?ss = Inr ()"
    by (simp add: validate_services_Inr plain_service_valid) (simp add: plain_service_def)
  then show ?thesis by (simp add: demo_services_def managed_service_new_def)
qed

theorem services_stop_before_their_dependencies_witness:
  "distinct (service_stop_order demo_services)
    \<and> map ms_name (service_stop_order demo_services) = [''b'', ''a'']"
  using services_stop_before_their_dependencies [OF demo_services_valid refl]
  by (simp add: demo_services_def managed_service_new_def plain_service_def service_stop_order_def
      stop_visit.simps dependents_def)

text \<open>The forced exit of a shutdown comes at least the safety margin after the time it takes to
  stop all services one after the other, whether or not their processes react to the signal; only
  at the largest representable duration may it come earlier.\<close>

theorem watchdog_outlasts_stop:
  "minimum \<le> shutdown_watchdog_delay services minimum
    \<and> min (fst (snd (stop_services exits services)) + SHUTDOWN_WATCHDOG_MARGIN) duration_max
      \<le> shutdown_watchdog_delay services minimum"
  using stop_each_time [of exits "service_stop_order services"]
  by (simp add: watchdog_delay_eq stop_services_def le_max_iff_disj min_le_iff_disj)

text \<open>A service whose dependencies are configured waits exactly until the first round in which all
  of them are healthy, and then starts, unless it is told to stop before; it never fails and goes on
  waiting otherwise.\<close>

theorem dependencies_gate_start:
  assumes "set (sc_depends_on s) \<subseteq> sc_name ` set all"
  shows "fst (wait_for_dependencies s all rounds st) =
    (if sc_depends_on s = [] then Some (Inr True)
     else map_option (\<lambda>r. Inr (\<not> dr_stopping r))
       (find (\<lambda>r. dr_stopping r \<or> dependencies_healthy s all r) rounds))"
  by (simp add: wait_for_dependencies_def wait_loop_result [OF assms])

theorem dependencies_gate_start_witness:
  "fst (wait_for_dependencies (plain_service ''b'' [''a'']) [plain_service ''a'' []]
      [\<lparr>dr_stopping = False, dr_healthy = \<lambda>_. False\<rparr>, \<lparr>dr_stopping = False, dr_healthy = \<lambda>_. True\<rparr>]
      \<lparr>ws_last_error = None, ws_sleeps = []\<rparr>) = Some (Inr True)"
  using dependencies_gate_start [of "plain_service ''b'' [''a'']" "[plain_service ''a'' []]"
      "[\<lparr>dr_stopping = False, dr_healthy = \<lambda>_. False\<rparr>, \<lparr>dr_stopping = False, dr_healthy = \<lambda>_. True\<rparr>]"
      "\<lparr>ws_last_error = None, ws_sleeps = []\<rparr>"]
  by (simp add: plain_service_def dependencies_healthy_def)

text \<open>The supervisor restarts with exponential backoff: the k-th retry since the service was last
  healthy waits the base time doubled k times, at most the configured maximum from the second on, and
  the supervisor ends only on a round that is told to stop or that the restart policy does not
  retry.\<close>

theorem supervisor_backoff:
  "sv_sleeps (snd (service_supervisor s rounds)) = map (retry_delay s) (retries s 0 rounds)
    \<and> (fst (service_supervisor s rounds) \<longleftrightarrow> \<not> list_all (round_retried s) rounds)"
  using supervise_retries [of "\<lparr>sv_backoff = base_backoff s, sv_restart_count = 0, sv_sleeps = []\<rparr>" s 0 rounds]
  by (simp add: service_supervisor_def retry_delay_def list_all_iff Bex_def)

text \<open>Starting an accepted service does not panic, its command, working directory and health check
  always render, and the process it spawns runs as the configured user: with no identity of its own
  exactly for root.\<close>

theorem accepted_service_starts:
  assumes "service_validate (ms_config m) mode = Inr ()"
  shows "start_service h state_dir m \<noteq> None
    \<and> is_ok (render_argv (sc_command (ms_config m)) (service_vars state_dir))
    \<and> is_ok (health_check nw state_dir m)
    \<and> (\<forall>m'. start_service h state_dir m = Some (Inr m') \<longrightarrow>
        \<not> ms_stopping m \<and> (\<exists>launch identity pid. ho_spawn h launch identity = Inr pid
          \<and> ms_child m' = Some (pid, True)
          \<and> (identity = None \<longleftrightarrow> sc_user (ms_config m) = ''root'')))"
proof -
  let ?s = "ms_config m" and ?vars = "service_vars state_dir"
  have keys: "set AGENT_TEMPLATE_VARS = set (bt_keys ?vars)"
    by (simp add: AGENT_TEMPLATE_VARS_def service_vars_def bt_keys_def)
  have renders: "is_ok (render t ?vars)" if "validate_template field t AGENT_TEMPLATE_VARS = Inr ()" for field t
    using that keys unfolding render_is_ok_iff validate_template_strict validate_keys_iff by metis
  have command: "sc_command ?s \<noteq> []" "\<And>a. a \<in> set (sc_command ?s) \<Longrightarrow> is_ok (render a ?vars)"
    and check: "\<And>hc. sc_health_check ?s = Some hc \<Longrightarrow> health_check_validate_templates hc AGENT_TEMPLATE_VARS = Inr ()"
    using assms renders
    by (auto simp: service_validate_def validate_command_def bail_if_Inr validate_command_templates_def given_Inr)
  then have "is_ok (render_argv (sc_command ?s) ?vars)"
    by (simp add: render_argv_def collect_ok_is_ok)
  then obtain argv where argv: "render_argv (sc_command ?s) ?vars = Inr argv" by (auto simp: is_ok_iff)
  then have "argv \<noteq> []" using command(1) collect_ok_length by (force simp: render_argv_def)
  then obtain program args where cons: "argv = program # args" by (cases argv) auto
  have "start_service h state_dir m \<noteq> None"
    using argv cons by (cases "ho_open_log h (sc_name ?s)") (simp_all add: start_service_def Let_def)
  moreover have "is_ok (health_check nw state_dir m)"
    using check renders
    by (auto simp: health_check_def Let_def is_ok_iff map_ok_Inr split: option.splits health_check.splits)
  moreover have "\<exists>launch identity pid. ho_spawn h launch identity = Inr pid
      \<and> ms_child m' = Some (pid, True) \<and> (identity = None \<longleftrightarrow> sc_user ?s = ''root'') \<and> \<not> ms_stopping m"
    if "start_service h state_dir m = Some (Inr m')" for m'
    using that argv cons
    by (cases "ho_open_log h (sc_name ?s)")
      (simp_all add: start_service_def Let_def res_simps service_identity_def split: if_splits prod.splits,
        force+)
  moreover have "is_ok (render_argv (sc_command ?s) ?vars)" by (simp add: argv)
  ultimately show ?thesis by blast
qed

definition demo_host :: host where
  "demo_host =
     \<lparr>ho_read_file = \<lambda>_. None, ho_env_var = \<lambda>_. None, ho_getpwnam = \<lambda>_. None,
      ho_groups = \<lambda>_ _. Inr [], ho_open_log = \<lambda>_. Inr (), ho_spawn = \<lambda>_ _. Inr 42\<rparr>"

theorem accepted_service_starts_witness:
  "start_service demo_host ''/state'' (managed_service_new (plain_service ''a'' [])) \<noteq> None
    \<and> is_ok (render_argv [''/bin/true''] (service_vars ''/state''))"
  using accepted_service_starts [of "managed_service_new (plain_service ''a'' [])" Literal demo_host
      "''/state''"]
  by (simp add: managed_service_new_def plain_service_valid) (simp add: plain_service_def)

end
