(* ===== verification/Idle_Cleanup.thy ===== *)
theory Idle_Cleanup
  imports Supervision "HOL-Library.Word"
begin

text \<open>
  \<open>src/agent/process.rs\<close>, \<open>src/agent/idle.rs\<close> and the idle state of \<open>src/agent/state.rs\<close>: reading
  the process table, choosing the processes to reap, and deciding when an idle container is cleaned
  up. The file system is a function from the names below \<open>/proc/<pid>\<close> to contents, the clock and the
  counters are part of what a round of the cleanup loop observes, and the signals it sends are a
  list.
\<close>

section \<open>The process table\<close>

record process_match =
  pm_pid :: nat
  pm_comm :: string
  pm_start_time :: "nat option"

record proc_info =
  pi_pid :: nat
  pi_ppid :: nat
  pi_uid :: nat
  pi_comm :: string
  pi_start_time :: "nat option"

definition match_of :: "proc_info \<Rightarrow> process_match" where
  "match_of p = \<lparr>pm_pid = pi_pid p, pm_comm = pi_comm p, pm_start_time = pi_start_time p\<rparr>"

definition read_proc_start_time :: "(string \<Rightarrow> string option) \<Rightarrow> nat option" where
  "read_proc_start_time file =
     Option.bind (file ''stat'') (\<lambda>stat.
     Option.bind (rsplit_once_str '') '' stat) (\<lambda>(_, after_comm).
     Option.bind (nth_of 19 (split_whitespace after_comm)) (parse_uint u64_limit)))"

fun status_loop :: "string list \<Rightarrow> nat \<Rightarrow> nat \<Rightarrow> (nat \<times> nat) option" where
  "status_loop [] ppid uid = Some (ppid, uid)"
| "status_loop (line # ls) ppid uid =
     (case strip_prefix ''PPid:'' line of
        Some v \<Rightarrow>
          Option.bind (parse_uint u32_limit (trim v)) (\<lambda>ppid. status_loop ls ppid uid)
      | None \<Rightarrow>
          (case strip_prefix ''Uid:'' line of
             Some v \<Rightarrow>
               Option.bind (nth_of 0 (split_whitespace v)) (\<lambda>w.
               Option.bind (parse_uint u32_limit w) (\<lambda>uid. status_loop ls ppid uid))
           | None \<Rightarrow> status_loop ls ppid uid))"

definition read_proc_info :: "(string \<Rightarrow> string option) \<Rightarrow> nat \<Rightarrow> proc_info option" where
  "read_proc_info file pid =
     Option.bind (file ''comm'') (\<lambda>comm.
     Option.bind (file ''status'') (\<lambda>status.
     map_option (\<lambda>(ppid, uid).
         \<lparr>pi_pid = pid, pi_ppid = ppid, pi_uid = uid, pi_comm = trim comm,
          pi_start_time = read_proc_start_time file\<rparr>)
       (status_loop (str_lines status) 0 0)))"

text \<open>The entries of the directory, \<open>None\<close> for a name that is not Unicode; \<open>proc\<close> gives the files of
  a process.\<close>

definition read_process_table ::
  "string option list option \<Rightarrow> (nat \<Rightarrow> string \<Rightarrow> string option) \<Rightarrow> proc_info list" where
  "read_process_table entries proc = (case entries of
       None \<Rightarrow> []
     | Some names \<Rightarrow> sort_key pi_pid
         (List.map_filter (\<lambda>name.
            Option.bind (Option.bind name (parse_uint u32_limit)) (\<lambda>pid. read_proc_info (proc pid) pid))
          names))"

section \<open>Signals\<close>

definition signal_number :: "string \<Rightarrow> int" where
  "signal_number name =
     (if name = ''KILL'' then 9 else if name = ''INT'' then 2 else if name = ''HUP'' then 1 else 15)"

text \<open>What \<open>kill\<close> is called with: \<open>pid as i32\<close> and the signal.\<close>

type_synonym kill_call = "int \<times> int"

definition pid_as_i32 :: "nat \<Rightarrow> int" where
  "pid_as_i32 pid = sint (word_of_nat pid :: 32 word)"

definition signal_process :: "int \<Rightarrow> process_match \<Rightarrow> kill_call" where
  "signal_process signal p = (pid_as_i32 (pm_pid p), signal)"

definition signal_processes :: "process_match list \<Rightarrow> int \<Rightarrow> kill_call list" where
  "signal_processes ps signal = map (signal_process signal) ps"

definition signal_matching_processes ::
  "(nat \<Rightarrow> string \<Rightarrow> string option) \<Rightarrow> process_match list \<Rightarrow> int \<Rightarrow> kill_call list" where
  "signal_matching_processes proc ps signal =
     map (signal_process signal)
       (filter (\<lambda>p. case read_proc_info (proc (pm_pid p)) (pm_pid p) of
            Some current \<Rightarrow> pi_comm current = pm_comm p \<and> pi_start_time current = pm_start_time p
          | None \<Rightarrow> False) ps)"

section \<open>The reap plan\<close>

record reap_result =
  rr_dry_run :: bool
  rr_would_terminate :: "process_match list"
  rr_preserved :: "process_match list"

definition find_preserve_processes :: "proc_info list \<Rightarrow> string list \<Rightarrow> process_match list" where
  "find_preserve_processes ps names =
     (if names = [] then []
      else sort_key pm_pid (map match_of (filter (\<lambda>p. pi_comm p \<in> set names) ps)))"

fun preserve_pass :: "proc_info list \<Rightarrow> nat set \<Rightarrow> bool \<Rightarrow> nat set \<times> bool" where
  "preserve_pass [] preserved changed = (preserved, changed)"
| "preserve_pass (p # ps) preserved changed =
     (if pi_ppid p \<in> preserved \<and> pi_pid p \<notin> preserved
      then preserve_pass ps (insert (pi_pid p) preserved) True
      else preserve_pass ps preserved changed)"

lemma preserve_pass_bounds:
  "preserve_pass ps S c = (S', c') \<Longrightarrow> S \<subseteq> S' \<and> S' \<subseteq> S \<union> pi_pid ` set ps \<and> (c' \<longleftrightarrow> c \<or> S' \<noteq> S)"
proof (induction ps arbitrary: S c)
  case (Cons p ps)
  show ?case
  proof (cases "pi_ppid p \<in> S \<and> pi_pid p \<notin> S")
    case True
    with Cons.prems have "preserve_pass ps (insert (pi_pid p) S) True = (S', c')" by simp
    from Cons.IH [OF this] True show ?thesis by auto
  next
    case False
    with Cons.prems have "preserve_pass ps S c = (S', c')" by (auto split: if_splits)
    from Cons.IH [OF this] show ?thesis by auto
  qed
qed simp

function preserve_loop :: "proc_info list \<Rightarrow> nat set \<Rightarrow> nat set" where
  "preserve_loop ps preserved =
     (case preserve_pass ps preserved False of
        (preserved', changed) \<Rightarrow> if changed then preserve_loop ps preserved' else preserved')"
  by pat_completeness auto

termination
proof (relation "measure (\<lambda>(ps, preserved). card (pi_pid ` set ps - preserved))", goal_cases)
  case 1
  show ?case by simp
next
  case (2 ps preserved preserved' changed)
  then have "preserve_pass ps preserved False = (preserved', True)" by simp
  from preserve_pass_bounds [OF this]
  have "pi_pid ` set ps - preserved' \<subset> pi_pid ` set ps - preserved" by auto
  then show ?case by (simp add: psubset_card_mono)
qed

declare preserve_loop.simps [simp del]

definition build_reap_plan ::
  "proc_info list \<Rightarrow> idle_cleanup_config \<Rightarrow> nat set \<Rightarrow> nat \<Rightarrow> nat \<Rightarrow> reap_result" where
  "build_reap_plan ps config managed_pids agent_uid agent_pid =
     (let preserve_roots = find_preserve_processes ps (ic_preserve_processes config);
          preserved_pids = preserve_loop ps (set (map pm_pid preserve_roots));
          preserved = sort_key pm_pid (map match_of (filter (\<lambda>p. pi_pid p \<in> preserved_pids) ps));
          candidates =
            filter (\<lambda>p. pi_uid p = agent_uid \<or> agent_uid = 0)
            (filter (\<lambda>p. pi_uid p \<noteq> 0 \<or> agent_uid \<noteq> 0)
            (filter (\<lambda>p. pi_pid p \<notin> preserved_pids)
            (filter (\<lambda>p. pi_pid p \<notin> managed_pids)
            (filter (\<lambda>p. pi_pid p \<noteq> agent_pid)
            (filter (\<lambda>p. pi_pid p \<noteq> 1) ps)))))
      in \<lparr>rr_dry_run = True, rr_would_terminate = sort_key pm_pid (map match_of candidates),
          rr_preserved = preserved\<rparr>)"

section \<open>The idle state\<close>

datatype idle_state_name =
    IdlePending | Attached | Preserved | ShutdownContainer | ReapUnpreservedProcesses

record idle_runtime_state =
  irs_state :: idle_state_name
  irs_idle_since :: "nat option"
  irs_preserve :: bool
  irs_preserve_reason :: "string option"
  irs_matched_processes :: "process_match list"
  irs_last_reap_result :: "reap_result option"

definition idle_runtime_default :: idle_runtime_state where
  "idle_runtime_default =
     \<lparr>irs_state = IdlePending, irs_idle_since = None, irs_preserve = False,
      irs_preserve_reason = None, irs_matched_processes = [], irs_last_reap_result = None\<rparr>"

datatype idle_transition = IdleNone | IdleShutdownContainer | IdleReapProcesses

text \<open>What a round of the loop sees: the shutdown flag, the counters of the bridge and of held
  sessions, the process table and the clock; for a reap also the table and the clock read then, the
  managed processes, and the identity of the agent.\<close>

record idle_round =
  io_shutting_down :: bool
  io_active_streams :: nat
  io_active_sessions :: nat
  io_processes :: "proc_info list"
  io_now :: nat
  io_services :: "managed_service list"
  io_allow_reap :: "string option"
  io_reap_processes :: "proc_info list"
  io_reap_now :: nat
  io_uid :: nat
  io_pid :: nat
  io_proc_later :: "nat \<Rightarrow> string \<Rightarrow> string option"

definition evaluate_idle_state ::
  "idle_cleanup_config \<Rightarrow> duration \<Rightarrow> idle_round \<Rightarrow> idle_runtime_state \<Rightarrow>
    idle_transition \<times> idle_runtime_state" where
  "evaluate_idle_state config idle_grace io idle =
     (let matched_processes = find_preserve_processes (io_processes io) (ic_preserve_processes config)
      in if io_active_streams io > 0 \<or> io_active_sessions io > 0
         then (IdleNone,
           idle\<lparr>irs_state := Attached, irs_idle_since := None, irs_preserve := False,
             irs_preserve_reason := None, irs_matched_processes := []\<rparr>)
         else if matched_processes \<noteq> []
         then (IdleNone,
           idle\<lparr>irs_state := Preserved, irs_idle_since := None, irs_preserve := True,
             irs_preserve_reason := Some (''process:'' @ pm_comm (hd matched_processes)),
             irs_matched_processes := matched_processes\<rparr>)
         else
           let idle_since = unwrap_or (io_now io) (irs_idle_since idle);
               idle = idle\<lparr>irs_idle_since := Some idle_since, irs_state := IdlePending,
                 irs_preserve := False, irs_preserve_reason := None, irs_matched_processes := []\<rparr>
           in if io_now io - idle_since < idle_grace then (IdleNone, idle)
              else case ic_action config of
                ExitContainer \<Rightarrow> (IdleShutdownContainer, idle\<lparr>irs_state := ShutdownContainer\<rparr>)
              | ReapProcesses \<Rightarrow> (IdleReapProcesses, idle)
              | ActionNone \<Rightarrow> (IdleNone, idle))"

definition managed_service_pids :: "managed_service list \<Rightarrow> nat set" where
  "managed_service_pids services =
     set (List.map_filter (\<lambda>m. map_option fst (ms_child m)) services)"

text \<open>The result and the signals sent at once.\<close>

definition reap_processes ::
  "idle_cleanup_config \<Rightarrow> proc_info list \<Rightarrow> nat set \<Rightarrow> nat \<Rightarrow> nat \<Rightarrow> bool \<Rightarrow> reap_result \<times> kill_call list"
where
  "reap_processes config ps managed_pids uid pid dry_run =
     (let plan = build_reap_plan ps config managed_pids uid pid in
      (plan\<lparr>rr_dry_run := dry_run\<rparr>,
       if dry_run then []
       else signal_processes (rr_would_terminate plan) (signal_number (ic_reap_signal config))))"

text \<open>The second wave: after \<open>reap_kill_after\<close> the processes that are still the same are killed.\<close>

definition run_reap_processes ::
  "idle_cleanup_config \<Rightarrow> idle_round \<Rightarrow> nat set \<Rightarrow> bool \<Rightarrow>
    reap_result \<times> kill_call list \<times> (duration \<times> kill_call list) option" where
  "run_reap_processes config io managed_pids dry_run =
     (case reap_processes config (io_reap_processes io) managed_pids (io_uid io) (io_pid io) dry_run of
        (result, signals) \<Rightarrow>
          (result, signals,
           if \<not> dry_run \<and> signal_number (ic_reap_signal config) \<noteq> 9
           then (case ic_reap_kill_after config of
               None \<Rightarrow> None
             | Some v \<Rightarrow>
                 (case parse_duration v of
                    Inl _ \<Rightarrow> None
                  | Inr delay \<Rightarrow> Some (delay,
                      signal_matching_processes (io_proc_later io) (rr_would_terminate result) 9)))
           else None))"

datatype idle_effect =
    IdleStopped
  | IdleWaits
  | IdlePanics
  | ShutsDown duration
  | Reaps reap_result "kill_call list" "(duration \<times> kill_call list) option"

definition idle_grace_of :: "idle_cleanup_config \<Rightarrow> duration" where
  "idle_grace_of config = duration_or (from_secs 300) (ic_idle_grace config)"

definition idle_poll_interval :: "idle_cleanup_config \<Rightarrow> duration" where
  "idle_poll_interval config = duration_or (from_secs 30) (ic_poll_interval config)"

text \<open>\<open>Duration + Duration\<close> panics when the sum is not representable.\<close>

definition checked_add_duration :: "duration \<Rightarrow> duration \<Rightarrow> duration option" where
  "checked_add_duration d e = (if d + e \<le> duration_max then Some (d + e) else None)"

definition idle_step ::
  "idle_cleanup_config \<Rightarrow> idle_round \<Rightarrow> idle_runtime_state \<Rightarrow> idle_effect \<times> idle_runtime_state" where
  "idle_step config io idle =
     (if io_shutting_down io then (IdleStopped, idle)
      else case evaluate_idle_state config (idle_grace_of config) io idle of
        (IdleNone, idle) \<Rightarrow> (IdleWaits, idle)
      | (IdleShutdownContainer, idle) \<Rightarrow>
          (case checked_add_duration (duration_or (from_secs 20) (ic_shutdown_timeout config))
               (from_secs 5) of
             None \<Rightarrow> (IdlePanics, idle)
           | Some minimum \<Rightarrow> (ShutsDown (shutdown_watchdog_delay (io_services io) minimum), idle))
      | (IdleReapProcesses, idle) \<Rightarrow>
          let dry_run = (io_allow_reap io \<noteq> Some ''1'') in
          case run_reap_processes config io (managed_service_pids (io_services io)) dry_run of
            (result, signals, later) \<Rightarrow>
              (Reaps result signals later,
               idle\<lparr>irs_state := ReapUnpreservedProcesses, irs_last_reap_result := Some result,
                 irs_idle_since := Some (io_reap_now io)\<rparr>))"

text \<open>The loop over the rounds it sees, up to the one that ends it.\<close>

fun idle_loop ::
  "idle_cleanup_config \<Rightarrow> idle_round list \<Rightarrow> idle_runtime_state \<Rightarrow> idle_effect list" where
  "idle_loop config [] idle = []"
| "idle_loop config (io # ios) idle =
     (case idle_step config io idle of
        (IdleStopped, _) \<Rightarrow> [IdleStopped]
      | (IdlePanics, _) \<Rightarrow> [IdlePanics]
      | (ShutsDown d, _) \<Rightarrow> [ShutsDown d]
      | (effect, idle') \<Rightarrow> effect # idle_loop config ios idle')"

definition run_idle_cleanup :: "idle_cleanup_config option \<Rightarrow> idle_round list \<Rightarrow> idle_effect list" where
  "run_idle_cleanup oc ios = (case oc of
       None \<Rightarrow> []
     | Some config \<Rightarrow> idle_loop config ios idle_runtime_default)"

section \<open>Lemmas on the reap plan\<close>

definition parent_of :: "proc_info list \<Rightarrow> (nat \<times> nat) set" where
  "parent_of ps = (\<lambda>p. (pi_ppid p, pi_pid p)) ` set ps"

lemma preserve_pass_unchanged:
  "preserve_pass ps S c = (S, False) \<Longrightarrow> p \<in> set ps \<Longrightarrow> pi_ppid p \<in> S \<Longrightarrow> pi_pid p \<in> S"
proof (induction ps arbitrary: c)
  case (Cons q ps)
  have "\<not> (pi_ppid q \<in> S \<and> pi_pid q \<notin> S)"
  proof
    assume q: "pi_ppid q \<in> S \<and> pi_pid q \<notin> S"
    with Cons.prems(1) have "preserve_pass ps (insert (pi_pid q) S) True = (S, False)" by simp
    from preserve_pass_bounds [OF this] show False by simp
  qed
  with Cons show ?case by (auto split: if_splits)
qed simp

lemma preserve_pass_sound:
  "preserve_pass ps S c = (S', c') \<Longrightarrow> set ps \<subseteq> set qs \<Longrightarrow> S' \<subseteq> (parent_of qs)\<^sup>* `` S"
proof (induction ps arbitrary: S c)
  case Nil
  then show ?case by auto
next
  case (Cons p ps)
  show ?case
  proof (cases "pi_ppid p \<in> S \<and> pi_pid p \<notin> S")
    case True
    then have "S' \<subseteq> (parent_of qs)\<^sup>* `` insert (pi_pid p) S"
      using Cons.IH [of "insert (pi_pid p) S" True] Cons.prems by simp
    moreover have "(pi_ppid p, pi_pid p) \<in> parent_of qs"
      using Cons.prems(2) by (auto simp: parent_of_def)
    ultimately show ?thesis using True by (blast intro: converse_rtrancl_into_rtrancl)
  next
    case False
    then have "preserve_pass ps S c = (S', c')" using Cons.prems(1) by (auto split: if_splits)
    with Cons show ?thesis by simp
  qed
qed

lemma preserve_loop_closure: "preserve_loop ps S = (parent_of ps)\<^sup>* `` S"
proof (induction ps S rule: preserve_loop.induct)
  case (1 ps S)
  obtain S' changed where pass: "preserve_pass ps S False = (S', changed)" by fastforce
  have sub: "S' \<subseteq> (parent_of ps)\<^sup>* `` S" "S \<subseteq> S'"
    using preserve_pass_sound [OF pass] preserve_pass_bounds [OF pass] by auto
  show ?case
  proof (cases changed)
    case True
    with 1 pass have "preserve_loop ps S = (parent_of ps)\<^sup>* `` S'"
      by (simp add: preserve_loop.simps [of ps S])
    also have "\<dots> = (parent_of ps)\<^sup>* `` S"
    proof
      have "(parent_of ps)\<^sup>* `` S' \<subseteq> (parent_of ps)\<^sup>* `` ((parent_of ps)\<^sup>* `` S)"
        by (rule Image_mono [OF subset_refl sub(1)])
      then show "(parent_of ps)\<^sup>* `` S' \<subseteq> (parent_of ps)\<^sup>* `` S"
        by (simp add: relcomp_Image [symmetric])
      show "(parent_of ps)\<^sup>* `` S \<subseteq> (parent_of ps)\<^sup>* `` S'"
        by (rule Image_mono [OF subset_refl sub(2)])
    qed
    finally show ?thesis .
  next
    case False
    then have same: "S' = S" using preserve_pass_bounds [OF pass] by auto
    have "y \<in> S" if "(x, y) \<in> (parent_of ps)\<^sup>*" "x \<in> S" for x y
      using that by (induction rule: rtrancl_induct)
        (use preserve_pass_unchanged [of ps S False] pass same False in \<open>auto simp: parent_of_def\<close>)
    with False pass same show ?thesis by (auto simp: preserve_loop.simps [of ps S])
  qed
qed

lemma find_preserve_set:
  "set (find_preserve_processes ps names) = match_of ` {p \<in> set ps. pi_comm p \<in> set names}"
  by (auto simp: find_preserve_processes_def)

lemma match_of_simps [simp]:
  "pm_pid (match_of p) = pi_pid p" "pm_comm (match_of p) = pi_comm p"
  "pm_start_time (match_of p) = pi_start_time p"
  by (simp_all add: match_of_def)

text \<open>A process that has a preserved name, or an ancestor with one.\<close>

definition spared :: "proc_info list \<Rightarrow> string list \<Rightarrow> proc_info \<Rightarrow> bool" where
  "spared ps names p \<longleftrightarrow>
     (\<exists>root \<in> set ps. pi_comm root \<in> set names \<and> (pi_pid root, pi_pid p) \<in> (parent_of ps)\<^sup>*)"

lemma preserved_pids_iff:
  "pi_pid p \<in> preserve_loop ps (pm_pid ` set (find_preserve_processes ps names)) \<longleftrightarrow> spared ps names p"
  by (auto simp: preserve_loop_closure find_preserve_set spared_def image_image)

section \<open>Properties of the reap plan\<close>


section \<open>Lemmas on the idle loop\<close>

definition quiet :: "idle_cleanup_config \<Rightarrow> idle_round \<Rightarrow> bool" where
  "quiet config io \<longleftrightarrow> io_active_streams io = 0 \<and> io_active_sessions io = 0
     \<and> (\<forall>p \<in> set (io_processes io). pi_comm p \<notin> set (ic_preserve_processes config))"

definition acts :: "idle_effect \<Rightarrow> bool" where
  "acts effect \<longleftrightarrow> (case effect of IdleStopped \<Rightarrow> False | IdleWaits \<Rightarrow> False | _ \<Rightarrow> True)"

lemma quiet_iff:
  "quiet config io \<longleftrightarrow> io_active_streams io = 0 \<and> io_active_sessions io = 0
    \<and> find_preserve_processes (io_processes io) (ic_preserve_processes config) = []"
  using find_preserve_set [of "io_processes io" "ic_preserve_processes config"]
  by (auto simp: quiet_def simp flip: set_empty)

text \<open>The shape of a step on a round that is not the last.\<close>

definition due :: "idle_cleanup_config \<Rightarrow> idle_round \<Rightarrow> idle_runtime_state \<Rightarrow> bool" where
  "due config io idle \<longleftrightarrow> quiet config io
     \<and> \<not> io_now io - unwrap_or (io_now io) (irs_idle_since idle) < idle_grace_of config"

lemma idle_step_cases:
  assumes "idle_step config io idle = (effect, idle')"
  obtains (stopped) "io_shutting_down io" "effect = IdleStopped"
  | (busy) "\<not> quiet config io" "effect = IdleWaits" "irs_idle_since idle' = None"
  | (waits) "quiet config io" "effect = IdleWaits"
      "irs_idle_since idle' = Some (unwrap_or (io_now io) (irs_idle_since idle))"
      "due config io idle \<longrightarrow> ic_action config = ActionNone"
  | (ends) "due config io idle" "ic_action config = ExitContainer"
      "effect = IdlePanics \<and> from_secs 5 + duration_or (from_secs 20) (ic_shutdown_timeout config) > duration_max
        \<or> (\<exists>d. effect = ShutsDown d)"
  | (reaps) "due config io idle" "ic_action config = ReapProcesses" "\<exists>r s l. effect = Reaps r s l"
      "irs_idle_since idle' = Some (io_reap_now io)"
proof -
  consider (stop) "io_shutting_down io" | (busy) "\<not> io_shutting_down io" "\<not> quiet config io"
    | (early) "\<not> io_shutting_down io" "quiet config io" "\<not> due config io idle"
    | (due) "\<not> io_shutting_down io" "quiet config io" "due config io idle" by blast
  then show ?thesis
  proof cases
    case stop
    with assms stopped show ?thesis by (simp add: idle_step_def)
  next
    case busy
    then show ?thesis using assms that(2)
      by (auto simp: idle_step_def evaluate_idle_state_def quiet_iff Let_def split: if_splits)
  next
    case early
    with assms that(3) show ?thesis
      by (auto simp: idle_step_def evaluate_idle_state_def quiet_iff due_def Let_def)
  next
    case due
    show ?thesis
    proof (cases "ic_action config")
      case ActionNone
      with due assms that(3) show ?thesis
        by (auto simp: idle_step_def evaluate_idle_state_def quiet_iff due_def Let_def)
    next
      case ExitContainer
      with due assms that(4) show ?thesis
        by (auto simp: idle_step_def evaluate_idle_state_def quiet_iff due_def Let_def
            checked_add_duration_def split: if_splits)
    next
      case ReapProcesses
      with due assms that(5) show ?thesis
        by (auto simp: idle_step_def evaluate_idle_state_def quiet_iff due_def Let_def
            split: prod.splits)
    qed
  qed
qed

text \<open>The time an idle state starts from is not before a round since when all were quiet.\<close>

definition quiet_from :: "idle_cleanup_config \<Rightarrow> idle_round list \<Rightarrow> nat \<Rightarrow> bool" where
  "quiet_from config hs t \<longleftrightarrow>
     (\<exists>pre io post. hs = pre @ io # post \<and> list_all (quiet config) (io # post) \<and> io_now io \<le> t)"

definition since_ok :: "idle_cleanup_config \<Rightarrow> idle_round list \<Rightarrow> idle_runtime_state \<Rightarrow> bool" where
  "since_ok config hs idle \<longleftrightarrow> (\<forall>t. irs_idle_since idle = Some t \<longrightarrow> quiet_from config hs t)"

lemma quiet_from_snoc: "quiet_from config hs t \<Longrightarrow> quiet config io \<Longrightarrow> quiet_from config (hs @ [io]) t"
  unfolding quiet_from_def by fastforce

lemma quiet_from_now: "quiet config io \<Longrightarrow> io_now io \<le> t \<Longrightarrow> quiet_from config (hs @ [io]) t"
  unfolding quiet_from_def by (intro exI [of _ hs] exI [of _ io] exI [of _ "[]"]) simp

lemma idle_step_since:
  assumes "idle_step config io idle = (effect, idle')" and "since_ok config hs idle"
    and "io_now io \<le> io_reap_now io" and "\<not> io_shutting_down io" and "effect \<noteq> IdlePanics" and "\<nexists>d. effect = ShutsDown d"
  shows "since_ok config (hs @ [io]) idle'"
  using assms(1)
proof (cases rule: idle_step_cases)
  case waits
  then show ?thesis using assms(2)
    by (cases "irs_idle_since idle") (auto simp: since_ok_def quiet_from_snoc quiet_from_now)
next
  case reaps
  then show ?thesis using assms(3) by (auto simp: since_ok_def due_def quiet_from_now)
qed (use assms in \<open>auto simp: since_ok_def\<close>)

lemma due_since:
  assumes "due config io idle" and "since_ok config hs idle"
  shows "\<exists>t. quiet_from config (hs @ [io]) t \<and> t + idle_grace_of config \<le> io_now io"
proof (cases "idle_grace_of config = 0")
  case True
  with assms show ?thesis by (auto simp: due_def intro!: exI [of _ "io_now io"] quiet_from_now)
next
  case False
  with assms(1) obtain t where t: "irs_idle_since idle = Some t" "t + idle_grace_of config \<le> io_now io"
    by (cases "irs_idle_since idle") (auto simp: due_def)
  with assms show ?thesis by (auto simp: since_ok_def due_def intro: quiet_from_snoc)
qed

lemma idle_loop_acts:
  assumes "since_ok config hs idle" and "\<And>io. io \<in> set ios \<Longrightarrow> io_now io \<le> io_reap_now io"
    and "n < length (idle_loop config ios idle)" and "acts (idle_loop config ios idle ! n)"
  shows "n < length ios
    \<and> (\<exists>t. quiet_from config (hs @ take (Suc n) ios) t \<and> t + idle_grace_of config \<le> io_now (ios ! n))"
  using assms
proof (induction ios arbitrary: hs idle n)
  case (Cons io ios)
  obtain effect idle' where step: "idle_step config io idle = (effect, idle')" by fastforce
  show ?case
  proof (cases n)
    case 0
    then have "acts effect" using Cons.prems(4) step by (auto split: idle_effect.splits)
    moreover have "due config io idle" if "acts effect"
      using step by (cases rule: idle_step_cases) (use that in \<open>auto simp: acts_def\<close>)
    ultimately show ?thesis using due_since [OF _ Cons.prems(1)] 0 by simp
  next
    case (Suc m)
    then have go_on: "effect \<noteq> IdlePanics" "\<nexists>d. effect = ShutsDown d" "effect \<noteq> IdleStopped"
      using Cons.prems(3) step by (auto split: idle_effect.splits)
    then have rest: "idle_loop config (io # ios) idle = effect # idle_loop config ios idle'"
      using step by (auto split: idle_effect.splits)
    have "\<not> io_shutting_down io" using step go_on by (auto simp: idle_step_def)
    then have "since_ok config (hs @ [io]) idle'"
      using idle_step_since [OF step Cons.prems(1)] Cons.prems(2) go_on by simp
    from Cons.IH [OF this] show ?thesis using Cons.prems(2-4) Suc
      by (simp add: rest del: idle_loop.simps)
  qed
qed simp

lemma quiet_from_indices:
  assumes "quiet_from config (take (Suc n) ios) t" and "n < length ios"
  shows "\<exists>i \<le> n. (\<forall>j. i \<le> j \<and> j \<le> n \<longrightarrow> quiet config (ios ! j)) \<and> io_now (ios ! i) \<le> t"
proof -
  obtain pre io post where split: "take (Suc n) ios = pre @ io # post"
    and q: "list_all (quiet config) (io # post)" and t: "io_now io \<le> t"
    using assms(1) unfolding quiet_from_def by blast
  have len: "Suc n = length pre + Suc (length post)"
    using split assms(2) by (metis Suc_leI length_Cons length_append length_take min_absorb2)
  have nth: "ios ! j = (pre @ io # post) ! j" if "j \<le> n" for j
    using that split by (metis le_imp_less_Suc nth_take)
  have "quiet config (ios ! j)" if "length pre \<le> j" "j \<le> n" for j
  proof -
    have "ios ! j = (io # post) ! (j - length pre)" using that nth by (simp add: nth_append)
    moreover have "j - length pre < length (io # post)" using that len by simp
    ultimately show ?thesis using q by (simp only: list_all_length)
  qed
  moreover have "ios ! length pre = io" using nth [of "length pre"] len by simp
  ultimately show ?thesis using t len by (intro exI [of _ "length pre"]) auto
qed

text \<open>While the action is to exit, the time an idle state starts from is that of the first round of the
  current quiet stretch.\<close>

lemma idle_loop_due:
  assumes "ic_action config = ExitContainer"
    and "\<And>io. io \<in> set ios \<Longrightarrow> \<not> io_shutting_down io"
    and "duration_or (from_secs 20) (ic_shutdown_timeout config) + from_secs 5 \<le> duration_max"
    and "n < length ios" and "\<And>j. j \<le> n \<Longrightarrow> quiet config (ios ! j)"
    and "unwrap_or (io_now (ios ! 0)) (irs_idle_since idle) + idle_grace_of config \<le> io_now (ios ! n)"
  shows "\<exists>m \<le> n. \<exists>d. m < length (idle_loop config ios idle) \<and> idle_loop config ios idle ! m = ShutsDown d"
  using assms(2,4-)
proof (induction ios arbitrary: idle n)
  case (Cons io ios)
  obtain effect idle' where step: "idle_step config io idle = (effect, idle')" by fastforce
  have io: "\<not> io_shutting_down io" "quiet config io" using Cons.prems(1) [of io] Cons.prems(3) [of 0] by auto
  show ?case
  proof (cases "\<exists>d. effect = ShutsDown d")
    case True
    then show ?thesis using step by (intro exI [of _ 0]) auto
  next
    case False
    have "effect = IdleWaits \<and> \<not> due config io idle
        \<and> irs_idle_since idle' = Some (unwrap_or (io_now io) (irs_idle_since idle))"
      using step by (cases rule: idle_step_cases) (use io False assms(1,3) in \<open>auto\<close>)
    then have waits: "effect = IdleWaits" "\<not> due config io idle"
      and since: "irs_idle_since idle' = Some (unwrap_or (io_now io) (irs_idle_since idle))" by auto
    obtain m where n: "n = Suc m"
      using Cons.prems(4) waits(2) io(2) by (cases n) (auto simp: due_def)
    have "\<exists>k \<le> m. \<exists>d. k < length (idle_loop config ios idle') \<and> idle_loop config ios idle' ! k = ShutsDown d"
      by (rule Cons.IH) (use Cons.prems n since in \<open>fastforce+\<close>)
    then obtain k d where "k \<le> m" "k < length (idle_loop config ios idle')"
      "idle_loop config ios idle' ! k = ShutsDown d" by blast
    moreover have "idle_loop config (io # ios) idle = IdleWaits # idle_loop config ios idle'"
      using step waits by simp
    ultimately show ?thesis using n by (intro exI [of _ "Suc k"]) auto
  qed
qed simp

lemma nth_le_last_quiet:
  assumes "i \<le> n" and "n < length ios" and "\<And>j. i \<le> j \<Longrightarrow> j \<le> n \<Longrightarrow> quiet config (ios ! j)"
  obtains ios' m where "ios = take i ios @ ios'" "n = i + m" "m < length ios'"
    "\<And>j. j \<le> m \<Longrightarrow> quiet config (ios' ! j)" "ios' ! 0 = ios ! i" "ios' ! m = ios ! n"
proof (rule that [of "drop i ios" "n - i"])
  show "ios = take i ios @ drop i ios" by simp
  show "quiet config (drop i ios ! j)" if "j \<le> n - i" for j using assms that by simp
qed (use assms in auto)

text \<open>Whatever the state when a quiet stretch starts, the time it goes back to is not later than the
  clock.\<close>

definition past :: "idle_runtime_state \<Rightarrow> nat \<Rightarrow> bool" where
  "past idle t \<longleftrightarrow> (\<forall>s. irs_idle_since idle = Some s \<longrightarrow> s \<le> t)"

lemma idle_loop_reaches:
  assumes "ic_action config = ExitContainer"
    and "\<And>io. io \<in> set (pre @ ios) \<Longrightarrow> \<not> io_shutting_down io"
    and "duration_or (from_secs 20) (ic_shutdown_timeout config) + from_secs 5 \<le> duration_max"
    and "n < length ios" and "\<And>j. j \<le> n \<Longrightarrow> quiet config (ios ! j)"
    and "io_now (ios ! 0) + idle_grace_of config \<le> io_now (ios ! n)"
    and "sorted (map io_now (pre @ ios))" and "past idle (io_now ((pre @ ios) ! 0))"
  shows "\<exists>m \<le> length pre + n. \<exists>d. m < length (idle_loop config (pre @ ios) idle)
    \<and> idle_loop config (pre @ ios) idle ! m = ShutsDown d"
  using assms(2,7,8)
proof (induction pre arbitrary: idle)
  case Nil
  have "unwrap_or (io_now (ios ! 0)) (irs_idle_since idle) \<le> io_now (ios ! 0)"
    using Nil.prems(3) by (cases "irs_idle_since idle") (auto simp: past_def)
  with idle_loop_due [of config ios n idle] Nil.prems(1) assms(1,3-6) show ?case by simp
next
  case (Cons io pre)
  obtain effect idle' where step: "idle_step config io idle = (effect, idle')" by fastforce
  show ?case
  proof (cases "\<exists>d. effect = ShutsDown d")
    case True
    then show ?thesis using step by (intro exI [of _ 0]) auto
  next
    case False
    have io: "\<not> io_shutting_down io" using Cons.prems(1) by simp
    have "effect = IdleWaits \<and> past idle' (io_now io)"
      using step
      by (cases rule: idle_step_cases)
        (use io False assms(1,3) Cons.prems(3) in \<open>auto simp: past_def unwrap_or_def split: option.splits\<close>)
    moreover have "io_now io \<le> io_now ((pre @ ios) ! 0)"
      using Cons.prems(2) assms(4) by (cases "pre @ ios") auto
    ultimately have waits: "effect = IdleWaits" "past idle' (io_now ((pre @ ios) ! 0))"
      by (auto simp: past_def)
    obtain m d where "m \<le> length pre + n" "m < length (idle_loop config (pre @ ios) idle')"
      "idle_loop config (pre @ ios) idle' ! m = ShutsDown d"
      using Cons.IH [of idle'] Cons.prems(1,2) waits(2) by auto
    moreover have "idle_loop config ((io # pre) @ ios) idle = IdleWaits # idle_loop config (pre @ ios) idle'"
      using step waits by simp
    ultimately show ?thesis by (intro exI [of _ "Suc m"]) auto
  qed
qed

section \<open>Properties of the idle loop\<close>

text \<open>C35. Idle cleanup acts (shuts the container down, reaps, or panics on the way) only after a stretch
  of rounds, ending in the current one, that all saw no stream, no session and no preserved process,
  and that is at least as long as the idle grace.\<close>

theorem idle_cleanup_waits_for_grace:
  assumes "\<And>io. io \<in> set ios \<Longrightarrow> io_now io \<le> io_reap_now io"
    and "n < length (run_idle_cleanup (Some config) ios)"
    and "acts (run_idle_cleanup (Some config) ios ! n)"
  shows "n < length ios \<and> (\<exists>i \<le> n. (\<forall>j. i \<le> j \<and> j \<le> n \<longrightarrow> quiet config (ios ! j))
    \<and> io_now (ios ! i) + idle_grace_of config \<le> io_now (ios ! n))"
proof -
  have "since_ok config [] idle_runtime_default" by (simp add: since_ok_def idle_runtime_default_def)
  from idle_loop_acts [OF this assms(1)] assms(2,3) obtain t where n: "n < length ios"
    and "quiet_from config (take (Suc n) ios) t" and t: "t + idle_grace_of config \<le> io_now (ios ! n)"
    by (auto simp: run_idle_cleanup_def)
  then obtain i where "i \<le> n" "\<forall>j. i \<le> j \<and> j \<le> n \<longrightarrow> quiet config (ios ! j)" "io_now (ios ! i) \<le> t"
    using quiet_from_indices by blast
  with n t show ?thesis by (intro conjI exI [of _ i]) auto
qed

definition demo_round :: "nat \<Rightarrow> nat \<Rightarrow> idle_round" where
  "demo_round sessions now =
     \<lparr>io_shutting_down = False, io_active_streams = 0, io_active_sessions = sessions,
      io_processes = [], io_now = now, io_services = [], io_allow_reap = None,
      io_reap_processes = [], io_reap_now = now, io_uid = 0, io_pid = 1,
      io_proc_later = \<lambda>_ _. None\<rparr>"

definition demo_cleanup :: idle_cleanup_config where
  "demo_cleanup = idle_cleanup_default\<lparr>ic_idle_grace := Some ''5s''\<rparr>"

lemma demo_grace: "idle_grace_of demo_cleanup = 5000000000"
  by (simp add: idle_grace_of_def demo_cleanup_def duration_or_def parse_or_def parse_duration_def
      trim_def is_whitespace_def is_ascii_digit_def parse_uint_def digits_value_def digit_value_def
      from_secs_def u64_limit_def checked_mul_u64_def Let_def)

lemmas demo_run = run_idle_cleanup_def idle_step_def evaluate_idle_state_def demo_round_def
  idle_runtime_default_def find_preserve_processes_def demo_grace

theorem idle_cleanup_waits_for_grace_witness:
  "\<exists>i \<le> 2. (\<forall>j. i \<le> j \<and> j \<le> 2 \<longrightarrow>
      quiet demo_cleanup ([demo_round 1 0, demo_round 0 1000000000, demo_round 0 7000000000] ! j))
    \<and> io_now ([demo_round 1 0, demo_round 0 1000000000, demo_round 0 7000000000] ! i)
      + idle_grace_of demo_cleanup \<le> 7000000000"
proof -
  let ?ios = "[demo_round 1 0, demo_round 0 1000000000, demo_round 0 7000000000]"
  have cfg: "ic_action demo_cleanup = ExitContainer" "ic_preserve_processes demo_cleanup = []"
    "ic_shutdown_timeout demo_cleanup = None"
    by (simp_all add: demo_cleanup_def idle_cleanup_default_def)
  have run: "\<exists>d. run_idle_cleanup (Some demo_cleanup) ?ios = [IdleWaits, IdleWaits, ShutsDown d]"
    by (simp add: demo_run cfg duration_or_def checked_add_duration_def from_secs_def
        duration_max_def u64_limit_def Let_def)
  then obtain d where d: "run_idle_cleanup (Some demo_cleanup) ?ios = [IdleWaits, IdleWaits, ShutsDown d]" ..
  have "io_now io \<le> io_reap_now io" if "io \<in> set ?ios" for io using that by (auto simp: demo_round_def)
  from idle_cleanup_waits_for_grace [of ?ios 2 demo_cleanup, OF this] d
  show ?thesis by (simp add: acts_def demo_round_def)
qed



text \<open>An accepted configuration can make the cleanup panic instead: the shutdown timeout has no upper
  bound and five seconds are added to it.\<close>

lemma accepted_shutdown_timeout_panics:
  defines "config \<equiv> demo_cleanup\<lparr>ic_shutdown_timeout := Some ''18446744073709551615s''\<rparr>"
  shows "idle_cleanup_validate config = Inr ()
    \<and> run_idle_cleanup (Some config) [demo_round 0 0, demo_round 0 7000000000] = [IdleWaits, IdlePanics]"
proof -
  have parse: "parse_duration ''18446744073709551615s'' = Inr 18446744073709551615000000000"
    by (simp add: parse_duration_def trim_def is_whitespace_def is_ascii_digit_def parse_uint_def
        digits_value_def digit_value_def from_secs_def u64_limit_def checked_mul_u64_def Let_def)
  have grace: "idle_grace_of config = 5000000000" using demo_grace by (simp add: config_def idle_grace_of_def)
  have five: "is_ok (parse_duration ''5s'')"
    by (simp add: parse_duration_def trim_def is_whitespace_def is_ascii_digit_def parse_uint_def
        digits_value_def digit_value_def from_secs_def u64_limit_def checked_mul_u64_def Let_def)
  have fields: "ic_action config = ExitContainer" "ic_preserve_processes config = []"
    "ic_shutdown_timeout config = Some ''18446744073709551615s''" "ic_reap_signal config = ''TERM''"
    "ic_idle_grace config = Some ''5s''" "ic_poll_interval config = None" "ic_reap_kill_after config = None"
    by (simp_all add: config_def demo_cleanup_def idle_cleanup_default_def default_reap_signal_def)
  have "idle_cleanup_validate config = Inr ()"
    using five by (auto simp: idle_cleanup_validate_def check_duration_def fields parse is_ok_iff)
  moreover have "run_idle_cleanup (Some config) [demo_round 0 0, demo_round 0 7000000000] = [IdleWaits, IdlePanics]"
    by (simp add: run_idle_cleanup_def idle_step_def evaluate_idle_state_def demo_round_def Let_def
        idle_runtime_default_def find_preserve_processes_def grace fields duration_or_def parse_or_def parse
        checked_add_duration_def from_secs_def duration_max_def u64_limit_def)
  ultimately show ?thesis ..
qed

end
