(* ===== verification/Control.thy ===== *)
theory Control
  imports Idle_Cleanup
begin

text \<open>
  The control socket and the SSH bridge of the container agent: \<open>src/agent_control.rs\<close> (requests and
  responses), \<open>src/secret.rs\<close>, \<open>src/agent/state.rs\<close>, \<open>src/agent/status.rs\<close>, \<open>src/agent/lifecycle.rs\<close>,
  \<open>src/agent/control.rs\<close> and \<open>src/agent/bridge.rs\<close>. The JSON library is a record of the accessors the
  code calls. A connection is handled by one function; the server is a transition relation over the
  shared state, the connection permits, the held sessions and the bridge streams, in which the
  handling of connections, the shutdown and the bridge interleave.
\<close>

section \<open>Comparing secrets\<close>

type_synonym bytes = "8 word list"

definition as_bytes :: "string \<Rightarrow> bytes" where
  "as_bytes s = map (\<lambda>c. word_of_nat (of_char c)) s"

lemma as_bytes_inj: "as_bytes a = as_bytes b \<longleftrightarrow> a = b"
proof -
  have small: "of_char c < (256 :: nat)" for c using range_nat_of_char by (metis UNIV_I atLeastLessThan_iff image_eqI)
  have "inj (\<lambda>c. word_of_nat (of_char c) :: 8 word)"
  proof (rule injI)
    fix c d
    assume "(word_of_nat (of_char c) :: 8 word) = word_of_nat (of_char d)"
    then have "(of_char c :: nat) = of_char d"
      using small [of c] small [of d] by (simp add: word_of_nat_eq_iff take_bit_nat_eq_self)
    then show "c = d" by simp
  qed
  then show ?thesis by (simp add: as_bytes_def inj_map_eq_map)
qed

definition MAX_SECRET_COMPARE_BYTES :: nat where
  "MAX_SECRET_COMPARE_BYTES = 4096"

definition byte_at :: "bytes \<Rightarrow> nat \<Rightarrow> 8 word" where
  "byte_at bs i = (if i < length bs then bs ! i else 0)"

unbundle bit_operations_syntax

definition constant_time_eq :: "bytes \<Rightarrow> bytes \<Rightarrow> bool" where
  "constant_time_eq left right =
     (if length left > MAX_SECRET_COMPARE_BYTES \<or> length right > MAX_SECRET_COMPARE_BYTES then False
      else foldl (\<lambda>diff i. diff OR ucast (byte_at left i XOR byte_at right i))
          ((word_of_nat (length left) :: 64 word) XOR word_of_nat (length right))
          [0..<MAX_SECRET_COMPARE_BYTES] = 0)"

lemma foldl_or_zero:
  "foldl (\<lambda>d i. d OR f i) (a :: 'a :: len word) xs = 0 \<longleftrightarrow> a = 0 \<and> (\<forall>i \<in> set xs. f i = 0)"
  by (induction xs arbitrary: a) (auto simp: or_eq_0_iff)

lemma word_xor_zero: "(a :: 'a :: len word) XOR b = 0 \<longleftrightarrow> a = b"
  by (auto simp: bit_eq_iff bit_simps)

lemma constant_time_eq_iff:
  "constant_time_eq left right \<longleftrightarrow> left = right \<and> length left \<le> MAX_SECRET_COMPARE_BYTES"
proof (cases "length left > MAX_SECRET_COMPARE_BYTES \<or> length right > MAX_SECRET_COMPARE_BYTES")
  case True
  then show ?thesis by (auto simp: constant_time_eq_def)
next
  case False
  have lengths: "(word_of_nat (length left) :: 64 word) = word_of_nat (length right) \<longleftrightarrow>
      length left = length right"
    using False by (auto simp: MAX_SECRET_COMPARE_BYTES_def word_of_nat_eq_iff take_bit_nat_eq_self)
  have bytes: "(ucast (a XOR b :: 8 word) :: 64 word) = 0 \<longleftrightarrow> a = b" for a b
  proof -
    have "(ucast w :: 64 word) = 0 \<longleftrightarrow> w = 0" for w :: "8 word" by transfer simp
    then show ?thesis by (simp add: word_xor_zero)
  qed
  have "constant_time_eq left right \<longleftrightarrow> length left = length right
      \<and> (\<forall>i < MAX_SECRET_COMPARE_BYTES. byte_at left i = byte_at right i)"
    using False by (auto simp: constant_time_eq_def foldl_or_zero word_xor_zero lengths bytes)
  also have "\<dots> \<longleftrightarrow> left = right"
    using False by (auto simp: byte_at_def list_eq_iff_nth_eq)
  finally show ?thesis using False by auto
qed

section \<open>Requests and responses\<close>

text \<open>The accessors of a JSON value; \<open>j_parse\<close> gives the message of a syntax error.\<close>

record 'j json_api =
  j_null :: 'j
  j_get :: "'j \<Rightarrow> string \<Rightarrow> 'j option"
  j_as_str :: "'j \<Rightarrow> string option"
  j_as_bool :: "'j \<Rightarrow> bool option"
  j_parse :: "string \<Rightarrow> string + 'j"

record session_hold_params =
  shp_token :: "string option"
  shp_kind :: "string option"

record shutdown_params =
  sdp_token :: "string option"
  sdp_reason :: "string option"

record reap_now_params =
  rnp_token :: "string option"
  rnp_dry_run :: "bool option"

datatype control_request =
    CrStatus
  | CrSessionHold session_hold_params
  | CrShutdown shutdown_params
  | CrReapNow reap_now_params

datatype auth_requirement = AuthNone | AuthControlToken

fun request_method :: "control_request \<Rightarrow> string" where
  "request_method CrStatus = ''status''"
| "request_method (CrSessionHold _) = ''session_hold''"
| "request_method (CrShutdown _) = ''shutdown''"
| "request_method (CrReapNow _) = ''reap_now''"

fun request_auth :: "control_request \<Rightarrow> auth_requirement" where
  "request_auth CrStatus = AuthNone"
| "request_auth (CrSessionHold _) = AuthControlToken"
| "request_auth (CrShutdown _) = AuthControlToken"
| "request_auth (CrReapNow _) = AuthControlToken"

fun request_token :: "control_request \<Rightarrow> string option" where
  "request_token CrStatus = None"
| "request_token (CrSessionHold params) = shp_token params"
| "request_token (CrShutdown params) = sdp_token params"
| "request_token (CrReapNow params) = rnp_token params"

datatype 'j decoded_envelope = DecodedRequest 'j control_request | UnknownMethod 'j

definition string_param :: "'j json_api \<Rightarrow> 'j option \<Rightarrow> string \<Rightarrow> string option" where
  "string_param j params key = Option.bind (Option.bind params (\<lambda>p. j_get j p key)) (j_as_str j)"

definition bool_param :: "'j json_api \<Rightarrow> 'j option \<Rightarrow> string \<Rightarrow> bool option" where
  "bool_param j params key = Option.bind (Option.bind params (\<lambda>p. j_get j p key)) (j_as_bool j)"

definition envelope_decode :: "'j json_api \<Rightarrow> 'j \<Rightarrow> 'j decoded_envelope" where
  "envelope_decode j v =
     (let rid = unwrap_or (j_null j) (j_get j v ''id'') in
      case Option.bind (j_get j v ''method'') (j_as_str j) of
        None \<Rightarrow> UnknownMethod rid
      | Some method_name \<Rightarrow>
          let params = j_get j v ''params'' in
          if method_name = ''status'' then DecodedRequest rid CrStatus
          else if method_name = ''session_hold'' then DecodedRequest rid
            (CrSessionHold \<lparr>shp_token = string_param j params ''token'', shp_kind = string_param j params ''kind''\<rparr>)
          else if method_name = ''shutdown'' then DecodedRequest rid
            (CrShutdown \<lparr>sdp_token = string_param j params ''token'', sdp_reason = string_param j params ''reason''\<rparr>)
          else if method_name = ''reap_now'' then DecodedRequest rid
            (CrReapNow \<lparr>rnp_token = string_param j params ''token'', rnp_dry_run = bool_param j params ''dry_run''\<rparr>)
          else UnknownMethod rid)"

section \<open>The state of the agent\<close>

record socket_owner =
  so_uid :: nat
  so_gid :: nat

definition socket_owner_from_values ::
  "string option \<Rightarrow> string option \<Rightarrow> socket_owner option res" where
  "socket_owner_from_values uid gid = (case (uid, gid) of
       (None, None) \<Rightarrow> Inr None
     | (Some u, Some g) \<Rightarrow>
         and_then (ok_or (Bail ''AW_AUTHENTICATED_UID must be numeric'' []) (parse_uint u32_limit u)) (\<lambda>uid.
         and_then (ok_or (Bail ''AW_AUTHENTICATED_GID must be numeric'' []) (parse_uint u32_limit g)) (\<lambda>gid.
           Inr (Some \<lparr>so_uid = uid, so_gid = gid\<rparr>)))
     | _ \<Rightarrow> Inl (Bail ''AW_AUTHENTICATED_UID and AW_AUTHENTICATED_GID must be set together'' []))"

record agent_state =
  ag_state_dir :: string
  ag_services :: "managed_service list"
  ag_idle_cleanup :: "idle_cleanup_config option"
  ag_idle_state :: idle_runtime_state
  ag_bridge_enabled :: bool
  ag_bridge_ready :: bool
  ag_active_streams :: nat
  ag_active_sessions :: nat
  ag_accepting_bridge :: bool
  ag_shutting_down :: bool
  ag_shutdown_complete :: bool
  ag_control_token :: "string option"
  ag_socket_owner :: "socket_owner option"

definition agent_state_new ::
  "string \<Rightarrow> idle_cleanup_config option \<Rightarrow> bool \<Rightarrow> string option \<Rightarrow> socket_owner option \<Rightarrow> agent_state"
where
  "agent_state_new state_dir idle_cleanup bridge_enabled control_token owner =
     \<lparr>ag_state_dir = state_dir, ag_services = [],
      ag_idle_cleanup = (case idle_cleanup of
          Some config \<Rightarrow>
            if ic_owner config = OwnerAgent \<and> ic_action config \<noteq> ActionNone then Some config else None
        | None \<Rightarrow> None),
      ag_idle_state = idle_runtime_default, ag_bridge_enabled = bridge_enabled,
      ag_bridge_ready = (\<not> bridge_enabled), ag_active_streams = 0, ag_active_sessions = 0,
      ag_accepting_bridge = True, ag_shutting_down = False, ag_shutdown_complete = False,
      ag_control_token = control_token, ag_socket_owner = owner\<rparr>"

text \<open>A shutdown in two parts: the flags that the first caller sets, then the stop of the services. A
  later caller waits for the second part to be complete.\<close>

definition shutdown_begin :: "agent_state \<Rightarrow> agent_state" where
  "shutdown_begin st =
     (if ag_shutting_down st then st
      else st\<lparr>ag_shutting_down := True, ag_accepting_bridge := False\<rparr>)"

definition shutdown_finish :: "(string \<Rightarrow> duration option) \<Rightarrow> agent_state \<Rightarrow> agent_state" where
  "shutdown_finish exits st =
     st\<lparr>ag_services := map (\<lambda>m. if m \<in> set (service_stop_order (ag_services st))
             then fst (managed_service_stop exits m) else m) (ag_services st),
         ag_shutdown_complete := True\<rparr>"

section \<open>Status\<close>

record bridge_status =
  bs_enabled :: bool
  bs_ready :: bool
  bs_active_streams :: nat
  bs_active_sessions :: nat

record idle_cleanup_status =
  ics_owner :: string
  ics_action :: string
  ics_state :: idle_state_name
  ics_idle_for :: "nat option"
  ics_preserve :: bool
  ics_preserve_reason :: "string option"
  ics_matched_processes :: "process_match list"
  ics_last_reap_result :: "reap_result option"

record agent_status =
  as_ready :: bool
  as_version :: string
  as_services :: "service_status list"
  as_ssh_bridge :: bridge_status
  as_idle_cleanup :: "idle_cleanup_status option"
  as_shutting_down :: bool

fun idle_action_name :: "idle_cleanup_action \<Rightarrow> string" where
  "idle_action_name ActionNone = ''none''"
| "idle_action_name ExitContainer = ''exit_container''"
| "idle_action_name ReapProcesses = ''reap_processes''"

definition idle_cleanup_status_of :: "agent_state \<Rightarrow> nat \<Rightarrow> idle_cleanup_status option" where
  "idle_cleanup_status_of st now = map_option (\<lambda>config.
     let idle = ag_idle_state st in
     \<lparr>ics_owner = ''agent'', ics_action = idle_action_name (ic_action config),
      ics_state = irs_state idle, ics_idle_for = map_option (\<lambda>since. now - since) (irs_idle_since idle),
      ics_preserve = irs_preserve idle, ics_preserve_reason = irs_preserve_reason idle,
      ics_matched_processes = irs_matched_processes idle,
      ics_last_reap_result = irs_last_reap_result idle\<rparr>) (ag_idle_cleanup st)"

fun status_services_loop ::
  "network \<Rightarrow> string \<Rightarrow> managed_service list \<Rightarrow> bool \<Rightarrow> service_status list \<Rightarrow>
    bool \<times> service_status list" where
  "status_services_loop nw dir [] ready acc = (ready, acc)"
| "status_services_loop nw dir (m # ms) ready acc =
     (let status = managed_service_status nw dir m in
      status_services_loop nw dir ms
        (if sc_required (ms_config m) \<and> \<not> ss_healthy status then False else ready)
        (acc @ [status]))"

definition status_payload :: "network \<Rightarrow> string \<Rightarrow> nat \<Rightarrow> agent_state \<Rightarrow> agent_status" where
  "status_payload nw version now st =
     (case status_services_loop nw (ag_state_dir st) (ag_services st) True [] of
        (ready, services) \<Rightarrow>
          let ready = (if ag_shutting_down st then False else ready);
              ready = (if ag_bridge_enabled st \<and> (\<not> ag_bridge_ready st \<or> \<not> ag_accepting_bridge st)
                then False else ready)
          in \<lparr>as_ready = ready, as_version = version, as_services = services,
              as_ssh_bridge =
                \<lparr>bs_enabled = ag_bridge_enabled st,
                 bs_ready = (\<not> ag_shutting_down st \<and> ag_accepting_bridge st \<and> ag_bridge_ready st),
                 bs_active_streams = ag_active_streams st,
                 bs_active_sessions = ag_active_sessions st\<rparr>,
              as_idle_cleanup = idle_cleanup_status_of st now,
              as_shutting_down = ag_shutting_down st\<rparr>)"

section \<open>Reading a request\<close>

definition CONTROL_READ_TIMEOUT :: duration where
  "CONTROL_READ_TIMEOUT = from_secs 5"

definition MAX_CONTROL_REQUEST_BYTES :: nat where
  "MAX_CONTROL_REQUEST_BYTES = 64 * 1024"

text \<open>What \<open>fill_buf\<close> yields until the end of the stream; an empty chunk is the end, too.\<close>

type_synonym stream = "(error + string) list"

definition newline :: char where
  "newline = CHR 0x0A"

fun read_control_request :: "stream \<Rightarrow> string \<Rightarrow> string option res" where
  "read_control_request [] line = Inr (if line = [] then None else Some line)"
| "read_control_request (Inl e # _) line = Inl e"
| "read_control_request (Inr available # rest) line =
     (if available = [] then Inr (if line = [] then None else Some line)
      else
        let end_index = (case position (\<lambda>c. c = newline) available of
              Some i \<Rightarrow> i + 1 | None \<Rightarrow> length available) in
        if length line + end_index > MAX_CONTROL_REQUEST_BYTES
        then Inl (Bail ''control request exceeds {} bytes'' [show_nat MAX_CONTROL_REQUEST_BYTES])
        else
          let line = line @ take end_index available in
          if ends_with [newline] line then Inr (Some line) else read_control_request rest line)"

section \<open>Handling a connection\<close>

datatype 'j control_response =
    ControlFailure 'j string string
  | StatusResult 'j agent_status
  | SessionHoldResult 'j
  | ShutdownResult 'j
  | ReapNowResult 'j reap_result

definition unauthorized_if_needed ::
  "agent_state \<Rightarrow> control_request \<Rightarrow> 'j \<Rightarrow> 'j control_response option" where
  "unauthorized_if_needed st request rid =
     (if request_auth request = AuthNone then None
      else case ag_control_token st of
        None \<Rightarrow> Some (ControlFailure rid ''unauthorized'' ''control token is required'')
      | Some expected \<Rightarrow>
          if (case request_token request of
                Some token \<Rightarrow> constant_time_eq (as_bytes token) (as_bytes expected)
              | None \<Rightarrow> False)
          then None
          else Some (ControlFailure rid ''unauthorized'' ''control token is required''))"

text \<open>What the handler sees of its environment: the user at the other end (\<open>Inl\<close> when the system call
  fails), the stream, whether reading it took longer than the limit,
  whether the answer can be written, the clock and the process table.\<close>

record connection_input =
  ci_peer_uid :: "error + nat"
  ci_stream :: stream
  ci_timed_out :: bool
  ci_write :: "unit res"
  ci_now :: nat
  ci_processes :: "proc_info list"
  ci_uid :: nat
  ci_pid :: nat

definition validate_control_peer :: "error + nat \<Rightarrow> nat option \<Rightarrow> unit res" where
  "validate_control_peer peer expected_uid = (case expected_uid of
       None \<Rightarrow> Inr ()
     | Some expected \<Rightarrow> and_then peer (\<lambda>uid.
         bail_if (uid \<noteq> expected)
           (Bail ''control peer uid mismatch: expected {}, got {}'' [show_nat expected, show_nat uid])))"

text \<open>How the handling of a connection goes on: it failed, it was answered, it holds a session after its
  answer, or it has begun a shutdown (with the delay of the watchdog) and answers once that is
  complete.\<close>

datatype 'j connection_end =
    ConnectionFailed error
  | Answered "'j control_response"
  | HoldsSession "'j control_response"
  | AwaitsShutdown 'j duration

definition answer ::
  "connection_input \<Rightarrow> agent_state \<Rightarrow> 'j control_response \<Rightarrow> agent_state \<times> 'j connection_end" where
  "answer ci st response =
     (st, case ci_write ci of Inr _ \<Rightarrow> Answered response | Inl e \<Rightarrow> ConnectionFailed e)"

definition handle_request ::
  "network \<Rightarrow> string \<Rightarrow> connection_input \<Rightarrow> bool \<Rightarrow> agent_state \<Rightarrow> 'j \<Rightarrow> control_request \<Rightarrow>
    agent_state \<times> 'j connection_end" where
  "handle_request nw version ci session_slot_free st rid request = (case request of
       CrStatus \<Rightarrow> answer ci st (StatusResult rid (status_payload nw version (ci_now ci) st))
     | CrSessionHold _ \<Rightarrow>
         if \<not> session_slot_free
         then answer ci st (ControlFailure rid ''too_many_sessions'' ''too many active sessions'')
         else (case ci_write ci of
             Inl e \<Rightarrow> (st, ConnectionFailed e)
           | Inr _ \<Rightarrow> (st, HoldsSession (SessionHoldResult rid)))
     | CrShutdown _ \<Rightarrow>
         (shutdown_begin st, AwaitsShutdown rid (shutdown_watchdog_delay (ag_services st) (from_secs 30)))
     | CrReapNow _ \<Rightarrow>
         let result = (case ag_idle_cleanup st of
               Some config \<Rightarrow> fst (reap_processes config (ci_processes ci) {} (ci_uid ci) (ci_pid ci) True)
             | None \<Rightarrow> \<lparr>rr_dry_run = True, rr_would_terminate = [], rr_preserved = []\<rparr>)
         in answer ci (st\<lparr>ag_idle_state := (ag_idle_state st)\<lparr>irs_last_reap_result := Some result\<rparr>\<rparr>)
           (ReapNowResult rid result))"

definition handle_line ::
  "'j json_api \<Rightarrow> network \<Rightarrow> string \<Rightarrow> connection_input \<Rightarrow> bool \<Rightarrow> agent_state \<Rightarrow> string \<Rightarrow>
    agent_state \<times> 'j connection_end" where
  "handle_line j nw version ci session_slot_free st line = (case j_parse j line of
       Inl message \<Rightarrow> answer ci st (ControlFailure (j_null j) ''parse_error'' message)
     | Inr request \<Rightarrow>
         (case envelope_decode j request of
            UnknownMethod rid \<Rightarrow> answer ci st (ControlFailure rid ''unknown_method'' ''unknown control method'')
          | DecodedRequest rid request \<Rightarrow>
              (case unauthorized_if_needed st request rid of
                 Some response \<Rightarrow> answer ci st response
               | None \<Rightarrow> handle_request nw version ci session_slot_free st rid request)))"

definition handle_control_connection ::
  "'j json_api \<Rightarrow> network \<Rightarrow> string \<Rightarrow> connection_input \<Rightarrow> bool \<Rightarrow> agent_state \<Rightarrow>
    agent_state \<times> 'j connection_end" where
  "handle_control_connection j nw version ci session_slot_free st =
     (case validate_control_peer (ci_peer_uid ci) (map_option so_uid (ag_socket_owner st)) of
        Inl e \<Rightarrow> (st, ConnectionFailed e)
      | Inr _ \<Rightarrow>
          if ci_timed_out ci then (st, ConnectionFailed (Bail ''timed out reading control request'' []))
          else case read_control_request (ci_stream ci) [] of
            Inl e \<Rightarrow>
              if contains_str ''exceeds'' (error_text e)
              then answer ci st (ControlFailure (j_null j) ''request_too_large'' ''control request is too large'')
              else (st, ConnectionFailed e)
          | Inr None \<Rightarrow> (st, ConnectionFailed (Bail ''empty control request'' []))
          | Inr (Some line) \<Rightarrow> handle_line j nw version ci session_slot_free st line)"

text \<open>\<open>hold_control_session\<close> counts the session while it is held.\<close>

definition hold_begin :: "agent_state \<Rightarrow> agent_state" where
  "hold_begin st = st\<lparr>ag_active_sessions := ag_active_sessions st + 1\<rparr>"

definition hold_end :: "agent_state \<Rightarrow> agent_state" where
  "hold_end st = st\<lparr>ag_active_sessions := ag_active_sessions st - 1\<rparr>"

text \<open>A bridge stream counts itself while it is proxied.\<close>

definition stream_begin :: "agent_state \<Rightarrow> agent_state" where
  "stream_begin st = st\<lparr>ag_active_streams := ag_active_streams st + 1\<rparr>"

definition stream_end :: "agent_state \<Rightarrow> agent_state" where
  "stream_end st = st\<lparr>ag_active_streams := ag_active_streams st - 1\<rparr>"

section \<open>The server\<close>

definition MAX_CONTROL_CONNECTIONS :: nat where
  "MAX_CONTROL_CONNECTIONS = 256"

definition MAX_CONTROL_SESSION_HOLDS :: nat where
  "MAX_CONTROL_SESSION_HOLDS = 64"

definition MAX_BRIDGE_STREAMS :: nat where
  "MAX_BRIDGE_STREAMS = 1024"

text \<open>Connections and streams are numbered. A session permit is taken before the session is counted,
  a stream permit before the stream is.\<close>

record control_server =
  cs_agent :: agent_state
  cs_connections :: "nat set"
  cs_session_permits :: "nat set"
  cs_sessions :: "nat set"
  cs_awaiting :: "nat set"
  cs_stream_permits :: "nat set"
  cs_streams :: "nat set"

definition control_server_start :: "agent_state \<Rightarrow> control_server" where
  "control_server_start st =
     \<lparr>cs_agent = st, cs_connections = {}, cs_session_permits = {}, cs_sessions = {},
      cs_awaiting = {}, cs_stream_permits = {}, cs_streams = {}\<rparr>"

text \<open>What becomes of a connection after its handler went as far as it can.\<close>

fun connection_goes_on :: "nat \<Rightarrow> 'j connection_end \<Rightarrow> control_server \<Rightarrow> control_server" where
  "connection_goes_on c (HoldsSession _) s =
     s\<lparr>cs_session_permits := insert c (cs_session_permits s)\<rparr>"
| "connection_goes_on c (AwaitsShutdown _ _) s = s\<lparr>cs_awaiting := insert c (cs_awaiting s)\<rparr>"
| "connection_goes_on c _ s = s\<lparr>cs_connections := cs_connections s - {c}\<rparr>"

text \<open>The cleanup loop sees the counters and the flag of the shared state.\<close>

definition sees_agent :: "agent_state \<Rightarrow> idle_round \<Rightarrow> bool" where
  "sees_agent st io \<longleftrightarrow> io_shutting_down io = ag_shutting_down st
     \<and> io_active_streams io = ag_active_streams st \<and> io_active_sessions io = ag_active_sessions st
     \<and> io_services io = ag_services st"

definition after_idle_round :: "idle_effect \<Rightarrow> idle_runtime_state \<Rightarrow> agent_state \<Rightarrow> agent_state" where
  "after_idle_round effect idle st =
     (case effect of
        ShutsDown _ \<Rightarrow> shutdown_begin (st\<lparr>ag_idle_state := idle\<rparr>)
      | _ \<Rightarrow> st\<lparr>ag_idle_state := idle\<rparr>)"

inductive control_step ::
  "'j json_api \<Rightarrow> network \<Rightarrow> string \<Rightarrow> (string \<Rightarrow> duration option) \<Rightarrow>
    control_server \<Rightarrow> control_server \<Rightarrow> bool"
  for j nw version exits where
  accepted: "control_step j nw version exits s (s\<lparr>cs_connections := insert c (cs_connections s)\<rparr>)"
    if "c \<notin> cs_connections s" and "card (cs_connections s) < MAX_CONTROL_CONNECTIONS"
| handled: "control_step j nw version exits s (connection_goes_on c outcome (s\<lparr>cs_agent := st\<rparr>))"
    if "c \<in> cs_connections s - cs_session_permits s - cs_awaiting s"
    and "handle_control_connection j nw version ci
      (card (cs_session_permits s) < MAX_CONTROL_SESSION_HOLDS) (cs_agent s) = (st, outcome)"
| held: "control_step j nw version exits s
      (s\<lparr>cs_agent := hold_begin (cs_agent s), cs_sessions := insert c (cs_sessions s)\<rparr>)"
    if "c \<in> cs_session_permits s - cs_sessions s"
| released: "control_step j nw version exits s
      (s\<lparr>cs_agent := hold_end (cs_agent s), cs_sessions := cs_sessions s - {c},
         cs_session_permits := cs_session_permits s - {c}, cs_connections := cs_connections s - {c}\<rparr>)"
    if "c \<in> cs_sessions s"
| signalled: "control_step j nw version exits s (s\<lparr>cs_agent := shutdown_begin (cs_agent s)\<rparr>)"
| stopped: "control_step j nw version exits s (s\<lparr>cs_agent := shutdown_finish exits (cs_agent s)\<rparr>)"
    if "ag_shutting_down (cs_agent s)" and "\<not> ag_shutdown_complete (cs_agent s)"
| shutdown_answered: "control_step j nw version exits s
      (s\<lparr>cs_awaiting := cs_awaiting s - {c}, cs_connections := cs_connections s - {c}\<rparr>)"
    if "c \<in> cs_awaiting s" and "ag_shutdown_complete (cs_agent s)"
| idle_checked: "control_step j nw version exits s
      (s\<lparr>cs_agent := after_idle_round effect idle (cs_agent s)\<rparr>)"
    if "ag_idle_cleanup (cs_agent s) = Some config" and "sees_agent (cs_agent s) io"
    and "idle_step config io (ag_idle_state (cs_agent s)) = (effect, idle)"
| bridge_bound: "control_step j nw version exits s (s\<lparr>cs_agent := (cs_agent s)\<lparr>ag_bridge_ready := True\<rparr>\<rparr>)"
    if "ag_bridge_enabled (cs_agent s)"
| stream_accepted: "control_step j nw version exits s
      (s\<lparr>cs_stream_permits := insert k (cs_stream_permits s)\<rparr>)"
    if "ag_accepting_bridge (cs_agent s)" and "k \<notin> cs_stream_permits s"
    and "card (cs_stream_permits s) < MAX_BRIDGE_STREAMS"
| stream_started: "control_step j nw version exits s
      (s\<lparr>cs_agent := stream_begin (cs_agent s), cs_streams := insert k (cs_streams s)\<rparr>)"
    if "k \<in> cs_stream_permits s - cs_streams s"
| stream_closed: "control_step j nw version exits s
      (s\<lparr>cs_agent := stream_end (cs_agent s), cs_streams := cs_streams s - {k},
         cs_stream_permits := cs_stream_permits s - {k}\<rparr>)"
    if "k \<in> cs_streams s"
| supervised: "control_step j nw version exits s (s\<lparr>cs_agent := (cs_agent s)\<lparr>ag_services := services\<rparr>\<rparr>)"
    if "map ms_config services = map ms_config (ag_services (cs_agent s))"

inductive control_reachable ::
  "'j json_api \<Rightarrow> network \<Rightarrow> string \<Rightarrow> (string \<Rightarrow> duration option) \<Rightarrow>
    control_server \<Rightarrow> control_server \<Rightarrow> bool"
  for j nw version exits where
  start: "control_reachable j nw version exits s s"
| step: "control_reachable j nw version exits s u"
    if "control_reachable j nw version exits s t" and "control_step j nw version exits t u"

section \<open>Lemmas on requests\<close>

lemma handle_control_connection_cases:
  assumes "handle_control_connection j nw version ci slot_free st = (st', outcome)"
  obtains (awaits) rid delay where "outcome = AwaitsShutdown rid delay" "st' = shutdown_begin st"
  | (holds) r where "outcome = HoldsSession r" "st' = st" "slot_free"
  | (ended) idle where "st' = st\<lparr>ag_idle_state := idle\<rparr>" "\<nexists>rid delay. outcome = AwaitsShutdown rid delay"
      "\<nexists>r. outcome = HoldsSession r"
proof -
  have same: "\<exists>idle. st = st\<lparr>ag_idle_state := idle\<rparr>" by (intro exI [of _ "ag_idle_state st"]) simp
  note defs = handle_control_connection_def handle_line_def handle_request_def answer_def
  have "(\<exists>rid delay. outcome = AwaitsShutdown rid delay \<and> st' = shutdown_begin st)
      \<or> (\<exists>r. outcome = HoldsSession r \<and> st' = st \<and> slot_free)
      \<or> (\<exists>idle. st' = st\<lparr>ag_idle_state := idle\<rparr>) \<and> (\<nexists>rid delay. outcome = AwaitsShutdown rid delay)
        \<and> (\<nexists>r. outcome = HoldsSession r)"
    using assms same
    by (auto simp: defs Let_def split: sum.splits option.splits if_splits decoded_envelope.splits
        control_request.splits)
  with that show ?thesis by blast
qed

text \<open>The part of a request that matters: everything up to the first line feed, if there is one.\<close>

definition first_line :: "string \<Rightarrow> string" where
  "first_line s = (case position (\<lambda>c. c = newline) s of Some i \<Rightarrow> take (i + 1) s | None \<Rightarrow> s)"

lemma position_append:
  "position P (xs @ ys) = (case position P xs of
     Some i \<Rightarrow> Some i | None \<Rightarrow> map_option ((+) (length xs)) (position P ys))"
  by (induction xs; cases "position P ys") (auto split: option.splits)

lemma position_less: "position P xs = Some i \<Longrightarrow> i < length xs"
  using position_Some by blast

lemma no_newline: "newline \<notin> set l \<Longrightarrow> position (\<lambda>c. c = newline) l = None"
  by (auto simp: position_None)

lemma first_line_append:
  "newline \<notin> set line \<Longrightarrow> first_line (line @ rest) = line @ first_line rest"
  by (simp add: first_line_def position_append no_newline split: option.splits)

lemma read_control_request_chunks:
  assumes "[] \<notin> set chunks" and "newline \<notin> set line" and "length line \<le> MAX_CONTROL_REQUEST_BYTES"
  shows "read_control_request (map Inr chunks) line =
    (let request = first_line (line @ concat chunks) in
     if length request > MAX_CONTROL_REQUEST_BYTES
     then Inl (Bail ''control request exceeds {} bytes'' [show_nat MAX_CONTROL_REQUEST_BYTES])
     else Inr (if request = [] then None else Some request))"
  using assms
proof (induction chunks arbitrary: line)
  case Nil
  then have "first_line line = line" by (simp add: first_line_def no_newline)
  with Nil show ?case by simp
next
  case (Cons chunk chunks)
  then have chunk: "chunk \<noteq> []" by auto
  show ?case
  proof (cases "position (\<lambda>c. c = newline) chunk")
    case None
    then have nl: "newline \<notin> set chunk" by (auto simp: position_None)
    have cut: "first_line (line @ chunk @ concat chunks) = line @ chunk @ first_line (concat chunks)"
      using Cons.prems(2) nl first_line_append [of "line @ chunk" "concat chunks"] by simp
    have last: "\<not> ends_with [newline] (line @ chunk)"
    proof
      assume "ends_with [newline] (line @ chunk)"
      then have "newline \<in> set (line @ chunk)" unfolding ends_with_iff by (metis in_set_conv_decomp)
      with nl Cons.prems(2) show False by simp
    qed
    show ?thesis
    proof (cases "length (line @ chunk) > MAX_CONTROL_REQUEST_BYTES")
      case True
      then show ?thesis using None chunk by (simp add: cut)
    next
      case False
      with Cons.IH [of "line @ chunk"] Cons.prems nl None chunk last
      show ?thesis by simp
    qed
  next
    case (Some i)
    then have i: "i < length chunk" "chunk ! i = newline" using position_Some [of _ chunk i] by auto
    have cut: "first_line (line @ chunk @ concat chunks) = line @ take (i + 1) chunk"
      using Cons.prems(2) i(1) Some
      by (simp add: first_line_append) (simp add: first_line_def position_append)
    have last: "ends_with [newline] (line @ take (i + 1) chunk)"
      using i by (auto simp: ends_with_iff take_Suc_conv_app_nth)
    show ?thesis using Some chunk i last by (auto simp: cut Let_def)
  qed
qed

section \<open>The invariant of the server\<close>

definition permits_ok :: "control_server \<Rightarrow> bool" where
  "permits_ok s \<longleftrightarrow>
     finite (cs_connections s) \<and> card (cs_connections s) \<le> MAX_CONTROL_CONNECTIONS
     \<and> cs_session_permits s \<subseteq> cs_connections s \<and> card (cs_session_permits s) \<le> MAX_CONTROL_SESSION_HOLDS
     \<and> cs_sessions s \<subseteq> cs_session_permits s
     \<and> cs_awaiting s \<subseteq> cs_connections s \<and> cs_awaiting s \<inter> cs_session_permits s = {}
     \<and> finite (cs_stream_permits s) \<and> card (cs_stream_permits s) \<le> MAX_BRIDGE_STREAMS
     \<and> cs_streams s \<subseteq> cs_stream_permits s"

definition counters_ok :: "control_server \<Rightarrow> bool" where
  "counters_ok s \<longleftrightarrow>
     ag_active_sessions (cs_agent s) = card (cs_sessions s)
     \<and> ag_active_streams (cs_agent s) = card (cs_streams s)"

definition shutdown_ok :: "control_server \<Rightarrow> bool" where
  "shutdown_ok s \<longleftrightarrow>
     (ag_shutting_down (cs_agent s) \<longleftrightarrow> \<not> ag_accepting_bridge (cs_agent s))
     \<and> (ag_shutdown_complete (cs_agent s) \<longrightarrow> ag_shutting_down (cs_agent s))
     \<and> (cs_awaiting s \<noteq> {} \<longrightarrow> ag_shutting_down (cs_agent s))"

lemma shutdown_begin_fields [simp]:
  "ag_active_sessions (shutdown_begin st) = ag_active_sessions st"
  "ag_active_streams (shutdown_begin st) = ag_active_streams st"
  "ag_shutting_down (shutdown_begin st)"
  "ag_shutdown_complete (shutdown_begin st) = ag_shutdown_complete st"
  by (simp_all add: shutdown_begin_def)

lemma after_idle_round_fields [simp]:
  "ag_active_sessions (after_idle_round e i st) = ag_active_sessions st"
  "ag_active_streams (after_idle_round e i st) = ag_active_streams st"
  "ag_shutdown_complete (after_idle_round e i st) = ag_shutdown_complete st"
  by (simp_all add: after_idle_round_def split: idle_effect.splits)

lemma control_step_permits:
  assumes "control_step j nw version exits s t" and "permits_ok s"
  shows "permits_ok t"
  using assms
proof (cases rule: control_step.cases)
  case (accepted c)
  with assms(2) show ?thesis by (auto simp: permits_ok_def)
next
  case (handled c ci st outcome)
  from handled(3) show ?thesis
  proof (cases rule: handle_control_connection_cases)
    case (holds r)
    have "finite (cs_session_permits s)" using assms(2) unfolding permits_ok_def by (meson finite_subset)
    with holds handled assms(2) show ?thesis by (auto simp: permits_ok_def)
  next
    case (ended idle)
    then have "t = s\<lparr>cs_agent := st, cs_connections := cs_connections s - {c}\<rparr>"
      using handled(1) by (cases outcome) auto
    moreover have "card (cs_connections s - {c}) \<le> MAX_CONTROL_CONNECTIONS"
      using assms(2) by (meson card_Diff1_le order.trans permits_ok_def)
    ultimately show ?thesis using handled(2) assms(2) by (auto simp: permits_ok_def)
  qed (use handled assms(2) in \<open>auto simp: permits_ok_def\<close>)
next
  case (released c)
  have "card (cs_connections s - {c}) \<le> MAX_CONTROL_CONNECTIONS"
    "card (cs_session_permits s - {c}) \<le> MAX_CONTROL_SESSION_HOLDS"
    using assms(2) by (meson card_Diff1_le order.trans permits_ok_def)+
  with released assms(2) show ?thesis by (auto simp: permits_ok_def)
next
  case (shutdown_answered c)
  have "card (cs_connections s - {c}) \<le> MAX_CONTROL_CONNECTIONS"
    using assms(2) by (meson card_Diff1_le order.trans permits_ok_def)
  with shutdown_answered assms(2) show ?thesis by (auto simp: permits_ok_def)
next
  case (stream_closed k)
  have "card (cs_stream_permits s - {k}) \<le> MAX_BRIDGE_STREAMS"
    using assms(2) by (meson card_Diff1_le order.trans permits_ok_def)
  with stream_closed assms(2) show ?thesis by (auto simp: permits_ok_def)
qed (auto simp: permits_ok_def)

lemma control_step_counters:
  assumes "control_step j nw version exits s t" and "permits_ok s" and "counters_ok s"
  shows "counters_ok t"
proof -
  have fin: "finite (cs_sessions s)" "finite (cs_streams s)"
    using assms(2) unfolding permits_ok_def by (meson finite_subset)+
  from assms(1) show ?thesis
  proof (cases rule: control_step.cases)
    case (handled c ci st outcome)
    have "ag_active_sessions st = ag_active_sessions (cs_agent s)"
      "ag_active_streams st = ag_active_streams (cs_agent s)"
      using handled(3) by (cases rule: handle_control_connection_cases; simp)+
    with handled(1) assms(3) show ?thesis by (cases outcome) (auto simp: counters_ok_def)
  qed (use assms(3) fin in \<open>auto simp: counters_ok_def hold_begin_def hold_end_def stream_begin_def
      stream_end_def shutdown_finish_def\<close>)
qed

lemma control_step_shutdown:
  assumes "control_step j nw version exits s t" and "shutdown_ok s"
  shows "shutdown_ok t \<and> (ag_shutting_down (cs_agent s) \<longrightarrow> ag_shutting_down (cs_agent t)
      \<and> cs_stream_permits t \<subseteq> cs_stream_permits s)"
  using assms(1)
proof (cases rule: control_step.cases)
  case (handled c ci st outcome)
  from handled(3) show ?thesis
  proof (cases rule: handle_control_connection_cases)
    case (ended idle)
    with handled(1) assms(2) show ?thesis by (cases outcome) (auto simp: shutdown_ok_def)
  qed (use handled(1) assms(2) in \<open>auto simp: shutdown_ok_def shutdown_begin_def\<close>)
qed (use assms(2) in \<open>auto simp: shutdown_ok_def shutdown_begin_def shutdown_finish_def hold_begin_def
    hold_end_def stream_begin_def stream_end_def after_idle_round_def split: idle_effect.splits\<close>)

lemma control_reachable_ok:
  assumes "control_reachable j nw version exits s t"
    and "permits_ok s" and "counters_ok s" and "shutdown_ok s"
  shows "permits_ok t \<and> counters_ok t \<and> shutdown_ok t"
  using assms
proof (induction rule: control_reachable.induct)
  case (step s t u)
  then show ?case
    using control_step_permits control_step_counters control_step_shutdown by blast
qed simp

definition agent_started ::
  "string \<Rightarrow> service_config list \<Rightarrow> idle_cleanup_config option \<Rightarrow> bool \<Rightarrow> string option \<Rightarrow>
    socket_owner option \<Rightarrow> agent_state" where
  "agent_started dir services idle bridge token owner =
     (agent_state_new dir idle bridge token owner)\<lparr>ag_services := map managed_service_new services\<rparr>"

lemma started_server_ok:
  assumes "control_reachable j nw version exits
      (control_server_start (agent_started dir services idle bridge token owner)) t"
  shows "permits_ok t" and "counters_ok t" and "shutdown_ok t"
proof -
  let ?s = "control_server_start (agent_started dir services idle bridge token owner)"
  have "permits_ok ?s" "counters_ok ?s" "shutdown_ok ?s"
    by (simp_all add: permits_ok_def counters_ok_def shutdown_ok_def control_server_start_def
        agent_started_def agent_state_new_def)
  with control_reachable_ok [OF assms] show "permits_ok t" "counters_ok t" "shutdown_ok t" by blast+
qed

lemma control_reachable_shutdown:
  assumes "control_reachable j nw version exits t u" and "shutdown_ok t" and "ag_shutting_down (cs_agent t)"
  shows "shutdown_ok u \<and> ag_shutting_down (cs_agent u) \<and> cs_stream_permits u \<subseteq> cs_stream_permits t"
  using assms
proof (induction rule: control_reachable.induct)
  case (step s t u)
  then show ?case using control_step_shutdown [of j nw version exits t u] by blast
qed simp

lemma shutting_down_not_ready:
  "ag_shutting_down st \<Longrightarrow> \<not> as_ready (status_payload nw version now st)"
  by (auto simp: status_payload_def Let_def split: prod.splits)

text \<open>A connection that waits for the shutdown is answered after at most two steps.\<close>

lemma shutdown_can_be_answered:
  assumes "shutdown_ok t" and "c \<in> cs_awaiting t"
  shows "\<exists>u. control_reachable j nw version exits t u \<and> c \<notin> cs_awaiting u \<and> c \<notin> cs_connections u"
proof -
  have down: "ag_shutting_down (cs_agent t)" using assms by (auto simp: shutdown_ok_def)
  obtain s where s: "control_reachable j nw version exits t s" "cs_awaiting s = cs_awaiting t"
    "ag_shutdown_complete (cs_agent s)"
  proof (cases "ag_shutdown_complete (cs_agent t)")
    case True
    with that [OF control_reachable.start] show ?thesis by simp
  next
    case False
    let ?s = "t\<lparr>cs_agent := shutdown_finish exits (cs_agent t)\<rparr>"
    have "control_reachable j nw version exits t ?s"
      by (rule control_reachable.step [OF control_reachable.start control_step.stopped [OF down False]])
    from that [OF this] show ?thesis by (simp add: shutdown_finish_def)
  qed
  then have "c \<in> cs_awaiting s" using assms(2) by simp
  from control_reachable.step [OF s(1) control_step.shutdown_answered [OF this s(3)]]
  show ?thesis by (rule exI [of _ "_ :: control_server", OF conjI]) simp
qed

lemma validate_control_peer_Inr:
  "validate_control_peer peer expected = Inr () \<longleftrightarrow> (\<forall>uid. expected = Some uid \<longrightarrow> peer = Inr uid)"
  by (cases expected; cases peer) (auto simp: validate_control_peer_def bail_if_def)

text \<open>A request without a token changes nothing and gets the status.\<close>

lemma open_request_harmless:
  assumes "handle_request nw version ci slot_free st rid request = (st', outcome)"
    and "request_auth request = AuthNone"
  shows "st' = st \<and> outcome \<noteq> HoldsSession r \<and> outcome \<noteq> AwaitsShutdown i d
    \<and> outcome \<noteq> Answered (ReapNowResult i result)"
  using assms by (cases request) (auto simp: handle_request_def answer_def split: sum.splits)

section \<open>Properties\<close>

text \<open>C18. The control socket never handles more than 256 connections, never holds more than 64 sessions,
  each on a connection of its own, and the bridge never carries more than 1024 streams; the counters
  of the shared state are the numbers of held sessions and started streams. Held sessions alone never
  exhaust the connections.\<close>

theorem control_server_limits:
  assumes "control_reachable j nw version exits
      (control_server_start (agent_started dir services idle bridge token owner)) t"
  shows "card (cs_connections t) \<le> 256 \<and> card (cs_session_permits t) \<le> 64
    \<and> card (cs_stream_permits t) \<le> 1024
    \<and> ag_active_sessions (cs_agent t) = card (cs_sessions t) \<and> cs_sessions t \<subseteq> cs_session_permits t
    \<and> cs_session_permits t \<subseteq> cs_connections t
    \<and> ag_active_streams (cs_agent t) = card (cs_streams t) \<and> cs_streams t \<subseteq> cs_stream_permits t
    \<and> (cs_connections t = cs_session_permits t \<longrightarrow> card (cs_connections t) < MAX_CONTROL_CONNECTIONS)"
  using started_server_ok(1,2) [OF assms]
  by (auto simp: permits_ok_def counters_ok_def MAX_CONTROL_CONNECTIONS_def MAX_BRIDGE_STREAMS_def
      MAX_CONTROL_SESSION_HOLDS_def)

text \<open>While a session is held or a bridge stream is open, no round of the idle cleanup shuts the
  container down or reaps a process.\<close>

theorem held_sessions_keep_the_container:
  assumes "control_reachable j nw version exits
      (control_server_start (agent_started dir services idle bridge token owner)) t"
    and "cs_sessions t \<noteq> {} \<or> cs_streams t \<noteq> {}" and "sees_agent (cs_agent t) io"
    and "idle_step config io (ag_idle_state (cs_agent t)) = (effect, idle')"
  shows "\<not> acts effect"
proof -
  note ok = started_server_ok(1,2) [OF assms(1)]
  have "finite (cs_sessions t)" "finite (cs_streams t)"
    using ok(1) unfolding permits_ok_def by (meson finite_subset)+
  with ok(2) assms(2,3) have "\<not> quiet config io"
    by (auto simp: counters_ok_def sees_agent_def quiet_def card_gt_0_iff)
  with assms(4) show ?thesis
    by (cases rule: idle_step_cases) (auto simp: acts_def due_def)
qed

text \<open>C33. Only the holder of the control token can hold a session, shut the agent down, preview a reap or
  change the shared state through the control socket: the connection comes from the configured user,
  and its request line carries exactly the token the agent was started with.\<close>

theorem control_token_protects:
  assumes "handle_control_connection j nw version ci slot_free st = (st', outcome)"
    and "st' \<noteq> st \<or> (\<exists>r. outcome = HoldsSession r) \<or> (\<exists>rid delay. outcome = AwaitsShutdown rid delay)
      \<or> (\<exists>rid result. outcome = Answered (ReapNowResult rid result))"
  shows "\<exists>token line v rid request. ag_control_token st = Some token
    \<and> (\<forall>owner. ag_socket_owner st = Some owner \<longrightarrow> ci_peer_uid ci = Inr (so_uid owner))
    \<and> read_control_request (ci_stream ci) [] = Inr (Some line) \<and> j_parse j line = Inr v
    \<and> envelope_decode j v = DecodedRequest rid request \<and> request_token request = Some token"
proof -
  show ?thesis
    using assms
    by (auto simp: handle_control_connection_def handle_line_def answer_def unauthorized_if_needed_def
        constant_time_eq_iff as_bytes_inj validate_control_peer_Inr
        split: sum.splits option.splits if_splits decoded_envelope.splits
        dest: open_request_harmless)
qed

text \<open>However the bytes of a request arrive, the control socket reads the same: the bytes up to and
  with the first line feed (or all of them), refused when they are more than 64 KiB, and nothing when
  there are none.\<close>

theorem control_request_framing:
  assumes "[] \<notin> set chunks"
  shows "read_control_request (map Inr chunks) [] =
    (let request = first_line (concat chunks) in
     if length request > MAX_CONTROL_REQUEST_BYTES
     then Inl (Bail ''control request exceeds {} bytes'' [show_nat MAX_CONTROL_REQUEST_BYTES])
     else Inr (if request = [] then None else Some request))"
  using read_control_request_chunks [OF assms, of "[]"] by simp

theorem control_request_framing_witness:
  "read_control_request [Inr ''{}'', Inr [CHR ''x'', newline, CHR ''y'']] []
    = Inr (Some [CHR ''{'', CHR ''}'', CHR ''x'', newline])"
  using control_request_framing [of "[''{}'', [CHR ''x'', newline, CHR ''y'']]"]
  by (simp add: first_line_def newline_def MAX_CONTROL_REQUEST_BYTES_def)

text \<open>A shutdown is final: from the moment it begins the agent reports not to be ready and the bridge
  accepts no further stream, whatever happens next, and every request that waits for the shutdown can
  be answered.\<close>

theorem shutdown_is_final:
  assumes "control_reachable j nw version exits
      (control_server_start (agent_started dir services idle bridge token owner)) t"
    and "ag_shutting_down (cs_agent t)" and "control_reachable j nw version exits t u"
  shows "ag_shutting_down (cs_agent u) \<and> \<not> as_ready (status_payload nw' version' now (cs_agent u))
    \<and> cs_stream_permits u \<subseteq> cs_stream_permits t
    \<and> (\<forall>c. c \<in> cs_awaiting u \<longrightarrow> (\<exists>w. control_reachable j nw version exits u w
        \<and> c \<notin> cs_awaiting w \<and> c \<notin> cs_connections w))"
  using control_reachable_shutdown [OF assms(3) started_server_ok(3) [OF assms(1)] assms(2)]
    shutting_down_not_ready shutdown_can_be_answered by blast

section \<open>A run of the server\<close>

text \<open>An instance in which every line asks to hold a session with the token \<open>secret\<close>.\<close>

definition demo_json :: "string json_api" where
  "demo_json =
     \<lparr>j_null = ''null'',
      j_get = (\<lambda>v key. if key = ''method'' then Some ''session_hold''
        else if key = ''token'' then Some ''secret'' else Some v),
      j_as_str = Some, j_as_bool = (\<lambda>_. None), j_parse = Inr\<rparr>"

definition demo_network :: network where
  "demo_network = \<lparr>nw_tcp = \<lambda>_ _ _. True, nw_http = \<lambda>_ _ _ _. True\<rparr>"

definition demo_connection :: connection_input where
  "demo_connection =
     \<lparr>ci_peer_uid = Inr 1000, ci_stream = [Inr ''x''], ci_timed_out = False, ci_write = Inr (),
      ci_now = 0, ci_processes = [], ci_uid = 0, ci_pid = 1\<rparr>"

definition demo_agent :: agent_state where
  "demo_agent = agent_started ''/s'' [] (Some demo_cleanup) True (Some ''secret'') None"

lemma demo_handled:
  "handle_control_connection demo_json nw version demo_connection True demo_agent
    = (demo_agent, HoldsSession (SessionHoldResult ''x''))"
  by (simp add: handle_control_connection_def handle_line_def handle_request_def demo_connection_def
      demo_json_def demo_agent_def agent_started_def agent_state_new_def validate_control_peer_def
      envelope_decode_def string_param_def unauthorized_if_needed_def constant_time_eq_iff
      MAX_SECRET_COMPARE_BYTES_def MAX_CONTROL_REQUEST_BYTES_def newline_def as_bytes_def ends_with_def)

definition demo_held :: control_server where
  "demo_held = (control_server_start demo_agent)
     \<lparr>cs_agent := hold_begin demo_agent, cs_connections := {0}, cs_session_permits := {0}, cs_sessions := {0}\<rparr>"

lemma demo_held_reachable:
  "control_reachable demo_json nw version exits (control_server_start demo_agent) demo_held"
proof -
  let ?step = "control_step demo_json nw version exits"
  let ?s = "control_server_start demo_agent"
  let ?a = "?s\<lparr>cs_connections := {0}\<rparr>" and ?p = "?s\<lparr>cs_connections := {0}, cs_session_permits := {0}\<rparr>"
  have "?step ?s ?a"
    using control_step.accepted [of 0 ?s demo_json nw version exits]
    by (simp add: control_server_start_def MAX_CONTROL_CONNECTIONS_def)
  moreover have "?step ?a ?p"
    using control_step.handled [of 0 ?a demo_json nw version demo_connection demo_agent _ exits]
      demo_handled [of nw version]
    by (simp add: control_server_start_def MAX_CONTROL_SESSION_HOLDS_def)
  moreover have "?step ?p demo_held"
    using control_step.held [of 0 ?p demo_json nw version exits]
    by (simp add: control_server_start_def demo_held_def)
  ultimately show ?thesis by (meson control_reachable.intros)
qed

theorem control_server_limits_witness:
  "cs_sessions demo_held = {0} \<and> ag_active_sessions (cs_agent demo_held) = 1"
  using control_server_limits [OF demo_held_reachable [of demo_network "''1''" "\<lambda>_. None", unfolded demo_agent_def]]
  by (simp add: demo_held_def)

theorem held_sessions_keep_the_container_witness:
  "\<not> acts (fst (idle_step demo_cleanup ((demo_round 1 7000000000)\<lparr>io_services := []\<rparr>)
    (ag_idle_state (cs_agent demo_held))))"
proof (rule held_sessions_keep_the_container
    [OF demo_held_reachable [of demo_network "''1''" "\<lambda>_. None", unfolded demo_agent_def]])
  show "sees_agent (cs_agent demo_held) ((demo_round 1 7000000000)\<lparr>io_services := []\<rparr>)"
    by (simp add: sees_agent_def demo_round_def demo_held_def hold_begin_def demo_agent_def
        agent_started_def agent_state_new_def)
  show "idle_step demo_cleanup ((demo_round 1 7000000000)\<lparr>io_services := []\<rparr>) (ag_idle_state (cs_agent demo_held))
    = (fst (idle_step demo_cleanup ((demo_round 1 7000000000)\<lparr>io_services := []\<rparr>)
        (ag_idle_state (cs_agent demo_held))),
       snd (idle_step demo_cleanup ((demo_round 1 7000000000)\<lparr>io_services := []\<rparr>)
        (ag_idle_state (cs_agent demo_held))))" by simp
qed (simp add: demo_held_def)

theorem control_token_protects_witness:
  "\<exists>token line v rid request. ag_control_token demo_agent = Some token
    \<and> read_control_request (ci_stream demo_connection) [] = Inr (Some line) \<and> j_parse demo_json line = Inr v
    \<and> envelope_decode demo_json v = DecodedRequest rid request \<and> request_token request = Some token"
  using control_token_protects [OF demo_handled [of demo_network "''1''"]] by blast

theorem shutdown_is_final_witness:
  "\<not> as_ready (status_payload demo_network ''1'' 0
    (cs_agent (demo_held\<lparr>cs_agent := shutdown_begin (cs_agent demo_held)\<rparr>)))"
proof -
  let ?t = "demo_held\<lparr>cs_agent := shutdown_begin (cs_agent demo_held)\<rparr>"
  have "control_reachable demo_json demo_network ''1'' (\<lambda>_. None) (control_server_start demo_agent) ?t"
    by (rule control_reachable.step [OF demo_held_reachable control_step.signalled])
  from shutdown_is_final [OF this [unfolded demo_agent_def] _ control_reachable.start]
  show ?thesis by simp
qed

end
