(* ===== verification/Container_Runtime.thy ===== *)
theory Container_Runtime
  imports Gateway_Config "HOL-Library.Word" "HOL-Library.Sublist"
begin

unbundle bit_operations_syntax

text \<open>
  \<open>src/runtime.rs\<close>, the commands of a container runtime: the program and the environment of its client,
  the arguments that run a container and that execute a command in one, which values of the environment
  travel as arguments and which through the environment of the client, image references, published
  ports, container labels and the check of a Unix socket. Running a client is the caller's; what it
  printed and how it exited are arguments here. A \<open>panic\<close> is \<open>None\<close>.
\<close>

section \<open>Runtimes and specifications\<close>

type_synonym env_map = "(string, string) btree"

record container_runtime =
  crt_kind :: container_runtime_type
  crt_program :: string
  crt_env :: env_map

datatype exposure_realization = PathReconnect | PinnedInode

fun realization_text :: "exposure_realization \<Rightarrow> string" where
  "realization_text PathReconnect = ''path_reconnect''"
| "realization_text PinnedInode = ''pinned_inode''"

record source_identity =
  si_device :: nat
  si_inode :: nat
  si_uid :: nat
  si_gid :: nat
  si_mode :: nat

record exposure_spec =
  hes_name :: string
  hes_host_path :: string
  hes_container_path :: string
  hes_readiness_user :: string
  hes_selinux_relabel :: selinux_relabel
  hes_realization :: exposure_realization
  hes_source_identity :: source_identity

record mount_spec =
  ms_source :: string
  ms_target :: string
  ms_readonly :: bool

record run_spec =
  rs_name :: string
  rs_hostname :: string
  rs_image :: string
  rs_workspace :: string
  rs_workspace_container_path :: string
  rs_container_home :: string
  rs_container_user :: string
  rs_passwd_entry :: "string option"
  rs_state_dir_in_container :: string
  rs_mounts :: "mount_spec list"
  rs_exposures :: "exposure_spec list"
  rs_env :: env_map
  rs_labels :: env_map
  rs_publish_ssh :: bool
  rs_published_ssh_host_port :: "nat option"
  rs_extra_run_args :: "string list"
  rs_command :: "string list"

record exec_spec =
  es_stdin_tty :: bool
  es_stdout_tty :: bool
  es_user :: string
  es_cwd :: "string option"
  es_env :: env_map
  es_container_name :: string
  es_command :: "string list"

definition default_program :: "container_runtime_type \<Rightarrow> string" where
  "default_program k = (case k of Podman \<Rightarrow> ''podman'' | Docker \<Rightarrow> ''docker'' | Colima \<Rightarrow> ''docker''
     | AppleContainer \<Rightarrow> ''container'')"

definition render_runtime_setting :: "string \<Rightarrow> string \<Rightarrow> string \<Rightarrow> string res" where
  "render_runtime_setting v user home =
     render v (bt_insert ''home'' home (bt_insert ''user'' user []))"

definition from_config :: "runtime_config \<Rightarrow> string \<Rightarrow> string \<Rightarrow> container_runtime res" where
  "from_config cfg user home =
     (let program = unwrap_or (default_program (rc_type cfg)) (rc_program cfg) in
      map_ok (\<lambda>env. \<lparr>crt_kind = rc_type cfg, crt_program = program, crt_env = env\<rparr>)
        (case rc_type cfg of
           Podman \<Rightarrow> Inr []
         | AppleContainer \<Rightarrow> Inr []
         | Docker \<Rightarrow>
             (case rc_docker_host cfg of
                None \<Rightarrow> Inr []
              | Some docker_host \<Rightarrow>
                  map_ok (\<lambda>v. bt_insert ''DOCKER_HOST'' v []) (render_runtime_setting docker_host user home))
         | Colima \<Rightarrow>
             Inr (bt_insert ''DOCKER_HOST''
               (''unix://'' @ home @ ''/.colima/'' @ unwrap_or ''default'' (rc_profile cfg) @ ''/docker.sock'') [])))"

definition is_podman :: "container_runtime \<Rightarrow> bool" where
  "is_podman rt \<longleftrightarrow> crt_kind rt = Podman"

definition runtime_label :: "container_runtime \<Rightarrow> string" where
  "runtime_label rt = (case crt_kind rt of Podman \<Rightarrow> ''podman'' | Docker \<Rightarrow> ''docker''
     | Colima \<Rightarrow> ''colima/docker'' | AppleContainer \<Rightarrow> ''apple container'')"

definition list_command_label :: "container_runtime \<Rightarrow> string" where
  "list_command_label rt = (case crt_kind rt of AppleContainer \<Rightarrow> ''list'' | _ \<Rightarrow> ''ps'')"

section \<open>The environment of the client\<close>

definition sensitive_env_keys :: "string list" where
  "sensitive_env_keys =
     [''PATH'', ''LD_PRELOAD'', ''LD_LIBRARY_PATH'', ''LD_AUDIT'', ''LD_DEBUG'', ''DYLD_INSERT_LIBRARIES'',
      ''DYLD_LIBRARY_PATH'', ''HOME'', ''BASH_ENV'', ''ENV'', ''IFS'', ''TMPDIR'', ''TMP'', ''TEMP'',
      ''XDG_RUNTIME_DIR'', ''XDG_CONFIG_HOME'', ''XDG_DATA_HOME'', ''DOCKER_HOST'', ''DOCKER_CONTEXT'',
      ''DOCKER_CONFIG'', ''DOCKER_TLS_VERIFY'', ''DOCKER_CERT_PATH'', ''CONTAINER_HOST'',
      ''CONTAINER_CONNECTION'', ''CONTAINER_SSHKEY'', ''CONTAINER_DEBUG'', ''CONTAINER_DEFAULT_PLATFORM'',
      ''CONTAINERS_CONF'', ''CONTAINERS_REGISTRIES_CONF'', ''CONTAINERS_STORAGE_CONF'',
      ''REGISTRY_AUTH_FILE'', ''SSL_CERT_FILE'', ''SSL_CERT_DIR'']"

definition runtime_client_sensitive_env_key :: "string \<Rightarrow> bool" where
  "runtime_client_sensitive_env_key key \<longleftrightarrow> key \<in> set sensitive_env_keys"

definition runtime_env_can_passthrough :: "string \<Rightarrow> bool" where
  "runtime_env_can_passthrough key \<longleftrightarrow> \<not> runtime_client_sensitive_env_key key"

definition explicit_env_arg :: "string \<Rightarrow> string \<Rightarrow> string" where
  "explicit_env_arg key v = key @ ''='' @ v"

definition runtime_env_arg :: "string \<Rightarrow> string \<Rightarrow> string" where
  "runtime_env_arg key v = (if runtime_env_can_passthrough key then key else explicit_env_arg key v)"

text \<open>A command of the client: its program, its arguments and what it sets in its environment.\<close>

record client_command =
  cc_program :: string
  cc_args :: "string list"
  cc_env :: env_map

definition command_without_preflight :: "container_runtime \<Rightarrow> client_command" where
  "command_without_preflight rt = \<lparr>cc_program = crt_program rt, cc_args = [], cc_env = bt_extend [] (crt_env rt)\<rparr>"

definition apply_command_env :: "env_map \<Rightarrow> client_command \<Rightarrow> client_command" where
  "apply_command_env env command =
     fold (\<lambda>(key, v) c. if runtime_env_can_passthrough key then c\<lparr>cc_env := bt_insert key v (cc_env c)\<rparr> else c)
       env command"

section \<open>Image references\<close>

definition has_registry :: "string \<Rightarrow> bool" where
  "has_registry img =
     (let first_segment = hd (split_char CHR ''/'' img)
      in first_segment = ''localhost'' \<or> contains_str ''.'' first_segment \<or> contains_str '':'' first_segment)"

definition has_tag :: "string \<Rightarrow> bool" where
  "has_tag img = contains_str '':'' (last (split_char CHR ''/'' img))"

definition podman_image_ref :: "string \<Rightarrow> string" where
  "podman_image_ref img =
     (if has_registry img \<or> contains_str ''@'' img then img
      else if has_tag img then ''localhost/'' @ img
      else ''localhost/'' @ img @ '':latest'')"

definition docker_image_ref :: "string \<Rightarrow> string" where
  "docker_image_ref img =
     (if has_registry img \<or> has_tag img \<or> contains_str ''@'' img then img else img @ '':latest'')"

section \<open>Arguments of the run command\<close>

definition flag_each :: "string \<Rightarrow> ('a \<Rightarrow> string) \<Rightarrow> 'a list \<Rightarrow> string list" where
  "flag_each flag text xs = concat (map (\<lambda>x. [flag, text x]) xs)"

definition publish_ssh_args :: "run_spec \<Rightarrow> string list" where
  "publish_ssh_args spec =
     (if rs_publish_ssh spec
      then [''-p'', (case rs_published_ssh_host_port spec of
                       Some port \<Rightarrow> ''127.0.0.1:'' @ show_nat port @ '':22''
                     | None \<Rightarrow> ''127.0.0.1::22'')]
      else [])"

definition mount_options :: "bool \<Rightarrow> mount_spec \<Rightarrow> string" where
  "mount_options podman_selinux_mount m =
     (case (ms_readonly m, podman_selinux_mount) of
        (True, True) \<Rightarrow> '':ro,Z'' | (True, False) \<Rightarrow> '':ro''
      | (False, True) \<Rightarrow> '':Z'' | (False, False) \<Rightarrow> '''')"

definition exposure_args :: "container_runtime_type \<Rightarrow> exposure_spec \<Rightarrow> string list option" where
  "exposure_args kind x =
     (let bind = ''type=bind,src='' @ hes_host_path x @ '',dst='' @ hes_container_path x;
          volume = hes_host_path x @ '':'' @ hes_container_path x @ '':''
      in case (kind, hes_selinux_relabel x) of
        (Podman, RelabelNone) \<Rightarrow> Some [''--mount'', bind]
      | (Podman, RelabelShared) \<Rightarrow> Some [''--mount'', bind @ '',relabel=shared'']
      | (Podman, RelabelPrivate) \<Rightarrow> Some [''--mount'', bind @ '',relabel=private'']
      | (Docker, RelabelNone) \<Rightarrow> Some [''--mount'', bind]
      | (Docker, RelabelShared) \<Rightarrow> Some [''--volume'', volume @ ''z'']
      | (Docker, RelabelPrivate) \<Rightarrow> Some [''--volume'', volume @ ''Z'']
      | _ \<Rightarrow> None)"

definition localtime_args :: "(string \<Rightarrow> bool) \<Rightarrow> string list" where
  "localtime_args path_exists =
     (if path_exists ''/etc/localtime'' then [''-v'', ''/etc/localtime:/etc/localtime:ro''] else [])
     @ (if path_exists ''/etc/bashrc'' then [''-v'', ''/etc/bashrc:/etc/bashrc:ro''] else [])"

definition common_run_args ::
  "(string \<Rightarrow> bool) \<Rightarrow> container_runtime_type \<Rightarrow> run_spec \<Rightarrow> bool \<Rightarrow> string list option" where
  "common_run_args path_exists kind spec podman_selinux_mount =
     map_option (\<lambda>exposures.
       [''--name'', rs_name spec, ''--hostname'', rs_hostname spec, ''-v'',
        rs_workspace spec @ '':'' @ rs_workspace_container_path spec
          @ (if podman_selinux_mount then '':Z'' else '''')]
       @ flag_each ''-v'' (\<lambda>m. ms_source m @ '':'' @ ms_target m @ mount_options podman_selinux_mount m)
           (rs_mounts spec)
       @ concat exposures
       @ [''-w'', rs_container_home spec, ''-e'', ''HOME='' @ rs_container_home spec,
          ''-e'', ''AW_CONTAINER_STATE_DIR='' @ rs_state_dir_in_container spec]
       @ localtime_args path_exists
       @ flag_each ''-e'' (\<lambda>(key, v). runtime_env_arg key v) (rs_env spec)
       @ flag_each ''--label'' (\<lambda>(key, v). key @ ''='' @ v) (rs_labels spec))
     (those (map (exposure_args kind) (rs_exposures spec)))"

definition podman_run_args :: "(string \<Rightarrow> bool) \<Rightarrow> container_runtime_type \<Rightarrow> run_spec \<Rightarrow> string list option" where
  "podman_run_args path_exists kind spec =
     map_option (\<lambda>common.
       [''-d'', ''--init'', ''--userns=keep-id'', ''--user'', ''0:0'']
       @ (case rs_passwd_entry spec of None \<Rightarrow> [] | Some entry \<Rightarrow> [''--passwd-entry'', entry])
       @ rs_extra_run_args spec @ publish_ssh_args spec @ common
       @ [podman_image_ref (rs_image spec)] @ rs_command spec)
     (common_run_args path_exists kind spec True)"

definition docker_run_args :: "(string \<Rightarrow> bool) \<Rightarrow> container_runtime_type \<Rightarrow> run_spec \<Rightarrow> string list option" where
  "docker_run_args path_exists kind spec =
     map_option (\<lambda>common.
       [''-d'', ''--init'', ''--user'', rs_container_user spec]
       @ rs_extra_run_args spec @ publish_ssh_args spec @ common
       @ [docker_image_ref (rs_image spec)] @ rs_command spec)
     (common_run_args path_exists kind spec False)"

definition apple_run_args :: "run_spec \<Rightarrow> string list" where
  "apple_run_args spec =
     [''--detach'', ''--init'', ''--name'', rs_name spec, ''--user'', rs_container_user spec]
     @ rs_extra_run_args spec
     @ (case rs_published_ssh_host_port spec of
          None \<Rightarrow> []
        | Some port \<Rightarrow> [''--publish'', ''127.0.0.1:'' @ show_nat port @ '':22/tcp''])
     @ [''--volume'', rs_workspace spec @ '':'' @ rs_workspace_container_path spec]
     @ flag_each ''--volume'' (\<lambda>m. ms_source m @ '':'' @ ms_target m @ (if ms_readonly m then '':ro'' else ''''))
         (rs_mounts spec)
     @ flag_each ''--volume'' (\<lambda>x. hes_host_path x @ '':'' @ hes_container_path x) (rs_exposures spec)
     @ [''--workdir'', rs_container_home spec, ''--env'', ''HOME='' @ rs_container_home spec,
        ''--env'', ''AW_CONTAINER_STATE_DIR='' @ rs_state_dir_in_container spec]
     @ flag_each ''--env'' (\<lambda>(key, v). runtime_env_arg key v) (rs_env spec)
     @ flag_each ''--label'' (\<lambda>(key, v). key @ ''='' @ v) (rs_labels spec)
     @ [docker_image_ref (rs_image spec)] @ rs_command spec"

definition run_args :: "(string \<Rightarrow> bool) \<Rightarrow> container_runtime \<Rightarrow> run_spec \<Rightarrow> string list option" where
  "run_args path_exists rt spec = (case crt_kind rt of
     Podman \<Rightarrow> podman_run_args path_exists Podman spec
   | Docker \<Rightarrow> docker_run_args path_exists Docker spec
   | Colima \<Rightarrow> docker_run_args path_exists Colima spec
   | AppleContainer \<Rightarrow> Some (apple_run_args spec))"

section \<open>Arguments of the other commands\<close>

definition exec_stdio_arg :: "bool \<Rightarrow> bool \<Rightarrow> string option" where
  "exec_stdio_arg stdin_tty stdout_tty =
     (if stdin_tty \<and> stdout_tty then Some ''-it'' else if stdin_tty then Some ''-i'' else None)"

definition exec_tail_args :: "exec_spec \<Rightarrow> string list" where
  "exec_tail_args spec =
     [''--user'', es_user spec]
     @ (case es_cwd spec of None \<Rightarrow> [] | Some cwd \<Rightarrow> [''--workdir'', cwd])
     @ flag_each ''--env'' (\<lambda>(key, v). runtime_env_arg key v) (es_env spec)
     @ [es_container_name spec] @ es_command spec"

definition apple_exec_args :: "exec_spec \<Rightarrow> string list" where
  "apple_exec_args spec =
     (if es_stdin_tty spec then [''--interactive''] else [])
     @ (if es_stdout_tty spec then [''--tty''] else []) @ exec_tail_args spec"

definition exec_args :: "container_runtime \<Rightarrow> exec_spec \<Rightarrow> string list" where
  "exec_args rt spec =
     (if crt_kind rt = AppleContainer then apple_exec_args spec
      else (case exec_stdio_arg (es_stdin_tty spec) (es_stdout_tty spec) of
              None \<Rightarrow> [] | Some a \<Rightarrow> [a]) @ exec_tail_args spec)"

definition list_managed_args :: "container_runtime \<Rightarrow> string \<Rightarrow> nat \<Rightarrow> runtime_context \<Rightarrow> string list" where
  "list_managed_args rt user uid ctx =
     (if crt_kind rt = AppleContainer then [''list'', ''--all'', ''--format'', ''json'']
      else [''ps'', ''-a'', ''--filter'', ''label=io.aw-gateway.gateway=true'',
            ''--filter'', ''label=io.aw-gateway.user='' @ user,
            ''--filter'', ''label=io.aw-gateway.uid='' @ show_nat uid, ''--format'', ''json'']
           @ flag_each ''--filter'' (\<lambda>(key, v). ''label='' @ context_label_key key @ ''='' @ v) ctx)"

text \<open>The commands of \<open>run_detached\<close>, \<open>exec\<close>, \<open>stop\<close>, \<open>start\<close> and \<open>rm\<close>.\<close>

definition run_command :: "(string \<Rightarrow> bool) \<Rightarrow> container_runtime \<Rightarrow> run_spec \<Rightarrow> client_command option" where
  "run_command path_exists rt spec =
     map_option (\<lambda>args. (apply_command_env (rs_env spec) (command_without_preflight rt))
         \<lparr>cc_args := ''run'' # args\<rparr>)
       (run_args path_exists rt spec)"

definition exec_command :: "container_runtime \<Rightarrow> exec_spec \<Rightarrow> client_command" where
  "exec_command rt spec =
     (apply_command_env (es_env spec) (command_without_preflight rt))
       \<lparr>cc_args := ''exec'' # exec_args rt spec\<rparr>"

definition plain_command :: "container_runtime \<Rightarrow> string list \<Rightarrow> client_command" where
  "plain_command rt args = (command_without_preflight rt)\<lparr>cc_args := args\<rparr>"

definition stop_command :: "container_runtime \<Rightarrow> string \<Rightarrow> client_command" where
  "stop_command rt name = plain_command rt [''stop'', name]"

definition start_command :: "container_runtime \<Rightarrow> string \<Rightarrow> client_command" where
  "start_command rt name = plain_command rt [''start'', name]"

definition rm_command :: "container_runtime \<Rightarrow> string \<Rightarrow> client_command" where
  "rm_command rt name =
     (if crt_kind rt = AppleContainer then plain_command rt [''delete'', ''--force'', name]
      else plain_command rt [''rm'', name])"

section \<open>Lemmas on environments\<close>

named_theorems crt_defs \<open>definitions of the arguments of a client\<close>

declare run_args_def [crt_defs] podman_run_args_def [crt_defs] docker_run_args_def [crt_defs]
  apple_run_args_def [crt_defs] common_run_args_def [crt_defs] exec_args_def [crt_defs]
  apple_exec_args_def [crt_defs] exec_tail_args_def [crt_defs] publish_ssh_args_def [crt_defs]

lemma flag_each_map: "flag_each flag text (map f xs) = flag_each flag (\<lambda>x. text (f x)) xs"
  by (simp add: flag_each_def comp_def)

lemma flag_each_cong:
  "(\<And>x. x \<in> set xs \<Longrightarrow> text x = text' x) \<Longrightarrow> flag_each flag text xs = flag_each flag text' xs"
  by (simp add: flag_each_def cong: map_cong)

lemma apply_command_env_fields [simp]:
  "cc_program (apply_command_env env c) = cc_program c" "cc_args (apply_command_env env c) = cc_args c"
  unfolding apply_command_env_def by (induction env arbitrary: c) auto

lemma apply_command_env_env:
  "cc_env (apply_command_env env c) =
     bt_extend (cc_env c) (filter (\<lambda>(key, v). runtime_env_can_passthrough key) env)"
  unfolding apply_command_env_def bt_extend_def
  by (induction env arbitrary: c) auto

lemma command_env_ok: "bt_ok (cc_env (command_without_preflight rt))"
  by (simp add: command_without_preflight_def bt_ok_extend)

lemma filter_fst_distinct: "distinct (map fst es) \<Longrightarrow> distinct (map fst (filter P es))"
  by (simp add: distinct_map_filter)

lemma apply_command_env_get:
  assumes "bt_ok (cc_env c)" and "bt_ok env"
  shows "bt_get (cc_env (apply_command_env env c)) key =
    (if runtime_env_can_passthrough key \<and> bt_get env key \<noteq> None then bt_get env key
     else bt_get (cc_env c) key)"
proof -
  let ?P = "\<lambda>(k, v :: string). runtime_env_can_passthrough k"
  have d: "distinct (map fst (filter ?P env))"
    by (rule filter_fst_distinct [OF bt_ok_distinct [OF assms(2)]])
  have "map_of (filter ?P env) key = (if runtime_env_can_passthrough key then map_of env key else None)"
    by (induction env) auto
  then show ?thesis
    unfolding apply_command_env_env bt_get_extend_list [OF assms(1) d]
    by (simp add: bt_get_def map_add_def split: option.splits)
qed

text \<open>The values the client does not read from its arguments, blanked.\<close>

definition redact :: "env_map \<Rightarrow> env_map" where
  "redact env = map (\<lambda>(key, v). (key, if runtime_env_can_passthrough key then '''' else v)) env"

lemma redact_args: "flag_each flag (\<lambda>(key, v). runtime_env_arg key v) (redact env)
    = flag_each flag (\<lambda>(key, v). runtime_env_arg key v) env"
  unfolding redact_def flag_each_map
  by (rule flag_each_cong) (auto simp: runtime_env_arg_def)

lemma run_args_redact: "run_args path_exists rt (spec\<lparr>rs_env := redact (rs_env spec)\<rparr>) = run_args path_exists rt spec"
  by (cases "crt_kind rt") (simp_all add: crt_defs redact_args)

lemma exec_args_redact: "exec_args rt (spec\<lparr>es_env := redact (es_env spec)\<rparr>) = exec_args rt spec"
  by (simp add: crt_defs redact_args)

text \<open>What an argument of \<open>-e\<close> or \<open>--env\<close> gives the container: its value, or without one the value
  in the environment of the client.\<close>

definition client_env_entry :: "env_map \<Rightarrow> string \<Rightarrow> (string \<times> string) option" where
  "client_env_entry env arg =
     (case split_once CHR ''='' arg of Some (key, v) \<Rightarrow> Some (key, v)
      | None \<Rightarrow> map_option (Pair arg) (bt_get env arg))"

lemma client_env_entry_arg:
  assumes "bt_ok (cc_env c)" "bt_ok env" "(key, v) \<in> set env" "CHR ''='' \<notin> set key"
  shows "client_env_entry (cc_env (apply_command_env env c)) (runtime_env_arg key v) = Some (key, v)"
proof (cases "runtime_env_can_passthrough key")
  case True
  have "split_once CHR ''='' key = None" using assms(4) by (simp only: split_once_None not_False_eq_True)
  then show ?thesis
    using True by (simp add: client_env_entry_def runtime_env_arg_def apply_command_env_get [OF assms(1,2)]
        bt_in_get [OF assms(2,3)])
next
  case False
  have "split_once CHR ''='' (key @ CHR ''='' # v) = Some (key, v)"
    using assms(4) by (simp add: split_once_Some)
  then show ?thesis using False by (simp add: client_env_entry_def runtime_env_arg_def explicit_env_arg_def)
qed

lemma client_env_entries:
  assumes "bt_ok (cc_env c)" "bt_ok env" "list_all (\<lambda>(key, v). CHR ''='' \<notin> set key) env"
  shows "map (client_env_entry (cc_env (apply_command_env env c))) (map (\<lambda>(key, v). runtime_env_arg key v) env)
    = map Some env"
  using assms(3) client_env_entry_arg [OF assms(1,2)] by (auto simp: list_all_iff)

text \<open>Where the variables stand among the arguments.\<close>

lemma sublist_right: "sublist m b \<Longrightarrow> sublist m (a @ b)"
  by (auto simp: sublist_def) (metis append_assoc)

lemma sublist_left: "sublist m a \<Longrightarrow> sublist m (a @ b)"
  by (auto simp: sublist_def) (metis append_assoc)

lemma sublist_Cons: "sublist m b \<Longrightarrow> sublist m (x # b)"
  using sublist_right [of m b "[x]"] by simp

lemmas sublist_parts = sublist_left sublist_right sublist_Cons

lemma exec_args_environment:
  "sublist (flag_each ''--env'' (\<lambda>(key, v). runtime_env_arg key v) (es_env spec)) (exec_args rt spec)"
proof -
  let ?env = "flag_each ''--env'' (\<lambda>(key, v). runtime_env_arg key v) (es_env spec)"
  have "sublist ?env (exec_tail_args spec)"
    unfolding exec_tail_args_def by (rule sublist_right, rule sublist_right, rule sublist_left) simp
  then show ?thesis unfolding exec_args_def apple_exec_args_def by (simp add: sublist_right)
qed

lemma common_run_args_environment:
  assumes "common_run_args path_exists kind spec selinux = Some args"
  shows "sublist (flag_each ''-e'' (\<lambda>(key, v). runtime_env_arg key v) (rs_env spec)) args"
proof -
  obtain a b c d e where "args = a @ b @ c @ d @ e @ flag_each ''-e'' (\<lambda>(key, v). runtime_env_arg key v) (rs_env spec)
      @ flag_each ''--label'' (\<lambda>(key, v). key @ ''='' @ v) (rs_labels spec)"
    using assms unfolding common_run_args_def map_option_eq_Some by blast
  then show ?thesis by (simp only:) (intro sublist_right sublist_left, simp)
qed

lemma apple_run_args_environment:
  "sublist (flag_each ''--env'' (\<lambda>(key, v). runtime_env_arg key v) (rs_env spec)) (apple_run_args spec)"
  unfolding apple_run_args_def
  by (rule sublist_right, rule sublist_right, rule sublist_right, rule sublist_right, rule sublist_right,
      rule sublist_right, rule sublist_right, rule sublist_left) simp

lemma run_args_environment:
  assumes "run_args path_exists rt spec = Some args"
  shows "\<exists>flag. sublist (flag_each flag (\<lambda>(key, v). runtime_env_arg key v) (rs_env spec)) args
    \<and> flag \<in> {''-e'', ''--env''}"
proof -
  let ?env = "\<lambda>flag. flag_each flag (\<lambda>(key, v). runtime_env_arg key v) (rs_env spec)"
  have "sublist (?env ''-e'') args" if "podman_run_args path_exists kind spec = Some args" for kind
  proof -
    from that obtain a b c d common r where "args = a @ b @ c @ d @ common @ r"
        "common_run_args path_exists kind spec True = Some common"
      unfolding podman_run_args_def map_option_eq_Some by blast
    then show ?thesis
      using common_run_args_environment by (simp only:) (intro sublist_right sublist_left)
  qed
  moreover have "sublist (?env ''-e'') args" if "docker_run_args path_exists kind spec = Some args" for kind
  proof -
    from that obtain a b c common r where "args = a @ b @ c @ common @ r"
        "common_run_args path_exists kind spec False = Some common"
      unfolding docker_run_args_def map_option_eq_Some by blast
    then show ?thesis
      using common_run_args_environment by (simp only:) (intro sublist_right sublist_left)
  qed
  ultimately show ?thesis
    using assms apple_run_args_environment [of spec]
    by (cases "crt_kind rt") (auto simp: run_args_def)
qed

section \<open>Secrets and the environment of a container\<close>


text \<open>A container receives its environment. Among the arguments of an accepted run or
  exec command there is one flag for each variable of the specification, in order, and what the client
  makes of them in the environment it runs in is the specified environment.\<close>

theorem container_receives_its_environment:
  assumes "bt_ok (es_env espec)" and "list_all (\<lambda>(key, v). CHR ''='' \<notin> set key) (es_env espec)"
    and "bt_ok (rs_env spec)" and "list_all (\<lambda>(key, v). CHR ''='' \<notin> set key) (rs_env spec)"
    and "run_command path_exists rt spec = Some command"
  shows "(\<exists>args. sublist (flag_each ''--env'' id args) (cc_args (exec_command rt espec))
         \<and> map (client_env_entry (cc_env (exec_command rt espec))) args = map Some (es_env espec))
       \<and> (\<exists>flag args. sublist (flag_each flag id args) (cc_args command) \<and> flag \<in> {''-e'', ''--env''}
         \<and> map (client_env_entry (cc_env command)) args = map Some (rs_env spec))"
proof (intro conjI)
  let ?args = "\<lambda>env. map (\<lambda>(key, v). runtime_env_arg key v) env"
  have args: "flag_each flag id (?args env) = flag_each flag (\<lambda>(key, v). runtime_env_arg key v) env" for flag env
    by (simp add: flag_each_map)
  have "sublist (flag_each ''--env'' id (?args (es_env espec))) (cc_args (exec_command rt espec))"
    unfolding args by (simp add: exec_command_def sublist_Cons exec_args_environment)
  then show "\<exists>args. sublist (flag_each ''--env'' id args) (cc_args (exec_command rt espec))
         \<and> map (client_env_entry (cc_env (exec_command rt espec))) args = map Some (es_env espec)"
    using client_env_entries [OF command_env_ok [of rt] assms(1,2)]
    by (intro exI [of _ "?args (es_env espec)"]) (simp add: exec_command_def)
  obtain args where run: "run_args path_exists rt spec = Some args" "cc_args command = ''run'' # args"
      "cc_env command = cc_env (apply_command_env (rs_env spec) (command_without_preflight rt))"
    using assms(5) by (auto simp: run_command_def)
  obtain flag where "sublist (flag_each flag id (?args (rs_env spec))) (cc_args command)" "flag \<in> {''-e'', ''--env''}"
    using run_args_environment [OF run(1)] unfolding run(2) args by (meson sublist_Cons)
  then show "\<exists>flag args. sublist (flag_each flag id args) (cc_args command) \<and> flag \<in> {''-e'', ''--env''}
         \<and> map (client_env_entry (cc_env command)) args = map Some (rs_env spec)"
    using client_env_entries [OF command_env_ok [of rt] assms(3,4)] unfolding run(3) by blast
qed

definition demo_run_spec :: run_spec where
  "demo_run_spec = \<lparr>rs_name = ''aw-ann-dev'', rs_hostname = ''aw-ann-dev'', rs_image = ''dev'',
     rs_workspace = ''/home/ann/w'', rs_workspace_container_path = ''/work'', rs_container_home = ''/home/ann'',
     rs_container_user = ''ann'', rs_passwd_entry = None, rs_state_dir_in_container = ''/run/aw'',
     rs_mounts = [], rs_exposures = [],
     rs_env = [(''AW_IDENTITY_TOKEN'', ''s3cret''), (''PATH'', ''/usr/bin'')],
     rs_labels = [(''io.aw-gateway.gateway'', ''true'')], rs_publish_ssh = True,
     rs_published_ssh_host_port = Some 2222, rs_extra_run_args = [], rs_command = [''sleep'', ''infinity'']\<rparr>"

definition demo_exec_spec :: exec_spec where
  "demo_exec_spec = \<lparr>es_stdin_tty = False, es_stdout_tty = False, es_user = ''ann'', es_cwd = None,
     es_env = [(''TERM'', ''xterm'')], es_container_name = ''aw-ann-dev'', es_command = [''id'']\<rparr>"

definition demo_runtime :: container_runtime where
  "demo_runtime = \<lparr>crt_kind = Docker, crt_program = ''docker'', crt_env = []\<rparr>"

lemma demo_run_args: "run_args (\<lambda>_. False) demo_runtime demo_run_spec = Some
  [''-d'', ''--init'', ''--user'', ''ann'', ''-p'', ''127.0.0.1:2222:22'', ''--name'', ''aw-ann-dev'',
   ''--hostname'', ''aw-ann-dev'', ''-v'', ''/home/ann/w:/work'', ''-w'', ''/home/ann'',
   ''-e'', ''HOME=/home/ann'', ''-e'', ''AW_CONTAINER_STATE_DIR=/run/aw'', ''-e'', ''AW_IDENTITY_TOKEN'',
   ''-e'', ''PATH=/usr/bin'', ''--label'', ''io.aw-gateway.gateway=true'', ''dev:latest'', ''sleep'', ''infinity'']"
  by code_simp

theorem container_receives_its_environment_witness:
  "\<exists>flag args. sublist (flag_each flag id args)
       (''run'' # the (run_args (\<lambda>_. False) demo_runtime demo_run_spec)) \<and> flag \<in> {''-e'', ''--env''}
     \<and> map (client_env_entry [(''AW_IDENTITY_TOKEN'', ''s3cret'')]) args
       = [Some (''AW_IDENTITY_TOKEN'', ''s3cret''), Some (''PATH'', ''/usr/bin'')]"
proof -
  let ?command = "\<lparr>cc_program = ''docker'', cc_args = ''run'' # the (run_args (\<lambda>_. False) demo_runtime demo_run_spec),
    cc_env = [(''AW_IDENTITY_TOKEN'', ''s3cret'')]\<rparr>"
  have "bt_ok (es_env demo_exec_spec)" "bt_ok (rs_env demo_run_spec)" by code_simp+
  moreover have "list_all (\<lambda>(key, v). CHR ''='' \<notin> set key) (es_env demo_exec_spec)"
    "list_all (\<lambda>(key, v). CHR ''='' \<notin> set key) (rs_env demo_run_spec)" by code_simp+
  moreover have "run_command (\<lambda>_. False) demo_runtime demo_run_spec = Some ?command" by code_simp
  moreover have "map Some (rs_env demo_run_spec) = [Some (''AW_IDENTITY_TOKEN'', ''s3cret''), Some (''PATH'', ''/usr/bin'')]"
    by code_simp
  ultimately show ?thesis
    using container_receives_its_environment
      [of demo_exec_spec demo_run_spec "\<lambda>_. False" demo_runtime ?command]
    by simp
qed

section \<open>When running a container panics\<close>

lemma exposure_args_None:
  "exposure_args kind x = None \<longleftrightarrow> kind \<noteq> Podman \<and> kind \<noteq> Docker"
  by (cases kind; cases "hes_selinux_relabel x") (simp_all add: exposure_args_def Let_def)

lemma those_None: "those xs = None \<longleftrightarrow> None \<in> set xs"
  by (induction xs) (auto split: option.splits)

lemma common_run_args_None:
  "common_run_args path_exists kind spec selinux = None
    \<longleftrightarrow> rs_exposures spec \<noteq> [] \<and> kind \<noteq> Podman \<and> kind \<noteq> Docker"
proof -
  have "common_run_args path_exists kind spec selinux = None
      \<longleftrightarrow> (\<exists>x \<in> set (rs_exposures spec). exposure_args kind x = None)"
    unfolding common_run_args_def option.map_disc_iff those_None by (auto simp: image_iff eq_commute)
  then show ?thesis by (cases "rs_exposures spec") (auto simp: exposure_args_None)
qed

lemma run_args_None:
  "run_args path_exists rt spec = None \<longleftrightarrow> crt_kind rt = Colima \<and> rs_exposures spec \<noteq> []"
  by (cases "crt_kind rt")
    (simp_all add: run_args_def podman_run_args_def docker_run_args_def common_run_args_None)

section \<open>What a client printed\<close>

record exit_status =
  xs_code :: "int option"
  xs_signal :: "int option"

record client_output =
  co_status :: exit_status
  co_stdout :: string
  co_stderr :: string

definition status_success :: "exit_status \<Rightarrow> bool" where
  "status_success st \<longleftrightarrow> xs_code st = Some 0"

definition exit_code :: "exit_status \<Rightarrow> int" where
  "exit_code st =
     (case xs_code st of Some code \<Rightarrow> code
      | None \<Rightarrow> (case xs_signal st of Some signal \<Rightarrow> 128 + signal | None \<Rightarrow> 129))"

text \<open>\<open>command_output_text\<close>; \<open>status_text\<close> is the display of an exit status.\<close>

definition command_output_text :: "(exit_status \<Rightarrow> string) \<Rightarrow> client_output \<Rightarrow> string" where
  "command_output_text status_text out =
     (let stderr = trim (co_stderr out); stdout = trim (co_stdout out) in
      if stderr \<noteq> [] then stderr
      else if stdout = [] then ''exited with status '' @ status_text (co_status out) else stdout)"

definition missing_container_error :: "string \<Rightarrow> bool" where
  "missing_container_error stderr =
     (let lower = to_ascii_lowercase stderr
      in contains_str ''no such'' lower \<or> contains_str ''does not exist'' lower
         \<or> contains_str ''not found'' lower)"

definition run_status :: "container_runtime \<Rightarrow> string \<Rightarrow> client_output res \<Rightarrow> unit res" where
  "run_status rt subcommand result =
     and_then (with_context (''run '' @ runtime_label rt @ '' '' @ subcommand) result) (\<lambda>out.
       bail_if (\<not> status_success (co_status out))
         (Bail ''{} {} failed: {}'' [runtime_label rt, subcommand, trim (co_stderr out)]))"

definition MAX_CAPTURED_STREAM_BYTES :: nat where
  "MAX_CAPTURED_STREAM_BYTES = 4 * 1024 * 1024"

text \<open>\<open>read_pipe_to_end\<close>: what is read of the bytes a process writes to a pipe, and whether it is cut.\<close>

definition read_pipe_to_end :: "'b list \<Rightarrow> 'b list \<times> bool" where
  "read_pipe_to_end written =
     (let bytes = take (MAX_CAPTURED_STREAM_BYTES + 1) written;
          truncated = MAX_CAPTURED_STREAM_BYTES < length bytes
      in (if truncated then take MAX_CAPTURED_STREAM_BYTES bytes else bytes, truncated))"

record published_port =
  pp_host :: string
  pp_port :: nat

definition u16_limit :: nat where "u16_limit = 2 ^ 16"

definition parse_published_port_endpoint :: "string \<Rightarrow> published_port option" where
  "parse_published_port_endpoint stdout =
     Option.bind (find (\<lambda>line. line \<noteq> []) (map trim (str_lines stdout))) (\<lambda>line.
       case strip_prefix ''['' line of
         Some rest \<Rightarrow>
           Option.bind (rsplit_once_str '']:'' rest) (\<lambda>(host, port).
             map_option (\<lambda>p. \<lparr>pp_host = host, pp_port = p\<rparr>) (parse_uint u16_limit port))
       | None \<Rightarrow>
           Option.bind (rsplit_once CHR '':'' line) (\<lambda>(host, port).
             map_option (\<lambda>p. \<lparr>pp_host = host, pp_port = p\<rparr>) (parse_uint u16_limit port)))"

definition published_port_args :: "string \<Rightarrow> nat \<Rightarrow> string list" where
  "published_port_args name container_port = [''port'', name, show_nat container_port @ ''/tcp'']"

definition published_port_of ::
  "container_runtime \<Rightarrow> string \<Rightarrow> (string list \<Rightarrow> client_output res) \<Rightarrow> nat \<Rightarrow> published_port option res" where
  "published_port_of rt name client container_port =
     (if crt_kind rt = AppleContainer then Inr None
      else and_then (with_context (''run '' @ runtime_label rt @ '' port '' @ name)
                       (client (published_port_args name container_port))) (\<lambda>out.
        if \<not> status_success (co_status out) then Inr None
        else Inr (parse_published_port_endpoint (co_stdout out))))"

section \<open>Labels\<close>

record container_inspect =
  ci_id :: string
  ci_name :: string
  ci_running :: bool
  ci_pid :: "int option"
  ci_labels :: env_map

datatype gateway_label_error = LabelMismatch string string string | LabelMissing string

fun label_error :: "gateway_label_error \<Rightarrow> error" where
  "label_error (LabelMismatch key expected actual) =
     Bail ''container label mismatch for {}: expected {}, got {}'' [key, expected, actual]"
| "label_error (LabelMissing key) = Bail ''container missing required label {}'' [key]"

definition validate_gateway_labels :: "container_inspect \<Rightarrow> env_map \<Rightarrow> unit res" where
  "validate_gateway_labels inspect expected =
     each (\<lambda>(key, v).
       case bt_get (ci_labels inspect) key of
         Some actual \<Rightarrow> bail_if (actual \<noteq> v) (label_error (LabelMismatch key v actual))
       | None \<Rightarrow> Inl (label_error (LabelMissing key))) expected"

lemma validate_gateway_labels_iff:
  "validate_gateway_labels inspect expected = Inr ()
    \<longleftrightarrow> list_all (\<lambda>(key, v). bt_get (ci_labels inspect) key = Some v) expected"
  by (auto simp: validate_gateway_labels_def list_all_iff res_simps split: option.splits)

section \<open>The check of a Unix socket\<close>

record file_meta =
  fm_is_socket :: bool
  fm_uid :: nat
  fm_gid :: nat
  fm_mode :: "32 word"

function show_octal :: "nat \<Rightarrow> string" where
  "show_octal n = (if n < 8 then [digit_char n] else show_octal (n div 8) @ [digit_char (n mod 8)])"
  by pat_completeness auto
termination by (relation "measure id") auto

declare show_octal.simps [simp del]

definition shared_bits :: "32 word \<Rightarrow> bool" where
  "shared_bits mode \<longleftrightarrow> (mode AND 0x1FF) AND 0x3F \<noteq> 0"

definition socket_is_safe_for :: "(string \<Rightarrow> file_meta res) \<Rightarrow> string \<Rightarrow> nat \<Rightarrow> nat \<Rightarrow> unit res" where
  "socket_is_safe_for lstat path uid gid =
     and_then (with_context (''stat socket '' @ path) (lstat path)) (\<lambda>meta. seq_checks
       [bail_if (\<not> fm_is_socket meta) (Bail ''{} is not a Unix socket'' [path]),
        bail_if (fm_uid meta \<noteq> uid)
          (Bail ''{} socket owner uid mismatch: expected {}, got {}'' [path, show_nat uid, show_nat (fm_uid meta)]),
        bail_if (fm_gid meta \<noteq> gid)
          (Bail ''{} socket group gid mismatch: expected {}, got {}'' [path, show_nat gid, show_nat (fm_gid meta)]),
        bail_if (shared_bits (fm_mode meta))
          (Bail ''{} socket permissions too broad: expected no group/other bits, got {}''
             [path, show_octal (unat (fm_mode meta AND 0x1FF))]),
        given (\<lambda>parent.
          and_then (with_context (''stat socket parent '' @ parent) (lstat parent)) (\<lambda>parent_meta. seq_checks
            [bail_if (fm_uid parent_meta \<noteq> uid)
               (Bail ''{} parent owner uid mismatch: expected {}, got {}''
                  [parent, show_nat uid, show_nat (fm_uid parent_meta)]),
             bail_if (shared_bits (fm_mode parent_meta))
               (Bail ''{} parent permissions too broad: expected no group/other bits, got {}''
                  [parent, show_octal (unat (fm_mode parent_meta AND 0x1FF))])])) (path_parent path)])"

text \<open>The shared bits are the permissions of the group and of others.\<close>

lemma shared_bits_iff: "shared_bits mode \<longleftrightarrow> (\<exists>i < 6. bit mode i)"
proof -
  have mask: "((0x1FF :: 32 word) AND 0x3F) = mask 6" by (simp add: mask_eq_exp_minus_1)
  have "shared_bits mode \<longleftrightarrow> take_bit 6 mode \<noteq> 0"
    by (simp only: shared_bits_def and.assoc mask take_bit_eq_mask)
  also have "\<dots> \<longleftrightarrow> (\<exists>i < 6. bit mode i)"
  proof
    assume "\<exists>i < 6. bit mode i"
    then obtain i where i: "i < 6" "bit (take_bit 6 mode) i" by (auto simp: bit_take_bit_iff)
    then show "take_bit 6 mode \<noteq> 0" by (metis bit_0_eq bot_apply bot_bool_def)
  qed (auto simp: bit_eq_iff [of _ "0 :: 32 word"] bit_take_bit_iff)
  finally show ?thesis .
qed

lemma socket_is_safe_iff:
  "socket_is_safe_for lstat path uid gid = Inr () \<longleftrightarrow>
    (\<exists>meta. lstat path = Inr meta \<and> fm_is_socket meta \<and> fm_uid meta = uid \<and> fm_gid meta = gid
       \<and> (\<forall>i < 6. \<not> bit (fm_mode meta) i)
       \<and> (\<forall>parent. path_parent path = Some parent \<longrightarrow>
            (\<exists>pm. lstat parent = Inr pm \<and> fm_uid pm = uid \<and> (\<forall>i < 6. \<not> bit (fm_mode pm) i))))"
  by (auto simp: socket_is_safe_for_def res_simps shared_bits_iff)

section \<open>Lemmas on image references\<close>

lemma split_char_append:
  "c \<notin> set b \<Longrightarrow> split_char c (a @ b) = butlast (split_char c a) @ [last (split_char c a) @ b]"
proof (induction a)
  case Nil
  then have "split_where (\<lambda>x. x = c) b = [b]" by (intro split_where_id) auto
  then show ?case by (simp add: split_char_def)
next
  case (Cons x a)
  then show ?case by (auto simp: split_char_def split: list.splits)
qed

lemma has_tag_latest: "has_tag (img @ '':latest'')"
proof -
  have "split_char CHR ''/'' (img @ '':latest'') = butlast (split_char CHR ''/'' img)
      @ [last (split_char CHR ''/'' img) @ '':latest'']" by (rule split_char_append) simp
  then show ?thesis by (simp add: has_tag_def contains_char_iff)
qed

lemma has_registry_localhost: "has_registry (''localhost/'' @ img)"
  by (simp add: has_registry_def split_char_def)

lemma docker_image_ref_idem: "docker_image_ref (docker_image_ref img) = docker_image_ref img"
  by (simp add: docker_image_ref_def has_tag_latest)

lemma podman_image_ref_idem: "podman_image_ref (podman_image_ref img) = podman_image_ref img"
  using has_registry_localhost [of img] has_registry_localhost [of "img @ '':latest''"]
  by (simp add: podman_image_ref_def)

text \<open>An image reference of one segment with a tag keeps its name: the colon of the tag is taken for the
  port of a registry, so that Podman does not look for it among the local images as it does for the same
  image without a tag.\<close>

lemma podman_image_ref_short_tag:
  "podman_image_ref ''dev'' = ''localhost/dev:latest''"
  "podman_image_ref ''team/dev:1.0'' = ''localhost/team/dev:1.0''"
  "podman_image_ref ''dev:1.0'' = ''dev:1.0''"
  by code_simp+

section \<open>Lemmas on output and ports\<close>

lemma read_pipe_to_end_bound:
  "fst (read_pipe_to_end written) = take MAX_CAPTURED_STREAM_BYTES written"
  "snd (read_pipe_to_end written) \<longleftrightarrow> MAX_CAPTURED_STREAM_BYTES < length written"
  by (auto simp: read_pipe_to_end_def Let_def min_def)

lemma parse_published_port_bound:
  "parse_published_port_endpoint stdout = Some p \<Longrightarrow> pp_port p < u16_limit"
  by (auto simp: parse_published_port_endpoint_def bind_eq_Some_conv split: option.splits
      dest!: parse_uint_bound)

end
