(* ===== verification/Exec_Cancel.thy ===== *)
theory Exec_Cancel
  imports Container_Runtime
begin

text \<open>
  \<open>src/runtime.rs\<close>, commands in a container that can be cancelled: the marker files that name the
  process of such a command inside the container, the scripts that write, use and sweep them, and what a
  cancellation does to the process of the client on the host. What the operating system and the client
  answer are arguments; the effects of a cancellation are the list of its events.
\<close>

section \<open>Markers\<close>

record cancel_marker =
  cm_path :: string
  cm_token :: string

definition CANCEL_MARKER_PATH_PREFIX :: string where
  "CANCEL_MARKER_PATH_PREFIX = ''/tmp/aw-gateway-''"

definition CANCEL_MARKER_PATH_SUFFIX :: string where
  "CANCEL_MARKER_PATH_SUFFIX = ''.pid''"

definition marker_path :: "string \<Rightarrow> nat \<Rightarrow> nat \<Rightarrow> string" where
  "marker_path kind pid mid = ''/tmp/aw-gateway-'' @ kind @ ''-'' @ show_nat pid @ ''-'' @ show_nat mid @ ''.pid''"

text \<open>\<open>fetch_add\<close> on an \<open>AtomicU64\<close> wraps; the counter is read before it is increased.\<close>

definition next_cancel_marker :: "string \<Rightarrow> nat \<Rightarrow> string res \<Rightarrow> 64 word \<Rightarrow> cancel_marker res \<times> 64 word" where
  "next_cancel_marker kind pid random_token next_id =
     (map_ok (\<lambda>token. \<lparr>cm_path = marker_path kind pid (unat next_id), cm_token = token\<rparr>) random_token,
      next_id + 1)"

definition parse_cancel_marker_host_pid :: "string \<Rightarrow> nat option" where
  "parse_cancel_marker_host_pid path =
     Option.bind (strip_prefix CANCEL_MARKER_PATH_PREFIX path) (\<lambda>rest.
     Option.bind (strip_suffix CANCEL_MARKER_PATH_SUFFIX rest) (\<lambda>rest.
     Option.bind (rsplit_once CHR ''-'' rest) (\<lambda>(kind_and_pid, mid).
       if mid = [] \<or> \<not> list_all is_ascii_digit mid then None
       else Option.bind (rsplit_once CHR ''-'' kind_and_pid) (\<lambda>(kind, pid).
         if kind = [] then None else parse_uint u32_limit pid))))"

definition stale_cancel_marker_paths :: "(nat \<Rightarrow> bool) \<Rightarrow> string list \<Rightarrow> string list" where
  "stale_cancel_marker_paths host_process_is_active paths =
     List.map_filter (\<lambda>path. Option.bind (parse_cancel_marker_host_pid path) (\<lambda>pid.
       if \<not> host_process_is_active pid then Some path else None)) paths"

text \<open>\<open>kill_zero\<close> tells whether signal 0 can be sent to a process.\<close>

definition host_process_is_active :: "(int \<Rightarrow> bool) \<Rightarrow> nat \<Rightarrow> bool" where
  "host_process_is_active kill_zero pid \<longleftrightarrow> pid < 2 ^ 31 \<and> 0 < pid \<and> kill_zero (int pid)"

section \<open>Scripts\<close>

definition script :: "string list \<Rightarrow> string" where
  "script lines = join [CHR 0x0A] lines"

definition wrap_script :: string where \<open>
  wrap_script = ''( umask 077 && printf "%s %s'' @ [CHR 0x5C] @ ''n" "$$" "$2" > "$1" ) || exit $?; shift 2; exec "$@"''\<close>

definition cleanup_script :: string where \<open>
  cleanup_script = script
    [''read pid token < "$1" 2>/dev/null || exit 0'',
     ''[ "$token" = "$2" ] || exit 0'',
     ''case "$pid" in ""|*[!0-9]*|0|1) exit 0 ;; esac'',
     ''descendants=$(ps -e -o pid= -o ppid= 2>/dev/null | awk -v root="$pid" '' @ [CHR 0x27],
     ''  {'',
     ''    children[$2] = children[$2] " " $1'',
     ''  }'',
     ''  END {'',
     ''    frontier = root'',
     ''    while (frontier != "") {'',
     ''      next_frontier = ""'',
     ''      count = split(frontier, parents, /[[:space:]]+/)'',
     ''      for (i = 1; i <= count; i++) {'',
     ''        if (parents[i] == "") {'',
     ''          continue'',
     ''        }'',
     ''        count_children = split(children[parents[i]], ids, /[[:space:]]+/)'',
     ''        for (j = 1; j <= count_children; j++) {'',
     ''          if (ids[j] == "") {'',
     ''            continue'',
     ''          }'',
     ''          print ids[j]'',
     ''          next_frontier = next_frontier " " ids[j]'',
     ''        }'',
     ''      }'',
     ''      frontier = next_frontier'',
     ''    }'',
     ''  }'' @ [CHR 0x27] @ '')'',
     ''kill -HUP "-$pid" 2>/dev/null || kill -HUP "$pid" 2>/dev/null || true'',
     ''kill -TERM "-$pid" 2>/dev/null || kill -TERM "$pid" 2>/dev/null || true'',
     ''[ -z "$descendants" ] || kill -TERM $descendants 2>/dev/null || true'',
     ''sleep 0.2'',
     ''kill -KILL "-$pid" 2>/dev/null || kill -KILL "$pid" 2>/dev/null || true'',
     ''[ -z "$descendants" ] || kill -KILL $descendants 2>/dev/null || true'',
     ''rm -f "$1"'']\<close>

definition remove_script :: string where \<open>
  remove_script = script
    [''read pid token < "$1" 2>/dev/null || exit 0'',
     ''[ "$token" = "$2" ] || exit 0'',
     ''rm -f "$1"'']\<close>

definition list_script :: string where \<open>
  list_script = script
    [''for path in /tmp/aw-gateway-*-*.pid; do'',
     ''  [ -e "$path" ] || continue'',
     ''  printf '' @ [CHR 0x27] @ ''%s'' @ [CHR 0x5C] @ ''n'' @ [CHR 0x27] @ '' "$path"'',
     ''done'']\<close>

definition sweep_script :: string where \<open>
  sweep_script = script
    [''for path do'',
     ''  case "$path" in'',
     ''    /tmp/aw-gateway-*-*.pid) rm -f -- "$path" 2>/dev/null || true ;;'',
     ''  esac'',
     ''done'']\<close>

definition wrap_cancelable_command :: "string list \<Rightarrow> cancel_marker \<Rightarrow> string \<Rightarrow> string list" where
  "wrap_cancelable_command command marker argv0 =
     [''/bin/sh'', ''-c'', wrap_script, argv0, cm_path marker, cm_token marker] @ command"

definition quiet_command :: "exec_spec \<Rightarrow> string list \<Rightarrow> exec_spec" where
  "quiet_command spec command = spec\<lparr>es_stdin_tty := False, es_stdout_tty := False, es_command := command\<rparr>"

definition cancel_cleanup_spec :: "exec_spec \<Rightarrow> cancel_marker \<Rightarrow> string \<Rightarrow> exec_spec" where
  "cancel_cleanup_spec spec marker argv0 =
     quiet_command spec [''/bin/sh'', ''-c'', cleanup_script, argv0, cm_path marker, cm_token marker]"

definition cancel_marker_remove_spec :: "exec_spec \<Rightarrow> cancel_marker \<Rightarrow> string \<Rightarrow> exec_spec" where
  "cancel_marker_remove_spec spec marker argv0 =
     quiet_command spec [''/bin/sh'', ''-c'', remove_script, argv0, cm_path marker, cm_token marker]"

definition plain_exec_spec :: "string \<Rightarrow> string \<Rightarrow> string list \<Rightarrow> exec_spec" where
  "plain_exec_spec container user command =
     \<lparr>es_stdin_tty = False, es_stdout_tty = False, es_user = user, es_cwd = None, es_env = [],
      es_container_name = container, es_command = command\<rparr>"

definition cancel_marker_list_spec :: "string \<Rightarrow> string \<Rightarrow> exec_spec" where
  "cancel_marker_list_spec container user =
     plain_exec_spec container user [''/bin/sh'', ''-c'', list_script, ''aw-gateway-marker-list'']"

definition cancel_marker_sweep_spec :: "string \<Rightarrow> string \<Rightarrow> string list \<Rightarrow> exec_spec" where
  "cancel_marker_sweep_spec container user marker_paths =
     plain_exec_spec container user
       ([''/bin/sh'', ''-c'', sweep_script, ''aw-gateway-marker-sweep''] @ marker_paths)"

section \<open>Running a command\<close>

record exec_output =
  eo_exit_code :: int
  eo_stdout :: string
  eo_stderr :: string
  eo_stdout_truncated :: bool
  eo_stderr_truncated :: bool

definition run_exec_text :: "container_runtime \<Rightarrow> exec_spec \<Rightarrow> string" where
  "run_exec_text rt spec = runtime_label rt @ '' exec '' @ es_container_name spec"

text \<open>\<open>exec_with_timeout\<close> and \<open>exec_discard_with_timeout\<close>: the status of the client, or \<open>None\<close> when the
  time ran out first.\<close>

definition exec_with_timeout ::
  "container_runtime \<Rightarrow> exec_spec \<Rightarrow> string \<Rightarrow> exit_status res option \<Rightarrow> int res" where
  "exec_with_timeout rt spec timeout_text outcome =
     (case outcome of
        None \<Rightarrow> Inl (Context (run_exec_text rt spec @ '' timed out after '' @ timeout_text)
                       (Bail ''deadline has elapsed'' []))
      | Some status \<Rightarrow> map_ok exit_code (with_context (''run '' @ run_exec_text rt spec) status))"

text \<open>A started client whose output is captured: how waiting for it ended, what it wrote, and whether its
  pipes could be read to their ends in the time allowed for that.\<close>

record captured_child =
  cd_status :: "exit_status res option"
  cd_stdout :: string
  cd_stderr :: string
  cd_drained :: bool

definition exec_capture_with_timeout ::
  "container_runtime \<Rightarrow> exec_spec \<Rightarrow> string option \<Rightarrow> captured_child res \<Rightarrow> exec_output res" where
  "exec_capture_with_timeout rt spec timeout_text spawned =
     and_then (with_context (''start '' @ run_exec_text rt spec) spawned) (\<lambda>child.
     and_then (case cd_status child of
         None \<Rightarrow> Inl (Bail ''{} exec {} timed out after {}''
                   [runtime_label rt, es_container_name spec, unwrap_or [] timeout_text])
       | Some status \<Rightarrow> with_context (''run '' @ run_exec_text rt spec) status) (\<lambda>status.
     if timeout_text \<noteq> None \<and> \<not> cd_drained child
     then Inl (Bail ''{} exec {} timed out draining captured output after 1s''
                 [runtime_label rt, es_container_name spec])
     else case (read_pipe_to_end (cd_stdout child), read_pipe_to_end (cd_stderr child)) of
       ((out, out_cut), (err, err_cut)) \<Rightarrow>
         Inr \<lparr>eo_exit_code = exit_code status, eo_stdout = out, eo_stderr = err,
              eo_stdout_truncated = out_cut, eo_stderr_truncated = err_cut\<rparr>))"

section \<open>Sweeping stale markers\<close>

function chunks :: "nat \<Rightarrow> 'a list \<Rightarrow> 'a list list" where
  "chunks n xs = (if xs = [] \<or> n = 0 then [] else take n xs # chunks n (drop n xs))"
  by pat_completeness auto
termination by (relation "measure (\<lambda>(n, xs). length xs)") auto

declare chunks.simps [simp del]

definition sweep_stale_cancel_markers ::
  "(exec_spec \<Rightarrow> exec_output res) \<Rightarrow> (exec_spec \<Rightarrow> int res) \<Rightarrow> (nat \<Rightarrow> bool) \<Rightarrow> container_runtime
     \<Rightarrow> string \<Rightarrow> string \<Rightarrow> nat res" where
  "sweep_stale_cancel_markers capture discard is_active rt container user =
     and_then (capture (cancel_marker_list_spec container user)) (\<lambda>out.
     if eo_exit_code out \<noteq> 0
     then Inl (Bail ''{} exec {} stale cancel marker list exited with status {}''
                 [runtime_label rt, container, show_int (eo_exit_code out)])
     else let stale = stale_cancel_marker_paths is_active (str_lines (eo_stdout out)) in
       map_ok (\<lambda>_. length stale)
         (each (\<lambda>chunk. and_then (discard (cancel_marker_sweep_spec container user chunk)) (\<lambda>code.
            bail_if (code \<noteq> 0) (Bail ''{} exec {} stale cancel marker sweep exited with status {}''
              [runtime_label rt, container, show_int code]))) (chunks 100 stale)))"

text \<open>\<open>sweep_stale_cancel_markers_once\<close>: the keys swept so far are kept; \<open>key\<close> is
  \<open>cancel_marker_sweep_key\<close>.\<close>

definition sweep_once :: "'k \<Rightarrow> nat res \<Rightarrow> 'k set \<Rightarrow> nat option res \<times> 'k set" where
  "sweep_once key sweep keys =
     (if key \<in> keys then (Inr None, keys) else (map_ok Some sweep, insert key keys))"

section \<open>Cancelling\<close>

text \<open>The events of a cancellation: commands run in the container, signals sent on the host, and pauses
  in milliseconds. A signal goes to a process, or with a negative number to a process group.\<close>

datatype cancel_event = Run_In_Container exec_spec | Pause nat | Kill int nat | Kill_Child | Abort_Cleanup | Abort_Wait

definition SIGHUP :: nat where "SIGHUP = 1"
definition SIGTERM :: nat where "SIGTERM = 15"
definition SIGKILL :: nat where "SIGKILL = 9"

definition signalable_pid :: "nat \<Rightarrow> int option" where
  "signalable_pid child_pid = (if child_pid < 2 ^ 31 \<and> 1 < child_pid then Some (int child_pid) else None)"

definition signal_process_group :: "nat \<Rightarrow> nat \<Rightarrow> cancel_event list" where
  "signal_process_group child_pid signal =
     (case signalable_pid child_pid of Some pid \<Rightarrow> [Kill (- pid) signal] | None \<Rightarrow> [])"

definition signal_process :: "nat \<Rightarrow> nat \<Rightarrow> cancel_event list" where
  "signal_process child_pid signal =
     (case signalable_pid child_pid of Some pid \<Rightarrow> [Kill pid signal] | None \<Rightarrow> [])"

definition terminate_process_group_nonblocking :: "nat \<Rightarrow> cancel_event list" where
  "terminate_process_group_nonblocking child_pid =
     signal_process_group child_pid SIGHUP @ signal_process_group child_pid SIGTERM
     @ signal_process child_pid SIGHUP @ signal_process child_pid SIGTERM"

definition terminate_process_group :: "nat \<Rightarrow> cancel_event list" where
  "terminate_process_group child_pid =
     terminate_process_group_nonblocking child_pid @ [Pause 100]
     @ signal_process_group child_pid SIGKILL @ signal_process child_pid SIGKILL"

definition terminate_host_exec_child :: "nat option \<Rightarrow> cancel_event list" where
  "terminate_host_exec_child child_pid =
     (case child_pid of Some pid \<Rightarrow> terminate_process_group pid | None \<Rightarrow> [])"

text \<open>How joining the first cleanup ended: it finished, its task failed, or the time ran out.\<close>

datatype cleanup_join = Cleanup_Finished bool | Cleanup_Failed | Cleanup_Timed_Out

definition cleanup_again :: "exec_spec \<Rightarrow> cleanup_join \<Rightarrow> cancel_event list" where
  "cleanup_again cleanup_spec joined = (case joined of
       Cleanup_Finished finished \<Rightarrow> if finished then [] else [Run_In_Container cleanup_spec]
     | Cleanup_Failed \<Rightarrow> [Run_In_Container cleanup_spec]
     | Cleanup_Timed_Out \<Rightarrow> [Abort_Cleanup, Run_In_Container cleanup_spec])"

definition cancel_container_exec_child ::
  "exec_spec \<Rightarrow> nat option \<Rightarrow> cleanup_join \<Rightarrow> bool \<Rightarrow> cancel_event list" where
  "cancel_container_exec_child cleanup_spec child_pid joined waited =
     [Run_In_Container cleanup_spec, Pause 100] @ terminate_host_exec_child child_pid
     @ cleanup_again cleanup_spec joined
     @ (if waited then [] else [Abort_Wait])"

text \<open>\<open>exec_cancelable\<close>: the client is started on the wrapped command and either ends or is cancelled
  first. The marker is removed at the end of a command that was not cancelled.\<close>

datatype exec_end =
    Exec_Ended "exit_status res"
  | Exec_Cancelled "nat option" cleanup_join bool

datatype exec_status_result = Exec_Completed int | Exec_Canceled

definition exec_cancelable ::
  "container_runtime \<Rightarrow> exec_spec \<Rightarrow> cancel_marker res \<Rightarrow> (exec_spec \<Rightarrow> exec_end res)
     \<Rightarrow> exec_status_result res \<times> cancel_event list" where
  "exec_cancelable rt spec next_marker start =
     (case next_marker of
        Inl e \<Rightarrow> (Inl e, [])
      | Inr marker \<Rightarrow>
          let exec_spec = spec\<lparr>es_command := wrap_cancelable_command (es_command spec) marker ''aw-gateway-exec''\<rparr>;
              cleanup_spec = cancel_cleanup_spec spec marker ''aw-gateway-exec-cleanup'';
              remove_spec = cancel_marker_remove_spec spec marker ''aw-gateway-exec-rm''
          in case with_context (''start '' @ run_exec_text rt spec) (start exec_spec) of
               Inl e \<Rightarrow> (Inl e, [Run_In_Container exec_spec])
             | Inr (Exec_Ended status) \<Rightarrow>
                 (case with_context (''run '' @ run_exec_text rt spec) status of
                    Inl e \<Rightarrow> (Inl e, [Run_In_Container exec_spec])
                  | Inr st \<Rightarrow> (Inr (Exec_Completed (exit_code st)),
                              [Run_In_Container exec_spec, Run_In_Container remove_spec]))
             | Inr (Exec_Cancelled child_pid joined waited) \<Rightarrow>
                 (Inr Exec_Canceled,
                  Run_In_Container exec_spec # cancel_container_exec_child cleanup_spec child_pid joined waited))"

text \<open>\<open>exec_capture_cancelable\<close>: the same with captured output, which is read to its ends.\<close>

datatype capture_end =
    Capture_Ended "exit_status res" string string
  | Capture_Cancelled "nat option" cleanup_join bool

datatype exec_capture_result = Capture_Completed exec_output | Capture_Canceled

definition exec_capture_cancelable ::
  "container_runtime \<Rightarrow> exec_spec \<Rightarrow> cancel_marker res \<Rightarrow> (exec_spec \<Rightarrow> capture_end res)
     \<Rightarrow> exec_capture_result res \<times> cancel_event list" where
  "exec_capture_cancelable rt spec next_marker start =
     (case next_marker of
        Inl e \<Rightarrow> (Inl e, [])
      | Inr marker \<Rightarrow>
          let exec_spec = spec\<lparr>es_command := wrap_cancelable_command (es_command spec) marker ''aw-gateway-exec''\<rparr>;
              cleanup_spec = cancel_cleanup_spec spec marker ''aw-gateway-exec-cleanup'';
              remove_spec = cancel_marker_remove_spec spec marker ''aw-gateway-exec-rm''
          in case with_context (''start '' @ run_exec_text rt spec) (start exec_spec) of
               Inl e \<Rightarrow> (Inl e, [Run_In_Container exec_spec])
             | Inr (Capture_Ended status written_out written_err) \<Rightarrow>
                 (case with_context (''run '' @ run_exec_text rt spec) status of
                    Inl e \<Rightarrow> (Inl e, [Run_In_Container exec_spec])
                  | Inr st \<Rightarrow>
                      (case (read_pipe_to_end written_out, read_pipe_to_end written_err) of
                         ((out, out_cut), (err, err_cut)) \<Rightarrow>
                           (Inr (Capture_Completed \<lparr>eo_exit_code = exit_code st, eo_stdout = out, eo_stderr = err,
                              eo_stdout_truncated = out_cut, eo_stderr_truncated = err_cut\<rparr>),
                            [Run_In_Container exec_spec, Run_In_Container remove_spec])))
             | Inr (Capture_Cancelled child_pid joined waited) \<Rightarrow>
                 (Inr Capture_Canceled,
                  Run_In_Container exec_spec # cancel_container_exec_child cleanup_spec child_pid joined waited))"

text \<open>A session on a pseudo terminal: the command it runs, what terminating and dropping it do.\<close>

definition pty_exec_spec :: "exec_spec \<Rightarrow> cancel_marker \<Rightarrow> exec_spec" where
  "pty_exec_spec spec marker = spec\<lparr>es_stdin_tty := True, es_stdout_tty := True,
     es_command := wrap_cancelable_command (es_command spec) marker ''aw-gateway-pty''\<rparr>"

record pty_session =
  ps_child_pid :: "nat option"
  ps_cleanup_spec :: exec_spec

definition open_pty_session :: "exec_spec \<Rightarrow> cancel_marker \<Rightarrow> nat option \<Rightarrow> pty_session" where
  "open_pty_session spec marker child_pid =
     \<lparr>ps_child_pid = child_pid, ps_cleanup_spec = cancel_cleanup_spec spec marker ''aw-gateway-pty-cleanup''\<rparr>"

definition terminate_pty_session :: "pty_session \<Rightarrow> cleanup_join \<Rightarrow> cancel_event list" where
  "terminate_pty_session session joined =
     [Run_In_Container (ps_cleanup_spec session), Pause 100]
     @ terminate_host_exec_child (ps_child_pid session) @ [Kill_Child]
     @ cleanup_again (ps_cleanup_spec session) joined"

definition drop_pty_session :: "pty_session \<Rightarrow> cancel_event list" where
  "drop_pty_session session =
     (case ps_child_pid session of Some pid \<Rightarrow> terminate_process_group_nonblocking pid | None \<Rightarrow> []) @ [Kill_Child]"

section \<open>Lemmas\<close>

lemma digits_no_dash: "list_all is_ascii_digit s \<Longrightarrow> CHR ''-'' \<notin> set s"
  by (auto simp: list_all_iff is_ascii_digit_def)

lemma parse_marker_path:
  assumes "kind \<noteq> []" and "pid < u32_limit"
  shows "parse_cancel_marker_host_pid (marker_path kind pid mid) = Some pid"
proof -
  let ?rest = "kind @ ''-'' @ show_nat pid @ ''-'' @ show_nat mid"
  have "strip_prefix CANCEL_MARKER_PATH_PREFIX (marker_path kind pid mid) = Some (?rest @ ''.pid'')"
    by (simp add: strip_prefix_Some marker_path_def CANCEL_MARKER_PATH_PREFIX_def)
  moreover have "strip_suffix CANCEL_MARKER_PATH_SUFFIX (?rest @ ''.pid'') = Some ?rest"
    by (simp add: strip_suffix_Some CANCEL_MARKER_PATH_SUFFIX_def)
  moreover have "rsplit_once CHR ''-'' ?rest = Some (kind @ ''-'' @ show_nat pid, show_nat mid)"
    by (simp add: rsplit_once_Some digits_no_dash show_nat_digits)
  moreover have "rsplit_once CHR ''-'' (kind @ ''-'' @ show_nat pid) = Some (kind, show_nat pid)"
    by (simp add: rsplit_once_Some digits_no_dash show_nat_digits)
  ultimately show ?thesis
    using assms by (simp add: parse_cancel_marker_host_pid_def show_nat_digits show_nat_not_Nil parse_uint_show)
qed

lemma stale_iff:
  "path \<in> set (stale_cancel_marker_paths active paths) \<longleftrightarrow>
    path \<in> set paths \<and> (\<exists>pid. parse_cancel_marker_host_pid path = Some pid \<and> \<not> active pid)"
  by (force simp: stale_cancel_marker_paths_def List.map_filter_def bind_eq_Some_conv split: if_splits)

lemma concat_chunks: "0 < n \<Longrightarrow> concat (chunks n xs) = xs"
proof (induction n xs rule: chunks.induct)
  case (1 n xs)
  then show ?case by (subst chunks.simps) simp
qed

lemma chunks_bound: "chunk \<in> set (chunks n xs) \<Longrightarrow> length chunk \<le> n \<and> chunk \<noteq> []"
proof (induction n xs rule: chunks.induct)
  case (1 n xs)
  then show ?case by (subst (asm) chunks.simps) (auto split: if_splits)
qed

lemmas terminate_defs = terminate_process_group_def terminate_process_group_nonblocking_def
  signal_process_group_def signal_process_def signalable_pid_def

section \<open>Properties\<close>



text \<open>A cancellation signals only the command it cancels. Every signal goes to the process of the client or
  to its process group, whose number is above 1 and so neither the own group nor all processes; a client
  that can be signalled is killed in the end, with its group; and the cleanup runs in the container
  once, or once more when the first one did not finish.\<close>

theorem cancellation_signals_only_its_command:
  "list_all (\<lambda>e. case e of
       Kill target signal \<Rightarrow> (\<exists>pid. child_pid = Some pid \<and> 1 < pid \<and> pid < 2 ^ 31 \<and> \<bar>target\<bar> = int pid)
     | Run_In_Container spec \<Rightarrow> spec = cleanup_spec
     | _ \<Rightarrow> True) (cancel_container_exec_child cleanup_spec child_pid joined waited)
   \<and> (case child_pid of
        Some pid \<Rightarrow> pid \<le> 1 \<or> 2 ^ 31 \<le> pid
          \<or> {Kill (- int pid) SIGKILL, Kill (int pid) SIGKILL}
               \<subseteq> set (cancel_container_exec_child cleanup_spec child_pid joined waited)
      | None \<Rightarrow> True)
   \<and> length (filter (\<lambda>e. e = Run_In_Container cleanup_spec)
        (cancel_container_exec_child cleanup_spec child_pid joined waited))
     = (if joined = Cleanup_Finished True then 1 else 2)"
proof -
  let ?T = "terminate_host_exec_child child_pid"
  have kill: "(case e of Kill target signal \<Rightarrow> (\<exists>pid. child_pid = Some pid \<and> 1 < pid \<and> pid < 2 ^ 31 \<and> \<bar>target\<bar> = int pid)
      | Run_In_Container spec \<Rightarrow> False | _ \<Rightarrow> True)" if "e \<in> set ?T" for e
    using that by (auto simp: terminate_host_exec_child_def terminate_defs split: option.splits if_splits)
  have "filter (\<lambda>e. e = Run_In_Container cleanup_spec) ?T = []"
    using kill [of "Run_In_Container cleanup_spec"] by (auto simp: filter_empty_conv)
  moreover have "case child_pid of Some pid \<Rightarrow> pid \<le> 1 \<or> 2 ^ 31 \<le> pid
          \<or> {Kill (- int pid) SIGKILL, Kill (int pid) SIGKILL} \<subseteq> set ?T | None \<Rightarrow> True"
    by (auto simp: terminate_host_exec_child_def terminate_defs split: option.splits)
  moreover have "list_all (\<lambda>e. case e of
       Kill target signal \<Rightarrow> (\<exists>pid. child_pid = Some pid \<and> 1 < pid \<and> pid < 2 ^ 31 \<and> \<bar>target\<bar> = int pid)
     | Run_In_Container spec \<Rightarrow> spec = cleanup_spec | _ \<Rightarrow> True) ?T"
    using kill by (fastforce simp: list_all_iff split: cancel_event.splits)
  ultimately show ?thesis
    unfolding cancel_container_exec_child_def cleanup_again_def
    by (cases joined rule: cleanup_join.exhaust; cases waited) (auto split: option.splits)
qed

end
