(* ===== verification/Container_Listing.thy ===== *)
theory Container_Listing
  imports Container_Runtime
begin

text \<open>
  \<open>src/runtime/parse.rs\<close> and the inspection and listing of containers in \<open>src/runtime.rs\<close>: what a client
  printed about one container or all of them, which of them this gateway manages for a user, and the
  names a container of Apple's runtime may have. Deserialising JSON is the library's: the record
  \<open>decoders\<close> holds what \<open>serde_json\<close> makes of a text for each of the types here. The client is a function
  from its arguments to what it printed.
\<close>

section \<open>What the clients print\<close>

datatype container_names = ManyNames "string list" | OneName string | NoNames

datatype label_field = LabelMap env_map | LabelText string | NoLabels

datatype image_field = ImageText string | ImageObject "string option" | NoImage

datatype status_field = StatusText string | StatusObject "string option" | NoStatus

record inspect_raw =
  ir_id :: string
  ir_name :: string
  ir_running :: bool
  ir_pid :: "int option"
  ir_labels :: env_map

record managed_raw =
  mr_names :: container_names
  mr_image :: string
  mr_state :: string
  mr_status :: string
  mr_labels :: label_field

record apple_configuration =
  ac_id :: "string option"
  ac_hostname :: "string option"
  ac_image :: "image_field option"
  ac_labels :: label_field
  ac_pid :: "int option"

record apple_inspect_raw =
  air_id :: "string option"
  air_status :: status_field
  air_pid :: "int option"
  air_labels :: label_field
  air_configuration :: apple_configuration

record apple_managed_raw =
  amr_id :: "string option"
  amr_name :: "string option"
  amr_image :: "image_field option"
  amr_status :: status_field
  amr_labels :: label_field
  amr_configuration :: apple_configuration

record decoders =
  de_inspects :: "string \<Rightarrow> inspect_raw list res"
  de_apple_inspects :: "string \<Rightarrow> apple_inspect_raw list res"
  de_managed_list :: "string \<Rightarrow> managed_raw list res"
  de_managed_line :: "string \<Rightarrow> managed_raw res"
  de_apple_list :: "string \<Rightarrow> apple_managed_raw list res"
  de_apple_line :: "string \<Rightarrow> apple_managed_raw res"

record managed_container =
  mc_name :: string
  mc_image :: string
  mc_running :: bool
  mc_labels :: env_map

section \<open>Reading names, labels, images and states\<close>

definition normalize_container_name :: "string \<Rightarrow> string" where
  "normalize_container_name v = trim_start_char CHR ''/'' (trim v)"

definition first_name :: "container_names \<Rightarrow> string option" where
  "first_name ns =
     find (\<lambda>v. v \<noteq> []) (map normalize_container_name
       (case ns of ManyNames names \<Rightarrow> names | OneName names \<Rightarrow> split_char CHR '','' names | NoNames \<Rightarrow> []))"

definition label_pair :: "string \<Rightarrow> (string \<times> string) option" where
  "label_pair pair = map_option (\<lambda>(key, v). (trim key, trim v)) (split_once CHR ''='' pair)"

definition into_map :: "label_field \<Rightarrow> env_map" where
  "into_map f = (case f of
     LabelMap labels \<Rightarrow> labels
   | LabelText labels \<Rightarrow>
       bt_extend [] (filter (\<lambda>(key, v). key \<noteq> []) (List.map_filter label_pair (split_char CHR '','' labels)))
   | NoLabels \<Rightarrow> [])"

definition non_empty_labels :: "label_field \<Rightarrow> env_map option" where
  "non_empty_labels f = (let labels = into_map f in if labels \<noteq> [] then Some labels else None)"

definition into_reference :: "image_field \<Rightarrow> string option" where
  "into_reference f =
     Option.bind (case f of ImageText v \<Rightarrow> Some v | ImageObject reference \<Rightarrow> reference | NoImage \<Rightarrow> None)
       (\<lambda>v. if trim v \<noteq> [] then Some (trim v) else None)"

definition status_state :: "status_field \<Rightarrow> string" where
  "status_state f = (case f of StatusText v \<Rightarrow> v | StatusObject state \<Rightarrow> unwrap_or [] state | NoStatus \<Rightarrow> [])"

text \<open>\<open>Option::or\<close> and \<open>Option::filter\<close> on a name.\<close>

definition or_option :: "'a option \<Rightarrow> 'a option \<Rightarrow> 'a option" where
  "or_option a b = (case a of None \<Rightarrow> b | Some x \<Rightarrow> Some x)"

definition some_name :: "string option \<Rightarrow> string option" where
  "some_name n = Option.bind (map_option normalize_container_name n) (\<lambda>v. if v \<noteq> [] then Some v else None)"

definition from_raw :: "managed_raw \<Rightarrow> managed_container option" where
  "from_raw raw =
     map_option (\<lambda>name. \<lparr>mc_name = name, mc_image = mr_image raw,
         mc_running = (to_ascii_lowercase (mr_state raw) = ''running''
           \<or> starts_with ''up '' (to_ascii_lowercase (mr_status raw))),
         mc_labels = into_map (mr_labels raw)\<rparr>)
       (first_name (mr_names raw))"

definition from_apple_raw :: "apple_managed_raw \<Rightarrow> managed_container option" where
  "from_apple_raw raw =
     (let cfg = amr_configuration raw;
          labels = unwrap_or (into_map (ac_labels cfg)) (non_empty_labels (amr_labels raw));
          img = unwrap_or [] (or_option (Option.bind (amr_image raw) into_reference)
                                        (Option.bind (ac_image cfg) into_reference))
      in map_option (\<lambda>name. \<lparr>mc_name = name, mc_image = img,
             mc_running = (to_ascii_lowercase (status_state (amr_status raw)) = ''running''),
             mc_labels = labels\<rparr>)
           (some_name (or_option (or_option (amr_name raw) (amr_id raw)) (ac_id cfg))))"

definition inspect_from_raw :: "inspect_raw \<Rightarrow> container_inspect" where
  "inspect_from_raw raw = \<lparr>ci_id = ir_id raw, ci_name = trim_start_char CHR ''/'' (ir_name raw),
     ci_running = ir_running raw, ci_pid = ir_pid raw, ci_labels = ir_labels raw\<rparr>"

definition inspect_from_apple_raw :: "apple_inspect_raw \<Rightarrow> container_inspect res" where
  "inspect_from_apple_raw raw =
     (let cfg = air_configuration raw in
      map_ok (\<lambda>cid. \<lparr>ci_id = cid, ci_name = unwrap_or cid (some_name (ac_hostname cfg)),
          ci_running = (to_ascii_lowercase (status_state (air_status raw)) = ''running''),
          ci_pid = or_option (air_pid raw) (ac_pid cfg),
          ci_labels = unwrap_or (into_map (ac_labels cfg)) (non_empty_labels (air_labels raw))\<rparr>)
        (ok_or (Bail ''apple container inspect JSON did not include configuration.id'' [])
          (some_name (or_option (air_id raw) (ac_id cfg)))))"

section \<open>Reading what a client printed\<close>

definition at_most_one :: "string \<Rightarrow> ('a \<Rightarrow> 'b res) \<Rightarrow> 'a list \<Rightarrow> 'b option res" where
  "at_most_one label f xs = (case xs of
     [] \<Rightarrow> Inr None
   | [x] \<Rightarrow> map_ok Some (f x)
   | _ \<Rightarrow> Inl (Bail ''{} inspect returned {} containers; expected one'' [label, show_nat (length xs)]))"

definition parse_container_inspect :: "decoders \<Rightarrow> string \<Rightarrow> string \<Rightarrow> container_inspect option res" where
  "parse_container_inspect de stdout label =
     and_then (with_context (''parse '' @ label @ '' inspect JSON'') (de_inspects de stdout))
       (at_most_one label (\<lambda>raw. Inr (inspect_from_raw raw)))"

definition parse_apple_container_inspect :: "decoders \<Rightarrow> string \<Rightarrow> string \<Rightarrow> container_inspect option res" where
  "parse_apple_container_inspect de stdout label =
     and_then (with_context (''parse '' @ label @ '' inspect JSON'') (de_apple_inspects de stdout))
       (at_most_one label inspect_from_apple_raw)"

text \<open>A list is one array or one object on each line.\<close>

definition parse_rows :: "(string \<Rightarrow> 'a list res) \<Rightarrow> (string \<Rightarrow> 'a res) \<Rightarrow> string \<Rightarrow> 'a list res" where
  "parse_rows rows row stdout =
     (let trimmed = trim stdout in
      if trimmed = [] then Inr []
      else if starts_with ''['' trimmed then rows trimmed
      else collect_ok row (filter (\<lambda>line. trim line \<noteq> []) (str_lines trimmed)))"

definition is_managed :: "managed_container \<Rightarrow> bool" where
  "is_managed c \<longleftrightarrow> bt_get (mc_labels c) ''io.aw-gateway.gateway'' = Some ''true''
     \<and> bt_contains (mc_labels c) ''io.aw-gateway.user'' \<and> bt_contains (mc_labels c) ''io.aw-gateway.uid''"

definition is_managed_for :: "managed_container \<Rightarrow> string \<Rightarrow> nat \<Rightarrow> bool" where
  "is_managed_for c user uid \<longleftrightarrow> is_managed c \<and> bt_get (mc_labels c) ''io.aw-gateway.user'' = Some user
     \<and> bt_get (mc_labels c) ''io.aw-gateway.uid'' = Some (show_nat uid)"

definition parse_managed_containers :: "decoders \<Rightarrow> string \<Rightarrow> managed_container list res" where
  "parse_managed_containers de stdout =
     map_ok (\<lambda>raw. filter is_managed (List.map_filter from_raw raw))
       (parse_rows (de_managed_list de) (de_managed_line de) stdout)"

definition parse_apple_container_list :: "decoders \<Rightarrow> string \<Rightarrow> managed_container list res" where
  "parse_apple_container_list de stdout =
     map_ok (List.map_filter from_apple_raw) (parse_rows (de_apple_list de) (de_apple_line de) stdout)"

section \<open>Names a managed container may have\<close>

record name_candidates =
  nc_exact :: "string set"
  nc_patterns :: "(string \<times> string) list"

definition candidates_empty :: name_candidates where
  "candidates_empty = \<lparr>nc_exact = {}, nc_patterns = []\<rparr>"

definition insert_exact :: "string \<Rightarrow> name_candidates \<Rightarrow> name_candidates" where
  "insert_exact name c = (if name \<noteq> [] then c\<lparr>nc_exact := insert name (nc_exact c)\<rparr> else c)"

definition insert_pattern :: "string \<Rightarrow> string \<Rightarrow> name_candidates \<Rightarrow> name_candidates" where
  "insert_pattern pre suf c = c\<lparr>nc_patterns := nc_patterns c @ [(pre, suf)]\<rparr>"

definition pattern_matches :: "string \<times> string \<Rightarrow> string \<Rightarrow> bool" where
  "pattern_matches pat name = (case pat of (pre, suf) \<Rightarrow>
     starts_with pre name \<and> ends_with suf name \<and> length pre + length suf < length name)"

definition candidates_match :: "name_candidates \<Rightarrow> string \<Rightarrow> bool" where
  "candidates_match c name \<longleftrightarrow> name \<in> nc_exact c \<or> list_ex (\<lambda>pat. pattern_matches pat name) (nc_patterns c)"

section \<open>Inspecting and listing\<close>

type_synonym client = "string list \<Rightarrow> client_output res"

definition inspect :: "decoders \<Rightarrow> client \<Rightarrow> container_runtime \<Rightarrow> string \<Rightarrow> container_inspect option res" where
  "inspect de client rt name =
     and_then (with_context (''run '' @ runtime_label rt @ '' inspect '' @ name) (client [''inspect'', name])) (\<lambda>out.
       if \<not> status_success (co_status out) then
         (if missing_container_error (co_stderr out) then Inr None
          else Inl (Bail ''{} inspect {} failed: {}'' [runtime_label rt, name, trim (co_stderr out)]))
       else if crt_kind rt = AppleContainer then
         parse_apple_container_inspect de (co_stdout out) (runtime_label rt)
       else parse_container_inspect de (co_stdout out) (runtime_label rt))"

definition apple_listed ::
  "(string \<Rightarrow> container_inspect option res) \<Rightarrow> name_candidates option \<Rightarrow> managed_container
     \<Rightarrow> managed_container option res" where
  "apple_listed inspect_one candidates c =
     (if mc_labels c \<noteq> [] then Inr (Some c)
      else case candidates of
        None \<Rightarrow> Inr None
      | Some cs \<Rightarrow>
          if \<not> candidates_match cs (mc_name c) then Inr None
          else and_then (inspect_one (mc_name c)) (\<lambda>found. case found of
            None \<Rightarrow> Inl (Bail (''apple container list row {} matched an aw-gateway candidate name but inspect ''
               @ ''returned no container; managed container listing cannot safely identify ownership'') [mc_name c])
          | Some i \<Rightarrow>
              if ci_labels i = []
              then Inl (Bail (''apple container inspect output for candidate {} omitted labels; managed ''
                @ ''container listing cannot safely identify aw-gateway ownership'') [mc_name c])
              else Inr (Some \<lparr>mc_name = mc_name c,
                mc_image = (if mc_image c = [] then unwrap_or [] (bt_get (ci_labels i) ''io.aw-gateway.image'')
                            else mc_image c),
                mc_running = ci_running i, mc_labels = ci_labels i\<rparr>)))"

definition managed_here :: "string \<Rightarrow> nat \<Rightarrow> runtime_context \<Rightarrow> managed_container \<Rightarrow> bool" where
  "managed_here user uid ctx c \<longleftrightarrow> is_managed_for c user uid \<and> matches_stored ctx (context_from_labels (mc_labels c))"

fun filter_apple_managed ::
  "(string \<Rightarrow> container_inspect option res) \<Rightarrow> name_candidates option \<Rightarrow> (managed_container \<Rightarrow> bool)
     \<Rightarrow> managed_container list \<Rightarrow> managed_container list res" where
  "filter_apple_managed inspect_one candidates here [] = Inr []"
| "filter_apple_managed inspect_one candidates here (c # cs) =
     and_then (apple_listed inspect_one candidates c) (\<lambda>listed.
       map_ok (\<lambda>managed. (case listed of Some x \<Rightarrow> if here x then [x] else [] | None \<Rightarrow> []) @ managed)
         (filter_apple_managed inspect_one candidates here cs))"

definition list_managed_containers ::
  "decoders \<Rightarrow> client \<Rightarrow> container_runtime \<Rightarrow> string \<Rightarrow> nat \<Rightarrow> runtime_context \<Rightarrow> name_candidates option
     \<Rightarrow> managed_container list res" where
  "list_managed_containers de client rt user uid ctx candidates =
     and_then (with_context (''run '' @ runtime_label rt @ '' '' @ list_command_label rt)
                 (client (list_managed_args rt user uid ctx))) (\<lambda>out.
     if \<not> status_success (co_status out)
     then Inl (Bail ''{} {} failed: {}'' [runtime_label rt, list_command_label rt, trim (co_stderr out)])
     else and_then (with_context (''parse '' @ runtime_label rt @ '' managed container list JSON'')
            (if crt_kind rt = AppleContainer then parse_apple_container_list de (co_stdout out)
             else parse_managed_containers de (co_stdout out))) (\<lambda>containers.
       if crt_kind rt = AppleContainer
       then filter_apple_managed (inspect de client rt) candidates (managed_here user uid ctx) containers
       else Inr (filter (managed_here user uid ctx) containers)))"

section \<open>Lemmas\<close>

lemma first_name_Some:
  assumes "first_name ns = Some n"
  shows "n \<noteq> []"
  using assms by (auto simp: first_name_def find_Some_iff)

lemma some_name_Some: "some_name n = Some v \<Longrightarrow> v \<noteq> []"
  by (auto simp: some_name_def bind_eq_Some_conv split: if_splits)

lemma from_raw_name: "from_raw raw = Some c \<Longrightarrow> mc_name c \<noteq> []"
  by (auto simp: from_raw_def dest: first_name_Some)

lemma from_apple_raw_name: "from_apple_raw raw = Some c \<Longrightarrow> mc_name c \<noteq> []"
  by (auto simp: from_apple_raw_def Let_def dest: some_name_Some)

lemma at_most_one_Inr:
  "at_most_one label f xs = Inr r \<longleftrightarrow> (xs = [] \<and> r = None) \<or> (\<exists>x y. xs = [x] \<and> f x = Inr y \<and> r = Some y)"
  by (auto simp: at_most_one_def res_simps split: list.splits)

text \<open>A candidate pattern matches the names with something between its prefix and its suffix.\<close>

lemma pattern_matches_iff:
  "pattern_matches (pre, suf) name \<longleftrightarrow> (\<exists>mid. mid \<noteq> [] \<and> name = pre @ mid @ suf)"
proof
  assume m: "pattern_matches (pre, suf) name"
  then obtain r where "name = pre @ r" by (auto simp: pattern_matches_def starts_with_iff)
  moreover from m obtain l where "name = l @ suf" by (auto simp: pattern_matches_def ends_with_iff)
  moreover from m have "length pre + length suf < length name" by (simp add: pattern_matches_def)
  ultimately have rl: "name = pre @ r" "name = l @ suf" "length pre + length suf < length name" by simp_all
  have "length name = length l + length suf" by (simp add: rl(2))
  with rl(3) have "length pre \<le> length l" by linarith
  then have "l = pre @ drop (length pre) l"
    using rl(1,2) by (metis append_eq_append_conv_if append_take_drop_id)
  moreover from this rl(2,3) have "drop (length pre) l \<noteq> []" by auto
  ultimately show "\<exists>mid. mid \<noteq> [] \<and> name = pre @ mid @ suf" using rl(2) by (metis append_assoc)
next
  assume "\<exists>mid. mid \<noteq> [] \<and> name = pre @ mid @ suf"
  then show "pattern_matches (pre, suf) name"
    by (auto simp: pattern_matches_def starts_with_iff ends_with_iff)
qed

lemma managed_here_user:
  "managed_here user uid ctx c \<Longrightarrow> bt_get (mc_labels c) ''io.aw-gateway.user'' = Some user"
  by (simp add: managed_here_def is_managed_for_def)

lemma managed_here_uid:
  "managed_here user uid ctx c \<Longrightarrow> bt_get (mc_labels c) ''io.aw-gateway.uid'' = Some (show_nat uid)"
  by (simp add: managed_here_def is_managed_for_def)

lemma matches_stored_get:
  "matches_stored ctx stored \<Longrightarrow> bt_get ctx k = Some v \<Longrightarrow> bt_get stored k = Some v"
  by (auto simp: matches_stored_def list_all_iff dest!: bt_get_in split: if_splits)

lemma matches_stored_Nil: "matches_stored ctx stored \<Longrightarrow> ctx = [] \<longleftrightarrow> stored = []"
  by (cases ctx) (auto simp: matches_stored_def bt_get_def)

lemma filter_apple_managed_Inr:
  assumes "filter_apple_managed inspect_one candidates here cs = Inr managed"
  shows "c \<in> set managed \<longleftrightarrow>
    (\<exists>x \<in> set cs. apple_listed inspect_one candidates x = Inr (Some c)) \<and> here c"
    and "x \<in> set cs \<Longrightarrow> is_ok (apple_listed inspect_one candidates x)"
  using assms by (induction cs arbitrary: managed) (fastforce simp: res_simps split: option.splits if_splits)+

lemma listed_is_managed_here:
  assumes "list_managed_containers de client rt user uid ctx candidates = Inr cs" and "c \<in> set cs"
  shows "managed_here user uid ctx c"
proof -
  from assms(1) obtain xs where
    "(if crt_kind rt = AppleContainer
      then filter_apple_managed (inspect de client rt) candidates (managed_here user uid ctx) xs
      else Inr (filter (managed_here user uid ctx) xs)) = Inr cs"
    by (auto simp: list_managed_containers_def res_simps split: if_splits)
  then show ?thesis
    using assms(2) filter_apple_managed_Inr(1) [of _ candidates _ xs cs c] by (auto split: if_splits)
qed

text \<open>A row of Apple's runtime without labels whose name may be a managed container's is inspected, and
  the listing fails rather than leave out a container whose owner it cannot tell.\<close>

lemma apple_candidates_are_inspected:
  assumes "filter_apple_managed inspect_one (Some candidates) here cs = Inr managed"
    and "x \<in> set cs" and "mc_labels x = []" and "candidates_match candidates (mc_name x)"
  obtains i where "inspect_one (mc_name x) = Inr (Some i)" and "ci_labels i \<noteq> []"
proof -
  from filter_apple_managed_Inr(2) [OF assms(1,2)] assms(3,4) obtain i
    where "inspect_one (mc_name x) = Inr (Some i)" "ci_labels i \<noteq> []"
    by (cases "inspect_one (mc_name x)") (auto simp: apple_listed_def split: option.splits if_splits)
  with that show ?thesis by blast
qed

section \<open>Properties\<close>

text \<open>The listings of different owners are disjoint. When two listings, by whatever runtimes and clients,
  hold a container with the same labels, they were made for the same user and the same user id, their
  contexts agree on every key they share, and one has a context exactly when the other has.\<close>

theorem listed_containers_have_one_owner:
  assumes "list_managed_containers de client rt user uid ctx candidates = Inr cs"
    and "list_managed_containers de' client' rt' user' uid' ctx' candidates' = Inr cs'"
    and "c \<in> set cs" and "c' \<in> set cs'" and "mc_labels c = mc_labels c'"
  shows "user = user' \<and> uid = uid' \<and> (ctx = [] \<longleftrightarrow> ctx' = [])
    \<and> (\<forall>k v v'. bt_get ctx k = Some v \<and> bt_get ctx' k = Some v' \<longrightarrow> v = v')"
proof -
  note here = listed_is_managed_here [OF assms(1,3)] and here' = listed_is_managed_here [OF assms(2,4)]
  have "user = user'" "show_nat uid = show_nat uid'"
    using managed_here_user [OF here] managed_here_user [OF here'] managed_here_uid [OF here]
      managed_here_uid [OF here'] assms(5) by auto
  moreover from this(2) have "uid = uid'" by (metis digits_value_show)
  moreover have "matches_stored ctx (context_from_labels (mc_labels c'))"
      "matches_stored ctx' (context_from_labels (mc_labels c'))"
    using here here' assms(5) by (simp_all add: managed_here_def)
  ultimately show ?thesis
    using matches_stored_Nil matches_stored_get by (metis option.inject)
qed

definition demo_row :: managed_raw where
  "demo_row = \<lparr>mr_names = OneName ''/aw-ann-dev,alias'', mr_image = ''dev'', mr_state = ''running'', mr_status = [],
     mr_labels = LabelText ''io.aw-gateway.gateway=true,io.aw-gateway.user=ann,io.aw-gateway.uid=7''\<rparr>"

definition demo_decoders :: decoders where
  "demo_decoders = \<lparr>de_inspects = \<lambda>_. Inr [], de_apple_inspects = \<lambda>_. Inr [], de_managed_list = \<lambda>_. Inr [demo_row],
     de_managed_line = \<lambda>_. Inr demo_row, de_apple_list = \<lambda>_. Inr [], de_apple_line = \<lambda>_. Inl (Bail [] [])\<rparr>"

definition demo_client :: client where
  "demo_client args = Inr \<lparr>co_status = \<lparr>xs_code = Some 0, xs_signal = None\<rparr>, co_stdout = ''[...]'', co_stderr = []\<rparr>"

definition demo_listed :: managed_container where
  "demo_listed = \<lparr>mc_name = ''aw-ann-dev'', mc_image = ''dev'', mc_running = True,
     mc_labels = [(''io.aw-gateway.gateway'', ''true''), (''io.aw-gateway.uid'', ''7''), (''io.aw-gateway.user'', ''ann'')]\<rparr>"

lemma demo_listing: "list_managed_containers demo_decoders demo_client demo_runtime ''ann'' 7 [] None = Inr [demo_listed]"
  by code_simp

theorem listed_containers_have_one_owner_witness:
  "list_managed_containers demo_decoders demo_client demo_runtime ''ann'' 7 [] None = Inr [demo_listed]
   \<and> list_managed_containers demo_decoders demo_client demo_runtime ''bob'' 7 [] None \<noteq> Inr [demo_listed]
   \<and> list_managed_containers demo_decoders demo_client demo_runtime ''ann'' 8 [] None \<noteq> Inr [demo_listed]"
  using demo_listing
    listed_containers_have_one_owner [OF _ demo_listing, of demo_decoders demo_client demo_runtime "''bob''" 7
      "[]" None "[demo_listed]" demo_listed demo_listed]
    listed_containers_have_one_owner [OF _ demo_listing, of demo_decoders demo_client demo_runtime "''ann''" 8
      "[]" None "[demo_listed]" demo_listed demo_listed]
  by auto

end
