(* ===== verification/Apple_Preflight.thy ===== *)
theory Apple_Preflight
  imports Container_Listing
begin

text \<open>
  \<open>src/runtime.rs\<close>, the checks made before a container runtime is used: the host and the versions that
  Apple's container tools need, the cache of runtimes that passed, and whether a runtime runs on this host
  so that a Unix socket of the host may be exposed to its containers. The operating system, the
  environment of the process, the files and the clients are arguments; so is the JSON parser, whose values
  are the datatype \<open>json\<close> with objects in the order of their keys.
\<close>

section \<open>JSON values\<close>

datatype json = JNull | JBool bool | JNumber string | JString string | JArray "json list"
  | JObject "(string \<times> json) list"

definition json_str :: "json \<Rightarrow> string option" where
  "json_str v = (case v of JString s \<Rightarrow> Some s | _ \<Rightarrow> None)"

definition json_bool :: "json \<Rightarrow> bool option" where
  "json_bool v = (case v of JBool b \<Rightarrow> Some b | _ \<Rightarrow> None)"

definition json_get :: "json \<Rightarrow> string \<Rightarrow> json option" where
  "json_get v key = (case v of JObject m \<Rightarrow> bt_get m key | _ \<Rightarrow> None)"

definition json_get_either :: "json \<Rightarrow> string \<Rightarrow> string \<Rightarrow> json option" where
  "json_get_either v key key' = or_option (json_get v key) (json_get v key')"

section \<open>Versions\<close>

type_synonym version = "nat \<times> nat \<times> nat"

fun version_less :: "version \<Rightarrow> version \<Rightarrow> bool" where
  "version_less (a, b, c) (a', b', c') \<longleftrightarrow> a < a' \<or> (a = a' \<and> (b < b' \<or> (b = b' \<and> c < c')))"

definition APPLE_CONTAINER_MIN_MACOS_MAJOR :: nat where
  "APPLE_CONTAINER_MIN_MACOS_MAJOR = 26"

definition APPLE_CONTAINER_MIN_VERSION :: version where
  "APPLE_CONTAINER_MIN_VERSION = (1, 0, 0)"

definition APPLE_CONTAINER_SOCKET_EXPOSURE_MIN_VERSION :: version where
  "APPLE_CONTAINER_SOCKET_EXPOSURE_MIN_VERSION = (1, 1, 0)"

definition parse_major_version :: "string \<Rightarrow> nat option" where
  "parse_major_version raw = parse_uint u64_limit (hd (split_char CHR ''.'' (trim raw)))"

definition parse_semver_triplet :: "string \<Rightarrow> version option" where
  "parse_semver_triplet raw =
     (let core = hd (split_where (\<lambda>c. c = CHR ''-'' \<or> c = CHR ''+'') (trim_start_char CHR ''v'' (trim raw)))
      in case split_char CHR ''.'' core of
           [major, minor, patch] \<Rightarrow>
             Option.bind (parse_uint u64_limit major) (\<lambda>a.
             Option.bind (parse_uint u64_limit minor) (\<lambda>b.
             map_option (\<lambda>c. (a, b, c)) (parse_uint u64_limit patch)))
         | _ \<Rightarrow> None)"

definition version_key_rank :: "string \<Rightarrow> nat option" where
  "version_key_rank key =
     (let lower = to_ascii_lowercase key in
      if lower = ''version'' then Some 0
      else if (contains_str ''cli'' lower \<or> contains_str ''client'' lower \<or> contains_str ''container'' lower)
              \<and> contains_str ''version'' lower
      then Some 1 else None)"

text \<open>\<open>collect_version_strings\<close> with the candidates it appends.\<close>

fun collect_version_strings :: "json \<Rightarrow> nat option \<Rightarrow> (nat \<times> string) list"
and collect_version_items :: "json list \<Rightarrow> nat option \<Rightarrow> (nat \<times> string) list"
and collect_version_fields :: "(string \<times> json) list \<Rightarrow> nat option \<Rightarrow> (nat \<times> string) list" where
  "collect_version_strings (JArray items) inherited = collect_version_items items inherited"
| "collect_version_strings (JObject entries) inherited = collect_version_fields entries inherited"
| "collect_version_strings (JString raw) inherited =
     (case inherited of Some rank \<Rightarrow> [(rank, raw)] | None \<Rightarrow> [])"
| "collect_version_strings _ inherited = []"
| "collect_version_items [] inherited = []"
| "collect_version_items (item # items) inherited =
     collect_version_strings item inherited @ collect_version_items items inherited"
| "collect_version_fields [] inherited = []"
| "collect_version_fields ((key, v) # entries) inherited =
     collect_version_strings v (or_option (version_key_rank key) inherited)
     @ collect_version_fields entries inherited"

fun find_map :: "('a \<Rightarrow> 'b option) \<Rightarrow> 'a list \<Rightarrow> 'b option" where
  "find_map f [] = None"
| "find_map f (x # xs) = (case f x of Some y \<Rightarrow> Some y | None \<Rightarrow> find_map f xs)"

definition versioned :: "string \<Rightarrow> (string \<times> version) option" where
  "versioned raw = map_option (Pair raw) (parse_semver_triplet raw)"

definition first_parseable_version_string :: "json \<Rightarrow> (string \<times> version) option" where
  "first_parseable_version_string v =
     find_map (\<lambda>(_, raw). versioned raw) (sort_key fst (collect_version_strings v None))"

definition version_rows :: "json \<Rightarrow> json list option" where
  "version_rows v = (case v of
     JArray rows \<Rightarrow> Some rows
   | JObject _ \<Rightarrow>
       (case json_get_either v ''components'' ''Components'' of Some (JArray rows) \<Rightarrow> Some rows | _ \<Rightarrow> None)
   | _ \<Rightarrow> None)"

text \<open>The version in a row that names a component, and the name.\<close>

definition component_row :: "json \<Rightarrow> (string \<times> string) option" where
  "component_row row =
     Option.bind (Option.bind (json_get_either row ''appName'' ''AppName'') json_str) (\<lambda>app_name.
     map_option (Pair app_name) (Option.bind (json_get_either row ''version'' ''Version'') json_str))"

fun documented_rows :: "json list \<Rightarrow> bool \<Rightarrow> string option option" where
  "documented_rows [] saw_component_row = (if saw_component_row then Some None else None)"
| "documented_rows (row # rows) saw_component_row =
     (case component_row row of
        None \<Rightarrow> documented_rows rows saw_component_row
      | Some (app_name, version) \<Rightarrow>
          if app_name = ''container'' then Some (Some version) else documented_rows rows True)"

definition documented_apple_cli_version :: "json \<Rightarrow> string option option" where
  "documented_apple_cli_version v = Option.bind (version_rows v) (\<lambda>rows. documented_rows rows False)"

definition apple_cli_version_candidate :: "json \<Rightarrow> (string \<times> version) option" where
  "apple_cli_version_candidate v =
     (case documented_apple_cli_version v of
        Some version \<Rightarrow> Option.bind version versioned
      | None \<Rightarrow> first_parseable_version_string v)"

definition version_json_context :: string where
  "version_json_context = ''parse `container system version --format json` output as JSON''"

definition validate_apple_cli_version_json :: "(string \<Rightarrow> json res) \<Rightarrow> string \<Rightarrow> unit res" where
  "validate_apple_cli_version_json from_json stdout =
     and_then (with_context version_json_context (from_json stdout)) (\<lambda>v.
       case apple_cli_version_candidate v of
         None \<Rightarrow> Inr ()
       | Some (raw, version) \<Rightarrow>
           bail_if (version_less version APPLE_CONTAINER_MIN_VERSION)
             (Bail (''apple container runtime requires Apple container CLI 1.0.0 or newer; ''
                @ ''`container system version --format json` reported {}'') [raw]))"

definition validate_apple_cli_minimum_version_json ::
  "(string \<Rightarrow> json res) \<Rightarrow> string \<Rightarrow> version \<Rightarrow> string \<Rightarrow> unit res" where
  "validate_apple_cli_minimum_version_json from_json stdout minimum requirement =
     and_then (with_context version_json_context (from_json stdout)) (\<lambda>v.
     and_then (ok_or (Bail (''{}; `container system version --format json` did not contain a parseable ''
                        @ ''container CLI version'') [requirement]) (apple_cli_version_candidate v))
       (\<lambda>(raw, version). bail_if (version_less version minimum)
          (Bail ''{}; `container system version --format json` reported {}'' [requirement, raw])))"

section \<open>The host\<close>

record apple_host =
  ah_os :: string
  ah_arch :: string
  ah_macos_version :: "string option"

definition read_macos_product_version :: "(exit_status \<Rightarrow> string) \<Rightarrow> client_output res \<Rightarrow> string res" where
  "read_macos_product_version status_text sw_vers =
     and_then (with_context ''run sw_vers -productVersion to determine macOS version'' sw_vers) (\<lambda>out.
       if \<not> status_success (co_status out)
       then Inl (Bail ''sw_vers -productVersion failed while checking Apple container prerequisites: {}''
                   [command_output_text status_text out])
       else if trim (co_stdout out) = []
       then Inl (Bail (''sw_vers -productVersion returned an empty macOS version while checking Apple ''
                   @ ''container prerequisites'') [])
       else Inr (trim (co_stdout out)))"

definition current_apple_host_info ::
  "(exit_status \<Rightarrow> string) \<Rightarrow> string \<Rightarrow> string \<Rightarrow> client_output res \<Rightarrow> apple_host res" where
  "current_apple_host_info status_text os arch sw_vers =
     map_ok (\<lambda>v. \<lparr>ah_os = os, ah_arch = arch, ah_macos_version = v\<rparr>)
       (if os = ''macos'' then map_ok Some (read_macos_product_version status_text sw_vers) else Inr None)"

definition validate_apple_host :: "apple_host \<Rightarrow> unit res" where
  "validate_apple_host host =
     (let newest = show_nat APPLE_CONTAINER_MIN_MACOS_MAJOR in
      if ah_os host \<noteq> ''macos''
      then Inl (Bail (''apple container runtime requires Apple silicon macOS {} or newer; current host OS is {}'')
                  [newest, ah_os host])
      else if ah_arch host \<noteq> ''aarch64'' \<and> ah_arch host \<noteq> ''arm64''
      then Inl (Bail (''apple container runtime requires Apple silicon (aarch64/arm64); current host ''
                  @ ''architecture is {}'') [ah_arch host])
      else and_then (ok_or (Bail (''apple container runtime requires macOS {} or newer, but macOS product ''
                       @ ''version was unavailable'') [newest]) (ah_macos_version host)) (\<lambda>version.
           and_then (ok_or (Bail (''apple container runtime requires macOS {} or newer, but could not parse ''
                       @ ''macOS product version {}'') [newest, version]) (parse_major_version version)) (\<lambda>major.
             bail_if (major < APPLE_CONTAINER_MIN_MACOS_MAJOR)
               (Bail ''apple container runtime requires macOS {} or newer; current macOS version is {}''
                  [newest, version]))))"

section \<open>The preflight of Apple's runtime\<close>

text \<open>What the checks see: the operating system and architecture the program was built for, the variables
  of its environment, the answers of \<open>sw_vers\<close> and of the client, the JSON parser, how an exit status
  displays, and the files.\<close>

record preflight_world =
  pw_os :: string
  pw_arch :: string
  pw_var :: "string \<Rightarrow> string option"
  pw_sw_vers :: "client_output res"
  pw_client :: client
  pw_json :: "string \<Rightarrow> json res"
  pw_json_list :: "string \<Rightarrow> json list res"
  pw_status_text :: "exit_status \<Rightarrow> string"
  pw_lstat :: "string \<Rightarrow> file_meta res"

definition run_apple_system_json_command :: "preflight_world \<Rightarrow> string \<Rightarrow> string \<Rightarrow> client_output res" where
  "run_apple_system_json_command w program subcommand =
     (let command_label = program @ '' system '' @ subcommand @ '' --format json'' in
      and_then (with_context (''run Apple container preflight command `'' @ command_label
                  @ ''`; install the Apple container CLI or set [runtime].program to its path'')
                (pw_client w [''system'', subcommand, ''--format'', ''json''])) (\<lambda>out.
        if status_success (co_status out) then Inr out
        else let output_text = command_output_text (pw_status_text w) out in
          if subcommand = ''status''
          then Inl (Bail ''apple container preflight command `{}` failed: {}; run `{} system start` and retry''
                      [command_label, output_text, program])
          else Inl (Bail (''apple container preflight command `{}` failed: {}; install or upgrade Apple ''
                      @ ''container CLI 1.0.0 or newer'') [command_label, output_text])))"

definition run_apple_preflight_checks :: "preflight_world \<Rightarrow> string \<Rightarrow> apple_host \<Rightarrow> unit res" where
  "run_apple_preflight_checks w program host =
     and_then (validate_apple_host host) (\<lambda>_.
     and_then (run_apple_system_json_command w program ''version'') (\<lambda>version_output.
     and_then (validate_apple_cli_version_json (pw_json w) (co_stdout version_output)) (\<lambda>_.
     and_then (run_apple_system_json_command w program ''status'') (\<lambda>status_output.
     map_ok (\<lambda>_. ()) (with_context ''parse `container system status --format json` output as JSON''
       (pw_json w (co_stdout status_output)))))))"

text \<open>The cache holds the programs that passed.\<close>

definition preflight :: "preflight_world \<Rightarrow> container_runtime \<Rightarrow> string set \<Rightarrow> unit res \<times> string set" where
  "preflight w rt cache =
     (if crt_kind rt \<noteq> AppleContainer \<or> crt_program rt \<in> cache then (Inr (), cache)
      else case and_then (current_apple_host_info (pw_status_text w) (pw_os w) (pw_arch w) (pw_sw_vers w))
                  (run_apple_preflight_checks w (crt_program rt)) of
             Inl e \<Rightarrow> (Inl e, cache)
           | Inr _ \<Rightarrow> (Inr (), insert (crt_program rt) cache))"

section \<open>Whether a socket of the host may be exposed\<close>

definition require_linux_host :: "preflight_world \<Rightarrow> string \<Rightarrow> unit res" where
  "require_linux_host w label =
     bail_if (pw_os w \<noteq> ''linux'')
       (Bail (''host_socket_exposures require {} to use a native local Linux host; current host OS is {}'')
          [label, pw_os w])"

definition require_unix_socket :: "preflight_world \<Rightarrow> string \<Rightarrow> string \<Rightarrow> unit res" where
  "require_unix_socket w path label =
     and_then (with_context (''stat '' @ label @ '' '' @ path) (pw_lstat w path)) (\<lambda>meta.
       bail_if (\<not> fm_is_socket meta) (Bail ''{} {} is not a Unix socket'' [label, path]))"

definition default_connection :: "json \<Rightarrow> bool" where
  "default_connection entry =
     (case json_get_either entry ''Default'' ''default'' of
        None \<Rightarrow> False
      | Some v \<Rightarrow> unwrap_or False (or_option (json_bool v) (map_option (\<lambda>s. s = ''true'') (json_str v))))"

definition podman_connection_list_has_default :: "preflight_world \<Rightarrow> string \<Rightarrow> bool res" where
  "podman_connection_list_has_default w stdout =
     map_ok (list_ex default_connection)
       (with_context ''parse podman system connection list output as JSON'' (pw_json_list w stdout))"

definition validate_podman_exposure :: "preflight_world \<Rightarrow> container_runtime \<Rightarrow> unit res" where
  "validate_podman_exposure w rt = seq_checks
     [require_linux_host w ''podman'',
      each (\<lambda>key. bail_if (pw_var w key \<noteq> None \<or> bt_contains (crt_env rt) key)
          (Bail (''host_socket_exposures require a native local Podman runtime; {} selects a remote or machine ''
             @ ''connection'') [key])) [''CONTAINER_HOST'', ''CONTAINER_CONNECTION''],
      and_then (with_context ''run podman system connection list for host_socket_exposures''
                 (pw_client w [''system'', ''connection'', ''list'', ''--format'', ''json''])) (\<lambda>out.
        if \<not> status_success (co_status out)
        then Inl (Bail ''podman connection preflight failed while validating host_socket_exposures: {}''
                    [command_output_text (pw_status_text w) out])
        else and_then (podman_connection_list_has_default w (co_stdout out)) (\<lambda>has_default.
          bail_if has_default
            (Bail (''host_socket_exposures require native local Podman without a configured default remote ''
               @ ''or machine connection'') [])))]"

definition docker_socket_path :: "preflight_world \<Rightarrow> container_runtime \<Rightarrow> string res" where
  "docker_socket_path w rt =
     (case or_option (bt_get (crt_env rt) ''DOCKER_HOST'') (pw_var w ''DOCKER_HOST'') of
        Some v \<Rightarrow>
          ok_or (Bail (''host_socket_exposures require a local Unix-socket Docker Engine; effective DOCKER_HOST ''
             @ ''is {}'') [v]) (strip_prefix ''unix://'' v)
      | None \<Rightarrow>
          and_then (with_context ''run docker context show for host_socket_exposures''
                     (pw_client w [''context'', ''show''])) (\<lambda>out.
            if \<not> status_success (co_status out)
            then Inl (Bail ''docker context show failed while validating host_socket_exposures: {}''
                        [command_output_text (pw_status_text w) out])
            else if trim (co_stdout out) \<noteq> ''default''
            then Inl (Bail (''host_socket_exposures require Docker'' @ [CHR 0x27] @ ''s native local default context; ''
                        @ ''current context is {}'') [trim (co_stdout out)])
            else Inr ''/var/run/docker.sock''))"

definition validate_docker_exposure :: "preflight_world \<Rightarrow> container_runtime \<Rightarrow> unit res" where
  "validate_docker_exposure w rt = seq_checks
     [require_linux_host w ''docker'',
      bail_if (pw_var w ''DOCKER_CONTEXT'' \<noteq> None \<or> bt_contains (crt_env rt) ''DOCKER_CONTEXT'')
        (Bail (''host_socket_exposures require Docker'' @ [CHR 0x27]
           @ ''s native local default context; DOCKER_CONTEXT is set'') []),
      and_then (docker_socket_path w rt) (\<lambda>path. require_unix_socket w path ''Docker Engine endpoint'')]"

definition validate_host_socket_exposure_support ::
  "preflight_world \<Rightarrow> container_runtime \<Rightarrow> bool \<Rightarrow> string set \<Rightarrow> unit res \<times> string set" where
  "validate_host_socket_exposure_support w rt configured cache =
     (if \<not> configured then (Inr (), cache)
      else case crt_kind rt of
        AppleContainer \<Rightarrow>
          (case preflight w rt cache of
             (Inl e, cache) \<Rightarrow> (Inl e, cache)
           | (Inr _, cache) \<Rightarrow>
               (and_then (run_apple_system_json_command w (crt_program rt) ''version'') (\<lambda>out.
                  validate_apple_cli_minimum_version_json (pw_json w) (co_stdout out)
                    APPLE_CONTAINER_SOCKET_EXPOSURE_MIN_VERSION
                    ''host_socket_exposures require Apple container CLI 1.1.0 or newer''), cache))
      | Colima \<Rightarrow> (Inl (Bail ''host_socket_exposures are not supported by the colima runtime'' []), cache)
      | Podman \<Rightarrow> (validate_podman_exposure w rt, cache)
      | Docker \<Rightarrow> (validate_docker_exposure w rt, cache))"

section \<open>Lemmas\<close>

lemma version_less_irrefl: "\<not> version_less v v"
  by (cases v) simp

lemma version_less_trans: "version_less u v \<Longrightarrow> version_less v w \<Longrightarrow> version_less u w"
  by (cases u; cases v; cases w) auto

lemma find_map_Some: "find_map f xs = Some y \<Longrightarrow> \<exists>x \<in> set xs. f x = Some y"
  by (induction xs) (auto split: option.splits)

lemma candidate_is_parsed:
  "apple_cli_version_candidate v = Some (raw, ver) \<Longrightarrow> parse_semver_triplet raw = Some ver"
  by (auto simp: apple_cli_version_candidate_def first_parseable_version_string_def versioned_def
      bind_eq_Some_conv split: option.splits dest!: find_map_Some)

lemma preflight_caches:
  "preflight w rt cache = (Inr (), cache') \<Longrightarrow> preflight w' rt cache' = (Inr (), cache')"
  by (auto simp: preflight_def split: if_splits sum.splits)

lemma preflight_cache_grows:
  "preflight w rt cache = (r, cache') \<Longrightarrow>
     cache \<subseteq> cache' \<and> (cache' \<noteq> cache \<longrightarrow> is_ok r \<and> cache' = insert (crt_program rt) cache)"
  by (auto simp: preflight_def is_ok_def split: if_splits sum.splits)

lemma run_apple_system_json_command_Inr:
  "run_apple_system_json_command w program subcommand = Inr out
    \<longleftrightarrow> pw_client w [''system'', subcommand, ''--format'', ''json''] = Inr out \<and> status_success (co_status out)"
  by (auto simp: run_apple_system_json_command_def Let_def res_simps split: if_splits)

section \<open>Properties\<close>

text \<open>Only sockets of this host are exposed. When the check passes, running the container does not
  panic, and for a container that exposes sockets Podman and Docker run on Linux, Podman has no remote
  connection, Docker talks to an existing Unix socket and no other context, and Apple's client reported a
  version of at least 1.1.0.\<close>

theorem exposed_sockets_are_local:
  assumes "validate_host_socket_exposure_support w rt (rs_exposures spec \<noteq> []) cache = (Inr (), cache')"
  shows "run_args path_exists rt spec \<noteq> None
    \<and> (rs_exposures spec = []
       \<or> (case crt_kind rt of
            Colima \<Rightarrow> False
          | Podman \<Rightarrow> pw_os w = ''linux'' \<and> pw_var w ''CONTAINER_HOST'' = None \<and> pw_var w ''CONTAINER_CONNECTION'' = None
              \<and> bt_get (crt_env rt) ''CONTAINER_HOST'' = None \<and> bt_get (crt_env rt) ''CONTAINER_CONNECTION'' = None
          | Docker \<Rightarrow> pw_os w = ''linux'' \<and> pw_var w ''DOCKER_CONTEXT'' = None \<and> bt_get (crt_env rt) ''DOCKER_CONTEXT'' = None
              \<and> (\<exists>path meta. pw_lstat w path = Inr meta \<and> fm_is_socket meta
                 \<and> or_option (bt_get (crt_env rt) ''DOCKER_HOST'') (pw_var w ''DOCKER_HOST'') \<in> {None, Some (''unix://'' @ path)})
          | AppleContainer \<Rightarrow> crt_program rt \<in> cache'
              \<and> (\<exists>out v raw ver. pw_client w [''system'', ''version'', ''--format'', ''json''] = Inr out
                 \<and> pw_json w (co_stdout out) = Inr v \<and> apple_cli_version_candidate v = Some (raw, ver)
                 \<and> parse_semver_triplet raw = Some ver \<and> \<not> version_less ver (1, 1, 0))))"
proof (cases "rs_exposures spec = []")
  case True
  then show ?thesis by (simp add: run_args_None)
next
  case False
  note ok = assms [unfolded validate_host_socket_exposure_support_def]
  show ?thesis
  proof (cases "crt_kind rt")
    case Podman
    then show ?thesis
      using ok False by (auto simp: run_args_None validate_podman_exposure_def require_linux_host_def
          bt_contains_get res_simps)
  next
    case Docker
    then have d: "validate_docker_exposure w rt = Inr ()" using ok False by simp
    then obtain path meta where p: "docker_socket_path w rt = Inr path" "pw_lstat w path = Inr meta" "fm_is_socket meta"
      by (auto simp: validate_docker_exposure_def require_unix_socket_def res_simps)
    have "or_option (bt_get (crt_env rt) ''DOCKER_HOST'') (pw_var w ''DOCKER_HOST'') \<in> {None, Some (''unix://'' @ path)}"
      using p(1) by (auto simp: docker_socket_path_def res_simps strip_prefix_Some split: option.splits)
    then show ?thesis
      using d p(2,3) Docker False
      by (auto simp: run_args_None validate_docker_exposure_def require_linux_host_def bt_contains_get res_simps)
  next
    case Colima
    then show ?thesis using ok False by simp
  next
    case AppleContainer
    then have pre: "preflight w rt cache = (Inr (), cache')"
      and v: "and_then (run_apple_system_json_command w (crt_program rt) ''version'') (\<lambda>out.
          validate_apple_cli_minimum_version_json (pw_json w) (co_stdout out)
            APPLE_CONTAINER_SOCKET_EXPOSURE_MIN_VERSION
            ''host_socket_exposures require Apple container CLI 1.1.0 or newer'') = Inr ()"
      using ok False by (auto split: prod.splits sum.splits)
    have "crt_program rt \<in> cache'" using pre AppleContainer by (auto simp: preflight_def split: if_splits sum.splits)
    moreover obtain out j raw ver where "pw_client w [''system'', ''version'', ''--format'', ''json''] = Inr out"
        "pw_json w (co_stdout out) = Inr j" "apple_cli_version_candidate j = Some (raw, ver)" "\<not> version_less ver (1, 1, 0)"
      using v by (auto simp: run_apple_system_json_command_Inr validate_apple_cli_minimum_version_json_def
          APPLE_CONTAINER_SOCKET_EXPOSURE_MIN_VERSION_def res_simps)
    moreover have "run_args path_exists rt spec \<noteq> None" using AppleContainer by (simp add: run_args_None)
    ultimately show ?thesis
      unfolding AppleContainer container_runtime_type.case using candidate_is_parsed by blast
  qed
qed

definition demo_world :: preflight_world where
  "demo_world = \<lparr>pw_os = ''linux'', pw_arch = ''x86_64'', pw_var = (\<lambda>_. None), pw_sw_vers = Inl (Bail [] []),
     pw_client = (\<lambda>args. Inr \<lparr>co_status = \<lparr>xs_code = Some 0, xs_signal = None\<rparr>, co_stdout = ''default'', co_stderr = []\<rparr>),
     pw_json = (\<lambda>_. Inr JNull), pw_json_list = (\<lambda>_. Inr []), pw_status_text = (\<lambda>_. []),
     pw_lstat = (\<lambda>path. if path = ''/var/run/docker.sock''
       then Inr \<lparr>fm_is_socket = True, fm_uid = 0, fm_gid = 0, fm_mode = 0\<rparr> else Inl (Bail [] []))\<rparr>"

definition demo_exposure :: exposure_spec where
  "demo_exposure = \<lparr>hes_name = ''agent'', hes_host_path = ''/run/agent.sock'', hes_container_path = ''/run/agent.sock'',
     hes_readiness_user = ''ann'', hes_selinux_relabel = RelabelNone, hes_realization = PathReconnect,
     hes_source_identity = \<lparr>si_device = 1, si_inode = 2, si_uid = 7, si_gid = 7, si_mode = 0\<rparr>\<rparr>"

theorem exposed_sockets_are_local_witness:
  "run_args (\<lambda>_. False) demo_runtime (demo_run_spec\<lparr>rs_exposures := [demo_exposure]\<rparr>) \<noteq> None"
proof -
  let ?spec = "demo_run_spec\<lparr>rs_exposures := [demo_exposure]\<rparr>"
  have "validate_host_socket_exposure_support demo_world demo_runtime (rs_exposures ?spec \<noteq> []) {} = (Inr (), {})"
    by code_simp
  from exposed_sockets_are_local [OF this] show ?thesis by blast
qed

end
