(* ===== verification/Gateway_Runtime.thy ===== *)
theory Gateway_Runtime
  imports Container_Runtime
begin

text \<open>
  Who runs the gateway, for which target and where: \<open>paths.rs\<close>, and of \<open>gateway.rs\<close>,
  \<open>gateway/client.rs\<close>, \<open>gateway/session.rs\<close>, \<open>gateway/workspace.rs\<close> and
  \<open>gateway/control_sockets.rs\<close> what \<open>Runtime::from_config\<close> uses.

  The machine is a record of what the code asks it: the variables of the environment, the entries of
  the user database, files and random bytes. A path is its text; \<open>PathBuf\<close> comparisons compare
  components. A panic is an error whose text starts with \<open>panic:\<close>. The text of a \<open>ParseIntError\<close>
  is not kept. The variables \<open>state\<close> and \<open>state_dir\<close> that \<open>RuntimePaths::resolve\<close> inserts after
  its last use of the map are left out.
\<close>

section \<open>The machine\<close>

datatype file_kind = Symlink | Directory | Regular | Socket | Special

record file_stat =
  st_kind :: file_kind
  st_device :: nat
  st_inode :: nat
  st_uid :: nat
  st_gid :: nat
  st_mode :: "32 word"

text \<open>\<open>symlink_metadata\<close> and \<open>metadata\<close> (which follows links); \<open>None\<close> is the error that there is no
  such file.\<close>

record passwd =
  pw_name :: string
  pw_gid :: nat
  pw_dir :: string

record host =
  h_os :: string
  h_euid :: nat
  h_getpwuid :: "nat \<Rightarrow> passwd option"
  h_var :: "string \<Rightarrow> string option"
  h_exists :: "string \<Rightarrow> bool"
  h_read :: "string \<Rightarrow> string option res"
  h_lstat :: "string \<Rightarrow> file_stat option res"
  h_stat :: "string \<Rightarrow> file_stat option res"
  h_canonicalize :: "string \<Rightarrow> string res"
  h_random :: "(nat \<Rightarrow> 8 word) res"

definition existing :: "'a option res \<Rightarrow> 'a res" where
  "existing r = and_then r (ok_or (Bail ''No such file or directory (os error 2)'' []))"

lemma existing_Inr [simp, res_simps]: "existing r = Inr x \<longleftrightarrow> r = Inr (Some x)"
  by (auto simp: existing_def res_simps)

text \<open>\<open>transpose\<close> of an optional fallible rendering.\<close>

definition render_opt :: "string option \<Rightarrow> vars \<Rightarrow> string option res" where
  "render_opt v vars = (case v of None \<Rightarrow> Inr None | Some s \<Rightarrow> map_ok Some (render s vars))"

lemma render_opt_Inr: "render_opt v vars = Inr r
    \<longleftrightarrow> (case v of None \<Rightarrow> r = None | Some s \<Rightarrow> \<exists>t. render s vars = Inr t \<and> r = Some t)"
  by (auto simp: render_opt_def res_simps split: option.splits)

section \<open>Users and configuration files\<close>

record user_context =
  uc_uid :: nat
  uc_gid :: nat
  uc_user :: string
  uc_home :: string

definition user_current :: "host \<Rightarrow> user_context res" where
  "user_current h =
     (case h_getpwuid h (h_euid h) of
        None \<Rightarrow> Inl (Bail ''could not resolve passwd entry for uid {}'' [show_nat (h_euid h)])
      | Some pw \<Rightarrow> Inr \<lparr>uc_uid = h_euid h, uc_gid = pw_gid pw, uc_user = pw_name pw, uc_home = pw_dir pw\<rparr>)"

definition user_config_dir :: "host \<Rightarrow> user_context \<Rightarrow> string" where
  "user_config_dir h user = path_join
     (case h_var h ''AW_GATEWAY_CONFIG_HOME'' of
        Some dir \<Rightarrow> dir
      | None \<Rightarrow> unwrap_or (path_join (uc_home user) ''.config'') (h_var h ''XDG_CONFIG_HOME''))
     ''aw-gateway''"

definition user_state_dir :: "host \<Rightarrow> user_context \<Rightarrow> string" where
  "user_state_dir h user = path_join
     (case h_var h ''AW_GATEWAY_STATE_HOME'' of
        Some dir \<Rightarrow> dir
      | None \<Rightarrow> unwrap_or (path_join (uc_home user) ''.local/state'') (h_var h ''XDG_STATE_HOME''))
     ''aw-gateway''"

definition SYSTEM_GATEWAY_CONFIG_PATH :: string where
  "SYSTEM_GATEWAY_CONFIG_PATH = ''/etc/aw-gateway/gateway.toml''"

definition USER_GATEWAY_CONFIG_FILE :: string where
  "USER_GATEWAY_CONFIG_FILE = ''gateway.toml''"

datatype config_source = ExplicitFlag | EnvironmentSource | UserSource | SystemSource | NoSource

record config_candidate =
  cc_source :: config_source
  cc_path :: string
  cc_exists :: bool

record config_resolution =
  cr_user :: "user_context option"
  cr_user_config_dir :: "string option"
  cr_user_state_dir :: "string option"
  cr_user_config_file :: "string option"
  cr_system_config_file :: string
  cr_candidates :: "config_candidate list"
  cr_selected_source :: config_source
  cr_selected_path :: "string option"

definition candidate_at :: "host \<Rightarrow> config_source \<Rightarrow> string \<Rightarrow> config_candidate" where
  "candidate_at h source path = \<lparr>cc_source = source, cc_path = path, cc_exists = h_exists h path\<rparr>"

definition user_gateway_paths :: "host \<Rightarrow> user_context \<Rightarrow> string \<times> string \<times> config_candidate" where
  "user_gateway_paths h user =
     (user_config_dir h user, user_state_dir h user,
      candidate_at h UserSource (path_join (user_config_dir h user) USER_GATEWAY_CONFIG_FILE))"

text \<open>A path that was given is selected without looking whether it exists; \<open>given_resolution\<close> is the
  part the two first branches share.\<close>

definition given_resolution ::
  "host \<Rightarrow> config_source \<Rightarrow> string \<Rightarrow> user_context option \<times> config_candidate list \<times> config_source \<times> string option" where
  "given_resolution h source path =
     (let user = (case user_current h of Inr u \<Rightarrow> Some u | Inl _ \<Rightarrow> None) in
      (user,
       [candidate_at h source path]
         @ (case user of Some u \<Rightarrow> [snd (snd (user_gateway_paths h u))] | None \<Rightarrow> [])
         @ [candidate_at h SystemSource SYSTEM_GATEWAY_CONFIG_PATH],
       source, Some path))"

definition resolve_gateway_config :: "host \<Rightarrow> string option \<Rightarrow> config_resolution res" where
  "resolve_gateway_config h input =
     (let system = candidate_at h SystemSource SYSTEM_GATEWAY_CONFIG_PATH in
      map_ok (\<lambda>(user, candidates, source, path).
          \<lparr>cr_user = user,
           cr_user_config_dir = map_option (\<lambda>u. fst (user_gateway_paths h u)) user,
           cr_user_state_dir = map_option (\<lambda>u. fst (snd (user_gateway_paths h u))) user,
           cr_user_config_file = map_option (\<lambda>u. cc_path (snd (snd (user_gateway_paths h u)))) user,
           cr_system_config_file = SYSTEM_GATEWAY_CONFIG_PATH,
           cr_candidates = candidates, cr_selected_source = source, cr_selected_path = path\<rparr>)
        (case input of
           Some path \<Rightarrow> Inr (given_resolution h ExplicitFlag path)
         | None \<Rightarrow>
             (case h_var h ''AW_GATEWAY_CONFIG'' of
                Some path \<Rightarrow> Inr (given_resolution h EnvironmentSource path)
              | None \<Rightarrow>
                  and_then (user_current h) (\<lambda>u.
                    let uc = snd (snd (user_gateway_paths h u));
                        selected = (if cc_exists uc then (UserSource, Some (cc_path uc))
                          else if cc_exists system then (SystemSource, Some (cc_path system))
                          else (NoSource, None))
                    in Inr (Some u, [uc, system], selected)))))"

definition selected_path :: "config_resolution \<Rightarrow> string res" where
  "selected_path r =
     ok_or (Bail ''gateway config not found; checked: {}'' [join '', '' (map cc_path (cr_candidates r))])
       (cr_selected_path r)"

definition gateway_config_path :: "host \<Rightarrow> string option \<Rightarrow> string" where
  "gateway_config_path h input =
     (case and_then (resolve_gateway_config h input) selected_path of
        Inr path \<Rightarrow> path
      | Inl _ \<Rightarrow> SYSTEM_GATEWAY_CONFIG_PATH)"

definition agent_config_path :: "host \<Rightarrow> string option \<Rightarrow> string" where
  "agent_config_path h input =
     (case input of Some path \<Rightarrow> path
      | None \<Rightarrow> unwrap_or ''/etc/aw-gateway/container-agent.toml'' (h_var h ''AW_CONTAINER_AGENT_CONFIG''))"

definition bootstrap_config_path :: "host \<Rightarrow> string option \<Rightarrow> string" where
  "bootstrap_config_path h input =
     (case input of Some path \<Rightarrow> path
      | None \<Rightarrow> unwrap_or ''/etc/aw-gateway/container-bootstrap.toml'' (h_var h ''AW_CONTAINER_BOOTSTRAP_CONFIG''))"

definition expand_home :: "string \<Rightarrow> string \<Rightarrow> string" where
  "expand_home home input =
     (if input = ''~'' then home
      else case strip_prefix ''~/'' input of
        Some rest \<Rightarrow> path_join home rest
      | None \<Rightarrow> input)"

definition resolve_workspace :: "string \<Rightarrow> string \<Rightarrow> string" where
  "resolve_workspace home configured =
     (let path = expand_home home configured in
      if path_is_absolute path then path else path_join home path)"

section \<open>Sessions and selections\<close>

definition validate_session_id :: "string \<Rightarrow> unit res" where
  "validate_session_id v =
     bail_if (v = [] \<or> utf8_length v > 64 \<or> v = ''.'' \<or> v = ''..''
        \<or> \<not> list_all (\<lambda>ch. is_ascii_alphanumeric ch \<or> ch \<in> {CHR ''-'', CHR ''_'', CHR ''.''}) v)
       (Bail ''invalid session id {}'' [v])"

definition hex_lower :: "nat \<Rightarrow> char" where
  "hex_lower d = char_of (if d < 10 then 48 + d else 87 + d)"

definition random_hex :: "host \<Rightarrow> nat \<Rightarrow> string res" where
  "random_hex h byte_len =
     map_ok (\<lambda>fill. concat (map (\<lambda>i. [hex_lower (unat (fill i) div 16), hex_lower (unat (fill i) mod 16)])
          [0..<byte_len]))
       (with_context ''get random bytes'' (h_random h))"

definition random_hex_token :: "host \<Rightarrow> string res" where
  "random_hex_token h = random_hex h 32"

definition generate_session_id_value :: "host \<Rightarrow> string res" where
  "generate_session_id_value h = map_ok (take 12) (random_hex_token h)"

definition read_default_selection :: "host \<Rightarrow> user_context \<Rightarrow> string option res" where
  "read_default_selection h user =
     (let path = path_join (user_config_dir h user) ''default-target'' in
      and_then (with_context (''read '' @ path) (h_read h path)) (\<lambda>contents.
        case contents of
          None \<Rightarrow> Inr None
        | Some text \<Rightarrow>
            if trim text = [] then Inl (Bail ''default selection file {} is empty'' [path])
            else Inr (Some (trim text))))"

definition normalize_image_selection :: "string \<Rightarrow> string" where
  "normalize_image_selection v =
     (let v = unwrap_or (trim v) (strip_prefix ''localhost/'' (trim v))
      in unwrap_or v (strip_suffix '':latest'' v))"

definition resolve_target_selection :: "gateway_config \<Rightarrow> string option \<Rightarrow> string res" where
  "resolve_target_selection cfg sel =
     (let sel = unwrap_or (gc_default_target cfg) sel in
      if bt_contains (gc_targets cfg) sel then Inr sel
      else and_then (effective_targets cfg) (\<lambda>targets.
        case map fst (filter (\<lambda>(_, target).
            normalize_image_selection (tgt_image target) = normalize_image_selection sel) targets) of
          [target] \<Rightarrow> Inr target
        | [] \<Rightarrow> Inl (Bail ''unknown target or configured image {}'' [sel])
        | names \<Rightarrow> Inl (Bail ''selection {} matches multiple targets: {}'' [sel, join '', '' names])))"

section \<open>Workspaces\<close>

definition resolve_target_workspace ::
  "target_config \<Rightarrow> string \<Rightarrow> user_context \<Rightarrow> string option \<Rightarrow> runtime_context \<Rightarrow> string res" where
  "resolve_target_workspace target target_name user session_id context =
     map_ok (resolve_workspace (uc_home user))
       (render (ws_path (tgt_workspace target))
         (insert_template_vars context (bt_extend []
           ([(''user'', uc_user user), (''uid'', show_nat (uc_uid user)), (''gid'', show_nat (uc_gid user)),
             (''home'', uc_home user), (''target'', target_name), (''image'', tgt_image target),
             (''image_slug'', image_slug (tgt_image target))]
            @ (case session_id of Some s \<Rightarrow> [(''session_id'', s)] | None \<Rightarrow> [])))))"

definition dotted :: "string \<Rightarrow> bool" where
  "dotted path \<longleftrightarrow> list_ex (\<lambda>c. c = CurDir \<or> c = ParentDir) (path_components path)"

definition validate_workspace_cleanup_path :: "string \<Rightarrow> string \<Rightarrow> string \<Rightarrow> string option \<Rightarrow> unit res" where
  "validate_workspace_cleanup_path workspace home session_id configured_workspace = seq_checks
     [bail_if (workspace = []) (Bail ''workspace_cleanup resolved workspace must not be empty'' []),
      bail_if (dotted workspace)
        (Bail ''workspace_cleanup path must not contain '.' or '..' components: {}'' [workspace]),
      bail_if (path_eq workspace ''/'') (Bail ''workspace_cleanup refuses to delete /'' []),
      bail_if (path_eq workspace home)
        (Bail ''workspace_cleanup refuses to delete user home directory {}'' [workspace]),
      bail_if (utf8_length session_id < 3)
        (Bail ''workspace_cleanup session_id {} must be at least 3 characters'' [session_id]),
      bail_if (\<not> contains_str session_id (unwrap_or [] (path_file_name workspace)))
        (Bail ''workspace_cleanup path {} leaf must contain session_id {}'' [workspace, session_id]),
      given (\<lambda>configured. bail_if
          (Normal ''aw-gateway'' \<in> set (path_components configured)
            \<and> Normal ''aw-gateway'' \<notin> set (path_components workspace))
          (Bail ''workspace_cleanup path {} is outside the configured aw-gateway workspace root'' [workspace]))
        configured_workspace]"

section \<open>Control sockets\<close>

definition resolve_workspace_state_path :: "string \<Rightarrow> string \<Rightarrow> string res" where
  "resolve_workspace_state_path base configured =
     and_then (bail_if (configured = ''~'' \<or> starts_with ''~/'' configured \<or> path_is_absolute configured
          \<or> list_ex (\<lambda>c. c = ParentDir \<or> c = RootDir) (path_components configured))
        (Bail ''target.workspace.state_dir must stay within the workspace mount and must not render as absolute, home-relative, or with '..' components'' []))
      (\<lambda>_. Inr (components_text (path_components (path_join base configured))))"

record control_socket_paths =
  csp_host_dir :: string
  csp_container_dir :: string
  csp_host_agent_socket :: string
  csp_host_ssh_socket :: string
  csp_container_agent_socket :: string
  csp_container_ssh_socket :: string
  csp_default_host_dir :: bool

definition validate_control_socket_host_dir :: "string \<Rightarrow> string \<Rightarrow> user_context \<Rightarrow> unit res" where
  "validate_control_socket_host_dir host_dir runtime_id user = seq_checks
     [bail_if (dotted host_dir)
        (Bail ''control_sockets.host_dir must not contain '.' or '..' path components: {}'' [host_dir]),
      bail_if (list_ex (\<lambda>path. path_eq path host_dir)
          [''/'', uc_home user, ''/tmp'', ''/run'', ''/run/user'', ''/run/user/'' @ show_nat (uc_uid user)])
        (Bail ''control_sockets.host_dir must be an isolated runtime-specific leaf directory, got dangerous shared path {}'' [host_dir]),
      (case path_file_name host_dir of
         None \<Rightarrow> Inl (Bail ''control_sockets.host_dir must end with runtime_id {}, got {}'' [runtime_id, host_dir])
       | Some leaf \<Rightarrow> bail_if (leaf \<noteq> runtime_id)
           (Bail ''control_sockets.host_dir must end with runtime_id {} so cleanup only removes the runtime leaf, got {}'' [runtime_id, host_dir]))]"

definition render_control_socket_paths ::
  "control_sockets_config \<Rightarrow> target_config \<Rightarrow> string \<Rightarrow> string \<Rightarrow> string option \<Rightarrow> string \<Rightarrow> user_context
     \<Rightarrow> runtime_context \<Rightarrow> control_socket_paths res" where
  "render_control_socket_paths cfg target target_name name session_id runtime_id user context =
     and_then (validate_name ''control_sockets runtime_id'' runtime_id) (\<lambda>_.
      let vars = insert_template_vars context (bt_extend []
        ([(''user'', uc_user user), (''uid'', show_nat (uc_uid user)), (''gid'', show_nat (uc_gid user)),
          (''home'', uc_home user), (''target'', target_name), (''image'', tgt_image target),
          (''image_slug'', image_slug (tgt_image target)), (''container_name'', name),
          (''runtime_id'', runtime_id)]
         @ (case session_id of Some s \<Rightarrow> [(''session_id'', s)] | None \<Rightarrow> []))) in
      and_then (render (cso_host_dir cfg) vars) (\<lambda>host_dir.
      and_then (bail_if (\<not> path_is_absolute host_dir)
        (Bail ''control_sockets.host_dir must render to an absolute path, got {}'' [host_dir])) (\<lambda>_.
      and_then (validate_control_socket_host_dir host_dir runtime_id user) (\<lambda>_.
      and_then (render (cso_container_dir cfg) vars) (\<lambda>container_dir.
      and_then (bail_if (\<not> path_is_absolute container_dir)
        (Bail ''control_sockets.container_dir must render to an absolute path, got {}'' [container_dir])) (\<lambda>_. Inr
       \<lparr>csp_host_dir = host_dir, csp_container_dir = container_dir,
        csp_host_agent_socket = path_join host_dir ''agent.sock'',
        csp_host_ssh_socket = path_join host_dir ''ssh.sock'',
        csp_container_agent_socket = path_join container_dir ''agent.sock'',
        csp_container_ssh_socket = path_join container_dir ''ssh.sock'',
        csp_default_host_dir = (cso_host_dir cfg = default_control_socket_host_dir)\<rparr>))))))"

section \<open>The identity of a session\<close>

record runtime_identity =
  id_target_name :: string
  id_launch_name :: "string option"
  id_session_id :: "string option"
  id_user :: user_context
  id_bootstrap_user :: string
  id_session_uid :: nat
  id_session_gid :: nat
  id_session_shell :: string
  id_container_user :: string
  id_container_home :: string
  id_container_name :: string

definition identity_vars :: "user_context \<Rightarrow> runtime_context \<Rightarrow> vars" where
  "identity_vars user context = insert_template_vars context (bt_extend []
     [(''user'', uc_user user), (''uid'', show_nat (uc_uid user)), (''gid'', show_nat (uc_gid user)),
      (''home'', uc_home user)])"

definition parse_session_number :: "string \<Rightarrow> nat \<Rightarrow> string option \<Rightarrow> nat res" where
  "parse_session_number what otherwise v =
     (case v of None \<Rightarrow> Inr otherwise
      | Some s \<Rightarrow> ok_or (Context what (Bail ''invalid number {}'' [s])) (parse_uint u32_limit s))"

definition runtime_identity_resolve ::
  "string \<Rightarrow> string option \<Rightarrow> string option \<Rightarrow> user_context \<Rightarrow> target_config \<Rightarrow> string \<Rightarrow> container_runtime
     \<Rightarrow> runtime_context \<Rightarrow> runtime_identity res" where
  "runtime_identity_resolve target_name launch_name session_id user target name rt context =
     (let vars = identity_vars user context;
          default_container_user = unwrap_or (if is_podman rt then uc_user user else ''root'')
            (tgt_container_user target);
          cfg = (\<lambda>field. case tgt_identity target of None \<Rightarrow> None | Some i \<Rightarrow> field i) in
      and_then (render_opt (tgt_container_home target) vars) (\<lambda>home.
      let default_container_home = unwrap_or (if is_podman rt then uc_home user else ''/root'') home in
      and_then (render_opt (cfg ti_bootstrap_user) vars) (\<lambda>bootstrap_user.
      and_then (render_opt (cfg ti_session_user) vars) (\<lambda>session_user.
      let container_user = unwrap_or default_container_user session_user in
      and_then (validate_name ''target identity session_user'' container_user) (\<lambda>_.
      and_then (render_opt (cfg ti_session_uid) vars) (\<lambda>uid.
      and_then (parse_session_number ''parse target identity session_uid'' (uc_uid user) uid) (\<lambda>session_uid.
      and_then (render_opt (cfg ti_session_gid) vars) (\<lambda>gid.
      and_then (parse_session_number ''parse target identity session_gid'' (uc_gid user) gid) (\<lambda>session_gid.
      and_then (render_opt (cfg ti_session_home) vars) (\<lambda>session_home.
      let container_home = unwrap_or default_container_home session_home in
      and_then (bail_if (\<not> path_is_absolute container_home)
        (Bail ''target identity session_home must render to an absolute path'' [])) (\<lambda>_.
      and_then (validate_passwd_scalar ''target identity session_home'' container_home) (\<lambda>_.
      and_then (render_opt (cfg ti_session_shell) vars) (\<lambda>shell.
      let session_shell = unwrap_or ''/bin/bash'' shell in
      and_then (validate_passwd_scalar ''target identity session_shell'' session_shell) (\<lambda>_. Inr
       \<lparr>id_target_name = target_name, id_launch_name = launch_name, id_session_id = session_id,
        id_user = user, id_bootstrap_user = unwrap_or ''root'' bootstrap_user,
        id_session_uid = session_uid, id_session_gid = session_gid, id_session_shell = session_shell,
        id_container_user = container_user, id_container_home = container_home,
        id_container_name = name\<rparr>))))))))))))))"

section \<open>The paths of a session\<close>

record runtime_paths =
  pt_workspace :: string
  pt_workspace_state_dir :: string
  pt_workspace_container_path :: string
  pt_workspace_state_dir_in_container :: string
  pt_container_state_dir :: string
  pt_container_state_dir_in_container :: string
  pt_control_sockets :: control_socket_paths

definition path_vars :: "target_config \<Rightarrow> runtime_identity \<Rightarrow> string \<Rightarrow> runtime_context \<Rightarrow> vars" where
  "path_vars target identity workspace context = insert_template_vars context (bt_extend []
     ([(''user'', uc_user (id_user identity)), (''uid'', show_nat (id_session_uid identity)),
       (''gid'', show_nat (id_session_gid identity)), (''home'', uc_home (id_user identity)),
       (''container_user'', id_container_user identity), (''container_home'', id_container_home identity),
       (''workspace'', workspace), (''target'', id_target_name identity), (''image'', tgt_image target),
       (''image_slug'', image_slug (tgt_image target)), (''container_name'', id_container_name identity)]
      @ (case id_session_id identity of Some s \<Rightarrow> [(''session_id'', s)] | None \<Rightarrow> [])))"

definition panic :: "string \<Rightarrow> 'a res" where
  "panic message = Inl (Bail (''panic: '' @ message) [])"

definition runtime_paths_resolve ::
  "target_config \<Rightarrow> runtime_identity \<Rightarrow> string \<Rightarrow> runtime_context \<Rightarrow> runtime_paths res" where
  "runtime_paths_resolve target identity workspace context =
     and_then (case tgt_mode target of
         Fixed \<Rightarrow> Inr (''containers'', id_container_name identity, id_target_name identity)
       | Ephemeral \<Rightarrow> (case id_session_id identity of
           Some s \<Rightarrow> Inr (''sessions'', s, s)
         | None \<Rightarrow> panic ''ephemeral target has a session id'')) (\<lambda>(state_kind, state_id, runtime_id).
      let vars = path_vars target identity workspace context in
      and_then (render_opt (ws_container_path (tgt_workspace target)) vars) (\<lambda>rendered.
      let container_path = unwrap_or (id_container_home identity) rendered in
      and_then (bail_if (\<not> path_is_absolute container_path)
        (Bail ''target.workspace.container_path must render to an absolute path'' [])) (\<lambda>_.
      and_then (bail_if (ParentDir \<in> set (path_components container_path))
        (Bail ''target.workspace.container_path must not render with '..' components'' [])) (\<lambda>_.
      let container_path = components_text (path_components container_path) in
      and_then (render (ws_state_dir (tgt_workspace target)) vars) (\<lambda>rendered_state.
      and_then (resolve_workspace_state_path workspace rendered_state) (\<lambda>workspace_state_dir.
      and_then (resolve_workspace_state_path container_path rendered_state) (\<lambda>state_dir_in_container.
      and_then (render_control_socket_paths (tgt_control_sockets target) target (id_target_name identity)
          (id_container_name identity) (id_session_id identity) runtime_id (id_user identity) context)
        (\<lambda>control_sockets. Inr
       \<lparr>pt_workspace = workspace,
        pt_workspace_state_dir = workspace_state_dir,
        pt_workspace_container_path = container_path,
        pt_workspace_state_dir_in_container = state_dir_in_container,
        pt_container_state_dir = path_join (path_join workspace_state_dir state_kind) state_id,
        pt_container_state_dir_in_container = path_join (path_join state_dir_in_container state_kind) state_id,
        pt_control_sockets = control_sockets\<rparr>))))))))"

section \<open>The errors of an operation\<close>

datatype operation_error =
    InvalidRequest string
  | DisabledAction string
  | UnknownLaunch string
  | InvalidLaunchVariable string
  | InvalidLaunchArgs string
  | InvalidSession string
  | AgentNotReady error
  | ContainerNotFound error
  | ContainerLabelMismatch error
  | OperationFailed error

type_synonym 'a op_res = "operation_error + 'a"

definition agent_not_ready :: error where
  "agent_not_ready = Bail ''container agent did not become ready'' []"

definition container_not_found :: error where
  "container_not_found = Bail ''container did not exist after start'' []"

definition is_label_error :: "error \<Rightarrow> bool" where
  "is_label_error e = (case e of
      Bail fmt args \<Rightarrow> fmt \<in> {''container label mismatch for {}: expected {}, got {}'',
        ''container missing required label {}''}
    | Context c e \<Rightarrow> False)"

lemma label_error_is_label_error: "is_label_error (label_error e)"
  by (cases e) (simp_all add: is_label_error_def)

definition operation_failed :: "error \<Rightarrow> operation_error" where
  "operation_failed source =
     (if in_chain is_context_validation_error source then InvalidRequest (error_text source)
      else if in_chain (\<lambda>e. e = agent_not_ready) source then AgentNotReady source
      else if in_chain (\<lambda>e. e = container_not_found) source then ContainerNotFound source
      else if in_chain is_label_error source then ContainerLabelMismatch source
      else OperationFailed source)"

fun operation_error_text :: "operation_error \<Rightarrow> string" where
  "operation_error_text (InvalidRequest m) = m"
| "operation_error_text (DisabledAction m) = m"
| "operation_error_text (UnknownLaunch m) = m"
| "operation_error_text (InvalidLaunchVariable m) = m"
| "operation_error_text (InvalidLaunchArgs m) = m"
| "operation_error_text (InvalidSession m) = m"
| "operation_error_text (AgentNotReady e) = error_text e"
| "operation_error_text (ContainerNotFound e) = error_text e"
| "operation_error_text (ContainerLabelMismatch e) = error_text e"
| "operation_error_text (OperationFailed e) = error_text e"

text \<open>The \<open>?\<close> that turns an error into one of an operation.\<close>

definition as_op :: "'a res \<Rightarrow> 'a op_res" where
  "as_op r = map_err operation_failed r"

lemma as_op_Inr [simp, res_simps]: "as_op r = Inr y \<longleftrightarrow> r = Inr y"
  by (simp add: as_op_def)

section \<open>The runtime of a target\<close>

record runtime =
  gw_cfg :: gateway_config
  gw_context :: runtime_context
  gw_target :: target_config
  gw_identity :: runtime_identity
  gw_paths :: runtime_paths
  gw_runtime :: container_runtime

definition ssh_backend :: "runtime \<Rightarrow> local_ssh_backend" where
  "ssh_backend r = (case tgt_local_ssh (gw_target r) of Some l \<Rightarrow> ls_backend l | None \<Rightarrow> SocketBackend)"

definition uses_ssh_access :: "runtime \<Rightarrow> bool" where
  "uses_ssh_access r \<longleftrightarrow> ta_method (tgt_access (gw_target r)) = AccessSsh"

definition access_name :: "runtime \<Rightarrow> string" where
  "access_name r = access_method_text (ta_method (tgt_access (gw_target r)))"

definition ensure_ssh_operation_supported :: "runtime \<Rightarrow> string \<Rightarrow> unit res" where
  "ensure_ssh_operation_supported r operation =
     bail_if (\<not> uses_ssh_access r)
       (Bail ''gateway operation {} requires an SSH target, but target {} uses access.method = runtime_exec''
         [operation, id_target_name (gw_identity r)])"

definition agent_enabled :: "runtime \<Rightarrow> bool" where
  "agent_enabled r \<longleftrightarrow> ca_enabled (tgt_container_agent (gw_target r))"

definition agent_control_enabled :: "runtime \<Rightarrow> bool" where
  "agent_control_enabled r \<longleftrightarrow> agent_enabled r
     \<and> (case ca_control_socket (tgt_container_agent (gw_target r)) of
          None \<Rightarrow> True | Some c \<Rightarrow> control_socket_is_enabled c)"

definition bridge_enabled :: "runtime \<Rightarrow> bool" where
  "bridge_enabled r \<longleftrightarrow> (case ca_ssh_bridge (tgt_container_agent (gw_target r)) of
      None \<Rightarrow> False | Some bridge \<Rightarrow> agent_enabled r \<and> sb_enabled bridge)"

definition ssh_endpoint_configured :: "runtime \<Rightarrow> bool" where
  "ssh_endpoint_configured r \<longleftrightarrow> uses_ssh_access r
     \<and> (case ssh_backend r of SocketBackend \<Rightarrow> bridge_enabled r | PublishedPort \<Rightarrow> True)"

definition requires_control_socket_dir :: "runtime \<Rightarrow> bool" where
  "requires_control_socket_dir r \<longleftrightarrow>
     agent_control_enabled r \<or> (ssh_endpoint_configured r \<and> ssh_backend r = SocketBackend)"

definition requires_agent_control :: "runtime \<Rightarrow> bool" where
  "requires_agent_control r \<longleftrightarrow> agent_control_enabled r
     \<and> (case tgt_local_ssh (gw_target r) of Some l \<Rightarrow> ls_readiness l = AgentControl | None \<Rightarrow> True)"

definition ssh_socket_endpoint :: "runtime \<Rightarrow> string option" where
  "ssh_socket_endpoint r =
     (if ssh_endpoint_configured r \<and> ssh_backend r = SocketBackend
      then Some (csp_host_ssh_socket (pt_control_sockets (gw_paths r))) else None)"

definition bool_text :: "bool \<Rightarrow> string" where
  "bool_text b = (if b then ''true'' else ''false'')"

definition ensure_ssh_endpoint_configured :: "runtime \<Rightarrow> unit res" where
  "ensure_ssh_endpoint_configured r = seq_checks
     [bail_if (\<not> uses_ssh_access r)
        (Bail ''target {} uses access.method = runtime_exec and does not expose an SSH endpoint; use run, launch, shell, status, stop, or remove instead''
          [id_target_name (gw_identity r)]),
      bail_if (\<not> ssh_endpoint_configured r)
        (Bail ''target {} does not configure an SSH endpoint (container_agent.enabled = {}, local_ssh.backend = {}, container_agent.ssh_bridge = {}); set container_agent.ssh_bridge.enabled = true for socket backend or use local_ssh.backend = published_port with an image-managed SSH server''
          [id_target_name (gw_identity r), bool_text (agent_enabled r),
           case ssh_backend r of SocketBackend \<Rightarrow> ''socket'' | PublishedPort \<Rightarrow> ''published_port'',
           case ca_ssh_bridge (tgt_container_agent (gw_target r)) of
             Some bridge \<Rightarrow> if sb_enabled bridge then ''enabled'' else ''disabled''
           | None \<Rightarrow> ''not configured''])]"

definition UNIX_SOCKET_PATH_MAX_BYTES :: "string \<Rightarrow> nat" where
  "UNIX_SOCKET_PATH_MAX_BYTES os = (if os = ''linux'' then 107 else 103)"

definition effective_unix_socket_paths :: "runtime \<Rightarrow> (string \<times> string) list" where
  "effective_unix_socket_paths r =
     (let sockets = pt_control_sockets (gw_paths r) in
      (if agent_control_enabled r
       then [(''host agent socket path'', csp_host_agent_socket sockets),
             (''container agent socket path'', csp_container_agent_socket sockets)] else [])
      @ (if ssh_endpoint_configured r \<and> ssh_backend r = SocketBackend
         then [(''host ssh socket path'', csp_host_ssh_socket sockets)] else [])
      @ (if bridge_enabled r then [(''container ssh socket path'', csp_container_ssh_socket sockets)] else []))"

definition validate_unix_socket_paths :: "host \<Rightarrow> runtime \<Rightarrow> unit res" where
  "validate_unix_socket_paths h r =
     each (\<lambda>(label, path). bail_if (utf8_length path > UNIX_SOCKET_PATH_MAX_BYTES (h_os h))
       (Bail ''{} is too long for a Unix domain socket ({} bytes, limit {}): {}. Configure control_sockets.host_dir or control_sockets.container_dir to a shorter absolute path. For fixed targets, runtime_id is the target id {}; for ephemeral targets, runtime_id is the session id.''
         [label, show_nat (utf8_length path), show_nat (UNIX_SOCKET_PATH_MAX_BYTES (h_os h)), path,
          id_target_name (gw_identity r)]))
       (effective_unix_socket_paths r)"

definition runtime_validate_workspace_cleanup_path :: "host \<Rightarrow> runtime \<Rightarrow> unit res" where
  "runtime_validate_workspace_cleanup_path h r =
     (if ws_cleanup (tgt_workspace (gw_target r)) = CleanupNever then Inr ()
      else and_then (ok_or (Bail ''workspace_cleanup requires an ephemeral session id'' [])
          (id_session_id (gw_identity r))) (\<lambda>session_id.
        and_then (validate_workspace_cleanup_path (pt_workspace (gw_paths r)) (uc_home (id_user (gw_identity r)))
          session_id (Some (ws_path (tgt_workspace (gw_target r))))) (\<lambda>_.
        and_then (with_context (''inspect workspace cleanup path '' @ pt_workspace (gw_paths r))
          (h_lstat h (pt_workspace (gw_paths r)))) (\<lambda>found.
        bail_if (map_option st_kind found = Some Symlink)
          (Bail ''workspace_cleanup path {} must not be a symlink'' [pt_workspace (gw_paths r)])))))"

definition resolve_session_id :: "host \<Rightarrow> target_mode \<Rightarrow> string \<Rightarrow> string option \<Rightarrow> bool \<Rightarrow> string option op_res" where
  "resolve_session_id h mode target_name session_id generate =
     (case mode of
        Fixed \<Rightarrow>
          map_ok (\<lambda>_. None) (bail_if (session_id \<noteq> None)
            (InvalidSession ''--session-id is only valid for ephemeral targets''))
      | Ephemeral \<Rightarrow>
          (case session_id of
             Some s \<Rightarrow> map_ok (\<lambda>_. Some s) (map_err (\<lambda>e. InvalidSession (error_text e)) (validate_session_id s))
           | None \<Rightarrow>
               if generate then as_op (map_ok Some (generate_session_id_value h))
               else Inl (InvalidSession (fill_format ''ephemeral target {} requires --session-id'' [target_name]))))"

definition runtime_from_config ::
  "host \<Rightarrow> gateway_config \<Rightarrow> string option \<Rightarrow> string option \<Rightarrow> bool \<Rightarrow> string option \<Rightarrow> runtime_context
     \<Rightarrow> runtime op_res" where
  "runtime_from_config h cfg target session_id generate_session_id launch_name context =
     and_then (map_err (\<lambda>e. InvalidRequest (error_text e)) (validate_runtime_context (gc_context_vars cfg) context)) (\<lambda>_.
     and_then (as_op (user_current h)) (\<lambda>user.
     and_then (as_op (case target of
         Some target \<Rightarrow> resolve_target_selection cfg (Some target)
       | None \<Rightarrow> and_then (read_default_selection h user) (\<lambda>stored.
           case stored of
             Some sel \<Rightarrow> resolve_target_selection cfg (Some sel)
           | None \<Rightarrow> Inr (gc_default_target cfg)))) (\<lambda>target_name.
     and_then (as_op (effective_target cfg target_name)) (\<lambda>target_cfg.
     and_then (resolve_session_id h (tgt_mode target_cfg) target_name session_id generate_session_id) (\<lambda>session.
     and_then (as_op (container_name_with_context target_cfg session context)) (\<lambda>name.
     and_then (as_op (resolve_target_workspace target_cfg target_name user session context)) (\<lambda>workspace.
     and_then (as_op (from_config (gc_runtime cfg) (uc_user user) (uc_home user))) (\<lambda>rt.
     and_then (as_op (runtime_identity_resolve target_name launch_name session user target_cfg name rt context))
       (\<lambda>identity.
     and_then (as_op (runtime_paths_resolve target_cfg identity workspace context)) (\<lambda>paths.
     let r = \<lparr>gw_cfg = cfg, gw_context = context, gw_target = target_cfg, gw_identity = identity,
              gw_paths = paths, gw_runtime = rt\<rparr> in
     and_then (as_op (runtime_validate_workspace_cleanup_path h r)) (\<lambda>_.
     and_then (as_op (validate_unix_socket_paths h r)) (\<lambda>_. Inr r))))))))))))"

section \<open>Lemmas on paths below a directory\<close>

lemma inner_components_append: "inner_components (xs @ ys) = inner_components xs @ inner_components ys"
  by (induction xs) auto

lemma inner_components_plain: "c \<in> set (inner_components ws) \<Longrightarrow> c \<noteq> RootDir \<and> c \<noteq> CurDir"
  by (induction ws) (auto split: if_splits)

lemma components_relative:
  "\<not> path_is_absolute p
    \<Longrightarrow> inner_components (split_char CHR ''/'' p) = filter (\<lambda>c. c \<noteq> CurDir) (path_components p)"
proof -
  assume rel: "\<not> path_is_absolute p"
  obtain w ws where ws: "split_char CHR ''/'' p = w # ws"
    by (cases "split_char CHR ''/'' p") (auto simp: split_char_def)
  have "filter (\<lambda>c. c \<noteq> CurDir) (inner_components vs) = inner_components vs" for vs
    using inner_components_plain by (auto simp: filter_id_conv)
  with rel ws show ?thesis by (auto simp: path_components_def Let_def)
qed

lemma split_char_app: "split_char c (a @ c # b) = split_char c a @ split_char c b"
  by (simp add: split_char_def split_where_app)

lemma components_slash:
  "path_components (b @ CHR ''/'' # p) =
     (if b = [] then [RootDir] else path_components b) @ inner_components (split_char CHR ''/'' p)"
proof (cases b)
  case Nil
  have "split_char CHR ''/'' (CHR ''/'' # p) = [] # split_char CHR ''/'' p"
    using split_char_app [of "CHR ''/''" "[]" p] by (simp add: split_char_def)
  with Nil show ?thesis by (simp add: path_components_def path_is_absolute_def)
next
  case (Cons x xs)
  obtain w ws where ws: "split_char CHR ''/'' b = w # ws"
    by (cases "split_char CHR ''/'' b") (auto simp: split_char_def)
  have abs: "path_is_absolute (b @ q) = path_is_absolute b" for q
    using Cons by (simp add: path_is_absolute_def)
  have "split_char CHR ''/'' (b @ CHR ''/'' # p) = w # (ws @ split_char CHR ''/'' p)"
    by (simp add: split_char_app ws)
  with Cons abs ws show ?thesis
    by (auto simp: path_components_def Let_def inner_components_append)
qed

lemma components_trailing_slash: "b \<noteq> [] \<Longrightarrow> path_components (b @ ''/'') = path_components b"
  by (simp add: components_slash split_char_def)

lemma path_components_Nil [simp]: "path_components [] = []"
  by (simp add: path_components_def path_is_absolute_def split_char_def)

text \<open>Joining a relative path without \<open>..\<close> stays below the base.\<close>

lemma path_join_below:
  assumes "\<not> path_is_absolute p"
  shows "path_components (path_join base p) = (if base = [] then path_components p
      else path_components base @ filter (\<lambda>c. c \<noteq> CurDir) (path_components p))"
proof (cases "ends_with ''/'' base")
  case True
  then obtain b where b: "base = b @ ''/''" by (auto simp: ends_with_iff)
  have "path_components (b @ CHR ''/'' # p) = path_components (b @ ''/'') @ inner_components (split_char CHR ''/'' p)"
    by (simp add: components_slash split_char_def)
  with assms b True show ?thesis by (simp add: path_join_def components_relative)
next
  case False
  with assms show ?thesis
    by (simp add: path_join_def components_slash components_relative)
qed

lemma path_join_name: "name_ok n \<Longrightarrow> path_components (path_join base n) = path_components base @ [Normal n]"
proof -
  assume n: "name_ok n"
  from name_component [OF n] have c: "path_components n = [Normal n]" .
  then have "\<not> path_is_absolute n" by (auto simp: path_components_def Let_def)
  from path_join_below [OF this, of base] show ?thesis
    by (cases "base = []") (simp_all add: c)
qed

text \<open>The text of components has these components.\<close>

lemma split_join:
  "ws \<noteq> [] \<Longrightarrow> (\<And>w. w \<in> set ws \<Longrightarrow> c \<notin> set w) \<Longrightarrow> split_char c (join [c] ws) = ws"
proof (induction ws rule: induct_list012)
  case (3 w v ws)
  then have "split_char c (w @ c # join [c] (v # ws)) = split_char c w @ v # ws"
    by (simp only: split_char_app) simp
  moreover have "split_char c w = [w]" using 3(4) by (auto simp: split_char_def intro: split_where_id)
  ultimately show ?case by simp
qed (auto simp: split_char_def intro: split_where_id)

definition plain_component :: "component \<Rightarrow> bool" where
  "plain_component c \<longleftrightarrow> (case c of
      Normal n \<Rightarrow> n \<noteq> [] \<and> n \<noteq> ''.'' \<and> n \<noteq> ''..'' \<and> CHR ''/'' \<notin> set n
    | ParentDir \<Rightarrow> True | _ \<Rightarrow> False)"

lemma inner_components_text:
  "list_all plain_component cs \<Longrightarrow> inner_components (map component_text cs) = cs"
  by (induction cs) (auto simp: plain_component_def split: component.splits)

lemma plain_component_text: "plain_component c \<Longrightarrow> CHR ''/'' \<notin> set (component_text c) \<and> component_text c \<noteq> [] \<and> component_text c \<noteq> ''.''"
  by (cases c) (auto simp: plain_component_def)

lemma inner_components_are_plain:
  "(\<And>w. w \<in> set ws \<Longrightarrow> CHR ''/'' \<notin> set w) \<Longrightarrow> list_all plain_component (inner_components ws)"
  by (induction ws) (auto simp: plain_component_def)

lemma components_text_root:
  "list_all plain_component cs \<Longrightarrow> path_components (components_text (RootDir # cs)) = RootDir # cs"
proof -
  assume cs: "list_all plain_component cs"
  show ?thesis
  proof (cases "cs = []")
    case False
    have "split_char CHR ''/'' (join ''/'' (map component_text cs)) = map component_text cs"
      using cs False plain_component_text by (intro split_join) (auto simp: list_all_iff)
    with cs show ?thesis
      using components_slash [of "[]"] by (simp add: inner_components_text)
  qed (simp add: path_components_def path_is_absolute_def split_char_def)
qed

lemma components_text_relative:
  assumes "list_all plain_component cs"
  shows "path_components (components_text cs) = cs"
    and "path_components (components_text (CurDir # cs)) = CurDir # cs"
proof -
  have rel: "components_text cs = join ''/'' (map component_text cs)"
    using assms by (cases cs rule: components_text.cases) (auto simp: plain_component_def)
  have hd: "\<not> path_is_absolute (join ''/'' (w # ws))" if "w \<noteq> []" "CHR ''/'' \<notin> set w" for w ws
    using that by (cases w; cases ws) (auto simp: path_is_absolute_def)
  have "path_components (join ''/'' (map component_text cs)) = cs"
  proof (cases cs)
    case (Cons c cs')
    then have split: "split_char CHR ''/'' (join ''/'' (map component_text cs)) = map component_text cs"
      using assms plain_component_text by (intro split_join) (auto simp: list_all_iff)
    have "component_text c \<noteq> []" "CHR ''/'' \<notin> set (component_text c)" "component_text c \<noteq> ''.''"
      using assms Cons plain_component_text by auto
    with Cons split hd [of "component_text c" "map component_text cs'"] inner_components_text [OF assms]
    show ?thesis by (simp add: path_components_def Let_def del: inner_components.simps)
  qed simp
  with rel show "path_components (components_text cs) = cs" by simp
  have "split_char CHR ''/'' (join ''/'' (map component_text (CurDir # cs))) = map component_text (CurDir # cs)"
    using assms plain_component_text by (intro split_join) (auto simp: list_all_iff)
  with hd [of "''.''" "map component_text cs"] inner_components_text [OF assms]
  show "path_components (components_text (CurDir # cs)) = CurDir # cs"
    by (simp add: path_components_def Let_def)
qed

lemma components_of_text: "path_components (components_text (path_components p)) = path_components p"
proof -
  obtain w ws where ws: "split_char CHR ''/'' p = w # ws"
    by (cases "split_char CHR ''/'' p") (auto simp: split_char_def)
  have no_slash: "v \<in> set (w # ws) \<Longrightarrow> CHR ''/'' \<notin> set v" for v
    using split_where_no_sep [of v "\<lambda>x. x = CHR ''/''" p] by (auto simp: split_char_def ws [symmetric])
  have plain: "list_all plain_component (inner_components (w # ws))" "list_all plain_component (inner_components ws)"
    using no_slash by (intro inner_components_are_plain; auto)+
  then show ?thesis
    using components_text_root [OF plain(1)] components_text_relative(1) [OF plain(1)]
      components_text_relative(2) [OF plain(2)]
    by (auto simp: path_components_def [of p] Let_def ws simp del: inner_components.simps components_text.simps)
qed

section \<open>Where a runtime may act\<close>

text \<open>\<open>path\<close> is below \<open>base\<close>, and its last components are \<open>names\<close>.\<close>

definition below :: "string \<Rightarrow> string \<Rightarrow> string list \<Rightarrow> bool" where
  "below base path names \<longleftrightarrow>
     (\<exists>mid. path_components path = path_components base @ mid @ map Normal names
        \<and> ParentDir \<notin> set mid \<and> RootDir \<notin> set mid)"

definition runtime_id :: "runtime \<Rightarrow> string" where
  "runtime_id r = (case tgt_mode (gw_target r) of
      Fixed \<Rightarrow> id_target_name (gw_identity r) | Ephemeral \<Rightarrow> unwrap_or [] (id_session_id (gw_identity r)))"

definition state_names :: "runtime \<Rightarrow> string list" where
  "state_names r = (case tgt_mode (gw_target r) of
      Fixed \<Rightarrow> [''containers'', id_container_name (gw_identity r)]
    | Ephemeral \<Rightarrow> [''sessions'', unwrap_or [] (id_session_id (gw_identity r))])"

lemma below_join:
  assumes "below base path names" and "name_ok n"
  shows "below base (path_join path n) (names @ [n])"
  using assms by (auto simp: below_def path_join_name)

lemma state_path_below:
  assumes "resolve_workspace_state_path base p = Inr q" shows "below base q []"
proof -
  have p: "\<not> path_is_absolute p" "ParentDir \<notin> set (path_components p)" "RootDir \<notin> set (path_components p)"
    and q: "q = components_text (path_components (path_join base p))"
    using assms by (auto simp: resolve_workspace_state_path_def res_simps list_ex_iff)
  let ?mid = "if base = [] then path_components p else filter (\<lambda>c. c \<noteq> CurDir) (path_components p)"
  have "path_components q = path_components base @ ?mid"
    unfolding q components_of_text using path_join_below [OF p(1), of base] by simp
  with p show ?thesis by (auto simp: below_def)
qed

definition shared_directories :: "user_context \<Rightarrow> string list" where
  "shared_directories user =
     [''/'', uc_home user, ''/tmp'', ''/run'', ''/run/user'', ''/run/user/'' @ show_nat (uc_uid user)]"

definition isolated_leaf :: "string \<Rightarrow> string \<Rightarrow> user_context \<Rightarrow> bool" where
  "isolated_leaf dir leaf user \<longleftrightarrow> path_is_absolute dir \<and> \<not> dotted dir \<and> path_file_name dir = Some leaf
     \<and> \<not> list_ex (\<lambda>shared. path_eq shared dir) (shared_directories user)"

lemma rendered_sockets:
  assumes "render_control_socket_paths cfg t name c s leaf user ctx = Inr sockets"
  shows "name_ok leaf \<and> isolated_leaf (csp_host_dir sockets) leaf user \<and> path_is_absolute (csp_container_dir sockets)
    \<and> csp_host_agent_socket sockets = path_join (csp_host_dir sockets) ''agent.sock''
    \<and> csp_host_ssh_socket sockets = path_join (csp_host_dir sockets) ''ssh.sock''"
  using assms
  by (auto simp: render_control_socket_paths_def Let_def res_simps validate_control_socket_host_dir_def
      isolated_leaf_def shared_directories_def split: option.splits)

lemma resolved_paths:
  assumes "runtime_paths_resolve t i w ctx = Inr p" and "name_ok (id_container_name i)"
  shows "tgt_mode t = Ephemeral \<longrightarrow> id_session_id i \<noteq> None"
    and "pt_workspace p = w"
    and "isolated_leaf (csp_host_dir (pt_control_sockets p)) (case tgt_mode t of
        Fixed \<Rightarrow> id_target_name i | Ephemeral \<Rightarrow> unwrap_or [] (id_session_id i)) (id_user i)"
    and "below w (pt_container_state_dir p) (case tgt_mode t of
        Fixed \<Rightarrow> [''containers'', id_container_name i] | Ephemeral \<Rightarrow> [''sessions'', unwrap_or [] (id_session_id i)])"
    and "below (pt_workspace_container_path p) (pt_container_state_dir_in_container p) (case tgt_mode t of
        Fixed \<Rightarrow> [''containers'', id_container_name i] | Ephemeral \<Rightarrow> [''sessions'', unwrap_or [] (id_session_id i)])"
proof -
  let ?names = "case tgt_mode t of Fixed \<Rightarrow> (''containers'', id_container_name i)
    | Ephemeral \<Rightarrow> (''sessions'', unwrap_or [] (id_session_id i))"
  let ?leaf = "case tgt_mode t of Fixed \<Rightarrow> id_target_name i | Ephemeral \<Rightarrow> unwrap_or [] (id_session_id i)"
  obtain cp st st' where "resolve_workspace_state_path w cp = Inr st"
    and "resolve_workspace_state_path (pt_workspace_container_path p) cp = Inr st'"
    and sockets: "render_control_socket_paths (tgt_control_sockets t) t (id_target_name i) (id_container_name i)
      (id_session_id i) ?leaf (id_user i) ctx = Inr (pt_control_sockets p)"
    and session: "tgt_mode t = Ephemeral \<longrightarrow> id_session_id i \<noteq> None" and w: "pt_workspace p = w"
    and dirs: "pt_container_state_dir p = path_join (path_join st (fst ?names)) (snd ?names)"
      "pt_container_state_dir_in_container p = path_join (path_join st' (fst ?names)) (snd ?names)"
    using assms(1)
    by (auto simp: runtime_paths_resolve_def Let_def res_simps panic_def split: target_mode.splits option.splits)
  then have st: "below w st []" "below (pt_workspace_container_path p) st' []" by (auto dest: state_path_below)
  note facts = rendered_sockets [OF sockets]
  have names: "name_ok (fst ?names)" "name_ok (snd ?names)"
    using facts assms(2) by (auto simp: name_ok_def char_class_defs split: target_mode.splits)
  show "tgt_mode t = Ephemeral \<longrightarrow> id_session_id i \<noteq> None" "pt_workspace p = w" by (fact session, fact w)
  show "isolated_leaf (csp_host_dir (pt_control_sockets p)) ?leaf (id_user i)" using facts by simp
  show "below w (pt_container_state_dir p) (case tgt_mode t of
        Fixed \<Rightarrow> [''containers'', id_container_name i] | Ephemeral \<Rightarrow> [''sessions'', unwrap_or [] (id_session_id i)])"
    and "below (pt_workspace_container_path p) (pt_container_state_dir_in_container p) (case tgt_mode t of
        Fixed \<Rightarrow> [''containers'', id_container_name i] | Ephemeral \<Rightarrow> [''sessions'', unwrap_or [] (id_session_id i)])"
    using below_join [OF below_join [OF st(1) names(1)] names(2)]
      below_join [OF below_join [OF st(2) names(1)] names(2)]
    by (cases "tgt_mode t"; simp add: dirs)+
qed

lemma cleanup_path_Inr:
  assumes "validate_workspace_cleanup_path workspace home session_id configured = Inr u"
  shows "\<not> dotted workspace \<and> \<not> path_eq workspace ''/'' \<and> \<not> path_eq workspace home
    \<and> (\<exists>leaf. path_file_name workspace = Some leaf \<and> contains_str session_id leaf) \<and> 3 \<le> utf8_length session_id"
proof -
  have "session_id \<noteq> []" if "3 \<le> utf8_length session_id" using that by (auto simp: utf8_length_def)
  with assms show ?thesis
    by (cases "path_file_name workspace"; cases session_id)
      (auto simp: validate_workspace_cleanup_path_def bail_if_Inr)
qed

text \<open>What the last checks of a runtime look at.\<close>

lemma from_config_checks:
  assumes "runtime_from_config h cfg target session_id generate launch ctx = Inr r"
  obtains user where "runtime_validate_workspace_cleanup_path h r = Inr ()"
    and "validate_unix_socket_paths h r = Inr ()"
    and "runtime_paths_resolve (gw_target r) (gw_identity r) (pt_workspace (gw_paths r)) (gw_context r) = Inr (gw_paths r)"
    and "runtime_identity_resolve (id_target_name (gw_identity r)) launch (id_session_id (gw_identity r)) user (gw_target r)
      (id_container_name (gw_identity r)) (gw_runtime r) (gw_context r) = Inr (gw_identity r)"
    and "container_name_with_context (gw_target r) (id_session_id (gw_identity r)) (gw_context r)
      = Inr (id_container_name (gw_identity r))"
    and "effective_target cfg (id_target_name (gw_identity r)) = Inr (gw_target r)"
    and "resolve_session_id h (tgt_mode (gw_target r)) (id_target_name (gw_identity r)) session_id generate
      = Inr (id_session_id (gw_identity r))"
    and "user_current h = Inr user" and "id_user (gw_identity r) = user"
proof -
  obtain user name t s c w rt i p where
    steps: "user_current h = Inr user" "effective_target cfg name = Inr t"
      "resolve_session_id h (tgt_mode t) name session_id generate = Inr s"
      "container_name_with_context t s ctx = Inr c"
      "runtime_identity_resolve name launch s user t c rt ctx = Inr i"
      "runtime_paths_resolve t i w ctx = Inr p"
    and r: "r = \<lparr>gw_cfg = cfg, gw_context = ctx, gw_target = t, gw_identity = i, gw_paths = p, gw_runtime = rt\<rparr>"
    and checks: "runtime_validate_workspace_cleanup_path h r = Inr ()" "validate_unix_socket_paths h r = Inr ()"
    using assms unfolding runtime_from_config_def Let_def
    by (simp only: and_then_Inr as_op_Inr map_err_Inr) (elim exE conjE, rule that, assumption+, auto)
  have i: "id_target_name i = name" "id_session_id i = s" "id_container_name i = c" "id_user i = user"
    using steps(5) by (auto simp: runtime_identity_resolve_def Let_def res_simps)
  have "pt_workspace p = w"
    using steps(6) by (auto simp: runtime_paths_resolve_def Let_def res_simps)
  with steps r checks i show ?thesis by (intro that) simp_all
qed

text \<open>A runtime acts in its own places. Its state directories lie below the workspace, on the host and in
  the container, and end in the name of its container or its session; its control sockets are in a directory
  of their own that ends in its id and is none of the shared ones, with paths a Unix socket can have; only an
  ephemeral target has a session; and a workspace that is removed afterwards is not the root, not the
  home directory, and carries the id of the session in its last component.\<close>

theorem runtime_acts_in_its_places:
  assumes "runtime_from_config h cfg target session_id generate launch ctx = Inr r"
  shows "below (pt_workspace (gw_paths r)) (pt_container_state_dir (gw_paths r)) (state_names r)
    \<and> below (pt_workspace_container_path (gw_paths r)) (pt_container_state_dir_in_container (gw_paths r)) (state_names r)
    \<and> isolated_leaf (csp_host_dir (pt_control_sockets (gw_paths r))) (runtime_id r) (id_user (gw_identity r))
    \<and> list_all (\<lambda>(_, path). utf8_length path \<le> UNIX_SOCKET_PATH_MAX_BYTES (h_os h)) (effective_unix_socket_paths r)
    \<and> (id_session_id (gw_identity r) = None \<longleftrightarrow> tgt_mode (gw_target r) = Fixed)
    \<and> (ws_cleanup (tgt_workspace (gw_target r)) = CleanupNever
        \<or> (\<exists>s leaf. id_session_id (gw_identity r) = Some s \<and> 3 \<le> utf8_length s
             \<and> path_file_name (pt_workspace (gw_paths r)) = Some leaf \<and> contains_str s leaf
             \<and> \<not> dotted (pt_workspace (gw_paths r)) \<and> \<not> path_eq (pt_workspace (gw_paths r)) ''/''
             \<and> \<not> path_eq (pt_workspace (gw_paths r)) (uc_home (id_user (gw_identity r)))))"
proof -
  from assms obtain user where checks: "runtime_validate_workspace_cleanup_path h r = Inr ()"
      "validate_unix_socket_paths h r = Inr ()"
    and paths: "runtime_paths_resolve (gw_target r) (gw_identity r) (pt_workspace (gw_paths r)) (gw_context r)
      = Inr (gw_paths r)"
    and name: "container_name_with_context (gw_target r) (id_session_id (gw_identity r)) (gw_context r)
      = Inr (id_container_name (gw_identity r))"
    and session: "resolve_session_id h (tgt_mode (gw_target r)) (id_target_name (gw_identity r)) session_id generate
      = Inr (id_session_id (gw_identity r))"
    by (rule from_config_checks)
  have "name_ok (id_container_name (gw_identity r))"
    using name by (auto simp: container_name_with_context_def res_simps validate_container_name_def)
  note places = resolved_paths [OF paths this]
  have "id_session_id (gw_identity r) = None \<longleftrightarrow> tgt_mode (gw_target r) = Fixed"
    using session places(1) by (cases "tgt_mode (gw_target r)") (auto simp: resolve_session_id_def res_simps)
  moreover have "list_all (\<lambda>(_, path). utf8_length path \<le> UNIX_SOCKET_PATH_MAX_BYTES (h_os h))
      (effective_unix_socket_paths r)"
    using checks(2) by (auto simp: validate_unix_socket_paths_def list_all_iff bail_if_Inr)
  moreover have "\<exists>s. id_session_id (gw_identity r) = Some s
      \<and> validate_workspace_cleanup_path (pt_workspace (gw_paths r)) (uc_home (id_user (gw_identity r))) s
          (Some (ws_path (tgt_workspace (gw_target r)))) = Inr ()"
    if "ws_cleanup (tgt_workspace (gw_target r)) \<noteq> CleanupNever"
    using checks(1) that by (auto simp: runtime_validate_workspace_cleanup_path_def res_simps)
  ultimately show ?thesis
    using places(3-5) unfolding runtime_id_def state_names_def by (blast dest: cleanup_path_Inr)
qed

text \<open>Generated session ids are twelve lower-case hexadecimal digits, and valid.\<close>

lemma hex_lower_digit: "d < 16 \<Longrightarrow> is_ascii_hexdigit (hex_lower d) \<and> is_ascii_alphanumeric (hex_lower d)
    \<and> \<not> is_ascii_uppercase (hex_lower d)"
  by (auto simp: hex_lower_def char_class_defs less_eq_char_def)

lemma ascii_alphanumeric_code: "is_ascii_alphanumeric c \<Longrightarrow> (of_char c :: nat) < 128"
  by (auto simp: char_class_defs less_eq_char_def)

lemma generated_session_id:
  assumes "generate_session_id_value h = Inr s"
  shows "length s = 12 \<and> list_all (\<lambda>ch. is_ascii_hexdigit ch \<and> \<not> is_ascii_uppercase ch) s
    \<and> validate_session_id s = Inr ()"
proof -
  obtain fill where s: "s = take 12 (concat (map (\<lambda>i. [hex_lower (unat (fill i :: 8 word) div 16),
      hex_lower (unat (fill i) mod 16)]) [0..<32]))"
    using assms by (auto simp: generate_session_id_value_def random_hex_token_def random_hex_def res_simps)
  let ?all = "concat (map (\<lambda>i. [hex_lower (unat (fill i :: 8 word) div 16), hex_lower (unat (fill i) mod 16)]) [0..<32])"
  have "length ?all = 64" by (simp add: length_concat comp_def sum_list_triv)
  then have len: "length s = 12" by (simp add: s)
  have "unat (b :: 8 word) div 16 < 16" for b using unsigned_less [of b, where ?'a = nat] by (simp add: less_mult_imp_div_less)
  then have "list_all (\<lambda>ch. is_ascii_hexdigit ch \<and> is_ascii_alphanumeric ch \<and> \<not> is_ascii_uppercase ch) ?all"
    by (auto simp: list_all_iff hex_lower_digit)
  then have hex: "list_all (\<lambda>ch. is_ascii_hexdigit ch \<and> is_ascii_alphanumeric ch \<and> \<not> is_ascii_uppercase ch) s"
    unfolding s list_all_iff by (meson in_set_takeD)
  then have "utf8_length s = 12"
    using utf8_length_ascii [of s] by (simp add: list_all_iff ascii_alphanumeric_code len)
  with hex len show ?thesis
    by (auto simp: validate_session_id_def bail_if_Inr list_all_iff)
qed

section \<open>Witnesses\<close>

definition demo_host :: host where
  "demo_host =
     \<lparr>h_os = ''linux'', h_euid = 7,
      h_getpwuid = (\<lambda>uid. if uid = 7 then Some \<lparr>pw_name = ''ann'', pw_gid = 7, pw_dir = ''/home/ann''\<rparr> else None),
      h_var = (\<lambda>_. None), h_exists = (\<lambda>_. False), h_read = (\<lambda>_. Inr None), h_lstat = (\<lambda>_. Inr None),
      h_stat = (\<lambda>_. Inr None), h_canonicalize = Inr,
      h_random = Inr (\<lambda>_. 0)\<rparr>"

definition demo_session_gateway :: gateway_config where
  "demo_session_gateway = demo_gateway
     \<lparr>gc_context_vars := [], gc_launches := [],
      gc_targets := [(''t'', target_input_default
        \<lparr>tgi_image := Some ''alpine'', tgi_mode := Some Ephemeral, tgi_stop_when_idle := Some True, tgi_remove_on_stop := Some True,
         tgi_idle_cleanup := Some (idle_cleanup_input_default\<lparr>ici_owner := Some OwnerGateway\<rparr>),
         tgi_ephemeral_name := Some ''{image_slug}-{session_id}'',
         tgi_workspace := Some (workspace_input_default
           \<lparr>wsi_path := Some ''~/aw-gateway/{session_id}'', wsi_cleanup := Some CleanupAlways\<rparr>)\<rparr>)]\<rparr>"

definition demo_runtime_of :: "string option \<Rightarrow> runtime op_res" where
  "demo_runtime_of session = runtime_from_config demo_host demo_session_gateway None session False None []"

text \<open>The runtime is evaluated once, for all that is needed of it.\<close>

lemma demo_runtime:
  "\<exists>r. demo_runtime_of (Some ''s123'') = Inr r \<and> tgt_mode (gw_target r) = Ephemeral
     \<and> id_session_id (gw_identity r) = Some ''s123''
     \<and> pt_container_state_dir (gw_paths r) = ''/home/ann/aw-gateway/s123/.aw-gateway/sessions/s123''
     \<and> pt_container_state_dir_in_container (gw_paths r) = ''/home/ann/.aw-gateway/sessions/s123''
     \<and> csp_host_dir (pt_control_sockets (gw_paths r)) = ''/run/user/7/aw-gateway/s123''
     \<and> id_container_name (gw_identity r) = ''alpine-s123''"
proof -
  have "map_ok (\<lambda>r. (tgt_mode (gw_target r), id_session_id (gw_identity r), pt_container_state_dir (gw_paths r),
         pt_container_state_dir_in_container (gw_paths r), csp_host_dir (pt_control_sockets (gw_paths r)),
         id_container_name (gw_identity r))) (demo_runtime_of (Some ''s123''))
     = Inr (Ephemeral, Some ''s123'', ''/home/ann/aw-gateway/s123/.aw-gateway/sessions/s123'',
        ''/home/ann/.aw-gateway/sessions/s123'', ''/run/user/7/aw-gateway/s123'', ''alpine-s123'')"
    by code_simp
  then show ?thesis by (auto simp: map_ok_Inr)
qed

lemma demo_runtime_paths:
  "map_ok (\<lambda>r. (pt_container_state_dir (gw_paths r), pt_container_state_dir_in_container (gw_paths r),
       csp_host_dir (pt_control_sockets (gw_paths r)), id_container_name (gw_identity r))) (demo_runtime_of (Some ''s123''))
     = Inr (''/home/ann/aw-gateway/s123/.aw-gateway/sessions/s123'', ''/home/ann/.aw-gateway/sessions/s123'',
        ''/run/user/7/aw-gateway/s123'', ''alpine-s123'')"
  using demo_runtime by auto

lemma demo_runtime_needs_session:
  "demo_runtime_of None = Inl (InvalidSession ''ephemeral target t requires --session-id'')"
  by code_simp

theorem runtime_acts_in_its_places_witness:
  "\<exists>r. demo_runtime_of (Some ''s123'') = Inr r \<and> isolated_leaf ''/run/user/7/aw-gateway/s123'' ''s123'' (id_user (gw_identity r))
     \<and> below (pt_workspace (gw_paths r)) ''/home/ann/aw-gateway/s123/.aw-gateway/sessions/s123'' [''sessions'', ''s123'']"
proof -
  from demo_runtime obtain r where r: "demo_runtime_of (Some ''s123'') = Inr r"
    and dirs: "pt_container_state_dir (gw_paths r) = ''/home/ann/aw-gateway/s123/.aw-gateway/sessions/s123''"
      "csp_host_dir (pt_control_sockets (gw_paths r)) = ''/run/user/7/aw-gateway/s123''"
      "tgt_mode (gw_target r) = Ephemeral" "id_session_id (gw_identity r) = Some ''s123''"
    by blast
  with r dirs runtime_acts_in_its_places [OF r [unfolded demo_runtime_of_def]] show ?thesis
    by (simp add: runtime_id_def state_names_def)
qed

end
