(* ===== verification/Host_Sockets.thy ===== *)
theory Host_Sockets
  imports Gateway_Runtime
begin

text \<open>
  \<open>gateway/host_socket_exposures.rs\<close>: which sockets of the host a container is given, the check that
  their paths overlap nothing else that is mounted, the manifest that a container carries of them, and
  what a status reports of them. The hash \<open>SHA-256\<close> is a parameter; the manifest is stated on the
  message that is hashed. Times are left out: a check that is repeated until a deadline is a function of
  what each of its rounds observes.
\<close>

definition HOST_SOCKET_EXPOSURE_MANIFEST_LABEL :: string where
  "HOST_SOCKET_EXPOSURE_MANIFEST_LABEL = ''io.aw-gateway.host-socket-exposures.v1''"

definition LINUX_UNIX_SOCKET_PATH_MAX_BYTES :: nat where
  "LINUX_UNIX_SOCKET_PATH_MAX_BYTES = 107"

record prepared_inputs =
  pi_mounts :: "mount_spec list"
  pi_exposures :: "exposure_spec list"
  pi_manifest :: "string option"

section \<open>Checks of paths\<close>

definition path_starts_with :: "string \<Rightarrow> string \<Rightarrow> bool" where
  "path_starts_with a b \<longleftrightarrow> take (length (path_components b)) (path_components a) = path_components b"

definition reject_path_overlap :: "string \<Rightarrow> string \<Rightarrow> string \<Rightarrow> string \<Rightarrow> unit res" where
  "reject_path_overlap a_label a b_label b =
     bail_if (path_eq a b \<or> path_starts_with a b \<or> path_starts_with b a)
       (Bail ''{} {} overlaps {} {}; exact socket exposure paths must not be contained by or contain other managed paths''
         [a_label, a, b_label, b])"

definition validate_normalized_container_path :: "string \<Rightarrow> string \<Rightarrow> unit res" where
  "validate_normalized_container_path label path = seq_checks
     [bail_if (\<not> path_is_absolute path) (Bail ''{} must render to an absolute path'' [label]),
      bail_if (path = ''/'' \<or> (case strip_prefix ''/'' path of
            None \<Rightarrow> True
          | Some rest \<Rightarrow> list_ex (\<lambda>part. part = [] \<or> part = ''.'' \<or> part = ''..'') (split_char CHR ''/'' rest)))
        (Bail ''{} must be a normalized absolute non-root path'' [label])]"

definition validate_runtime_path_separators :: "string \<Rightarrow> string \<Rightarrow> unit res" where
  "validate_runtime_path_separators label path =
     bail_if (contains_str '':'' path \<or> contains_str '','' path)
       (Bail (''{} must not render with ':' or ','' @ [CHR 0x27]) [label])"

definition validate_socket_path_length :: "string \<Rightarrow> string \<Rightarrow> nat \<Rightarrow> unit res" where
  "validate_socket_path_length label path limit =
     bail_if (utf8_length path > limit)
       (Bail ''{} {} is too long for a Unix domain socket: {} bytes exceeds {}''
         [label, path, show_nat (utf8_length path), show_nat limit])"

definition canonicalize_final_without_following :: "host \<Rightarrow> string \<Rightarrow> string \<Rightarrow> string res" where
  "canonicalize_final_without_following h path label =
     and_then (ok_or (Bail ''{} {} must name a filesystem entry'' [label, path]) (path_file_name path)) (\<lambda>file_name.
     and_then (ok_or (Bail ''{} {} must have a parent directory'' [label, path]) (path_parent path)) (\<lambda>parent.
     and_then (with_context (''canonicalize parent for '' @ label @ '' '' @ path) (h_canonicalize h parent))
       (\<lambda>parent. Inr (path_join parent file_name))))"

definition canonicalize_generic_mount_source :: "host \<Rightarrow> string \<Rightarrow> string \<Rightarrow> string res" where
  "canonicalize_generic_mount_source h path label =
     and_then (canonicalize_final_without_following h path label) (\<lambda>path.
     and_then (with_context (''stat '' @ label @ '' '' @ path) (existing (h_lstat h path))) (\<lambda>st.
     and_then (seq_checks
       [bail_if (st_kind st = Symlink) (Bail ''{} {} must not be a symlink'' [label, path]),
        bail_if (st_kind st = Socket)
          (Bail ''{} {} is a Unix socket; configure it through host_socket_exposures'' [label, path]),
        bail_if (st_kind st \<noteq> Regular \<and> st_kind st \<noteq> Directory)
          (Bail ''{} {} must be a regular file or directory'' [label, path])]) (\<lambda>_. Inr path)))"

definition unix_socket_identity :: "host \<Rightarrow> string \<Rightarrow> string \<Rightarrow> source_identity res" where
  "unix_socket_identity h path name =
     and_then (with_context (''stat host_socket_exposures.'' @ name @ ''.host_path '' @ path)
       (existing (h_lstat h path))) (\<lambda>st.
     and_then (bail_if (st_kind st \<noteq> Socket)
       (Bail ''host_socket_exposures.{}.host_path {} must be a Unix socket'' [name, path])) (\<lambda>_. Inr
       \<lparr>si_device = st_device st, si_inode = st_inode st, si_uid = st_uid st, si_gid = st_gid st,
        si_mode = unat (st_mode st AND 511)\<rparr>))"

section \<open>The manifest of the exposed sockets\<close>

definition utf8_bytes :: "string \<Rightarrow> 8 word list" where
  "utf8_bytes s = concat (map (\<lambda>c. if (of_char c :: nat) < 128 then [word_of_nat (of_char c)]
     else [word_of_nat (192 + of_char c div 64), word_of_nat (128 + of_char c mod 64)]) s)"

text \<open>\<open>u64::to_be_bytes\<close>: the eight digits to the base 256.\<close>

definition be_bytes :: "nat \<Rightarrow> 8 word list" where
  "be_bytes n = map (\<lambda>i. word_of_nat (n div 256 ^ (7 - i) mod 256)) [0..<8]"

definition hash_field :: "string \<Rightarrow> 8 word list" where
  "hash_field v = be_bytes (length (utf8_bytes v)) @ utf8_bytes v"

fun relabel_debug :: "selinux_relabel \<Rightarrow> string" where
  "relabel_debug RelabelNone = ''None''"
| "relabel_debug RelabelShared = ''Shared''"
| "relabel_debug RelabelPrivate = ''Private''"

definition exposure_message :: "exposure_spec list \<Rightarrow> 8 word list" where
  "exposure_message exposures =
     utf8_bytes (''aw-gateway-host-socket-exposures'' @ [CHR 0x00] @ ''v1'' @ [CHR 0x00])
     @ concat (map (\<lambda>x.
         hash_field (hes_name x) @ hash_field (hes_host_path x) @ hash_field (hes_container_path x)
         @ hash_field (relabel_debug (hes_selinux_relabel x)) @ hash_field (realization_text (hes_realization x))
         @ (if hes_realization x = PinnedInode
            then be_bytes (si_device (hes_source_identity x)) @ be_bytes (si_inode (hes_source_identity x))
            else [])) exposures)"

definition exposure_manifest :: "(8 word list \<Rightarrow> 8 word list) \<Rightarrow> exposure_spec list \<Rightarrow> string" where
  "exposure_manifest sha256 exposures =
     ''sha256:'' @ concat (map (\<lambda>b. [hex_lower (unat b div 16), hex_lower (unat b mod 16)])
       (sha256 (exposure_message exposures)))"

definition validate_exposure_manifest_values :: "string \<Rightarrow> string option \<Rightarrow> string option \<Rightarrow> unit res" where
  "validate_exposure_manifest_values name expected actual =
     (case (expected, actual) of
        (None, None) \<Rightarrow> Inr ()
      | (Some e, Some a) \<Rightarrow> bail_if (e \<noteq> a)
          (Bail ''container {} host socket exposure manifest does not match the effective target; remove and recreate the container'' [name])
      | (Some _, None) \<Rightarrow>
          Inl (Bail ''container {} is missing the host socket exposure manifest; remove and recreate the container'' [name])
      | (None, Some _) \<Rightarrow>
          Inl (Bail ''container {} has host socket exposures but the target does not; remove and recreate the container'' [name]))"

lemma manifest_values_iff: "validate_exposure_manifest_values name e a = Inr () \<longleftrightarrow> e = a"
  by (cases e; cases a) (simp_all add: validate_exposure_manifest_values_def bail_if_Inr)

definition validate_exposure_manifest :: "runtime \<Rightarrow> container_inspect \<Rightarrow> prepared_inputs \<Rightarrow> unit res" where
  "validate_exposure_manifest r inspect prepared =
     validate_exposure_manifest_values (id_container_name (gw_identity r)) (pi_manifest prepared)
       (bt_get (ci_labels inspect) HOST_SOCKET_EXPOSURE_MANIFEST_LABEL)"

section \<open>Preparing the exposed sockets\<close>

text \<open>What the paths of an exposure are held against: the workspace, the home, the control sockets and
  the mounts.\<close>

record managed_paths =
  mp_workspace_host :: string
  mp_workspace_container :: string
  mp_container_home :: string
  mp_control_host :: "string option"
  mp_control_container :: "string option"
  mp_mounts :: "mount_spec list"

text \<open>The sets of the paths seen so far, in the order of \<open>BTreeSet<PathBuf>\<close>, and the exposures.\<close>

type_synonym prepared_so_far = "string list \<times> string list \<times> exposure_spec list"

definition check_exposure_paths ::
  "managed_paths \<Rightarrow> string \<Rightarrow> string \<Rightarrow> string \<Rightarrow> string list \<Rightarrow> string list \<Rightarrow> unit res" where
  "check_exposure_paths m name host_path container_path host_paths container_paths =
     (let host_label = ''host_socket_exposures.'' @ name @ ''.host_path'';
          container_label = ''host_socket_exposures.'' @ name @ ''.container_path'' in seq_checks
      [each (reject_path_overlap host_label host_path ''another host socket exposure path'') host_paths,
       each (reject_path_overlap container_label container_path ''another host socket exposure path'') container_paths,
       reject_path_overlap host_label host_path ''workspace host path'' (mp_workspace_host m),
       given (reject_path_overlap host_label host_path ''control socket host directory'') (mp_control_host m),
       reject_path_overlap container_label container_path ''workspace container path'' (mp_workspace_container m),
       reject_path_overlap container_label container_path ''container home'' (mp_container_home m),
       given (reject_path_overlap container_label container_path ''control socket container directory'')
         (mp_control_container m),
       each (\<lambda>mount. seq_checks
         [reject_path_overlap host_label host_path ''container mount source'' (ms_source mount),
          reject_path_overlap container_label container_path ''container mount target'' (ms_target mount)])
         (mp_mounts m)])"

definition prepare_exposure ::
  "host \<Rightarrow> vars \<Rightarrow> exposure_realization \<Rightarrow> managed_paths \<Rightarrow> string \<Rightarrow> host_socket_exposure \<Rightarrow> prepared_so_far
     \<Rightarrow> prepared_so_far res" where
  "prepare_exposure h vars realization m name config so_far =
     (let (host_paths, container_paths, exposures) = so_far;
          label = (\<lambda>field. ''host_socket_exposures.'' @ name @ field) in
      and_then (render (hse_host_path config) vars) (\<lambda>rendered_host.
      and_then (bail_if (\<not> path_is_absolute rendered_host)
        (Bail ''host_socket_exposures.{}.host_path must render to an absolute path'' [name])) (\<lambda>_.
      and_then (canonicalize_final_without_following h rendered_host (label ''.host_path'')) (\<lambda>host_path.
      and_then (render (hse_container_path config) vars) (\<lambda>container_path.
      and_then (seq_checks
        [validate_normalized_container_path (label ''.container_path'') container_path,
         validate_runtime_path_separators (label ''.host_path'') host_path,
         validate_runtime_path_separators (label ''.container_path'') container_path,
         validate_socket_path_length ''host socket exposure host path'' host_path
           (UNIX_SOCKET_PATH_MAX_BYTES (h_os h))]) (\<lambda>_.
      and_then (render (hse_user config) vars) (\<lambda>readiness_user.
      and_then (seq_checks
        [validate_name (label ''.user'') readiness_user,
         validate_socket_path_length ''host socket exposure container path'' container_path
           LINUX_UNIX_SOCKET_PATH_MAX_BYTES]) (\<lambda>_.
      and_then (unix_socket_identity h host_path name) (\<lambda>identity.
      and_then (check_exposure_paths m name host_path container_path host_paths container_paths) (\<lambda>_. Inr
        (insort_key path_components host_path host_paths,
         insort_key path_components container_path container_paths,
         exposures @ [\<lparr>hes_name = name, hes_host_path = host_path, hes_container_path = container_path,
           hes_readiness_user = readiness_user, hes_selinux_relabel = hse_selinux_relabel config,
           hes_realization = realization, hes_source_identity = identity\<rparr>])))))))))))"

fun prepare_loop ::
  "host \<Rightarrow> vars \<Rightarrow> exposure_realization \<Rightarrow> managed_paths \<Rightarrow> (string \<times> host_socket_exposure) list \<Rightarrow> prepared_so_far
     \<Rightarrow> prepared_so_far res" where
  "prepare_loop h vars realization m [] so_far = Inr so_far"
| "prepare_loop h vars realization m ((name, config) # rest) so_far =
     and_then (prepare_exposure h vars realization m name config so_far)
       (prepare_loop h vars realization m rest)"

definition exposure_realization_of :: "container_runtime_type \<Rightarrow> exposure_realization res" where
  "exposure_realization_of kind =
     (case kind of
        AppleContainer \<Rightarrow> Inr PathReconnect
      | Podman \<Rightarrow> Inr PinnedInode
      | Docker \<Rightarrow> Inr PinnedInode
      | Colima \<Rightarrow> Inl (Bail ''host_socket_exposures are not supported with the colima runtime'' []))"

definition canonicalize_mounts :: "host \<Rightarrow> mount_spec list \<Rightarrow> mount_spec list res" where
  "canonicalize_mounts h mounts =
     collect_ok (\<lambda>(index, mount).
       and_then (with_context (''canonicalize container mount source #'' @ show_nat index @ '' '' @ ms_source mount)
         (h_canonicalize h (ms_source mount))) (\<lambda>source.
       and_then (validate_normalized_container_path (''container mount target #'' @ show_nat index) (ms_target mount))
         (\<lambda>_. Inr (mount\<lparr>ms_source := source\<rparr>)))) (zip [0..<length mounts] mounts)"

definition prepare_host_socket_exposures ::
  "(8 word list \<Rightarrow> 8 word list) \<Rightarrow> host \<Rightarrow> (string, host_socket_exposure) btree \<Rightarrow> vars \<Rightarrow> container_runtime_type
     \<Rightarrow> managed_paths \<Rightarrow> prepared_inputs res" where
  "prepare_host_socket_exposures sha256 h configured vars kind m =
     (if configured = [] then Inr \<lparr>pi_mounts = mp_mounts m, pi_exposures = [], pi_manifest = None\<rparr>
      else
       and_then (with_context (''canonicalize workspace host path '' @ mp_workspace_host m)
         (h_canonicalize h (mp_workspace_host m))) (\<lambda>workspace_host.
       and_then (case mp_control_host m of None \<Rightarrow> Inr None
         | Some path \<Rightarrow> map_ok Some (with_context (''canonicalize control socket host directory '' @ path)
             (h_canonicalize h path))) (\<lambda>control_host.
       and_then (canonicalize_mounts h (mp_mounts m)) (\<lambda>mounts.
       and_then (seq_checks
         [validate_normalized_container_path ''workspace container path'' (mp_workspace_container m),
          validate_normalized_container_path ''container home'' (mp_container_home m),
          given (validate_normalized_container_path ''control socket container directory'')
            (mp_control_container m)]) (\<lambda>_.
       and_then (exposure_realization_of kind) (\<lambda>realization.
       and_then (prepare_loop h vars realization
           (m\<lparr>mp_workspace_host := workspace_host, mp_control_host := control_host, mp_mounts := mounts\<rparr>)
           configured ([], [], [])) (\<lambda>(_, _, exposures). Inr
         \<lparr>pi_mounts = mounts, pi_exposures = exposures,
          pi_manifest = Some (exposure_manifest sha256 exposures)\<rparr>)))))))"

section \<open>The endpoints in the container\<close>

definition endpoint_test_spec :: "string \<Rightarrow> exposure_spec \<Rightarrow> string \<Rightarrow> exec_spec" where
  "endpoint_test_spec name x flag =
     \<lparr>es_stdin_tty = False, es_stdout_tty = False, es_user = hes_readiness_user x, es_cwd = None, es_env = [],
      es_container_name = name, es_command = [''/bin/test'', flag, hes_container_path x]\<rparr>"

text \<open>What a round of the check observes: the results of running each test, and whether the deadline
  has passed when one of them has failed.\<close>

record endpoint_round =
  er_run :: "exec_spec \<Rightarrow> int res"
  er_late :: bool

definition endpoint_round_check :: "string \<Rightarrow> exposure_spec \<Rightarrow> (exec_spec \<Rightarrow> int res) \<Rightarrow> string option res" where
  "endpoint_round_check name x run =
     (let test = (\<lambda>flag. with_context (''check host socket exposure '' @ hes_name x @ '' container endpoint as ''
            @ hes_readiness_user x) (run (endpoint_test_spec name x flag))) in
      and_then (test ''-S'') (\<lambda>exit.
        if exit \<noteq> 0 then Inr (Some ''a Unix socket'')
        else and_then (test ''-w'') (\<lambda>exit. Inr (if exit \<noteq> 0 then Some ''accessible'' else None))))"

fun validate_container_exposure_endpoint_until ::
  "string \<Rightarrow> exposure_spec \<Rightarrow> endpoint_round list \<Rightarrow> unit res option" where
  "validate_container_exposure_endpoint_until name x [] = None"
| "validate_container_exposure_endpoint_until name x (round # rounds) =
     (case endpoint_round_check name x (er_run round) of
        Inl e \<Rightarrow> Some (Inl e)
      | Inr None \<Rightarrow> Some (Inr ())
      | Inr (Some description) \<Rightarrow>
          if er_late round
          then Some (Inl (Bail ''host socket exposure {} container endpoint failed the {} check as configured readiness user {}''
            [hes_name x, description, hes_readiness_user x]))
          else validate_container_exposure_endpoint_until name x rounds)"

text \<open>All endpoints are awaited; the error of the first that failed is reported.\<close>

definition validate_container_exposure_endpoints :: "(exposure_spec \<Rightarrow> unit res) \<Rightarrow> prepared_inputs \<Rightarrow> unit res" where
  "validate_container_exposure_endpoints check prepared = each check (pi_exposures prepared)"

section \<open>The status of the exposed sockets\<close>

record exposure_status =
  hs_name :: string
  hs_realization :: string
  hs_ready :: bool
  hs_failure_category :: "string option"

definition default_realization_text :: "container_runtime_type \<Rightarrow> string" where
  "default_realization_text kind = (case kind of AppleContainer \<Rightarrow> ''path_reconnect'' | _ \<Rightarrow> ''pinned_inode'')"

definition removed_config_manifest_status ::
  "container_inspect option \<Rightarrow> container_runtime_type \<Rightarrow> exposure_status list" where
  "removed_config_manifest_status inspect kind =
     (case inspect of
        Some i \<Rightarrow>
          if bt_contains (ci_labels i) HOST_SOCKET_EXPOSURE_MANIFEST_LABEL
          then [\<lparr>hs_name = ''container_manifest'', hs_realization = default_realization_text kind,
                 hs_ready = False, hs_failure_category = Some ''recreate_required''\<rparr>]
          else []
      | None \<Rightarrow> [])"

definition common_failure :: "runtime \<Rightarrow> container_inspect option \<Rightarrow> prepared_inputs \<Rightarrow> string option" where
  "common_failure r inspect prepared =
     (case inspect of
        None \<Rightarrow> Some ''container_absent''
      | Some i \<Rightarrow>
          if \<not> is_ok (validate_exposure_manifest r i prepared) then Some ''recreate_required''
          else if \<not> ci_running i then Some ''container_stopped''
          else None)"

definition current_prepared_statuses ::
  "runtime \<Rightarrow> (exposure_spec \<Rightarrow> unit res) \<Rightarrow> container_inspect option \<Rightarrow> prepared_inputs \<Rightarrow> exposure_status list" where
  "current_prepared_statuses r check inspect prepared =
     map (\<lambda>x.
       let failure = (case common_failure r inspect prepared of
             Some category \<Rightarrow> Some category
           | None \<Rightarrow> (if is_ok (check x) then None else Some ''guest_endpoint_unavailable''))
       in \<lparr>hs_name = hes_name x, hs_realization = realization_text (hes_realization x),
           hs_ready = (failure = None), hs_failure_category = failure\<rparr>) (pi_exposures prepared)"

definition current_host_socket_exposure_statuses ::
  "runtime \<Rightarrow> (exposure_spec \<Rightarrow> unit res) \<Rightarrow> prepared_inputs res \<Rightarrow> container_inspect option
     \<Rightarrow> prepared_inputs option \<Rightarrow> exposure_status list" where
  "current_host_socket_exposure_statuses r check prepare inspect prepared =
     (if tgt_host_socket_exposures (gw_target r) = []
      then removed_config_manifest_status inspect (crt_kind (gw_runtime r))
      else case (prepared, prepare) of
        (Some p, _) \<Rightarrow> current_prepared_statuses r check inspect p
      | (None, Inr p) \<Rightarrow> current_prepared_statuses r check inspect p
      | (None, Inl _) \<Rightarrow>
          map (\<lambda>(name, _). \<lparr>hs_name = name, hs_realization = default_realization_text (crt_kind (gw_runtime r)),
            hs_ready = False, hs_failure_category = Some ''source_unavailable''\<rparr>)
            (tgt_host_socket_exposures (gw_target r)))"

section \<open>Lemmas on the manifest\<close>

lemma word_of_nat_byte: "m < 256 \<Longrightarrow> n < 256 \<Longrightarrow> (word_of_nat m :: 8 word) = word_of_nat n \<longleftrightarrow> m = n"
  by (simp add: word_of_nat_eq_iff take_bit_eq_mod)

lemma char_code_bound: "(of_char c :: nat) < 256"
  using of_char_mod_256 [of c, where ?'a = nat] by (metis mod_less_divisor zero_less_numeral)

lemma be_bytes_digits: "map (\<lambda>i. word_of_nat (m div 256 ^ i mod 256) :: 8 word) [0..<k]
    = map (\<lambda>i. word_of_nat (n div 256 ^ i mod 256)) [0..<k] \<Longrightarrow> m mod 256 ^ k = n mod 256 ^ k"
proof (induction k)
  case (Suc k)
  then have "m mod 256 ^ k = n mod 256 ^ k" "m div 256 ^ k mod 256 = n div 256 ^ k mod 256"
    by (simp_all add: word_of_nat_byte)
  then show ?case by (simp only: power_Suc2 mod_mult2_eq)
qed simp

lemma be_bytes_inj:
  assumes "be_bytes m = be_bytes n" and "m < u64_limit" "n < u64_limit" shows "m = n"
proof -
  have "rev [0..<8] = map (\<lambda>i. 7 - i) [0..<8 :: nat]" by (simp add: upt_rec)
  then have rev: "be_bytes k = rev (map (\<lambda>i. word_of_nat (k div 256 ^ i mod 256)) [0..<8])" for k
    by (simp add: be_bytes_def rev_map)
  then have "m mod 256 ^ 8 = n mod 256 ^ 8" using assms(1) by (intro be_bytes_digits) (simp only: rev_is_rev_conv)
  with assms(2,3) show ?thesis by (simp add: u64_limit_def)
qed

lemma be_bytes_append:
  "be_bytes m @ x = be_bytes n @ y \<Longrightarrow> m < u64_limit \<Longrightarrow> n < u64_limit \<Longrightarrow> m = n \<and> x = y"
  using be_bytes_inj [of m n] by (simp add: append_eq_append_conv be_bytes_def)

lemma utf8_bytes_Cons: "utf8_bytes (c # s) = (if (of_char c :: nat) < 128 then [word_of_nat (of_char c)]
    else [word_of_nat (192 + of_char c div 64), word_of_nat (128 + of_char c mod 64)]) @ utf8_bytes s"
  by (simp add: utf8_bytes_def)

lemma utf8_bytes_inj: "utf8_bytes s = utf8_bytes t \<Longrightarrow> s = t"
proof (induction s arbitrary: t)
  case Nil
  then show ?case by (cases t) (simp_all add: utf8_bytes_def split: if_splits)
next
  case (Cons c s)
  then obtain d t' where t: "t = d # t'" by (cases t) (simp_all add: utf8_bytes_def split: if_splits)
  let ?c = "of_char c :: nat" and ?d = "of_char d :: nat"
  have bounds: "?c < 256" "?d < 256" "?c div 64 < 4" "?d div 64 < 4" "?c mod 64 < 64" "?d mod 64 < 64"
    using char_code_bound [of c] char_code_bound [of d]
      less_mult_imp_div_less [of ?c 4 64] less_mult_imp_div_less [of ?d 4 64] by simp_all
  note codes = word_of_nat_byte [of ?c ?d] word_of_nat_byte [of ?c "192 + ?d div 64"]
    word_of_nat_byte [of "192 + ?c div 64" ?d] word_of_nat_byte [of "192 + ?c div 64" "192 + ?d div 64"]
    word_of_nat_byte [of "128 + ?c mod 64" "128 + ?d mod 64"]
  have "?c = ?d" if "?c div 64 = ?d div 64" "?c mod 64 = ?d mod 64"
    using that by (metis div_mult_mod_eq)
  with Cons.prems t bounds codes have "?c = ?d \<and> utf8_bytes s = utf8_bytes t'"
    by (simp add: utf8_bytes_Cons del: of_nat_add split: if_splits)
  with Cons.IH t show ?case by simp
qed

section \<open>What the manifest covers\<close>

text \<open>What a manifest covers of an exposure: everything but the readiness user, the owner and the mode of
  the socket, and its inode only where the inode is what the container holds.\<close>

definition covered :: "exposure_spec \<Rightarrow> (string \<times> string \<times> string) \<times> selinux_relabel \<times> (nat \<times> nat) option" where
  "covered x =
     ((hes_name x, hes_host_path x, hes_container_path x), hes_selinux_relabel x,
      if hes_realization x = PinnedInode
      then Some (si_device (hes_source_identity x), si_inode (hes_source_identity x)) else None)"

text \<open>Lengths, devices and inodes that fit into 64 bits.\<close>

definition u64_sized :: "exposure_spec \<Rightarrow> bool" where
  "u64_sized x \<longleftrightarrow> list_all (\<lambda>s. length (utf8_bytes s) < u64_limit)
       [hes_name x, hes_host_path x, hes_container_path x]
     \<and> si_device (hes_source_identity x) < u64_limit \<and> si_inode (hes_source_identity x) < u64_limit"

definition exposure_bytes :: "exposure_spec \<Rightarrow> 8 word list" where
  "exposure_bytes x =
     hash_field (hes_name x) @ hash_field (hes_host_path x) @ hash_field (hes_container_path x)
     @ hash_field (relabel_debug (hes_selinux_relabel x)) @ hash_field (realization_text (hes_realization x))
     @ (if hes_realization x = PinnedInode
        then be_bytes (si_device (hes_source_identity x)) @ be_bytes (si_inode (hes_source_identity x))
        else [])"

lemma hash_field_append:
  assumes "hash_field a @ x = hash_field b @ y"
    and "length (utf8_bytes a) < u64_limit" "length (utf8_bytes b) < u64_limit"
  shows "a = b \<and> x = y"
proof -
  have "length (utf8_bytes a) = length (utf8_bytes b) \<and> utf8_bytes a @ x = utf8_bytes b @ y"
    using assms(1) unfolding hash_field_def append_assoc by (rule be_bytes_append) (fact assms)+
  then show ?thesis by (auto dest: utf8_bytes_inj)
qed

lemma utf8_bytes_length: "length (utf8_bytes s) \<le> 2 * length s"
proof (induction s)
  case (Cons c s)
  have "length (if b then [x] else [y, z]) \<le> 2" for b and x y z :: "8 word" by simp
  then have "length (utf8_bytes (c # s)) \<le> 2 + length (utf8_bytes s)"
    unfolding utf8_bytes_Cons length_append by (rule add_right_mono)
  with Cons show ?case by simp
qed (simp add: utf8_bytes_def)

lemma relabel_debug_sized: "length (utf8_bytes (relabel_debug x)) < u64_limit"
  by (rule le_less_trans [OF utf8_bytes_length]) (cases x; simp add: u64_limit_def)

lemma realization_sized: "length (utf8_bytes (realization_text x)) < u64_limit"
  by (rule le_less_trans [OF utf8_bytes_length]) (cases x; simp add: u64_limit_def)

lemma relabel_debug_inj: "relabel_debug x = relabel_debug y \<longleftrightarrow> x = y"
  by (cases x; cases y) simp_all

lemma realization_text_inj: "realization_text x = realization_text y \<longleftrightarrow> x = y"
  by (cases x; cases y) simp_all

lemma exposure_bytes_append:
  assumes "exposure_bytes x @ r = exposure_bytes y @ s" and "u64_sized x" "u64_sized y"
  shows "covered x = covered y \<and> r = s"
proof -
  let ?inode = "\<lambda>x r. (if hes_realization x = PinnedInode
      then be_bytes (si_device (hes_source_identity x)) @ be_bytes (si_inode (hes_source_identity x)) else []) @ r"
  let ?kind = "\<lambda>x r. hash_field (realization_text (hes_realization x)) @ ?inode x r"
  let ?relabel = "\<lambda>x r. hash_field (relabel_debug (hes_selinux_relabel x)) @ ?kind x r"
  let ?container = "\<lambda>x r. hash_field (hes_container_path x) @ ?relabel x r"
  let ?host = "\<lambda>x r. hash_field (hes_host_path x) @ ?container x r"
  have names: "hes_name x = hes_name y \<and> ?host x r = ?host y s"
    by (rule hash_field_append) (use assms in \<open>simp_all add: exposure_bytes_def u64_sized_def\<close>)
  then have hosts: "hes_host_path x = hes_host_path y \<and> ?container x r = ?container y s"
    by (intro hash_field_append) (use assms in \<open>simp_all add: u64_sized_def\<close>)
  then have containers: "hes_container_path x = hes_container_path y \<and> ?relabel x r = ?relabel y s"
    by (intro hash_field_append) (use assms in \<open>simp_all add: u64_sized_def\<close>)
  then have "relabel_debug (hes_selinux_relabel x) = relabel_debug (hes_selinux_relabel y) \<and> ?kind x r = ?kind y s"
    by (intro hash_field_append) (simp_all add: relabel_debug_sized)
  then have relabels: "hes_selinux_relabel x = hes_selinux_relabel y" and kinds: "?kind x r = ?kind y s"
    by (simp_all add: relabel_debug_inj)
  from kinds have "realization_text (hes_realization x) = realization_text (hes_realization y) \<and> ?inode x r = ?inode y s"
    by (intro hash_field_append) (simp_all add: realization_sized)
  then have realizations: "hes_realization x = hes_realization y" and inodes: "?inode x r = ?inode y s"
    unfolding realization_text_inj by (rule conjunct1, rule conjunct2)
  show ?thesis
  proof (cases "hes_realization x = PinnedInode")
    case True
    with inodes realizations have pinned: "be_bytes (si_device (hes_source_identity x))
          @ be_bytes (si_inode (hes_source_identity x)) @ r
        = be_bytes (si_device (hes_source_identity y)) @ be_bytes (si_inode (hes_source_identity y)) @ s"
      by simp
    have "si_device (hes_source_identity x) = si_device (hes_source_identity y)
        \<and> be_bytes (si_inode (hes_source_identity x)) @ r = be_bytes (si_inode (hes_source_identity y)) @ s"
      using pinned assms(2,3) by (intro be_bytes_append) (simp_all add: u64_sized_def)
    moreover from this have "si_inode (hes_source_identity x) = si_inode (hes_source_identity y) \<and> r = s"
      using assms(2,3) by (intro be_bytes_append) (simp_all add: u64_sized_def)
    ultimately show ?thesis using names hosts containers relabels realizations by (simp add: covered_def)
  qed (use names hosts containers relabels realizations inodes in \<open>simp add: covered_def\<close>)
qed

lemma exposure_bytes_not_Nil: "exposure_bytes x \<noteq> []"
  by (simp add: exposure_bytes_def hash_field_def be_bytes_def)

lemma exposure_bytes_covered: "covered x = covered y \<Longrightarrow> exposure_bytes x = exposure_bytes y"
  by (cases "hes_realization x"; cases "hes_realization y") (auto simp: covered_def exposure_bytes_def)

lemma messages_inj:
  "list_all u64_sized xs \<Longrightarrow> list_all u64_sized ys
    \<Longrightarrow> concat (map exposure_bytes xs) = concat (map exposure_bytes ys) \<longleftrightarrow> map covered xs = map covered ys"
proof (induction xs arbitrary: ys)
  case Nil
  then show ?case by (cases ys) (simp_all add: exposure_bytes_not_Nil)
next
  case (Cons x xs)
  show ?case
  proof (cases ys)
    case (Cons y ys')
    with Cons.prems Cons.IH [of ys'] exposure_bytes_append [of x "concat (map exposure_bytes xs)" y]
    show ?thesis by (auto dest: exposure_bytes_covered)
  qed (simp add: exposure_bytes_not_Nil)
qed

text \<open>C27. The manifest identifies the exposed sockets. Two lists of exposures have the same manifest exactly
  when they agree on what it covers (names, paths, relabelling, and the inode where it is pinned), unless
  the hash collides: the hashed messages are the same exactly then.\<close>

theorem manifest_identifies_exposures:
  assumes "list_all u64_sized xs" and "list_all u64_sized ys"
  shows "(exposure_message xs = exposure_message ys \<longleftrightarrow> map covered xs = map covered ys)
    \<and> (exposure_manifest sha256 xs = exposure_manifest sha256 ys \<or> map covered xs \<noteq> map covered ys)"
proof -
  have message: "exposure_message zs
      = utf8_bytes (''aw-gateway-host-socket-exposures'' @ [CHR 0x00] @ ''v1'' @ [CHR 0x00])
        @ concat (map exposure_bytes zs)" for zs
    by (simp add: exposure_message_def exposure_bytes_def [abs_def])
  then have "exposure_message xs = exposure_message ys \<longleftrightarrow> map covered xs = map covered ys"
    using messages_inj [OF assms] by simp
  then show ?thesis by (auto simp: exposure_manifest_def)
qed

section \<open>Prepared sockets overlap nothing\<close>

definition separate :: "string \<Rightarrow> string \<Rightarrow> bool" where
  "separate a b \<longleftrightarrow> \<not> path_starts_with a b \<and> \<not> path_starts_with b a"

lemma reject_path_overlap_iff: "reject_path_overlap la a lb b = Inr u \<longleftrightarrow> separate a b"
  by (auto simp: reject_path_overlap_def bail_if_Inr separate_def path_eq_def path_starts_with_def)

lemma separate_sym: "separate a b \<longleftrightarrow> separate b a"
  by (auto simp: separate_def)

definition exposure_ok :: "host \<Rightarrow> managed_paths \<Rightarrow> exposure_spec \<Rightarrow> bool" where
  "exposure_ok h m x \<longleftrightarrow>
     separate (hes_host_path x) (mp_workspace_host m)
     \<and> separate (hes_container_path x) (mp_workspace_container m)
     \<and> separate (hes_container_path x) (mp_container_home m)
     \<and> (case mp_control_host m of Some dir \<Rightarrow> separate (hes_host_path x) dir | None \<Rightarrow> True)
     \<and> (case mp_control_container m of Some dir \<Rightarrow> separate (hes_container_path x) dir | None \<Rightarrow> True)
     \<and> list_all (\<lambda>mount. separate (hes_host_path x) (ms_source mount) \<and> separate (hes_container_path x) (ms_target mount))
         (mp_mounts m)
     \<and> path_is_absolute (hes_container_path x)
     \<and> name_ok (hes_readiness_user x)
     \<and> (\<exists>st. h_lstat h (hes_host_path x) = Inr (Some st) \<and> st_kind st = Socket
          \<and> si_device (hes_source_identity x) = st_device st \<and> si_inode (hes_source_identity x) = st_inode st)"

definition prepared_ok :: "host \<Rightarrow> managed_paths \<Rightarrow> prepared_so_far \<Rightarrow> bool" where
  "prepared_ok h m so_far = (case so_far of (hosts, containers, xs) \<Rightarrow>
     set hosts = hes_host_path ` set xs \<and> set containers = hes_container_path ` set xs
     \<and> sorted_wrt separate (map hes_host_path xs) \<and> sorted_wrt separate (map hes_container_path xs)
     \<and> list_all (exposure_ok h m) xs)"

lemma prepare_exposure_ok:
  assumes "prepared_ok h m so_far" and "prepare_exposure h vars realization m name config so_far = Inr so_far'"
  shows "prepared_ok h m so_far' \<and> (\<exists>x. snd (snd so_far') = snd (snd so_far) @ [x]
    \<and> hes_name x = name \<and> hes_realization x = realization)"
proof -
  obtain hosts containers xs where so_far: "so_far = (hosts, containers, xs)" by (cases so_far)
  obtain host_path container_path user identity where
    checks: "validate_name (''host_socket_exposures.'' @ name @ ''.user'') user = Inr ()"
      "unix_socket_identity h host_path name = Inr identity" "path_is_absolute container_path"
      "check_exposure_paths m name host_path container_path hosts containers = Inr ()"
    and so_far': "so_far' = (insort_key path_components host_path hosts,
        insort_key path_components container_path containers,
        xs @ [\<lparr>hes_name = name, hes_host_path = host_path, hes_container_path = container_path,
          hes_readiness_user = user, hes_selinux_relabel = hse_selinux_relabel config,
          hes_realization = realization, hes_source_identity = identity\<rparr>])"
    using assms(2)
    by (auto simp: prepare_exposure_def so_far Let_def res_simps validate_normalized_container_path_def)
  have overlaps: "\<forall>p \<in> set hosts. separate host_path p" "\<forall>p \<in> set containers. separate container_path p"
    using checks(4) by (auto simp: check_exposure_paths_def Let_def reject_path_overlap_iff)
  then have "\<forall>x \<in> set xs. separate (hes_host_path x) host_path \<and> separate (hes_container_path x) container_path"
    using assms(1) separate_sym by (auto simp: prepared_ok_def so_far)
  moreover have "exposure_ok h m \<lparr>hes_name = name, hes_host_path = host_path, hes_container_path = container_path,
          hes_readiness_user = user, hes_selinux_relabel = hse_selinux_relabel config,
          hes_realization = realization, hes_source_identity = identity\<rparr>"
    using checks
    by (auto simp: exposure_ok_def check_exposure_paths_def Let_def reject_path_overlap_iff given_Inr
        list_all_iff unix_socket_identity_def res_simps split: option.splits)
  ultimately show ?thesis
    using assms(1) by (auto simp: prepared_ok_def so_far so_far' sorted_wrt_append set_insort_key)
qed

lemma prepare_loop_ok:
  assumes "prepared_ok h m so_far" and "prepare_loop h vars realization m configured so_far = Inr so_far'"
  shows "prepared_ok h m so_far' \<and> map hes_name (snd (snd so_far')) = map hes_name (snd (snd so_far)) @ map fst configured"
  using assms
proof (induction configured arbitrary: so_far)
  case (Cons entry rest)
  obtain name config where entry: "entry = (name, config)" by (cases entry)
  with Cons.prems obtain next_state where step: "prepare_exposure h vars realization m name config so_far = Inr next_state"
    and rest: "prepare_loop h vars realization m rest next_state = Inr so_far'"
    by (auto simp: and_then_Inr)
  from prepare_exposure_ok [OF Cons.prems(1) step] Cons.IH [OF _ rest] entry show ?case by auto
qed simp

text \<open>C16. Prepared sockets overlap nothing. When the exposures of a target are prepared, there is one for each
  that is configured; each is a socket on the host when it is looked at, and its inode is recorded; the
  paths on the host and the paths in the container contain none of each other, and none contains or is
  contained in the canonical workspace, the home of the container, the directory of the control
  sockets or any other mount.\<close>

theorem prepared_sockets_overlap_nothing:
  assumes "prepare_host_socket_exposures sha256 h configured vars kind m = Inr p"
  shows "map hes_name (pi_exposures p) = map fst configured
    \<and> sorted_wrt separate (map hes_host_path (pi_exposures p))
    \<and> sorted_wrt separate (map hes_container_path (pi_exposures p))
    \<and> (pi_exposures p = []
       \<or> (\<exists>workspace control. h_canonicalize h (mp_workspace_host m) = Inr workspace
            \<and> list_all (exposure_ok h (m\<lparr>mp_workspace_host := workspace, mp_control_host := control,
                mp_mounts := pi_mounts p\<rparr>)) (pi_exposures p)
            \<and> (case mp_control_host m of Some dir \<Rightarrow> map_ok Some (h_canonicalize h dir) = Inr control | None \<Rightarrow> True)))"
proof (cases "configured = []")
  case True
  with assms show ?thesis by (auto simp: prepare_host_socket_exposures_def)
next
  case False
  obtain workspace control mounts realization so_far where
    steps: "h_canonicalize h (mp_workspace_host m) = Inr workspace"
      "case mp_control_host m of Some dir \<Rightarrow> map_ok Some (h_canonicalize h dir) = Inr control | None \<Rightarrow> control = None"
      "prepare_loop h vars realization
        (m\<lparr>mp_workspace_host := workspace, mp_control_host := control, mp_mounts := mounts\<rparr>) configured ([], [], [])
       = Inr so_far"
    and p: "pi_mounts p = mounts" "pi_exposures p = snd (snd so_far)"
    using assms False by (auto simp: prepare_host_socket_exposures_def res_simps split: option.splits)
  from prepare_loop_ok [OF _ steps(3)] steps p show ?thesis
    by (cases so_far) (auto simp: prepared_ok_def split: option.splits)
qed

section \<open>Witnesses\<close>

definition demo_socket_host :: host where
  "demo_socket_host = demo_host\<lparr>h_lstat := \<lambda>path. Inr (if path = ''/srv/agent.sock''
     then Some \<lparr>st_kind = Socket, st_device = 1, st_inode = 2, st_uid = 7, st_gid = 7, st_mode = 0\<rparr> else None)\<rparr>"

definition demo_configured :: "(string, host_socket_exposure) btree" where
  "demo_configured = [(''agent'', \<lparr>hse_host_path = ''/srv/agent.sock'', hse_container_path = ''/run/agent.sock'',
     hse_user = ''ann'', hse_selinux_relabel = RelabelNone\<rparr>)]"

definition demo_managed :: managed_paths where
  "demo_managed = \<lparr>mp_workspace_host = ''/home/ann/w'', mp_workspace_container = ''/work'',
     mp_container_home = ''/home/ann'', mp_control_host = None, mp_control_container = None, mp_mounts = []\<rparr>"

definition demo_exposed :: "nat \<Rightarrow> exposure_spec" where
  "demo_exposed inode = \<lparr>hes_name = ''agent'', hes_host_path = ''/srv/agent.sock'', hes_container_path = ''/run/agent.sock'',
     hes_readiness_user = ''ann'', hes_selinux_relabel = RelabelNone, hes_realization = PinnedInode,
     hes_source_identity = \<lparr>si_device = 1, si_inode = inode, si_uid = 7, si_gid = 7, si_mode = 0\<rparr>\<rparr>"

lemma demo_prepared: "prepare_host_socket_exposures sha256 demo_socket_host demo_configured [] Docker demo_managed
    = Inr \<lparr>pi_mounts = [], pi_exposures = [demo_exposed 2],
           pi_manifest = Some (exposure_manifest sha256 [demo_exposed 2])\<rparr>"
proof -
  have loop: "prepare_loop demo_socket_host [] PinnedInode demo_managed demo_configured ([], [], [])
      = Inr ([''/srv/agent.sock''], [''/run/agent.sock''], [demo_exposed 2])"
    by code_simp
  have checks: "validate_normalized_container_path ''workspace container path'' ''/work'' = Inr ()"
    "validate_normalized_container_path ''container home'' ''/home/ann'' = Inr ()" by code_simp+
  have managed: "demo_managed\<lparr>mp_workspace_host := ''/home/ann/w'', mp_control_host := None, mp_mounts := []\<rparr> = demo_managed"
    by (simp add: demo_managed_def)
  have "h_canonicalize demo_socket_host = Inr" by (simp add: demo_socket_host_def demo_host_def)
  then show ?thesis
    using loop checks managed
    by (simp add: prepare_host_socket_exposures_def canonicalize_mounts_def exposure_realization_of_def
        demo_configured_def demo_managed_def)
qed

theorem prepared_sockets_overlap_nothing_witness:
  "separate ''/run/agent.sock'' ''/home/ann'' \<and> separate ''/srv/agent.sock'' ''/home/ann/w''"
proof -
  have "h_canonicalize demo_socket_host ''/home/ann/w'' = Inr ''/home/ann/w''"
    by (simp add: demo_socket_host_def demo_host_def)
  with prepared_sockets_overlap_nothing [OF demo_prepared] show ?thesis
    by (auto simp: exposure_ok_def demo_managed_def demo_exposed_def)
qed

lemma demo_exposed_sized: "inode < u64_limit \<Longrightarrow> u64_sized (demo_exposed inode)"
  unfolding u64_sized_def
  by (auto simp: demo_exposed_def list_all_iff u64_limit_def intro!: le_less_trans [OF utf8_bytes_length])

theorem manifest_identifies_exposures_witness:
  "exposure_message [demo_exposed 2] \<noteq> exposure_message [demo_exposed 3]"
proof -
  have "list_all u64_sized [demo_exposed 2]" "list_all u64_sized [demo_exposed 3]"
    by (simp_all add: demo_exposed_sized u64_limit_def)
  from manifest_identifies_exposures [OF this] show ?thesis
    by (auto simp: covered_def demo_exposed_def)
qed

end
