(* ===== verification/Container_Spec.thy ===== *)
theory Container_Spec
  imports Host_Sockets
begin

text \<open>
  \<open>gateway/container_spec.rs\<close>: the labels a container carries and what the gateway checks of them
  before it uses one, the variables of its templates, its mounts and its environment, and the whole
  specification it is run with; and the configuration files that \<open>gateway/control_sockets.rs\<close> writes
  for the programs in the container (their TOML text is the library).
\<close>

section \<open>Labels\<close>

definition WORKSPACE_SOURCE_LABEL :: string where
  "WORKSPACE_SOURCE_LABEL = ''io.aw-gateway.workspace.source''"
definition WORKSPACE_TARGET_LABEL :: string where
  "WORKSPACE_TARGET_LABEL = ''io.aw-gateway.workspace.target''"
definition WORKSPACE_STATE_HOST_LABEL :: string where
  "WORKSPACE_STATE_HOST_LABEL = ''io.aw-gateway.workspace.state_host''"
definition WORKSPACE_STATE_CONTAINER_LABEL :: string where
  "WORKSPACE_STATE_CONTAINER_LABEL = ''io.aw-gateway.workspace.state_container''"

lemmas label_defs = WORKSPACE_SOURCE_LABEL_def WORKSPACE_TARGET_LABEL_def WORKSPACE_STATE_HOST_LABEL_def
  WORKSPACE_STATE_CONTAINER_LABEL_def HOST_SOCKET_EXPOSURE_MANIFEST_LABEL_def

fun mode_text :: "target_mode \<Rightarrow> string" where
  "mode_text Fixed = ''fixed''"
| "mode_text Ephemeral = ''ephemeral''"

definition validation_labels :: "runtime \<Rightarrow> env_map" where
  "validation_labels r = bt_extend
     (bt_extend []
       [(''io.aw-gateway.gateway'', ''true''), (''io.aw-gateway.user'', uc_user (id_user (gw_identity r))),
        (''io.aw-gateway.uid'', show_nat (uc_uid (id_user (gw_identity r)))),
        (''io.aw-gateway.target'', id_target_name (gw_identity r)),
        (''io.aw-gateway.container_id'', id_container_name (gw_identity r))])
     (map (\<lambda>(key, v). (context_label_key key, v)) (gw_context r))"

definition workspace_layout_labels :: "runtime \<Rightarrow> env_map" where
  "workspace_layout_labels r = bt_extend []
     [(WORKSPACE_SOURCE_LABEL, pt_workspace (gw_paths r)),
      (WORKSPACE_TARGET_LABEL, pt_workspace_container_path (gw_paths r)),
      (WORKSPACE_STATE_HOST_LABEL, pt_workspace_state_dir (gw_paths r)),
      (WORKSPACE_STATE_CONTAINER_LABEL, pt_workspace_state_dir_in_container (gw_paths r))]"

definition labels_with_exposure_manifest :: "runtime \<Rightarrow> string option \<Rightarrow> env_map" where
  "labels_with_exposure_manifest r manifest =
     bt_extend (bt_extend (bt_extend (validation_labels r)
         [(''io.aw-gateway.image'', tgt_image (gw_target r)), (''io.aw-gateway.access'', access_name r),
          (''io.aw-gateway.mode'', mode_text (tgt_mode (gw_target r)))])
       (workspace_layout_labels r))
       ((case id_session_id (gw_identity r) of Some s \<Rightarrow> [(''io.aw-gateway.session_id'', s)] | None \<Rightarrow> [])
        @ (case (tgt_mode (gw_target r), id_launch_name (gw_identity r)) of
             (Ephemeral, Some launch) \<Rightarrow> [(''io.aw-gateway.launch'', launch)] | _ \<Rightarrow> [])
        @ (case manifest of Some v \<Rightarrow> [(HOST_SOCKET_EXPOSURE_MANIFEST_LABEL, v)] | None \<Rightarrow> []))"

definition validate_stable_labels :: "runtime \<Rightarrow> container_inspect \<Rightarrow> unit res" where
  "validate_stable_labels r inspect = seq_checks
     [validate_gateway_labels inspect (validation_labels r),
      bail_if (\<not> matches_stored (gw_context r) (context_from_labels (ci_labels inspect)))
        (Bail ''container context does not match supplied runtime context'' [])]"

definition validate_access_label :: "runtime \<Rightarrow> container_inspect \<Rightarrow> unit res" where
  "validate_access_label r inspect =
     (case bt_get (ci_labels inspect) ''io.aw-gateway.access'' of
        Some actual \<Rightarrow> bail_if (actual \<noteq> access_name r)
          (Bail ''container {} access label {} does not match configured access.method {}; stop or remove the existing container before switching access methods''
            [id_container_name (gw_identity r), actual, access_name r])
      | None \<Rightarrow> bail_if (\<not> uses_ssh_access r)
          (Bail ''container {} is missing io.aw-gateway.access and cannot be reused for access.method = runtime_exec; remove the existing container before using runtime-exec access''
            [id_container_name (gw_identity r)]))"

definition legacy_default_layout :: "runtime \<Rightarrow> bool" where
  "legacy_default_layout r \<longleftrightarrow>
     path_eq (pt_workspace_container_path (gw_paths r)) (id_container_home (gw_identity r))
     \<and> path_eq (pt_workspace_state_dir_in_container (gw_paths r))
         (path_join (id_container_home (gw_identity r)) ''.aw-gateway'')"

definition validate_workspace_layout_labels :: "runtime \<Rightarrow> container_inspect \<Rightarrow> unit res" where
  "validate_workspace_layout_labels r inspect =
     (if \<not> list_ex (bt_contains (ci_labels inspect)) (bt_keys (workspace_layout_labels r)) \<and> legacy_default_layout r
      then Inr ()
      else with_context (''container '' @ id_container_name (gw_identity r) @
             '' workspace layout does not match the configured workspace mount; remove the existing container before using the new layout'')
           (validate_gateway_labels inspect (workspace_layout_labels r)))"

definition validate_labels :: "runtime \<Rightarrow> container_inspect \<Rightarrow> unit res" where
  "validate_labels r inspect = seq_checks
     [validate_stable_labels r inspect, validate_access_label r inspect, validate_workspace_layout_labels r inspect]"

section \<open>The variables of a runtime\<close>

definition runtime_vars :: "host \<Rightarrow> runtime \<Rightarrow> string option \<Rightarrow> vars" where
  "runtime_vars h r container_pid =
     (let i = gw_identity r; p = gw_paths r in
      bt_extend (insert_template_vars (gw_context r) (bt_extend []
        ([(''user'', uc_user (id_user i)), (''uid'', show_nat (id_session_uid i)),
          (''gid'', show_nat (id_session_gid i)), (''home'', uc_home (id_user i)),
          (''container_user'', id_container_user i), (''container_home'', id_container_home i),
          (''workspace'', pt_workspace p), (''state'', pt_workspace_state_dir p),
          (''state_dir'', user_state_dir h (id_user i)), (''target'', id_target_name i)]
         @ (case id_session_id i of Some s \<Rightarrow> [(''session_id'', s)] | None \<Rightarrow> []))))
        ([(''image'', tgt_image (gw_target r)), (''image_slug'', image_slug (tgt_image (gw_target r))),
          (''container_name'', id_container_name i), (''container_state_dir'', pt_container_state_dir p),
          (''container_state_dir_in_container'', pt_container_state_dir_in_container p)]
         @ (case container_pid of Some pid \<Rightarrow> [(''container_pid'', pid)] | None \<Rightarrow> [])))"

definition ensure_runtime_template_value_supported :: "runtime \<Rightarrow> string option \<Rightarrow> string \<Rightarrow> unit res" where
  "ensure_runtime_template_value_supported r container_pid v =
     (if container_pid = None \<and> crt_kind (gw_runtime r) = AppleContainer
      then and_then (referenced_keys v) (\<lambda>keys.
        bail_if (''container_pid'' \<in> set keys)
          (Bail ''apple_container runtime did not report a container PID; {container_pid} is not available for target {}''
            [id_target_name (gw_identity r)]))
      else Inr ())"

definition ensure_runtime_template_values_supported :: "runtime \<Rightarrow> string option \<Rightarrow> string list \<Rightarrow> unit res" where
  "ensure_runtime_template_values_supported r container_pid values =
     each (ensure_runtime_template_value_supported r container_pid) values"

definition render_runtime_value :: "runtime \<Rightarrow> vars \<Rightarrow> string option \<Rightarrow> string \<Rightarrow> string res" where
  "render_runtime_value r vars container_pid v =
     and_then (ensure_runtime_template_value_supported r container_pid v) (\<lambda>_. render v vars)"

definition render_runtime_argv :: "runtime \<Rightarrow> vars \<Rightarrow> string option \<Rightarrow> string list \<Rightarrow> string list res" where
  "render_runtime_argv r vars container_pid command = collect_ok (render_runtime_value r vars container_pid) command"

definition render_value :: "host \<Rightarrow> runtime \<Rightarrow> string \<Rightarrow> string res" where
  "render_value h r v = render v (runtime_vars h r None)"

definition render_env_map :: "host \<Rightarrow> runtime \<Rightarrow> env_map \<Rightarrow> env_map res" where
  "render_env_map h r env =
     map_ok (bt_extend []) (collect_ok (\<lambda>(key, v). map_ok (Pair key) (render_value h r v)) env)"

definition exec_identity :: "runtime \<Rightarrow> string" where
  "exec_identity r =
     (if is_podman (gw_runtime r)
      then show_nat (id_session_uid (gw_identity r)) @ '':'' @ show_nat (id_session_gid (gw_identity r))
      else id_container_user (gw_identity r))"

definition bootstrap_identity :: "runtime \<Rightarrow> string" where
  "bootstrap_identity r = (if is_podman (gw_runtime r) then ''0:0'' else id_bootstrap_user (gw_identity r))"

definition passwd_entry :: "runtime \<Rightarrow> string" where
  "passwd_entry r =
     (let i = gw_identity r in
      join '':'' [id_container_user i, ''x'', show_nat (id_session_uid i), show_nat (id_session_gid i),
        id_container_user i, id_container_home i, id_session_shell i])"

definition DEFAULT_SESSION_SHELL_ENV :: string where
  "DEFAULT_SESSION_SHELL_ENV = ''/usr/bin/bash''"

definition session_env_with_lookup :: "host \<Rightarrow> runtime \<Rightarrow> (string \<Rightarrow> string option) \<Rightarrow> env_map res" where
  "session_env_with_lookup h r lookup =
     (let env = bt_extend []
        [(''SHELL'', DEFAULT_SESSION_SHELL_ENV), (''PATH'', ''/usr/local/bin:/usr/bin:/bin:/usr/sbin:/sbin'')];
          env = bt_extend env (List.map_filter (\<lambda>key. map_option (Pair key) (lookup key))
            (tgt_session_env_inherit (gw_target r)))
      in map_ok (bt_extend env) (render_env_map h r (tgt_session_env (gw_target r))))"

definition session_env :: "host \<Rightarrow> runtime \<Rightarrow> env_map res" where
  "session_env h r = session_env_with_lookup h r (h_var h)"

section \<open>Mounts\<close>

definition validate_bind_mount_path :: "string \<Rightarrow> string \<Rightarrow> unit res" where
  "validate_bind_mount_path label path =
     bail_if (contains_str '':'' path \<or> contains_str '','' path)
       (Bail (''{} must not contain ':' or ','' @ [CHR 0x27]) [label])"

record mount_inputs =
  mi_configured :: "container_mount list"
  mi_vars :: vars
  mi_host_dir :: string
  mi_container_dir :: string
  mi_include_control_socket :: bool

definition container_mount_inputs :: "host \<Rightarrow> runtime \<Rightarrow> mount_inputs" where
  "container_mount_inputs h r =
     \<lparr>mi_configured = tgt_container_mounts (gw_target r), mi_vars = runtime_vars h r None,
      mi_host_dir = csp_host_dir (pt_control_sockets (gw_paths r)),
      mi_container_dir = csp_container_dir (pt_control_sockets (gw_paths r)),
      mi_include_control_socket = requires_control_socket_dir r\<rparr>"

definition render_mount :: "host \<Rightarrow> vars \<Rightarrow> nat \<Rightarrow> container_mount \<Rightarrow> mount_spec res" where
  "render_mount h vars index mount =
     (let source_label = ''container mount source #'' @ show_nat index;
          target_label = ''container mount target #'' @ show_nat index in
      and_then (render (cm_source mount) vars) (\<lambda>rendered.
      and_then (canonicalize_generic_mount_source h rendered source_label) (\<lambda>source.
      and_then (validate_bind_mount_path source_label source) (\<lambda>_.
      and_then (render (cm_target mount) vars) (\<lambda>target.
      and_then (seq_checks [validate_normalized_container_path target_label target,
          validate_bind_mount_path target_label target]) (\<lambda>_. Inr
        \<lparr>ms_source = source, ms_target = target, ms_readonly = (cm_mode mount = MountRo)\<rparr>))))))"

definition render_container_mounts :: "host \<Rightarrow> mount_inputs \<Rightarrow> mount_spec list res" where
  "render_container_mounts h inputs =
     and_then (collect_ok (\<lambda>(index, mount). render_mount h (mi_vars inputs) index mount)
       (zip [0..<length (mi_configured inputs)] (mi_configured inputs))) (\<lambda>mounts.
     if mi_include_control_socket inputs
     then map_ok (\<lambda>_. mounts @ [\<lparr>ms_source = mi_host_dir inputs, ms_target = mi_container_dir inputs, ms_readonly = False\<rparr>])
       (seq_checks [validate_bind_mount_path ''control socket host directory'' (mi_host_dir inputs),
          validate_bind_mount_path ''control socket container directory'' (mi_container_dir inputs)])
     else Inr mounts)"

definition warn_about_unsafe_container_mounts :: "host \<Rightarrow> mount_spec list \<Rightarrow> unit res" where
  "warn_about_unsafe_container_mounts h mounts =
     each (\<lambda>(index, mount).
       and_then (with_context (''stat container mount source #'' @ show_nat index @ '' '' @ ms_source mount)
         (existing (h_stat h (ms_source mount)))) (\<lambda>st.
       bail_if (st_mode st AND 2 \<noteq> 0 \<and> \<not> ms_readonly mount)
         (Bail ''container mount source #{} {} is world-writable; refusing read-write mount''
           [show_nat index, ms_source mount]))) (zip [0..<length mounts] mounts)"

text \<open>\<open>validate_host_socket_exposure_support\<close> asks the client of the runtime; its outcome is given.\<close>

definition prepare_container_inputs ::
  "(8 word list \<Rightarrow> 8 word list) \<Rightarrow> host \<Rightarrow> runtime \<Rightarrow> unit res \<Rightarrow> prepared_inputs res" where
  "prepare_container_inputs sha256 h r supported =
     and_then supported (\<lambda>_.
     and_then (render_container_mounts h (container_mount_inputs h r)) (\<lambda>mounts.
     and_then (warn_about_unsafe_container_mounts h mounts) (\<lambda>_.
     prepare_host_socket_exposures sha256 h (tgt_host_socket_exposures (gw_target r)) (runtime_vars h r None)
       (crt_kind (gw_runtime r))
       \<lparr>mp_workspace_host = pt_workspace (gw_paths r),
        mp_workspace_container = pt_workspace_container_path (gw_paths r),
        mp_container_home = id_container_home (gw_identity r),
        mp_control_host = (if requires_control_socket_dir r
          then Some (csp_host_dir (pt_control_sockets (gw_paths r))) else None),
        mp_control_container = (if requires_control_socket_dir r
          then Some (csp_container_dir (pt_control_sockets (gw_paths r))) else None),
        mp_mounts = mounts\<rparr>)))"

section \<open>What a container is run with\<close>

definition container_agent_config_in_container :: "runtime \<Rightarrow> string" where
  "container_agent_config_in_container r =
     path_join (pt_container_state_dir_in_container (gw_paths r)) ''container-agent.toml''"

definition container_bootstrap_config_in_container :: "runtime \<Rightarrow> string" where
  "container_bootstrap_config_in_container r =
     path_join (pt_container_state_dir_in_container (gw_paths r)) ''container-bootstrap.toml''"

definition container_command :: "host \<Rightarrow> runtime \<Rightarrow> string list res" where
  "container_command h r =
     (if agent_enabled r
      then if cb_enabled (tgt_container_bootstrap (gw_target r))
        then map_ok (\<lambda>entrypoint. [entrypoint, ''--config'', container_agent_config_in_container r,
              ''--bootstrap-config'', container_bootstrap_config_in_container r])
            (render_value h r (cb_entrypoint (tgt_container_bootstrap (gw_target r))))
        else Inr [''aw-container-agent'', ''--config'', container_agent_config_in_container r, ''run'']
      else Inr [''sleep'', ''infinity''])"

definition run_environment :: "runtime \<Rightarrow> string option \<Rightarrow> string option \<Rightarrow> env_map" where
  "run_environment r identity_token control_token = bt_extend []
     ((case identity_token of Some t \<Rightarrow> [(''AW_IDENTITY_TOKEN'', t)] | None \<Rightarrow> [])
      @ (case control_token of Some t \<Rightarrow> [(''AW_CONTAINER_CONTROL_TOKEN'', t)] | None \<Rightarrow> [])
      @ (if agent_enabled r
         then [(''AW_AUTHENTICATED_UID'', show_nat (uc_uid (id_user (gw_identity r)))),
               (''AW_AUTHENTICATED_GID'', show_nat (uc_gid (id_user (gw_identity r))))] else []))"

definition container_run_spec_with_inputs ::
  "host \<Rightarrow> runtime \<Rightarrow> string option \<Rightarrow> string option \<Rightarrow> prepared_inputs \<Rightarrow> nat option \<Rightarrow> run_spec res" where
  "container_run_spec_with_inputs h r identity_token control_token prepared published_port =
     (let i = gw_identity r; p = gw_paths r; t = gw_target r in
      and_then (render_env_map h r (tgt_container_env t)) (\<lambda>configured_env.
      and_then (seq_checks
        [validate_bind_mount_path ''workspace path'' (pt_workspace p),
         validate_bind_mount_path ''container_home'' (id_container_home i),
         validate_bind_mount_path ''workspace.container_path'' (pt_workspace_container_path p)]) (\<lambda>_.
      and_then (container_command h r) (\<lambda>command.
      and_then (collect_ok (render_value h r) (tr_extra_run_args (tgt_runtime t))) (\<lambda>extra_run_args. Inr
       \<lparr>rs_name = id_container_name i, rs_hostname = id_container_name i, rs_image = tgt_image t,
        rs_workspace = pt_workspace p, rs_workspace_container_path = pt_workspace_container_path p,
        rs_container_home = id_container_home i,
        rs_container_user = (if cb_enabled (tgt_container_bootstrap t) then bootstrap_identity r
          else id_container_user i),
        rs_passwd_entry = (if is_podman (gw_runtime r) then Some (passwd_entry r) else None),
        rs_state_dir_in_container = pt_container_state_dir_in_container p,
        rs_mounts = pi_mounts prepared, rs_exposures = pi_exposures prepared,
        rs_env = bt_extend (run_environment r identity_token control_token) configured_env,
        rs_labels = labels_with_exposure_manifest r (pi_manifest prepared),
        rs_publish_ssh = (ssh_endpoint_configured r \<and> ssh_backend r = PublishedPort),
        rs_published_ssh_host_port = published_port,
        rs_extra_run_args = extra_run_args, rs_command = command\<rparr>)))))"

section \<open>The files for the programs in the container\<close>

definition inner_authorized_keys_in_container :: "runtime \<Rightarrow> string" where
  "inner_authorized_keys_in_container r =
     path_join (pt_workspace_state_dir_in_container (gw_paths r)) ''ssh/authorized_keys''"

definition ssh_command_filter_policy_in_container :: "runtime \<Rightarrow> string" where
  "ssh_command_filter_policy_in_container r =
     path_join (pt_container_state_dir_in_container (gw_paths r)) ''ssh-command-filter.toml''"

definition sshd_session_env_config_in_container :: "runtime \<Rightarrow> string" where
  "sshd_session_env_config_in_container r =
     path_join (pt_container_state_dir_in_container (gw_paths r)) ''sshd-session-env.conf''"

definition plain_env_value :: "string \<Rightarrow> env_value" where
  "plain_env_value v = \<lparr>ev_value = Some v, ev_file = None, ev_inherit = None, ev_interpolate = False, ev_required = True\<rparr>"

definition inject_sshd_env :: "runtime \<Rightarrow> service_config \<Rightarrow> service_config res" where
  "inject_sshd_env r service =
     (if sc_name service \<noteq> ''container-sshd'' then Inr service
      else
        (let keys = inner_authorized_keys_in_container r in
         and_then (bail_if (list_ex (\<lambda>c. is_whitespace c \<or> c = CHR ''#'') keys)
           (Bail (''managed container authorized-keys path {} cannot contain whitespace or '' @ [CHR 0x27] @ ''#'' @ [CHR 0x27])
             [keys])) (\<lambda>_.
         let env = bt_insert ''AW_SSHD_AUTHORIZED_KEYS_FILE'' (plain_env_value keys)
               (bt_insert ''AW_SSHD_POLICY_CONFIG'' (plain_env_value (ssh_command_filter_policy_in_container r))
                 (sc_env service))
         in Inr (service\<lparr>sc_env :=
              (if bt_contains env ''AW_SSHD_SETENV_CONFIG'' then env
               else bt_insert ''AW_SSHD_SETENV_CONFIG'' (plain_env_value (sshd_session_env_config_in_container r)) env)\<rparr>))))"

definition render_managed_service :: "vars \<Rightarrow> service_config \<Rightarrow> service_config res" where
  "render_managed_service vars service =
     (if sc_user service = SERVICE_USER_TEMPLATE
      then map_ok (\<lambda>user. service\<lparr>sc_user := user\<rparr>) (render (sc_user service) vars)
      else Inr service)"

definition agent_idle_cleanup_of :: "idle_cleanup_config \<Rightarrow> idle_cleanup_config option" where
  "agent_idle_cleanup_of c = (if ic_owner c = OwnerAgent \<and> ic_action c \<noteq> ActionNone then Some c else None)"

definition container_agent_file_of :: "host \<Rightarrow> runtime \<Rightarrow> container_agent_file res" where
  "container_agent_file_of h r =
     (let agent = tgt_container_agent (gw_target r);
          sockets = pt_control_sockets (gw_paths r);
          control = (if agent_control_enabled r then Some (CsPath (csp_container_agent_socket sockets))
            else ca_control_socket agent);
          bridge = map_option (\<lambda>b. if agent_enabled r \<and> sb_enabled b
              then b\<lparr>sb_socket := Some (csp_container_ssh_socket sockets)\<rparr> else b) (ca_ssh_bridge agent) in
      and_then (collect_ok (inject_sshd_env r) (ca_services agent)) (\<lambda>services.
      let idle = (case tgt_idle_cleanup (gw_target r) of
            Some c \<Rightarrow> agent_idle_cleanup_of c | None \<Rightarrow> ca_idle_cleanup agent) in
      and_then (collect_ok (render_managed_service (runtime_vars h r None)) services) (\<lambda>services. Inr
       \<lparr>caf_schema_version = AGENT_SCHEMA_VERSION, caf_logging = logging_default,
        caf_container_agent = agent\<lparr>ca_services := services, ca_ssh_bridge := bridge,
          ca_control_socket := control, ca_idle_cleanup := idle\<rparr>\<rparr>)))"

definition ssh_command_filter_policy_of :: "runtime \<Rightarrow> container_ssh_transfer" where
  "ssh_command_filter_policy_of r =
     \<lparr>cst_sftp = cst_sftp (tgt_container_ssh (gw_target r)),
      cst_legacy_scp = cst_legacy_scp (tgt_container_ssh (gw_target r))\<rparr>"

definition render_bootstrap_step :: "vars \<Rightarrow> bootstrap_step \<Rightarrow> bootstrap_step res" where
  "render_bootstrap_step vars step =
     and_then (render (bs_user step) vars) (\<lambda>user.
     and_then (collect_ok (\<lambda>arg. render arg vars) (bs_command step)) (\<lambda>command. Inr
       \<lparr>bs_name = bs_name step, bs_required = bs_required step, bs_user = user, bs_command = command,
        bs_timeout = bs_timeout step\<rparr>))"

definition container_bootstrap_file_of :: "host \<Rightarrow> runtime \<Rightarrow> container_bootstrap_file res" where
  "container_bootstrap_file_of h r =
     (let vars = runtime_vars h r None; i = gw_identity r in
      and_then (collect_ok (render_bootstrap_step vars) (tgt_container_bootstrap_steps (gw_target r))) (\<lambda>steps.
      and_then (render (cb_agent_program (tgt_container_bootstrap (gw_target r))) vars) (\<lambda>agent_program. Inr
       \<lparr>cbf_schema_version = BOOTSTRAP_SCHEMA_VERSION,
        cbf_agent_program = agent_program,
        cbf_agent_config = container_agent_config_in_container r,
        cbf_skip_identity_prepare = is_podman (gw_runtime r),
        cbf_chown_existing_identity_dirs = (crt_kind (gw_runtime r) \<noteq> AppleContainer),
        cbf_identity = \<lparr>bi_session_user = id_container_user i, bi_session_uid = id_session_uid i,
          bi_session_gid = id_session_gid i, bi_session_home = id_container_home i,
          bi_session_shell = id_session_shell i,
          bi_state_dir = pt_container_state_dir_in_container (gw_paths r)\<rparr>,
        cbf_steps = steps\<rparr>)))"

definition sshd_setenv_entry :: "string \<times> string \<Rightarrow> string res" where
  "sshd_setenv_entry entry =
     (case entry of (key, v) \<Rightarrow>
        map_ok (\<lambda>_. '' '' @ key @ ''='' @ v) (seq_checks
          [bail_if (list_ex is_whitespace key)
             (Bail ''target session_env key {} contains whitespace and cannot be rendered into sshd SetEnv'' [key]),
           bail_if (list_ex is_whitespace v)
             (Bail ''target session_env value for {} contains whitespace and cannot be rendered into sshd SetEnv'' [key])]))"

definition sshd_session_env_config :: "host \<Rightarrow> runtime \<Rightarrow> string res" where
  "sshd_session_env_config h r =
     and_then (render_env_map h r (tgt_session_env (gw_target r))) (\<lambda>env.
     let heading = ''# Generated by aw-gateway. Included by container SSHD helpers when configured.'' @ [CHR 0x0A] in
     if env = [] then Inr heading
     else map_ok (\<lambda>entries. heading @ ''SetEnv'' @ concat entries @ [CHR 0x0A]) (collect_ok sshd_setenv_entry env))"

section \<open>Who recognises a container\<close>

text \<open>The contexts a runtime can have: maps whose keys are slugs.\<close>

definition context_ok :: "runtime_context \<Rightarrow> bool" where
  "context_ok ctx \<longleftrightarrow> bt_ok ctx \<and> list_all slug (bt_keys ctx)"

definition owner :: "runtime \<Rightarrow> string \<times> nat \<times> string \<times> string" where
  "owner r = (uc_user (id_user (gw_identity r)), uc_uid (id_user (gw_identity r)),
     id_target_name (gw_identity r), id_container_name (gw_identity r))"

definition layout :: "runtime \<Rightarrow> string list" where
  "layout r = [pt_workspace (gw_paths r), pt_workspace_container_path (gw_paths r),
     pt_workspace_state_dir (gw_paths r), pt_workspace_state_dir_in_container (gw_paths r)]"

lemma context_key_other:
  "context_label_key k \<noteq> ''io.aw-gateway.gateway''" "context_label_key k \<noteq> ''io.aw-gateway.user''"
  "context_label_key k \<noteq> ''io.aw-gateway.uid''" "context_label_key k \<noteq> ''io.aw-gateway.target''"
  "context_label_key k \<noteq> ''io.aw-gateway.container_id''" "context_label_key k \<noteq> ''io.aw-gateway.image''"
  "context_label_key k \<noteq> ''io.aw-gateway.access''" "context_label_key k \<noteq> ''io.aw-gateway.mode''"
  "context_label_key k \<noteq> ''io.aw-gateway.session_id''" "context_label_key k \<noteq> ''io.aw-gateway.launch''"
  "context_label_key k \<noteq> WORKSPACE_SOURCE_LABEL" "context_label_key k \<noteq> WORKSPACE_TARGET_LABEL"
  "context_label_key k \<noteq> WORKSPACE_STATE_HOST_LABEL" "context_label_key k \<noteq> WORKSPACE_STATE_CONTAINER_LABEL"
  "context_label_key k \<noteq> HOST_SOCKET_EXPOSURE_MANIFEST_LABEL"
  by (simp_all add: context_label_key_def CONTEXT_LABEL_PREFIX_def label_defs)

lemma context_entries:
  assumes "bt_ok ctx"
  shows "distinct (map fst (map (\<lambda>(k, v). (context_label_key k, v)) ctx))"
    and "map_of (map (\<lambda>(k, v). (context_label_key k, v :: string)) ctx) key
      = (case strip_prefix CONTEXT_LABEL_PREFIX key of Some k \<Rightarrow> bt_get ctx k | None \<Rightarrow> None)"
proof -
  have "map fst (map (\<lambda>(k, v). (context_label_key k, v)) ctx) = map context_label_key (map fst ctx)"
    by (induction ctx) auto
  then show "distinct (map fst (map (\<lambda>(k, v). (context_label_key k, v)) ctx))"
    using bt_ok_distinct [OF assms] by (simp only: distinct_map) (simp add: inj_on_def prefix_inj)
  show "map_of (map (\<lambda>(k, v). (context_label_key k, v)) ctx) key
      = (case strip_prefix CONTEXT_LABEL_PREFIX key of Some k \<Rightarrow> bt_get ctx k | None \<Rightarrow> None)"
    by (induction ctx) (auto simp: bt_get_def context_label_key_def strip_prefix_Some strip_prefix_None
        split: option.splits)
qed

definition base_labels :: "runtime \<Rightarrow> (string \<times> string) list" where
  "base_labels r = [(''io.aw-gateway.gateway'', ''true''), (''io.aw-gateway.user'', uc_user (id_user (gw_identity r))),
     (''io.aw-gateway.uid'', show_nat (uc_uid (id_user (gw_identity r)))),
     (''io.aw-gateway.target'', id_target_name (gw_identity r)),
     (''io.aw-gateway.container_id'', id_container_name (gw_identity r))]"

lemma bt_get_extend_entries: "distinct (map fst es) \<Longrightarrow> bt_get (bt_extend [] es) = map_of es"
  by (simp only: bt_get_extend_list [OF bt_ok_Nil]) (simp add: bt_get_def)

lemma validation_labels_get:
  assumes "bt_ok (gw_context r)"
  shows "bt_ok (validation_labels r)"
    and "bt_get (validation_labels r) key = (case strip_prefix CONTEXT_LABEL_PREFIX key of
        Some k \<Rightarrow> bt_get (gw_context r) k | None \<Rightarrow> map_of (base_labels r) key)"
proof -
  have base: "bt_ok (bt_extend [] (base_labels r))" "bt_get (bt_extend [] (base_labels r)) = map_of (base_labels r)"
    by (simp add: bt_ok_extend) (rule bt_get_extend_entries, simp add: base_labels_def)
  have labels: "validation_labels r = bt_extend (bt_extend [] (base_labels r))
      (map (\<lambda>(k, v). (context_label_key k, v)) (gw_context r))"
    by (simp add: validation_labels_def base_labels_def)
  show "bt_ok (validation_labels r)" by (simp add: labels bt_ok_extend)
  have "map_of (base_labels r) (context_label_key k) = None" for k
    by (simp add: base_labels_def context_key_other)
  then show "bt_get (validation_labels r) key = (case strip_prefix CONTEXT_LABEL_PREFIX key of
        Some k \<Rightarrow> bt_get (gw_context r) k | None \<Rightarrow> map_of (base_labels r) key)"
    unfolding labels bt_get_extend_list [OF base(1) context_entries(1) [OF assms]] base(2) map_add_def
      context_entries(2) [OF assms]
    by (auto simp: strip_prefix_Some context_label_key_def split: option.splits)
qed

lemma layout_labels_get:
  "bt_ok (workspace_layout_labels r)"
  "bt_get (workspace_layout_labels r) key = map_of (zip [WORKSPACE_SOURCE_LABEL, WORKSPACE_TARGET_LABEL,
     WORKSPACE_STATE_HOST_LABEL, WORKSPACE_STATE_CONTAINER_LABEL] (layout r)) key"
  by (simp_all add: workspace_layout_labels_def bt_ok_extend bt_get_extend_entries label_defs layout_def)

lemma labels_get:
  fixes r :: runtime and manifest :: "string option"
  assumes "bt_ok (gw_context r)"
  defines "labels \<equiv> labels_with_exposure_manifest r manifest"
  shows "bt_ok labels"
    and "bt_get labels (context_label_key k) = bt_get (gw_context r) k"
    and "key \<in> fst ` set (base_labels r) \<Longrightarrow> bt_get labels key = map_of (base_labels r) key"
    and "bt_get labels ''io.aw-gateway.access'' = Some (access_name r)"
    and "key \<in> set (bt_keys (workspace_layout_labels r)) \<Longrightarrow> bt_get labels key = bt_get (workspace_layout_labels r) key"
    and "bt_get labels HOST_SOCKET_EXPOSURE_MANIFEST_LABEL = manifest"
proof -
  let ?second = "[(''io.aw-gateway.image'', tgt_image (gw_target r)), (''io.aw-gateway.access'', access_name r),
          (''io.aw-gateway.mode'', mode_text (tgt_mode (gw_target r)))]"
  let ?last = "(case id_session_id (gw_identity r) of Some s \<Rightarrow> [(''io.aw-gateway.session_id'', s)] | None \<Rightarrow> [])
        @ (case (tgt_mode (gw_target r), id_launch_name (gw_identity r)) of
             (Ephemeral, Some launch) \<Rightarrow> [(''io.aw-gateway.launch'', launch)] | _ \<Rightarrow> [])
        @ (case manifest of Some v \<Rightarrow> [(HOST_SOCKET_EXPOSURE_MANIFEST_LABEL, v)] | None \<Rightarrow> [])"
  note first = validation_labels_get [OF assms(1)]
  have "distinct (map fst ?second)" "distinct (map fst ?last)"
    by (auto simp: label_defs split: option.splits target_mode.splits)
  then have get: "bt_get labels = ((bt_get (validation_labels r) ++ map_of ?second)
      ++ bt_get (workspace_layout_labels r)) ++ map_of ?last" and ok: "bt_ok labels"
    unfolding labels_def labels_with_exposure_manifest_def
    by (simp_all add: bt_get_extend_list bt_get_extend bt_ok_extend first(1) layout_labels_get(1))
  show "bt_ok labels" by (fact ok)
  have other: "map_of ?last key = None" "map_of ?second key = None \<or> key = ''io.aw-gateway.access''"
    "bt_get (workspace_layout_labels r) key = None"
    if "key \<in> insert ''io.aw-gateway.access'' (range context_label_key \<union> fst ` set (base_labels r))" for key
    using that by (auto simp: base_labels_def label_defs layout_labels_get(2) layout_def context_key_other
        context_key_other [symmetric] context_label_key_def CONTEXT_LABEL_PREFIX_def split: option.splits target_mode.splits)
  show "bt_get labels (context_label_key k) = bt_get (gw_context r) k"
    using other [of "context_label_key k"] context_key_other(7) [of k]
    by (simp add: get map_add_def first(2), simp add: context_label_key_def split: option.splits)
  show "bt_get labels key = map_of (base_labels r) key" if "key \<in> fst ` set (base_labels r)"
  proof -
    have "strip_prefix CONTEXT_LABEL_PREFIX key = None" "key \<noteq> ''io.aw-gateway.access''"
      using that by (auto simp: base_labels_def CONTEXT_LABEL_PREFIX_def)
    then show ?thesis using other [of key] that by (simp add: get map_add_def first(2) split: option.splits)
  qed
  show "bt_get labels ''io.aw-gateway.access'' = Some (access_name r)"
    using other [of "''io.aw-gateway.access''"] by (simp add: get map_add_def split: option.splits)
  show "bt_get labels key = bt_get (workspace_layout_labels r) key" if "key \<in> set (bt_keys (workspace_layout_labels r))"
  proof -
    have "bt_get (workspace_layout_labels r) key \<noteq> None"
      using that by (simp add: bt_get_def bt_keys_def map_of_eq_None_iff)
    then have "key \<in> set [WORKSPACE_SOURCE_LABEL, WORKSPACE_TARGET_LABEL, WORKSPACE_STATE_HOST_LABEL,
        WORKSPACE_STATE_CONTAINER_LABEL]"
      by (auto simp: layout_labels_get(2) layout_def split: if_splits)
    then have "map_of ?last key = None"
      by (auto simp: label_defs split: option.splits target_mode.splits)
    then show ?thesis using \<open>bt_get (workspace_layout_labels r) key \<noteq> None\<close> by (auto simp: get map_add_def)
  qed
  show "bt_get labels HOST_SOCKET_EXPOSURE_MANIFEST_LABEL = manifest"
  proof -
    have "bt_get (validation_labels r) HOST_SOCKET_EXPOSURE_MANIFEST_LABEL = None"
      by (simp add: first(2) base_labels_def label_defs CONTEXT_LABEL_PREFIX_def)
    moreover have "bt_get (workspace_layout_labels r) HOST_SOCKET_EXPOSURE_MANIFEST_LABEL = None"
      by (simp add: layout_labels_get(2) layout_def label_defs)
    ultimately show ?thesis
      by (auto simp: get map_add_def label_defs split: option.splits target_mode.splits)
  qed
qed

lemma list_all_entries:
  "bt_ok m \<Longrightarrow> list_all (\<lambda>(k, v). P k v) m \<longleftrightarrow> (\<forall>k v. bt_get m k = Some v \<longrightarrow> P k v)"
  by (auto simp: list_all_iff dest: bt_get_in bt_in_get)

lemma context_of_labels:
  assumes "context_ok (gw_context r)"
  shows "context_from_labels (labels_with_exposure_manifest r manifest) = gw_context r"
proof (rule bt_eqI)
  have ok: "bt_ok (gw_context r)" using assms by (simp add: context_ok_def)
  show "bt_ok (gw_context r)" by (fact ok)
  have "bt_get (gw_context r) k = None" if "\<not> slug k" for k
    using assms that by (force simp: context_ok_def list_all_iff bt_keys_def bt_get_def map_of_eq_None_iff)
  then show "bt_get (context_from_labels (labels_with_exposure_manifest r manifest)) = bt_get (gw_context r)"
    by (auto simp: context_from_labels_get [OF labels_get(1) [OF ok]] labels_get(2) [OF ok])
qed (rule bt_ok_context_from_labels)

lemma stable_labels_iff:
  assumes ok: "context_ok (gw_context r)" "context_ok (gw_context r')"
    and "ci_labels inspect = labels_with_exposure_manifest r manifest"
  shows "validate_stable_labels r' inspect = Inr ()
    \<longleftrightarrow> owner r' = owner r \<and> matches_stored (gw_context r') (gw_context r)"
proof -
  have ok': "bt_ok (gw_context r)" "bt_ok (gw_context r')" using ok by (simp_all add: context_ok_def)
  note labels = labels_get [OF ok'(1), where manifest = manifest, folded assms(3)]
  have "validate_gateway_labels inspect (validation_labels r') = Inr ()
    \<longleftrightarrow> (\<forall>k v. bt_get (validation_labels r') k = Some v \<longrightarrow> bt_get (ci_labels inspect) k = Some v)"
    by (simp only: validate_gateway_labels_iff list_all_entries [OF validation_labels_get(1) [OF ok'(2)]])
  also have "\<dots> \<longleftrightarrow> owner r' = owner r
      \<and> (\<forall>k v. bt_get (gw_context r') k = Some v \<longrightarrow> bt_get (gw_context r) k = Some v)"
  proof (intro iffI conjI allI impI)
    assume all: "\<forall>k v. bt_get (validation_labels r') k = Some v \<longrightarrow> bt_get (ci_labels inspect) k = Some v"
    show "bt_get (gw_context r) k = Some v" if "bt_get (gw_context r') k = Some v" for k v
      using all that labels(2) [of k]
      by (auto simp: validation_labels_get(2) [OF ok'(2)] context_label_key_def
          dest: spec [of _ "context_label_key k"])
    have "map_of (base_labels r) key = Some v" if "map_of (base_labels r') key = Some v" for key v
    proof -
      have key: "key \<in> fst ` set (base_labels r)" "strip_prefix CONTEXT_LABEL_PREFIX key = None"
        using that by (auto simp: base_labels_def CONTEXT_LABEL_PREFIX_def split: if_splits)
      then have "bt_get (validation_labels r') key = Some v" by (simp add: validation_labels_get(2) [OF ok'(2)] that)
      with all labels(3) [OF key(1)] show ?thesis by auto
    qed
    from this [of "''io.aw-gateway.user''"] this [of "''io.aw-gateway.uid''"] this [of "''io.aw-gateway.target''"]
      this [of "''io.aw-gateway.container_id''"]
    show "owner r' = owner r" by (simp add: base_labels_def owner_def show_nat_inj)
  next
    fix key v
    assume same: "owner r' = owner r
      \<and> (\<forall>k v. bt_get (gw_context r') k = Some v \<longrightarrow> bt_get (gw_context r) k = Some v)"
      and get: "bt_get (validation_labels r') key = Some v"
    have base: "base_labels r' = base_labels r" using same by (simp add: base_labels_def owner_def)
    show "bt_get (ci_labels inspect) key = Some v"
    proof (cases "strip_prefix CONTEXT_LABEL_PREFIX key")
      case None
      with get base have "map_of (base_labels r) key = Some v" by (simp add: validation_labels_get(2) [OF ok'(2)])
      moreover from this have "key \<in> fst ` set (base_labels r)" by (force dest: map_of_SomeD)
      ultimately show ?thesis using labels(3) [of key] by simp
    next
      case (Some k)
      then have "key = context_label_key k" by (simp add: strip_prefix_Some context_label_key_def)
      with get same Some labels(2) [of k] show ?thesis by (simp add: validation_labels_get(2) [OF ok'(2)])
    qed
  qed
  moreover have "matches_stored (gw_context r') (context_from_labels (ci_labels inspect))
      \<longleftrightarrow> matches_stored (gw_context r') (gw_context r)"
    by (simp add: assms(3) context_of_labels [OF ok(1)])
  moreover have "\<forall>k v. bt_get (gw_context r') k = Some v \<longrightarrow> bt_get (gw_context r) k = Some v"
    if "matches_stored (gw_context r') (gw_context r)"
    using that list_all_entries [OF ok'(2)] by (auto simp: matches_stored_def bt_get_def split: if_splits)
  ultimately show ?thesis by (auto simp: validate_stable_labels_def bail_if_Inr)
qed

lemma layout_labels_iff:
  assumes "bt_ok (gw_context r)" and "ci_labels inspect = labels_with_exposure_manifest r manifest"
  shows "validate_workspace_layout_labels r' inspect = Inr () \<longleftrightarrow> layout r' = layout r"
proof -
  note labels = labels_get [OF assms(1), where manifest = manifest, folded assms(2)]
  have keys: "set (bt_keys (workspace_layout_labels r'')) = {WORKSPACE_SOURCE_LABEL, WORKSPACE_TARGET_LABEL,
      WORKSPACE_STATE_HOST_LABEL, WORKSPACE_STATE_CONTAINER_LABEL}" for r''
    by (auto simp: workspace_layout_labels_def bt_extend_def bt_keys_def label_defs)
  have get: "bt_get (ci_labels inspect) key = bt_get (workspace_layout_labels r) key"
    if "key \<in> set (bt_keys (workspace_layout_labels r))" for key
    using labels(5) that .
  have "bt_contains (ci_labels inspect) WORKSPACE_SOURCE_LABEL"
    using get [of WORKSPACE_SOURCE_LABEL] by (simp add: keys bt_contains_get layout_labels_get(2) layout_def)
  then have "list_ex (bt_contains (ci_labels inspect)) (bt_keys (workspace_layout_labels r'))"
    using keys [of r'] by (auto simp: list_ex_iff)
  moreover have "validate_gateway_labels inspect (workspace_layout_labels r') = Inr () \<longleftrightarrow> layout r' = layout r"
  proof -
    have "validate_gateway_labels inspect (workspace_layout_labels r') = Inr ()
      \<longleftrightarrow> (\<forall>k v. bt_get (workspace_layout_labels r') k = Some v \<longrightarrow> bt_get (ci_labels inspect) k = Some v)"
      by (simp only: validate_gateway_labels_iff list_all_entries [OF layout_labels_get(1)])
    also have "\<dots> \<longleftrightarrow> (\<forall>k v. bt_get (workspace_layout_labels r') k = Some v
        \<longrightarrow> bt_get (workspace_layout_labels r) k = Some v)"
    proof -
      have "bt_get (ci_labels inspect) k = bt_get (workspace_layout_labels r) k"
        if "bt_get (workspace_layout_labels r') k = Some v" for k v
      proof -
        have "k \<in> set (bt_keys (workspace_layout_labels r'))"
          using bt_get_in [OF that] by (force simp: bt_keys_def)
        then show ?thesis using get keys by simp
      qed
      then show ?thesis by auto
    qed
    also have "\<dots> \<longleftrightarrow> layout r' = layout r"
    proof
      assume all: "\<forall>k v. bt_get (workspace_layout_labels r') k = Some v
          \<longrightarrow> bt_get (workspace_layout_labels r) k = Some v"
      have distinct_labels: "WORKSPACE_SOURCE_LABEL \<noteq> WORKSPACE_TARGET_LABEL"
        "WORKSPACE_STATE_HOST_LABEL \<notin> {WORKSPACE_SOURCE_LABEL, WORKSPACE_TARGET_LABEL}"
        "WORKSPACE_STATE_CONTAINER_LABEL \<notin> {WORKSPACE_SOURCE_LABEL, WORKSPACE_TARGET_LABEL, WORKSPACE_STATE_HOST_LABEL}"
        by (simp_all add: label_defs)
      have at: "bt_get (workspace_layout_labels r'') WORKSPACE_SOURCE_LABEL = Some (layout r'' ! 0)"
        "bt_get (workspace_layout_labels r'') WORKSPACE_TARGET_LABEL = Some (layout r'' ! 1)"
        "bt_get (workspace_layout_labels r'') WORKSPACE_STATE_HOST_LABEL = Some (layout r'' ! 2)"
        "bt_get (workspace_layout_labels r'') WORKSPACE_STATE_CONTAINER_LABEL = Some (layout r'' ! 3)" for r''
        using distinct_labels by (simp_all add: layout_labels_get(2) layout_def)
      have "layout r' ! 0 = layout r ! 0" "layout r' ! 1 = layout r ! 1" "layout r' ! 2 = layout r ! 2"
        "layout r' ! 3 = layout r ! 3"
        using all [rule_format, OF at(1)] all [rule_format, OF at(2)] all [rule_format, OF at(3)]
          all [rule_format, OF at(4)] at [of r] by simp_all
      then show "layout r' = layout r" by (simp add: layout_def)
    qed (simp add: layout_labels_get(2))
    finally show ?thesis .
  qed
  ultimately show ?thesis by (simp add: validate_workspace_layout_labels_def with_context_Inr)
qed


section \<open>Witnesses\<close>

definition no_inputs :: prepared_inputs where
  "no_inputs = \<lparr>pi_mounts = [], pi_exposures = [], pi_manifest = None\<rparr>"

definition demo_inspect_of :: "env_map \<Rightarrow> container_inspect" where
  "demo_inspect_of labels = \<lparr>ci_id = ''1'', ci_name = ''c'', ci_running = True, ci_pid = Some 1, ci_labels = labels\<rparr>"

lemma demo_parts:
  "map_ok (\<lambda>r. (tgt_container_env (gw_target r), tr_extra_run_args (tgt_runtime (gw_target r)),
      cb_enabled (tgt_container_bootstrap (gw_target r)), gw_context r,
      is_ok (seq_checks [validate_bind_mount_path ''workspace path'' (pt_workspace (gw_paths r)),
         validate_bind_mount_path ''container_home'' (id_container_home (gw_identity r)),
         validate_bind_mount_path ''workspace.container_path'' (pt_workspace_container_path (gw_paths r))])))
     (demo_runtime_of (Some ''s123'')) = Inr ([], [], False, [], True)"
  "map_ok (\<lambda>r. (gw_context r, id_container_name (gw_identity r))) (demo_runtime_of (Some ''s456''))
     = Inr ([], ''alpine-s456'')"
  by code_simp+

lemma demo_spec: "\<exists>r spec. demo_runtime_of (Some ''s123'') = Inr r \<and> gw_context r = []
  \<and> container_run_spec_with_inputs demo_host r None None no_inputs None = Inr spec"
proof -
  from demo_parts(1) obtain r where r: "demo_runtime_of (Some ''s123'') = Inr r" "gw_context r = []"
    and parts: "tgt_container_env (gw_target r) = []" "tr_extra_run_args (tgt_runtime (gw_target r)) = []"
      "\<not> cb_enabled (tgt_container_bootstrap (gw_target r))"
      "seq_checks [validate_bind_mount_path ''workspace path'' (pt_workspace (gw_paths r)),
         validate_bind_mount_path ''container_home'' (id_container_home (gw_identity r)),
         validate_bind_mount_path ''workspace.container_path'' (pt_workspace_container_path (gw_paths r))] = Inr ()"
    by (auto simp: map_ok_Inr is_ok_unit)
  have "is_ok (container_command demo_host r)" using parts(3) by (simp add: container_command_def)
  with parts have "is_ok (container_run_spec_with_inputs demo_host r None None no_inputs None)"
    by (auto simp: container_run_spec_with_inputs_def Let_def render_env_map_def is_ok_iff res_simps
        simp del: seq_checks_Cons_Inr)
  with r show ?thesis by (auto simp: is_ok_iff)
qed


end
