(* ===== verification/Gateway_World.thy ===== *)
theory Gateway_World
  imports Control Exec_Cancel Apple_Preflight Container_Spec
begin

text \<open>
  The gateway at work: the state an operation runs in, the effects it has, and what is known of the
  container from what happened so far. Of \<open>runtime.rs\<close> the functions that start a client, all of
  \<open>fileutil.rs\<close>, and of \<open>gateway/session.rs\<close> the lock.

  An operation maps a state to an answer and the next state. A state is the outside (a parameter type),
  the monotonic clock in nanoseconds, what a process keeps of its own, and the log of what was done.
  The world says how the outside answers an effect, how long that takes, and what becomes of it. An
  operation that is dropped before it ends is not modelled.
\<close>

section \<open>What the gateway keeps in files\<close>

record tcp_endpoint =
  te_host :: string
  te_port :: nat

record session_marker =
  mk_id :: string
  mk_kind :: string
  mk_gateway_pid :: nat
  mk_gateway_start_time :: string
  mk_container :: string
  mk_target :: string
  mk_launch :: "string option"
  mk_context :: runtime_context
  mk_created_at_ms :: nat

record local_listener_status =
  ll_gateway_pid :: nat
  ll_gateway_start_time :: string
  ll_host :: string
  ll_port :: nat
  ll_created_at_ms :: nat

record published_ssh_endpoint_state =
  pe_host :: string
  pe_port :: nat
  pe_container :: string
  pe_target :: string
  pe_target_mode :: string
  pe_runtime_type :: string
  pe_access :: string
  pe_local_ssh_mode :: string
  pe_local_ssh_backend :: string
  pe_configured_port :: "nat option"
  pe_session_id :: "string option"
  pe_context :: runtime_context
  pe_updated_at_ms :: nat

text \<open>How these and the files of a container are written and read, by the TOML and JSON libraries, and how
  an exit status and a duration display.\<close>

record codecs =
  co_agent_toml :: "container_agent_file \<Rightarrow> string res"
  co_bootstrap_toml :: "container_bootstrap_file \<Rightarrow> string res"
  co_policy_toml :: "container_ssh_transfer \<Rightarrow> string res"
  co_marker :: "session_marker \<Rightarrow> string res"
  co_marker_of :: "string \<Rightarrow> session_marker res"
  co_listener :: "local_listener_status \<Rightarrow> string res"
  co_listener_of :: "string \<Rightarrow> local_listener_status res"
  co_endpoint :: "published_ssh_endpoint_state \<Rightarrow> string res"
  co_endpoint_of :: "string \<Rightarrow> published_ssh_endpoint_state res"
  co_json_fields :: "string \<Rightarrow> (string \<Rightarrow> string option) res"
  co_status_text :: "exit_status \<Rightarrow> string"
  co_duration_text :: "nat \<Rightarrow> string"

section \<open>Events, states and worlds\<close>

datatype file_op =
    CreateDirAll string
  | SetMode string "32 word"
  | CreateNew string "32 word"
  | WriteTo string string
  | WriteFile string string
  | CopyFile string string
  | SyncFile string
  | SyncDir string
  | RenameFile string string
  | RemoveFile string
  | RemoveDir string
  | RemoveDirAll string

text \<open>Two kinds of failure are told apart by the code.\<close>

datatype file_failure = NoSuchFile | FileExists | OtherFailure error

fun failure_error :: "file_failure \<Rightarrow> error" where
  "failure_error NoSuchFile = Bail ''No such file or directory (os error 2)'' []"
| "failure_error FileExists = Bail ''File exists (os error 17)'' []"
| "failure_error (OtherFailure e) = e"

text \<open>How a process of the host ended that is given a time: it may not start, its status may not be
  known, and what it wrote to its standard error is kept. Where to connect to.\<close>

datatype process_end =
    NotSpawned error | Waited exit_status string | WaitFailed error | TimedOut string

datatype peer = TcpPeer string nat | UnixPeer string

text \<open>What the agent answers on its control socket, as the code looks at it: whether the line is JSON,
  its field \<open>ok\<close>, whether it has an error, and the reading as each of the types of an answer.\<close>

record agent_reply =
  ar_json :: "unit res"
  ar_id :: string
  ar_ok :: "bool option"
  ar_has_error :: bool
  ar_failure :: "(string \<times> string) res"
  ar_status :: "agent_status res"
  ar_shutdown :: "unit res"
  ar_held :: "bool res"

datatype event =
    Client client_command "client_output res"
  | Inspected string "container_inspect option res"
  | File file_op "file_failure + unit"
  | Process "string list" nat process_end
  | Program "string list"
  | Connected peer
  | Fetched string
  | Asked control_request
  | Executed exec_spec bool
  | Bound nat
  | Slept nat
  | Locked string "unit res"
  | Unlocked string

record 's state =
  st_env :: 's
  st_now :: nat
  st_apple :: "string set"
  st_swept :: "(container_runtime \<times> string \<times> string) set"
  st_log :: "event list"

text \<open>Effects answer, say how long they took, and leave a new outside. \<open>w_client\<close> runs a client to its
  end; \<open>w_capture\<close> and \<open>w_discard\<close> are the commands that a sweep of stale markers runs in the container,
  \<open>w_active\<close> is whether a process of the host is active and \<open>w_swept\<close> what the sweep leaves; \<open>w_endpoint\<close>
  is what the concurrent check of an exposed socket sees round by round, and \<open>w_checked\<close> what these checks
  leave; \<open>w_process\<close> runs
  a command for at most a time, in a directory and with an environment; \<open>w_program\<close> runs one to its end;
  \<open>w_connect\<close> connects, and answers \<open>None\<close> when a limit of time runs out first; \<open>w_fetch\<close> sends a request
  over HTTP and reads what comes, up to a number of bytes; \<open>w_exchange\<close> sends a request to the agent and
  reads its answer, within five seconds; \<open>w_execute\<close> and \<open>w_execute_captured\<close> run a command in the container,
  cancelably or not, and answer \<open>None\<close> when it was cancelled, and \<open>w_execute_limited\<close> for a time; \<open>w_cancelled\<close>
  is whether the operation was cancelled, \<open>w_signal\<close> the signal that cancelled one in the foreground, and \<open>w_terminal\<close> whether its output is a terminal.\<close>

record 's world =
  w_host :: "'s \<Rightarrow> host"
  w_apple :: "'s \<Rightarrow> preflight_world"
  w_decoders :: decoders
  w_codecs :: codecs
  w_sha256 :: "8 word list \<Rightarrow> 8 word list"
  w_pid :: nat
  w_unix_ms :: "'s \<Rightarrow> nat res"
  w_read_dir :: "string \<Rightarrow> 's \<Rightarrow> string list option res"
  w_client :: "client_command \<Rightarrow> 's \<Rightarrow> client_output res \<times> nat \<times> 's"
  w_capture :: "exec_spec \<Rightarrow> 's \<Rightarrow> exec_output res"
  w_discard :: "exec_spec \<Rightarrow> 's \<Rightarrow> int res"
  w_active :: "nat \<Rightarrow> 's \<Rightarrow> bool"
  w_swept :: "'s \<Rightarrow> nat \<times> 's"
  w_endpoint :: "exposure_spec \<Rightarrow> 's \<Rightarrow> endpoint_round list"
  w_checked :: "'s \<Rightarrow> nat \<times> 's"
  w_file :: "file_op \<Rightarrow> 's \<Rightarrow> (file_failure + unit) \<times> nat \<times> 's"
  w_process :: "string list \<Rightarrow> nat \<Rightarrow> string option \<Rightarrow> env_map \<Rightarrow> 's \<Rightarrow> process_end \<times> nat \<times> 's"
  w_program :: "string list \<Rightarrow> 's \<Rightarrow> client_output res \<times> nat \<times> 's"
  w_connect :: "peer \<Rightarrow> nat option \<Rightarrow> 's \<Rightarrow> unit res option \<times> nat \<times> 's"
  w_fetch :: "string \<Rightarrow> nat \<Rightarrow> string \<Rightarrow> nat \<Rightarrow> nat \<Rightarrow> 's \<Rightarrow> string res option \<times> nat \<times> 's"
  w_exchange :: "control_request \<Rightarrow> 's \<Rightarrow> agent_reply res option \<times> nat \<times> 's"
  w_execute :: "exec_spec \<Rightarrow> bool \<Rightarrow> 's \<Rightarrow> int option res \<times> nat \<times> 's"
  w_execute_captured :: "exec_spec \<Rightarrow> bool \<Rightarrow> 's \<Rightarrow> exec_output option res \<times> nat \<times> 's"
  w_execute_limited :: "exec_spec \<Rightarrow> nat \<Rightarrow> 's \<Rightarrow> exit_status res option \<times> nat \<times> 's"
  w_cancelled :: "'s \<Rightarrow> bool"
  w_signal :: "'s \<Rightarrow> int option"
  w_terminal :: "'s \<Rightarrow> bool"
  w_bind :: "nat \<Rightarrow> 's \<Rightarrow> nat res \<times> nat \<times> 's"
  w_sleep :: "nat \<Rightarrow> 's \<Rightarrow> nat \<times> 's"
  w_lock :: "string \<Rightarrow> 's \<Rightarrow> unit res \<times> nat \<times> 's"
  w_unlock :: "string \<Rightarrow> 's \<Rightarrow> nat \<times> 's"

type_synonym ('s, 'a) io = "'s state \<Rightarrow> 'a \<times> 's state"

section \<open>Combinators\<close>

definition pure :: "'a \<Rightarrow> ('s, 'a) io" where
  "pure a = (\<lambda>st. (a, st))"

definition bind_io :: "('s, 'a) io \<Rightarrow> ('a \<Rightarrow> ('s, 'b) io) \<Rightarrow> ('s, 'b) io" where
  "bind_io m f = (\<lambda>st. case m st of (a, st') \<Rightarrow> f a st')"

text \<open>\<open>try_io\<close> is the \<open>?\<close> operator.\<close>

definition try_io :: "('s, 'e + 'a) io \<Rightarrow> ('a \<Rightarrow> ('s, 'e + 'b) io) \<Rightarrow> ('s, 'e + 'b) io" where
  "try_io m f = bind_io m (\<lambda>r. case r of Inl e \<Rightarrow> pure (Inl e) | Inr a \<Rightarrow> f a)"

definition map_io :: "('a \<Rightarrow> 'b) \<Rightarrow> ('s, 'a) io \<Rightarrow> ('s, 'b) io" where
  "map_io f m = bind_io m (\<lambda>a. pure (f a))"

fun each_io :: "('a \<Rightarrow> ('s, 'e + unit) io) \<Rightarrow> 'a list \<Rightarrow> ('s, 'e + unit) io" where
  "each_io f [] = pure (Inr ())"
| "each_io f (x # xs) = try_io (f x) (\<lambda>_. each_io f xs)"

fun all_io :: "('a \<Rightarrow> ('s, unit) io) \<Rightarrow> 'a list \<Rightarrow> ('s, unit) io" where
  "all_io f [] = pure ()"
| "all_io f (x # xs) = bind_io (f x) (\<lambda>_. all_io f xs)"

definition given_io :: "bool \<Rightarrow> ('s, 'e + unit) io \<Rightarrow> ('s, 'e + unit) io" where
  "given_io b m = (if b then m else pure (Inr ()))"

definition when_io :: "bool \<Rightarrow> ('s, unit) io \<Rightarrow> ('s, unit) io" where
  "when_io b m = (if b then m else pure ())"

text \<open>What the outside answers now, and the clock.\<close>

definition observe :: "('s \<Rightarrow> 'a) \<Rightarrow> ('s, 'a) io" where
  "observe f = (\<lambda>st. (f (st_env st), st))"

definition now :: "('s, nat) io" where
  "now = (\<lambda>st. (st_now st, st))"

definition effect :: "('a \<Rightarrow> event) \<Rightarrow> ('s \<Rightarrow> 'a \<times> nat \<times> 's) \<Rightarrow> ('s, 'a) io" where
  "effect ev f = (\<lambda>st. case f (st_env st) of (a, took, env) \<Rightarrow>
     (a, st\<lparr>st_env := env, st_now := st_now st + took, st_log := st_log st @ [ev a]\<rparr>))"

definition note_event :: "event \<Rightarrow> ('s, unit) io" where
  "note_event ev = (\<lambda>st. ((), st\<lparr>st_log := st_log st @ [ev]\<rparr>))"

text \<open>A sleep lasts at least as long as it was asked to.\<close>

definition sleep :: "'s world \<Rightarrow> nat \<Rightarrow> ('s, unit) io" where
  "sleep w d = effect (\<lambda>_. Slept d) (\<lambda>s. case w_sleep w d s of (late, s') \<Rightarrow> ((), d + late, s'))"

text \<open>Time passes in an observation that is not instant.\<close>

definition elapse :: "('s \<Rightarrow> nat \<times> 's) \<Rightarrow> ('s, unit) io" where
  "elapse f = (\<lambda>st. case f (st_env st) of (took, env) \<Rightarrow> ((), st\<lparr>st_env := env, st_now := st_now st + took\<rparr>))"

text \<open>The loops of the gateway: a step either ends the loop, or gives what the loop ends with when the
  deadline has passed; otherwise it pauses. The conditions on the pause and on the clock hold for all
  its loops, since they pause and no step turns back the clock; with them the loop evidently ends.\<close>

function poll :: "'s world \<Rightarrow> nat \<Rightarrow> nat \<Rightarrow> ('s, 'b + 'a) io \<Rightarrow> ('s, 'b + 'a) io" where
  "poll w deadline pause step st = (case step st of (r, st') \<Rightarrow>
     case r of
       Inr a \<Rightarrow> (Inr a, st')
     | Inl b \<Rightarrow>
         if deadline \<le> st_now st' \<or> pause = 0 \<or> st_now st' < st_now st then (Inl b, st')
         else poll w deadline pause step (snd (sleep w pause st')))"
  by pat_completeness auto

lemma sleep_lasts: "st_now st + d \<le> st_now (snd (sleep w d st))"
  by (simp add: sleep_def effect_def split: prod.split)

lemma poll_measure:
  "\<not> (deadline \<le> st_now st' \<or> pause = 0 \<or> st_now st' < st_now st)
    \<Longrightarrow> deadline - st_now (snd (sleep w pause st')) < deadline - st_now st"
  using sleep_lasts [of st' pause w] by linarith

termination poll
  by (relation "measure (\<lambda>(w, deadline, pause, step, st). deadline - st_now st)") (simp_all add: poll_measure)

declare poll.simps [simp del]

section \<open>Starting a client\<close>

text \<open>\<open>async_command\<close>: the preflight of Apple's runtime, once for a program that passed.\<close>

definition async_command :: "'s world \<Rightarrow> container_runtime \<Rightarrow> ('s, unit res) io" where
  "async_command w rt = (\<lambda>st. case preflight (w_apple w (st_env st)) rt (st_apple st) of
     (r, cache) \<Rightarrow> (r, st\<lparr>st_apple := cache\<rparr>))"

definition client_output_of :: "'s world \<Rightarrow> container_runtime \<Rightarrow> client_command \<Rightarrow> ('s, client_output res res) io" where
  "client_output_of w rt cmd = try_io (async_command w rt) (\<lambda>_. map_io Inr (effect (Client cmd) (w_client w cmd)))"

definition inspect_io :: "'s world \<Rightarrow> container_runtime \<Rightarrow> string \<Rightarrow> ('s, container_inspect option res) io" where
  "inspect_io w rt name =
     bind_io (try_io (client_output_of w rt (plain_command rt [''inspect'', name])) (\<lambda>out.
       pure (inspect (w_decoders w) (\<lambda>_. out) rt name))) (\<lambda>r.
     bind_io (note_event (Inspected name r)) (\<lambda>_. pure r))"

definition run_status_io :: "'s world \<Rightarrow> container_runtime \<Rightarrow> string \<Rightarrow> client_command \<Rightarrow> ('s, unit res) io" where
  "run_status_io w rt subcommand cmd =
     try_io (client_output_of w rt cmd) (\<lambda>out. pure (run_status rt subcommand out))"

definition stop_io :: "'s world \<Rightarrow> container_runtime \<Rightarrow> string \<Rightarrow> ('s, unit res) io" where
  "stop_io w rt name = run_status_io w rt ''stop'' (stop_command rt name)"

definition start_io :: "'s world \<Rightarrow> container_runtime \<Rightarrow> string \<Rightarrow> ('s, unit res) io" where
  "start_io w rt name = run_status_io w rt ''start'' (start_command rt name)"

definition rm_io :: "'s world \<Rightarrow> container_runtime \<Rightarrow> string \<Rightarrow> ('s, unit res) io" where
  "rm_io w rt name =
     run_status_io w rt (if crt_kind rt = AppleContainer then ''delete'' else ''rm'') (rm_command rt name)"

text \<open>Arguments of an exposure for Colima, which supports none, are \<open>unreachable!\<close>.\<close>

definition run_detached_io :: "'s world \<Rightarrow> container_runtime \<Rightarrow> run_spec \<Rightarrow> ('s, unit res) io" where
  "run_detached_io w rt spec = bind_io (observe (w_host w)) (\<lambda>h.
     case run_command (h_exists h) rt spec of
       None \<Rightarrow> pure (panic ''internal error: entered unreachable code: common run args are only used by Podman and Docker'')
     | Some cmd \<Rightarrow> run_status_io w rt ''run'' cmd)"

definition exec_quiet_command :: "container_runtime \<Rightarrow> string \<Rightarrow> string \<Rightarrow> string list \<Rightarrow> client_command" where
  "exec_quiet_command rt name user args =
     plain_command rt (''exec'' # (if crt_kind rt = AppleContainer
       then exec_args rt (plain_exec_spec name user args) else name # args))"

definition exec_quiet_io :: "'s world \<Rightarrow> container_runtime \<Rightarrow> string \<Rightarrow> string \<Rightarrow> string list \<Rightarrow> ('s, int res) io" where
  "exec_quiet_io w rt name user args =
     try_io (client_output_of w rt (exec_quiet_command rt name user args)) (\<lambda>out.
       pure (map_ok (\<lambda>o'. unwrap_or 1 (xs_code (co_status o')))
         (with_context (''run '' @ runtime_label rt @ '' exec '' @ name) out)))"

definition exec_io :: "'s world \<Rightarrow> container_runtime \<Rightarrow> exec_spec \<Rightarrow> ('s, int res) io" where
  "exec_io w rt spec =
     try_io (client_output_of w rt (exec_command rt spec)) (\<lambda>out.
       pure (map_ok (\<lambda>o'. exit_code (co_status o')) (with_context (''run '' @ run_exec_text rt spec) out)))"

definition published_port_io :: "'s world \<Rightarrow> container_runtime \<Rightarrow> string \<Rightarrow> nat \<Rightarrow> ('s, published_port option res) io" where
  "published_port_io w rt name port =
     (if crt_kind rt = AppleContainer then pure (Inr None)
      else try_io (client_output_of w rt (plain_command rt (published_port_args name port))) (\<lambda>out.
        pure (published_port_of rt name (\<lambda>_. out) port)))"

definition sweep_stale_cancel_markers_once :: "'s world \<Rightarrow> container_runtime \<Rightarrow> string \<Rightarrow> string \<Rightarrow> ('s, nat option res) io" where
  "sweep_stale_cancel_markers_once w rt container user = (\<lambda>st.
     let swept = sweep_stale_cancel_markers (\<lambda>spec. w_capture w spec (st_env st)) (\<lambda>spec. w_discard w spec (st_env st))
           (\<lambda>pid. w_active w pid (st_env st)) rt container user
     in case (sweep_once (rt, container, user) swept (st_swept st), w_swept w (st_env st)) of
          ((r, keys), (took, env)) \<Rightarrow>
            (r, if (rt, container, user) \<in> st_swept st then st
                else st\<lparr>st_env := env, st_now := st_now st + took, st_swept := keys\<rparr>))"

section \<open>Files\<close>

definition io_context :: "string \<Rightarrow> ('s, 'a res) io \<Rightarrow> ('s, 'a res) io" where
  "io_context c m = map_io (with_context c) m"

definition file_io :: "'s world \<Rightarrow> file_op \<Rightarrow> ('s, file_failure + unit) io" where
  "file_io w f = effect (File f) (w_file w f)"

definition file_step :: "'s world \<Rightarrow> file_op \<Rightarrow> ('s, unit res) io" where
  "file_step w f = map_io (map_err failure_error) (file_io w f)"

definition set_mode :: "'s world \<Rightarrow> string \<Rightarrow> 32 word \<Rightarrow> ('s, unit res) io" where
  "set_mode w path mode =
     io_context (''chmod '' @ show_octal (unat mode) @ '' '' @ path) (file_step w (SetMode path mode))"

definition ensure_private_dir :: "'s world \<Rightarrow> string \<Rightarrow> ('s, unit res) io" where
  "ensure_private_dir w path =
     try_io (io_context (''create '' @ path) (file_step w (CreateDirAll path))) (\<lambda>_. set_mode w path 0x1C0)"

definition remove_if_exists :: "'s world \<Rightarrow> string \<Rightarrow> ('s, unit res) io" where
  "remove_if_exists w path =
     map_io (\<lambda>r. if r = Inl NoSuchFile then Inr ()
       else with_context (''remove '' @ path) (map_err failure_error r)) (file_io w (RemoveFile path))"

datatype file_mode_policy = FixedMode "32 word" | PreserveExisting

record durability_policy =
  du_fsync_file :: bool
  du_fsync_parent_dir :: bool

record atomic_write_policy =
  aw_mode :: file_mode_policy
  aw_durability :: durability_policy

definition durability_none :: durability_policy where
  "durability_none = \<lparr>du_fsync_file = False, du_fsync_parent_dir = False\<rparr>"

definition durability_file_and_parent :: durability_policy where
  "durability_file_and_parent = \<lparr>du_fsync_file = True, du_fsync_parent_dir = True\<rparr>"

definition fixed_no_fsync :: "32 word \<Rightarrow> atomic_write_policy" where
  "fixed_no_fsync mode = \<lparr>aw_mode = FixedMode mode, aw_durability = durability_none\<rparr>"

definition preserve_existing_with_full_durability :: atomic_write_policy where
  "preserve_existing_with_full_durability =
     \<lparr>aw_mode = PreserveExisting, aw_durability = durability_file_and_parent\<rparr>"

definition resolve_file_mode :: "host \<Rightarrow> string \<Rightarrow> file_mode_policy \<Rightarrow> 32 word res" where
  "resolve_file_mode h path policy = (case policy of
     FixedMode mode \<Rightarrow> Inr mode
   | PreserveExisting \<Rightarrow> map_ok st_mode (with_context (''stat '' @ path) (existing (h_stat h path))))"

definition temp_path :: "'s world \<Rightarrow> host \<Rightarrow> string \<Rightarrow> string \<Rightarrow> string res" where
  "temp_path w h parent name =
     map_ok (\<lambda>hex. path_join parent (''.'' @ name @ ''.'' @ show_nat (w_pid w) @ ''.'' @ hex @ ''.tmp''))
       (random_hex h 32)"

text \<open>The closure of \<open>atomic_write_file\<close>, and the function.\<close>

definition write_and_rename ::
  "'s world \<Rightarrow> string \<Rightarrow> string \<Rightarrow> string \<Rightarrow> string \<Rightarrow> 32 word \<Rightarrow> durability_policy \<Rightarrow> ('s, unit res) io" where
  "write_and_rename w parent temp path contents mode durability =
     try_io (io_context (''open '' @ temp) (file_step w (CreateNew temp mode))) (\<lambda>_.
     try_io (io_context (''write '' @ temp) (file_step w (WriteTo temp contents))) (\<lambda>_.
     try_io (set_mode w temp mode) (\<lambda>_.
     try_io (given_io (du_fsync_file durability) (io_context (''fsync '' @ temp) (file_step w (SyncFile temp)))) (\<lambda>_.
     try_io (io_context (''rename '' @ temp @ '' to '' @ path) (file_step w (RenameFile temp path))) (\<lambda>_.
     if du_fsync_parent_dir durability then map_io (\<lambda>_. Inr ()) (file_io w (SyncDir parent)) else pure (Inr ()))))))"

definition atomic_write_file :: "'s world \<Rightarrow> string \<Rightarrow> string \<Rightarrow> atomic_write_policy \<Rightarrow> ('s, unit res) io" where
  "atomic_write_file w path contents policy =
     try_io (pure (ok_or (Bail ''{} has no parent directory'' [path]) (path_parent path))) (\<lambda>parent.
     try_io (pure (ok_or (Bail ''{} has invalid file name'' [path]) (path_file_name path))) (\<lambda>name.
     bind_io (observe (w_host w)) (\<lambda>h.
     try_io (pure (resolve_file_mode h path (aw_mode policy))) (\<lambda>mode.
     try_io (pure (temp_path w h parent name)) (\<lambda>temp.
     bind_io (write_and_rename w parent temp path contents mode (aw_durability policy)) (\<lambda>result.
     case result of
       Inr _ \<Rightarrow> pure (Inr ())
     | Inl e \<Rightarrow> map_io (\<lambda>_. Inl e) (file_io w (RemoveFile temp))))))))"

definition write_private_file :: "'s world \<Rightarrow> string \<Rightarrow> string \<Rightarrow> 32 word \<Rightarrow> ('s, unit res) io" where
  "write_private_file w path contents mode = atomic_write_file w path contents (fixed_no_fsync mode)"

definition remove_host_dir_all :: "'s world \<Rightarrow> container_runtime \<Rightarrow> string \<Rightarrow> ('s, unit res) io" where
  "remove_host_dir_all w rt path =
     (if is_podman rt then
        io_context (''remove workspace '' @ path @ '' with podman unshare'')
          (run_status_io w rt ''unshare'' (plain_command rt [''unshare'', ''rm'', ''-rf'', ''--'', path]))
      else io_context (''remove workspace '' @ path) (file_step w (RemoveDirAll path)))"

section \<open>The lock of a container\<close>

text \<open>\<open>acquire_lifecycle_lock\<close> creates the directory, opens the file and waits for \<open>flock\<close>; the guard
  unlocks when it is dropped.\<close>

definition lock_path :: "host \<Rightarrow> runtime \<Rightarrow> string" where
  "lock_path h r = path_join (path_join (user_state_dir h (id_user (gw_identity r))) ''locks'')
     (id_container_name (gw_identity r) @ ''.lock'')"

definition acquire_lifecycle_lock :: "'s world \<Rightarrow> runtime \<Rightarrow> ('s, string res) io" where
  "acquire_lifecycle_lock w r = bind_io (observe (w_host w)) (\<lambda>h.
     try_io (ensure_private_dir w (path_join (user_state_dir h (id_user (gw_identity r))) ''locks'')) (\<lambda>_.
     map_io (map_ok (\<lambda>_. lock_path h r)) (effect (Locked (lock_path h r)) (w_lock w (lock_path h r)))))"

definition release_lifecycle_lock :: "'s world \<Rightarrow> string \<Rightarrow> ('s, unit) io" where
  "release_lifecycle_lock w path =
     effect (\<lambda>_. Unlocked path) (\<lambda>s. case w_unlock w path s of (took, s') \<Rightarrow> ((), took, s'))"

text \<open>A function that holds the lock to its end, whichever way it ends.\<close>

definition with_lifecycle_lock :: "'s world \<Rightarrow> runtime \<Rightarrow> ('s, 'a res) io \<Rightarrow> ('s, 'a res) io" where
  "with_lifecycle_lock w r m = try_io (acquire_lifecycle_lock w r) (\<lambda>path.
     bind_io m (\<lambda>a. bind_io (release_lifecycle_lock w path) (\<lambda>_. pure a)))"

section \<open>Reasoning about operations\<close>

definition triple :: "('s state \<Rightarrow> bool) \<Rightarrow> ('s, 'a) io \<Rightarrow> ('a \<Rightarrow> 's state \<Rightarrow> bool) \<Rightarrow> bool" where
  "triple P m Q \<longleftrightarrow> (\<forall>st. P st \<longrightarrow> Q (fst (m st)) (snd (m st)))"

lemma triple_apply: "triple P m Q \<Longrightarrow> P st \<Longrightarrow> Q (fst (m st)) (snd (m st))"
  by (simp add: triple_def)

lemma triple_pure: "(\<And>st. P st \<Longrightarrow> Q a st) \<Longrightarrow> triple P (pure a) Q"
  by (simp add: triple_def pure_def)

lemma triple_bind: "triple P m R \<Longrightarrow> (\<And>a. triple (R a) (f a) Q) \<Longrightarrow> triple P (bind_io m f) Q"
  by (simp add: triple_def bind_io_def case_prod_beta)

lemma triple_try:
  assumes "triple P m R" and "\<And>e st. R (Inl e) st \<Longrightarrow> Q (Inl e) st" and "\<And>a. triple (R (Inr a)) (f a) Q"
  shows "triple P (try_io m f) Q"
  unfolding try_io_def
proof (rule triple_bind [OF assms(1)])
  fix r show "triple (R r) (case r of Inl e \<Rightarrow> pure (Inl e) | Inr a \<Rightarrow> f a) Q"
    using assms(2,3) by (cases r) (auto intro: triple_pure)
qed

lemma triple_map: "triple P m (\<lambda>a. Q (f a)) \<Longrightarrow> triple P (map_io f m) Q"
  by (simp add: triple_def map_io_def bind_io_def pure_def case_prod_beta)

lemma triple_post: "triple P m R \<Longrightarrow> (\<And>a st. R a st \<Longrightarrow> Q a st) \<Longrightarrow> triple P m Q"
  by (simp add: triple_def)

lemma triple_pre: "triple P' m Q \<Longrightarrow> (\<And>st. P st \<Longrightarrow> P' st) \<Longrightarrow> triple P m Q"
  by (simp add: triple_def)

lemma triple_each:
  assumes "\<And>x. x \<in> set xs \<Longrightarrow> triple P (f x) (\<lambda>_. P)"
  shows "triple P (each_io f xs) (\<lambda>_. P)"
  using assms by (induction xs) (auto intro: triple_pure triple_try)

section \<open>What is known of the container\<close>

datatype sight = Unseen | Gone | Seen container_inspect

record knowledge =
  kn_locked :: bool
  kn_sight :: sight

definition sight_of :: "container_inspect option res \<Rightarrow> sight" where
  "sight_of r = (case r of Inl _ \<Rightarrow> Unseen | Inr None \<Rightarrow> Gone | Inr (Some c) \<Rightarrow> Seen c)"

lemma sight_of_simps [simp]:
  "sight_of (Inl e) = Unseen" "sight_of (Inr None) = Gone" "sight_of (Inr (Some c)) = Seen c"
  by (simp_all add: sight_of_def)

text \<open>What is known is what the last inspection under the lock found, until the container is run or
  removed.\<close>

definition own_rm :: "runtime \<Rightarrow> client_command" where
  "own_rm r = rm_command (gw_runtime r) (id_container_name (gw_identity r))"

definition own_stop :: "runtime \<Rightarrow> client_command" where
  "own_stop r = stop_command (gw_runtime r) (id_container_name (gw_identity r))"

definition own_start :: "runtime \<Rightarrow> client_command" where
  "own_start r = start_command (gw_runtime r) (id_container_name (gw_identity r))"

definition own_run :: "runtime \<Rightarrow> client_command \<Rightarrow> bool" where
  "own_run r cmd \<longleftrightarrow> (\<exists>exists_path spec. run_command exists_path (gw_runtime r) spec = Some cmd
     \<and> rs_name spec = id_container_name (gw_identity r))"

definition subcommand :: "client_command \<Rightarrow> string" where
  "subcommand cmd = (case cc_args cmd of [] \<Rightarrow> [] | a # _ \<Rightarrow> a)"

definition succeeded :: "client_output res \<Rightarrow> bool" where
  "succeeded out = (case out of Inl _ \<Rightarrow> False | Inr o' \<Rightarrow> status_success (co_status o'))"

fun learn :: "runtime \<Rightarrow> event \<Rightarrow> knowledge \<Rightarrow> knowledge" where
  "learn r (Inspected name res) k =
     (if name = id_container_name (gw_identity r) then k\<lparr>kn_sight := sight_of res\<rparr> else k)"
| "learn r (Client cmd out) k =
     (if cmd = own_rm r \<and> succeeded out then k\<lparr>kn_sight := Gone\<rparr>
      else if subcommand cmd = ''run'' then k\<lparr>kn_sight := Unseen\<rparr> else k)"
| "learn r (Locked path (Inr ())) k = \<lparr>kn_locked = True, kn_sight = Unseen\<rparr>"
| "learn r (Unlocked path) k = \<lparr>kn_locked = False, kn_sight = Unseen\<rparr>"
| "learn r _ k = k"

definition changes :: "client_command \<Rightarrow> bool" where
  "changes cmd \<longleftrightarrow> subcommand cmd \<in> {''run'', ''start'', ''stop'', ''rm'', ''delete''}"

text \<open>A container may be changed only under the lock. It may be started, stopped or removed when it was
  seen with the labels of the runtime, and run when there is none.\<close>

definition permitted :: "runtime \<Rightarrow> knowledge \<Rightarrow> client_command \<Rightarrow> bool" where
  "permitted r k cmd \<longleftrightarrow> \<not> changes cmd \<or> kn_locked k
     \<and> (cmd \<in> {own_start r, own_stop r, own_rm r}
          \<and> (\<exists>c. kn_sight k = Seen c \<and> validate_stable_labels r c = Inr ())
        \<or> own_run r cmd \<and> kn_sight k = Gone)"

fun permitted_event :: "runtime \<Rightarrow> knowledge \<Rightarrow> event \<Rightarrow> bool" where
  "permitted_event r k (Client cmd out) = permitted r k cmd"
| "permitted_event r k _ = True"

fun guarded_from :: "runtime \<Rightarrow> knowledge \<Rightarrow> event list \<Rightarrow> bool" where
  "guarded_from r k [] = True"
| "guarded_from r k (e # es) = (permitted_event r k e \<and> guarded_from r (learn r e k) es)"

definition nothing_known :: knowledge where
  "nothing_known = \<lparr>kn_locked = False, kn_sight = Unseen\<rparr>"

text \<open>Every command of a log that changes a container was permitted when it was given.\<close>

definition guarded :: "runtime \<Rightarrow> event list \<Rightarrow> bool" where
  "guarded r log = guarded_from r nothing_known log"

definition known :: "runtime \<Rightarrow> event list \<Rightarrow> knowledge" where
  "known r log = fold (learn r) log nothing_known"

lemma guarded_from_append:
  "guarded_from r k (xs @ ys) \<longleftrightarrow> guarded_from r k xs \<and> guarded_from r (fold (learn r) xs k) ys"
  by (induction xs arbitrary: k) auto

lemma guarded_snoc: "guarded r (log @ [e]) \<longleftrightarrow> guarded r log \<and> permitted_event r (known r log) e"
  by (simp add: guarded_def known_def guarded_from_append)

lemma known_snoc: "known r (log @ [e]) = learn r e (known r log)"
  by (simp add: known_def)

text \<open>A log is guarded exactly when each of its commands was permitted by what was known before.\<close>

lemma guarded_iff:
  "guarded r log \<longleftrightarrow> (\<forall>i < length log. permitted_event r (known r (take i log)) (log ! i))"
proof (induction log rule: rev_induct)
  case (snoc e log)
  then show ?case by (auto simp: guarded_snoc nth_append less_Suc_eq)
qed (simp add: guarded_def)

definition safe :: "runtime \<Rightarrow> knowledge \<Rightarrow> 's state \<Rightarrow> bool" where
  "safe r k st \<longleftrightarrow> guarded r (st_log st) \<and> known r (st_log st) = k"

section \<open>Operations that leave the container and the lock alone\<close>

definition harmless :: "event \<Rightarrow> bool" where
  "harmless e = (case e of
     Client cmd _ \<Rightarrow> \<not> changes cmd | Inspected _ _ \<Rightarrow> False | Locked _ _ \<Rightarrow> False | Unlocked _ \<Rightarrow> False | _ \<Rightarrow> True)"

definition quiet :: "('s, 'a) io \<Rightarrow> bool" where
  "quiet m \<longleftrightarrow> (\<forall>st. \<exists>new. st_log (snd (m st)) = st_log st @ new \<and> list_all harmless new)"

named_theorems quiet \<open>operations that leave the container and the lock alone\<close>

lemma quiet_same_log: "(\<And>st. st_log (snd (m st)) = st_log st) \<Longrightarrow> quiet m"
  by (simp add: quiet_def)

lemma quiet_pure [quiet]: "quiet (pure a)"
  and quiet_observe [quiet]: "quiet (observe f)"
  and quiet_now [quiet]: "quiet now"
  by (auto intro!: quiet_same_log simp: pure_def observe_def now_def)

lemma quiet_bind [quiet]:
  assumes m: "quiet m" and f: "\<And>a. quiet (f a)" shows "quiet (bind_io m f)"
  unfolding quiet_def
proof
  fix st
  obtain a st' where run: "m st = (a, st')" by (cases "m st")
  obtain new where "st_log st' = st_log st @ new" "list_all harmless new"
    using m run by (metis quiet_def snd_conv)
  moreover obtain more where "st_log (snd (f a st')) = st_log st' @ more" "list_all harmless more"
    using f by (metis quiet_def)
  ultimately show "\<exists>new. st_log (snd (bind_io m f st)) = st_log st @ new \<and> list_all harmless new"
    by (intro exI [of _ "new @ more"]) (simp add: bind_io_def run)
qed

lemma quiet_try [quiet]: "quiet m \<Longrightarrow> (\<And>a. quiet (f a)) \<Longrightarrow> quiet (try_io m f)"
  by (auto simp: try_io_def intro!: quiet split: sum.split)

lemma quiet_map [quiet]: "quiet m \<Longrightarrow> quiet (map_io f m)"
  by (auto simp: map_io_def intro!: quiet)

lemma quiet_each [quiet]: "(\<And>x. quiet (f x)) \<Longrightarrow> quiet (each_io f xs)"
  by (induction xs) (auto intro!: quiet)

lemma quiet_all [quiet]: "(\<And>x. quiet (f x)) \<Longrightarrow> quiet (all_io f xs)"
  by (induction xs) (auto intro!: quiet)

lemma quiet_given [quiet]: "quiet m \<Longrightarrow> quiet (given_io b m)"
  and quiet_when [quiet]: "quiet u \<Longrightarrow> quiet (when_io b u)"
  by (auto simp: given_io_def when_io_def intro!: quiet)

lemma quiet_effect: "(\<And>a. harmless (ev a)) \<Longrightarrow> quiet (effect ev f)"
  by (auto simp: quiet_def effect_def split: prod.split)

lemma quiet_sleep [quiet]: "quiet (sleep w d)"
  and quiet_file_io [quiet]: "quiet (file_io w f)"
  by (auto simp: sleep_def file_io_def harmless_def intro!: quiet_effect)

lemma quiet_async_command [quiet]: "quiet (async_command w rt)"
  by (rule quiet_same_log) (simp add: async_command_def split: prod.split)

lemma quiet_client [quiet]: "\<not> changes cmd \<Longrightarrow> quiet (client_output_of w rt cmd)"
  by (auto simp: client_output_of_def harmless_def intro!: quiet quiet_effect)

lemma subcommand_of [simp]: "subcommand (plain_command rt (a # as)) = a" "subcommand (exec_command rt spec) = ''exec''"
  by (simp_all add: subcommand_def plain_command_def exec_command_def command_without_preflight_def)

lemma subcommand_run: "run_command p rt spec = Some cmd \<Longrightarrow> subcommand cmd = ''run''"
  by (auto simp: run_command_def subcommand_def)

lemma quiet_io_context [quiet]: "quiet m \<Longrightarrow> quiet (io_context c m)"
  and quiet_file_step [quiet]: "quiet (file_step w f)"
  and quiet_set_mode [quiet]: "quiet (set_mode w path mode)"
  and quiet_ensure_private_dir [quiet]: "quiet (ensure_private_dir w path)"
  and quiet_remove_if_exists [quiet]: "quiet (remove_if_exists w path)"
  unfolding ensure_private_dir_def set_mode_def remove_if_exists_def file_step_def io_context_def
  by (intro quiet; assumption?)+

lemma quiet_write_and_rename [quiet]: "quiet (write_and_rename w parent temp path contents mode d)"
  unfolding write_and_rename_def by (auto intro!: quiet)

lemma quiet_atomic_write_file [quiet]: "quiet (atomic_write_file w path contents policy)"
  unfolding atomic_write_file_def by (auto intro!: quiet split: sum.split)

lemma quiet_write_private_file [quiet]: "quiet (write_private_file w path contents mode)"
  by (simp add: write_private_file_def quiet)

lemma quiet_run_status_io [quiet]: "\<not> changes cmd \<Longrightarrow> quiet (run_status_io w rt c cmd)"
  by (auto simp: run_status_io_def intro!: quiet)

lemma quiet_remove_host_dir_all [quiet]: "quiet (remove_host_dir_all w rt path)"
  by (auto simp: remove_host_dir_all_def changes_def intro!: quiet)

lemma quiet_exec_quiet_io [quiet]: "quiet (exec_quiet_io w rt name user args)"
  and quiet_exec_io [quiet]: "quiet (exec_io w rt spec)"
  and quiet_published_port_io [quiet]: "quiet (published_port_io w rt name port)"
  by (auto simp: exec_quiet_io_def exec_quiet_command_def exec_io_def published_port_io_def
      published_port_args_def changes_def intro!: quiet)

lemma quiet_sweep [quiet]: "quiet (sweep_stale_cancel_markers_once w rt container user)"
  by (rule quiet_same_log) (simp add: sweep_stale_cancel_markers_once_def Let_def split: prod.split)

section \<open>What the operations on a container leave known\<close>

lemma harmless_permitted: "harmless e \<Longrightarrow> permitted_event r k e"
  by (cases e) (simp_all add: harmless_def permitted_def)

lemma subcommand_own_rm: "subcommand (own_rm r) \<in> {''rm'', ''delete''}"
  by (simp add: own_rm_def rm_command_def)

lemma changes_run: "subcommand cmd = ''run'' \<Longrightarrow> changes cmd"
  by (simp add: changes_def)

lemma harmless_learn:
  assumes "harmless e" shows "learn r e k = k"
proof (cases e)
  case (Client cmd out)
  with assms have no: "\<not> changes cmd" by (simp add: harmless_def)
  then have "cmd \<noteq> own_rm r" using subcommand_own_rm [of r] by (auto simp: changes_def)
  moreover have "subcommand cmd \<noteq> ''run''" using no changes_run by blast
  ultimately show ?thesis using Client by simp
next
  case (Locked path res)
  with assms show ?thesis by (simp add: harmless_def)
qed (use assms in \<open>simp_all add: harmless_def\<close>)

lemma harmless_log:
  "list_all harmless new \<Longrightarrow> guarded r (log @ new) = guarded r log \<and> known r (log @ new) = known r log"
proof (induction new rule: rev_induct)
  case (snoc e new)
  then show ?case
    by (simp add: append_assoc [symmetric] guarded_snoc known_snoc harmless_permitted harmless_learn
        del: append_assoc)
qed simp

lemma quiet_safe: "quiet m \<Longrightarrow> triple (safe r k) m (\<lambda>_. safe r k)"
  unfolding triple_def safe_def quiet_def using harmless_log by metis

text \<open>A client that is started makes one event.\<close>

lemma triple_client:
  assumes "\<And>st out. P st \<Longrightarrow> safe r k st"
    and "permitted r k cmd"
    and "\<And>out st. safe r (learn r (Client cmd out) k) st \<Longrightarrow> Q (Inr out) st"
    and "\<And>e st. safe r k st \<Longrightarrow> Q (Inl e) st"
  shows "triple P (client_output_of w rt cmd) Q"
  unfolding client_output_of_def
proof (rule triple_try [where R = "\<lambda>_. safe r k"])
  show "triple P (async_command w rt) (\<lambda>_. safe r k)"
    using assms(1) by (blast intro: triple_pre [OF quiet_safe [OF quiet_async_command]])
  show "triple (safe r k) (map_io Inr (effect (Client cmd) (w_client w cmd))) Q"
  proof (rule triple_map, unfold triple_def, intro allI impI)
    fix st :: "'a state" assume st: "safe r k st"
    obtain out took env where answer: "w_client w cmd (st_env st) = (out, took, env)"
      by (cases "w_client w cmd (st_env st)")
    have "safe r (learn r (Client cmd out) k)
        (st\<lparr>st_env := env, st_now := st_now st + took, st_log := st_log st @ [Client cmd out]\<rparr>)"
      using st assms(2) by (simp add: safe_def guarded_snoc known_snoc)
    from assms(3) [OF this]
    show "Q (Inr (fst (effect (Client cmd) (w_client w cmd) st))) (snd (effect (Client cmd) (w_client w cmd) st))"
      by (simp add: effect_def answer)
  qed
qed (use assms(4) in blast)

lemma triple_run_status:
  assumes "permitted r k cmd"
    and "\<And>out st. safe r (learn r (Client cmd out) k) st \<Longrightarrow> Q (run_status rt c out) st"
    and "\<And>e st. safe r k st \<Longrightarrow> Q (Inl e) st"
  shows "triple (safe r k) (run_status_io w rt c cmd) Q"
  unfolding run_status_io_def
proof (rule triple_try)
  show "triple (safe r k) (client_output_of w rt cmd)
      (\<lambda>res st. case res of Inl e \<Rightarrow> safe r k st | Inr out \<Rightarrow> safe r (learn r (Client cmd out) k) st)"
    by (rule triple_client [OF _ assms(1)]) simp_all
  show "triple (\<lambda>st. case Inr out of Inl e \<Rightarrow> safe r k st | Inr out \<Rightarrow> safe r (learn r (Client cmd out) k) st)
      (pure (run_status rt c out)) Q" for out
    using assms(2) by (auto intro: triple_pure)
qed (use assms(3) in simp)

lemma own_commands_differ: "own_stop r \<noteq> own_rm r" "own_start r \<noteq> own_rm r"
  by (auto simp: own_stop_def own_start_def own_rm_def stop_command_def start_command_def rm_command_def
      plain_command_def command_without_preflight_def)

lemma subcommand_own [simp]: "subcommand (own_stop r) = ''stop''" "subcommand (own_start r) = ''start''"
  by (simp_all add: own_stop_def own_start_def stop_command_def start_command_def)

text \<open>What is seen: a container with the labels of the runtime.\<close>

definition ours :: "runtime \<Rightarrow> knowledge \<Rightarrow> bool" where
  "ours r k \<longleftrightarrow> kn_locked k \<and> (\<exists>c. kn_sight k = Seen c \<and> validate_stable_labels r c = Inr ())"

lemma oursI: "kn_locked k \<Longrightarrow> kn_sight k = Seen c \<Longrightarrow> validate_stable_labels r c = Inr () \<Longrightarrow> ours r k"
  by (auto simp: ours_def)

lemma triple_stop:
  "ours r k \<Longrightarrow> triple (safe r k) (stop_io w (gw_runtime r) (id_container_name (gw_identity r))) (\<lambda>_. safe r k)"
  unfolding stop_io_def own_stop_def [symmetric]
  by (rule triple_run_status) (auto simp: permitted_def ours_def own_commands_differ)

lemma triple_start:
  "ours r k \<Longrightarrow> triple (safe r k) (start_io w (gw_runtime r) (id_container_name (gw_identity r))) (\<lambda>_. safe r k)"
  unfolding start_io_def own_start_def [symmetric]
  by (rule triple_run_status) (auto simp: permitted_def ours_def own_commands_differ)

lemma run_status_ok: "is_ok (run_status rt c out) = succeeded out"
  by (cases out) (auto simp: run_status_def succeeded_def bail_if_def)

definition after_rm :: "knowledge \<Rightarrow> 'a res \<Rightarrow> knowledge" where
  "after_rm k res = (if is_ok res then k\<lparr>kn_sight := Gone\<rparr> else k)"

lemma triple_rm:
  assumes "ours r k"
  shows "triple (safe r k) (rm_io w (gw_runtime r) (id_container_name (gw_identity r)))
    (\<lambda>res. safe r (after_rm k res))"
  unfolding rm_io_def own_rm_def [symmetric]
proof (rule triple_run_status)
  show "permitted r k (own_rm r)" using assms by (simp add: permitted_def ours_def)
next
  fix out and st :: "'a state"
  assume "safe r (learn r (Client (own_rm r) out) k) st"
  then show "safe r (after_rm k (run_status (gw_runtime r)
      (if crt_kind (gw_runtime r) = AppleContainer then ''delete'' else ''rm'') out)) st"
    using subcommand_own_rm [of r] by (auto simp: after_rm_def run_status_ok split: if_splits)
qed (simp add: after_rm_def)

lemma triple_inspect:
  "triple (safe r k) (inspect_io w rt (id_container_name (gw_identity r)))
     (\<lambda>res. safe r (k\<lparr>kn_sight := sight_of res\<rparr>))"
proof -
  let ?name = "id_container_name (gw_identity r)"
  have noted: "triple (safe r k) (bind_io (note_event (Inspected ?name res)) (\<lambda>_. pure res))
      (\<lambda>res. safe r (k\<lparr>kn_sight := sight_of res\<rparr>))" for res :: "container_inspect option res"
    by (simp add: triple_def bind_io_def note_event_def pure_def safe_def guarded_snoc known_snoc)
  show ?thesis
    unfolding inspect_io_def
    by (rule triple_bind [OF quiet_safe noted]) (auto simp: changes_def intro!: quiet)
qed

lemma triple_run_detached:
  assumes "kn_locked k" "kn_sight k = Gone" "rs_name spec = id_container_name (gw_identity r)"
  shows "triple (safe r k) (run_detached_io w (gw_runtime r) spec)
    (\<lambda>res st. safe r (k\<lparr>kn_sight := Unseen\<rparr>) st \<or> \<not> is_ok res \<and> safe r k st)"
  unfolding run_detached_io_def
proof (rule triple_bind [OF quiet_safe [OF quiet_observe]])
  fix h
  show "triple (safe r k) (case run_command (h_exists h) (gw_runtime r) spec of
        None \<Rightarrow> pure (panic ''internal error: entered unreachable code: common run args are only used by Podman and Docker'')
      | Some cmd \<Rightarrow> run_status_io w (gw_runtime r) ''run'' cmd)
    (\<lambda>res st. safe r (k\<lparr>kn_sight := Unseen\<rparr>) st \<or> \<not> is_ok res \<and> safe r k st)"
  proof (cases "run_command (h_exists h) (gw_runtime r) spec")
    case None
    then show ?thesis by (auto intro!: triple_pure simp: panic_def)
  next
    case (Some cmd)
    then have run: "subcommand cmd = ''run''" by (rule subcommand_run)
    moreover have "cmd \<noteq> own_rm r" using run subcommand_own_rm [of r] by auto
    moreover have "permitted r k cmd" using assms Some by (auto simp: permitted_def own_run_def)
    ultimately show ?thesis unfolding Some by (auto intro!: triple_run_status)
  qed
qed

text \<open>Under the lock nothing is known at first, and nothing is afterwards.\<close>

lemma triple_with_lock:
  assumes body: "triple (safe r \<lparr>kn_locked = True, kn_sight = Unseen\<rparr>) m (\<lambda>_ st. \<exists>k. safe r k st)"
  shows "triple (safe r nothing_known) (with_lifecycle_lock w r m) (\<lambda>_. safe r nothing_known)"
  unfolding with_lifecycle_lock_def
proof (rule triple_try)
  show "triple (safe r nothing_known) (acquire_lifecycle_lock w r)
      (\<lambda>res. safe r (if is_ok res then \<lparr>kn_locked = True, kn_sight = Unseen\<rparr> else nothing_known))"
    unfolding acquire_lifecycle_lock_def
  proof (rule triple_bind [OF quiet_safe [OF quiet_observe]], rule triple_try [OF quiet_safe [OF quiet_ensure_private_dir]])
    fix h
    have answer: "known r (log @ [Locked p res])
        = (case res of Inl _ \<Rightarrow> known r log | Inr _ \<Rightarrow> \<lparr>kn_locked = True, kn_sight = Unseen\<rparr>)" for log p res
      by (cases res) (simp_all add: known_snoc)
    show "triple (safe r nothing_known)
        (map_io (map_ok (\<lambda>_. lock_path h r)) (effect (Locked (lock_path h r)) (w_lock w (lock_path h r))))
        (\<lambda>res. safe r (if is_ok res then \<lparr>kn_locked = True, kn_sight = Unseen\<rparr> else nothing_known))"
      by (rule triple_map)
        (auto simp: triple_def effect_def safe_def guarded_snoc answer split: prod.split sum.splits)
  qed (simp add: nothing_known_def)
next
  fix path
  have release: "triple (\<lambda>st. \<exists>k. safe r k st) (bind_io (release_lifecycle_lock w path) (\<lambda>_. pure a))
      (\<lambda>_. safe r nothing_known)" for a
    by (auto simp: triple_def bind_io_def release_lifecycle_lock_def effect_def pure_def safe_def guarded_snoc
        known_snoc nothing_known_def split: prod.split)
  show "triple (safe r (if is_ok (Inr path) then \<lparr>kn_locked = True, kn_sight = Unseen\<rparr> else nothing_known))
      (bind_io m (\<lambda>a. bind_io (release_lifecycle_lock w path) (\<lambda>_. pure a))) (\<lambda>_. safe r nothing_known)"
    using triple_bind [OF body release] by simp
qed simp

section \<open>Loops and inspections\<close>

lemma poll_rule:
  "triple P step (\<lambda>r st. Q r st \<and> (case r of Inl _ \<Rightarrow> P st | Inr _ \<Rightarrow> True)) \<Longrightarrow> triple P (sleep w pause) (\<lambda>_. P)
    \<Longrightarrow> P st \<Longrightarrow> Q (fst (poll w deadline pause step st)) (snd (poll w deadline pause step st))"
proof (induction w deadline pause step st rule: poll.induct)
  case (1 w deadline pause step st)
  obtain r st' where run: "step st = (r, st')" by (cases "step st")
  have q: "Q r st'" and p: "case r of Inl _ \<Rightarrow> P st' | Inr _ \<Rightarrow> True"
    using triple_apply [OF 1(2) 1(4)] by (auto simp: run split: sum.splits)
  show ?case
  proof (cases r)
    case (Inr a)
    with q run show ?thesis by (simp add: poll.simps [of w])
  next
    case (Inl b)
    with p have "P st'" by simp
    from triple_apply [OF 1(3) this] have next_state: "P (snd (sleep w pause st'))" .
    show ?thesis
    proof (cases "deadline \<le> st_now st' \<or> pause = 0 \<or> st_now st' < st_now st")
      case True
      with q run Inl show ?thesis by (simp add: poll.simps [of w])
    next
      case False
      from 1(1) [OF run [symmetric] Inl False 1(2,3) next_state] False run Inl
      show ?thesis by (simp add: poll.simps [of w deadline pause step st])
    qed
  qed
qed

lemma triple_poll:
  assumes "triple P step (\<lambda>r st. Q r st \<and> (case r of Inl _ \<Rightarrow> P st | Inr _ \<Rightarrow> True))"
    and "triple P (sleep w pause) (\<lambda>_. P)"
  shows "triple P (poll w deadline pause step) Q"
  using poll_rule [OF assms] by (simp add: triple_def)

text \<open>The part of the log an operation adds.\<close>

definition adds :: "event list \<Rightarrow> 's state \<Rightarrow> bool" where
  "adds log st \<longleftrightarrow> (\<exists>new. st_log st = log @ new \<and> list_all harmless new)"

lemma quiet_adds: "quiet m \<longleftrightarrow> (\<forall>log. triple (adds log) m (\<lambda>_. adds log))"
proof
  assume q: "quiet m"
  show "\<forall>log. triple (adds log) m (\<lambda>_. adds log)"
    unfolding triple_def adds_def
  proof (intro allI impI, elim exE conjE)
    fix log new and st :: "'a state" assume st: "st_log st = log @ new" "list_all harmless new"
    obtain more where "st_log (snd (m st)) = st_log st @ more" "list_all harmless more"
      using q by (auto simp: quiet_def)
    with st show "\<exists>new. st_log (snd (m st)) = log @ new \<and> list_all harmless new"
      by (intro exI [of _ "new @ more"]) simp
  qed
next
  assume "\<forall>log. triple (adds log) m (\<lambda>_. adds log)"
  then show "quiet m" by (fastforce simp: quiet_def triple_def adds_def)
qed

lemma quiet_poll [quiet]:
  assumes "quiet step" shows "quiet (poll w deadline pause step)"
  unfolding quiet_adds
proof
  fix log
  have "triple (adds log) step (\<lambda>_. adds log)" "triple (adds log) (sleep w pause) (\<lambda>_. adds log)"
    using assms quiet_sleep [of w pause] by (simp_all add: quiet_adds)
  then show "triple (adds log) (poll w deadline pause step) (\<lambda>_. adds log)"
    by (intro triple_poll) (auto elim!: triple_post split: sum.split)
qed

lemma quiet_elapse [quiet]: "quiet (elapse f)"
  by (rule quiet_same_log) (simp add: elapse_def split: prod.split)

text \<open>A calm operation may also inspect the container.\<close>

definition under_lock :: "runtime \<Rightarrow> 's state \<Rightarrow> bool" where
  "under_lock r st \<longleftrightarrow> (\<exists>k. kn_locked k \<and> safe r k st)"

lemma under_lockI: "safe r k st \<Longrightarrow> kn_locked k \<Longrightarrow> under_lock r st"
  by (auto simp: under_lock_def)

lemma triple_under_lock:
  "(\<And>k. kn_locked k \<Longrightarrow> triple (safe r k) m Q) \<Longrightarrow> triple (under_lock r) m Q"
  by (auto simp: triple_def under_lock_def)

definition calm :: "runtime \<Rightarrow> ('s, 'a) io \<Rightarrow> bool" where
  "calm r m \<longleftrightarrow> triple (under_lock r) m (\<lambda>_. under_lock r)"

named_theorems calm \<open>operations that only inspect the container\<close>

lemma calm_quiet: "quiet m \<Longrightarrow> calm r m"
  unfolding calm_def by (rule triple_under_lock) (auto intro: triple_post [OF quiet_safe] under_lockI)

lemma calm_bind [calm]: "calm r m \<Longrightarrow> (\<And>a. calm r (f a)) \<Longrightarrow> calm r (bind_io m f)"
  by (auto simp: calm_def intro: triple_bind)

lemma calm_try [calm]: "calm r m \<Longrightarrow> (\<And>a. calm r (f a)) \<Longrightarrow> calm r (try_io m f)"
  by (auto simp: calm_def intro: triple_try)

lemma calm_map [calm]: "calm r m \<Longrightarrow> calm r (map_io f m)"
  by (auto simp: calm_def intro: triple_map)

lemma calm_given [calm]: "calm r m \<Longrightarrow> calm r (given_io b m)"
  by (auto simp: given_io_def intro: calm_quiet quiet)

lemma calm_poll [calm]:
  assumes "calm r step" shows "calm r (poll w deadline pause step)"
  unfolding calm_def
proof (rule triple_poll)
  show "triple (under_lock r) step (\<lambda>res st. under_lock r st \<and> (case res of Inl _ \<Rightarrow> under_lock r st | Inr _ \<Rightarrow> True))"
    by (rule triple_post [OF assms [unfolded calm_def]]) (auto split: sum.split)
  show "triple (under_lock r) (sleep w pause) (\<lambda>_. under_lock r)"
    using calm_quiet [OF quiet_sleep] by (simp add: calm_def)
qed

lemma calm_inspect [calm]: "calm r (inspect_io w rt (id_container_name (gw_identity r)))"
  unfolding calm_def
  by (rule triple_under_lock) (auto intro!: triple_post [OF triple_inspect] elim: under_lockI)

end
