(* ===== verification/Gateway_State.thy ===== *)
theory Gateway_State
  imports Gateway_World
begin

text \<open>
  What the gateway keeps on the host for a target: \<open>gateway/identity.rs\<close> (keys and tokens), the rest of
  \<open>gateway/control_sockets.rs\<close> (the directory of the control sockets and the files for the container),
  \<open>gateway/published_port.rs\<close>, and the markers of \<open>gateway/session.rs\<close>.

  \<open>ssh-keygen\<close> and the sockets of the host are answers of the world.
\<close>

section \<open>Secret files\<close>

definition validate_secret_file_permissions :: "host \<Rightarrow> string \<Rightarrow> unit res" where
  "validate_secret_file_permissions h path = and_then (existing (h_stat h path)) (\<lambda>st.
     bail_if (shared_bits (st_mode st))
       (Bail ''secret file {} has unsafe mode {}; expected 0600 or stricter''
         [path, show_octal (unat (st_mode st AND 0x1FF))]))"

text \<open>The two checks of the content of a token differ in a word of their messages.\<close>

definition validate_token_content :: "string \<Rightarrow> string \<Rightarrow> string \<Rightarrow> string res" where
  "validate_token_content what v path =
     (let v = trim v in map_ok (\<lambda>_. v) (seq_checks
       [bail_if (v = []) (Bail (what @ '' token file {} is empty'') [path]),
        bail_if (utf8_length v > 4096) (Bail (what @ '' token file {} is too large'') [path]),
        bail_if (length (str_lines v) \<noteq> 1) (Bail (what @ '' token file {} must contain exactly one line'') [path])]))"

definition validate_identity_token_content :: "string \<Rightarrow> string \<Rightarrow> string res" where
  "validate_identity_token_content = validate_token_content ''identity''"

definition validate_control_token_content :: "string \<Rightarrow> string \<Rightarrow> string res" where
  "validate_control_token_content = validate_token_content ''control''"

definition read_to_string :: "host \<Rightarrow> string \<Rightarrow> string res" where
  "read_to_string h path = with_context (''read '' @ path) (existing (h_read h path))"

definition read_control_token_file :: "host \<Rightarrow> string \<Rightarrow> string res" where
  "read_control_token_file h path =
     and_then (read_to_string h path) (\<lambda>v.
     and_then (validate_secret_file_permissions h path) (\<lambda>_. validate_control_token_content v path))"

definition control_token_path :: "runtime \<Rightarrow> string" where
  "control_token_path r = path_join (pt_container_state_dir (gw_paths r)) ''control.token''"

definition control_token :: "host \<Rightarrow> runtime \<Rightarrow> string res" where
  "control_token h r = read_control_token_file h (control_token_path r)"

definition ensure_control_token :: "'s world \<Rightarrow> runtime \<Rightarrow> ('s, string res) io" where
  "ensure_control_token w r = bind_io (observe (w_host w)) (\<lambda>h.
     let path = control_token_path r;
         fresh = try_io (pure (random_hex_token h)) (\<lambda>token.
           map_io (map_ok (\<lambda>_. token)) (io_context (''write '' @ path)
             (write_private_file w path (token @ [newline]) 0x180)))
     in try_io (pure (with_context (''read '' @ path) (h_read h path))) (\<lambda>found. case found of
          Some v \<Rightarrow> if trim v \<noteq> []
            then pure (and_then (validate_secret_file_permissions h path) (\<lambda>_. validate_control_token_content v path))
            else fresh
        | None \<Rightarrow> fresh))"

text \<open>\<open>random_identity_token\<close>: sixteen random bytes, of which six bits say that this is a random UUID.\<close>

definition uuid_bytes :: "(nat \<Rightarrow> 8 word) \<Rightarrow> 8 word list" where
  "uuid_bytes fill = (map fill [0..<16])[6 := (fill 6 AND 0x0F) OR 0x40, 8 := (fill 8 AND 0x3F) OR 0x80]"

definition hex_byte :: "8 word \<Rightarrow> string" where
  "hex_byte b = [hex_lower (unat b div 16), hex_lower (unat b mod 16)]"

definition uuid_text :: "8 word list \<Rightarrow> string" where
  "uuid_text bytes =
     join ''-'' (map (\<lambda>(from, to). concat (map hex_byte (take (to - from) (drop from bytes))))
       [(0, 4), (4, 6), (6, 8), (8, 10), (10, 16)])"

definition random_identity_token :: "host \<Rightarrow> string res" where
  "random_identity_token h = map_ok (\<lambda>fill. uuid_text (uuid_bytes fill))
     (with_context ''read /dev/urandom'' (h_random h))"

definition ensure_identity_token_file :: "'s world \<Rightarrow> string \<Rightarrow> ('s, string res) io" where
  "ensure_identity_token_file w path = bind_io (observe (w_host w)) (\<lambda>h.
     try_io (pure (with_context (''read '' @ path) (h_read h path))) (\<lambda>found. case found of
       Some v \<Rightarrow> pure (and_then (validate_secret_file_permissions h path) (\<lambda>_. validate_identity_token_content v path))
     | None \<Rightarrow>
         try_io (case path_parent path of Some parent \<Rightarrow> ensure_private_dir w parent | None \<Rightarrow> pure (Inr ())) (\<lambda>_.
         try_io (pure (random_identity_token h)) (\<lambda>token.
         bind_io (file_io w (CreateNew path 0x180)) (\<lambda>created. case created of
           Inr _ \<Rightarrow>
             try_io (io_context (''write '' @ path) (file_step w (WriteTo path (token @ [newline])))) (\<lambda>_.
             try_io (set_mode w path 0x180) (\<lambda>_. pure (Inr token)))
         | Inl failure \<Rightarrow>
             if failure = FileExists then bind_io (observe (w_host w)) (\<lambda>h.
               pure (and_then (read_to_string h path) (\<lambda>v.
                 and_then (validate_secret_file_permissions h path) (\<lambda>_. validate_identity_token_content v path))))
             else pure (Inl (Context (''create '' @ path) (failure_error failure))))))))"

definition ensure_identity_token :: "'s world \<Rightarrow> runtime \<Rightarrow> ('s, string res) io" where
  "ensure_identity_token w r = bind_io (observe (w_host w)) (\<lambda>h.
     case h_var h ''AW_IDENTITY_TOKEN'' of
       Some v \<Rightarrow> pure (validate_identity_token_content v ''AW_IDENTITY_TOKEN'')
     | None \<Rightarrow> ensure_identity_token_file w (path_join (user_config_dir h (id_user (gw_identity r))) ''identity-token''))"

section \<open>Keys\<close>

definition is_plausible_public_key :: "string \<Rightarrow> bool" where
  "is_plausible_public_key key = (case split_whitespace key of
     kind # body # _ \<Rightarrow> kind \<in> {''ssh-ed25519'', ''ssh-rsa'', ''ecdsa-sha2-nistp256'', ''ecdsa-sha2-nistp384'',
       ''ecdsa-sha2-nistp521''} \<and> body \<noteq> []
   | _ \<Rightarrow> False)"

definition validate_public_key_content :: "string \<Rightarrow> string res" where
  "validate_public_key_content v =
     (let v = unwrap_or v (strip_suffix [newline] v) in map_ok (\<lambda>_. v) (seq_checks
       [bail_if (list_ex (\<lambda>c. c = newline \<or> c = CHR 0x0D) v) (Bail ''SSH public key must be exactly one line'' []),
        bail_if (trim v \<noteq> v) (Bail ''SSH public key must not have leading or trailing whitespace'' []),
        bail_if (\<not> is_plausible_public_key v) (Bail ''input does not look like a supported SSH public key'' [])]))"

text \<open>The lines of an existing file that are neither empty nor comments.\<close>

definition key_lines :: "string \<Rightarrow> string list" where
  "key_lines existing_text =
     filter (\<lambda>line. line \<noteq> [] \<and> \<not> starts_with ''#'' line) (map trim (str_lines existing_text))"

definition read_authorized_keys :: "host \<Rightarrow> string \<Rightarrow> string \<Rightarrow> (string list \<times> bool) res" where
  "read_authorized_keys h path public_key =
     and_then (with_context (''read '' @ path) (h_read h path)) (\<lambda>found.
       map_ok (\<lambda>keys. (keys, public_key \<in> set keys))
         (collect_ok (\<lambda>line. with_context (''validate existing authorized key in '' @ path)
             (validate_public_key_content line)) (key_lines (unwrap_or [] found))))"

definition ensure_authorized_key :: "'s world \<Rightarrow> string \<Rightarrow> string \<Rightarrow> ('s, bool res) io" where
  "ensure_authorized_key w path public_key =
     try_io (pure (validate_public_key_content public_key)) (\<lambda>public_key.
     bind_io (observe (w_host w)) (\<lambda>h.
     try_io (pure (read_authorized_keys h path public_key)) (\<lambda>(keys, present).
     try_io (atomic_write_file w path
         (join [newline] (if present then keys else keys @ [public_key]) @ [newline]) (fixed_no_fsync 0x1A4)) (\<lambda>_.
     pure (Inr (\<not> present))))))"

definition ssh_dir :: "runtime \<Rightarrow> string" where
  "ssh_dir r = path_join (pt_workspace_state_dir (gw_paths r)) ''ssh''"

definition inner_private_key :: "runtime \<Rightarrow> string" where
  "inner_private_key r = path_join (ssh_dir r) ''inner_ed25519''"

definition inner_public_key :: "runtime \<Rightarrow> string" where
  "inner_public_key r = path_join (ssh_dir r) ''inner_ed25519.pub''"

definition inner_authorized_keys :: "runtime \<Rightarrow> string" where
  "inner_authorized_keys r = path_join (ssh_dir r) ''authorized_keys''"

definition program_io :: "'s world \<Rightarrow> string list \<Rightarrow> ('s, client_output res) io" where
  "program_io w argv = effect (\<lambda>_. Program argv) (w_program w argv)"

definition generate_inner_keypair :: "'s world \<Rightarrow> string \<Rightarrow> string \<Rightarrow> string \<Rightarrow> ('s, unit res) io" where
  "generate_inner_keypair w path user target =
     map_io (\<lambda>output. and_then (with_context ''run ssh-keygen'' output) (\<lambda>out.
         bail_if (\<not> status_success (co_status out)) (Bail ''ssh-keygen failed: {}'' [trim (co_stderr out)])))
       (program_io w [''ssh-keygen'', ''-q'', ''-t'', ''ed25519'', ''-N'', '''', ''-C'',
          ''aw-gateway:'' @ user @ '':'' @ target, ''-f'', path])"

definition validate_private_key :: "'s world \<Rightarrow> string \<Rightarrow> string \<Rightarrow> ('s, unit res) io" where
  "validate_private_key w path target =
     map_io (\<lambda>output. and_then (with_context (''validate private key '' @ path) output) (\<lambda>out.
         bail_if (\<not> status_success (co_status out))
           (Bail ''inner private key {} is not usable; rerun `aw-gateway client-bundle {} --rotate-key`: {}''
             [path, target, trim (co_stderr out)])))
       (program_io w [''ssh-keygen'', ''-y'', ''-f'', path])"

definition write_public_key_from_private :: "'s world \<Rightarrow> string \<Rightarrow> string \<Rightarrow> ('s, unit res) io" where
  "write_public_key_from_private w private_key public_key =
     try_io (map_io (with_context (''derive public key from '' @ private_key))
       (program_io w [''ssh-keygen'', ''-y'', ''-f'', private_key])) (\<lambda>out.
     if \<not> status_success (co_status out)
     then pure (Inl (Bail ''failed to derive public key: {}'' [trim (co_stderr out)]))
     else io_context (''write '' @ public_key) (file_step w (WriteFile public_key (co_stdout out))))"

record inner_keypair =
  ik_private_key :: string
  ik_public_key :: string

definition ensure_inner_keypair :: "'s world \<Rightarrow> runtime \<Rightarrow> bool \<Rightarrow> ('s, inner_keypair res) io" where
  "ensure_inner_keypair w r rotate_key =
     (let private_key = inner_private_key r; public_key = inner_public_key r in
      try_io (ensure_private_dir w (ssh_dir r)) (\<lambda>_.
      try_io (given_io rotate_key (try_io (remove_if_exists w private_key) (\<lambda>_. remove_if_exists w public_key))) (\<lambda>_.
      bind_io (observe (w_host w)) (\<lambda>h.
      try_io (if h_exists h private_key then
          try_io (pure (validate_secret_file_permissions h private_key)) (\<lambda>_.
          try_io (validate_private_key w private_key (id_target_name (gw_identity r))) (\<lambda>_.
          bind_io (observe (w_host w)) (\<lambda>h.
          given_io (\<not> h_exists h public_key) (write_public_key_from_private w private_key public_key))))
        else generate_inner_keypair w private_key (uc_user (id_user (gw_identity r))) (id_target_name (gw_identity r))) (\<lambda>_.
      try_io (set_mode w private_key 0x180) (\<lambda>_.
      try_io (set_mode w public_key 0x1A4) (\<lambda>_.
      bind_io (observe (w_host w)) (\<lambda>h.
      try_io (pure (read_to_string h public_key)) (\<lambda>public_text.
      try_io (ensure_authorized_key w (inner_authorized_keys r) (trim public_text)) (\<lambda>_.
      pure (Inr \<lparr>ik_private_key = private_key, ik_public_key = public_key\<rparr>)))))))))))"

definition client_private_key_name :: "runtime \<Rightarrow> string" where
  "client_private_key_name r =
     ''aw-'' @ uc_user (id_user (gw_identity r)) @ ''-'' @ id_target_name (gw_identity r) @ ''_inner_ed25519''"

definition write_inner_config :: "'s world \<Rightarrow> runtime \<Rightarrow> string \<Rightarrow> ('s, string res) io" where
  "write_inner_config w r config =
     (let path = path_join (ssh_dir r) ''config'' in
      try_io (ensure_private_dir w (ssh_dir r)) (\<lambda>_.
      try_io (io_context (''write '' @ path) (write_private_file w path config 0x180)) (\<lambda>_. pure (Inr path))))"

definition write_client_bundle :: "'s world \<Rightarrow> runtime \<Rightarrow> inner_keypair \<Rightarrow> string \<Rightarrow> ('s, string res) io" where
  "write_client_bundle w r keypair config =
     (let bundle_dir = path_join (path_join (ssh_dir r) ''bundle'') (id_target_name (gw_identity r));
          private_out = path_join bundle_dir (client_private_key_name r);
          public_out = path_join bundle_dir (client_private_key_name r @ ''.pub'');
          config_out = path_join bundle_dir ''ssh_config'' in
      try_io (ensure_private_dir w bundle_dir) (\<lambda>_.
      try_io (io_context (''copy '' @ private_out) (file_step w (CopyFile (ik_private_key keypair) private_out))) (\<lambda>_.
      try_io (io_context (''copy '' @ public_out) (file_step w (CopyFile (ik_public_key keypair) public_out))) (\<lambda>_.
      try_io (io_context (''write '' @ config_out) (write_private_file w config_out config 0x180)) (\<lambda>_.
      try_io (set_mode w private_out 0x180) (\<lambda>_.
      try_io (set_mode w public_out 0x1A4) (\<lambda>_.
      try_io (set_mode w config_out 0x180) (\<lambda>_. pure (Inr bundle_dir)))))))))"

section \<open>The directory of the control sockets\<close>

definition validate_control_socket_dir_permissions :: "string \<Rightarrow> file_stat \<Rightarrow> unit res" where
  "validate_control_socket_dir_permissions path st =
     bail_if (shared_bits (st_mode st))
       (Bail ''control_sockets.host_dir {} exists with permissions {}; use a private 0700 directory or remove it so aw-gateway can create it''
         [path, show_octal (unat (st_mode st AND 0x1FF))])"

definition check_socket_dir_kind :: "string \<Rightarrow> file_stat \<Rightarrow> unit res" where
  "check_socket_dir_kind path st = seq_checks
     [bail_if (st_kind st = Symlink) (Bail ''control_sockets.host_dir {} must not be a symlink'' [path]),
      bail_if (st_kind st \<noteq> Directory)
        (Bail ''control_sockets.host_dir {} exists but is not a directory'' [path])]"

definition ensure_control_socket_dir :: "'s world \<Rightarrow> string \<Rightarrow> ('s, unit res) io" where
  "ensure_control_socket_dir w path = bind_io (observe (w_host w)) (\<lambda>h.
     try_io (pure (with_context (''inspect control_sockets.host_dir '' @ path) (h_lstat h path))) (\<lambda>found.
     try_io (case found of
         Some st \<Rightarrow> pure (map_ok (\<lambda>_. False)
           (seq_checks [check_socket_dir_kind path st, validate_control_socket_dir_permissions path st]))
       | None \<Rightarrow> map_io (map_ok (\<lambda>_. True))
           (io_context (''create control_sockets.host_dir '' @ path) (file_step w (CreateDirAll path)))) (\<lambda>created.
     bind_io (observe (w_host w)) (\<lambda>h.
     try_io (pure (with_context (''inspect control_sockets.host_dir '' @ path) (existing (h_lstat h path)))) (\<lambda>st.
     try_io (pure (check_socket_dir_kind path st)) (\<lambda>_.
     if created
     then io_context (''chmod 0700 control_sockets.host_dir '' @ path) (file_step w (SetMode path 0x1C0))
     else pure (validate_control_socket_dir_permissions path st)))))))"

definition prepare_control_socket_dir :: "'s world \<Rightarrow> runtime \<Rightarrow> ('s, unit res) io" where
  "prepare_control_socket_dir w r =
     (let sockets = pt_control_sockets (gw_paths r);
          run_user_dir = ''/run/user/'' @ show_nat (uc_uid (id_user (gw_identity r)));
          probe = path_join run_user_dir (''.aw-gateway-write-test-'' @ show_nat (w_pid w)) in
      try_io (given_io (csp_default_host_dir sockets) (bind_io (observe (w_host w)) (\<lambda>h.
        try_io (pure (with_context (run_user_dir @ '' is required by the default control_sockets.host_dir; configure control_sockets.host_dir to a writable short absolute path if this host does not provide per-user runtime directories'')
          (existing (h_stat h run_user_dir)))) (\<lambda>st.
        try_io (pure (bail_if (st_kind st \<noteq> Directory)
          (Bail ''{} is not a directory; configure control_sockets.host_dir to a writable short absolute path''
            [run_user_dir]))) (\<lambda>_.
        bind_io (file_io w (CreateNew probe 0x1B6)) (\<lambda>created. case created of
          Inr _ \<Rightarrow> map_io (\<lambda>_. Inr ()) (file_io w (RemoveFile probe))
        | Inl failure \<Rightarrow> pure (Inl
            (Bail ''{} is not writable: {}; configure control_sockets.host_dir to a writable short absolute path''
              [run_user_dir, error_text (failure_error failure)])))))))) (\<lambda>_.
      ensure_control_socket_dir w (csp_host_dir sockets)))"

definition control_socket_files :: "runtime \<Rightarrow> string list" where
  "control_socket_files r = [csp_host_agent_socket (pt_control_sockets (gw_paths r)),
     csp_host_ssh_socket (pt_control_sockets (gw_paths r))]"

definition remove_stale_control_socket_files :: "'s world \<Rightarrow> runtime \<Rightarrow> ('s, unit res) io" where
  "remove_stale_control_socket_files w r = each_io (\<lambda>socket. bind_io (observe (w_host w)) (\<lambda>h.
     try_io (pure (with_context (''inspect control socket '' @ socket) (h_lstat h socket))) (\<lambda>found. case found of
       None \<Rightarrow> pure (Inr ())
     | Some st \<Rightarrow>
         if st_kind st = Directory then pure (Inl
           (Bail ''control socket path {} exists as a directory; remove it or configure a different control_sockets.host_dir''
             [socket]))
         else io_context (''remove stale control socket '' @ socket) (file_step w (RemoveFile socket)))))
     (control_socket_files r)"

text \<open>Failures are only logged.\<close>

definition cleanup_control_socket_dir :: "'s world \<Rightarrow> runtime \<Rightarrow> ('s, unit) io" where
  "cleanup_control_socket_dir w r =
     (let dir = csp_host_dir (pt_control_sockets (gw_paths r)) in
      bind_io (observe (w_host w)) (\<lambda>h.
      when_io (case h_lstat h dir of Inr (Some st) \<Rightarrow> st_kind st = Directory | _ \<Rightarrow> False)
        (bind_io (all_io (\<lambda>socket. map_io (\<lambda>_. ()) (file_io w (RemoveFile socket))) (control_socket_files r)) (\<lambda>_.
         map_io (\<lambda>_. ()) (file_io w (RemoveDir dir))))))"

definition meta_of :: "host \<Rightarrow> string \<Rightarrow> file_meta res" where
  "meta_of h path = map_ok (\<lambda>st. \<lparr>fm_is_socket = (st_kind st = Socket), fm_uid = st_uid st, fm_gid = st_gid st,
     fm_mode = st_mode st\<rparr>) (existing (h_lstat h path))"

definition socket_is_safe :: "host \<Rightarrow> runtime \<Rightarrow> string \<Rightarrow> unit res" where
  "socket_is_safe h r path =
     socket_is_safe_for (meta_of h) path (uc_uid (id_user (gw_identity r))) (uc_gid (id_user (gw_identity r)))"

definition agent_socket :: "runtime \<Rightarrow> string" where
  "agent_socket r = csp_host_agent_socket (pt_control_sockets (gw_paths r))"

definition validate_agent_socket :: "'s world \<Rightarrow> runtime \<Rightarrow> ('s, unit res) io" where
  "validate_agent_socket w r = observe (\<lambda>s. socket_is_safe (w_host w s) r (agent_socket r))"

definition connect_io :: "'s world \<Rightarrow> peer \<Rightarrow> nat option \<Rightarrow> ('s, unit res option) io" where
  "connect_io w peer limit = effect (\<lambda>_. Connected peer) (w_connect w peer limit)"

text \<open>A connection without a limit of time is never cut off; that answer is the error of a broken clock.\<close>

definition unlimited :: "'a res option \<Rightarrow> 'a res" where
  "unlimited r = (case r of Some a \<Rightarrow> a | None \<Rightarrow> Inl (Bail ''deadline has elapsed'' []))"

definition validate_ssh_socket :: "'s world \<Rightarrow> runtime \<Rightarrow> ('s, unit res) io" where
  "validate_ssh_socket w r =
     (let socket = csp_host_ssh_socket (pt_control_sockets (gw_paths r)) in
      bind_io (observe (w_host w)) (\<lambda>h.
      try_io (pure (socket_is_safe h r socket)) (\<lambda>_.
      io_context (''test-connect '' @ socket) (map_io unlimited (connect_io w (UnixPeer socket) None)))))"

section \<open>The files for the container\<close>

definition atomic_write_toml :: "'s world \<Rightarrow> string \<Rightarrow> string res \<Rightarrow> atomic_write_policy \<Rightarrow> ('s, unit res) io" where
  "atomic_write_toml w path raw policy =
     io_context (''write '' @ path) (try_io (pure raw) (\<lambda>text. atomic_write_file w path text policy))"

definition write_container_agent_config :: "'s world \<Rightarrow> runtime \<Rightarrow> ('s, string res) io" where
  "write_container_agent_config w r =
     (let path = path_join (pt_container_state_dir (gw_paths r)) ''container-agent.toml'' in
      bind_io (observe (w_host w)) (\<lambda>h.
      try_io (pure (container_agent_file_of h r)) (\<lambda>file.
      try_io (atomic_write_toml w path (co_agent_toml (w_codecs w) file) (fixed_no_fsync 0x180)) (\<lambda>_.
      pure (Inr path)))))"

definition write_ssh_command_filter_policy :: "'s world \<Rightarrow> runtime \<Rightarrow> ('s, string res) io" where
  "write_ssh_command_filter_policy w r =
     (let path = path_join (pt_container_state_dir (gw_paths r)) ''ssh-command-filter.toml'' in
      try_io (atomic_write_toml w path (co_policy_toml (w_codecs w) (ssh_command_filter_policy_of r)) (fixed_no_fsync 0x180)) (\<lambda>_.
      pure (Inr path)))"

definition write_container_bootstrap_config :: "'s world \<Rightarrow> runtime \<Rightarrow> ('s, string res) io" where
  "write_container_bootstrap_config w r =
     (let path = path_join (pt_container_state_dir (gw_paths r)) ''container-bootstrap.toml'' in
      bind_io (observe (w_host w)) (\<lambda>h.
      try_io (pure (container_bootstrap_file_of h r)) (\<lambda>file.
      try_io (atomic_write_toml w path (co_bootstrap_toml (w_codecs w) file) (fixed_no_fsync 0x180)) (\<lambda>_.
      pure (Inr path)))))"

definition write_sshd_session_env_config :: "'s world \<Rightarrow> runtime \<Rightarrow> ('s, string res) io" where
  "write_sshd_session_env_config w r =
     (let path = path_join (pt_container_state_dir (gw_paths r)) ''sshd-session-env.conf'' in
      bind_io (observe (w_host w)) (\<lambda>h.
      try_io (pure (sshd_session_env_config h r)) (\<lambda>raw.
      try_io (io_context (''write '' @ path) (write_private_file w path raw 0x180)) (\<lambda>_.
      pure (Inr path)))))"

section \<open>Published SSH ports\<close>

definition uses_apple_published_ssh_port_state :: "runtime \<Rightarrow> bool" where
  "uses_apple_published_ssh_port_state r \<longleftrightarrow> crt_kind (gw_runtime r) = AppleContainer
     \<and> ssh_endpoint_configured r \<and> ssh_backend r = PublishedPort"

definition direct_published_ssh_enabled :: "runtime \<Rightarrow> bool" where
  "direct_published_ssh_enabled r \<longleftrightarrow> ssh_endpoint_configured r \<and> ssh_backend r = PublishedPort
     \<and> (case tgt_local_ssh (gw_target r) of Some l \<Rightarrow> ls_mode l = Direct | None \<Rightarrow> False)"

definition needs_explicit_published_ssh_port :: "runtime \<Rightarrow> bool" where
  "needs_explicit_published_ssh_port r \<longleftrightarrow> uses_apple_published_ssh_port_state r \<or> direct_published_ssh_enabled r"

definition configured_direct_published_ssh_port :: "runtime \<Rightarrow> nat option" where
  "configured_direct_published_ssh_port r =
     (if direct_published_ssh_enabled r then Option.bind (tgt_local_ssh (gw_target r)) ls_port else None)"

definition published_ssh_port_path :: "runtime \<Rightarrow> string" where
  "published_ssh_port_path r = path_join (pt_container_state_dir (gw_paths r)) ''published-ssh-port''"

definition pending_published_ssh_port_path :: "runtime \<Rightarrow> string" where
  "pending_published_ssh_port_path r = path_join (pt_container_state_dir (gw_paths r)) ''published-ssh-port.pending''"

definition published_ssh_endpoint_path :: "runtime \<Rightarrow> string" where
  "published_ssh_endpoint_path r = path_join (pt_container_state_dir (gw_paths r)) ''published-ssh-endpoint.json''"

definition reserve_loopback_port_at :: "'s world \<Rightarrow> nat \<Rightarrow> ('s, nat res) io" where
  "reserve_loopback_port_at w port =
     io_context (''allocate loopback published SSH port '' @ show_nat port) (effect (\<lambda>_. Bound port) (w_bind w port))"

definition remove_pending_published_ssh_port :: "'s world \<Rightarrow> runtime \<Rightarrow> ('s, unit) io" where
  "remove_pending_published_ssh_port w r =
     when_io (uses_apple_published_ssh_port_state r)
       (map_io (\<lambda>_. ()) (remove_if_exists w (pending_published_ssh_port_path r)))"

definition prepare_published_ssh_host_port_for_create :: "'s world \<Rightarrow> runtime \<Rightarrow> ('s, nat option res) io" where
  "prepare_published_ssh_host_port_for_create w r =
     (if \<not> needs_explicit_published_ssh_port r then pure (Inr None)
      else
        try_io (ensure_private_dir w (pt_container_state_dir (gw_paths r))) (\<lambda>_.
        bind_io (remove_pending_published_ssh_port w r) (\<lambda>_.
        try_io (reserve_loopback_port_at w (unwrap_or 0 (configured_direct_published_ssh_port r))) (\<lambda>port.
        try_io (given_io (uses_apple_published_ssh_port_state r)
          (io_context (''write pending published SSH port '' @ pending_published_ssh_port_path r)
            (write_private_file w (pending_published_ssh_port_path r) (show_nat port @ [newline]) 0x180))) (\<lambda>_.
        pure (Inr (Some port)))))))"

definition promote_pending_published_ssh_port :: "'s world \<Rightarrow> runtime \<Rightarrow> ('s, unit res) io" where
  "promote_pending_published_ssh_port w r = given_io (uses_apple_published_ssh_port_state r)
     (io_context (''promote pending published SSH port to '' @ published_ssh_port_path r)
       (file_step w (RenameFile (pending_published_ssh_port_path r) (published_ssh_port_path r))))"

definition cleanup_published_ssh_port_state :: "'s world \<Rightarrow> runtime \<Rightarrow> ('s, unit) io" where
  "cleanup_published_ssh_port_state w r = all_io (\<lambda>path. map_io (\<lambda>_. ()) (remove_if_exists w path))
     [published_ssh_port_path r, pending_published_ssh_port_path r, published_ssh_endpoint_path r]"

text \<open>The text of a \<open>ParseIntError\<close> is not kept.\<close>

definition read_published_ssh_port :: "host \<Rightarrow> runtime \<Rightarrow> nat option res" where
  "read_published_ssh_port h r =
     (let path = published_ssh_port_path r in
      and_then (with_context (''read '' @ path) (h_read h path)) (\<lambda>found. case found of
        None \<Rightarrow> Inr None
      | Some raw \<Rightarrow> map_ok Some (ok_or (Context (''parse published SSH port '' @ path)
          (Bail ''invalid number {}'' [trim raw])) (parse_uint u16_limit (trim raw)))))"

fun runtime_type_name :: "container_runtime_type \<Rightarrow> string" where
  "runtime_type_name Podman = ''podman''"
| "runtime_type_name Docker = ''docker''"
| "runtime_type_name Colima = ''colima''"
| "runtime_type_name AppleContainer = ''apple_container''"

definition endpoint_state_of :: "runtime \<Rightarrow> tcp_endpoint \<Rightarrow> nat \<Rightarrow> published_ssh_endpoint_state" where
  "endpoint_state_of r endpoint ms =
     \<lparr>pe_host = te_host endpoint, pe_port = te_port endpoint, pe_container = id_container_name (gw_identity r),
      pe_target = id_target_name (gw_identity r), pe_target_mode = mode_text (tgt_mode (gw_target r)),
      pe_runtime_type = runtime_type_name (crt_kind (gw_runtime r)), pe_access = access_name r,
      pe_local_ssh_mode = ''direct'', pe_local_ssh_backend = ''published_port'',
      pe_configured_port = configured_direct_published_ssh_port r, pe_session_id = id_session_id (gw_identity r),
      pe_context = gw_context r, pe_updated_at_ms = ms\<rparr>"

definition write_published_ssh_endpoint_state :: "'s world \<Rightarrow> runtime \<Rightarrow> tcp_endpoint \<Rightarrow> ('s, unit res) io" where
  "write_published_ssh_endpoint_state w r endpoint =
     (let path = published_ssh_endpoint_path r in
      given_io (direct_published_ssh_enabled r)
        (try_io (ensure_private_dir w (pt_container_state_dir (gw_paths r))) (\<lambda>_.
         try_io (observe (w_unix_ms w)) (\<lambda>ms.
         try_io (pure (co_endpoint (w_codecs w) (endpoint_state_of r endpoint ms))) (\<lambda>text.
         io_context (''write published SSH endpoint '' @ path) (write_private_file w path text 0x180))))))"

definition matches_runtime_except_configured_port :: "published_ssh_endpoint_state \<Rightarrow> runtime \<Rightarrow> bool" where
  "matches_runtime_except_configured_port state r \<longleftrightarrow>
     pe_container state = id_container_name (gw_identity r) \<and> pe_target state = id_target_name (gw_identity r)
     \<and> pe_target_mode state = mode_text (tgt_mode (gw_target r))
     \<and> pe_runtime_type state = runtime_type_name (crt_kind (gw_runtime r)) \<and> pe_access state = access_name r
     \<and> pe_local_ssh_mode state = ''direct'' \<and> pe_local_ssh_backend state = ''published_port''
     \<and> pe_session_id state = id_session_id (gw_identity r) \<and> pe_context state = gw_context r"

definition matches_runtime :: "published_ssh_endpoint_state \<Rightarrow> runtime \<Rightarrow> bool" where
  "matches_runtime state r \<longleftrightarrow> matches_runtime_except_configured_port state r
     \<and> pe_configured_port state = configured_direct_published_ssh_port r"

definition read_published_ssh_endpoint_state ::
  "codecs \<Rightarrow> host \<Rightarrow> runtime \<Rightarrow> published_ssh_endpoint_state option res" where
  "read_published_ssh_endpoint_state co h r =
     (let path = published_ssh_endpoint_path r in
      and_then (with_context (''read '' @ path) (h_read h path)) (\<lambda>found. case found of
        None \<Rightarrow> Inr None
      | Some raw \<Rightarrow> map_ok Some (with_context (''parse '' @ path) (co_endpoint_of co raw))))"

definition state_endpoint :: "published_ssh_endpoint_state \<Rightarrow> tcp_endpoint" where
  "state_endpoint state = \<lparr>te_host = pe_host state, te_port = pe_port state\<rparr>"

definition read_matching_published_ssh_endpoint_state :: "codecs \<Rightarrow> host \<Rightarrow> runtime \<Rightarrow> tcp_endpoint option res" where
  "read_matching_published_ssh_endpoint_state co h r =
     map_ok (\<lambda>found. case found of
         Some state \<Rightarrow> if matches_runtime state r then Some (state_endpoint state) else None
       | None \<Rightarrow> None) (read_published_ssh_endpoint_state co h r)"

definition configured_port_mismatch_published_ssh_endpoint_state ::
  "codecs \<Rightarrow> host \<Rightarrow> runtime \<Rightarrow> tcp_endpoint option res" where
  "configured_port_mismatch_published_ssh_endpoint_state co h r =
     (case configured_direct_published_ssh_port r of
        None \<Rightarrow> Inr None
      | Some port \<Rightarrow> map_ok (\<lambda>found. case found of
            Some state \<Rightarrow> if \<not> matches_runtime_except_configured_port state r \<or> pe_port state = port
              then None else Some (state_endpoint state)
          | None \<Rightarrow> None) (read_published_ssh_endpoint_state co h r))"

definition validate_direct_endpoint_matches_config :: "runtime \<Rightarrow> tcp_endpoint \<Rightarrow> unit res" where
  "validate_direct_endpoint_matches_config r endpoint = seq_checks
     [bail_if (te_host endpoint \<noteq> ''127.0.0.1'')
        (Bail ''direct published SSH endpoint for target {} resolved to non-loopback host {}''
          [id_target_name (gw_identity r), te_host endpoint]),
      given (\<lambda>configured. bail_if (te_port endpoint \<noteq> configured)
        (Bail ''direct published SSH endpoint for target {} uses host port {}, but local_ssh.port is {}; remove and recreate the target or update local_ssh.port''
          [id_target_name (gw_identity r), show_nat (te_port endpoint), show_nat configured]))
        (configured_direct_published_ssh_port r)]"

definition validate_direct_endpoint_matches_runtime_state :: "host \<Rightarrow> runtime \<Rightarrow> tcp_endpoint \<Rightarrow> unit res" where
  "validate_direct_endpoint_matches_runtime_state h r endpoint =
     (if \<not> uses_apple_published_ssh_port_state r then Inr ()
      else and_then (read_published_ssh_port h r) (\<lambda>port.
        and_then (ok_or (Bail ''Apple container target {} has saved direct SSH endpoint state but {} is missing; run `aw-gateway up {}` or remove and recreate the target''
          [id_target_name (gw_identity r), published_ssh_port_path r, id_target_name (gw_identity r)]) port) (\<lambda>port.
        bail_if (te_port endpoint \<noteq> port)
          (Bail ''Apple container target {} saved direct SSH endpoint port {} does not match authoritative published SSH port {}; run `aw-gateway up {}` or remove and recreate the target''
            [id_target_name (gw_identity r), show_nat (te_port endpoint), show_nat port, id_target_name (gw_identity r)]))))"

text \<open>What the world makes of a running container.\<close>

definition endpoint_of_port :: "published_port \<Rightarrow> tcp_endpoint" where
  "endpoint_of_port p = \<lparr>te_host = pp_host p, te_port = pp_port p\<rparr>"

definition loopback_endpoint :: "nat \<Rightarrow> tcp_endpoint" where
  "loopback_endpoint port = \<lparr>te_host = ''127.0.0.1'', te_port = port\<rparr>"

definition inspect_own :: "'s world \<Rightarrow> runtime \<Rightarrow> ('s, container_inspect option res) io" where
  "inspect_own w r = inspect_io w (gw_runtime r) (id_container_name (gw_identity r))"

definition apple_published_ssh_endpoint :: "'s world \<Rightarrow> runtime \<Rightarrow> ('s, tcp_endpoint option res) io" where
  "apple_published_ssh_endpoint w r = try_io (inspect_own w r) (\<lambda>found. case found of
     None \<Rightarrow> pure (Inr None)
   | Some i \<Rightarrow>
       try_io (pure (validate_labels r i)) (\<lambda>_.
       if \<not> ci_running i then pure (Inr None)
       else bind_io (observe (w_host w)) (\<lambda>h.
         pure (and_then (read_published_ssh_port h r) (\<lambda>port.
           map_ok (\<lambda>port. Some (loopback_endpoint port))
             (ok_or (Bail ''Apple container target {} is running but {} is missing; remove and recreate the target to allocate a published SSH port''
               [id_target_name (gw_identity r), published_ssh_port_path r]) port))))))"

definition published_ssh_endpoint :: "'s world \<Rightarrow> runtime \<Rightarrow> ('s, tcp_endpoint option res) io" where
  "published_ssh_endpoint w r =
     (if \<not> ssh_endpoint_configured r \<or> ssh_backend r \<noteq> PublishedPort then pure (Inr None)
      else if crt_kind (gw_runtime r) = AppleContainer then apple_published_ssh_endpoint w r
      else map_io (map_ok (map_option endpoint_of_port))
        (published_port_io w (gw_runtime r) (id_container_name (gw_identity r)) 22))"

definition direct_authoritative_published_ssh_endpoint :: "'s world \<Rightarrow> runtime \<Rightarrow> bool \<Rightarrow> ('s, tcp_endpoint option res) io" where
  "direct_authoritative_published_ssh_endpoint w r running =
     try_io (if uses_apple_published_ssh_port_state r \<and> \<not> running
       then observe (\<lambda>s. map_ok (map_option loopback_endpoint) (read_published_ssh_port (w_host w s) r))
       else published_ssh_endpoint w r) (\<lambda>endpoint. case endpoint of
         None \<Rightarrow> pure (Inr None)
       | Some endpoint \<Rightarrow>
           bind_io (observe (w_host w)) (\<lambda>h.
           try_io (pure (if \<not> running \<and> uses_apple_published_ssh_port_state r
             then and_then (read_matching_published_ssh_endpoint_state (w_codecs w) h r)
               (\<lambda>saved. given (validate_direct_endpoint_matches_runtime_state h r) saved)
             else Inr ())) (\<lambda>_.
           try_io (pure (validate_direct_endpoint_matches_config r endpoint)) (\<lambda>_.
           try_io (write_published_ssh_endpoint_state w r endpoint) (\<lambda>_.
           pure (Inr (Some endpoint)))))))"

text \<open>The endpoint that is saved for a stopped container, when it fits.\<close>

definition saved_endpoint :: "'s world \<Rightarrow> runtime \<Rightarrow> tcp_endpoint option res \<Rightarrow> ('s, tcp_endpoint option res) io" where
  "saved_endpoint w r found = try_io (pure found) (\<lambda>found. case found of
     None \<Rightarrow> pure (Inr None)
   | Some endpoint \<Rightarrow> observe (\<lambda>s. map_ok (\<lambda>_. Some endpoint) (seq_checks
       [validate_direct_endpoint_matches_runtime_state (w_host w s) r endpoint,
        validate_direct_endpoint_matches_config r endpoint])))"

definition direct_client_ssh_endpoint :: "'s world \<Rightarrow> runtime \<Rightarrow> ('s, tcp_endpoint option res) io" where
  "direct_client_ssh_endpoint w r =
     (if \<not> direct_published_ssh_enabled r then pure (Inr None)
      else try_io (inspect_own w r) (\<lambda>found. case found of
        None \<Rightarrow> pure (Inr (map_option loopback_endpoint (configured_direct_published_ssh_port r)))
      | Some i \<Rightarrow>
          try_io (pure (validate_labels r i)) (\<lambda>_.
          try_io (direct_authoritative_published_ssh_endpoint w r (ci_running i)) (\<lambda>endpoint.
          if endpoint \<noteq> None then pure (Inr endpoint)
          else if ci_running i then pure (Inl
            (Bail ''target {} is running but its published SSH endpoint could not be resolved'' [id_target_name (gw_identity r)]))
          else bind_io (observe (w_host w)) (\<lambda>h.
            try_io (saved_endpoint w r (read_matching_published_ssh_endpoint_state (w_codecs w) h r)) (\<lambda>saved.
            if saved \<noteq> None then pure (Inr saved)
            else try_io (saved_endpoint w r (configured_port_mismatch_published_ssh_endpoint_state (w_codecs w) h r)) (\<lambda>_.
              pure (Inl (Bail ''target {} has a stopped container but no matching published SSH endpoint state; run `aw-gateway up {}` first''
                [id_target_name (gw_identity r), id_target_name (gw_identity r)])))))))))"

definition direct_status_ssh_endpoint :: "'s world \<Rightarrow> runtime \<Rightarrow> container_inspect option \<Rightarrow> ('s, tcp_endpoint option res) io" where
  "direct_status_ssh_endpoint w r found =
     (if \<not> direct_published_ssh_enabled r then pure (Inr None)
      else case found of
        None \<Rightarrow> pure (Inr None)
      | Some i \<Rightarrow>
          try_io (pure (validate_labels r i)) (\<lambda>_.
          try_io (direct_authoritative_published_ssh_endpoint w r (ci_running i)) (\<lambda>endpoint.
          if endpoint \<noteq> None \<or> ci_running i then pure (Inr endpoint)
          else bind_io (observe (w_host w)) (\<lambda>h.
            saved_endpoint w r (read_matching_published_ssh_endpoint_state (w_codecs w) h r)))))"

section \<open>Session markers\<close>

definition session_marker_dir :: "runtime \<Rightarrow> string" where
  "session_marker_dir r = path_join (pt_container_state_dir (gw_paths r)) ''sessions''"

text \<open>\<open>process_start_time\<close> on Linux: the twenty-second field of \<open>/proc/<pid>/stat\<close>, counted from the
  last parenthesis.\<close>

definition parse_process_start_time :: "string \<Rightarrow> string res" where
  "parse_process_start_time stat =
     (case rsplit_once_str '') '' stat of
        None \<Rightarrow> Inl (Bail ''malformed proc stat'' [])
      | Some (_, rest) \<Rightarrow> ok_or (Bail ''proc stat missing starttime'' []) (nth_of 19 (split_whitespace rest)))"

definition process_start_time :: "host \<Rightarrow> nat \<Rightarrow> string res" where
  "process_start_time h pid =
     and_then (read_to_string h (''/proc/'' @ show_nat pid @ ''/stat'')) parse_process_start_time"

definition gateway_record_is_active :: "host \<Rightarrow> nat \<Rightarrow> nat \<Rightarrow> string \<Rightarrow> bool" where
  "gateway_record_is_active h own_pid pid start_time \<longleftrightarrow> pid = own_pid
     \<or> start_time \<noteq> [] \<and> process_start_time h pid = Inr start_time"

definition read_session_marker :: "codecs \<Rightarrow> host \<Rightarrow> string \<Rightarrow> session_marker res" where
  "read_session_marker co h path = and_then (read_to_string h path) (co_marker_of co)"

definition session_marker_is_active :: "host \<Rightarrow> nat \<Rightarrow> session_marker \<Rightarrow> bool" where
  "session_marker_is_active h own_pid m =
     gateway_record_is_active h own_pid (mk_gateway_pid m) (mk_gateway_start_time m)"

record session_status =
  sn_id :: string
  sn_kind :: string
  sn_gateway_pid :: nat
  sn_container :: string
  sn_target :: string
  sn_launch :: "string option"
  sn_context :: runtime_context
  sn_created_at_ms :: nat

definition session_status_of :: "session_marker \<Rightarrow> session_status" where
  "session_status_of m = \<lparr>sn_id = mk_id m, sn_kind = mk_kind m, sn_gateway_pid = mk_gateway_pid m,
     sn_container = mk_container m, sn_target = mk_target m, sn_launch = mk_launch m,
     sn_context = mk_context m, sn_created_at_ms = mk_created_at_ms m\<rparr>"

text \<open>\<open>Path::extension\<close> is \<open>json\<close>.\<close>

definition has_json_extension :: "string \<Rightarrow> bool" where
  "has_json_extension path = (case path_file_name path of
     Some name \<Rightarrow> ends_with ''.json'' name \<and> name \<noteq> ''.json'' | None \<Rightarrow> False)"

text \<open>A marker that is not active, or belongs to another context, is removed; one that cannot be read
  stays.\<close>

fun sweep_markers ::
  "'s world \<Rightarrow> runtime_context \<Rightarrow> string list \<Rightarrow> session_status list \<Rightarrow> ('s, session_status list) io" where
  "sweep_markers w context [] sessions = pure sessions"
| "sweep_markers w context (path # paths) sessions =
     (if \<not> has_json_extension path then sweep_markers w context paths sessions
      else bind_io (observe (w_host w)) (\<lambda>h.
        case read_session_marker (w_codecs w) h path of
          Inl _ \<Rightarrow> sweep_markers w context paths sessions
        | Inr m \<Rightarrow>
            if session_marker_is_active h (w_pid w) m \<and> matches_stored context (mk_context m)
            then sweep_markers w context paths (sessions @ [session_status_of m])
            else bind_io (file_io w (RemoveFile path)) (\<lambda>_. sweep_markers w context paths sessions)))"

definition active_session_markers_from_dir ::
  "'s world \<Rightarrow> string \<Rightarrow> runtime_context \<Rightarrow> ('s, session_status list res) io" where
  "active_session_markers_from_dir w dir context =
     try_io (observe (\<lambda>s. with_context (''read '' @ dir) (w_read_dir w dir s))) (\<lambda>found. case found of
       None \<Rightarrow> pure (Inr [])
     | Some paths \<Rightarrow> map_io (\<lambda>sessions. Inr (sort_key sn_id sessions)) (sweep_markers w context paths []))"

definition active_session_markers :: "'s world \<Rightarrow> runtime \<Rightarrow> ('s, session_status list res) io" where
  "active_session_markers w r = active_session_markers_from_dir w (session_marker_dir r) (gw_context r)"

text \<open>The guard of a session is the path of its marker, which is removed when it is dropped.\<close>

definition create_session_marker :: "'s world \<Rightarrow> runtime \<Rightarrow> string \<Rightarrow> bool \<Rightarrow> ('s, string res) io" where
  "create_session_marker w r kind launch_marker =
     (let dir = session_marker_dir r in
      try_io (ensure_private_dir w dir) (\<lambda>_.
      bind_io (observe (w_host w)) (\<lambda>h.
      try_io (pure (generate_session_id_value h)) (\<lambda>marker_id.
      let path = path_join dir (marker_id @ ''.json'') in
      try_io (pure (with_context ''read current gateway process start time'' (process_start_time h (w_pid w)))) (\<lambda>start.
      try_io (observe (w_unix_ms w)) (\<lambda>ms.
      try_io (pure (co_marker (w_codecs w) \<lparr>mk_id = marker_id, mk_kind = kind, mk_gateway_pid = w_pid w,
        mk_gateway_start_time = start, mk_container = id_container_name (gw_identity r),
        mk_target = id_target_name (gw_identity r),
        mk_launch = (if launch_marker then id_launch_name (gw_identity r) else None),
        mk_context = gw_context r, mk_created_at_ms = ms\<rparr>)) (\<lambda>text.
      try_io (io_context (''write session marker '' @ path) (write_private_file w path text 0x180)) (\<lambda>_.
      pure (Inr path)))))))))"

definition drop_session_guard :: "'s world \<Rightarrow> string \<Rightarrow> ('s, unit) io" where
  "drop_session_guard w path = map_io (\<lambda>_. ()) (file_io w (RemoveFile path))"

section \<open>The listener for local SSH\<close>

definition local_listener_status_path :: "runtime \<Rightarrow> string" where
  "local_listener_status_path r = path_join (pt_container_state_dir (gw_paths r)) ''local-ssh-listener.json''"

definition local_listener_is_active :: "host \<Rightarrow> nat \<Rightarrow> local_listener_status \<Rightarrow> bool" where
  "local_listener_is_active h own_pid l =
     gateway_record_is_active h own_pid (ll_gateway_pid l) (ll_gateway_start_time l)"

definition active_local_listener_status :: "'s world \<Rightarrow> runtime \<Rightarrow> ('s, local_listener_status option res) io" where
  "active_local_listener_status w r =
     (let path = local_listener_status_path r in
      bind_io (observe (w_host w)) (\<lambda>h.
      try_io (pure (with_context (''read '' @ path) (h_read h path))) (\<lambda>found. case found of
        None \<Rightarrow> pure (Inr None)
      | Some raw \<Rightarrow>
          try_io (pure (with_context (''parse '' @ path) (co_listener_of (w_codecs w) raw))) (\<lambda>l.
          if local_listener_is_active h (w_pid w) l then pure (Inr (Some l))
          else map_io (\<lambda>_. Inr None) (file_io w (RemoveFile path))))))"

definition write_local_listener_status :: "'s world \<Rightarrow> runtime \<Rightarrow> string \<Rightarrow> nat \<Rightarrow> ('s, string res) io" where
  "write_local_listener_status w r host_name port =
     (let path = local_listener_status_path r in
      bind_io (observe (w_host w)) (\<lambda>h.
      try_io (pure (with_context ''read current gateway process start time'' (process_start_time h (w_pid w)))) (\<lambda>start.
      try_io (observe (w_unix_ms w)) (\<lambda>ms.
      try_io (pure (co_listener (w_codecs w) \<lparr>ll_gateway_pid = w_pid w, ll_gateway_start_time = start,
        ll_host = host_name, ll_port = port, ll_created_at_ms = ms\<rparr>)) (\<lambda>text.
      try_io (io_context (''write local listener status '' @ path) (write_private_file w path text 0x180)) (\<lambda>_.
      pure (Inr path)))))))"

definition local_ssh_port :: "'s world \<Rightarrow> runtime \<Rightarrow> local_ssh_config \<Rightarrow> ('s, nat res) io" where
  "local_ssh_port w r configured =
     (let path = local_listener_status_path r in
      case ls_port configured of
        Some port \<Rightarrow> pure (Inr port)
      | None \<Rightarrow> bind_io (observe (w_host w)) (\<lambda>h.
          try_io (pure (with_context (''local_ssh.port is not configured and no active listener status exists at '' @ path)
            (existing (h_read h path)))) (\<lambda>raw.
          try_io (pure (with_context (''parse '' @ path) (co_listener_of (w_codecs w) raw))) (\<lambda>l.
          if ll_host l \<noteq> ls_host configured \<or> \<not> local_listener_is_active h (w_pid w) l
          then map_io (\<lambda>_. Inl (Bail ''local_ssh.port is not configured and listener status is stale; start the local listener first'' []))
            (file_io w (RemoveFile path))
          else pure (Inr (ll_port l))))))"

section \<open>None of this touches a container\<close>

lemma quiet_token_ops [quiet]:
  "quiet (ensure_control_token w r)" "quiet (ensure_identity_token_file w path)" "quiet (ensure_identity_token w r)"
  unfolding ensure_control_token_def ensure_identity_token_file_def ensure_identity_token_def Let_def
  by (auto intro!: quiet split: option.split sum.split)

lemma quiet_connect_io [quiet]: "quiet (connect_io w peer limit)"
  and quiet_program_io [quiet]: "quiet (program_io w argv)"
  and quiet_reserve [quiet]: "quiet (reserve_loopback_port_at w port)"
  by (auto simp: connect_io_def program_io_def reserve_loopback_port_at_def harmless_def intro!: quiet quiet_effect)

lemma quiet_key_ops [quiet]:
  "quiet (ensure_authorized_key w path key)" "quiet (generate_inner_keypair w path user target)"
  "quiet (validate_private_key w path target)" "quiet (write_public_key_from_private w private_key public_key)"
  by (auto simp: ensure_authorized_key_def generate_inner_keypair_def validate_private_key_def
      write_public_key_from_private_def intro!: quiet)

lemma quiet_ensure_inner_keypair [quiet]: "quiet (ensure_inner_keypair w r rotate_key)"
  unfolding ensure_inner_keypair_def Let_def by (auto intro!: quiet)

lemma quiet_client_files [quiet]:
  "quiet (write_inner_config w r config)" "quiet (write_client_bundle w r keypair config)"
  by (auto simp: write_inner_config_def write_client_bundle_def Let_def intro!: quiet)

lemma quiet_ensure_control_socket_dir [quiet]: "quiet (ensure_control_socket_dir w path)"
  unfolding ensure_control_socket_dir_def by (auto intro!: quiet split: option.split)

lemma quiet_control_sockets [quiet]:
  "quiet (prepare_control_socket_dir w r)" "quiet (remove_stale_control_socket_files w r)"
  "quiet (cleanup_control_socket_dir w r)" "quiet (validate_agent_socket w r)" "quiet (validate_ssh_socket w r)"
  unfolding prepare_control_socket_dir_def remove_stale_control_socket_files_def cleanup_control_socket_dir_def
    validate_agent_socket_def validate_ssh_socket_def Let_def
  by (auto intro!: quiet split: option.split sum.split)

lemma quiet_container_files [quiet]:
  "quiet (write_container_agent_config w r)" "quiet (write_ssh_command_filter_policy w r)"
  "quiet (write_container_bootstrap_config w r)" "quiet (write_sshd_session_env_config w r)"
  unfolding write_container_agent_config_def write_ssh_command_filter_policy_def
    write_container_bootstrap_config_def write_sshd_session_env_config_def atomic_write_toml_def Let_def
  by (auto intro!: quiet)

lemma quiet_ports [quiet]:
  "quiet (remove_pending_published_ssh_port w r)" "quiet (promote_pending_published_ssh_port w r)"
  "quiet (cleanup_published_ssh_port_state w r)" "quiet (write_published_ssh_endpoint_state w r endpoint)"
  unfolding remove_pending_published_ssh_port_def promote_pending_published_ssh_port_def
    cleanup_published_ssh_port_state_def write_published_ssh_endpoint_state_def Let_def
  by (intro quiet; simp)+

lemma quiet_prepare_port [quiet]: "quiet (prepare_published_ssh_host_port_for_create w r)"
  unfolding prepare_published_ssh_host_port_for_create_def by (auto intro!: quiet)

lemma quiet_sweep_markers [quiet]: "quiet (sweep_markers w ctx paths sessions)"
  by (induction w ctx paths sessions rule: sweep_markers.induct) (auto intro!: quiet split: sum.split)

lemma quiet_markers [quiet]:
  "quiet (active_session_markers w r)" "quiet (create_session_marker w r kind launch_marker)"
  "quiet (drop_session_guard w path)"
  unfolding active_session_markers_def active_session_markers_from_dir_def create_session_marker_def
    drop_session_guard_def Let_def
  by (auto intro!: quiet split: option.split)

lemma quiet_listener [quiet]:
  "quiet (active_local_listener_status w r)" "quiet (write_local_listener_status w r h port)"
  "quiet (local_ssh_port w r configured)"
  unfolding active_local_listener_status_def write_local_listener_status_def local_ssh_port_def Let_def
  by (auto intro!: quiet split: option.split)

lemma calm_inspect_own [calm]: "calm r (inspect_own w r)"
  unfolding inspect_own_def by (rule calm_inspect)

lemma calm_published [calm]: "calm r (published_ssh_endpoint w r)"
  unfolding published_ssh_endpoint_def apple_published_ssh_endpoint_def
  by (auto intro!: calm split: option.split) (rule calm_quiet, intro quiet)+

lemma calm_authoritative [calm]: "calm r (direct_authoritative_published_ssh_endpoint w r running)"
  unfolding direct_authoritative_published_ssh_endpoint_def
  by (auto intro!: calm split: option.split) (rule calm_quiet, intro quiet)+

lemma quiet_saved_endpoint [quiet]: "quiet (saved_endpoint w r found)"
  unfolding saved_endpoint_def by (auto intro!: quiet split: option.split)

lemma calm_direct [calm]: "calm r (direct_client_ssh_endpoint w r)" "calm r (direct_status_ssh_endpoint w r i)"
  unfolding direct_client_ssh_endpoint_def direct_status_ssh_endpoint_def
  by (auto intro!: calm split: option.split) (rule calm_quiet, intro quiet)+

end
