(* ===== verification/Lifecycle.thy ===== *)
theory Lifecycle
  imports Gateway_State
begin

text \<open>
  How a container is started, made ready, stopped and removed: \<open>gateway/lifecycle.rs\<close>,
  \<open>gateway/lifecycle_hooks.rs\<close>, \<open>gateway/health.rs\<close>, \<open>health_probe.rs\<close>, \<open>gateway/agent_client.rs\<close>, the start
  of a container in \<open>gateway/container_spec.rs\<close>, \<open>gateway/workspace.rs\<close>, and of \<open>gateway.rs\<close> and
  \<open>gateway/ops.rs\<close> what makes a target ready, its status, and the operations stop and remove.

  Warnings in the log of the process are left out. Whatever is inspected or changed is in the log of
  the state, and \<open>guarded\<close> says that no container is changed that the runtime does not own.
\<close>

section \<open>Commands and checks on the host\<close>

definition show_argv :: "string list \<Rightarrow> string" where
  "show_argv argv = ''['' @ join '', '' argv @ '']''"

definition process_result :: "codecs \<Rightarrow> string list \<Rightarrow> nat \<Rightarrow> process_end \<Rightarrow> unit res" where
  "process_result co command limit ended = (case ended of
     NotSpawned e \<Rightarrow> Inl (Context (''run '' @ show_argv command) e)
   | Waited status stderr \<Rightarrow>
       bail_if (\<not> status_success status)
         (Bail ''command {} failed with {}: {}'' [show_argv command, co_status_text co status, trim stderr])
   | WaitFailed e \<Rightarrow> Inl (Context (''wait for '' @ show_argv command) e)
   | TimedOut stderr \<Rightarrow>
       if trim stderr = []
       then Inl (Bail ''command {} timed out after {}'' [show_argv command, co_duration_text co limit])
       else Inl (Bail ''command {} timed out after {}: {}'' [show_argv command, co_duration_text co limit, trim stderr]))"

text \<open>An empty command panics; the configuration has none.\<close>

definition run_argv_with_options :: "'s world \<Rightarrow> string list \<Rightarrow> nat \<Rightarrow> string option \<Rightarrow> env_map \<Rightarrow> ('s, unit res) io" where
  "run_argv_with_options w command limit cwd env =
     (if command = [] then pure (panic ''index out of bounds: the len is 0 but the index is 0'')
      else map_io (process_result (w_codecs w) command limit)
        (effect (Process command limit) (w_process w command limit cwd env)))"

definition run_argv_with_timeout :: "'s world \<Rightarrow> string list \<Rightarrow> nat \<Rightarrow> ('s, unit res) io" where
  "run_argv_with_timeout w command limit = run_argv_with_options w command limit None []"

definition gateway_health_check_timeout :: "string option \<Rightarrow> duration" where
  "gateway_health_check_timeout configured = duration_or (from_secs 5) configured"

definition MAX_HTTP_HEALTH_RESPONSE_BYTES :: nat where
  "MAX_HTTP_HEALTH_RESPONSE_BYTES = 256 * 1024"

text \<open>\<open>http_get\<close>: the host, the port and the request of a URL.\<close>

definition http_target :: "string \<Rightarrow> (string \<times> nat \<times> string) res" where
  "http_target url =
     and_then (ok_or (Bail ''only http:// health checks are currently supported'' []) (strip_prefix ''http://'' url)) (\<lambda>rest.
     let (host_port, path) = unwrap_or (rest, []) (split_once CHR ''/'' rest) in
     map_ok (\<lambda>(host, port). (host, port, ''GET /'' @ path @ '' HTTP/1.1'' @ [CHR 0x0D, CHR 0x0A] @ ''Host: '' @ host
         @ [CHR 0x0D, CHR 0x0A] @ ''Connection: close'' @ [CHR 0x0D, CHR 0x0A, CHR 0x0D, CHR 0x0A]))
       (case split_once CHR '':'' host_port of
          Some (host, port) \<Rightarrow> map_ok (\<lambda>p. (host, p)) (ok_or (Bail ''invalid number {}'' [port]) (parse_uint u16_limit port))
        | None \<Rightarrow> Inr (host_port, 80)))"

definition status_matches :: "string \<Rightarrow> nat \<Rightarrow> bool" where
  "status_matches response expect_status \<longleftrightarrow>
     starts_with (''HTTP/1.1 '' @ show_nat expect_status @ '' '') response
     \<or> starts_with (''HTTP/1.0 '' @ show_nat expect_status @ '' '') response"

fun split_once_str :: "string \<Rightarrow> string \<Rightarrow> (string \<times> string) option" where
  "split_once_str sep [] = (if sep = [] then Some ([], []) else None)"
| "split_once_str sep (c # s) =
     (case strip_prefix sep (c # s) of
        Some rest \<Rightarrow> Some ([], rest)
      | None \<Rightarrow> map_option (\<lambda>(a, b). (c # a, b)) (split_once_str sep s))"

definition response_body :: "string \<Rightarrow> string option" where
  "response_body response =
     map_option snd (split_once_str [CHR 0x0D, CHR 0x0A, CHR 0x0D, CHR 0x0A] response)"

datatype json_field_check = FieldsMatch | FieldMissing string | FieldMismatch string string string

fun check_fields :: "(string \<Rightarrow> string option) \<Rightarrow> (string \<times> string) list \<Rightarrow> json_field_check" where
  "check_fields field [] = FieldsMatch"
| "check_fields field ((key, expected) # rest) = (case field key of
     None \<Rightarrow> FieldMissing key
   | Some actual \<Rightarrow> if actual \<noteq> expected then FieldMismatch key expected actual else check_fields field rest)"

definition check_json_fields :: "codecs \<Rightarrow> string \<Rightarrow> env_map \<Rightarrow> json_field_check res" where
  "check_json_fields co body expected = map_ok (\<lambda>field. check_fields field expected) (co_json_fields co body)"

definition check_response :: "codecs \<Rightarrow> nat \<Rightarrow> env_map \<Rightarrow> string \<Rightarrow> unit res" where
  "check_response co expect_status expect_json response =
     (if \<not> status_matches response expect_status
      then Inl (Bail ''HTTP health check expected {}, got {}''
        [show_nat expect_status, case str_lines response of line # _ \<Rightarrow> ''Some('' @ line @ '')'' | [] \<Rightarrow> ''None''])
      else if expect_json = [] then Inr ()
      else case response_body response of
        None \<Rightarrow> Inl (Bail ''HTTP health check response did not include a body'' [])
      | Some body \<Rightarrow> and_then (check_json_fields co body expect_json) (\<lambda>check. case check of
            FieldsMatch \<Rightarrow> Inr ()
          | FieldMissing key \<Rightarrow> Inl (Bail ''HTTP health check JSON field {} missing'' [key])
          | FieldMismatch key expected actual \<Rightarrow>
              Inl (Bail ''HTTP health check JSON field {} expected {}, got {}'' [key, expected, actual])))"

text \<open>\<open>http_get\<close> and \<open>http_health\<close> within a time: what is read is cut one byte after the limit.\<close>

definition http_health :: "'s world \<Rightarrow> string \<Rightarrow> nat \<Rightarrow> env_map \<Rightarrow> nat \<Rightarrow> ('s, unit res) io" where
  "http_health w url expect_status expect_json limit =
     try_io (pure (http_target url)) (\<lambda>(host, port, request).
     bind_io (effect (\<lambda>_. Fetched url) (w_fetch w host port request (MAX_HTTP_HEALTH_RESPONSE_BYTES + 1) limit)) (\<lambda>fetched.
     case fetched of
       None \<Rightarrow> pure (Inl (Context ''http health check timed out'' (Bail ''deadline has elapsed'' [])))
     | Some got \<Rightarrow> pure (and_then got (\<lambda>response.
         if length response > MAX_HTTP_HEALTH_RESPONSE_BYTES
         then Inl (Bail ''HTTP health check response exceeds {} bytes'' [show_nat MAX_HTTP_HEALTH_RESPONSE_BYTES])
         else check_response (w_codecs w) expect_status expect_json response))))"

fun run_health_check :: "'s world \<Rightarrow> health_check \<Rightarrow> vars \<Rightarrow> ('s, unit res) io" where
  "run_health_check w HcProcess vars = pure (Inr ())"
| "run_health_check w (HcCommand command limit) vars =
     try_io (pure (render_argv command vars)) (\<lambda>command.
       run_argv_with_timeout w command (gateway_health_check_timeout limit))"
| "run_health_check w (HcTcp host port interval limit) vars =
     map_io (\<lambda>answer. case answer of
         None \<Rightarrow> Inl (Context ''tcp health check timed out'' (Bail ''deadline has elapsed'' []))
       | Some r \<Rightarrow> r) (connect_io w (TcpPeer host port) (Some (gateway_health_check_timeout limit)))"
| "run_health_check w (HcHttp url expect_status expect_json interval limit) vars =
     http_health w url (unwrap_or 200 expect_status) expect_json (gateway_health_check_timeout limit)"

section \<open>Hooks\<close>

definition DEFAULT_HOST_HOOK_TIMEOUT :: duration where
  "DEFAULT_HOST_HOOK_TIMEOUT = from_secs 60"

definition host_hook_timeout :: "string option \<Rightarrow> duration res" where
  "host_hook_timeout configured = (case configured of
     None \<Rightarrow> Inr DEFAULT_HOST_HOOK_TIMEOUT | Some v \<Rightarrow> parse_duration v)"

definition pid_text :: "int option \<Rightarrow> string option" where
  "pid_text pid = map_option show_int pid"

definition run_step :: "'s world \<Rightarrow> runtime \<Rightarrow> lifecycle_step \<Rightarrow> string option \<Rightarrow> ('s, unit res) io" where
  "run_step w r step container_pid = bind_io (observe (w_host w)) (\<lambda>h.
     try_io (pure (render_runtime_argv r (runtime_vars h r container_pid) container_pid (lcs_command step))) (\<lambda>command.
     try_io (pure (host_hook_timeout (lcs_timeout step))) (\<lambda>limit.
     map_io (\<lambda>result. if lcs_required step then with_context (''run lifecycle step '' @ lcs_name step) result else Inr ())
       (run_argv_with_timeout w command limit))))"

definition run_lifecycle_phase :: "'s world \<Rightarrow> runtime \<Rightarrow> lifecycle_phase \<Rightarrow> string option \<Rightarrow> ('s, unit res) io" where
  "run_lifecycle_phase w r phase container_pid =
     each_io (\<lambda>step. run_step w r step container_pid)
       (filter (\<lambda>step. lcs_phase step = phase) (tgt_lifecycle_steps (gw_target r)))"

fun ensure_host_health_check_templates_supported :: "runtime \<Rightarrow> health_check \<Rightarrow> string option \<Rightarrow> unit res" where
  "ensure_host_health_check_templates_supported r (HcCommand command _) container_pid =
     ensure_runtime_template_values_supported r container_pid command"
| "ensure_host_health_check_templates_supported r (HcHttp url _ _ _ _) container_pid =
     ensure_runtime_template_values_supported r container_pid [url]"
| "ensure_host_health_check_templates_supported r _ container_pid = Inr ()"

text \<open>A failure of an optional step is a warning; its health check is then left out.\<close>

definition run_host_step :: "'s world \<Rightarrow> runtime \<Rightarrow> string option \<Rightarrow> host_step \<Rightarrow> ('s, unit res) io" where
  "run_host_step w r container_pid step = bind_io (observe (w_host w)) (\<lambda>h.
     let vars = runtime_vars h r container_pid in
     try_io (pure (render_runtime_argv r vars container_pid (hs_command step))) (\<lambda>command.
     try_io (pure (host_hook_timeout (hs_timeout step))) (\<lambda>limit.
     bind_io (run_argv_with_timeout w command limit) (\<lambda>command_result.
     case command_result of
       Inl e \<Rightarrow> pure (if hs_required step then Inl (Context (''host step '' @ Steps.hs_name step) e) else Inr ())
     | Inr _ \<Rightarrow> (case hs_health_check step of
         None \<Rightarrow> pure (Inr ())
       | Some check \<Rightarrow>
           try_io (pure (ensure_host_health_check_templates_supported r check container_pid)) (\<lambda>_.
           map_io (\<lambda>result. if hs_required step
               then with_context (''host step '' @ Steps.hs_name step @ '' health check'') result else Inr ())
             (run_health_check w check vars)))))))"

definition run_host_steps :: "'s world \<Rightarrow> runtime \<Rightarrow> string option \<Rightarrow> ('s, unit res) io" where
  "run_host_steps w r container_pid =
     each_io (run_host_step w r container_pid) (tgt_host_steps (gw_target r))"

section \<open>Asking the agent\<close>

definition MAX_AGENT_RESPONSE_BYTES :: nat where
  "MAX_AGENT_RESPONSE_BYTES = 64 * 1024"

text \<open>\<open>read_agent_response\<close> on the chunks that \<open>fill_buf\<close> yields; an empty one is the end.\<close>

fun read_agent_response :: "stream \<Rightarrow> string \<Rightarrow> string res" where
  "read_agent_response [] line = Inl (Bail ''empty agent control response'' [])"
| "read_agent_response (Inl e # _) line = Inl e"
| "read_agent_response (Inr available # rest) line =
     (if available = [] then Inl (Bail ''empty agent control response'' [])
      else
        let end_index = (case position (\<lambda>c. c = newline) available of
              Some i \<Rightarrow> i + 1 | None \<Rightarrow> length available) in
        if length line + end_index > MAX_AGENT_RESPONSE_BYTES
        then Inl (Bail ''agent control response exceeds {} bytes'' [show_nat MAX_AGENT_RESPONSE_BYTES])
        else
          let line = line @ take end_index available in
          if ends_with [newline] line then Inr line else read_agent_response rest line)"

definition parse_agent_control_success :: "(agent_reply \<Rightarrow> 'a res) \<Rightarrow> agent_reply \<Rightarrow> 'a res" where
  "parse_agent_control_success reading reply = and_then (ar_json reply) (\<lambda>_.
     if ar_ok reply = Some False then
       (if ar_has_error reply
        then and_then (ar_failure reply) (\<lambda>(code, message).
          Inl (Bail ''agent control request failed: {}: {}'' [code, message]))
        else Inl (Bail ''agent control request returned ok=false without error: {}'' [ar_id reply]))
     else reading reply)"

definition send_typed_agent_request ::
  "'s world \<Rightarrow> runtime \<Rightarrow> control_request \<Rightarrow> string \<Rightarrow> (agent_reply \<Rightarrow> 'a res) \<Rightarrow> ('s, 'a res) io" where
  "send_typed_agent_request w r request timeout_message reading =
     try_io (validate_agent_socket w r) (\<lambda>_.
     map_io (\<lambda>answer. case answer of
         None \<Rightarrow> Inl (Context timeout_message (Bail ''deadline has elapsed'' []))
       | Some reply \<Rightarrow> and_then reply (parse_agent_control_success reading))
       (effect (\<lambda>_. Asked request) (w_exchange w request)))"

definition agent_request :: "'s world \<Rightarrow> runtime \<Rightarrow> control_request \<Rightarrow> (agent_reply \<Rightarrow> 'a res) \<Rightarrow> ('s, 'a res) io" where
  "agent_request w r request reading =
     send_typed_agent_request w r request ''timed out waiting for container agent control response'' reading"

definition agent_status_io :: "'s world \<Rightarrow> runtime \<Rightarrow> ('s, agent_status res) io" where
  "agent_status_io w r = agent_request w r CrStatus ar_status"

definition agent_shutdown :: "'s world \<Rightarrow> runtime \<Rightarrow> ('s, unit res) io" where
  "agent_shutdown w r = bind_io (observe (w_host w)) (\<lambda>h.
     try_io (pure (control_token h r)) (\<lambda>token.
     agent_request w r (CrShutdown \<lparr>sdp_token = Some token, sdp_reason = Some ''gateway-stop''\<rparr>) ar_shutdown))"

definition wait_agent_ready :: "'s world \<Rightarrow> runtime \<Rightarrow> ('s, unit res) io" where
  "wait_agent_ready w r = bind_io now (\<lambda>start.
     map_io (\<lambda>result. case result of Inr _ \<Rightarrow> Inr () | Inl _ \<Rightarrow> Inl agent_not_ready)
       (poll w (start + from_secs 30) (from_millis 250)
         (map_io (\<lambda>status. case status of Inr s \<Rightarrow> if as_ready s then Inr () else Inl () | Inl _ \<Rightarrow> Inl ())
           (agent_status_io w r))))"

definition runtime_uses_agent_idle_cleanup :: "runtime \<Rightarrow> bool" where
  "runtime_uses_agent_idle_cleanup r \<longleftrightarrow> agent_control_enabled r \<and> uses_agent_idle_cleanup (gw_target r)"

text \<open>The hold is the open connection; whether there is one is the answer.\<close>

definition agent_session_hold :: "'s world \<Rightarrow> runtime \<Rightarrow> string \<Rightarrow> ('s, bool res) io" where
  "agent_session_hold w r kind =
     (if \<not> runtime_uses_agent_idle_cleanup r then pure (Inr False)
      else bind_io (observe (w_host w)) (\<lambda>h.
        try_io (pure (control_token h r)) (\<lambda>token.
        try_io (send_typed_agent_request w r (CrSessionHold \<lparr>shp_token = Some token, shp_kind = Some kind\<rparr>)
          ''timed out opening container agent session hold'' ar_held) (\<lambda>held.
        pure (if held then Inr True
              else Inl (Bail ''agent session hold response did not confirm hold'' []))))))"

section \<open>Starting a container\<close>

definition PUBLISHED_SSH_RUN_ATTEMPTS :: nat where
  "PUBLISHED_SSH_RUN_ATTEMPTS = 3"

text \<open>The whole chain of an error, as \<open>{:#}\<close> shows it.\<close>

fun error_chain_text :: "error \<Rightarrow> string" where
  "error_chain_text (Bail fmt args) = error_text (Bail fmt args)"
| "error_chain_text (Context c e) = c @ '': '' @ error_chain_text e"

definition published_port_bind_conflict :: "error \<Rightarrow> bool" where
  "published_port_bind_conflict e =
     (let message = to_ascii_lowercase (error_chain_text e) in
      contains_str ''address already in use'' message \<or> contains_str ''port is already allocated'' message
      \<or> contains_str ''bind'' message
        \<and> (contains_str ''listen'' message \<or> contains_str ''port'' message \<or> contains_str ''in use'' message))"

definition stop_own :: "'s world \<Rightarrow> runtime \<Rightarrow> ('s, unit res) io" where
  "stop_own w r = stop_io w (gw_runtime r) (id_container_name (gw_identity r))"

definition start_own :: "'s world \<Rightarrow> runtime \<Rightarrow> ('s, unit res) io" where
  "start_own w r = start_io w (gw_runtime r) (id_container_name (gw_identity r))"

definition rm_own :: "'s world \<Rightarrow> runtime \<Rightarrow> ('s, unit res) io" where
  "rm_own w r = rm_io w (gw_runtime r) (id_container_name (gw_identity r))"

definition remove_leftover :: "'s world \<Rightarrow> runtime \<Rightarrow> prepared_inputs \<Rightarrow> ('s, unit res) io" where
  "remove_leftover w r prepared = try_io (inspect_own w r) (\<lambda>found. case found of
     None \<Rightarrow> pure (Inr ())
   | Some i \<Rightarrow>
       try_io (pure (with_context (''not deleting leftover container '' @ id_container_name (gw_identity r)
         @ '' after failed published SSH port start because labels did not match'') (validate_labels r i))) (\<lambda>_.
       try_io (pure (validate_exposure_manifest r i prepared)) (\<lambda>_.
       rm_own w r)))"

text \<open>The loop over the attempts; the port is only allocated when one is needed.\<close>

fun start_with_port ::
  "'s world \<Rightarrow> runtime \<Rightarrow> string option \<Rightarrow> string option \<Rightarrow> prepared_inputs \<Rightarrow> nat \<Rightarrow> ('s, unit res) io" where
  "start_with_port w r itoken ctoken prepared 0 =
     pure (panic ''published SSH run attempts loop must return'')"
| "start_with_port w r itoken ctoken prepared (Suc remaining) =
     try_io (prepare_published_ssh_host_port_for_create w r) (\<lambda>pending. case pending of
       None \<Rightarrow> pure (panic ''explicit published SSH port should allocate pending state'')
     | Some port \<Rightarrow> bind_io (observe (w_host w)) (\<lambda>h.
         try_io (pure (container_run_spec_with_inputs h r itoken ctoken prepared (Some port))) (\<lambda>spec.
         bind_io (run_detached_io w (gw_runtime r) spec) (\<lambda>result. case result of
           Inr _ \<Rightarrow> promote_pending_published_ssh_port w r
         | Inl e \<Rightarrow> bind_io (remove_pending_published_ssh_port w r) (\<lambda>_.
             if remaining > 0 \<and> published_port_bind_conflict e
             then try_io (remove_leftover w r prepared) (\<lambda>_.
               start_with_port w r itoken ctoken prepared remaining)
             else pure (Inl e))))))"

definition optional :: "bool \<Rightarrow> ('s, 'a res) io \<Rightarrow> ('s, 'a option res) io" where
  "optional b m = (if b then map_io (map_ok Some) m else pure (Inr None))"

definition start_container :: "'s world \<Rightarrow> runtime \<Rightarrow> prepared_inputs \<Rightarrow> ('s, unit res) io" where
  "start_container w r prepared =
     try_io (optional (needs_identity_token (tgt_container_agent (gw_target r))) (ensure_identity_token w r)) (\<lambda>itoken.
     try_io (optional (agent_control_enabled r) (ensure_control_token w r)) (\<lambda>ctoken.
     if needs_explicit_published_ssh_port r
     then start_with_port w r itoken ctoken prepared PUBLISHED_SSH_RUN_ATTEMPTS
     else bind_io (observe (w_host w)) (\<lambda>h.
       try_io (pure (container_run_spec_with_inputs h r itoken ctoken prepared None)) (\<lambda>spec.
       run_detached_io w (gw_runtime r) spec))))"

section \<open>Making a container ready\<close>

datatype readiness_plan = ReuseRunning container_inspect | StartStopped container_inspect | CreateMissing

definition readiness_plan_of :: "container_inspect option \<Rightarrow> readiness_plan" where
  "readiness_plan_of found = (case found of
     Some i \<Rightarrow> if ci_running i then ReuseRunning i else StartStopped i
   | None \<Rightarrow> CreateMissing)"

definition inspect_container_after_start :: "'s world \<Rightarrow> runtime \<Rightarrow> ('s, container_inspect res) io" where
  "inspect_container_after_start w r =
     try_io (inspect_own w r) (\<lambda>found. pure (ok_or container_not_found found))"

definition apple_restart_published_ssh_port :: "host \<Rightarrow> runtime \<Rightarrow> nat option res" where
  "apple_restart_published_ssh_port h r =
     (if uses_apple_published_ssh_port_state r
      then and_then (read_published_ssh_port h r) (\<lambda>port. map_ok Some
        (ok_or (Bail ''Apple container target {} is stopped but published SSH port state is missing; remove and recreate the target to allocate a published SSH port''
          [id_target_name (gw_identity r)]) port))
      else Inr None)"

definition start_existing_container :: "'s world \<Rightarrow> runtime \<Rightarrow> nat option \<Rightarrow> ('s, unit res) io" where
  "start_existing_container w r port = io_context
     (case port of
        Some p \<Rightarrow> ''start Apple container target '' @ id_target_name (gw_identity r)
          @ '' with persisted published SSH port '' @ show_nat p
          @ ''; if the port is occupied, free it or remove and recreate the target''
      | None \<Rightarrow> ''start container '' @ id_container_name (gw_identity r)) (start_own w r)"

text \<open>The flag of \<open>FailedStartCleanup\<close> is part of the answer: whether a start of the container was
  attempted, also when the function fails.\<close>

definition attempted :: "('s, 'a) io \<Rightarrow> ('s, 'a \<times> bool) io" where
  "attempted m = map_io (\<lambda>a. (a, True)) m"

definition before_start :: "('s, 'e + 'a) io \<Rightarrow> ('a \<Rightarrow> ('s, ('e + 'b) \<times> bool) io) \<Rightarrow> ('s, ('e + 'b) \<times> bool) io" where
  "before_start m f = bind_io m (\<lambda>res. case res of Inl e \<Rightarrow> pure (Inl e, False) | Inr a \<Rightarrow> f a)"

definition ensure_container_for_readiness_plan ::
  "'s world \<Rightarrow> runtime \<Rightarrow> readiness_plan \<Rightarrow> prepared_inputs \<Rightarrow> ('s, container_inspect res \<times> bool) io" where
  "ensure_container_for_readiness_plan w r plan prepared = (case plan of
     ReuseRunning i \<Rightarrow> pure (map_ok (\<lambda>_. i)
       (seq_checks [validate_labels r i, validate_exposure_manifest r i prepared]), False)
   | StartStopped i \<Rightarrow>
       before_start (pure (seq_checks [validate_labels r i, validate_exposure_manifest r i prepared])) (\<lambda>_.
       bind_io (observe (w_host w)) (\<lambda>h.
       before_start (pure (apple_restart_published_ssh_port h r)) (\<lambda>port.
       before_start (run_lifecycle_phase w r PreStart None) (\<lambda>_.
       before_start (remove_stale_control_socket_files w r) (\<lambda>_.
       attempted (try_io (start_existing_container w r port) (\<lambda>_. inspect_container_after_start w r)))))))
   | CreateMissing \<Rightarrow>
       before_start (run_lifecycle_phase w r PreStart None) (\<lambda>_.
       before_start (remove_stale_control_socket_files w r) (\<lambda>_.
       attempted (try_io (start_container w r prepared) (\<lambda>_. inspect_container_after_start w r)))))"

text \<open>Whether the container was removed or is not there.\<close>

definition cleanup_failed_start :: "'s world \<Rightarrow> runtime \<Rightarrow> ('s, bool) io" where
  "cleanup_failed_start w r = bind_io (inspect_own w r) (\<lambda>found. case found of
     Inl _ \<Rightarrow> pure False
   | Inr None \<Rightarrow> pure True
   | Inr (Some i) \<Rightarrow>
       if \<not> is_ok (validate_labels r i) then pure False
       else bind_io (stop_own w r) (\<lambda>_.
         if tgt_remove_on_stop (gw_target r) then map_io is_ok (rm_own w r) else pure False))"

definition failed_start_cleanup :: "'s world \<Rightarrow> runtime \<Rightarrow> ('s, unit) io" where
  "failed_start_cleanup w r = bind_io (cleanup_failed_start w r) (\<lambda>removed_or_absent.
     bind_io (if removed_or_absent then cleanup_published_ssh_port_state w r
              else remove_pending_published_ssh_port w r) (\<lambda>_.
     cleanup_control_socket_dir w r))"

section \<open>Stopping a container\<close>

definition shutdown_wait_timeout :: "runtime \<Rightarrow> duration" where
  "shutdown_wait_timeout r = duration_or (from_secs 10)
     (Option.bind (tgt_idle_cleanup (gw_target r)) ic_shutdown_timeout)"

text \<open>The loop ends with an answer, or at the deadline with the container that still runs.\<close>

definition exit_check :: "'s world \<Rightarrow> runtime \<Rightarrow> ('s, container_inspect + container_inspect option res) io" where
  "exit_check w r = map_io (\<lambda>found. case found of
       Inl e \<Rightarrow> Inr (Inl e)
     | Inr None \<Rightarrow> Inr (Inr None)
     | Inr (Some i) \<Rightarrow> (case validate_stable_labels r i of
           Inl e \<Rightarrow> Inr (Inl e)
         | Inr _ \<Rightarrow> if \<not> ci_running i then Inr (Inr None) else Inl i)) (inspect_own w r)"

definition wait_for_container_exit :: "'s world \<Rightarrow> runtime \<Rightarrow> ('s, container_inspect option res) io" where
  "wait_for_container_exit w r = bind_io now (\<lambda>start.
     map_io (\<lambda>ended. case ended of Inr a \<Rightarrow> a | Inl i \<Rightarrow> Inr (Some i))
       (poll w (start + shutdown_wait_timeout r) (from_millis 100) (exit_check w r)))"

definition stop_inspected_container :: "'s world \<Rightarrow> runtime \<Rightarrow> container_inspect \<Rightarrow> ('s, unit res) io" where
  "stop_inspected_container w r i =
     (let container_pid = pid_text (ci_pid i) in
      try_io (pure (validate_stable_labels r i)) (\<lambda>_.
      try_io (run_lifecycle_phase w r PreStop container_pid) (\<lambda>_.
      try_io (if agent_control_enabled r then
          bind_io (agent_shutdown w r) (\<lambda>_.
          try_io (wait_for_container_exit w r) (\<lambda>current. case current of
            None \<Rightarrow> pure (Inr ())
          | Some c \<Rightarrow> try_io (pure (validate_stable_labels r c)) (\<lambda>_. stop_own w r)))
        else stop_own w r) (\<lambda>_.
      try_io (given_io (tgt_remove_on_stop (gw_target r))
        (try_io (inspect_own w r) (\<lambda>current.
         try_io (case current of
             None \<Rightarrow> pure (Inr ())
           | Some c \<Rightarrow> try_io (pure (validate_stable_labels r c)) (\<lambda>_. rm_own w r)) (\<lambda>_.
         map_io Inr (cleanup_published_ssh_port_state w r))))) (\<lambda>_.
      try_io (run_lifecycle_phase w r PostStop container_pid) (\<lambda>_.
      map_io Inr (cleanup_control_socket_dir w r)))))))"

section \<open>The status of a target\<close>

definition exposure_check :: "'s world \<Rightarrow> runtime \<Rightarrow> 's \<Rightarrow> exposure_spec \<Rightarrow> unit res" where
  "exposure_check w r s x =
     (case validate_container_exposure_endpoint_until (id_container_name (gw_identity r)) x (w_endpoint w x s) of
        Some result \<Rightarrow> result
      | None \<Rightarrow> Inl (Bail ''deadline has elapsed'' []))"

definition prepare_inputs :: "'s world \<Rightarrow> runtime \<Rightarrow> ('s, prepared_inputs res) io" where
  "prepare_inputs w r = (\<lambda>st.
     case validate_host_socket_exposure_support (w_apple w (st_env st)) (gw_runtime r)
       (tgt_host_socket_exposures (gw_target r) \<noteq> []) (st_apple st) of
       (supported, cache) \<Rightarrow>
         (prepare_container_inputs (w_sha256 w) (w_host w (st_env st)) r supported, st\<lparr>st_apple := cache\<rparr>))"

definition validate_exposure_endpoints :: "'s world \<Rightarrow> runtime \<Rightarrow> prepared_inputs \<Rightarrow> ('s, unit res) io" where
  "validate_exposure_endpoints w r prepared =
     bind_io (observe (\<lambda>s. validate_container_exposure_endpoints (exposure_check w r s) prepared)) (\<lambda>result.
     bind_io (when_io (pi_exposures prepared \<noteq> []) (elapse (w_checked w))) (\<lambda>_. pure result))"

definition exposure_statuses ::
  "'s world \<Rightarrow> runtime \<Rightarrow> container_inspect option \<Rightarrow> prepared_inputs option \<Rightarrow> ('s, exposure_status list) io" where
  "exposure_statuses w r found prepared =
     (if tgt_host_socket_exposures (gw_target r) = []
      then pure (removed_config_manifest_status found (crt_kind (gw_runtime r)))
      else bind_io (case prepared of Some p \<Rightarrow> pure (Inr p) | None \<Rightarrow> prepare_inputs w r) (\<lambda>inputs.
        bind_io (observe (exposure_check w r)) (\<lambda>check.
        bind_io (when_io (case inputs of Inr p \<Rightarrow> common_failure r found p = None | Inl _ \<Rightarrow> False)
          (elapse (w_checked w))) (\<lambda>_.
        pure (current_host_socket_exposure_statuses r check inputs found prepared)))))"

definition status_launch :: "string option \<Rightarrow> session_status list \<Rightarrow> string option" where
  "status_launch session_id sessions = (case session_id of
     Some session \<Rightarrow> Option.bind (find (\<lambda>s. sn_id s = session) sessions) sn_launch
   | None \<Rightarrow> find_map sn_launch sessions)"

definition gateway_status_name :: "bool \<Rightarrow> bool \<Rightarrow> bool \<Rightarrow> bool \<Rightarrow> string" where
  "gateway_status_name container_running agent_expected agent_seen agent_ready =
     (if \<not> container_running then ''not-running''
      else if \<not> agent_expected then ''container-running''
      else if agent_ready then ''ready''
      else if agent_seen then ''container-running-agent-not-ready''
      else ''container-running-agent-unavailable'')"

record gateway_status =
  gs_target :: string
  gs_session_id :: "string option"
  gs_launch :: "string option"
  gs_mode :: string
  gs_user :: string
  gs_image :: string
  gs_access :: string
  gs_container :: "string option"
  gs_context :: runtime_context
  gs_container_pid :: "int option"
  gs_sessions :: "session_status list"
  gs_agent_ready :: bool
  gs_ssh_socket :: "string option"
  gs_ssh_tcp :: "tcp_endpoint option"
  gs_local_ssh :: "tcp_endpoint option"
  gs_status :: string
  gs_agent :: "agent_status option"
  gs_host_socket_exposures :: "exposure_status list"

text \<open>The number of active sessions is that of \<open>gs_sessions\<close>.\<close>

definition ok_option :: "'a res \<Rightarrow> 'a option" where
  "ok_option r = (case r of Inr a \<Rightarrow> Some a | Inl _ \<Rightarrow> None)"

definition status_with_inspect_and_prepared ::
  "'s world \<Rightarrow> runtime \<Rightarrow> container_inspect option \<Rightarrow> prepared_inputs option \<Rightarrow> ('s, gateway_status res) io" where
  "status_with_inspect_and_prepared w r found prepared =
     bind_io (exposure_statuses w r found prepared) (\<lambda>exposures.
     bind_io (if agent_control_enabled r then map_io ok_option (agent_status_io w r) else pure None) (\<lambda>agent.
     try_io (active_session_markers w r) (\<lambda>sessions.
     let agent_ready = (case agent of Some s \<Rightarrow> as_ready s | None \<Rightarrow> False);
         running = (case found of Some i \<Rightarrow> ci_running i | None \<Rightarrow> False);
         direct = direct_published_ssh_enabled r in
     try_io (if direct then direct_status_ssh_endpoint w r found else pure (Inr None)) (\<lambda>direct_endpoint.
     try_io (if direct then pure (Inr (if running then direct_endpoint else None))
             else published_ssh_endpoint w r) (\<lambda>ssh_tcp. pure (Inr
       \<lparr>gs_target = id_target_name (gw_identity r), gs_session_id = id_session_id (gw_identity r),
        gs_launch = status_launch (id_session_id (gw_identity r)) sessions,
        gs_mode = mode_text (tgt_mode (gw_target r)), gs_user = uc_user (id_user (gw_identity r)),
        gs_image = tgt_image (gw_target r), gs_access = access_name r,
        gs_container = map_option (\<lambda>_. id_container_name (gw_identity r)) found,
        gs_context = gw_context r, gs_container_pid = Option.bind found ci_pid,
        gs_sessions = sessions, gs_agent_ready = agent_ready,
        gs_ssh_socket = ssh_socket_endpoint r, gs_ssh_tcp = ssh_tcp, gs_local_ssh = direct_endpoint,
        gs_status = (if list_ex (\<lambda>x. \<not> hs_ready x) exposures then ''host-socket-exposure-unhealthy''
          else gateway_status_name running (requires_agent_control r) (agent \<noteq> None) agent_ready),
        gs_agent = agent, gs_host_socket_exposures = exposures\<rparr>))))))"

definition status_io :: "'s world \<Rightarrow> runtime \<Rightarrow> ('s, gateway_status res) io" where
  "status_io w r = try_io (inspect_own w r) (\<lambda>found.
     try_io (pure (given (validate_labels r) found)) (\<lambda>_. status_with_inspect_and_prepared w r found None))"

section \<open>Making a target ready\<close>

definition published_ssh_readiness_timeout_error :: "host \<Rightarrow> runtime \<Rightarrow> error" where
  "published_ssh_readiness_timeout_error h r =
     (if \<not> uses_apple_published_ssh_port_state r
      then Bail ''published container SSH port did not become ready'' []
      else case read_published_ssh_port h r of
        Inr (Some port) \<Rightarrow> Bail ''Apple container target {} persisted published SSH port {} did not become ready; Apple may not have restored the publish mapping after container start, or the port may be occupied. Remove and recreate the target, or free the port and retry.''
          [id_target_name (gw_identity r), show_nat port]
      | Inr None \<Rightarrow> Bail ''Apple container target {} published SSH port did not become ready because published port state is missing; remove and recreate the target to allocate a published SSH port''
          [id_target_name (gw_identity r)]
      | Inl e \<Rightarrow> Bail ''published container SSH port did not become ready and published port state could not be read: {}''
          [error_chain_text e])"

definition published_ssh_check :: "'s world \<Rightarrow> runtime \<Rightarrow> ('s, unit + unit res) io" where
  "published_ssh_check w r = bind_io (published_ssh_endpoint w r) (\<lambda>endpoint. case endpoint of
     Inl e \<Rightarrow> pure (Inr (Inl e))
   | Inr None \<Rightarrow> pure (Inl ())
   | Inr (Some peer) \<Rightarrow>
       map_io (\<lambda>c. if is_ok (unlimited c) then Inr (Inr ()) else Inl ())
         (connect_io w (TcpPeer (te_host peer) (te_port peer)) None))"

definition wait_published_ssh_ready :: "'s world \<Rightarrow> runtime \<Rightarrow> ('s, unit res) io" where
  "wait_published_ssh_ready w r = bind_io now (\<lambda>start.
     bind_io (poll w (start + from_secs 30) (from_millis 250) (published_ssh_check w r)) (\<lambda>ended. case ended of
       Inr result \<Rightarrow> pure result
     | Inl _ \<Rightarrow> observe (\<lambda>s. Inl (published_ssh_readiness_timeout_error (w_host w s) r))))"

definition prepare_container_state_dir :: "'s world \<Rightarrow> runtime \<Rightarrow> ('s, unit res) io" where
  "prepare_container_state_dir w r =
     try_io (ensure_private_dir w (pt_container_state_dir (gw_paths r))) (\<lambda>_.
     given_io (agent_enabled r) (ensure_private_dir w (path_join (pt_container_state_dir (gw_paths r)) ''logs'')))"

record ready_status =
  ry_target :: string
  ry_session_id :: "string option"
  ry_mode :: string
  ry_user :: string
  ry_image :: string
  ry_container :: string
  ry_access :: string
  ry_context :: runtime_context
  ry_container_pid :: "int option"
  ry_ssh_socket :: "string option"
  ry_ssh_tcp :: "tcp_endpoint option"
  ry_status :: string
  ry_local_ssh :: "tcp_endpoint option"
  ry_client_config :: "string option"
  ry_host_socket_exposures :: "exposure_status list"

definition done_io :: "('s, 'e + 'a) io \<Rightarrow> ('s, 'e + unit) io" where
  "done_io m = map_io (map_ok (\<lambda>_. ())) m"

text \<open>The steps of \<open>ensure_ready_locked\<close> before the container is looked at, and after it runs.\<close>

definition prepare_target :: "'s world \<Rightarrow> runtime \<Rightarrow> ('s, prepared_inputs res) io" where
  "prepare_target w r =
     try_io (prepare_container_state_dir w r) (\<lambda>_.
     try_io (given_io (requires_control_socket_dir r) (prepare_control_socket_dir w r)) (\<lambda>_.
     try_io (given_io (uses_ssh_access r) (try_io (write_sshd_session_env_config w r) (\<lambda>_.
       done_io (write_ssh_command_filter_policy w r)))) (\<lambda>_.
     try_io (given_io (ssh_endpoint_configured r) (done_io (ensure_inner_keypair w r False))) (\<lambda>_.
     try_io (given_io (agent_enabled r)
       (try_io (ensure_control_token w r) (\<lambda>_.
        try_io (write_container_agent_config w r) (\<lambda>_.
        given_io (cb_enabled (tgt_container_bootstrap (gw_target r))) (done_io (write_container_bootstrap_config w r)))))) (\<lambda>_.
     prepare_inputs w r)))))"

definition finish_ready ::
  "'s world \<Rightarrow> runtime \<Rightarrow> prepared_inputs \<Rightarrow> container_inspect \<Rightarrow> ('s, (container_inspect \<times> gateway_status) res) io" where
  "finish_ready w r prepared i =
     (let container_pid = pid_text (ci_pid i) in
      try_io (pure (seq_checks [validate_labels r i, validate_exposure_manifest r i prepared])) (\<lambda>_.
      bind_io (sweep_stale_cancel_markers_once w (gw_runtime r) (id_container_name (gw_identity r)) (exec_identity r)) (\<lambda>_.
      try_io (run_lifecycle_phase w r PostStartHost container_pid) (\<lambda>_.
      try_io (given_io (requires_agent_control r) (wait_agent_ready w r)) (\<lambda>_.
      try_io (validate_exposure_endpoints w r prepared) (\<lambda>_.
      try_io (run_host_steps w r container_pid) (\<lambda>_.
      try_io (given_io (requires_agent_control r) (validate_agent_socket w r)) (\<lambda>_.
      try_io (given_io (ssh_endpoint_configured r) (case ssh_backend r of
          SocketBackend \<Rightarrow> validate_ssh_socket w r
        | PublishedPort \<Rightarrow> wait_published_ssh_ready w r)) (\<lambda>_.
      try_io (status_with_inspect_and_prepared w r (Some i) (Some prepared)) (\<lambda>status.
      pure (if requires_agent_control r \<and> \<not> gs_agent_ready status
        then Inl (Bail ''container agent is not ready after host setup'' [])
        else if list_ex (\<lambda>x. \<not> hs_ready x) (gs_host_socket_exposures status)
        then Inl (Bail ''one or more host socket exposures became unhealthy during target startup'' [])
        else Inr (i, status))))))))))))"

definition make_ready :: "'s world \<Rightarrow> runtime \<Rightarrow> ('s, (container_inspect \<times> gateway_status) res \<times> bool) io" where
  "make_ready w r =
     before_start (prepare_target w r) (\<lambda>prepared.
     before_start (inspect_own w r) (\<lambda>found.
     bind_io (ensure_container_for_readiness_plan w r (readiness_plan_of found) prepared) (\<lambda>(started, was_attempted).
     map_io (\<lambda>result. (result, was_attempted)) (try_io (pure started) (\<lambda>i. finish_ready w r prepared i)))))"

definition ensure_ready_locked :: "'s world \<Rightarrow> runtime \<Rightarrow> ('s, ready_status res) io" where
  "ensure_ready_locked w r = bind_io (make_ready w r) (\<lambda>(result, was_attempted). case result of
     Inl e \<Rightarrow> bind_io (when_io was_attempted (failed_start_cleanup w r)) (\<lambda>_. pure (Inl e))
   | Inr (i, status) \<Rightarrow> try_io (published_ssh_endpoint w r) (\<lambda>ssh_tcp. pure (Inr
       \<lparr>ry_target = id_target_name (gw_identity r), ry_session_id = id_session_id (gw_identity r),
        ry_mode = mode_text (tgt_mode (gw_target r)), ry_user = uc_user (id_user (gw_identity r)),
        ry_image = tgt_image (gw_target r), ry_container = id_container_name (gw_identity r),
        ry_access = access_name r, ry_context = gw_context r, ry_container_pid = ci_pid i,
        ry_ssh_socket = ssh_socket_endpoint r, ry_ssh_tcp = ssh_tcp, ry_status = gs_status status,
        ry_local_ssh = gs_local_ssh status, ry_client_config = None,
        ry_host_socket_exposures = gs_host_socket_exposures status\<rparr>)))"

definition ensure_ready :: "'s world \<Rightarrow> runtime \<Rightarrow> ('s, ready_status res) io" where
  "ensure_ready w r = with_lifecycle_lock w r (ensure_ready_locked w r)"

end
