(* ===== verification/Operations.thy ===== *)
theory Operations
  imports Lifecycle
begin

text \<open>
  The operations on the container of a target: \<open>gateway/workspace.rs\<close>, the idle cleanup of
  \<open>gateway/lifecycle.rs\<close>, and the operations up, stop, remove and status of \<open>gateway/ops.rs\<close>. Each of them
  changes a container only under the lock of its name and after it saw the labels of the runtime.
\<close>

section \<open>Operations that leave the container alone\<close>

lemma quiet_run_argv [quiet]:
  "quiet (run_argv_with_options w command limit cwd env)" "quiet (run_argv_with_timeout w command limit)"
  by (auto simp: run_argv_with_timeout_def run_argv_with_options_def harmless_def intro!: quiet quiet_effect)

lemma quiet_http_health [quiet]: "quiet (http_health w url expect_status expect_json limit)"
  unfolding http_health_def
  by (auto simp: harmless_def intro!: quiet quiet_effect split: option.split prod.split)

lemma quiet_health_check [quiet]: "quiet (run_health_check w check vars)"
  by (cases check) (auto intro!: quiet)

lemma quiet_hooks [quiet]:
  "quiet (run_step w r step pid)" "quiet (run_lifecycle_phase w r phase pid)"
  by (auto simp: run_step_def run_lifecycle_phase_def intro!: quiet)

lemma quiet_host_step [quiet]: "quiet (run_host_step w r pid step)"
  unfolding run_host_step_def Let_def by (auto intro!: quiet split: sum.split option.split)

lemma quiet_host_steps [quiet]: "quiet (run_host_steps w r pid)"
  unfolding run_host_steps_def by (intro quiet)

lemma quiet_send [quiet]: "quiet (send_typed_agent_request w r request message reading)"
  unfolding send_typed_agent_request_def
  by (auto simp: harmless_def intro!: quiet quiet_effect)

lemma quiet_agent [quiet]:
  "quiet (agent_request w r request reading)" "quiet (agent_status_io w r)" "quiet (agent_shutdown w r)"
  by (simp_all add: agent_request_def agent_status_io_def agent_shutdown_def quiet)

lemma quiet_agent_waits [quiet]: "quiet (wait_agent_ready w r)" "quiet (agent_session_hold w r kind)"
  by (auto simp: wait_agent_ready_def agent_session_hold_def intro!: quiet)

lemma quiet_optional [quiet]: "quiet m \<Longrightarrow> quiet (optional b m)"
  by (auto simp: optional_def intro!: quiet)

lemma quiet_done [quiet]: "quiet m \<Longrightarrow> quiet (done_io m)"
  by (simp add: done_io_def quiet)

lemma quiet_prepare_inputs [quiet]: "quiet (prepare_inputs w r)"
  by (rule quiet_same_log) (simp add: prepare_inputs_def split: prod.split)

lemma quiet_exposures [quiet]:
  "quiet (validate_exposure_endpoints w r prepared)" "quiet (exposure_statuses w r found p)"
  by (auto simp: validate_exposure_endpoints_def exposure_statuses_def intro!: quiet split: option.split)

lemma quiet_prepare_target [quiet]: "quiet (prepare_target w r)"
  unfolding prepare_target_def prepare_container_state_dir_def by (intro quiet)

lemma calm_status [calm]: "calm r (status_with_inspect_and_prepared w r found prepared)"
  unfolding status_with_inspect_and_prepared_def Let_def
  by (auto intro!: calm) (rule calm_quiet, auto intro!: quiet)+

lemma calm_wait_published [calm]: "calm r (wait_published_ssh_ready w r)"
proof -
  have "calm r (published_ssh_check w r)"
    unfolding published_ssh_check_def
    by (auto intro!: calm split: sum.split option.split) (rule calm_quiet, intro quiet)+
  then show ?thesis
    unfolding wait_published_ssh_ready_def
    by (auto intro!: calm split: sum.split) (rule calm_quiet, intro quiet)+
qed

lemma calm_finish_ready [calm]: "calm r (finish_ready w r prepared i)"
proof -
  have readiness: "calm r (given_io (ssh_endpoint_configured r) (case ssh_backend r of
      SocketBackend \<Rightarrow> validate_ssh_socket w r | PublishedPort \<Rightarrow> wait_published_ssh_ready w r))"
    by (auto intro!: calm split: local_ssh_backend.split) (rule calm_quiet, intro quiet)
  show ?thesis
    unfolding finish_ready_def Let_def
    by (intro calm_try calm_bind readiness calm_status) (rule calm_quiet, intro quiet)+
qed

section \<open>Starting a container\<close>

text \<open>Under the lock, and no container of the name was found.\<close>

definition vacant :: "runtime \<Rightarrow> 's state \<Rightarrow> bool" where
  "vacant r st \<longleftrightarrow> (\<exists>k. kn_locked k \<and> kn_sight k = Gone \<and> safe r k st)"

lemma vacant_locked: "vacant r st \<Longrightarrow> under_lock r st"
  by (auto simp: vacant_def under_lock_def)

lemma under_lock_sight: "kn_locked k \<Longrightarrow> safe r (k\<lparr>kn_sight := s\<rparr>) st \<Longrightarrow> under_lock r st"
  unfolding under_lock_def by (rule exI [of _ "k\<lparr>kn_sight := s\<rparr>"]) simp

lemma vacant_sight: "kn_locked k \<Longrightarrow> safe r (k\<lparr>kn_sight := Gone\<rparr>) st \<Longrightarrow> vacant r st"
  unfolding vacant_def by (rule exI [of _ "k\<lparr>kn_sight := Gone\<rparr>"]) simp

definition after_removal :: "runtime \<Rightarrow> 'a res \<Rightarrow> 's state \<Rightarrow> bool" where
  "after_removal r res st = (if is_ok res then vacant r st else under_lock r st)"

lemma after_removal_simps [simp]:
  "after_removal r (Inl e) = under_lock r" "after_removal r (Inr a) = vacant r"
  by (simp_all add: after_removal_def fun_eq_iff)

lemma vacant_quiet: "quiet m \<Longrightarrow> triple (vacant r) m (\<lambda>_. vacant r)"
proof -
  assume "quiet m"
  then have "triple (safe r k) m (\<lambda>_. safe r k)" for k by (rule quiet_safe)
  then show ?thesis unfolding vacant_def triple_def by blast
qed

lemma locked_quiet: "quiet m \<Longrightarrow> triple (under_lock r) m (\<lambda>_. under_lock r)"
  using calm_quiet by (auto simp: calm_def)

lemma labels_stable: "validate_labels r i = Inr () \<Longrightarrow> validate_stable_labels r i = Inr ()"
  by (simp add: validate_labels_def)

text \<open>An inspection under the lock.\<close>

lemma triple_look:
  assumes "\<And>k. kn_locked k \<Longrightarrow> kn_sight k = Gone \<Longrightarrow> triple (safe r k) (f None) Q"
    and "\<And>k c. kn_locked k \<Longrightarrow> kn_sight k = Seen c \<Longrightarrow> triple (safe r k) (f (Some c)) Q"
    and "\<And>e st. under_lock r st \<Longrightarrow> Q (Inl e) st"
  shows "triple (under_lock r) (try_io (inspect_own w r) f) Q"
proof (rule triple_under_lock, rule triple_try)
  fix k :: knowledge assume locked: "kn_locked k"
  show "triple (safe r k) (inspect_own w r) (\<lambda>res. safe r (k\<lparr>kn_sight := sight_of res\<rparr>))"
    unfolding inspect_own_def by (rule triple_inspect)
  show "Q (Inl e) st" if "safe r (k\<lparr>kn_sight := sight_of (Inl e)\<rparr>) st" for e st
    using assms(3) under_lock_sight [OF locked that] .
  show "triple (safe r (k\<lparr>kn_sight := sight_of (Inr found)\<rparr>)) (f found) Q" for found
    using assms(1,2) locked by (cases found) auto
qed

text \<open>A check of labels, and what is done to a container that passes it.\<close>

lemma triple_check:
  assumes "\<And>a. check = Inr a \<Longrightarrow> triple P (f a) Q" and "\<And>e st. P st \<Longrightarrow> Q (Inl e) st"
  shows "triple P (try_io (pure check) f) Q"
proof (cases check)
  case (Inl e)
  then show ?thesis using assms(2) by (auto simp: triple_def try_io_def bind_io_def pure_def)
next
  case (Inr u)
  then show ?thesis using assms(1) by (simp add: triple_def try_io_def bind_io_def pure_def)
qed

lemma locked_rm:
  assumes "ours r k"
  shows "triple (safe r k) (rm_own w r) (after_removal r)"
proof -
  have locked: "kn_locked k" using assms by (simp add: ours_def)
  show ?thesis unfolding rm_own_def
  proof (rule triple_post [OF triple_rm [OF assms]])
    fix res and st :: "'a state" assume "safe r (after_rm k res) st"
    with locked show "after_removal r res st"
      by (cases res) (auto simp: after_rm_def intro: under_lockI vacant_sight)
  qed
qed

lemma triple_remove_leftover:
  "triple (under_lock r) (remove_leftover w r prepared)
     (after_removal r)"
  unfolding remove_leftover_def
proof (rule triple_look)
  fix k :: knowledge and c assume k: "kn_locked k" "kn_sight k = Seen c"
  have locked: "safe r k st \<Longrightarrow> under_lock r st" for st :: "'a state"
    using k(1) by (rule under_lockI [rotated])
  show "triple (safe r k) (case Some c of None \<Rightarrow> pure (Inr ())
     | Some i \<Rightarrow>
         try_io (pure (with_context (''not deleting leftover container '' @ id_container_name (gw_identity r)
           @ '' after failed published SSH port start because labels did not match'') (validate_labels r i))) (\<lambda>_.
         try_io (pure (validate_exposure_manifest r i prepared)) (\<lambda>_. rm_own w r)))
     (after_removal r)"
    by (auto intro!: triple_check locked_rm oursI [OF k] simp: res_simps intro: labels_stable locked)
qed (auto intro!: triple_pure simp: vacant_def under_lock_def)

lemma triple_run_spec:
  assumes "rs_name spec = id_container_name (gw_identity r)"
  shows "triple (vacant r) (run_detached_io w (gw_runtime r) spec) (\<lambda>_. under_lock r)"
  unfolding triple_def
proof (intro allI impI)
  fix st :: "'a state" assume "vacant r st"
  then obtain k where k: "kn_locked k" "kn_sight k = Gone" "safe r k st" by (auto simp: vacant_def)
  from triple_apply [OF triple_run_detached [OF k(1,2) assms] k(3), of w] k(1)
  show "under_lock r (snd (run_detached_io w (gw_runtime r) spec st))"
    using under_lock_sight under_lockI by metis
qed

text \<open>The specification carries the name of the container.\<close>

lemma run_spec_name:
  "container_run_spec_with_inputs h r itoken ctoken prepared port = Inr spec
    \<Longrightarrow> rs_name spec = id_container_name (gw_identity r)"
  by (auto simp: container_run_spec_with_inputs_def Let_def and_then_Inr)

lemma triple_start_with_port:
  "triple (vacant r) (start_with_port w r itoken ctoken prepared n) (\<lambda>_. under_lock r)"
proof (induction n)
  case 0
  show ?case by (auto intro!: triple_pure vacant_locked)
next
  case (Suc n)
  have again: "triple (under_lock r) (try_io (remove_leftover w r prepared)
      (\<lambda>_. start_with_port w r itoken ctoken prepared n)) (\<lambda>_. under_lock r)"
    by (rule triple_try [OF triple_remove_leftover]) (use Suc in auto)
  have ended: "triple (under_lock r) (case result of
        Inr _ \<Rightarrow> promote_pending_published_ssh_port w r
      | Inl e \<Rightarrow> bind_io (remove_pending_published_ssh_port w r) (\<lambda>_.
          if n > 0 \<and> published_port_bind_conflict e
          then try_io (remove_leftover w r prepared) (\<lambda>_. start_with_port w r itoken ctoken prepared n)
          else pure (Inl e))) (\<lambda>_. under_lock r)" for result :: "unit res"
    using again by (cases result)
      (auto intro: triple_bind [OF locked_quiet [OF quiet_ports(1)]] locked_quiet [OF quiet_ports(2)] triple_pure)
  have run: "triple (vacant r) (case pending of
        None \<Rightarrow> pure (panic ''explicit published SSH port should allocate pending state'')
      | Some port \<Rightarrow> bind_io (observe (w_host w)) (\<lambda>h.
          try_io (pure (container_run_spec_with_inputs h r itoken ctoken prepared (Some port))) (\<lambda>spec.
          bind_io (run_detached_io w (gw_runtime r) spec) (\<lambda>result. case result of
            Inr _ \<Rightarrow> promote_pending_published_ssh_port w r
          | Inl e \<Rightarrow> bind_io (remove_pending_published_ssh_port w r) (\<lambda>_.
              if n > 0 \<and> published_port_bind_conflict e
              then try_io (remove_leftover w r prepared) (\<lambda>_. start_with_port w r itoken ctoken prepared n)
              else pure (Inl e)))))) (\<lambda>_. under_lock r)" for pending
    by (auto split: option.split
        intro!: triple_pure vacant_locked triple_bind [OF vacant_quiet [OF quiet_observe]]
          triple_check triple_bind [OF triple_run_spec ended] elim: run_spec_name)
  show ?case
    unfolding start_with_port.simps
    by (rule triple_try [OF vacant_quiet [OF quiet_prepare_port]]) (auto intro: vacant_locked run)
qed

lemma triple_start_container: "triple (vacant r) (start_container w r prepared) (\<lambda>_. under_lock r)"
  unfolding start_container_def
proof (rule triple_try [OF vacant_quiet], goal_cases)
  case (3 itoken)
  show ?case
  proof (rule triple_try [OF vacant_quiet], goal_cases)
    case (3 ctoken)
    show ?case
      by (auto intro!: triple_start_with_port triple_bind [OF vacant_quiet [OF quiet_observe]] triple_check
          triple_run_spec vacant_locked elim: run_spec_name)
  qed (auto intro!: quiet vacant_locked)
qed (auto intro!: quiet vacant_locked)

lemma locked_after_start: "triple (under_lock r) (inspect_container_after_start w r) (\<lambda>_. under_lock r)"
proof -
  have "calm r (inspect_container_after_start w r)"
    unfolding inspect_container_after_start_def by (auto intro!: calm) (rule calm_quiet, intro quiet)
  then show ?thesis by (simp add: calm_def)
qed

lemma locked_stop: "ours r k \<Longrightarrow> triple (safe r k) (stop_own w r) (\<lambda>_. under_lock r)"
  and locked_start: "ours r k \<Longrightarrow> triple (safe r k) (start_own w r) (\<lambda>_. under_lock r)"
  unfolding stop_own_def start_own_def
  by (auto intro!: triple_post [OF triple_stop] triple_post [OF triple_start] elim!: under_lockI simp: ours_def)

lemma triple_context: "triple P m (\<lambda>_. R) \<Longrightarrow> triple P (io_context c m) (\<lambda>_. R)"
  by (simp add: io_context_def triple_map)

text \<open>What \<open>before_start\<close> composes.\<close>

lemma triple_before_start:
  assumes "triple P m R" and "\<And>a. triple (R (Inr a)) (f a) (\<lambda>_. Q)" and "\<And>e st. R (Inl e) st \<Longrightarrow> Q st"
  shows "triple P (before_start m f) (\<lambda>_. Q)"
  unfolding before_start_def
proof (rule triple_bind [OF assms(1)])
  fix res
  show "triple (R res) (case res of Inl e \<Rightarrow> pure (Inl e, False) | Inr a \<Rightarrow> f a) (\<lambda>_. Q)"
    using assms(2,3) by (cases res) (auto intro: triple_pure)
qed

lemma triple_before_check:
  assumes "\<And>a. check = Inr a \<Longrightarrow> triple P (f a) (\<lambda>_. Q)" and "\<And>st. P st \<Longrightarrow> Q st"
  shows "triple P (before_start (pure check) f) (\<lambda>_. Q)"
proof (cases check)
  case (Inl e)
  then show ?thesis using assms(2) by (auto simp: triple_def before_start_def bind_io_def pure_def)
next
  case (Inr u)
  then show ?thesis using assms(1) by (simp add: triple_def before_start_def bind_io_def pure_def)
qed

lemma triple_attempted: "triple P m (\<lambda>_. R) \<Longrightarrow> triple P (attempted m) (\<lambda>_. R)"
  by (simp add: attempted_def triple_map)

lemma triple_create_missing:
  "triple (vacant r) (ensure_container_for_readiness_plan w r CreateMissing prepared) (\<lambda>_. under_lock r)"
  unfolding ensure_container_for_readiness_plan_def readiness_plan.case
  by (rule triple_before_start [OF vacant_quiet [OF quiet_hooks(2)]
        triple_before_start [OF vacant_quiet [OF quiet_control_sockets(2)]
          triple_attempted [OF triple_try [OF triple_start_container _ locked_after_start]]]])
    (auto intro: vacant_locked)

lemma triple_start_stopped:
  assumes "kn_locked k" "kn_sight k = Seen i"
  shows "triple (safe r k) (ensure_container_for_readiness_plan w r (StartStopped i) prepared) (\<lambda>_. under_lock r)"
  unfolding ensure_container_for_readiness_plan_def readiness_plan.case
proof (rule triple_before_check)
  fix a :: unit assume "seq_checks [validate_labels r i, validate_exposure_manifest r i prepared] = Inr a"
  then have ours: "ours r k" using oursI [OF assms] labels_stable by (simp add: res_simps)
  have start: "triple (safe r k) (attempted (try_io (start_existing_container w r port)
      (\<lambda>_. inspect_container_after_start w r))) (\<lambda>_. under_lock r)" for port
    unfolding start_existing_container_def
    by (rule triple_attempted, rule triple_try [OF triple_context [OF locked_start [OF ours]] _ locked_after_start])
  show "triple (safe r k) (bind_io (observe (w_host w)) (\<lambda>h.
       before_start (pure (apple_restart_published_ssh_port h r)) (\<lambda>port.
       before_start (run_lifecycle_phase w r PreStart None) (\<lambda>_.
       before_start (remove_stale_control_socket_files w r) (\<lambda>_.
       attempted (try_io (start_existing_container w r port) (\<lambda>_. inspect_container_after_start w r)))))))
     (\<lambda>_. under_lock r)"
    using assms(1)
    by (intro triple_bind [OF quiet_safe [OF quiet_observe]] triple_before_check start
        triple_before_start [OF quiet_safe [OF quiet_hooks(2)]]
        triple_before_start [OF quiet_safe [OF quiet_control_sockets(2)]])
      (auto elim: under_lockI)
qed (use assms(1) in \<open>auto elim: under_lockI\<close>)

lemma triple_plan:
  assumes "kn_locked k" "kn_sight k = sight_of (Inr found)"
  shows "triple (safe r k) (ensure_container_for_readiness_plan w r (readiness_plan_of found) prepared)
    (\<lambda>_. under_lock r)"
proof (cases found)
  case None
  with assms have "safe r k st \<Longrightarrow> vacant r st" for st :: "'a state" by (auto simp: vacant_def)
  with None show ?thesis
    by (auto simp: readiness_plan_of_def intro: triple_pre [OF triple_create_missing])
next
  case (Some i)
  have "triple (safe r k) (ensure_container_for_readiness_plan w r (ReuseRunning i) prepared) (\<lambda>_. under_lock r)"
    using assms(1) by (auto simp: ensure_container_for_readiness_plan_def intro!: triple_pure elim: under_lockI)
  with Some assms show ?thesis by (simp add: readiness_plan_of_def triple_start_stopped)
qed

section \<open>Making a target ready\<close>

lemma locked_cleanup_failed_start: "triple (under_lock r) (cleanup_failed_start w r) (\<lambda>_. under_lock r)"
  unfolding cleanup_failed_start_def
proof (rule triple_under_lock, rule triple_bind)
  fix k :: knowledge assume locked: "kn_locked k"
  show "triple (safe r k) (inspect_own w r) (\<lambda>res. safe r (k\<lparr>kn_sight := sight_of res\<rparr>))"
    unfolding inspect_own_def by (rule triple_inspect)
  fix found
  let ?k = "k\<lparr>kn_sight := sight_of found\<rparr>"
  have stop: "triple (safe r ?k) (bind_io (stop_own w r) (\<lambda>_.
      if tgt_remove_on_stop (gw_target r) then map_io is_ok (rm_own w r) else pure False)) (\<lambda>_. under_lock r)"
    if "found = Inr (Some i)" "is_ok (validate_labels r i)" for i
  proof -
    have ours: "ours r ?k"
      using that locked by (intro oursI [of _ i]) (auto simp: is_ok_iff labels_stable)
    have rm: "triple (safe r ?k) (map_io is_ok (rm_own w r)) (\<lambda>_. under_lock r)"
      by (rule triple_map, rule triple_post [OF locked_rm [OF ours]])
        (auto simp: after_removal_def intro: vacant_locked split: if_splits)
    have stay: "triple (safe r ?k) (stop_own w r) (\<lambda>_. safe r ?k)"
      unfolding stop_own_def by (rule triple_stop [OF ours])
    show ?thesis
      using rm locked by (auto intro!: triple_bind [OF stay] triple_pure intro: under_lock_sight)
  qed
  show "triple (safe r ?k) (case found of
      Inl _ \<Rightarrow> pure False
    | Inr None \<Rightarrow> pure True
    | Inr (Some i) \<Rightarrow>
        if \<not> is_ok (validate_labels r i) then pure False
        else bind_io (stop_own w r) (\<lambda>_.
          if tgt_remove_on_stop (gw_target r) then map_io is_ok (rm_own w r) else pure False)) (\<lambda>_. under_lock r)"
    using stop by (cases found) (auto split: option.split intro!: triple_pure intro: under_lock_sight [OF locked])
qed

lemma calm_when [calm]: "calm r m \<Longrightarrow> calm r (when_io b m)"
  by (auto simp: when_io_def intro: calm_quiet quiet)

lemma calm_failed_start_cleanup [calm]: "calm r (failed_start_cleanup w r)"
proof -
  have "calm r (cleanup_failed_start w r)" by (simp add: calm_def locked_cleanup_failed_start)
  then show ?thesis
    unfolding failed_start_cleanup_def
    by (auto intro!: calm) (rule calm_quiet, intro quiet)+
qed

lemma calm_make_ready [calm]: "calm r (make_ready w r)"
proof -
  have finish: "triple (under_lock r) (map_io (\<lambda>result. (result, b)) (try_io (pure started)
      (\<lambda>i. finish_ready w r prepared i))) (\<lambda>_. under_lock r)" for b started prepared
    using calm_finish_ready [of r w prepared] by (auto simp: calm_def intro!: triple_map triple_check)
  have looked: "triple (under_lock r) (before_start (inspect_own w r) (\<lambda>found.
      bind_io (ensure_container_for_readiness_plan w r (readiness_plan_of found) prepared) (\<lambda>(started, was_attempted).
      map_io (\<lambda>result. (result, was_attempted)) (try_io (pure started) (\<lambda>i. finish_ready w r prepared i)))))
      (\<lambda>_. under_lock r)" for prepared
  proof (rule triple_under_lock, rule triple_before_start)
    fix k :: knowledge assume locked: "kn_locked k"
    show "triple (safe r k) (inspect_own w r) (\<lambda>res. safe r (k\<lparr>kn_sight := sight_of res\<rparr>))"
      unfolding inspect_own_def by (rule triple_inspect)
    show "triple (safe r (k\<lparr>kn_sight := sight_of (Inr found)\<rparr>))
        (bind_io (ensure_container_for_readiness_plan w r (readiness_plan_of found) prepared) (\<lambda>(started, was_attempted).
         map_io (\<lambda>result. (result, was_attempted)) (try_io (pure started) (\<lambda>i. finish_ready w r prepared i))))
        (\<lambda>_. under_lock r)" for found
      using locked finish by (auto intro!: triple_bind [OF triple_plan])
    show "safe r (k\<lparr>kn_sight := sight_of (Inl e)\<rparr>) st \<Longrightarrow> under_lock r st" for e st
      using under_lock_sight [OF locked] .
  qed
  show ?thesis
    unfolding calm_def make_ready_def
    by (rule triple_before_start [OF locked_quiet [OF quiet_prepare_target] looked]) simp
qed

lemma calm_ensure_ready_locked [calm]: "calm r (ensure_ready_locked w r)"
  unfolding ensure_ready_locked_def
  by (auto intro!: calm split: sum.split) (rule calm_quiet, intro quiet)+

text \<open>An operation that keeps the lock leaves a guarded log.\<close>

lemma locked_operation:
  assumes "calm r m"
  shows "triple (safe r nothing_known) (with_lifecycle_lock w r m) (\<lambda>_. safe r nothing_known)"
proof (rule triple_with_lock)
  show "triple (safe r \<lparr>kn_locked = True, kn_sight = Unseen\<rparr>) m (\<lambda>_ st. \<exists>k. safe r k st)"
  proof (rule triple_post [OF triple_pre])
    show "triple (under_lock r) m (\<lambda>_. under_lock r)" using assms by (simp add: calm_def)
    show "safe r \<lparr>kn_locked = True, kn_sight = Unseen\<rparr> st \<Longrightarrow> under_lock r st" for st :: "'a state"
      by (erule under_lockI) simp
    show "under_lock r st \<Longrightarrow> \<exists>k. safe r k st" for st :: "'a state" by (auto simp: under_lock_def)
  qed
qed

section \<open>Stopping a container\<close>

lemma locked_wait_for_exit:
  "triple (under_lock r) (wait_for_container_exit w r) (\<lambda>res st. case res of
      Inr (Some c) \<Rightarrow> \<exists>k. kn_locked k \<and> kn_sight k = Seen c \<and> safe r k st
    | _ \<Rightarrow> under_lock r st)"
proof -
  let ?Q = "\<lambda>res st. (case res of
      Inl c \<Rightarrow> \<exists>k. kn_locked k \<and> kn_sight k = Seen c \<and> safe r k st
    | Inr (Inr (Some _)) \<Rightarrow> False | Inr _ \<Rightarrow> under_lock r st)
    \<and> (case res of Inl _ \<Rightarrow> under_lock r st | Inr _ \<Rightarrow> True)"
  have step: "triple (under_lock r) (exit_check w r) ?Q"
    unfolding exit_check_def
  proof (rule triple_under_lock, rule triple_map, rule triple_post)
    fix k :: knowledge assume locked: "kn_locked k"
    show "triple (safe r k) (inspect_own w r) (\<lambda>res. safe r (k\<lparr>kn_sight := sight_of res\<rparr>))"
      unfolding inspect_own_def by (rule triple_inspect)
    fix found and st :: "'a state" assume st: "safe r (k\<lparr>kn_sight := sight_of found\<rparr>) st"
    then have "under_lock r st" using under_lock_sight [OF locked] by blast
    moreover have "\<exists>k. kn_locked k \<and> kn_sight k = Seen c \<and> safe r k st" if "found = Inr (Some c)" for c
      using st that locked by (intro exI [of _ "k\<lparr>kn_sight := sight_of found\<rparr>"]) simp
    ultimately show "?Q (case found of
         Inl e \<Rightarrow> Inr (Inl e)
       | Inr None \<Rightarrow> Inr (Inr None)
       | Inr (Some i) \<Rightarrow> (case validate_stable_labels r i of
             Inl e \<Rightarrow> Inr (Inl e)
           | Inr _ \<Rightarrow> if \<not> ci_running i then Inr (Inr None) else Inl i)) st"
      by (auto split: sum.split option.split)
  qed
  have pause: "triple (under_lock r) (sleep w d) (\<lambda>_. under_lock r)" for d
    by (rule locked_quiet [OF quiet_sleep])
  show ?thesis
    unfolding wait_for_container_exit_def
    by (rule triple_bind [OF locked_quiet [OF quiet_now]], rule triple_map,
        rule triple_post [OF triple_poll [OF triple_post [OF step] pause,
          where Q = "\<lambda>res st. case res of Inl c \<Rightarrow> \<exists>k. kn_locked k \<and> kn_sight k = Seen c \<and> safe r k st
            | Inr (Inr (Some _)) \<Rightarrow> False | Inr _ \<Rightarrow> under_lock r st"]])
      (auto split: sum.splits option.splits)
qed

text \<open>A container that was looked at and passes the check of its labels may be stopped and removed.\<close>

lemma triple_seen_stop:
  assumes "kn_locked k" "kn_sight k = Seen c"
  shows "triple (safe r k) (try_io (pure (validate_stable_labels r c)) (\<lambda>_. stop_own w r)) (\<lambda>_. under_lock r)"
    and "triple (safe r k) (try_io (pure (validate_stable_labels r c)) (\<lambda>_. rm_own w r)) (\<lambda>_. under_lock r)"
  using assms
  by (auto intro!: triple_check locked_stop triple_post [OF locked_rm] oursI [OF assms]
      simp: after_removal_def intro: vacant_locked under_lockI split: if_splits)

lemma triple_agent_stop:
  "triple (under_lock r) (bind_io (agent_shutdown w r) (\<lambda>_.
     try_io (wait_for_container_exit w r) (\<lambda>current. case current of
       None \<Rightarrow> pure (Inr ())
     | Some c \<Rightarrow> try_io (pure (validate_stable_labels r c)) (\<lambda>_. stop_own w r)))) (\<lambda>_. under_lock r)"
proof (rule triple_bind [OF locked_quiet [OF quiet_agent(3)]], rule triple_try [OF locked_wait_for_exit])
  fix current
  have stop: "triple (\<lambda>st. \<exists>k. kn_locked k \<and> kn_sight k = Seen c \<and> safe r k st)
      (try_io (pure (validate_stable_labels r c)) (\<lambda>_. stop_own w r)) (\<lambda>_. under_lock r)" for c
    using triple_seen_stop(1) unfolding triple_def by blast
  show "triple (\<lambda>st. case Inr current of
        Inr (Some c) \<Rightarrow> \<exists>k. kn_locked k \<and> kn_sight k = Seen c \<and> safe r k st | _ \<Rightarrow> under_lock r st)
      (case current of None \<Rightarrow> pure (Inr ())
       | Some c \<Rightarrow> try_io (pure (validate_stable_labels r c)) (\<lambda>_. stop_own w r)) (\<lambda>_. under_lock r)"
    using stop by (cases current) (auto intro: triple_pure)
qed simp

lemma triple_remove_seen:
  "triple (under_lock r) (try_io (inspect_own w r) (\<lambda>current. case current of
       None \<Rightarrow> pure (Inr ())
     | Some c \<Rightarrow> try_io (pure (validate_stable_labels r c)) (\<lambda>_. rm_own w r))) (\<lambda>_. under_lock r)"
  by (rule triple_look) (auto intro!: triple_pure triple_seen_stop(2) elim: under_lockI)

lemma triple_try_assoc:
  "try_io (try_io m f) g = try_io m (\<lambda>a. try_io (f a) g)"
  by (rule ext) (simp add: try_io_def bind_io_def pure_def split: prod.split sum.split)

lemma locked_try: "triple (under_lock r) m (\<lambda>_. under_lock r) \<Longrightarrow> (\<And>a. triple (under_lock r) (f a) (\<lambda>_. under_lock r))
    \<Longrightarrow> triple (under_lock r) (try_io m f) (\<lambda>_. under_lock r)"
  by (rule triple_try)

lemma triple_stop_inspected:
  assumes "kn_locked k" "kn_sight k = Seen i"
  shows "triple (safe r k) (stop_inspected_container w r i) (\<lambda>_. under_lock r)"
proof -
  let ?stop = "if agent_control_enabled r then
          bind_io (agent_shutdown w r) (\<lambda>_.
          try_io (wait_for_container_exit w r) (\<lambda>current. case current of
            None \<Rightarrow> pure (Inr ())
          | Some c \<Rightarrow> try_io (pure (validate_stable_labels r c)) (\<lambda>_. stop_own w r)))
        else stop_own w r"
  have locked: "safe r k st \<Longrightarrow> under_lock r st" for st :: "'a state"
    using assms(1) by (rule under_lockI [rotated])
  have removal: "triple (under_lock r) (given_io b (try_io (inspect_own w r) (\<lambda>current.
         try_io (case current of
             None \<Rightarrow> pure (Inr ())
           | Some c \<Rightarrow> try_io (pure (validate_stable_labels r c)) (\<lambda>_. rm_own w r)) (\<lambda>_.
         map_io Inr (cleanup_published_ssh_port_state w r))))) (\<lambda>_. under_lock r)" for b
    using locked_try [OF triple_remove_seen locked_quiet [OF quiet_map [OF quiet_ports(3)]]]
    by (auto simp: given_io_def triple_try_assoc intro: triple_pure)
  have stop: "triple (safe r k) ?stop (\<lambda>_. under_lock r)" if "validate_stable_labels r i = Inr ()"
    by (cases "agent_control_enabled r")
      (simp_all add: locked_stop [OF oursI [OF assms that]] triple_pre [OF triple_agent_stop locked])
  show ?thesis
    unfolding stop_inspected_container_def Let_def
  proof (rule triple_check)
    fix a :: unit assume "validate_stable_labels r i = Inr a"
    then have labels: "validate_stable_labels r i = Inr ()" by simp
    show "triple (safe r k) (try_io (run_lifecycle_phase w r PreStop (pid_text (ci_pid i))) (\<lambda>_.
      try_io ?stop (\<lambda>_.
      try_io (given_io (tgt_remove_on_stop (gw_target r))
        (try_io (inspect_own w r) (\<lambda>current.
         try_io (case current of
             None \<Rightarrow> pure (Inr ())
           | Some c \<Rightarrow> try_io (pure (validate_stable_labels r c)) (\<lambda>_. rm_own w r)) (\<lambda>_.
         map_io Inr (cleanup_published_ssh_port_state w r))))) (\<lambda>_.
      try_io (run_lifecycle_phase w r PostStop (pid_text (ci_pid i))) (\<lambda>_.
      map_io Inr (cleanup_control_socket_dir w r)))))) (\<lambda>_. under_lock r)"
      by (rule triple_try [OF quiet_safe [OF quiet_hooks(2)]], erule locked,
          rule triple_try [OF stop [OF labels]], assumption,
          rule locked_try [OF removal], rule locked_try [OF locked_quiet [OF quiet_hooks(2)]],
          rule locked_quiet [OF quiet_map [OF quiet_control_sockets(3)]])
  qed (erule locked)
qed

section \<open>Sessions and workspaces\<close>

datatype session_outcome = OutcomeSuccess | OutcomeCanceled | OutcomeFailure

definition is_clean :: "session_outcome \<Rightarrow> bool" where
  "is_clean outcome \<longleftrightarrow> outcome \<in> {OutcomeSuccess, OutcomeCanceled}"

definition session_outcome_of_result :: "'a res \<Rightarrow> session_outcome" where
  "session_outcome_of_result result = (if is_ok result then OutcomeSuccess else OutcomeFailure)"

definition should_cleanup_workspace :: "runtime \<Rightarrow> session_outcome \<Rightarrow> bool" where
  "should_cleanup_workspace r outcome = (case ws_cleanup (tgt_workspace (gw_target r)) of
     CleanupNever \<Rightarrow> False | CleanupSuccess \<Rightarrow> is_clean outcome | CleanupAlways \<Rightarrow> True)"

definition remove_session_workspace :: "'s world \<Rightarrow> runtime \<Rightarrow> ('s, unit res) io" where
  "remove_session_workspace w r =
     (let workspace = pt_workspace (gw_paths r) in
      bind_io (observe (w_host w)) (\<lambda>h.
      try_io (pure (runtime_validate_workspace_cleanup_path h r)) (\<lambda>_.
      try_io (pure (with_context (''inspect workspace cleanup path '' @ workspace) (h_lstat h workspace))) (\<lambda>found.
      case found of
        None \<Rightarrow> pure (Inr ())
      | Some st \<Rightarrow>
          try_io (pure (seq_checks
            [bail_if (st_kind st = Symlink) (Bail ''workspace cleanup path {} must not be a symlink'' [workspace]),
             bail_if (st_kind st \<noteq> Directory)
               (Bail ''workspace cleanup path {} exists but is not a directory'' [workspace])])) (\<lambda>_.
          remove_host_dir_all w (gw_runtime r) workspace)))))"

text \<open>The caller holds the lock. Failures are only logged.\<close>

definition apply_explicit_remove_workspace_cleanup :: "'s world \<Rightarrow> runtime \<Rightarrow> ('s, unit) io" where
  "apply_explicit_remove_workspace_cleanup w r =
     when_io (ws_cleanup (tgt_workspace (gw_target r)) \<noteq> CleanupNever \<and> id_session_id (gw_identity r) \<noteq> None)
       (bind_io (remove_session_workspace w r) (\<lambda>result.
        when_io (is_ok result) (cleanup_published_ssh_port_state w r)))"

text \<open>The markers of a container that is gone: whether one of them has the context, or there is none and
  the context is empty.\<close>

fun marker_has_context :: "codecs \<Rightarrow> host \<Rightarrow> runtime_context \<Rightarrow> string list \<Rightarrow> bool \<Rightarrow> bool" where
  "marker_has_context co h ctx [] saw_marker \<longleftrightarrow> \<not> saw_marker \<and> ctx = []"
| "marker_has_context co h ctx (path # paths) saw_marker =
     (if \<not> has_json_extension path then marker_has_context co h ctx paths saw_marker
      else case read_session_marker co h path of
        Inl _ \<Rightarrow> marker_has_context co h ctx paths saw_marker
      | Inr m \<Rightarrow> matches_stored ctx (mk_context m) \<or> marker_has_context co h ctx paths True)"

definition should_cleanup_absent_container_workspace :: "'s world \<Rightarrow> runtime \<Rightarrow> 's \<Rightarrow> bool" where
  "should_cleanup_absent_container_workspace w r s \<longleftrightarrow>
     ws_cleanup (tgt_workspace (gw_target r)) \<noteq> CleanupNever \<and> id_session_id (gw_identity r) \<noteq> None
     \<and> (case w_read_dir w (session_marker_dir r) s of
          Inl _ \<Rightarrow> False
        | Inr None \<Rightarrow> gw_context r = []
        | Inr (Some paths) \<Rightarrow> marker_has_context (w_codecs w) (w_host w s) (gw_context r) paths False)"

section \<open>Idle cleanup by the gateway\<close>

fun any_process :: "'s world \<Rightarrow> runtime \<Rightarrow> string list \<Rightarrow> ('s, bool res) io" where
  "any_process w r [] = pure (Inr False)"
| "any_process w r (process # rest) =
     try_io (exec_quiet_io w (gw_runtime r) (id_container_name (gw_identity r)) (exec_identity r)
       [''pgrep'', ''-x'', process]) (\<lambda>code.
     if code = 0 then pure (Inr True) else any_process w r rest)"

definition has_preserve_process :: "'s world \<Rightarrow> runtime \<Rightarrow> idle_cleanup_config \<Rightarrow> ('s, bool res) io" where
  "has_preserve_process w r cleanup = any_process w r (ic_preserve_processes cleanup)"

definition stop_managed_container :: "'s world \<Rightarrow> runtime \<Rightarrow> ('s, unit res) io" where
  "stop_managed_container w r = try_io (inspect_own w r) (\<lambda>found. case found of
     None \<Rightarrow> pure (Inr ())
   | Some i \<Rightarrow> if is_ok (validate_labels r i) then stop_inspected_container w r i else pure (Inr ()))"

definition idle_cleanup_locked :: "'s world \<Rightarrow> runtime \<Rightarrow> idle_cleanup_config \<Rightarrow> ('s, unit res) io" where
  "idle_cleanup_locked w r cleanup = try_io (active_session_markers w r) (\<lambda>sessions.
     if sessions \<noteq> [] then pure (Inr ())
     else try_io (has_preserve_process w r cleanup) (\<lambda>preserved.
       if preserved then pure (Inr ()) else stop_managed_container w r))"

definition apply_gateway_idle_cleanup :: "'s world \<Rightarrow> runtime \<Rightarrow> ('s, unit res) io" where
  "apply_gateway_idle_cleanup w r =
     (case tgt_idle_cleanup (gw_target r) of
        Some cleanup \<Rightarrow>
          if \<not> tgt_stop_when_idle (gw_target r) \<or> ic_owner cleanup \<noteq> OwnerGateway \<or> ic_action cleanup = ActionNone
          then pure (Inr ())
          else let idle_grace = duration_or 0 (ic_idle_grace cleanup) in
            bind_io (when_io (idle_grace \<noteq> 0) (sleep w idle_grace)) (\<lambda>_.
            with_lifecycle_lock w r (idle_cleanup_locked w r cleanup))
      | None \<Rightarrow> pure (Inr ()))"

text \<open>The cleanup after a session; its failures are only logged.\<close>

definition workspace_cleanup_locked :: "'s world \<Rightarrow> runtime \<Rightarrow> ('s, unit res) io" where
  "workspace_cleanup_locked w r = bind_io (active_session_markers w r) (\<lambda>sessions.
     if sessions = Inr [] then bind_io (remove_session_workspace w r) (\<lambda>result.
       map_io Inr (when_io (is_ok result) (cleanup_published_ssh_port_state w r)))
     else pure (Inr ()))"

definition apply_post_session_cleanup :: "'s world \<Rightarrow> runtime \<Rightarrow> session_outcome \<Rightarrow> ('s, unit) io" where
  "apply_post_session_cleanup w r outcome = bind_io (apply_gateway_idle_cleanup w r) (\<lambda>_.
     when_io (should_cleanup_workspace r outcome)
       (map_io (\<lambda>_. ()) (with_lifecycle_lock w r (workspace_cleanup_locked w r))))"

definition finish_post_session :: "'s world \<Rightarrow> runtime \<Rightarrow> string \<Rightarrow> 'a res \<Rightarrow> session_outcome \<Rightarrow> ('s, 'a res) io" where
  "finish_post_session w r session result outcome = bind_io (drop_session_guard w session) (\<lambda>_.
     bind_io (apply_post_session_cleanup w r outcome) (\<lambda>_. pure result))"

text \<open>A session begins with its marker and the readiness of the target, under one lock.\<close>

definition begin_ready_session ::
  "'s world \<Rightarrow> runtime \<Rightarrow> string \<Rightarrow> bool \<Rightarrow> ('s, (string \<times> ready_status res) res) io" where
  "begin_ready_session w r kind launch_marker = with_lifecycle_lock w r
     (try_io (create_session_marker w r kind launch_marker) (\<lambda>session.
      map_io (\<lambda>ready. Inr (session, ready)) (ensure_ready_locked w r)))"

section \<open>Operations on a target\<close>

record stop_result =
  sr_container :: string
  sr_stopped :: bool

record remove_result =
  rr_container :: string
  rr_removed :: bool

definition stop_target :: "'s world \<Rightarrow> runtime \<Rightarrow> ('s, stop_result res) io" where
  "stop_target w r = with_lifecycle_lock w r (try_io (inspect_own w r) (\<lambda>found. case found of
     None \<Rightarrow> pure (Inr \<lparr>sr_container = id_container_name (gw_identity r), sr_stopped = False\<rparr>)
   | Some i \<Rightarrow>
       try_io (pure (validate_stable_labels r i)) (\<lambda>_.
       try_io (stop_inspected_container w r i) (\<lambda>_.
       pure (Inr \<lparr>sr_container = id_container_name (gw_identity r), sr_stopped = True\<rparr>)))))"

text \<open>A removal when there is no container, and of one that was found.\<close>

definition remove_absent :: "'s world \<Rightarrow> runtime \<Rightarrow> ('s, remove_result res) io" where
  "remove_absent w r =
     bind_io (cleanup_published_ssh_port_state w r) (\<lambda>_.
     bind_io (cleanup_control_socket_dir w r) (\<lambda>_.
     bind_io (observe (should_cleanup_absent_container_workspace w r)) (\<lambda>absent.
     bind_io (when_io absent (apply_explicit_remove_workspace_cleanup w r)) (\<lambda>_.
     pure (Inr \<lparr>rr_container = id_container_name (gw_identity r), rr_removed = False\<rparr>)))))"

definition remove_seen :: "'s world \<Rightarrow> runtime \<Rightarrow> ('s, unit res) io" where
  "remove_seen w r = try_io (inspect_own w r) (\<lambda>current. case current of
     None \<Rightarrow> pure (Inr ())
   | Some c \<Rightarrow> try_io (pure (validate_stable_labels r c)) (\<lambda>_. rm_own w r))"

definition remove_found :: "'s world \<Rightarrow> runtime \<Rightarrow> container_inspect \<Rightarrow> ('s, remove_result res) io" where
  "remove_found w r i =
     try_io (pure (validate_stable_labels r i)) (\<lambda>_.
     try_io (given_io (ci_running i) (stop_inspected_container w r i)) (\<lambda>_.
     try_io (remove_seen w r) (\<lambda>_.
     bind_io (when_io (\<not> ci_running i) (cleanup_control_socket_dir w r)) (\<lambda>_.
     bind_io (cleanup_published_ssh_port_state w r) (\<lambda>_.
     bind_io (apply_explicit_remove_workspace_cleanup w r) (\<lambda>_.
     pure (Inr \<lparr>rr_container = id_container_name (gw_identity r), rr_removed = True\<rparr>)))))))"

definition remove_target :: "'s world \<Rightarrow> runtime \<Rightarrow> ('s, remove_result res) io" where
  "remove_target w r = with_lifecycle_lock w r (try_io (inspect_own w r) (\<lambda>found. case found of
     None \<Rightarrow> remove_absent w r | Some i \<Rightarrow> remove_found w r i))"

definition operation_up_with_runtime :: "'s world \<Rightarrow> runtime \<Rightarrow> ('s, ready_status res) io" where
  "operation_up_with_runtime w r =
     (if map_option ls_mode (tgt_local_ssh (gw_target r)) = Some Listen
      then pure (Inl (Bail ''gateway action \"up\" over SSH is not supported for local_ssh.mode = \"listen\" targets; use connect or run aw-gateway up locally'' []))
      else ensure_ready w r)"

text \<open>The operations load the configuration and make the runtime of their target first.\<close>

definition with_runtime ::
  "'s world \<Rightarrow> gateway_config res \<Rightarrow> string option \<Rightarrow> string option \<Rightarrow> bool \<Rightarrow> string option \<Rightarrow> runtime_context
     \<Rightarrow> (runtime \<Rightarrow> ('s, 'a res) io) \<Rightarrow> ('s, 'a op_res) io" where
  "with_runtime w loaded target session_id generate launch ctx operation = bind_io (observe (w_host w)) (\<lambda>h.
     try_io (pure (and_then (as_op loaded) (\<lambda>cfg. runtime_from_config h cfg target session_id generate launch ctx)))
       (\<lambda>r. map_io as_op (operation r)))"

definition operation_up ::
  "'s world \<Rightarrow> gateway_config res \<Rightarrow> string option \<Rightarrow> string option \<Rightarrow> runtime_context \<Rightarrow> ('s, ready_status op_res) io" where
  "operation_up w loaded target session_id ctx =
     with_runtime w loaded target session_id True None ctx (operation_up_with_runtime w)"

definition operation_stop ::
  "'s world \<Rightarrow> gateway_config res \<Rightarrow> string option \<Rightarrow> string option \<Rightarrow> runtime_context \<Rightarrow> ('s, stop_result op_res) io" where
  "operation_stop w loaded target session_id ctx =
     with_runtime w loaded target session_id False None ctx (stop_target w)"

definition operation_remove ::
  "'s world \<Rightarrow> gateway_config res \<Rightarrow> string option \<Rightarrow> string option \<Rightarrow> runtime_context \<Rightarrow> ('s, remove_result op_res) io" where
  "operation_remove w loaded target session_id ctx =
     with_runtime w loaded target session_id False None ctx (remove_target w)"

definition operation_status ::
  "'s world \<Rightarrow> gateway_config res \<Rightarrow> string option \<Rightarrow> string option \<Rightarrow> runtime_context \<Rightarrow> ('s, gateway_status op_res) io" where
  "operation_status w loaded target session_id ctx =
     with_runtime w loaded target session_id False None ctx (status_io w)"

section \<open>Every operation is guarded\<close>

lemma quiet_remove_workspace [quiet]: "quiet (remove_session_workspace w r)"
  unfolding remove_session_workspace_def Let_def by (auto intro!: quiet split: option.split)

lemma quiet_explicit_cleanup [quiet]: "quiet (apply_explicit_remove_workspace_cleanup w r)"
  unfolding apply_explicit_remove_workspace_cleanup_def by (intro quiet)

lemma quiet_any_process [quiet]: "quiet (any_process w r names)"
  by (induction names) (auto intro!: quiet)

lemma quiet_workspace_cleanup [quiet]: "quiet (workspace_cleanup_locked w r)"
  unfolding workspace_cleanup_locked_def by (auto intro!: quiet)

lemma calm_stop_managed [calm]: "calm r (stop_managed_container w r)"
  unfolding calm_def stop_managed_container_def
  by (rule triple_look) (auto intro!: triple_pure triple_stop_inspected elim: under_lockI)

lemma calm_idle_cleanup [calm]: "calm r (idle_cleanup_locked w r cleanup)"
  unfolding idle_cleanup_locked_def has_preserve_process_def
  by (auto intro!: calm) (rule calm_quiet, intro quiet)+

lemma calm_stop_body: "calm r (try_io (inspect_own w r) (\<lambda>found. case found of
     None \<Rightarrow> pure (Inr a)
   | Some i \<Rightarrow> try_io (pure (validate_stable_labels r i)) (\<lambda>_.
       try_io (stop_inspected_container w r i) (\<lambda>_. pure (Inr b)))))"
  unfolding calm_def
  by (rule triple_look)
    (auto intro!: triple_pure triple_check triple_try [OF triple_stop_inspected] elim: under_lockI)

lemma calm_remove_seen [calm]: "calm r (remove_seen w r)"
  unfolding calm_def remove_seen_def by (rule triple_remove_seen)

lemma quiet_remove_absent [quiet]: "quiet (remove_absent w r)"
  unfolding remove_absent_def by (intro quiet)

lemma triple_remove_found:
  assumes "kn_locked k" "kn_sight k = Seen i"
  shows "triple (safe r k) (remove_found w r i) (\<lambda>_. under_lock r)"
proof -
  have stop: "triple (safe r k) (given_io (ci_running i) (stop_inspected_container w r i)) (\<lambda>_. under_lock r)"
    using triple_stop_inspected [OF assms] assms(1)
    by (auto simp: given_io_def intro!: triple_pure elim: under_lockI)
  have rest: "triple (under_lock r) (try_io (remove_seen w r) (\<lambda>_.
     bind_io (when_io (\<not> ci_running i) (cleanup_control_socket_dir w r)) (\<lambda>_.
     bind_io (cleanup_published_ssh_port_state w r) (\<lambda>_.
     bind_io (apply_explicit_remove_workspace_cleanup w r) (\<lambda>_. pure (Inr a)))))) (\<lambda>_. under_lock r)" for a
    unfolding calm_def [symmetric] by (intro calm_try [OF calm_remove_seen] calm_quiet quiet)
  show ?thesis
    unfolding remove_found_def
    using assms(1) by (auto intro!: triple_check triple_try [OF stop _ rest] elim: under_lockI)
qed

lemma calm_remove_body: "calm r (try_io (inspect_own w r) (\<lambda>found. case found of
     None \<Rightarrow> remove_absent w r | Some i \<Rightarrow> remove_found w r i))"
  unfolding calm_def
  by (rule triple_look)
    (auto intro!: triple_remove_found triple_post [OF quiet_safe [OF quiet_remove_absent] under_lockI])

section \<open>The guard over whole operations\<close>

text \<open>An operation that starts and ends without the lock and leaves a guarded log.\<close>

definition well_guarded :: "runtime \<Rightarrow> ('s, 'a) io \<Rightarrow> bool" where
  "well_guarded r m \<longleftrightarrow> triple (safe r nothing_known) m (\<lambda>_. safe r nothing_known)"

named_theorems well_guarded \<open>operations that leave a guarded log\<close>

lemma well_guarded_quiet: "quiet m \<Longrightarrow> well_guarded r m"
  unfolding well_guarded_def by (rule quiet_safe)

lemma well_guarded_bind [well_guarded]:
  "well_guarded r m \<Longrightarrow> (\<And>a. well_guarded r (f a)) \<Longrightarrow> well_guarded r (bind_io m f)"
  unfolding well_guarded_def by (rule triple_bind)

lemma well_guarded_try [well_guarded]:
  "well_guarded r m \<Longrightarrow> (\<And>a. well_guarded r (f a)) \<Longrightarrow> well_guarded r (try_io m f)"
  unfolding well_guarded_def by (rule triple_try)

lemma well_guarded_map [well_guarded]: "well_guarded r m \<Longrightarrow> well_guarded r (map_io f m)"
  unfolding well_guarded_def by (rule triple_map)

lemma well_guarded_when [well_guarded]: "well_guarded r m \<Longrightarrow> well_guarded r (when_io b m)"
  by (auto simp: when_io_def intro: well_guarded_quiet quiet)

lemma well_guarded_lock [well_guarded]: "calm r m \<Longrightarrow> well_guarded r (with_lifecycle_lock w r m)"
  unfolding well_guarded_def by (rule locked_operation)

lemma well_guarded_operations [well_guarded]:
  "well_guarded r (ensure_ready w r)" "well_guarded r (stop_target w r)" "well_guarded r (remove_target w r)"
  unfolding ensure_ready_def stop_target_def remove_target_def
  by (intro well_guarded_lock calm_ensure_ready_locked calm_stop_body calm_remove_body)+

lemma well_guarded_begin [well_guarded]: "well_guarded r (begin_ready_session w r kind launch_marker)"
  unfolding begin_ready_session_def
  by (intro well_guarded_lock calm_try calm_map calm_ensure_ready_locked calm_quiet [OF quiet_markers(2)])

lemma well_guarded_cleanup [well_guarded]: "well_guarded r (apply_gateway_idle_cleanup w r)"
  unfolding apply_gateway_idle_cleanup_def Let_def
  by (auto split: option.split intro!: well_guarded calm_idle_cleanup) (rule well_guarded_quiet, intro quiet)+

lemma well_guarded_finish [well_guarded]: "well_guarded r (finish_post_session w r session result outcome)"
  unfolding finish_post_session_def apply_post_session_cleanup_def
  by (intro well_guarded calm_quiet [OF quiet_workspace_cleanup])
    (rule well_guarded_quiet, intro quiet)+

lemma well_guarded_log: "well_guarded r m \<Longrightarrow> guarded r (st_log (snd (m (st\<lparr>st_log := []\<rparr>))))"
  unfolding well_guarded_def triple_def safe_def
  by (simp add: guarded_def known_def)

text \<open>A container is only changed under its lock, and only started, stopped or removed after it was
  seen with the labels of the runtime since the lock was taken; it is run only when none was found.
  This holds of all that a session does: it makes its target ready, is held, and is cleaned up after,
  whatever the outside answers in between.\<close>

theorem only_own_containers_change:
  "guarded r (st_log (snd (bind_io (begin_ready_session w r kind launch_marker) (\<lambda>began. case began of
      Inl e \<Rightarrow> pure ()
    | Inr (session, ready) \<Rightarrow> bind_io (agent_session_hold w r kind) (\<lambda>held.
        map_io (\<lambda>_. ()) (finish_post_session w r session (f ready held) (g ready held))))
    (st\<lparr>st_log := []\<rparr>))))"
  by (rule well_guarded_log, rule well_guarded_bind [OF well_guarded_begin])
    (auto split: sum.split intro!: well_guarded well_guarded_quiet [OF quiet_agent_waits(2)]
      well_guarded_quiet [OF quiet_pure])

text \<open>C3. A stop or a removal of a target, and the start of one, change no container but one with the labels
  of the runtime that was seen under the lock.\<close>

theorem operations_spare_foreign_containers:
  "guarded r (st_log (snd (bind_io (ensure_ready w r) (\<lambda>_. bind_io (stop_target w r) (\<lambda>_. remove_target w r))
    (st\<lparr>st_log := []\<rparr>))))"
  by (intro well_guarded_log well_guarded)

section \<open>The address of a health check\<close>

text \<open>The address of an HTTP check of a host step is accepted as a template and used as it is written.\<close>

lemma http_health_url_is_not_rendered:
  "run_health_check w (HcHttp url expect_status expect_json interval limit) vars
     = run_health_check w (HcHttp url expect_status expect_json interval limit) []"
  "health_check_validate_templates (HcHttp ''http://127.0.0.1/{container_pid}'' None [] None None) GATEWAY_TEMPLATE_VARS = Inr ()"
  "referenced_keys ''http://127.0.0.1/{container_pid}'' = Inr [''container_pid'']"
  by (simp, code_simp, code_simp)

end
