(* ===== verification/Launching.thy ===== *)
theory Launching
  imports Container_Spec Container_Listing Ssh_Dispatch
begin

text \<open>
  The operations of the gateway as data and what they are about: \<open>gateway/ops/types.rs\<close> and
  \<open>gateway/ops/ssh.rs\<close>, the variables, the command and the environment of a launch in \<open>gateway.rs\<close> and
  \<open>gateway/execution.rs\<close>, and the listings of targets, launches and containers in \<open>gateway.rs\<close>,
  \<open>gateway/ops.rs\<close> and \<open>gateway/status_view.rs\<close>.

  The parsing of a floating-point number is a parameter: it answers whether the number is finite and
  how it prints.
\<close>

section \<open>Operations\<close>

datatype operation_mode = ModeWait | ModeStream | ModeDetach

record execution_options =
  xo_mode :: operation_mode
  xo_stdout :: bool
  xo_stderr :: bool

definition options_stream :: execution_options where
  "options_stream = \<lparr>xo_mode = ModeStream, xo_stdout = True, xo_stderr = True\<rparr>"

definition detach_discard_options :: execution_options where
  "detach_discard_options = \<lparr>xo_mode = ModeDetach, xo_stdout = False, xo_stderr = False\<rparr>"

record captured_stream =
  cst_bytes :: string
  cst_truncated :: bool

datatype execution_outcome =
    Streamed int
  | Captured int "captured_stream option" "captured_stream option"
  | Detached string
  | Canceled "int option"

fun is_canceled :: "execution_outcome \<Rightarrow> bool" where
  "is_canceled (Canceled _) = True"
| "is_canceled _ = False"

fun outcome_exit_code :: "execution_outcome \<Rightarrow> int option" where
  "outcome_exit_code (Streamed code) = Some code"
| "outcome_exit_code (Captured code _ _) = Some code"
| "outcome_exit_code (Canceled code) = code"
| "outcome_exit_code (Detached _) = None"

section \<open>Launch variables\<close>

datatype canonical_value = CvString string | CvBoolean bool | CvNumber string

type_synonym supplied_vars = "(string, canonical_value) btree"

definition supply_value :: "supplied_vars \<Rightarrow> string \<Rightarrow> canonical_value \<Rightarrow> supplied_vars op_res" where
  "supply_value vars key v =
     (if bt_contains vars key then Inl (InvalidLaunchVariable (fill_format ''duplicate launch variable {}'' [key]))
      else Inr (bt_insert key v vars))"

fun supply_pairs :: "supplied_vars \<Rightarrow> string list \<Rightarrow> supplied_vars op_res" where
  "supply_pairs vars [] = Inr vars"
| "supply_pairs vars (raw # rest) = (case split_once CHR ''='' raw of
     None \<Rightarrow> Inl (InvalidLaunchVariable ''--var must be key=value'')
   | Some (key, v) \<Rightarrow> and_then (supply_value vars key (CvString v)) (\<lambda>vars. supply_pairs vars rest))"

definition from_cli_pairs :: "string list \<Rightarrow> supplied_vars op_res" where
  "from_cli_pairs = supply_pairs []"

definition launch_passthrough_args :: "string list \<Rightarrow> string list op_res" where
  "launch_passthrough_args values =
     (if [] \<in> set values then Inl (InvalidLaunchArgs ''launch args must not contain empty strings'') else Inr values)"

fun from_config_default :: "launch_var_value \<Rightarrow> canonical_value" where
  "from_config_default (LvString v) = CvString v"
| "from_config_default (LvBoolean b) = CvBoolean b"
| "from_config_default (LvInteger i) = CvNumber (show_int i)"
| "from_config_default (LvFloat f) = CvNumber (canonical_number_string f)"

text \<open>A JSON number is an integer of 64 bits or a float.\<close>

definition from_json_number :: "string \<Rightarrow> int option \<Rightarrow> float_view option \<Rightarrow> string + canonical_value" where
  "from_json_number key integer float = (case integer of
     Some i \<Rightarrow> Inr (CvNumber (show_int i))
   | None \<Rightarrow> (case float of
       Some f \<Rightarrow> if fv_finite f then Inr (CvNumber (canonical_number_string f))
         else Inl (fill_format ''invalid launch variable {}: number must be finite'' [key])
     | None \<Rightarrow> Inl (fill_format ''invalid launch variable {}: number must be finite'' [key])))"

definition i64_limit :: nat where
  "i64_limit = 2 ^ 63"

text \<open>Whether \<open>parse::<i64>\<close> accepts a text.\<close>

definition is_i64 :: "string \<Rightarrow> bool" where
  "is_i64 raw = (case raw of
     CHR ''-'' # digits \<Rightarrow> (case digits of CHR ''+'' # _ \<Rightarrow> False | _ \<Rightarrow> parse_uint (i64_limit + 1) digits \<noteq> None)
   | _ \<Rightarrow> parse_uint i64_limit raw \<noteq> None)"

definition canonical_cli_number :: "string \<Rightarrow> float_view \<Rightarrow> string" where
  "canonical_cli_number raw parsed =
     (if is_i64 raw then dropWhile (\<lambda>c. c = CHR ''+'') raw else canonical_number_string parsed)"

definition validate_launch_var_string :: "string \<Rightarrow> string \<Rightarrow> unit op_res" where
  "validate_launch_var_string name v =
     map_err (\<lambda>reason. InvalidLaunchVariable (fill_format ''invalid launch variable {}; {}'' [name, reason]))
       (validate_launch_var_string_value v)"

fun coerce_for_config ::
  "(string \<Rightarrow> float_view option) \<Rightarrow> canonical_value \<Rightarrow> string \<Rightarrow> launch_var_config \<Rightarrow> canonical_value op_res" where
  "coerce_for_config parse_f64 v name var = (case lv_type var of
     VtString \<Rightarrow> (case v of
         CvString s \<Rightarrow> map_ok (\<lambda>_. CvString s) (validate_launch_var_string name s)
       | _ \<Rightarrow> Inl (InvalidLaunchVariable (fill_format ''invalid string launch variable {}; expected string'' [name])))
   | VtEnum \<Rightarrow> (case v of
         CvString s \<Rightarrow> and_then (validate_launch_var_string name s) (\<lambda>_.
           let values = unwrap_or [] (lv_values var) in
           if s \<in> set values then Inr (CvString s)
           else Inl (InvalidLaunchVariable
             (fill_format ''invalid enum launch variable {}; expected one of {}'' [name, join '', '' values])))
       | _ \<Rightarrow> Inl (InvalidLaunchVariable (fill_format ''invalid enum launch variable {}; expected string'' [name])))
   | VtBoolean \<Rightarrow> (case v of
         CvBoolean b \<Rightarrow> Inr (CvBoolean b)
       | CvString s \<Rightarrow>
           if s = ''true'' \<or> s = ''false'' then Inr (CvBoolean (s = ''true''))
           else Inl (InvalidLaunchVariable
             (fill_format ''invalid boolean launch variable {}; expected true or false'' [name]))
       | CvNumber _ \<Rightarrow> Inl (InvalidLaunchVariable
           (fill_format ''invalid boolean launch variable {}; expected true or false'' [name])))
   | VtNumber \<Rightarrow> (case v of
         CvNumber n \<Rightarrow> Inr (CvNumber n)
       | CvString s \<Rightarrow> (case parse_f64 s of
             None \<Rightarrow> Inl (InvalidLaunchVariable (fill_format ''invalid number launch variable {}'' [name]))
           | Some parsed \<Rightarrow>
               if fv_finite parsed then Inr (CvNumber (canonical_cli_number s parsed))
               else Inl (InvalidLaunchVariable
                 (fill_format ''invalid number launch variable {}; expected finite number'' [name])))
       | CvBoolean _ \<Rightarrow> Inl (InvalidLaunchVariable (fill_format ''invalid number launch variable {}'' [name]))))"

fun canonical_rendered :: "canonical_value \<Rightarrow> string" where
  "canonical_rendered (CvString v) = v"
| "canonical_rendered (CvNumber v) = v"
| "canonical_rendered (CvBoolean b) = (if b then ''true'' else ''false'')"

text \<open>The loop of \<open>resolve_launch_vars\<close> over the declared variables.\<close>

fun resolve_vars_loop ::
  "(string \<Rightarrow> float_view option) \<Rightarrow> supplied_vars \<Rightarrow> (string \<times> launch_var_config) list \<Rightarrow> env_map \<Rightarrow> env_map op_res" where
  "resolve_vars_loop parse_f64 supplied [] resolved = Inr resolved"
| "resolve_vars_loop parse_f64 supplied ((name, var) # rest) resolved =
     (let keep = (\<lambda>v. and_then (coerce_for_config parse_f64 v name var) (\<lambda>v.
        resolve_vars_loop parse_f64 supplied rest (bt_insert name (canonical_rendered v) resolved))) in
      case bt_get supplied name of
        Some v \<Rightarrow> keep v
      | None \<Rightarrow> (case lv_default var of
          Some d \<Rightarrow> keep (from_config_default d)
        | None \<Rightarrow>
            if lv_required var
            then Inl (InvalidLaunchVariable (fill_format ''missing required launch variable {}'' [name]))
            else resolve_vars_loop parse_f64 supplied rest resolved))"

definition resolve_launch_vars ::
  "(string \<Rightarrow> float_view option) \<Rightarrow> launch_config \<Rightarrow> supplied_vars \<Rightarrow> env_map op_res" where
  "resolve_launch_vars parse_f64 launch supplied =
     and_then (each (\<lambda>key. if bt_contains (lc_vars launch) key then Inr ()
         else Inl (InvalidLaunchVariable (fill_format ''unknown launch variable {}'' [key]))) (bt_keys supplied)) (\<lambda>_.
       resolve_vars_loop parse_f64 supplied (lc_vars launch) [])"

definition validate_launch_passthrough_args :: "string \<Rightarrow> launch_config \<Rightarrow> string list \<Rightarrow> unit op_res" where
  "validate_launch_passthrough_args name launch args =
     (if args = [] \<or> lc_allow_args launch then Inr ()
      else Inl (InvalidLaunchArgs (fill_format ''launch {} does not allow passthrough args'' [name])))"

definition lookup_launch :: "gateway_config \<Rightarrow> string \<Rightarrow> launch_config op_res" where
  "lookup_launch cfg name =
     (if \<not> bt_contains (gc_launches cfg) name then Inl (UnknownLaunch (fill_format ''unknown launch {}'' [name]))
      else as_op (effective_launch cfg name))"

section \<open>The command of a launch\<close>

definition launch_template_vars :: "host \<Rightarrow> runtime \<Rightarrow> env_map \<Rightarrow> string option \<Rightarrow> vars" where
  "launch_template_vars h r resolved container_pid =
     bt_extend (runtime_vars h r container_pid) (map (\<lambda>(key, v). (''var.'' @ key, v)) resolved)"

definition render_template_map :: "env_map \<Rightarrow> vars \<Rightarrow> env_map res" where
  "render_template_map values vars =
     map_ok (bt_extend []) (collect_ok (\<lambda>(key, v). map_ok (Pair key) (render v vars)) values)"

definition launch_final_env :: "env_map \<Rightarrow> env_map \<Rightarrow> env_map" where
  "launch_final_env session launch = bt_extend session launch"

definition launch_container_step_env :: "env_map \<Rightarrow> env_map \<Rightarrow> env_map \<Rightarrow> vars \<Rightarrow> env_map res" where
  "launch_container_step_env session launch step vars =
     map_ok (bt_extend (bt_extend session launch)) (render_template_map step vars)"

definition render_launch_cwd :: "string option \<Rightarrow> vars \<Rightarrow> string \<Rightarrow> string option res" where
  "render_launch_cwd cwd vars home_base = map_ok (map_option (expand_home home_base)) (render_opt cwd vars)"

definition render_launch_command :: "string list \<Rightarrow> vars \<Rightarrow> string list \<Rightarrow> string list res" where
  "render_launch_command command vars args =
     map_ok concat (collect_ok (\<lambda>arg. if arg = ''{args}'' then Inr args else map_ok (\<lambda>s. [s]) (render arg vars)) command)"

definition ensure_launch_templates_supported :: "runtime \<Rightarrow> launch_config \<Rightarrow> string option \<Rightarrow> unit res" where
  "ensure_launch_templates_supported r launch container_pid =
     (let supported = ensure_runtime_template_values_supported r container_pid in seq_checks
       [supported (filter (\<lambda>arg. arg \<noteq> ''{args}'') (lc_command launch)),
        supported (map snd (lc_env launch)),
        given (\<lambda>cwd. supported [cwd]) (lc_cwd launch),
        each (\<lambda>step. seq_checks
          [supported (lst_command step), supported (map snd (lst_env step)),
           given (\<lambda>cwd. supported [cwd]) (lst_cwd step)]) (lc_steps launch)])"

definition shell_command :: "string \<Rightarrow> string list \<Rightarrow> string list" where
  "shell_command session_shell args = session_shell # args"

definition final_container_exec_spec ::
  "runtime \<Rightarrow> bool \<Rightarrow> string list \<Rightarrow> string option \<Rightarrow> env_map \<Rightarrow> operation_mode \<Rightarrow> exec_spec" where
  "final_container_exec_spec r terminal command cwd env mode =
     \<lparr>es_stdin_tty = (mode = ModeStream), es_stdout_tty = terminal, es_user = exec_identity r, es_cwd = cwd,
      es_env = env, es_container_name = id_container_name (gw_identity r), es_command = command\<rparr>"

section \<open>Listings\<close>

record launch_var_metadata =
  vm_type :: string
  vm_required :: bool
  vm_default :: "launch_var_value option"
  vm_values :: "string list option"
  vm_description :: "string option"

record launch_summary =
  lsu_name :: string
  lsu_target :: string
  lsu_allow_args :: bool
  lsu_description :: "string option"
  lsu_vars :: "(string, launch_var_metadata) btree"

record launch_step_detail =
  sd_name :: string
  sd_phase :: string
  sd_location :: string
  sd_required :: bool
  sd_timeout :: "string option"
  sd_cwd :: "string option"
  sd_env :: env_map
  sd_command :: "string list"

record launch_detail =
  ld_name :: string
  ld_target :: string
  ld_target_mode :: string
  ld_allow_args :: bool
  ld_target_container :: "string option"
  ld_description :: "string option"
  ld_vars :: "(string, launch_var_metadata) btree"
  ld_steps :: "launch_step_detail list"
  ld_cwd :: "string option"
  ld_env :: env_map
  ld_command :: "string list"

record target_entry =
  te_target :: string
  te_image :: string
  te_access :: string
  te_mode :: string
  te_container :: string
  te_default :: bool

fun launch_var_type_name :: "launch_var_type \<Rightarrow> string" where
  "launch_var_type_name VtString = ''string''"
| "launch_var_type_name VtEnum = ''enum''"
| "launch_var_type_name VtBoolean = ''boolean''"
| "launch_var_type_name VtNumber = ''number''"

definition launch_var_metadata_of ::
  "(string, launch_var_config) btree \<Rightarrow> (string, launch_var_metadata) btree" where
  "launch_var_metadata_of vars = map (\<lambda>(name, v). (name,
     \<lparr>vm_type = launch_var_type_name (lv_type v), vm_required = lv_required v, vm_default = lv_default v,
      vm_values = lv_values v, vm_description = lv_description v\<rparr>)) vars"

definition launch_summaries :: "gateway_config \<Rightarrow> launch_summary list res" where
  "launch_summaries cfg = map_ok (map (\<lambda>(name, launch).
     \<lparr>lsu_name = name, lsu_target = lc_target launch, lsu_allow_args = lc_allow_args launch,
      lsu_description = lc_description launch, lsu_vars = launch_var_metadata_of (lc_vars launch)\<rparr>))
     (effective_launches cfg)"

definition launch_step_detail_of :: "launch_step \<Rightarrow> launch_step_detail" where
  "launch_step_detail_of step =
     \<lparr>sd_name = lst_name step, sd_phase = ''post_ready'',
      sd_location = (case lst_location step of OnHost \<Rightarrow> ''host'' | InContainer \<Rightarrow> ''container''),
      sd_required = lst_required step, sd_timeout = lst_timeout step, sd_cwd = lst_cwd step,
      sd_env = lst_env step, sd_command = lst_command step\<rparr>"

definition target_container_display :: "target_config \<Rightarrow> runtime_context \<Rightarrow> string res" where
  "target_container_display t ctx = (case tgt_mode t of
     Fixed \<Rightarrow>
       if ctx = [] \<and> (case tgt_name t of
           Some name \<Rightarrow> (case referenced_keys name of
               Inr refs \<Rightarrow> list_ex (starts_with ''context.'') refs | Inl _ \<Rightarrow> False)
         | None \<Rightarrow> False)
       then Inr (unwrap_or ''{image_slug}'' (tgt_name t))
       else container_name_with_context t None ctx
   | Ephemeral \<Rightarrow> Inr (unwrap_or ''{image_slug}-{session_id}'' (tgt_ephemeral_name t)))"

definition launch_detail_of ::
  "gateway_config \<Rightarrow> string \<Rightarrow> launch_config \<Rightarrow> runtime_context \<Rightarrow> launch_detail res" where
  "launch_detail_of cfg name launch ctx =
     and_then (effective_target cfg (lc_target launch)) (\<lambda>t.
     and_then (if tgt_mode t = Fixed then map_ok Some (target_container_display t ctx) else Inr None) (\<lambda>display.
     Inr \<lparr>ld_name = name, ld_target = lc_target launch, ld_target_mode = mode_text (tgt_mode t),
          ld_allow_args = lc_allow_args launch, ld_target_container = display,
          ld_description = lc_description launch, ld_vars = launch_var_metadata_of (lc_vars launch),
          ld_steps = map launch_step_detail_of (lc_steps launch), ld_cwd = lc_cwd launch,
          ld_env = lc_env launch, ld_command = lc_command launch\<rparr>))"

definition target_entries :: "host \<Rightarrow> gateway_config \<Rightarrow> runtime_context \<Rightarrow> target_entry list res" where
  "target_entries h cfg ctx =
     and_then (user_current h) (\<lambda>user.
     and_then (map_ok (unwrap_or (gc_default_target cfg)) (read_default_selection h user)) (\<lambda>selection.
     and_then (with_context (''validate default selection '' @ selection)
         (resolve_target_selection cfg (Some selection))) (\<lambda>default_target.
     and_then (effective_targets cfg) (\<lambda>targets.
       collect_ok (\<lambda>(name, t). map_ok (\<lambda>display.
           \<lparr>te_target = name, te_image = tgt_image t, te_access = access_method_text (ta_method (tgt_access t)),
            te_mode = mode_text (tgt_mode t), te_container = display, te_default = (name = default_target)\<rparr>)
         (target_container_display t ctx)) targets))))"

record all_status_entry =
  al_target :: string
  al_session_id :: "string option"
  al_launch :: "string option"
  al_mode :: string
  al_user :: string
  al_uid :: string
  al_image :: string
  al_container :: string
  al_access :: string
  al_context :: runtime_context
  al_status :: string

definition infer_status_all_mode :: "gateway_config \<Rightarrow> string \<Rightarrow> string \<Rightarrow> string option \<Rightarrow> string" where
  "infer_status_all_mode cfg target name session_id = (case effective_target cfg target of
     Inl _ \<Rightarrow> ''unknown''
   | Inr t \<Rightarrow> (case tgt_mode t of
       Fixed \<Rightarrow> if container_name t None = Inr name then ''fixed'' else ''unknown''
     | Ephemeral \<Rightarrow> if session_id \<noteq> None then ''ephemeral'' else ''unknown''))"

definition status_all_entry :: "gateway_config \<Rightarrow> managed_container \<Rightarrow> all_status_entry" where
  "status_all_entry cfg c =
     (let label = (\<lambda>key. bt_get (mc_labels c) (''io.aw-gateway.'' @ key));
          target = unwrap_or ''unknown'' (label ''target'');
          session_id = label ''session_id'';
          mode = (case label ''mode'' of Some m \<Rightarrow> m
            | None \<Rightarrow> infer_status_all_mode cfg target (mc_name c) session_id) in
      \<lparr>al_target = target, al_session_id = session_id,
       al_launch = (if mode = ''ephemeral'' then label ''launch'' else None), al_mode = mode,
       al_user = unwrap_or [] (label ''user''), al_uid = unwrap_or [] (label ''uid''),
       al_image = unwrap_or (mc_image c) (label ''image''),
       al_container = unwrap_or (mc_name c) (label ''container_id''),
       al_access = unwrap_or ''unknown'' (label ''access''), al_context = context_from_labels (mc_labels c),
       al_status = (if mc_running c then ''running'' else ''stopped'')\<rparr>)"

definition status_all_entries :: "gateway_config \<Rightarrow> managed_container list \<Rightarrow> all_status_entry list" where
  "status_all_entries cfg containers = map (status_all_entry cfg) containers"

section \<open>The names of containers that the Apple runtime may list\<close>

text \<open>An error of the rendering about a key of the context.\<close>

definition missing_context_render_error :: "error \<Rightarrow> bool" where
  "missing_context_render_error e = (case e of
     Bail fmt (key # _) \<Rightarrow> fmt = ''unknown interpolation variable {} in {}'' \<and> starts_with ''context.'' key
   | _ \<Rightarrow> False)"

definition SESSION_ID_SENTINEL :: string where
  "SESSION_ID_SENTINEL = ''__AW_GATEWAY_SESSION_ID__''"

text \<open>\<open>str::split\<close> by a text that is not empty: what was read so far, and how much of a separator is
  still to be skipped.\<close>

fun split_text :: "string \<Rightarrow> string \<Rightarrow> nat \<Rightarrow> string \<Rightarrow> string list" where
  "split_text sep acc skip [] = [rev acc]"
| "split_text sep acc (Suc k) (c # s) = split_text sep acc k s"
| "split_text sep acc 0 (c # s) =
     (if starts_with sep (c # s) then rev acc # split_text sep [] (length sep - 1) s
      else split_text sep (c # acc) 0 s)"

definition insert_ephemeral_apple_container_candidate ::
  "name_candidates \<Rightarrow> string \<Rightarrow> target_config \<Rightarrow> runtime_context \<Rightarrow> name_candidates res" where
  "insert_ephemeral_apple_container_candidate candidates name t ctx =
     (let vars = insert_template_vars ctx (bt_extend []
            [(''image_slug'', image_slug (tgt_image t)), (''session_id'', SESSION_ID_SENTINEL)]) in
      case render (unwrap_or DEFAULT_EPHEMERAL_NAME_PATTERN (tgt_ephemeral_name t)) vars of
        Inl e \<Rightarrow>
          if missing_context_render_error e then Inr candidates
          else Inl (Context (''render ephemeral target '' @ name @ '' container name pattern'') e)
      | Inr rendered \<Rightarrow> (case split_text SESSION_ID_SENTINEL [] 0 rendered of
          [exact] \<Rightarrow> Inr (insert_exact exact candidates)
        | [before, behind] \<Rightarrow> Inr (insert_pattern before behind candidates)
        | _ \<Rightarrow> Inl (Bail ''ephemeral target {} container name pattern references {session_id} more than once; Apple container status --all cannot safely inspect unlabeled list candidates''
            [name])))"

fun apple_candidates_loop ::
  "runtime_context \<Rightarrow> (string \<times> target_config) list \<Rightarrow> name_candidates \<Rightarrow> name_candidates res" where
  "apple_candidates_loop ctx [] candidates = Inr candidates"
| "apple_candidates_loop ctx ((name, t) # rest) candidates =
     and_then (case tgt_mode t of
         Fixed \<Rightarrow> (case container_name_with_context t None ctx of
             Inr exact \<Rightarrow> Inr (insert_exact exact candidates)
           | Inl e \<Rightarrow>
               if missing_context_render_error e then Inr candidates
               else Inl (Context (''render fixed target '' @ name @ '' container name'') e))
       | Ephemeral \<Rightarrow> insert_ephemeral_apple_container_candidate candidates name t ctx)
       (apple_candidates_loop ctx rest)"

definition apple_container_name_candidates :: "gateway_config \<Rightarrow> runtime_context \<Rightarrow> name_candidates res" where
  "apple_container_name_candidates cfg ctx =
     and_then (effective_targets cfg) (\<lambda>targets. apple_candidates_loop ctx targets candidates_empty)"

section \<open>Operations as data\<close>

datatype client_config_origin = LocalCli | SshDispatchOrigin

datatype gateway_operation =
    OpTargets
  | OpStatus "string option" "string option"
  | OpStatusAll
  | OpUp "string option" "string option"
  | OpRun "string option" "string option" "string option" "string list" execution_options
  | OpLaunches
  | OpLaunchShow string
  | OpLaunch string "string option" supplied_vars "string list" execution_options
  | OpStop "string option" "string option"
  | OpRemove "string option" "string option"
  | OpSetDefault string
  | OpShowDefault
  | OpResetDefault
  | OpClientConfig "string option" "string option" client_config_origin

text \<open>\<open>SshGatewayOperation::from_action\<close>: the operation and whether it renders as JSON.\<close>

fun ssh_operation_of :: "gateway_action \<Rightarrow> (gateway_operation \<times> bool) option op_res" where
  "ssh_operation_of (Up target) = Inr (Some (OpUp target None, False))"
| "ssh_operation_of (Run a) =
     Inr (Some (OpRun (ra_target a) (ra_session_id a) (ra_cwd a) (ra_command a) options_stream, False))"
| "ssh_operation_of (Launches json) = Inr (Some (OpLaunches, json))"
| "ssh_operation_of (LaunchShow name json) = Inr (Some (OpLaunchShow name, json))"
| "ssh_operation_of (LaunchRun name session_id vars args) =
     and_then (from_cli_pairs vars) (\<lambda>vars.
     and_then (launch_passthrough_args args) (\<lambda>args.
       Inr (Some (OpLaunch name session_id vars args options_stream, False))))"
| "ssh_operation_of (Status a) =
     Inr (Some (if sta_all a then OpStatusAll else OpStatus (sta_target a) None, False))"
| "ssh_operation_of (Targets json) = Inr (Some (OpTargets, json))"
| "ssh_operation_of (Stop a) = Inr (Some (OpStop (tsa_target a) (tsa_session_id a), False))"
| "ssh_operation_of (Remove a) = Inr (Some (OpRemove (tsa_target a) (tsa_session_id a), False))"
| "ssh_operation_of (SetDefault s) = Inr (Some (OpSetDefault s, False))"
| "ssh_operation_of ShowDefault = Inr (Some (OpShowDefault, False))"
| "ssh_operation_of ResetDefault = Inr (Some (OpResetDefault, False))"
| "ssh_operation_of (ClientConfig a) =
     Inr (Some (OpClientConfig (cca_target a) (cca_identity_file a) SshDispatchOrigin, False))"
| "ssh_operation_of (Connect _) = Inr None"
| "ssh_operation_of (AddKey _) = Inr None"
| "ssh_operation_of (AddHostKey _) = Inr None"
| "ssh_operation_of (AddContainerKey _) = Inr None"
| "ssh_operation_of (ClientBundle _) = Inr None"
| "ssh_operation_of Help = Inr None"

section \<open>Resolved variables have their types\<close>

definition plain_text :: "string \<Rightarrow> bool" where
  "plain_text v = (CHR 0x00 \<notin> set v \<and> CHR 0x0A \<notin> set v \<and> CHR 0x0D \<notin> set v)"

definition integer_text :: "string \<Rightarrow> bool" where
  "integer_text v = (let digits = (case v of CHR ''-'' # d \<Rightarrow> d | _ \<Rightarrow> v) in
     digits \<noteq> [] \<and> list_all is_ascii_digit digits)"

definition number_text :: "string \<Rightarrow> bool" where
  "number_text v \<longleftrightarrow> integer_text v \<or> (\<exists>f. fv_finite f \<and> v = canonical_number_string f)"

fun supplied_fits :: "canonical_value \<Rightarrow> bool" where
  "supplied_fits (CvNumber n) = number_text n"
| "supplied_fits _ = True"

definition value_of_type :: "launch_var_config \<Rightarrow> string \<Rightarrow> bool" where
  "value_of_type var v = (case lv_type var of
     VtString \<Rightarrow> plain_text v
   | VtEnum \<Rightarrow> plain_text v \<and> v \<in> set (unwrap_or [] (lv_values var))
   | VtBoolean \<Rightarrow> v = ''true'' \<or> v = ''false''
   | VtNumber \<Rightarrow> number_text v)"

lemma validate_launch_var_string_value_iff [simp]: "validate_launch_var_string_value v = Inr () \<longleftrightarrow> plain_text v"
  by (simp add: validate_launch_var_string_value_def plain_text_def)

lemma validate_launch_var_string_iff [simp]: "validate_launch_var_string name v = Inr () \<longleftrightarrow> plain_text v"
  by (simp add: validate_launch_var_string_def)

lemma digit_not_sign: "is_ascii_digit c \<Longrightarrow> c \<noteq> CHR ''-'' \<and> c \<noteq> CHR ''+''"
  by (auto simp: is_ascii_digit_def)

lemma integer_text_digits: "digits \<noteq> [] \<Longrightarrow> list_all is_ascii_digit digits \<Longrightarrow> integer_text digits"
  by (cases digits) (auto simp: integer_text_def Let_def dest: digit_not_sign split: char.splits bool.splits)

lemma integer_text_minus: "integer_text (CHR ''-'' # digits) \<longleftrightarrow> digits \<noteq> [] \<and> list_all is_ascii_digit digits"
  by (simp add: integer_text_def)

lemma integer_text_show: "integer_text (show_int i)"
  by (simp add: show_int_def integer_text_minus integer_text_digits show_nat_digits show_nat_not_Nil)

lemma parse_uint_text:
  assumes "parse_uint limit s \<noteq> None"
  obtains digits where "digits \<noteq> []" "list_all is_ascii_digit digits" "s = digits \<or> s = CHR ''+'' # digits"
proof (cases "\<exists>r. s = CHR ''+'' # r")
  case True
  then show ?thesis using assms that by (auto simp: parse_uint_def split: if_splits)
next
  case False
  then have "(case s of CHR ''+'' # r \<Rightarrow> r | _ \<Rightarrow> s) = s" by (auto split: list.splits char.splits bool.splits)
  then show ?thesis using assms that [of s] by (simp add: parse_uint_def Let_def split: if_splits)
qed

lemma strip_plus_signs:
  "list_all is_ascii_digit digits \<Longrightarrow> dropWhile (\<lambda>c. c = CHR ''+'') digits = digits"
  by (cases digits) (auto dest: digit_not_sign)

lemma integer_text_i64: "is_i64 raw \<Longrightarrow> integer_text (dropWhile (\<lambda>c. c = CHR ''+'') raw)"
proof (cases raw)
  case (Cons c s)
  assume i64: "is_i64 raw"
  show ?thesis
  proof (cases "c = CHR ''-''")
    case True
    with i64 Cons have "parse_uint (i64_limit + 1) s \<noteq> None" and "\<nexists>r. s = CHR ''+'' # r"
      by (auto simp: is_i64_def split: list.splits char.splits bool.splits if_splits)
    then have "s \<noteq> [] \<and> list_all is_ascii_digit s" by (elim parse_uint_text) auto
    with True Cons show ?thesis by (simp add: integer_text_minus)
  next
    case False
    with i64 Cons have "parse_uint i64_limit raw \<noteq> None"
      by (auto simp: is_i64_def split: char.splits bool.splits)
    then show ?thesis by (rule parse_uint_text) (auto simp: strip_plus_signs integer_text_digits)
  qed
qed (simp add: is_i64_def parse_uint_def)

lemma number_text_cli: "fv_finite f \<Longrightarrow> number_text (canonical_cli_number raw f)"
  by (auto simp: canonical_cli_number_def number_text_def integer_text_i64)

declare coerce_for_config.simps [simp del]

lemma coerce_for_config_typed:
  assumes "coerce_for_config parse_f64 v name var = Inr w" and "supplied_fits v"
  shows "value_of_type var (canonical_rendered w)"
  using assms
  by (cases v) (auto simp: coerce_for_config.simps value_of_type_def res_simps number_text_cli Let_def split: launch_var_type.splits if_splits option.splits)

text \<open>What is given on the command line or in JSON is well formed.\<close>

lemma supply_pairs_fit:
  "supply_pairs vars raw = Inr out \<Longrightarrow> list_all (\<lambda>a. supplied_fits (snd a)) vars \<Longrightarrow> list_all (\<lambda>a. supplied_fits (snd a)) out"
proof (induction raw arbitrary: vars)
  case (Cons pair raw)
  have "list_all (\<lambda>a. supplied_fits (snd a)) (bt_insert key (CvString v) vars)" for key v
    using Cons.prems(2) by (induction vars) auto
  with Cons show ?case by (auto simp: supply_value_def res_simps split: option.splits if_splits prod.splits)
qed simp

lemma from_json_number_fits: "from_json_number key integer float = Inr v \<Longrightarrow> supplied_fits v"
  by (auto simp: from_json_number_def number_text_def integer_text_show split: option.splits if_splits)

definition resolved_entry ::
  "(string \<Rightarrow> float_view option) \<Rightarrow> supplied_vars \<Rightarrow> string \<Rightarrow> launch_var_config \<Rightarrow> string option \<Rightarrow> bool" where
  "resolved_entry parse_f64 supplied name var rendered =
     (case (case bt_get supplied name of Some v \<Rightarrow> Some v | None \<Rightarrow> map_option from_config_default (lv_default var)) of
        Some v \<Rightarrow> \<exists>w. coerce_for_config parse_f64 v name var = Inr w \<and> rendered = Some (canonical_rendered w)
      | None \<Rightarrow> \<not> lv_required var \<and> rendered = None)"

lemma resolve_vars_loop_step:
  assumes "resolve_vars_loop parse_f64 supplied ((name, var) # vars) resolved = Inr out"
    and "bt_ok resolved" and "bt_get resolved name = None"
  obtains next_resolved where "resolve_vars_loop parse_f64 supplied vars next_resolved = Inr out"
    "bt_ok next_resolved" "\<And>n. n \<noteq> name \<Longrightarrow> bt_get next_resolved n = bt_get resolved n"
    "resolved_entry parse_f64 supplied name var (bt_get next_resolved name)"
proof (cases "bt_get supplied name = None \<and> lv_default var = None")
  case True
  then show ?thesis using assms that [of resolved] by (simp add: resolved_entry_def split: if_splits)
next
  case False
  then have "(case bt_get supplied name of Some v \<Rightarrow> Some v
      | None \<Rightarrow> map_option from_config_default (lv_default var)) \<noteq> None" by (auto split: option.splits)
  then obtain v where v: "(case bt_get supplied name of Some v \<Rightarrow> Some v
      | None \<Rightarrow> map_option from_config_default (lv_default var)) = Some v" by blast
  then obtain w where "coerce_for_config parse_f64 v name var = Inr w"
    "resolve_vars_loop parse_f64 supplied vars (bt_insert name (canonical_rendered w) resolved) = Inr out"
    using assms(1) by (auto simp: Let_def res_simps split: option.splits)
  then show ?thesis using that [of "bt_insert name (canonical_rendered w) resolved"] v assms(2)
    by (simp add: resolved_entry_def bt_ok_insert bt_get_insert)
qed

lemma resolve_vars_loop_Inr:
  assumes "resolve_vars_loop parse_f64 supplied vars resolved = Inr out" and "bt_ok resolved"
    and "distinct (map fst vars)" and "\<forall>n \<in> fst ` set vars. bt_get resolved n = None"
  shows "bt_ok out \<and> (\<forall>n. n \<notin> fst ` set vars \<longrightarrow> bt_get out n = bt_get resolved n)
    \<and> (\<forall>(name, var) \<in> set vars. resolved_entry parse_f64 supplied name var (bt_get out name))"
  using assms
proof (induction vars arbitrary: resolved)
  case (Cons entry vars)
  obtain name var where entry: "entry = (name, var)" by (cases entry)
  with Cons.prems(4) have "bt_get resolved name = None" by simp
  from resolve_vars_loop_step [OF Cons.prems(1) [unfolded entry] Cons.prems(2) this]
  obtain r where r: "resolve_vars_loop parse_f64 supplied vars r = Inr out" "bt_ok r"
    "\<And>n. n \<noteq> name \<Longrightarrow> bt_get r n = bt_get resolved n" "resolved_entry parse_f64 supplied name var (bt_get r name)"
    by blast
  have fresh: "name \<notin> fst ` set vars" "distinct (map fst vars)" using Cons.prems(3) entry by auto
  have "bt_get r n = None" if "n \<in> fst ` set vars" for n
  proof -
    have "n \<in> fst ` set (entry # vars)" using that by simp
    then have "bt_get resolved n = None" by (rule bspec [OF Cons.prems(4)])
    moreover have "n \<noteq> name" using that fresh(1) by blast
    ultimately show ?thesis using r(3) by simp
  qed
  then have "\<forall>n \<in> fst ` set vars. bt_get r n = None" by (rule ballI)
  note IH = Cons.IH [OF r(1,2) fresh(2) this]
  have out: "n \<notin> fst ` set vars \<longrightarrow> bt_get out n = bt_get r n" for n using IH by simp
  then have "bt_get out name = bt_get r name" using fresh(1) by simp
  moreover have "bt_get out n = bt_get resolved n" if "n \<notin> fst ` set (entry # vars)" for n
  proof -
    from that entry have "n \<noteq> name" "n \<notin> fst ` set vars" by auto
    with out [of n] r(3) [of n] show ?thesis by simp
  qed
  ultimately show ?case using IH r(4) entry by simp
qed simp

lemma resolve_launch_vars_Inr:
  assumes "resolve_launch_vars parse_f64 launch supplied = Inr resolved" and "bt_ok (lc_vars launch)"
  shows "bt_ok resolved" and "bt_get resolved n = Some v \<Longrightarrow> bt_get (lc_vars launch) n \<noteq> None"
    and "bt_get (lc_vars launch) n = Some var \<Longrightarrow> resolved_entry parse_f64 supplied n var (bt_get resolved n)"
proof -
  have "resolve_vars_loop parse_f64 supplied (lc_vars launch) [] = Inr resolved"
    using assms(1) by (auto simp: resolve_launch_vars_def res_simps)
  from resolve_vars_loop_Inr [OF this bt_ok_Nil bt_ok_distinct [OF assms(2)]]
  have facts: "bt_ok resolved" "\<And>n. n \<notin> fst ` set (lc_vars launch) \<Longrightarrow> bt_get resolved n = None"
    "\<And>n var. (n, var) \<in> set (lc_vars launch) \<Longrightarrow> resolved_entry parse_f64 supplied n var (bt_get resolved n)"
    by (auto simp: bt_get_def)
  show "bt_ok resolved" by (rule facts)
  show "bt_get resolved n = Some v \<Longrightarrow> bt_get (lc_vars launch) n \<noteq> None"
    using facts(2) [of n] by (auto simp: bt_get_def map_of_eq_None_iff)
  show "bt_get (lc_vars launch) n = Some var \<Longrightarrow> resolved_entry parse_f64 supplied n var (bt_get resolved n)"
    by (intro facts bt_get_in)
qed

lemma default_typed:
  assumes "launch_var_validate var launch_name n = Inr ()" and "lv_default var = Some d"
    and "coerce_for_config parse_f64 (from_config_default d) name var = Inr w"
  shows "value_of_type var (canonical_rendered w)"
proof (cases "lv_type var = VtNumber")
  case True
  with assms have "supplied_fits (from_config_default d)"
    by (cases d) (auto simp: launch_var_validate_def Let_def res_simps number_text_def integer_text_show)
  with assms(3) show ?thesis by (rule coerce_for_config_typed)
next
  case False
  with assms(3) show ?thesis
    by (cases d) (auto simp: coerce_for_config.simps value_of_type_def res_simps Let_def split: launch_var_type.splits if_splits)
qed

lemma launch_var_validated:
  "launch_validate l launch_name targets = Inr () \<Longrightarrow> bt_get (lc_vars l) n = Some var \<Longrightarrow>
    launch_var_validate var launch_name n = Inr ()"
  unfolding launch_validate_def validate_launch_shape_effective by (auto dest!: bt_get_in)



section \<open>An accepted launch can be prepared\<close>

lemma referenced_args: "referenced_keys ''{args}'' = Inr [''args'']"
  by (simp add: referenced_keys_def referenced_keys_from.simps)

lemma args_not_allowed: "''args'' \<notin> set (allowed_template_vars vars)"
  by (auto simp: allowed_template_vars_def LAUNCH_TEMPLATE_BUILTINS_def)

lemma args_not_strict: "validate_template_with_policy f ''{args}'' (allowed_template_vars vars) STRICT \<noteq> Inr ()"
  using strict_template_keys [of f "''{args}''" "allowed_template_vars vars"] args_not_allowed by (auto simp: referenced_args)

lemma accepted_templates:
  assumes "launch_validate l launch_name targets = Inr ()"
  shows "lc_cwd l = Some t \<Longrightarrow> t \<in> launch_templates l"
    and "t \<in> snd ` set (lc_env l) \<Longrightarrow> t \<in> launch_templates l"
    and "t \<in> set (lc_command l) \<Longrightarrow> t \<noteq> ''{args}'' \<Longrightarrow> t \<in> launch_templates l"
    and "s \<in> set (lc_steps l) \<Longrightarrow> t \<in> templates_of (lst_cwd s) (lst_env s) (lst_command s) \<Longrightarrow> t \<in> launch_templates l"
proof -
  let ?allowed = "allowed_template_vars (lc_vars l)"
  have "\<And>cwd. lc_cwd l = Some cwd \<Longrightarrow> validate_template_with_policy ''launch.cwd'' cwd ?allowed STRICT = Inr ()"
    and "validate_env_keyed_template_map_with_policy ''launch.env'' (lc_env l) ?allowed STRICT = Inr ()"
    using assms unfolding launch_validate_def validate_launch_shape_effective by (auto simp: given_Inr)
  then have "t \<noteq> ''{args}''" if "lc_cwd l = Some t \<or> t \<in> snd ` set (lc_env l)"
    using that args_not_strict env_templates_strict by metis
  then show "lc_cwd l = Some t \<Longrightarrow> t \<in> launch_templates l" "t \<in> snd ` set (lc_env l) \<Longrightarrow> t \<in> launch_templates l"
    by (auto simp: launch_templates_def templates_of_def)
qed (auto simp: launch_templates_def templates_of_def)

lemma bt_extend_keys: "set (bt_keys (bt_extend m later)) = set (bt_keys m) \<union> fst ` set later"
proof (induction later arbitrary: m)
  case (Cons e later)
  then show ?case using bt_insert_keys [of "fst e" "snd e" m] by (simp add: bt_extend_def bt_keys_def case_prod_beta)
qed (simp add: bt_extend_def)

lemma runtime_builtins:
  assumes "id_session_id (gw_identity r) \<noteq> None" and "k \<in> set LAUNCH_TEMPLATE_BUILTINS"
    and "k \<noteq> ''container_pid'' \<or> container_pid \<noteq> None"
  shows "k \<in> set (bt_keys (runtime_vars h r container_pid))"
proof -
  let ?ks = "[''user'', ''uid'', ''gid'', ''home'', ''container_user'', ''container_home'', ''workspace'', ''state'',
    ''state_dir'', ''target'', ''image'', ''image_slug'', ''container_name'', ''container_state_dir'',
    ''container_state_dir_in_container'', ''session_id'']"
  have "list_all (\<lambda>k. k = ''container_pid'' \<or> k \<in> set ?ks) LAUNCH_TEMPLATE_BUILTINS" by code_simp
  with assms(2) have "k = ''container_pid'' \<or> k \<in> set ?ks" unfolding list_all_iff by (rule bspec [rotated])
  moreover have "set ?ks \<subseteq> set (bt_keys (runtime_vars h r container_pid))"
    using assms(1) by (cases "id_session_id (gw_identity r)")
      (simp_all add: runtime_vars_def Let_def bt_extend_keys insert_template_vars_keys)
  moreover have "''container_pid'' \<in> set (bt_keys (runtime_vars h r container_pid))" if "container_pid \<noteq> None"
    using that by (cases container_pid) (simp_all add: runtime_vars_def Let_def bt_extend_keys)
  ultimately show ?thesis using assms(3) by blast
qed

lemma launch_template_vars_keys:
  "set (bt_keys (launch_template_vars h r resolved container_pid))
    = set (bt_keys (runtime_vars h r container_pid)) \<union> (\<lambda>n. ''var.'' @ n) ` set (bt_keys resolved)"
  unfolding launch_template_vars_def bt_extend_keys by (simp add: bt_keys_def image_image case_prod_beta)

lemma resolved_names:
  assumes "resolve_launch_vars parse_f64 l supplied = Inr resolved" and "bt_ok (lc_vars l)"
    and "bt_get (lc_vars l) n = Some v" "lv_required v \<or> lv_default v \<noteq> None"
  shows "n \<in> set (bt_keys resolved)"
proof -
  have "bt_get resolved n \<noteq> None"
    using resolve_launch_vars_Inr(3) [OF assms(1-3)] assms(4) by (auto simp: resolved_entry_def split: option.splits)
  then show ?thesis by (simp add: bt_get_def bt_keys_def map_of_eq_None_iff)
qed

lemma supported_templates:
  assumes "ensure_launch_templates_supported r l container_pid = Inr ()" and "t \<in> launch_templates l"
  shows "ensure_runtime_template_value_supported r container_pid t = Inr ()"
  using assms by (auto simp: ensure_launch_templates_supported_def ensure_runtime_template_values_supported_def
      launch_templates_def templates_of_def given_Inr Let_def)

lemma accepted_template_renders:
  assumes "launch_validate l launch_name targets = Inr ()" and "bt_ok (lc_vars l)"
    and "resolve_launch_vars parse_f64 l supplied = Inr resolved"
    and "id_session_id (gw_identity r) \<noteq> None"
    and "container_pid \<noteq> None \<or> crt_kind (gw_runtime r) = AppleContainer"
    and "ensure_launch_templates_supported r l container_pid = Inr ()"
    and "t \<in> launch_templates l"
  shows "is_ok (render t (launch_template_vars h r resolved container_pid))"
proof -
  obtain ks where ks: "referenced_keys t = Inr ks"
    "\<And>k. k \<in> set ks \<Longrightarrow> k \<in> set LAUNCH_TEMPLATE_BUILTINS
       \<or> (\<exists>n v. k = ''var.'' @ n \<and> bt_get (lc_vars l) n = Some v \<and> (lv_required v \<or> lv_default v \<noteq> None))"
    using accepted_template_keys [OF assms(1,7)] by blast
  have pid: "container_pid \<noteq> None" if "''container_pid'' \<in> set ks"
    using supported_templates [OF assms(6,7)] assms(5) that ks(1)
    by (auto simp: ensure_runtime_template_value_supported_def and_then_Inr bail_if_Inr split: if_splits)
  have "k \<in> set (bt_keys (launch_template_vars h r resolved container_pid))" if "k \<in> set ks" for k
  proof -
    from ks(2) [OF that] consider "k \<in> set LAUNCH_TEMPLATE_BUILTINS"
      | n v where "k = ''var.'' @ n" "bt_get (lc_vars l) n = Some v" "lv_required v \<or> lv_default v \<noteq> None" by blast
    then show ?thesis
    proof cases
      case 1
      with runtime_builtins [OF assms(4)] pid that show ?thesis unfolding launch_template_vars_keys by blast
    next
      case (2 n v)
      with resolved_names [OF assms(3,2)] show ?thesis unfolding launch_template_vars_keys by blast
    qed
  qed
  with ks(1) show ?thesis unfolding render_is_ok_iff by blast
qed

lemma map_ok_is_ok [simp]: "is_ok (map_ok f m) = is_ok m"
  by (cases m) simp_all

lemma render_template_map_ok: "is_ok (render_template_map m vars) \<longleftrightarrow> (\<forall>t \<in> snd ` set m. is_ok (render t vars))"
  by (auto simp: render_template_map_def collect_ok_is_ok)

lemma render_launch_cwd_ok: "is_ok (render_launch_cwd cwd vars home) \<longleftrightarrow> (\<forall>t. cwd = Some t \<longrightarrow> is_ok (render t vars))"
  by (cases cwd) (simp_all add: render_launch_cwd_def render_opt_def)

lemma render_launch_command_ok:
  "is_ok (render_launch_command command vars args) \<longleftrightarrow> (\<forall>t \<in> set command. t = ''{args}'' \<or> is_ok (render t vars))"
  by (auto simp: render_launch_command_def collect_ok_is_ok)


section \<open>The arguments of a launch\<close>

lemma collect_ok_app:
  "collect_ok f (xs @ ys) = and_then (collect_ok f xs) (\<lambda>us. map_ok (\<lambda>vs. us @ vs) (collect_ok f ys))"
proof (induction xs)
  case Nil
  then show ?case by (cases "collect_ok f ys") simp_all
next
  case (Cons x xs)
  then show ?case by (cases "f x"; cases "collect_ok f xs"; cases "collect_ok f ys") simp_all
qed

lemma collect_ok_append: "collect_ok f (xs @ ys) = Inr zs \<longleftrightarrow>
    (\<exists>us vs. collect_ok f xs = Inr us \<and> collect_ok f ys = Inr vs \<and> zs = us @ vs)"
  by (auto simp: collect_ok_app and_then_Inr map_ok_Inr)

lemma render_elements:
  assumes "''{args}'' \<notin> set command"
  shows "render_launch_command command vars args = collect_ok (\<lambda>arg. render arg vars) command"
  using assms by (induction command) (auto simp: render_launch_command_def split: sum.splits)

lemma render_launch_command_append:
  "render_launch_command (xs @ ys) vars args = Inr zs \<longleftrightarrow>
    (\<exists>us vs. render_launch_command xs vars args = Inr us \<and> render_launch_command ys vars args = Inr vs \<and> zs = us @ vs)"
  by (auto simp: render_launch_command_def collect_ok_append map_ok_Inr)

lemma sentinel_splits:
  assumes "count_list command ''{args}'' = 1" and "hd command \<noteq> ''{args}''"
  obtains before behind where "command = before @ [''{args}''] @ behind" "before \<noteq> []"
    "''{args}'' \<notin> set before" "''{args}'' \<notin> set behind"
proof -
  have "''{args}'' \<in> set command" using assms(1) count_notin by force
  then obtain before behind where split: "command = before @ ''{args}'' # behind" "''{args}'' \<notin> set before"
    by (meson split_list_first)
  with assms(1) have "''{args}'' \<notin> set behind" by (simp add: count_list_0_iff)
  moreover have "before \<noteq> []" using split(1) assms(2) by auto
  ultimately show ?thesis using split that by simp
qed

text \<open>C12. The command of an accepted launch that takes arguments is its elements, each rendered on its own,
  with the given arguments in place of the one element \<open>{args}\<close>: after the program, verbatim and in order,
  so no argument is rendered, split or read as the program.\<close>

theorem launch_arguments_are_verbatim:
  assumes "launch_validate l launch_name targets = Inr ()" and "lc_allow_args l"
    and "render_launch_command (lc_command l) vars args = Inr command"
  shows "\<exists>before behind program rest.
    lc_command l = before @ [''{args}''] @ behind \<and> before \<noteq> []
    \<and> collect_ok (\<lambda>t. render t vars) before = Inr program \<and> collect_ok (\<lambda>t. render t vars) behind = Inr rest
    \<and> command = program @ args @ rest \<and> length program = length before"
proof -
  have "count_list (lc_command l) ''{args}'' = 1" "hd (lc_command l) \<noteq> ''{args}''"
    using accepted_launch_args_sentinel [OF assms(1)] assms(2) by simp_all
  then obtain before behind where split: "lc_command l = before @ [''{args}''] @ behind" "before \<noteq> []"
    "''{args}'' \<notin> set before" "''{args}'' \<notin> set behind"
    by (rule sentinel_splits)
  have "render_launch_command [''{args}''] vars args = Inr args" by (simp add: render_launch_command_def)
  with assms(3) obtain program rest where "collect_ok (\<lambda>t. render t vars) before = Inr program"
    "collect_ok (\<lambda>t. render t vars) behind = Inr rest" "command = program @ args @ rest"
    unfolding split(1) render_launch_command_append by (auto simp: render_elements split(3,4))
  with split show ?thesis using collect_ok_length by blast
qed

theorem launch_arguments_are_verbatim_witness:
  "render_launch_command (lc_command demo_launch) [(''var.x'', ''true'')] [''{var.x}'', ''a b'']
    = Inr [''run'', ''true'', ''{var.x}'', ''a b'']
    \<and> (\<exists>before behind program rest. lc_command demo_launch = before @ [''{args}''] @ behind
      \<and> [''run'', ''true'', ''{var.x}'', ''a b''] = program @ [''{var.x}'', ''a b''] @ rest)"
proof -
  have run: "render_launch_command (lc_command demo_launch) [(''var.x'', ''true'')] [''{var.x}'', ''a b'']
    = Inr [''run'', ''true'', ''{var.x}'', ''a b'']"
    by (simp add: demo_launch_def) code_simp
  have "lc_allow_args demo_launch" by (simp add: demo_launch_def)
  from launch_arguments_are_verbatim [OF demo_launch_accepted this run] run show ?thesis by blast
qed


end
