(* ===== verification/Execution.thy ===== *)
theory Execution
  imports Operations Launching
begin

text \<open>
  Running commands in the container of a target: \<open>gateway/execution.rs\<close>, the launch steps and the
  execution of \<open>gateway.rs\<close>, and the operations run and launch of \<open>gateway/ops.rs\<close>.

  A signal to the gateway cancels the operation that runs; a second one, which ends the process, is
  not modelled. A detached operation is the identifier that is answered and the operation that runs in
  the background.
\<close>

section \<open>Launch steps\<close>

definition exec_limited :: "'s world \<Rightarrow> container_runtime \<Rightarrow> exec_spec \<Rightarrow> nat \<Rightarrow> ('s, int res) io" where
  "exec_limited w rt spec limit = try_io (async_command w rt) (\<lambda>_.
     map_io (exec_with_timeout rt spec (co_duration_text (w_codecs w) limit))
       (effect (\<lambda>_. Executed spec False) (w_execute_limited w spec limit)))"

definition run_host_launch_step :: "'s world \<Rightarrow> runtime \<Rightarrow> vars \<Rightarrow> launch_step \<Rightarrow> ('s, unit res) io" where
  "run_host_launch_step w r vars step =
     try_io (pure (render_argv (lst_command step) vars)) (\<lambda>command.
     try_io (pure (render_launch_cwd (lst_cwd step) vars (uc_home (id_user (gw_identity r))))) (\<lambda>cwd.
     try_io (pure (render_template_map (lst_env step) vars)) (\<lambda>env.
     try_io (pure (host_hook_timeout (lst_timeout step))) (\<lambda>limit.
     run_argv_with_options w command limit cwd env))))"

definition run_container_launch_step ::
  "'s world \<Rightarrow> runtime \<Rightarrow> env_map \<Rightarrow> env_map \<Rightarrow> vars \<Rightarrow> launch_step \<Rightarrow> ('s, unit res) io" where
  "run_container_launch_step w r launch_env session vars step =
     try_io (pure (launch_container_step_env session launch_env (lst_env step) vars)) (\<lambda>env.
     try_io (pure (render_launch_cwd (lst_cwd step) vars (id_container_home (gw_identity r)))) (\<lambda>cwd.
     try_io (pure (render_argv (lst_command step) vars)) (\<lambda>command.
     try_io (pure (host_hook_timeout (lst_timeout step))) (\<lambda>limit.
     try_io (exec_limited w (gw_runtime r)
       \<lparr>es_stdin_tty = False, es_stdout_tty = False, es_user = exec_identity r, es_cwd = cwd, es_env = env,
        es_container_name = id_container_name (gw_identity r), es_command = command\<rparr> limit) (\<lambda>code.
     pure (bail_if (code \<noteq> 0) (Bail ''container launch step exited with status {}'' [show_int code])))))))"

definition run_launch_steps ::
  "'s world \<Rightarrow> runtime \<Rightarrow> launch_config \<Rightarrow> vars \<Rightarrow> env_map \<Rightarrow> ('s, unit res) io" where
  "run_launch_steps w r launch vars launch_env = bind_io (observe (w_host w)) (\<lambda>h.
     try_io (pure (session_env h r)) (\<lambda>session.
     each_io (\<lambda>step. map_io (\<lambda>result.
         if lst_required step then with_context (''launch step '' @ lst_name step) result else Inr ())
       (case lst_location step of
          OnHost \<Rightarrow> run_host_launch_step w r vars step
        | InContainer \<Rightarrow> run_container_launch_step w r launch_env session vars step)) (lc_steps launch)))"

section \<open>The command of an operation\<close>

datatype operation_body =
    BodyRun "string option" "string list"
  | BodyLaunch launch_config env_map "string list"

record prepared_command =
  pc_ready :: ready_status
  pc_spec :: exec_spec

definition prepare_body ::
  "'s world \<Rightarrow> runtime \<Rightarrow> operation_body \<Rightarrow> ready_status \<Rightarrow> operation_mode \<Rightarrow> ('s, prepared_command res) io" where
  "prepare_body w r body ready mode = (case body of
     BodyRun cwd command \<Rightarrow> bind_io (observe (w_host w)) (\<lambda>h.
       try_io (pure (session_env h r)) (\<lambda>env.
       bind_io (observe (w_terminal w)) (\<lambda>terminal. pure (Inr
         \<lparr>pc_ready = ready, pc_spec = final_container_exec_spec r terminal command
            (map_option (expand_home (id_container_home (gw_identity r))) cwd) env mode\<rparr>))))
   | BodyLaunch launch resolved args \<Rightarrow> bind_io (observe (w_host w)) (\<lambda>h.
       let container_pid = pid_text (ry_container_pid ready);
           vars = launch_template_vars h r resolved container_pid in
       try_io (pure (ensure_launch_templates_supported r launch container_pid)) (\<lambda>_.
       try_io (pure (render_template_map (lc_env launch) vars)) (\<lambda>launch_env.
       try_io (run_launch_steps w r launch vars launch_env) (\<lambda>_.
       bind_io (observe (w_host w)) (\<lambda>h.
       try_io (pure (map_ok (\<lambda>session. launch_final_env session launch_env) (session_env h r))) (\<lambda>env.
       try_io (pure (render_launch_cwd (lc_cwd launch) vars (id_container_home (gw_identity r)))) (\<lambda>cwd.
       try_io (pure (render_launch_command (lc_command launch) vars args)) (\<lambda>command.
       bind_io (observe (w_terminal w)) (\<lambda>terminal. pure (Inr
         \<lparr>pc_ready = ready, pc_spec = final_container_exec_spec r terminal command cwd env mode\<rparr>)))))))))))"

text \<open>What a command in the container answers, by the mode of the operation.\<close>

definition exec_status :: "'s world \<Rightarrow> runtime \<Rightarrow> exec_spec \<Rightarrow> bool \<Rightarrow> ('s, int option res) io" where
  "exec_status w r spec cancelable = try_io (async_command w (gw_runtime r)) (\<lambda>_.
     effect (\<lambda>_. Executed spec cancelable) (w_execute w spec cancelable))"

definition exec_captured :: "'s world \<Rightarrow> runtime \<Rightarrow> exec_spec \<Rightarrow> bool \<Rightarrow> ('s, exec_output option res) io" where
  "exec_captured w r spec cancelable = try_io (async_command w (gw_runtime r)) (\<lambda>_.
     effect (\<lambda>_. Executed spec cancelable) (w_execute_captured w spec cancelable))"

definition captured_outcome :: "execution_options \<Rightarrow> exec_output \<Rightarrow> execution_outcome" where
  "captured_outcome options out = Captured (eo_exit_code out)
     (if xo_stdout options then Some \<lparr>cst_bytes = eo_stdout out, cst_truncated = eo_stdout_truncated out\<rparr> else None)
     (if xo_stderr options then Some \<lparr>cst_bytes = eo_stderr out, cst_truncated = eo_stderr_truncated out\<rparr> else None)"

definition exec_container_command ::
  "'s world \<Rightarrow> runtime \<Rightarrow> exec_spec \<Rightarrow> execution_options \<Rightarrow> bool \<Rightarrow> ('s, execution_outcome res) io" where
  "exec_container_command w r spec options cancelable = (case xo_mode options of
     ModeStream \<Rightarrow> map_io (map_ok (\<lambda>code. case code of
         Some c \<Rightarrow> Streamed c | None \<Rightarrow> Canceled None)) (exec_status w r spec cancelable)
   | ModeWait \<Rightarrow> map_io (map_ok (\<lambda>output. case output of
         Some out \<Rightarrow> captured_outcome options out | None \<Rightarrow> Canceled None)) (exec_captured w r spec cancelable)
   | ModeDetach \<Rightarrow> map_io (map_ok (\<lambda>code. Streamed (unwrap_or 0 code))) (exec_status w r spec False))"

section \<open>Sessions of operations\<close>

datatype session_spec = RunCommandSession | LaunchSession

fun session_kind :: "session_spec \<Rightarrow> string" where
  "session_kind RunCommandSession = ''run-command''"
| "session_kind LaunchSession = ''launch''"

text \<open>The guard of an operation: its marker, and whether the agent holds a session for it.\<close>

record operation_guard =
  og_session :: "string option"
  og_agent_session :: bool

definition no_guard :: operation_guard where
  "no_guard = \<lparr>og_session = None, og_agent_session = False\<rparr>"

definition session_outcome_of_execution :: "execution_outcome res \<Rightarrow> session_outcome" where
  "session_outcome_of_execution result = (case result of
     Inl _ \<Rightarrow> OutcomeFailure
   | Inr outcome \<Rightarrow>
       if is_canceled outcome then OutcomeCanceled
       else (case outcome_exit_code outcome of
         Some code \<Rightarrow> if code = 0 then OutcomeSuccess else OutcomeFailure | None \<Rightarrow> OutcomeSuccess))"

text \<open>An answer comes with the guard as it is then.\<close>

definition keep_guard :: "operation_guard \<Rightarrow> ('s, 'a) io \<Rightarrow> ('s, operation_guard \<times> 'a) io" where
  "keep_guard guard m = map_io (Pair guard) m"

definition prepare_operation_session_body ::
  "'s world \<Rightarrow> runtime \<Rightarrow> session_spec \<Rightarrow> operation_body \<Rightarrow> operation_mode
     \<Rightarrow> ('s, operation_guard \<times> prepared_command res) io" where
  "prepare_operation_session_body w r spec body mode =
     bind_io (begin_ready_session w r (session_kind spec) (spec = LaunchSession)) (\<lambda>began. case began of
       Inl e \<Rightarrow> pure (no_guard, Inl e)
     | Inr (marker, Inl e) \<Rightarrow> pure (no_guard\<lparr>og_session := Some marker\<rparr>, Inl e)
     | Inr (marker, Inr ready) \<Rightarrow>
         bind_io (agent_session_hold w r (session_kind spec)) (\<lambda>held. case held of
           Inl e \<Rightarrow> pure (no_guard\<lparr>og_session := Some marker\<rparr>, Inl e)
         | Inr hold \<Rightarrow> keep_guard \<lparr>og_session = Some marker, og_agent_session = hold\<rparr>
             (prepare_body w r body ready mode)))"

definition execute_operation_session_body ::
  "'s world \<Rightarrow> runtime \<Rightarrow> session_spec \<Rightarrow> operation_body \<Rightarrow> execution_options \<Rightarrow> bool
     \<Rightarrow> ('s, operation_guard \<times> execution_outcome res) io" where
  "execute_operation_session_body w r spec body options cancelable =
     bind_io (observe (w_cancelled w)) (\<lambda>cancelled.
     if cancelable \<and> cancelled then pure (no_guard, Inr (Canceled None))
     else bind_io (prepare_operation_session_body w r spec body (xo_mode options)) (\<lambda>(guard, prepared).
       keep_guard guard (try_io (pure prepared) (\<lambda>prepared.
         bind_io (observe (w_cancelled w)) (\<lambda>cancelled.
         if cancelable \<and> cancelled then pure (Inr (Canceled None))
         else exec_container_command w r (pc_spec prepared) options cancelable)))))"

definition finish_operation_session ::
  "'s world \<Rightarrow> runtime \<Rightarrow> operation_guard \<Rightarrow> 'a res \<Rightarrow> session_outcome \<Rightarrow> ('s, 'a res) io" where
  "finish_operation_session w r guard result outcome = (case og_session guard of
     None \<Rightarrow> pure result
   | Some marker \<Rightarrow> finish_post_session w r marker result outcome)"

text \<open>In the foreground a signal cancels the operation, which then answers with the code of the signal.\<close>

definition run_foreground ::
  "'s world \<Rightarrow> runtime \<Rightarrow> session_spec \<Rightarrow> operation_body \<Rightarrow> execution_options
     \<Rightarrow> ('s, operation_guard \<times> execution_outcome res \<times> session_outcome) io" where
  "run_foreground w r spec body options =
     bind_io (execute_operation_session_body w r spec body options True) (\<lambda>(guard, result).
     bind_io (observe (w_signal w)) (\<lambda>signal. pure (case signal of
       None \<Rightarrow> (guard, result, session_outcome_of_execution result)
     | Some number \<Rightarrow> (guard, map_ok (\<lambda>_. Streamed (128 + number)) result, OutcomeCanceled))))"

definition run_operation_session ::
  "'s world \<Rightarrow> runtime \<Rightarrow> session_spec \<Rightarrow> operation_body \<Rightarrow> execution_options \<Rightarrow> ('s, execution_outcome res) io" where
  "run_operation_session w r spec body options =
     bind_io (if xo_mode options = ModeStream then run_foreground w r spec body options
       else map_io (\<lambda>(guard, result). (guard, result, session_outcome_of_execution result))
         (execute_operation_session_body w r spec body options False)) (\<lambda>(guard, result, outcome).
     finish_operation_session w r guard result outcome)"

definition run_operation_session_cancelable ::
  "'s world \<Rightarrow> runtime \<Rightarrow> session_spec \<Rightarrow> operation_body \<Rightarrow> execution_options \<Rightarrow> ('s, execution_outcome res) io" where
  "run_operation_session_cancelable w r spec body options =
     bind_io (execute_operation_session_body w r spec body options True) (\<lambda>(guard, result).
     finish_operation_session w r guard result (session_outcome_of_execution result))"

text \<open>A detached operation answers its identifier; what runs in the background is a session that
  discards its output.\<close>

definition detached_session :: "'s world \<Rightarrow> runtime \<Rightarrow> session_spec \<Rightarrow> operation_body \<Rightarrow> ('s, execution_outcome res) io" where
  "detached_session w r spec body = run_operation_session w r spec body detach_discard_options"

definition run_operation ::
  "'s world \<Rightarrow> runtime \<Rightarrow> session_spec \<Rightarrow> operation_body \<Rightarrow> execution_options \<Rightarrow> bool \<Rightarrow> ('s, execution_outcome res) io" where
  "run_operation w r spec body options cancelable =
     (if xo_mode options = ModeDetach
      then observe (\<lambda>s. map_ok Detached (generate_session_id_value (w_host w s)))
      else if cancelable then run_operation_session_cancelable w r spec body options
      else run_operation_session w r spec body options)"

definition prepare_execution ::
  "'s world \<Rightarrow> runtime \<Rightarrow> session_spec \<Rightarrow> operation_body \<Rightarrow> operation_mode
     \<Rightarrow> ('s, (operation_guard \<times> prepared_command) res) io" where
  "prepare_execution w r spec body mode =
     bind_io (prepare_operation_session_body w r spec body mode) (\<lambda>(guard, prepared). case prepared of
       Inr p \<Rightarrow> pure (Inr (guard, p))
     | Inl e \<Rightarrow> finish_operation_session w r guard (Inl e) OutcomeFailure)"

section \<open>The operations run and launch\<close>

definition operation_run ::
  "'s world \<Rightarrow> gateway_config res \<Rightarrow> string option \<Rightarrow> string option \<Rightarrow> string option \<Rightarrow> string list
     \<Rightarrow> execution_options \<Rightarrow> bool \<Rightarrow> runtime_context \<Rightarrow> ('s, execution_outcome op_res) io" where
  "operation_run w loaded target session_id cwd command options cancelable ctx =
     with_runtime w loaded target session_id True None ctx
       (\<lambda>r. run_operation w r RunCommandSession (BodyRun cwd command) options cancelable)"

definition resolve_launch ::
  "(string \<Rightarrow> float_view option) \<Rightarrow> gateway_config \<Rightarrow> string \<Rightarrow> supplied_vars \<Rightarrow> string list
     \<Rightarrow> (launch_config \<times> env_map) op_res" where
  "resolve_launch parse_f64 cfg name supplied args =
     and_then (lookup_launch cfg name) (\<lambda>launch.
     and_then (resolve_launch_vars parse_f64 launch supplied) (\<lambda>resolved.
     and_then (validate_launch_passthrough_args name launch args) (\<lambda>_. Inr (launch, resolved))))"

definition launch_execute_with_config ::
  "(string \<Rightarrow> float_view option) \<Rightarrow> 's world \<Rightarrow> gateway_config \<Rightarrow> string \<Rightarrow> string option \<Rightarrow> supplied_vars \<Rightarrow> string list
     \<Rightarrow> execution_options \<Rightarrow> bool \<Rightarrow> runtime_context \<Rightarrow> ('s, execution_outcome op_res) io" where
  "launch_execute_with_config parse_f64 w cfg name session_id supplied args options cancelable ctx =
     try_io (pure (resolve_launch parse_f64 cfg name supplied args)) (\<lambda>(launch, resolved).
     with_runtime w (Inr cfg) (Some (lc_target launch)) session_id True (Some name) ctx
       (\<lambda>r. run_operation w r LaunchSession (BodyLaunch launch resolved args) options cancelable))"

definition prepare_run_execution_with_config ::
  "'s world \<Rightarrow> gateway_config \<Rightarrow> string option \<Rightarrow> string option \<Rightarrow> string option \<Rightarrow> string list \<Rightarrow> runtime_context
     \<Rightarrow> ('s, (operation_guard \<times> prepared_command) op_res) io" where
  "prepare_run_execution_with_config w cfg target session_id cwd command ctx =
     with_runtime w (Inr cfg) target session_id True None ctx
       (\<lambda>r. prepare_execution w r RunCommandSession (BodyRun cwd command) ModeStream)"

definition prepare_launch_execution_with_config ::
  "(string \<Rightarrow> float_view option) \<Rightarrow> 's world \<Rightarrow> gateway_config \<Rightarrow> string \<Rightarrow> string option \<Rightarrow> supplied_vars \<Rightarrow> string list
     \<Rightarrow> runtime_context \<Rightarrow> ('s, (operation_guard \<times> prepared_command) op_res) io" where
  "prepare_launch_execution_with_config parse_f64 w cfg name session_id supplied args ctx =
     try_io (pure (resolve_launch parse_f64 cfg name supplied args)) (\<lambda>(launch, resolved).
     with_runtime w (Inr cfg) (Some (lc_target launch)) session_id True (Some name) ctx
       (\<lambda>r. prepare_execution w r LaunchSession (BodyLaunch launch resolved args) ModeStream))"

section \<open>Sessions end with their cleanup\<close>

lemma pure_io [simp]: "pure a st = (a, st)"
  by (simp add: pure_def)

lemma execute_session_ready:
  assumes "begin_ready_session w r (session_kind spec) (spec = LaunchSession) st = (Inr (marker, ready), st')"
    and "\<not> w_cancelled w (st_env st)"
  shows "\<exists>guard result st''. execute_operation_session_body w r spec body options cancelable st = ((guard, result), st'')
    \<and> og_session guard = Some marker \<and> (case ready of Inl e \<Rightarrow> result = Inl e \<and> st'' = st' | Inr _ \<Rightarrow> True)"
  using assms
  by (auto simp: execute_operation_session_body_def prepare_operation_session_body_def bind_io_def try_io_def map_io_def
      keep_guard_def observe_def no_guard_def case_prod_beta split: sum.splits if_splits prod.splits)

lemma execute_session_unbegun:
  assumes "begin_ready_session w r (session_kind spec) (spec = LaunchSession) st = (Inl e, st')"
    and "\<not> w_cancelled w (st_env st)"
  shows "execute_operation_session_body w r spec body options cancelable st = ((no_guard, Inl e), st')"
  using assms
  by (simp add: execute_operation_session_body_def prepare_operation_session_body_def bind_io_def try_io_def map_io_def
      keep_guard_def observe_def)

lemma finish_answers: "fst (finish_post_session w r marker result outcome st) = result"
  by (simp add: finish_post_session_def bind_io_def case_prod_beta)

text \<open>A session whose target does not become ready runs nothing: its error is the answer, after the marker is
  removed and the session cleaned up as one that did not succeed. One that cannot begin leaves at once, and every
  session that began ends with the cleanup of its marker, however its command ends.\<close>

theorem unready_target_runs_nothing:
  "w_cancelled w (st_env st)
    \<or> (case begin_ready_session w r (session_kind spec) (spec = LaunchSession) st of
        (Inl e, st') \<Rightarrow> run_operation_session w r spec body options st = (Inl e, st')
      | (Inr (marker, Inl e), st') \<Rightarrow> \<exists>outcome. outcome \<noteq> OutcomeSuccess
          \<and> run_operation_session w r spec body options st = finish_post_session w r marker (Inl e) outcome st'
          \<and> fst (run_operation_session w r spec body options st) = Inl e
      | (Inr (marker, Inr ready), st') \<Rightarrow> \<exists>result outcome st''.
          run_operation_session w r spec body options st = finish_post_session w r marker result outcome st'')"
proof (cases "w_cancelled w (st_env st)")
  case False
  obtain began st' where run: "begin_ready_session w r (session_kind spec) (spec = LaunchSession) st = (began, st')"
    by (cases "begin_ready_session w r (session_kind spec) (spec = LaunchSession) st")
  show ?thesis
  proof (cases began)
    case (Inl e)
    note unbegun = execute_session_unbegun [OF run [unfolded Inl] False]
    show ?thesis
      by (auto simp: run Inl run_operation_session_def run_foreground_def bind_io_def map_io_def unbegun observe_def
          finish_operation_session_def no_guard_def split: option.split)
  next
    case (Inr pair)
    obtain marker ready where pair: "pair = (marker, ready)" by (cases pair)
    obtain guard result st'' where body:
      "execute_operation_session_body w r spec body options (xo_mode options = ModeStream) st = ((guard, result), st'')"
      "og_session guard = Some marker" "case ready of Inl e \<Rightarrow> result = Inl e \<and> st'' = st' | Inr _ \<Rightarrow> True"
      using execute_session_ready [OF run [unfolded Inr pair] False] by blast
    have "\<exists>result' outcome. run_operation_session w r spec body options st = finish_post_session w r marker result' outcome st''
        \<and> (\<forall>e. result = Inl e \<longrightarrow> result' = Inl e \<and> outcome \<noteq> OutcomeSuccess)"
    proof -
      let ?ended = "\<lambda>result' outcome. run_operation_session w r spec body options st
        = finish_post_session w r marker result' outcome st''"
      have "?ended result (session_outcome_of_execution result)
          \<or> (\<exists>number. ?ended (map_ok (\<lambda>_. Streamed (128 + number)) result) OutcomeCanceled)"
        using body(1,2)
        by (auto simp: run_operation_session_def run_foreground_def bind_io_def map_io_def observe_def
            finish_operation_session_def split: option.splits)
      moreover have "session_outcome_of_execution (Inl e :: execution_outcome res) \<noteq> OutcomeSuccess" for e
        by (simp add: session_outcome_of_execution_def)
      ultimately show ?thesis by (metis map_ok.simps(1) session_outcome.distinct(1))
    qed
    with body(3) run Inr pair finish_answers show ?thesis by (cases ready) (fastforce, fastforce)
  qed
qed simp

section \<open>Sessions spare foreign containers\<close>

lemma quiet_execs [quiet]:
  "quiet (exec_limited w rt spec limit)" "quiet (exec_status w r spec cancelable)" "quiet (exec_captured w r spec cancelable)"
  unfolding exec_limited_def exec_status_def exec_captured_def
  by (auto simp: harmless_def intro!: quiet quiet_effect)

lemma quiet_launch_steps [quiet]: "quiet (run_launch_steps w r launch vars launch_env)"
  unfolding run_launch_steps_def run_host_launch_step_def run_container_launch_step_def
  by (auto intro!: quiet split: launch_step_location.split)

lemma quiet_prepare_body [quiet]: "quiet (prepare_body w r body ready mode)"
  unfolding prepare_body_def Let_def by (auto intro!: quiet split: operation_body.split)

lemma quiet_exec_container_command [quiet]: "quiet (exec_container_command w r spec options cancelable)"
  unfolding exec_container_command_def by (auto intro!: quiet split: operation_mode.split)

lemma well_guarded_prepare [well_guarded]: "well_guarded r (prepare_operation_session_body w r spec body mode)"
  unfolding prepare_operation_session_body_def keep_guard_def
  by (auto intro!: well_guarded split: sum.split) (rule well_guarded_quiet, intro quiet)+

lemma well_guarded_execute [well_guarded]:
  "well_guarded r (execute_operation_session_body w r spec body options cancelable)"
  unfolding execute_operation_session_body_def keep_guard_def
  by (auto intro!: well_guarded split: prod.split) (rule well_guarded_quiet, auto intro!: quiet)+

lemma well_guarded_end [well_guarded]: "well_guarded r (finish_operation_session w r guard result outcome)"
  unfolding finish_operation_session_def
  by (auto intro!: well_guarded split: option.split) (rule well_guarded_quiet, intro quiet)

lemma well_guarded_operation [well_guarded]:
  "well_guarded r (run_operation_session w r spec body options)"
  "well_guarded r (run_operation w r spec body options cancelable)"
  "well_guarded r (prepare_execution w r spec body mode)"
  unfolding run_operation_def run_operation_session_def run_operation_session_cancelable_def run_foreground_def
    prepare_execution_def
  by (auto intro!: well_guarded split: prod.split sum.split) (rule well_guarded_quiet, intro quiet)+

lemma each_Inl: "each f xs = Inl e \<Longrightarrow> \<exists>x \<in> set xs. f x = Inl e"
  by (induction xs) (auto simp: each.simps(2) split: sum.splits)

lemma label_failure:
  assumes "validate_gateway_labels i labels = Inl e"
  shows "operation_failed e = ContainerLabelMismatch e"
proof -
  obtain le where "e = label_error le"
    using each_Inl [OF assms [unfolded validate_gateway_labels_def]]
    by (auto simp: bail_if_def simp del: label_error.simps split: option.splits if_splits)
  then show ?thesis
    by (cases le) (simp_all add: operation_failed_def is_label_error_def is_context_validation_error_def
        agent_not_ready_def container_not_found_def)
qed

text \<open>C2. A session, with the launch steps and the command that it runs, changes no container but one that it saw
  with the labels of the runtime under the lock; this holds of every way to run one, and of the preparation
  of one whose command runs elsewhere.\<close>

theorem sessions_change_only_own_containers:
  "guarded r (st_log (snd (bind_io (run_operation w r spec body options cancelable)
      (\<lambda>_. bind_io (detached_session w r spec body) (\<lambda>_. prepare_execution w r spec body mode)) (st\<lparr>st_log := []\<rparr>))))"
  unfolding detached_session_def
  by (intro well_guarded_log well_guarded)

text \<open>C13. A stop and a removal of a target go no further than what they see: when the lock is not taken, the
  container cannot be inspected, or it does not carry the labels of the runtime, they do nothing but give the
  lock back, and their error is that one, reported as a label mismatch when a label is missing or differs.\<close>

theorem foreign_container_is_refused:
  "case acquire_lifecycle_lock w r st of
     (Inl e, locked) \<Rightarrow> stop_target w r st = (Inl e, locked) \<and> remove_target w r st = (Inl e, locked)
   | (Inr path, locked) \<Rightarrow> (case inspect_own w r locked of
       (Inl e, seen) \<Rightarrow> stop_target w r st = (Inl e, snd (release_lifecycle_lock w path seen))
         \<and> remove_target w r st = (Inl e, snd (release_lifecycle_lock w path seen))
     | (Inr None, seen) \<Rightarrow> fst (stop_target w r st) = Inr \<lparr>sr_container = id_container_name (gw_identity r), sr_stopped = False\<rparr>
         \<and> fst (remove_target w r st) = Inr \<lparr>rr_container = id_container_name (gw_identity r), rr_removed = False\<rparr>
     | (Inr (Some i), seen) \<Rightarrow> (case validate_stable_labels r i of
         Inl e \<Rightarrow> stop_target w r st = (Inl e, snd (release_lifecycle_lock w path seen))
           \<and> remove_target w r st = (Inl e, snd (release_lifecycle_lock w path seen))
           \<and> (list_all (\<lambda>(key, v). bt_get (ci_labels i) key = Some v) (validation_labels r)
              \<or> operation_failed e = ContainerLabelMismatch e)
       | Inr _ \<Rightarrow> list_all (\<lambda>(key, v). bt_get (ci_labels i) key = Some v) (validation_labels r)))"
proof -
  have mismatch: "list_all (\<lambda>(key, v). bt_get (ci_labels i) key = Some v) (validation_labels r)
      \<or> operation_failed e = ContainerLabelMismatch e" if "validate_stable_labels r i = Inl e" for i e
  proof (cases "validate_gateway_labels i (validation_labels r)")
    case (Inl e')
    with that have "e' = e" by (simp add: validate_stable_labels_def)
    with label_failure Inl show ?thesis by blast
  qed (simp add: validate_gateway_labels_iff)
  have own: "list_all (\<lambda>(key, v). bt_get (ci_labels i) key = Some v) (validation_labels r)"
    if "validate_stable_labels r i = Inr u" for i u
    using that by (simp add: validate_stable_labels_def validate_gateway_labels_iff)
  show ?thesis
    unfolding stop_target_def remove_target_def with_lifecycle_lock_def
    by (auto simp: try_io_def bind_io_def remove_found_def remove_absent_def mismatch own case_prod_beta
        split: prod.splits sum.splits option.splits)
qed

end
