(* ===== verification/Client_Access.thy ===== *)
theory Client_Access
  imports Execution
begin

text \<open>
  How a user reaches a target: \<open>gateway/client.rs\<close>. The public keys that are installed for the user on the
  host and for the container, the SSH configuration that is generated for a client, and the bundle with a
  key and a configuration.

  Reading from the standard input is a parameter: all that it holds, and its first line.
\<close>

section \<open>Public keys\<close>

definition MAX_PUBLIC_KEY_BYTES :: nat where
  "MAX_PUBLIC_KEY_BYTES = 16 * 1024"

definition key_status :: "bool \<Rightarrow> string" where
  "key_status added = (if added then ''added'' else ''duplicate'')"

text \<open>A file is opened and read in one step; a read stops one byte after the limit.\<close>

definition read_public_key_arg :: "host \<Rightarrow> string res \<Rightarrow> string res \<Rightarrow> string option \<Rightarrow> string res" where
  "read_public_key_arg h stdin stdin_line path =
     and_then (case path of
         Some path \<Rightarrow>
           if path = ''-'' then map_ok (take (MAX_PUBLIC_KEY_BYTES + 1)) stdin
           else map_ok (take (MAX_PUBLIC_KEY_BYTES + 1))
             (with_context (''open public key '' @ path) (existing (h_read h path)))
       | None \<Rightarrow> stdin_line) (\<lambda>input.
     and_then (bail_if (length input > MAX_PUBLIC_KEY_BYTES)
       (Bail ''SSH public key input exceeds {} bytes'' [show_nat MAX_PUBLIC_KEY_BYTES])) (\<lambda>_.
     validate_public_key_content input))"

definition install_host_public_key :: "'s world \<Rightarrow> user_context \<Rightarrow> string \<Rightarrow> ('s, bool res) io" where
  "install_host_public_key w user key =
     (let dir = path_join (uc_home user) ''.ssh'' in
      try_io (ensure_private_dir w dir) (\<lambda>_. ensure_authorized_key w (path_join dir ''authorized_keys'') key))"

definition install_inner_public_key :: "'s world \<Rightarrow> runtime \<Rightarrow> string \<Rightarrow> ('s, bool res) io" where
  "install_inner_public_key w r key =
     try_io (ensure_private_dir w (ssh_dir r)) (\<lambda>_. ensure_authorized_key w (inner_authorized_keys r) key)"

text \<open>The commands answer what they print. An error of a target is one of an operation, as it is shown.\<close>

definition add_key ::
  "'s world \<Rightarrow> gateway_config res \<Rightarrow> string res \<Rightarrow> string res \<Rightarrow> string option \<Rightarrow> string option \<Rightarrow> ('s, string op_res) io" where
  "add_key w loaded stdin stdin_line target public_key = with_runtime w loaded target None False None [] (\<lambda>r.
     try_io (pure (ensure_ssh_operation_supported r ''add-key'')) (\<lambda>_.
     bind_io (observe (w_host w)) (\<lambda>h.
     try_io (pure (user_current h)) (\<lambda>user.
     try_io (pure (read_public_key_arg h stdin stdin_line public_key)) (\<lambda>key.
     try_io (install_host_public_key w user key) (\<lambda>host_added.
     try_io (io_context (''host='' @ key_status host_added @ ''; container install failed'')
         (install_inner_public_key w r key)) (\<lambda>container_added.
     pure (Inr (''host='' @ key_status host_added @ ''; container='' @ key_status container_added)))))))))"

definition add_host_key :: "'s world \<Rightarrow> string res \<Rightarrow> string res \<Rightarrow> string option \<Rightarrow> ('s, string res) io" where
  "add_host_key w stdin stdin_line public_key =
     bind_io (observe (w_host w)) (\<lambda>h.
     try_io (pure (user_current h)) (\<lambda>user.
     try_io (pure (read_public_key_arg h stdin stdin_line public_key)) (\<lambda>key.
     map_io (map_ok key_status) (install_host_public_key w user key))))"

definition add_container_key ::
  "'s world \<Rightarrow> gateway_config res \<Rightarrow> string res \<Rightarrow> string res \<Rightarrow> string option \<Rightarrow> string option \<Rightarrow> ('s, string op_res) io" where
  "add_container_key w loaded stdin stdin_line target public_key = with_runtime w loaded target None False None [] (\<lambda>r.
     try_io (pure (ensure_ssh_operation_supported r ''add-container-key'')) (\<lambda>_.
     bind_io (observe (w_host w)) (\<lambda>h.
     try_io (pure (read_public_key_arg h stdin stdin_line public_key)) (\<lambda>key.
     map_io (map_ok key_status) (install_inner_public_key w r key)))))"

section \<open>The configuration for a client\<close>

definition ensure_client_config_origin_supported :: "runtime \<Rightarrow> client_config_origin \<Rightarrow> unit res" where
  "ensure_client_config_origin_supported r origin =
     bail_if (origin = SshDispatchOrigin \<and> map_option ls_mode (tgt_local_ssh (gw_target r)) = Some Direct)
       (Bail ''direct client config generation over SSH is not supported for local_ssh.mode = \"direct\" targets; run aw-gateway client-config locally on the gateway host'' [])"

definition client_vars :: "host \<Rightarrow> runtime \<Rightarrow> vars" where
  "client_vars h r = bt_extend (runtime_vars h r None)
     [(''target'', id_target_name (gw_identity r)), (''host'', cc_host (gc_client_config (gw_cfg r)))]"

definition default_client_identity_file :: "host \<Rightarrow> runtime \<Rightarrow> string res" where
  "default_client_identity_file h r =
     map_ok (\<lambda>dir. path_join dir (client_private_key_name r))
       (render (cc_default_identity_dir (gc_client_config (gw_cfg r))) (client_vars h r))"

definition ssh_identity_lines :: "string option \<Rightarrow> string list" where
  "ssh_identity_lines identity_file = (case identity_file of
     Some identity \<Rightarrow> [''    IdentityFile '' @ identity, ''    IdentitiesOnly yes'']
   | None \<Rightarrow> [])"

text \<open>The lines of an entry, each with its end.\<close>

definition ssh_entry :: "string \<Rightarrow> string \<Rightarrow> string list \<Rightarrow> string option \<Rightarrow> string list \<Rightarrow> string" where
  "ssh_entry alias host_name port_lines identity_file proxy_lines =
     concat (map (\<lambda>line. line @ [newline])
       ([''Host '' @ alias, ''    HostName '' @ host_name] @ port_lines @ ssh_identity_lines identity_file
         @ [''    StrictHostKeyChecking no'', ''    UserKnownHostsFile /dev/null''] @ proxy_lines))"

definition render_client_config ::
  "'s world \<Rightarrow> runtime \<Rightarrow> string option \<Rightarrow> client_config_origin \<Rightarrow> ('s, string res) io" where
  "render_client_config w r identity_file origin =
     try_io (pure (ensure_ssh_operation_supported r ''client-config'')) (\<lambda>_.
     try_io (pure (ensure_client_config_origin_supported r origin)) (\<lambda>_.
     bind_io (observe (w_host w)) (\<lambda>h.
     let cc = gc_client_config (gw_cfg r); vars = client_vars h r; target = id_target_name (gw_identity r) in
     try_io (pure (render (cc_inner_alias_template cc) vars)) (\<lambda>alias.
     try_io (pure (render (cc_container_host_template cc) vars)) (\<lambda>host_name.
     case tgt_local_ssh (gw_target r) of
       None \<Rightarrow> pure (Inr (ssh_entry alias host_name [] identity_file
         [''    ProxyCommand ssh -T '' @ cc_host cc @ '' '' @ cc_gateway_path cc @ '' connect '' @ target]))
     | Some local_ssh \<Rightarrow> (case ls_mode local_ssh of
         Listen \<Rightarrow> try_io (local_ssh_port w r local_ssh) (\<lambda>port.
           pure (Inr (ssh_entry alias (ls_host local_ssh) [''    Port '' @ show_nat port] identity_file [])))
       | Direct \<Rightarrow> try_io (direct_client_ssh_endpoint w r) (\<lambda>endpoint. case endpoint of
           None \<Rightarrow> pure (Inl (Bail ''target {} has no direct published SSH endpoint yet; run `aw-gateway up {}` first or configure local_ssh.port''
             [target, target]))
         | Some e \<Rightarrow> pure (Inr (ssh_entry alias (te_host e) [''    Port '' @ show_nat (te_port e)] identity_file [])))
       | ProxyCommand \<Rightarrow> pure (Inr (ssh_entry alias host_name [] identity_file
           [''    ProxyCommand '' @ cc_gateway_path cc @ '' connect '' @ target]))))))))"

definition client_bundle_with_origin ::
  "'s world \<Rightarrow> gateway_config res \<Rightarrow> string option \<Rightarrow> string option \<Rightarrow> bool \<Rightarrow> client_config_origin \<Rightarrow> ('s, string op_res) io" where
  "client_bundle_with_origin w loaded target identity_file rotate_key origin =
     with_runtime w loaded target None False None [] (\<lambda>r.
     try_io (pure (ensure_ssh_operation_supported r ''client-bundle'')) (\<lambda>_.
     try_io (pure (ensure_client_config_origin_supported r origin)) (\<lambda>_.
     try_io (ensure_inner_keypair w r rotate_key) (\<lambda>keypair.
     bind_io (observe (w_host w)) (\<lambda>h.
     try_io (pure (case identity_file of
         Some file \<Rightarrow> Inr file | None \<Rightarrow> default_client_identity_file h r)) (\<lambda>identity.
     try_io (render_client_config w r (Some identity) origin) (\<lambda>config.
     try_io (write_inner_config w r config) (\<lambda>_.
     write_client_bundle w r keypair config))))))))"

end
