(* ===== verification/Dispatch.thy ===== *)
theory Dispatch
  imports Client_Access Ssh_Filter
begin

text \<open>
  From what a caller asks for to an operation and its result: \<open>execute_gateway_operation\<close> in
  \<open>gateway/ops.rs\<close>, the default selection, the status of all containers, and the entry of an SSH session
  in \<open>gateway.rs\<close>, which filters the command of the client before it is dispatched.

  A listing of containers sees one moment of the outside. A parameter answers whether a floating-point
  number is finite and how it prints, and what the command line of the gateway is split into.
\<close>

section \<open>The default selection\<close>

definition default_target_path :: "host \<Rightarrow> user_context \<Rightarrow> string" where
  "default_target_path h user = path_join (user_config_dir h user) ''default-target''"

definition validated_selection :: "gateway_config \<Rightarrow> string \<Rightarrow> unit res" where
  "validated_selection cfg selection = map_ok (\<lambda>_. ())
     (with_context (''validate default selection '' @ selection) (resolve_target_selection cfg (Some selection)))"

definition operation_set_default :: "'s world \<Rightarrow> gateway_config res \<Rightarrow> string \<Rightarrow> ('s, string res) io" where
  "operation_set_default w loaded selection =
     try_io (pure loaded) (\<lambda>cfg.
     bind_io (observe (w_host w)) (\<lambda>h.
     try_io (pure (user_current h)) (\<lambda>user.
     try_io (pure (validated_selection cfg selection)) (\<lambda>_.
     try_io (ensure_private_dir w (user_config_dir h user)) (\<lambda>_.
     try_io (file_step w (WriteFile (default_target_path h user) (selection @ [newline]))) (\<lambda>_.
     pure (Inr selection)))))))"

definition operation_show_default :: "host \<Rightarrow> gateway_config res \<Rightarrow> string res" where
  "operation_show_default h loaded =
     and_then loaded (\<lambda>cfg.
     and_then (user_current h) (\<lambda>user.
     and_then (map_ok (unwrap_or (gc_default_target cfg)) (read_default_selection h user)) (\<lambda>selection.
     map_ok (\<lambda>_. selection) (validated_selection cfg selection))))"

definition operation_reset_default :: "'s world \<Rightarrow> gateway_config res \<Rightarrow> ('s, string res) io" where
  "operation_reset_default w loaded =
     try_io (pure loaded) (\<lambda>cfg.
     bind_io (observe (w_host w)) (\<lambda>h.
     try_io (pure (user_current h)) (\<lambda>user.
     try_io (remove_if_exists w (default_target_path h user)) (\<lambda>_.
     pure (Inr (gc_default_target cfg))))))"

section \<open>Operations\<close>

definition operation_client_config ::
  "'s world \<Rightarrow> gateway_config res \<Rightarrow> string option \<Rightarrow> string option \<Rightarrow> client_config_origin
     \<Rightarrow> ('s, (string \<times> string) op_res) io" where
  "operation_client_config w loaded target identity_file origin =
     with_runtime w loaded target None False None [] (\<lambda>r.
       try_io (render_client_config w r identity_file origin) (\<lambda>config.
       try_io (write_inner_config w r config) (\<lambda>written_path. pure (Inr (config, written_path)))))"

definition list_managed_io ::
  "'s world \<Rightarrow> container_runtime \<Rightarrow> string \<Rightarrow> nat \<Rightarrow> runtime_context \<Rightarrow> name_candidates option
     \<Rightarrow> ('s, managed_container list res) io" where
  "list_managed_io w rt user uid ctx candidates = try_io (async_command w rt) (\<lambda>_.
     observe (\<lambda>s. list_managed_containers (w_decoders w) (\<lambda>args. fst (w_client w (plain_command rt args) s))
       rt user uid ctx candidates))"

definition operation_status_all ::
  "'s world \<Rightarrow> gateway_config res \<Rightarrow> runtime_context \<Rightarrow> ('s, all_status_entry list res) io" where
  "operation_status_all w loaded ctx =
     try_io (pure loaded) (\<lambda>cfg.
     try_io (pure (validate_runtime_context (gc_context_vars cfg) ctx)) (\<lambda>_.
     bind_io (observe (w_host w)) (\<lambda>h.
     try_io (pure (user_current h)) (\<lambda>user.
     try_io (pure (from_config (gc_runtime cfg) (uc_user user) (uc_home user))) (\<lambda>rt.
     try_io (pure (if rc_type (gc_runtime cfg) = AppleContainer
         then map_ok Some (apple_container_name_candidates cfg ctx) else Inr None)) (\<lambda>candidates.
     map_io (map_ok (status_all_entries cfg)) (list_managed_io w rt (uc_user user) (uc_uid user) ctx candidates)))))))"

datatype operation_result =
    ResTargets "target_entry list"
  | ResStatus gateway_status
  | ResStatusAll "all_status_entry list"
  | ResUp ready_status
  | ResRun execution_outcome
  | ResLaunches "launch_summary list"
  | ResLaunchShow launch_detail
  | ResLaunch execution_outcome
  | ResStop stop_result
  | ResRemove remove_result
  | ResDefaultSelection string
  | ResClientConfig string string

definition answered :: "('a \<Rightarrow> operation_result) \<Rightarrow> ('s, 'a op_res) io \<Rightarrow> ('s, operation_result op_res) io" where
  "answered f m = map_io (map_ok f) m"

definition answered_plain :: "('a \<Rightarrow> operation_result) \<Rightarrow> ('s, 'a res) io \<Rightarrow> ('s, operation_result op_res) io" where
  "answered_plain f m = answered f (map_io as_op m)"

text \<open>Both ways to execute an operation: only a run and a launch can be cancelled.\<close>

definition execute_gateway_operation ::
  "(string \<Rightarrow> float_view option) \<Rightarrow> 's world \<Rightarrow> gateway_config res \<Rightarrow> gateway_operation \<Rightarrow> bool \<Rightarrow> runtime_context
     \<Rightarrow> ('s, operation_result op_res) io" where
  "execute_gateway_operation parse_f64 w loaded operation cancelable ctx = (case operation of
     OpTargets \<Rightarrow> answered_plain ResTargets (observe (\<lambda>s. and_then loaded (\<lambda>cfg. target_entries (w_host w s) cfg ctx)))
   | OpStatus target session_id \<Rightarrow> answered ResStatus (operation_status w loaded target session_id ctx)
   | OpStatusAll \<Rightarrow> answered_plain ResStatusAll (operation_status_all w loaded ctx)
   | OpUp target session_id \<Rightarrow> answered ResUp (operation_up w loaded target session_id ctx)
   | OpRun target session_id cwd command options \<Rightarrow>
       answered ResRun (operation_run w loaded target session_id cwd command options cancelable ctx)
   | OpLaunches \<Rightarrow> answered_plain ResLaunches (pure (and_then loaded launch_summaries))
   | OpLaunchShow name \<Rightarrow> answered ResLaunchShow (pure
       (and_then (as_op loaded) (\<lambda>cfg.
        and_then (lookup_launch cfg name) (\<lambda>launch. as_op (launch_detail_of cfg name launch ctx)))))
   | OpLaunch name session_id supplied args options \<Rightarrow> try_io (pure (as_op loaded)) (\<lambda>cfg.
       answered ResLaunch (launch_execute_with_config parse_f64 w cfg name session_id supplied args options cancelable ctx))
   | OpStop target session_id \<Rightarrow> answered ResStop (operation_stop w loaded target session_id ctx)
   | OpRemove target session_id \<Rightarrow> answered ResRemove (operation_remove w loaded target session_id ctx)
   | OpSetDefault selection \<Rightarrow> answered_plain ResDefaultSelection (operation_set_default w loaded selection)
   | OpShowDefault \<Rightarrow> answered_plain ResDefaultSelection (observe (\<lambda>s. operation_show_default (w_host w s) loaded))
   | OpResetDefault \<Rightarrow> answered_plain ResDefaultSelection (operation_reset_default w loaded)
   | OpClientConfig target identity_file origin \<Rightarrow>
       answered (\<lambda>(rendered, path). ResClientConfig rendered path)
         (operation_client_config w loaded target identity_file origin))"

section \<open>The command line of an operation\<close>

fun status_operation :: "string option \<Rightarrow> string option \<Rightarrow> bool \<Rightarrow> gateway_operation res" where
  "status_operation target session_id False = Inr (OpStatus target session_id)"
| "status_operation target session_id True =
     (if target \<noteq> None then Inl (Bail ''--all cannot be combined with a target'' [])
      else if session_id \<noteq> None then Inl (Bail ''--all cannot be combined with --session-id'' [])
      else Inr OpStatusAll)"

definition run_operation_of_args ::
  "string option \<Rightarrow> string option \<Rightarrow> string option \<Rightarrow> string list \<Rightarrow> gateway_operation op_res" where
  "run_operation_of_args target session_id cwd command =
     (if command = [] then Inl (InvalidRequest ''run requires -- followed by a command; use up to start or hold a target'')
      else Inr (OpRun target session_id cwd command options_stream))"

definition set_default_operation :: "bool \<Rightarrow> string option \<Rightarrow> gateway_operation op_res" where
  "set_default_operation reset selection =
     (if reset then Inr OpResetDefault
      else map_ok OpSetDefault (ok_or (InvalidRequest ''target or image is required unless --reset is used'') selection))"

definition launch_operation :: "string \<Rightarrow> string option \<Rightarrow> string list \<Rightarrow> string list \<Rightarrow> gateway_operation op_res" where
  "launch_operation name session_id supplied args =
     and_then (from_cli_pairs supplied) (\<lambda>supplied.
     and_then (launch_passthrough_args args) (\<lambda>args. Inr (OpLaunch name session_id supplied args options_stream)))"

definition shell_operation :: "'s world \<Rightarrow> gateway_config res \<Rightarrow> string option \<Rightarrow> string option \<Rightarrow> string option \<Rightarrow> string list
     \<Rightarrow> runtime_context \<Rightarrow> ('s, execution_outcome op_res) io" where
  "shell_operation w loaded target session_id cwd args ctx = with_runtime w loaded target session_id True None ctx (\<lambda>r.
     run_operation w r RunCommandSession
       (BodyRun cwd (shell_command (id_session_shell (gw_identity r)) args)) options_stream False)"

section \<open>An SSH session\<close>

definition MAX_SSH_ORIGINAL_COMMAND_BYTES :: nat where
  "MAX_SSH_ORIGINAL_COMMAND_BYTES = 64 * 1024"

text \<open>What the session does once its command passed the filter: run a command with the shell of the
  container, or an action of the gateway.\<close>

datatype ssh_request = SshShell | SshCommand string | SshAction gateway_action

definition ssh_filter_check :: "(string \<Rightarrow> string list option) \<Rightarrow> gateway_config \<Rightarrow> string \<Rightarrow> unit res" where
  "ssh_filter_check sw cfg command =
     and_then (effective_container_ssh_defaults cfg) (\<lambda>ssh.
     case decide_command sw ssh (Some command) of
       Some RejectLegacyScp \<Rightarrow> Inl (Bail ''blocked by policy: legacy scp is not allowed'' [])
     | Some RejectSftp \<Rightarrow> Inl (Bail ''blocked by policy: sftp is not allowed'' [])
     | Some RejectComposedTransfer \<Rightarrow> Inl (Bail (''blocked by policy: shell composition invokes a restricted transfer command'' @ [newline] @ ''rejected SSH_ORIGINAL_COMMAND: {}'')
         [unwrap_or [] (format_ssh_original_command command)])
     | _ \<Rightarrow> Inr ())"

definition ssh_request_of ::
  "(string \<Rightarrow> string list option) \<Rightarrow> string option \<Rightarrow> gateway_config \<Rightarrow> string option \<Rightarrow> bool \<Rightarrow> ssh_request res" where
  "ssh_request_of sw exe cfg original has_pty =
     and_then (given (\<lambda>command. bail_if (length command > MAX_SSH_ORIGINAL_COMMAND_BYTES)
       (Bail ''SSH_ORIGINAL_COMMAND exceeds {} bytes'' [show_nat MAX_SSH_ORIGINAL_COMMAND_BYTES])) original) (\<lambda>_.
     and_then (given (ssh_filter_check sw cfg) original) (\<lambda>_.
     case dispatch sw exe original has_pty (gc_ssh_dispatch cfg) of
       InteractiveShell \<Rightarrow> Inr SshShell
     | ContainerCommand command \<Rightarrow> Inr (SshCommand command)
     | Gateway action \<Rightarrow> Inr (SshAction action)
     | Reject reason \<Rightarrow> Inl reason))"

definition ssh_container_operation :: "string list \<Rightarrow> gateway_operation" where
  "ssh_container_operation command = OpRun None None None command options_stream"

fun ssh_request_operation :: "ssh_request \<Rightarrow> gateway_operation option op_res" where
  "ssh_request_operation SshShell = Inr (Some (ssh_container_operation [''/usr/bin/bash'']))"
| "ssh_request_operation (SshCommand command) =
     Inr (Some (ssh_container_operation [''/usr/bin/bash'', ''-lc'', command]))"
| "ssh_request_operation (SshAction action) = map_ok (map_option fst) (ssh_operation_of action)"

end
