(* ===== verification/Rendering.thy ===== *)
theory Rendering
  imports Dispatch
begin

text \<open>
  What the commands print: \<open>gateway/render.rs\<close>, the help of the gateway and how an operation is rendered for
  an SSH session in \<open>gateway.rs\<close>. A printed text is its lines, each with its end. How a value is written as
  JSON is a parameter.
\<close>

section \<open>Columns\<close>

definition padded :: "nat \<Rightarrow> string \<Rightarrow> string" where
  "padded width s = s @ replicate (width - length s) (CHR 0x20)"

text \<open>A row: padded columns, a space after each, and the last one as it is.\<close>

fun table_row :: "(nat \<times> string) list \<Rightarrow> string \<Rightarrow> string" where
  "table_row [] final = final"
| "table_row ((width, s) # columns) final = padded width s @ '' '' @ table_row columns final"

section \<open>Results of operations\<close>

definition stop_result_text :: "stop_result \<Rightarrow> string" where
  "stop_result_text result = ''stopped '' @ sr_container result"

definition render_stop_result :: "stop_result \<Rightarrow> string list" where
  "render_stop_result result = (if sr_stopped result then [stop_result_text result] else [''not running''])"

definition remove_result_text :: "remove_result \<Rightarrow> string" where
  "remove_result_text result = ''removed '' @ rr_container result"

definition render_remove_result :: "remove_result \<Rightarrow> string list" where
  "render_remove_result result = (if rr_removed result then [remove_result_text result] else [''not found''])"

definition status_result_text :: "gateway_status \<Rightarrow> string" where
  "status_result_text s = gs_target s @ '': '' @ gs_status s @ '' ['' @ gs_access s @ ''] (''
     @ unwrap_or ''not-created'' (gs_container s) @ '')''"

definition render_status_result :: "(gateway_status \<Rightarrow> string res) \<Rightarrow> gateway_status \<Rightarrow> bool \<Rightarrow> string list res" where
  "render_status_result to_json s json =
     (if json then map_ok (\<lambda>text. [text]) (to_json s)
      else Inr (status_result_text s # (case gs_launch s of Some launch \<Rightarrow> [''launch: '' @ launch] | None \<Rightarrow> [])))"

definition render_status_all ::
  "(all_status_entry list \<Rightarrow> string res) \<Rightarrow> all_status_entry list \<Rightarrow> bool \<Rightarrow> string list res" where
  "render_status_all to_json entries json =
     (if json then map_ok (\<lambda>text. [text]) (to_json entries)
      else if entries = [] then Inr [''No aw-gateway-managed containers found for this user.'']
      else Inr (table_row [(15, ''TARGET''), (11, ''SESSION''), (16, ''LAUNCH''), (13, ''ACCESS''), (11, ''MODE''),
             (22, ''CONTAINER'')] ''STATUS''
        # map (\<lambda>e. table_row [(15, al_target e), (11, unwrap_or ''-'' (al_session_id e)),
             (16, unwrap_or ''-'' (al_launch e)), (13, al_access e), (11, al_mode e), (22, al_container e)] (al_status e))
           entries))"

definition render_targets :: "(target_entry list \<Rightarrow> string res) \<Rightarrow> target_entry list \<Rightarrow> bool \<Rightarrow> string list res" where
  "render_targets to_json entries json =
     (if json then map_ok (\<lambda>text. [text]) (to_json entries)
      else Inr (table_row [(24, ''TARGET''), (24, ''IMAGE''), (13, ''ACCESS''), (10, ''MODE'')] ''CONTAINER''
        # map (\<lambda>e. table_row [(24, te_target e), (24, te_image e), (13, te_access e), (10, te_mode e)]
             (te_container e @ (if te_default e then '' *'' else []))) entries))"

definition render_launches :: "(launch_summary list \<Rightarrow> string res) \<Rightarrow> launch_summary list \<Rightarrow> bool \<Rightarrow> string list res" where
  "render_launches to_json entries json =
     (if json then map_ok (\<lambda>text. [text]) (to_json entries)
      else if entries = [] then Inr [''No launches configured.'']
      else Inr (table_row [(24, ''LAUNCH''), (24, ''TARGET''), (25, ''REQUIRED VARS'')] ''DESCRIPTION''
        # map (\<lambda>e. table_row [(24, lsu_name e), (24, lsu_target e),
             (25, join '', '' (map fst (filter (\<lambda>(_, var). vm_required var) (lsu_vars e))))]
             (unwrap_or [] (lsu_description e))) entries))"

section \<open>The detail of a launch\<close>

definition launch_var_text :: "launch_var_metadata \<Rightarrow> string" where
  "launch_var_text var = join '', ''
     ((case (vm_type var = ''enum'', vm_values var) of
         (True, Some values) \<Rightarrow> [''enum: '' @ join '', '' values] | _ \<Rightarrow> [vm_type var])
      @ (if vm_required var then [''required'']
         else (case vm_default var of Some d \<Rightarrow> [''default: '' @ launch_var_rendered d] | None \<Rightarrow> [])))"

definition launch_var_description :: "launch_var_metadata \<Rightarrow> string" where
  "launch_var_description var = (case vm_description var of Some d \<Rightarrow> '' - '' @ d | None \<Rightarrow> [])"

definition env_summary :: "env_map \<Rightarrow> string" where
  "env_summary env = join '', '' (map (\<lambda>(key, v). key @ ''='' @ v) env)"

definition cwd_env_argv :: "string \<Rightarrow> string option \<Rightarrow> env_map \<Rightarrow> string list \<Rightarrow> string list" where
  "cwd_env_argv indent cwd env command =
     (case cwd of Some d \<Rightarrow> [indent @ ''cwd: '' @ d] | None \<Rightarrow> [])
     @ (if env \<noteq> [] then [indent @ ''env: '' @ env_summary env] else [])
     @ [indent @ ''argv: '' @ join '' '' command]"

definition launch_step_lines :: "nat \<times> launch_step_detail \<Rightarrow> string list" where
  "launch_step_lines = (\<lambda>(index, step).
     (''  '' @ show_nat (index + 1) @ ''. '' @ sd_name step @ '' ['' @ sd_phase step @ ''/'' @ sd_location step @ '', ''
        @ (if sd_required step then ''required'' else ''optional'')
        @ (case sd_timeout step of Some t \<Rightarrow> '', timeout: '' @ t | None \<Rightarrow> []) @ '']'')
     # cwd_env_argv ''     '' (sd_cwd step) (sd_env step) (sd_command step))"

definition launch_detail_lines :: "launch_detail \<Rightarrow> string list" where
  "launch_detail_lines d =
     [''Launch: '' @ ld_name d, ''Target: '' @ ld_target d, ''Target mode: '' @ ld_target_mode d,
      ''Passthrough args: '' @ (if ld_allow_args d then ''yes'' else ''no'')]
     @ (case ld_target_container d of Some c \<Rightarrow> [''Target container: '' @ c] | None \<Rightarrow> [])
     @ (case ld_description d of Some t \<Rightarrow> [''Description: '' @ t] | None \<Rightarrow> [])
     @ (if ld_vars d \<noteq> [] then [[], ''Variables:''] @ map (\<lambda>(name, var).
          ''  '' @ name @ '' ('' @ launch_var_text var @ '')'' @ launch_var_description var) (ld_vars d) else [])
     @ (if ld_steps d \<noteq> [] then [[], ''Steps:''] @ concat (map launch_step_lines (enumerate 0 (ld_steps d))) else [])
     @ [[], ''Command:''] @ cwd_env_argv ''  '' (ld_cwd d) (ld_env d) (ld_command d)"

definition render_launch_detail :: "(launch_detail \<Rightarrow> string res) \<Rightarrow> launch_detail \<Rightarrow> bool \<Rightarrow> string list res" where
  "render_launch_detail to_json d json =
     (if json then map_ok (\<lambda>text. [text]) (to_json d) else Inr (launch_detail_lines d))"

section \<open>The help\<close>

definition gateway_help_commands :: "(string \<times> string) list" where
  "gateway_help_commands =
     [(''up [target]'', ''Start or reuse the container and print readiness''),
      (''status [target]'', ''Show container status''),
      (''status --all'', ''List your managed containers''),
      (''targets'', ''List configured targets''),
      (''run [--session-id ID] [target] [--cwd DIR] -- <command>'', ''Run a command in the container''),
      (''launches'', ''List configured launches''),
      (''launch show <name>'', ''Show launch variables and steps''),
      (''launch <name> [--session-id ID] [--var key=value]'', ''Run a configured launch''),
      (''stop [target]'', ''Stop the container''),
      (''remove [target]'', ''Stop and remove the container''),
      (''show-default'', ''Show your default target''),
      (''set-default <target>'', ''Set your default target''),
      (''reset-default'', ''Reset default target to the site default''),
      (''client-config [target]'', ''Print SSH config for VS Code/SCP/SFTP''),
      (''client-bundle [target]'', ''Generate a managed SSH key/config bundle''),
      (''add-key [target]'', ''Add an SSH public key to host and container''),
      (''add-host-key'', ''Add an SSH public key to the host''),
      (''add-container-key [target]'', ''Add an SSH public key to the container''),
      (''connect [--session-id ID] [target]'', ''Connect to the container SSH service''),
      (''help'', ''Show this help'')]"

definition help_command_enabled :: "ssh_dispatch_config \<Rightarrow> string \<Rightarrow> bool" where
  "help_command_enabled cfg command = (case split_whitespace command of
     [] \<Rightarrow> False | action # _ \<Rightarrow> action_enabled cfg action)"

definition gateway_help_lines :: "gateway_config \<Rightarrow> string list" where
  "gateway_help_lines cfg =
     [''AW Gateway commands:'', []]
     @ map (\<lambda>(command, description). ''  '' @ table_row [(38, command)] description)
         (filter (\<lambda>(command, _). help_command_enabled (gc_ssh_dispatch cfg) command) gateway_help_commands)
     @ [[], ''Examples:'', ''  ssh host status'', ''  ssh host targets'', ''  ssh host set-default fedora-dev'',
        ''  cat ~/.ssh/id_ed25519.pub | ssh host '' @ [CHR 0x27] @ ''add-key ubuntu-dev --public-key -'' @ [CHR 0x27],
        ''  ssh host client-config ubuntu-dev'', ''  ssh host client-bundle ubuntu-dev'']"

section \<open>What an SSH session sees\<close>

record json_writers =
  jw_ready :: "ready_status \<Rightarrow> string res"
  jw_status :: "gateway_status \<Rightarrow> string res"
  jw_status_all :: "all_status_entry list \<Rightarrow> string res"
  jw_targets :: "target_entry list \<Rightarrow> string res"
  jw_launches :: "launch_summary list \<Rightarrow> string res"
  jw_launch :: "launch_detail \<Rightarrow> string res"

text \<open>A session prints, or it exits with the code of its command; a command without a code panics.\<close>

datatype session_end = Printed "string list" | ExitsWith int | NoExitCode

definition exit_with_execution_outcome :: "execution_outcome \<Rightarrow> session_end" where
  "exit_with_execution_outcome outcome = (case outcome_exit_code outcome of
     Some code \<Rightarrow> ExitsWith code | None \<Rightarrow> NoExitCode)"

definition render_operation_result :: "json_writers \<Rightarrow> operation_result \<Rightarrow> bool \<Rightarrow> session_end res" where
  "render_operation_result jw result json = (case result of
     ResUp ready \<Rightarrow> map_ok (\<lambda>text. Printed [text]) (jw_ready jw ready)
   | ResRun outcome \<Rightarrow> Inr (exit_with_execution_outcome outcome)
   | ResLaunch outcome \<Rightarrow> Inr (exit_with_execution_outcome outcome)
   | ResLaunches entries \<Rightarrow> map_ok Printed (render_launches (jw_launches jw) entries json)
   | ResLaunchShow d \<Rightarrow> map_ok Printed (render_launch_detail (jw_launch jw) d json)
   | ResStatus s \<Rightarrow> map_ok Printed (render_status_result (jw_status jw) s True)
   | ResStatusAll entries \<Rightarrow> map_ok Printed (render_status_all (jw_status_all jw) entries True)
   | ResTargets entries \<Rightarrow> map_ok Printed (render_targets (jw_targets jw) entries json)
   | ResStop s \<Rightarrow> Inr (Printed (render_stop_result s))
   | ResRemove s \<Rightarrow> Inr (Printed (render_remove_result s))
   | ResDefaultSelection selection \<Rightarrow> Inr (Printed [selection])
   | ResClientConfig config _ \<Rightarrow> Inr (Printed [config]))"

end
