(* ===== verification/Ssh_Sessions.thy ===== *)
theory Ssh_Sessions
  imports Rendering
begin

text \<open>
  Sessions over the SSH service of a container, and the session of an SSH client with the gateway: the
  connection and the local listener of \<open>gateway.rs\<close> with \<open>gateway/listener.rs\<close>, and what a dispatched
  action does.

  Copying between two streams is a parameter, as is the listener of the library: binding it answers the
  port, and serving it ends with the signal that stops it.
\<close>

section \<open>The SSH service of a target\<close>

datatype ssh_target = SshUnix string | SshTcp tcp_endpoint

definition ready_ssh_target :: "ready_status \<Rightarrow> ssh_target res" where
  "ready_ssh_target ready = (case ry_ssh_tcp ready of
     Some endpoint \<Rightarrow> Inr (SshTcp endpoint)
   | None \<Rightarrow> (case ry_ssh_socket ready of
       Some socket \<Rightarrow> Inr (SshUnix socket)
     | None \<Rightarrow> Inl (Bail ''target {} uses access.method = {} and does not expose an SSH endpoint''
         [ry_target ready, ry_access ready])))"

fun peer_of :: "ssh_target \<Rightarrow> peer" where
  "peer_of (SshUnix socket) = UnixPeer socket"
| "peer_of (SshTcp endpoint) = TcpPeer (te_host endpoint) (te_port endpoint)"

text \<open>What the library does with streams: a connection is copied until both sides end, a listener is bound and
  its connections are served, and a value is printed.\<close>

record 's ssh_world =
  sw_proxy :: "ssh_target \<Rightarrow> 's \<Rightarrow> unit res \<times> nat \<times> 's"
  sw_bind :: "string \<Rightarrow> nat \<Rightarrow> 's \<Rightarrow> nat res \<times> nat \<times> 's"
  sw_serve :: "ssh_target \<Rightarrow> 's \<Rightarrow> unit res \<times> nat \<times> 's"
  sw_print :: "ready_status \<Rightarrow> unit res"

definition proxy_ready_to_stdio :: "'s ssh_world \<Rightarrow> 's world \<Rightarrow> runtime \<Rightarrow> ready_status \<Rightarrow> ('s, unit res) io" where
  "proxy_ready_to_stdio sw w r ready =
     try_io (pure (ready_ssh_target ready)) (\<lambda>target.
     try_io (case target of
         SshUnix socket \<Rightarrow> observe (\<lambda>s. socket_is_safe (w_host w s) r socket)
       | SshTcp _ \<Rightarrow> pure (Inr ())) (\<lambda>_.
     effect (\<lambda>_. Connected (peer_of target)) (sw_proxy sw target)))"

text \<open>The listener is bound under the lock of the target, and only when none is active; its guard is the path of
  its status.\<close>

definition bind_local_ssh ::
  "'s ssh_world \<Rightarrow> 's world \<Rightarrow> runtime \<Rightarrow> ('s, (tcp_endpoint \<times> string) res) io" where
  "bind_local_ssh sw w r = (case tgt_local_ssh (gw_target r) of
     None \<Rightarrow> pure (Inl (Bail ''target does not configure local_ssh'' []))
   | Some local_ssh \<Rightarrow> with_lifecycle_lock w r
       (try_io (active_local_listener_status w r) (\<lambda>active. case active of
          Some l \<Rightarrow> pure (Inl (Bail ''local SSH listener is already active on {}:{}'' [ll_host l, show_nat (ll_port l)]))
        | None \<Rightarrow>
            let port = unwrap_or 0 (ls_port local_ssh) in
            try_io (io_context (''bind '' @ ls_host local_ssh @ '':'' @ show_nat port)
              (effect (\<lambda>_. Bound port) (sw_bind sw (ls_host local_ssh) port))) (\<lambda>actual_port.
            try_io (write_local_listener_status w r (ls_host local_ssh) actual_port) (\<lambda>guard.
            pure (Inr (\<lparr>te_host = ls_host local_ssh, te_port = actual_port\<rparr>, guard)))))))"

section \<open>Connecting and listening\<close>

text \<open>A session around a ready target: its error, or what the body answers, after the session is finished.\<close>

definition ready_session ::
  "'s world \<Rightarrow> runtime \<Rightarrow> string \<Rightarrow> (ready_status \<Rightarrow> ('s, unit res) io) \<Rightarrow> ('s, unit res) io" where
  "ready_session w r kind body =
     try_io (begin_ready_session w r kind False) (\<lambda>(marker, ready).
     bind_io (try_io (pure ready) body) (\<lambda>result.
     finish_post_session w r marker result (session_outcome_of_result result)))"

definition connect_session :: "'s ssh_world \<Rightarrow> 's world \<Rightarrow> runtime \<Rightarrow> ('s, unit res) io" where
  "connect_session sw w r =
     try_io (pure (ensure_ssh_endpoint_configured r)) (\<lambda>_.
     ready_session w r ''connect'' (proxy_ready_to_stdio sw w r))"

definition connect ::
  "'s ssh_world \<Rightarrow> 's world \<Rightarrow> gateway_config res \<Rightarrow> string option \<Rightarrow> string option \<Rightarrow> runtime_context
     \<Rightarrow> ('s, unit op_res) io" where
  "connect sw w loaded target session_id ctx =
     with_runtime w loaded target session_id True None ctx (connect_session sw w)"

text \<open>The status of a listener is removed when its guard is dropped, however the session goes on; a failure to remove it
  is only logged.\<close>

definition listen_session :: "'s ssh_world \<Rightarrow> 's world \<Rightarrow> runtime \<Rightarrow> ('s, unit res) io" where
  "listen_session sw w r =
     try_io (pure (ensure_ssh_endpoint_configured r)) (\<lambda>_.
     ready_session w r ''local-listen'' (\<lambda>ready.
       try_io (bind_local_ssh sw w r) (\<lambda>(endpoint, guard).
       bind_io (
         try_io (render_client_config w r None LocalCli) (\<lambda>config.
         try_io (write_inner_config w r config) (\<lambda>path.
         let ready = ready\<lparr>ry_local_ssh := Some endpoint, ry_client_config := Some path\<rparr> in
         try_io (pure (sw_print sw ready)) (\<lambda>_.
         try_io (pure (ready_ssh_target ready)) (\<lambda>target.
         effect (\<lambda>_. Connected (peer_of target)) (sw_serve sw target)))))) (\<lambda>result.
       map_io (\<lambda>_. result) (file_io w (RemoveFile guard))))))"

definition up ::
  "'s ssh_world \<Rightarrow> 's world \<Rightarrow> gateway_config res \<Rightarrow> string option \<Rightarrow> string option \<Rightarrow> runtime_context
     \<Rightarrow> ('s, unit op_res) io" where
  "up sw w loaded target session_id ctx = with_runtime w loaded target session_id True None ctx (\<lambda>r.
     if map_option ls_mode (tgt_local_ssh (gw_target r)) = Some Listen then listen_session sw w r
     else try_io (operation_up_with_runtime w r) (\<lambda>ready. pure (sw_print sw ready)))"

section \<open>The session of an SSH client\<close>

text \<open>The actions that are no operation.\<close>

definition deferred_action ::
  "'s ssh_world \<Rightarrow> 's world \<Rightarrow> gateway_config res \<Rightarrow> string res \<Rightarrow> string res \<Rightarrow> gateway_action
     \<Rightarrow> ('s, session_end op_res) io" where
  "deferred_action sw w loaded stdin stdin_line action = (case action of
     Connect a \<Rightarrow> map_io (map_ok (\<lambda>_. Printed [])) (connect sw w loaded (tsa_target a) (tsa_session_id a) [])
   | AddKey a \<Rightarrow> map_io (map_ok (\<lambda>text. Printed [text])) (add_key w loaded stdin stdin_line (ka_target a) (ka_public_key a))
   | AddHostKey public_key \<Rightarrow>
       map_io (\<lambda>r. as_op (map_ok (\<lambda>text. Printed [text]) r)) (add_host_key w stdin stdin_line public_key)
   | AddContainerKey a \<Rightarrow>
       map_io (map_ok (\<lambda>text. Printed [text])) (add_container_key w loaded stdin stdin_line (ka_target a) (ka_public_key a))
   | Help \<Rightarrow> pure (as_op (map_ok (\<lambda>cfg. Printed (gateway_help_lines cfg)) loaded))
   | ClientBundle a \<Rightarrow> map_io (map_ok (\<lambda>path. Printed [path]))
       (client_bundle_with_origin w loaded (cba_target a) (cba_identity_file a) (cba_rotate_key a) SshDispatchOrigin)
   | _ \<Rightarrow> pure (Inr NoExitCode))"

definition run_gateway_action ::
  "(string \<Rightarrow> float_view option) \<Rightarrow> 's ssh_world \<Rightarrow> 's world \<Rightarrow> json_writers \<Rightarrow> gateway_config res \<Rightarrow> string res
     \<Rightarrow> string res \<Rightarrow> gateway_action \<Rightarrow> ('s, session_end op_res) io" where
  "run_gateway_action parse_f64 sw w jw loaded stdin stdin_line action =
     try_io (pure (ssh_operation_of action)) (\<lambda>operation. case operation of
       Some (op1, json) \<Rightarrow> try_io (execute_gateway_operation parse_f64 w loaded op1 False [])
         (\<lambda>result. pure (as_op (render_operation_result jw result json)))
     | None \<Rightarrow> deferred_action sw w loaded stdin stdin_line action)"

text \<open>The configuration is loaded when the session starts, and again by what it runs.\<close>

definition run_ssh_request ::
  "(string \<Rightarrow> float_view option) \<Rightarrow> 's ssh_world \<Rightarrow> 's world \<Rightarrow> json_writers \<Rightarrow> gateway_config res \<Rightarrow> string res
     \<Rightarrow> string res \<Rightarrow> ssh_request \<Rightarrow> ('s, session_end op_res) io" where
  "run_ssh_request parse_f64 sw w jw loaded stdin stdin_line request = (case request of
     SshAction action \<Rightarrow> run_gateway_action parse_f64 sw w jw loaded stdin stdin_line action
   | SshShell \<Rightarrow> try_io (execute_gateway_operation parse_f64 w loaded (ssh_container_operation [''/usr/bin/bash'']) False [])
       (\<lambda>result. pure (as_op (render_operation_result jw result False)))
   | SshCommand command \<Rightarrow> try_io (execute_gateway_operation parse_f64 w loaded
         (ssh_container_operation [''/usr/bin/bash'', ''-lc'', command]) False [])
       (\<lambda>result. pure (as_op (render_operation_result jw result False))))"

definition dispatch_from_ssh ::
  "(string \<Rightarrow> float_view option) \<Rightarrow> 's ssh_world \<Rightarrow> 's world \<Rightarrow> json_writers \<Rightarrow> (string \<Rightarrow> string list option)
     \<Rightarrow> string option \<Rightarrow> gateway_config res \<Rightarrow> gateway_config res \<Rightarrow> string res \<Rightarrow> string res \<Rightarrow> string option \<Rightarrow> bool
     \<Rightarrow> ('s, session_end op_res) io" where
  "dispatch_from_ssh parse_f64 sw w jw split exe loaded loaded_again stdin stdin_line original has_pty =
     try_io (pure (as_op (and_then loaded (\<lambda>cfg. ssh_request_of split exe cfg original has_pty))))
       (run_ssh_request parse_f64 sw w jw loaded_again stdin stdin_line)"

section \<open>Sessions are filtered\<close>

lemma decided_command:
  assumes "decide_command sw policy (Some command) = Some decision" "decision \<notin> {RejectLegacyScp, RejectSftp, RejectComposedTransfer}"
  shows "decision = LoginShell \<and> trim command = [] \<or> decision = RunCommand (trim command)"
  using assms
  by (auto simp: decide_command_def simp del: contains_denied_transfer_invocation.simps
      split: option.splits if_splits bool.splits)

lemma decide_command_total:
  assumes "splits_words sw"
  shows "\<exists>decision. decide_command sw policy original = Some decision"
proof (cases original)
  case (Some command)
  have "contains_denied_transfer_invocation sw (Suc (length (trim command))) policy (trim command)
      = Some (invokes_denied sw policy (trim command))"
    by (rule contains_denied_enough [OF assms]) simp
  then show ?thesis
    by (cases "invokes_denied sw policy (trim command)")
      (simp_all add: decide_command_def Some split: option.split del: contains_denied_transfer_invocation.simps)
qed (simp add: decide_command_def)



section \<open>Connections and listeners spare foreign containers\<close>

lemma quiet_proxy [quiet]: "quiet (proxy_ready_to_stdio sw w r ready)"
  unfolding proxy_ready_to_stdio_def
  by (auto simp: harmless_def intro!: quiet quiet_effect split: ssh_target.split)

lemma well_guarded_bind_local_ssh [well_guarded]: "well_guarded r (bind_local_ssh sw w r)"
  unfolding bind_local_ssh_def Let_def
  by (auto simp: harmless_def intro!: well_guarded calm_quiet quiet quiet_effect split: option.split) (rule well_guarded_quiet, intro quiet)

lemma well_guarded_ready_session [well_guarded]:
  "(\<And>ready. well_guarded r (body ready)) \<Longrightarrow> well_guarded r (ready_session w r kind body)"
  unfolding ready_session_def
  by (auto intro!: well_guarded split: prod.split) (rule well_guarded_quiet, intro quiet)+

lemma well_guarded_connect [well_guarded]: "well_guarded r (connect_session sw w r)"
  unfolding connect_session_def
  by (intro well_guarded) (rule well_guarded_quiet, intro quiet)+

section \<open>The help of the gateway\<close>

definition only_action :: "string \<Rightarrow> ssh_dispatch_config" where
  "only_action name = \<lparr>allow_interactive_shell = False, allow_container_commands = False, enabled_actions = [name]\<rparr>"

text \<open>The help takes the first word of an entry for the name of its action, so it lists \<open>launch show\<close> by the action
  \<open>launch\<close>, while the dispatch requires \<open>launch-show\<close>: the help shows a command that is refused, and
  hides one that is not.\<close>

lemma help_lists_refused_launch_show:
  "help_command_enabled (only_action ''launch'') ''launch show <name>''"
  "case dispatch split_blanks None (Some ''launch show x'') False (only_action ''launch'') of Reject _ \<Rightarrow> True | _ \<Rightarrow> False"
  by code_simp+

lemma help_hides_enabled_launch_show:
  "\<not> help_command_enabled (only_action ''launch-show'') ''launch show <name>''"
  "dispatch split_blanks None (Some ''launch show x'') False (only_action ''launch-show'') = Gateway (LaunchShow ''x'' False)"
  by code_simp+

end
