(* ===== verification/Commands.thy ===== *)
theory Commands
  imports Ssh_Sessions
begin

text \<open>
  The commands of the gateway in \<open>gateway.rs\<close>: which operation each runs, with which context, and what it
  prints. The parser of the command line is not modelled; a command comes with its parsed arguments. What loading the
  configuration answers is a parameter, and so are the server of the HTTP API and the writers of JSON.
\<close>

section \<open>The paths of the configuration\<close>

definition optional_path_line :: "string \<Rightarrow> string option \<Rightarrow> string" where
  "optional_path_line label path = label @ '': '' @ unwrap_or ''unavailable'' path"

definition exists_label :: "bool \<Rightarrow> string" where
  "exists_label there = (if there then ''exists'' else ''missing'')"

fun source_label :: "config_source \<Rightarrow> string" where
  "source_label ExplicitFlag = ''explicit_flag''"
| "source_label EnvironmentSource = ''environment''"
| "source_label UserSource = ''user''"
| "source_label SystemSource = ''system''"
| "source_label NoSource = ''none''"

definition existing_path_line :: "host \<Rightarrow> string \<Rightarrow> string \<Rightarrow> string" where
  "existing_path_line h label path = label @ '': '' @ path @ '' ('' @ exists_label (h_exists h path) @ '')''"

definition config_paths_lines :: "host \<Rightarrow> config_resolution \<Rightarrow> string list" where
  "config_paths_lines h resolution =
     (case cr_user resolution of
        Some user \<Rightarrow> [''user: '' @ uc_user user, ''uid: '' @ show_nat (uc_uid user), ''gid: '' @ show_nat (uc_gid user),
          ''home: '' @ uc_home user]
      | None \<Rightarrow> [''user: unavailable''])
     @ [optional_path_line ''user_config_dir'' (cr_user_config_dir resolution),
        optional_path_line ''user_state_dir'' (cr_user_state_dir resolution),
        (case cr_user_config_file resolution of
           Some path \<Rightarrow> existing_path_line h ''user_config_file'' path
         | None \<Rightarrow> ''user_config_file: unavailable''),
        existing_path_line h ''system_config_file'' (cr_system_config_file resolution),
        (case cr_selected_path resolution of
           Some path \<Rightarrow> ''selected: '' @ path @ '' ('' @ source_label (cr_selected_source resolution) @ '')''
         | None \<Rightarrow> ''selected: none'')]"

definition config_paths ::
  "(config_resolution \<Rightarrow> string res) \<Rightarrow> host \<Rightarrow> string option \<Rightarrow> bool \<Rightarrow> string list res" where
  "config_paths to_json h config json = and_then (resolve_gateway_config h config) (\<lambda>resolution.
     if json then map_ok (\<lambda>text. [text]) (to_json resolution) else Inr (config_paths_lines h resolution))"

text \<open>The validation loads the file that is selected, without its default.\<close>

definition config_validate :: "(string \<Rightarrow> gateway_config res) \<Rightarrow> host \<Rightarrow> string option \<Rightarrow> string list res" where
  "config_validate load_file h config =
     and_then (and_then (resolve_gateway_config h config) selected_path) (\<lambda>path.
     map_ok (\<lambda>_. [''ok'']) (load_file path))"

section \<open>Commands\<close>

datatype gateway_command =
    CmdConfigValidate
  | CmdConfigPaths bool
  | CmdConnect "string option" "string option"
  | CmdUp "string option" "string option"
  | CmdRun "string option" "string option" "string option" "string list"
  | CmdShell "string option" "string option" "string option" "string list"
  | CmdLaunchShow string bool
  | CmdLaunchRun "string option list"
  | CmdLaunches bool
  | CmdStop "string option" "string option"
  | CmdRemove "string option" "string option"
  | CmdStatus "string option" "string option" bool bool
  | CmdTargets bool
  | CmdHttp
  | CmdSetDefault "string option" bool
  | CmdShowDefault
  | CmdResetDefault
  | CmdAddKey key_action
  | CmdAddHostKey "string option"
  | CmdAddContainerKey key_action
  | CmdHelp
  | CmdClientConfig "string option" "string option"
  | CmdClientBundle client_bundle_action
  | CmdFromSsh

text \<open>What the commands take from outside of the sources: the streams, the parsers and writers, the terminal and
  the environment of a session, and what loading a configuration answers.\<close>

record 's command_env =
  ce_streams :: "'s ssh_world"
  ce_parse_f64 :: "string \<Rightarrow> float_view option"
  ce_json :: json_writers
  ce_paths_json :: "config_resolution \<Rightarrow> string res"
  ce_load_file :: "string \<Rightarrow> gateway_config res"
  ce_split :: "string \<Rightarrow> string list option"
  ce_program :: "string option"
  ce_stdin :: "string res"
  ce_stdin_line :: "string res"
  ce_original :: "string option"
  ce_terminal :: bool

text \<open>What is printed of a result; a status is printed as the command asks for it, and over SSH as JSON.\<close>

definition render_command_result :: "json_writers \<Rightarrow> bool \<Rightarrow> operation_result \<Rightarrow> session_end res" where
  "render_command_result jw json result = (case result of
     ResStatus s \<Rightarrow> map_ok Printed (render_status_result (jw_status jw) s json)
   | ResStatusAll entries \<Rightarrow> map_ok Printed (render_status_all (jw_status_all jw) entries json)
   | _ \<Rightarrow> render_operation_result jw result json)"

definition operation_command ::
  "'s world \<Rightarrow> 's command_env \<Rightarrow> gateway_config res \<Rightarrow> runtime_context \<Rightarrow> bool \<Rightarrow> gateway_operation op_res
     \<Rightarrow> ('s, session_end op_res) io" where
  "operation_command w ce loaded ctx json operation =
     try_io (pure operation) (\<lambda>op1.
     try_io (execute_gateway_operation (ce_parse_f64 ce) w loaded op1 False ctx) (\<lambda>result.
     pure (as_op (render_command_result (ce_json ce) json result))))"

definition run_container_command ::
  "'s world \<Rightarrow> 's command_env \<Rightarrow> gateway_config res \<Rightarrow> runtime_context \<Rightarrow> string option \<Rightarrow> string option \<Rightarrow> string option \<Rightarrow> string list
     \<Rightarrow> ('s, session_end op_res) io" where
  "run_container_command w ce loaded ctx target session_id cwd command =
     operation_command w ce loaded ctx False (run_operation_of_args target session_id cwd command)"

definition launch_show_command ::
  "'s world \<Rightarrow> 's command_env \<Rightarrow> gateway_config res \<Rightarrow> runtime_context \<Rightarrow> string \<Rightarrow> bool
     \<Rightarrow> ('s, session_end op_res) io" where
  "launch_show_command w ce loaded ctx name json =
     operation_command w ce loaded ctx json (Inr (OpLaunchShow name))"

definition launch_run_command ::
  "'s world \<Rightarrow> 's command_env \<Rightarrow> gateway_config res \<Rightarrow> runtime_context \<Rightarrow> string option list
     \<Rightarrow> ('s, session_end op_res) io" where
  "launch_run_command w ce loaded ctx raw =
     operation_command w ce loaded ctx False
       (and_then (as_op (parse_launch_run_args raw)) (\<lambda>parsed.
        launch_operation (lra_name parsed) (lra_session_id parsed) (lra_vars parsed) (lra_args parsed)))"

definition launches_command ::
  "'s world \<Rightarrow> 's command_env \<Rightarrow> gateway_config res \<Rightarrow> runtime_context \<Rightarrow> bool
     \<Rightarrow> ('s, session_end op_res) io" where
  "launches_command w ce loaded ctx json =
     operation_command w ce loaded ctx json (Inr OpLaunches)"

definition stop_command ::
  "'s world \<Rightarrow> 's command_env \<Rightarrow> gateway_config res \<Rightarrow> runtime_context \<Rightarrow> string option \<Rightarrow> string option
     \<Rightarrow> ('s, session_end op_res) io" where
  "stop_command w ce loaded ctx target session_id =
     operation_command w ce loaded ctx False (Inr (OpStop target session_id))"

definition remove_command ::
  "'s world \<Rightarrow> 's command_env \<Rightarrow> gateway_config res \<Rightarrow> runtime_context \<Rightarrow> string option \<Rightarrow> string option
     \<Rightarrow> ('s, session_end op_res) io" where
  "remove_command w ce loaded ctx target session_id =
     operation_command w ce loaded ctx False (Inr (OpRemove target session_id))"

definition status_command ::
  "'s world \<Rightarrow> 's command_env \<Rightarrow> gateway_config res \<Rightarrow> runtime_context \<Rightarrow> string option \<Rightarrow> string option \<Rightarrow> bool \<Rightarrow> bool
     \<Rightarrow> ('s, session_end op_res) io" where
  "status_command w ce loaded ctx target session_id every json =
     operation_command w ce loaded ctx json (as_op (status_operation target session_id every))"

definition targets_command ::
  "'s world \<Rightarrow> 's command_env \<Rightarrow> gateway_config res \<Rightarrow> bool
     \<Rightarrow> ('s, session_end op_res) io" where
  "targets_command w ce loaded json =
     operation_command w ce loaded [] json (Inr OpTargets)"

definition set_default_command ::
  "'s world \<Rightarrow> 's command_env \<Rightarrow> gateway_config res \<Rightarrow> string option \<Rightarrow> bool
     \<Rightarrow> ('s, session_end op_res) io" where
  "set_default_command w ce loaded selection reset =
     operation_command w ce loaded [] False (set_default_operation reset selection)"

definition show_default_command ::
  "'s world \<Rightarrow> 's command_env \<Rightarrow> gateway_config res
     \<Rightarrow> ('s, session_end op_res) io" where
  "show_default_command w ce loaded =
     operation_command w ce loaded [] False (Inr OpShowDefault)"

definition client_config_command ::
  "'s world \<Rightarrow> 's command_env \<Rightarrow> gateway_config res \<Rightarrow> string option \<Rightarrow> string option
     \<Rightarrow> ('s, session_end op_res) io" where
  "client_config_command w ce loaded target identity_file =
     operation_command w ce loaded [] False (Inr (OpClientConfig target identity_file LocalCli))"

definition printed_op :: "string op_res \<Rightarrow> session_end op_res" where
  "printed_op r = map_ok (\<lambda>text. Printed [text]) r"

definition silent_op :: "unit op_res \<Rightarrow> session_end op_res" where
  "silent_op r = map_ok (\<lambda>_. Printed []) r"

definition run_with_context ::
  "'s world \<Rightarrow> 's command_env \<Rightarrow> ('s, unit op_res) io \<Rightarrow> string option \<Rightarrow> gateway_config res \<Rightarrow> gateway_command
     \<Rightarrow> runtime_context \<Rightarrow> ('s, session_end op_res) io" where
  "run_with_context w ce serve config loaded command ctx = (case command of
     CmdConfigValidate \<Rightarrow>
       observe (\<lambda>s. as_op (map_ok Printed (config_validate (ce_load_file ce) (w_host w s) config)))
   | CmdConfigPaths json \<Rightarrow> observe (\<lambda>s. as_op (map_ok Printed (config_paths (ce_paths_json ce) (w_host w s) config json)))
   | CmdConnect target session_id \<Rightarrow> map_io silent_op (connect (ce_streams ce) w loaded target session_id ctx)
   | CmdUp target session_id \<Rightarrow> map_io silent_op (up (ce_streams ce) w loaded target session_id ctx)
   | CmdRun target session_id cwd command \<Rightarrow> run_container_command w ce loaded ctx target session_id cwd command
   | CmdShell target session_id cwd args \<Rightarrow> map_io (map_ok exit_with_execution_outcome)
       (shell_operation w loaded target session_id cwd args ctx)
   | CmdLaunchShow name json \<Rightarrow> launch_show_command w ce loaded ctx name json
   | CmdLaunchRun raw \<Rightarrow> launch_run_command w ce loaded ctx raw
   | CmdLaunches json \<Rightarrow> launches_command w ce loaded ctx json
   | CmdStop target session_id \<Rightarrow> stop_command w ce loaded ctx target session_id
   | CmdRemove target session_id \<Rightarrow> remove_command w ce loaded ctx target session_id
   | CmdStatus target session_id every json \<Rightarrow> status_command w ce loaded ctx target session_id every json
   | CmdTargets json \<Rightarrow> targets_command w ce loaded json
   | CmdHttp \<Rightarrow> map_io silent_op serve
   | CmdSetDefault selection reset \<Rightarrow> set_default_command w ce loaded selection reset
   | CmdShowDefault \<Rightarrow> show_default_command w ce loaded
   | CmdResetDefault \<Rightarrow> set_default_command w ce loaded None True
   | CmdAddKey a \<Rightarrow>
       map_io printed_op (add_key w loaded (ce_stdin ce) (ce_stdin_line ce) (ka_target a) (ka_public_key a))
   | CmdAddHostKey public_key \<Rightarrow>
       map_io (\<lambda>r. printed_op (as_op r)) (add_host_key w (ce_stdin ce) (ce_stdin_line ce) public_key)
   | CmdAddContainerKey a \<Rightarrow>
       map_io printed_op (add_container_key w loaded (ce_stdin ce) (ce_stdin_line ce) (ka_target a) (ka_public_key a))
   | CmdHelp \<Rightarrow> pure (as_op (map_ok (\<lambda>cfg. Printed (gateway_help_lines cfg)) loaded))
   | CmdClientConfig target identity_file \<Rightarrow> client_config_command w ce loaded target identity_file
   | CmdClientBundle a \<Rightarrow> map_io printed_op
       (client_bundle_with_origin w loaded (cba_target a) (cba_identity_file a) (cba_rotate_key a) LocalCli)
   | CmdFromSsh \<Rightarrow> dispatch_from_ssh (ce_parse_f64 ce) (ce_streams ce) w (ce_json ce) (ce_split ce) (ce_program ce)
       loaded loaded (ce_stdin ce) (ce_stdin_line ce) (ce_original ce) (ce_terminal ce))"

section \<open>An SSH session runs the commands\<close>

text \<open>The command that an action over SSH stands for. The configuration of a client and its bundle know where they were asked
  for, a target that listens is brought up only by the command, and a launch comes with parsed arguments.\<close>

fun command_of_action :: "gateway_action \<Rightarrow> gateway_command option" where
  "command_of_action (Run a) = (if ra_command a = [] then None
     else Some (CmdRun (ra_target a) (ra_session_id a) (ra_cwd a) (ra_command a)))"
| "command_of_action (Launches json) = Some (CmdLaunches json)"
| "command_of_action (LaunchShow name json) = Some (CmdLaunchShow name json)"
| "command_of_action (Status a) = Some (if sta_all a then CmdStatus None None True True
     else CmdStatus (sta_target a) None False True)"
| "command_of_action (Targets json) = Some (CmdTargets json)"
| "command_of_action (Stop a) = Some (CmdStop (tsa_target a) (tsa_session_id a))"
| "command_of_action (Remove a) = Some (CmdRemove (tsa_target a) (tsa_session_id a))"
| "command_of_action (SetDefault s) = Some (CmdSetDefault (Some s) False)"
| "command_of_action ShowDefault = Some CmdShowDefault"
| "command_of_action ResetDefault = Some CmdResetDefault"
| "command_of_action (Connect a) = Some (CmdConnect (tsa_target a) (tsa_session_id a))"
| "command_of_action (AddKey a) = Some (CmdAddKey a)"
| "command_of_action (AddHostKey public_key) = Some (CmdAddHostKey public_key)"
| "command_of_action (AddContainerKey a) = Some (CmdAddContainerKey a)"
| "command_of_action Help = Some CmdHelp"
| "command_of_action _ = None"

text \<open>The result of an operation is of its kind.\<close>

definition of_kind :: "gateway_operation \<Rightarrow> operation_result \<Rightarrow> bool" where
  "of_kind operation result \<longleftrightarrow> (case operation of
     OpStatus _ _ \<Rightarrow> (\<exists>s. result = ResStatus s)
   | OpStatusAll \<Rightarrow> (\<exists>entries. result = ResStatusAll entries)
   | _ \<Rightarrow> (\<forall>s entries. result \<noteq> ResStatus s \<and> result \<noteq> ResStatusAll entries))"

lemmas command_defs = run_container_command_def launch_show_command_def launch_run_command_def launches_command_def stop_command_def remove_command_def
  status_command_def targets_command_def set_default_command_def show_default_command_def client_config_command_def

lemma answered_Inr: "fst (answered f m st) = Inr result \<Longrightarrow> \<exists>a. result = f a"
  by (auto simp: answered_def map_io_def bind_io_def pure_def res_simps split: prod.splits)

lemma answered_plain_Inr: "fst (answered_plain f m st) = Inr result \<Longrightarrow> \<exists>a. result = f a"
  unfolding answered_plain_def by (rule answered_Inr)

lemma try_io_Inr: "fst (try_io (pure r) f st) = Inr result \<Longrightarrow> \<exists>a. fst (f a st) = Inr result"
  by (cases r) (auto simp: try_io_def bind_io_def pure_def)

lemma executed_of_kind:
  assumes "fst (execute_gateway_operation parse_f64 w loaded operation cancelable ctx st) = Inr result"
  shows "of_kind operation result"
  using assms
  by (cases operation) (auto simp: execute_gateway_operation_def of_kind_def
      dest!: answered_Inr answered_plain_Inr try_io_Inr split: prod.splits)

lemma operation_command_eq:
  assumes "\<And>result. of_kind operation result \<Longrightarrow>
      render_command_result (ce_json ce) json result = render_operation_result (ce_json ce) result json'"
  shows "operation_command w ce loaded ctx json (Inr operation) =
    try_io (execute_gateway_operation (ce_parse_f64 ce) w loaded operation False ctx)
      (\<lambda>result. pure (as_op (render_operation_result (ce_json ce) result json')))"
proof
  fix st
  show "operation_command w ce loaded ctx json (Inr operation) st =
    try_io (execute_gateway_operation (ce_parse_f64 ce) w loaded operation False ctx)
      (\<lambda>result. pure (as_op (render_operation_result (ce_json ce) result json'))) st"
    using assms executed_of_kind [of "ce_parse_f64 ce" w loaded operation False ctx st]
    by (cases "execute_gateway_operation (ce_parse_f64 ce) w loaded operation False ctx st")
      (auto simp: operation_command_def try_io_def bind_io_def pure_def split: sum.split)
qed

lemma render_plain:
  "of_kind operation result \<Longrightarrow> operation \<noteq> OpStatusAll \<Longrightarrow> (\<And>target session_id. operation \<noteq> OpStatus target session_id)
    \<Longrightarrow> render_command_result jw json result = render_operation_result jw result json"
  by (cases operation; cases result) (auto simp: of_kind_def render_command_result_def)

lemma render_statuses:
  "of_kind (OpStatus target session_id) result \<Longrightarrow> render_command_result jw True result = render_operation_result jw result json"
  "of_kind OpStatusAll result \<Longrightarrow> render_command_result jw True result = render_operation_result jw result json"
  by (auto simp: of_kind_def render_command_result_def render_operation_result_def)

text \<open>An action over SSH does what its command does with an empty context, the output included; a status is
  printed as JSON.\<close>

theorem ssh_actions_are_commands:
  "case command_of_action action of
     None \<Rightarrow> True
   | Some command \<Rightarrow> run_gateway_action (ce_parse_f64 ce) (ce_streams ce) w (ce_json ce) loaded (ce_stdin ce) (ce_stdin_line ce)
       action = run_with_context w ce serve config loaded command []"
proof -
  have plain: "operation_command w ce loaded [] json (Inr operation) =
      try_io (execute_gateway_operation (ce_parse_f64 ce) w loaded operation False [])
        (\<lambda>result. pure (as_op (render_operation_result (ce_json ce) result json)))"
    if "operation \<noteq> OpStatusAll" "\<And>target session_id. operation \<noteq> OpStatus target session_id" for operation json
    by (rule operation_command_eq) (use that render_plain in blast)
  have statuses: "operation_command w ce loaded [] True (Inr operation) =
      try_io (execute_gateway_operation (ce_parse_f64 ce) w loaded operation False [])
        (\<lambda>result. pure (as_op (render_operation_result (ce_json ce) result False)))"
    if "operation = OpStatusAll \<or> (\<exists>target. operation = OpStatus target None)" for operation
    by (rule operation_command_eq) (use that render_statuses in blast)
  have pures: "try_io (pure (Inr a)) f = f a" for a :: 'x and f :: "'x \<Rightarrow> ('s, operation_error + 'y) io"
    by (simp add: try_io_def bind_io_def pure_def fun_eq_iff)
  have eta: "printed_op = map_ok (\<lambda>text. Printed [text])" "silent_op = map_ok (\<lambda>_. Printed [])"
    by (simp_all add: printed_op_def silent_op_def fun_eq_iff)
  have op: "as_op (Inr a) = Inr a" "as_op (map_ok f r) = map_ok f (as_op r)" for a :: 'z and r :: "'z res" and f :: "'z \<Rightarrow> 'u"
    by (simp_all add: as_op_def, cases r, simp_all)
  show ?thesis
    by (cases action)
      (auto simp: run_gateway_action_def run_with_context_def pures plain statuses run_operation_of_args_def
        set_default_operation_def status_operation.simps command_defs deferred_action_def eta op)
qed

end
