(* ===== verification/Http_Api.thy ===== *)
theory Http_Api
  imports Dispatch
begin

text \<open>
  The HTTP API of the gateway: \<open>gateway/http.rs\<close> with \<open>http/auth.rs\<close>, \<open>http/response.rs\<close> and
  \<open>http/output_projection.rs\<close>. Requests are authorized, checked and turned into operations; results and
  errors become responses; prepared interactive sessions wait as leases for their client, and a shutdown
  waits for what is active.

  The server of the library and the encodings are parameters: a request comes with its header, its decoded
  query and what the decoder of JSON makes of its body, and \<open>from_utf8\<close>, the parser of JSON and the views of
  a number are functions. A socket is the sequence of what it receives.
\<close>

section \<open>Errors and responses\<close>

datatype error_code =
    Unauthorized | DisabledActionCode | NotFound | InvalidRequestCode | InvalidMode | InvalidOutput
  | InvalidLaunchVar | InvalidLaunchArgsCode | OperationFailedCode

fun error_code_text :: "error_code \<Rightarrow> string" where
  "error_code_text Unauthorized = ''unauthorized''"
| "error_code_text DisabledActionCode = ''disabled_action''"
| "error_code_text NotFound = ''not_found''"
| "error_code_text InvalidRequestCode = ''invalid_request''"
| "error_code_text InvalidMode = ''invalid_mode''"
| "error_code_text InvalidOutput = ''invalid_output''"
| "error_code_text InvalidLaunchVar = ''invalid_launch_var''"
| "error_code_text InvalidLaunchArgsCode = ''invalid_launch_args''"
| "error_code_text OperationFailedCode = ''operation_failed''"

record http_error =
  he_status :: nat
  he_code :: error_code
  he_message :: string

definition http_error_of :: "nat \<Rightarrow> error_code \<Rightarrow> string \<Rightarrow> http_error" where
  "http_error_of status code message = \<lparr>he_status = status, he_code = code, he_message = message\<rparr>"

definition unauthorized :: "string \<Rightarrow> http_error" where "unauthorized = http_error_of 401 Unauthorized"
definition disabled_action :: "string \<Rightarrow> http_error" where "disabled_action = http_error_of 403 DisabledActionCode"
definition not_found :: "string \<Rightarrow> http_error" where "not_found = http_error_of 404 NotFound"
definition invalid_request :: "string \<Rightarrow> http_error" where "invalid_request = http_error_of 400 InvalidRequestCode"
definition invalid_mode :: "string \<Rightarrow> http_error" where "invalid_mode = http_error_of 400 InvalidMode"
definition invalid_output :: "string \<Rightarrow> http_error" where "invalid_output = http_error_of 400 InvalidOutput"
definition http_operation_failed :: "string \<Rightarrow> http_error" where
  "http_operation_failed = http_error_of 500 OperationFailedCode"

record pty_lease_created =
  plc_pty_id :: string
  plc_attach_token :: string
  plc_session_id :: "string option"
  plc_attach_url :: string

datatype http_body =
    NoBody | ErrorBody string string | DataBody operation_result | JsonBody json | LeaseBody pty_lease_created

record http_response =
  hr_status :: nat
  hr_body :: http_body

definition error_response :: "http_error \<Rightarrow> http_response" where
  "error_response e = \<lparr>hr_status = he_status e, hr_body = ErrorBody (error_code_text (he_code e)) (he_message e)\<rparr>"

definition INTERNAL_OPERATION_FAILED_MESSAGE :: string where
  "INTERNAL_OPERATION_FAILED_MESSAGE = ''internal operation failed''"

definition internal_operation_failed :: http_error where
  "internal_operation_failed = http_operation_failed INTERNAL_OPERATION_FAILED_MESSAGE"

fun http_error_of_operation :: "operation_error \<Rightarrow> http_error" where
  "http_error_of_operation (InvalidRequest message) = invalid_request message"
| "http_error_of_operation (InvalidSession message) = invalid_request message"
| "http_error_of_operation (DisabledAction message) = disabled_action message"
| "http_error_of_operation (UnknownLaunch message) = not_found message"
| "http_error_of_operation (InvalidLaunchVariable message) = http_error_of 400 InvalidLaunchVar message"
| "http_error_of_operation (InvalidLaunchArgs message) = http_error_of 400 InvalidLaunchArgsCode message"
| "http_error_of_operation (AgentNotReady _) = internal_operation_failed"
| "http_error_of_operation (ContainerNotFound _) = internal_operation_failed"
| "http_error_of_operation (ContainerLabelMismatch _) = internal_operation_failed"
| "http_error_of_operation (OperationFailed _) = internal_operation_failed"

definition operation_error_response :: "operation_error \<Rightarrow> http_response" where
  "operation_error_response e = error_response (http_error_of_operation e)"

definition success_data :: "operation_result \<Rightarrow> http_response" where
  "success_data data = \<lparr>hr_status = 200, hr_body = DataBody data\<rparr>"

definition metadata_result_response :: "operation_result \<Rightarrow> http_response" where
  "metadata_result_response result = (case result of
     ResRun _ \<Rightarrow> error_response (http_operation_failed ''operation returned an unexpected result'')
   | ResLaunch _ \<Rightarrow> error_response (http_operation_failed ''operation returned an unexpected result'')
   | ResDefaultSelection _ \<Rightarrow> error_response (http_operation_failed ''operation returned an unexpected result'')
   | ResClientConfig _ _ \<Rightarrow> error_response (http_operation_failed ''operation returned an unexpected result'')
   | _ \<Rightarrow> success_data result)"

section \<open>Authorization\<close>

text \<open>\<open>HeaderValue::to_str\<close> accepts visible ASCII, the space and the tab.\<close>

definition visible_ascii :: "string \<Rightarrow> bool" where
  "visible_ascii v = list_all (\<lambda>c. (CHR 0x20 \<le> c \<and> c < CHR 0x7F) \<or> c = CHR 0x09) v"

definition supplied_bearer :: "string option \<Rightarrow> string option" where
  "supplied_bearer header = (case header of
     None \<Rightarrow> None
   | Some v \<Rightarrow> if \<not> visible_ascii v then None else (case strip_prefix ''Bearer '' v of
       Some token \<Rightarrow> if token = [] then None else Some token
     | None \<Rightarrow> None))"

definition authorize_bearer :: "http_config \<Rightarrow> string option \<Rightarrow> http_error + unit" where
  "authorize_bearer cfg header = (case supplied_bearer header of
     None \<Rightarrow> Inl (unauthorized ''unauthorized'')
   | Some supplied \<Rightarrow> (case ha_token (hc_auth cfg) of
       None \<Rightarrow> Inl (unauthorized ''unauthorized'')
     | Some expected \<Rightarrow>
         if constant_time_eq (as_bytes supplied) (as_bytes expected) then Inr ()
         else Inl (unauthorized ''unauthorized'')))"

definition authorize :: "http_config \<Rightarrow> string option \<Rightarrow> http_error + unit" where
  "authorize cfg header = (case ha_type (hc_auth cfg) of
     AuthNone \<Rightarrow> Inr () | AuthBearer \<Rightarrow> authorize_bearer cfg header)"

text \<open>Both kinds of error of an action become the response of an HTTP error.\<close>

definition authorize_action :: "http_config \<Rightarrow> string option \<Rightarrow> string \<Rightarrow> http_error + unit" where
  "authorize_action cfg header action =
     and_then (authorize cfg header) (\<lambda>_.
     if action \<in> set (hc_enabled_actions cfg) then Inr ()
     else Inl (http_error_of_operation (DisabledAction (fill_format ''http action {} is disabled'' [action]))))"

section \<open>The output of a command\<close>

datatype output_format = TextFormat | JsonFormat

fun output_format_text :: "output_format \<Rightarrow> string" where
  "output_format_text TextFormat = ''text''"
| "output_format_text JsonFormat = ''json''"

record output_formats =
  of_stdout :: output_format
  of_stderr :: output_format

definition TEXT_FORMATS :: output_formats where
  "TEXT_FORMATS = \<lparr>of_stdout = TextFormat, of_stderr = TextFormat\<rparr>"

datatype projection_error = InvalidJson | InvalidUtf8

fun projection_error_text :: "projection_error \<Rightarrow> string" where
  "projection_error_text InvalidJson = ''invalid_json''"
| "projection_error_text InvalidUtf8 = ''invalid_utf8''"

fun projection_error_message :: "projection_error \<Rightarrow> string \<Rightarrow> string" where
  "projection_error_message InvalidJson stream = ''captured '' @ stream @ '' is not valid JSON''"
| "projection_error_message InvalidUtf8 stream = ''captured '' @ stream @ '' is not valid UTF-8''"

type_synonym json_map = "(string, json) btree"

definition insert_output_error :: "string \<Rightarrow> output_format \<Rightarrow> projection_error \<Rightarrow> json_map \<Rightarrow> json_map" where
  "insert_output_error stream fmt e output_errors = bt_insert stream
     (JObject [(''code'', JString (projection_error_text e)), (''format'', JString (output_format_text fmt)),
       (''message'', JString (projection_error_message e stream))]) output_errors"

definition project_stream ::
  "(string \<Rightarrow> string option) \<Rightarrow> (string \<Rightarrow> json option) \<Rightarrow> string \<Rightarrow> string \<Rightarrow> output_format
     \<Rightarrow> json_map \<times> json_map \<Rightarrow> json_map \<times> json_map" where
  "project_stream from_utf8 parse_json stream raw fmt = (\<lambda>(payload, output_errors).
     case from_utf8 raw of
       None \<Rightarrow> (payload, insert_output_error stream fmt InvalidUtf8 output_errors)
     | Some text \<Rightarrow> (case fmt of
         TextFormat \<Rightarrow> (bt_insert stream (JString text) payload, output_errors)
       | JsonFormat \<Rightarrow> (case parse_json text of
           Some v \<Rightarrow> (bt_insert (stream @ ''_json'') v payload, output_errors)
         | None \<Rightarrow> (bt_insert stream (JString text) payload, insert_output_error stream fmt InvalidJson output_errors))))"

definition truncated_flags :: "string \<Rightarrow> captured_stream option \<Rightarrow> json_map \<Rightarrow> json_map" where
  "truncated_flags stream captured flags = (case captured of
     Some s \<Rightarrow> if cst_truncated s then bt_insert stream (JBool True) flags else flags | None \<Rightarrow> flags)"

definition project_captured ::
  "(string \<Rightarrow> string option) \<Rightarrow> (string \<Rightarrow> json option) \<Rightarrow> string \<Rightarrow> captured_stream option \<Rightarrow> output_format
     \<Rightarrow> json_map \<times> json_map \<Rightarrow> json_map \<times> json_map" where
  "project_captured from_utf8 parse_json stream captured fmt maps = (case captured of
     Some s \<Rightarrow> project_stream from_utf8 parse_json stream (cst_bytes s) fmt maps | None \<Rightarrow> maps)"

definition insert_nonempty :: "string \<Rightarrow> json_map \<Rightarrow> json_map \<Rightarrow> json_map" where
  "insert_nonempty key m payload = (if m = [] then payload else bt_insert key (JObject m) payload)"

definition project_wait_payload ::
  "(string \<Rightarrow> string option) \<Rightarrow> (string \<Rightarrow> json option) \<Rightarrow> int \<Rightarrow> captured_stream option \<Rightarrow> captured_stream option
     \<Rightarrow> output_formats \<Rightarrow> json_map" where
  "project_wait_payload from_utf8 parse_json code out err formats =
     (let payload = bt_extend [] [(''ok'', JBool True), (''mode'', JString ''wait''), (''exit_code'', JNumber (show_int code))];
          truncated = truncated_flags ''stderr'' err (truncated_flags ''stdout'' out []);
          (payload, output_errors) = project_captured from_utf8 parse_json ''stderr'' err (of_stderr formats)
            (project_captured from_utf8 parse_json ''stdout'' out (of_stdout formats) (payload, [])) in
      insert_nonempty ''output_errors'' output_errors (insert_nonempty ''output_truncated'' truncated payload))"

definition execution_response ::
  "(string \<Rightarrow> string option) \<Rightarrow> (string \<Rightarrow> json option) \<Rightarrow> execution_outcome \<Rightarrow> output_formats \<Rightarrow> http_response" where
  "execution_response from_utf8 parse_json outcome formats = (case outcome of
     Captured code out err \<Rightarrow> \<lparr>hr_status = 200,
       hr_body = JsonBody (JObject (project_wait_payload from_utf8 parse_json code out err formats))\<rparr>
   | Detached operation_id \<Rightarrow> \<lparr>hr_status = 202, hr_body = JsonBody (JObject
       [(''mode'', JString ''detach''), (''ok'', JBool True), (''operation_id'', JString operation_id),
        (''status'', JString ''accepted'')])\<rparr>
   | Streamed _ \<Rightarrow> error_response (http_operation_failed ''http operations must use wait or detach mode'')
   | Canceled _ \<Rightarrow> error_response (http_operation_failed ''operation canceled''))"

section \<open>The query of a status\<close>

record status_query =
  sq_target :: "string option"
  sq_session_id :: "string option"
  sq_context :: runtime_context

text \<open>The loop over the decoded pairs; a context key was seen exactly when the context has it.\<close>

fun status_query_loop :: "status_query \<Rightarrow> (string \<times> string) list \<Rightarrow> http_error + status_query" where
  "status_query_loop q [] = Inr q"
| "status_query_loop q ((key, v) # rest) =
     (if key = ''target'' then
        (if sq_target q \<noteq> None then Inl (invalid_request ''duplicate status query parameter \"target\"'')
         else status_query_loop (q\<lparr>sq_target := Some v\<rparr>) rest)
      else if key = ''session_id'' then
        (if sq_session_id q \<noteq> None then Inl (invalid_request ''duplicate status query parameter \"session_id\"'')
         else status_query_loop (q\<lparr>sq_session_id := Some v\<rparr>) rest)
      else (case strip_prefix ''context.'' key of
          None \<Rightarrow> Inl (invalid_request (fill_format ''unknown status query parameter {}'' [key]))
        | Some context_key \<Rightarrow>
            if context_key = [] then Inl (invalid_request ''context query parameters must use context.<key>=value'')
            else if bt_contains (sq_context q) context_key
            then Inl (invalid_request (fill_format ''duplicate context key {}'' [context_key]))
            else status_query_loop (q\<lparr>sq_context := bt_insert context_key v (sq_context q)\<rparr>) rest))"

definition parse_status_query :: "(string \<times> string) list \<Rightarrow> http_error + status_query" where
  "parse_status_query pairs = status_query_loop \<lparr>sq_target = None, sq_session_id = None, sq_context = []\<rparr> pairs"

section \<open>The options of an execution\<close>

definition output_selection :: "string list option \<Rightarrow> http_error + bool \<times> bool" where
  "output_selection output = (case output of
     None \<Rightarrow> Inr (True, True)
   | Some streams \<Rightarrow>
       if streams = [] then Inl (invalid_output ''output must not be empty'')
       else map_ok (\<lambda>seen. (''stdout'' \<in> set seen, ''stderr'' \<in> set seen))
         (fold (\<lambda>stream selected. and_then selected (\<lambda>seen.
            if stream \<in> set seen then Inl (invalid_output (fill_format ''duplicate output stream {}'' [stream]))
            else if stream \<in> {''stdout'', ''stderr''} then Inr (stream # seen)
            else Inl (invalid_output (fill_format ''unknown output stream {}'' [stream])))) streams (Inr [])))"

definition output_format_of :: "string \<Rightarrow> string \<Rightarrow> http_error + output_format" where
  "output_format_of stream fmt =
     (if fmt = ''text'' then Inr TextFormat
      else if fmt = ''json'' then Inr JsonFormat
      else Inl (invalid_output (fill_format ''unknown output format {} for stream {}'' [fmt, stream])))"

fun output_formats_loop :: "bool \<times> bool \<Rightarrow> output_formats \<Rightarrow> (string \<times> string) list \<Rightarrow> http_error + output_formats" where
  "output_formats_loop selection formats [] = Inr formats"
| "output_formats_loop selection formats ((stream, fmt) # rest) =
     (if stream \<notin> {''stdout'', ''stderr''}
      then Inl (invalid_output (fill_format ''unknown output_format stream {}'' [stream]))
      else if \<not> (if stream = ''stdout'' then fst selection else snd selection)
      then Inl (invalid_output (fill_format ''output_format stream {} is not selected'' [stream]))
      else and_then (output_format_of stream fmt) (\<lambda>parsed.
        output_formats_loop selection
          (if stream = ''stdout'' then formats\<lparr>of_stdout := parsed\<rparr> else formats\<lparr>of_stderr := parsed\<rparr>) rest))"

definition validate_output_formats :: "env_map option \<Rightarrow> bool \<times> bool \<Rightarrow> http_error + output_formats" where
  "validate_output_formats output_format selection = (case output_format of
     None \<Rightarrow> Inr TEXT_FORMATS | Some fs \<Rightarrow> output_formats_loop selection TEXT_FORMATS fs)"

definition execution_request_options ::
  "string option \<Rightarrow> string list option \<Rightarrow> env_map option \<Rightarrow> http_error + execution_options \<times> output_formats" where
  "execution_request_options mode output output_format =
     and_then (if unwrap_or ''wait'' mode = ''wait'' then Inr ModeWait
       else if unwrap_or ''wait'' mode = ''detach'' then Inr ModeDetach
       else Inl (invalid_mode ''mode must be \"wait\", \"detach\", or \"pty\"'')) (\<lambda>mode.
     if mode = ModeDetach \<and> output \<noteq> None then Inl (invalid_output ''output is only supported for wait mode'')
     else if mode = ModeDetach \<and> output_format \<noteq> None
     then Inl (invalid_output ''output_format is only supported for wait mode'')
     else and_then (output_selection output) (\<lambda>selection.
       and_then (validate_output_formats output_format selection) (\<lambda>formats.
       Inr (\<lparr>xo_mode = mode, xo_stdout = fst selection, xo_stderr = snd selection\<rparr>, formats))))"

definition is_pty_mode :: "string option \<Rightarrow> bool" where
  "is_pty_mode mode \<longleftrightarrow> mode = Some ''pty''"

definition validate_run_command :: "string list \<Rightarrow> http_error + unit" where
  "validate_run_command command =
     (if command = [] then Inl (invalid_request ''command must not be empty'')
      else if [] \<in> set command then Inl (invalid_request ''command elements must not be empty'')
      else Inr ())"

definition reject_pty_output :: "string list option \<Rightarrow> env_map option \<Rightarrow> http_error + unit" where
  "reject_pty_output output output_format =
     (if output \<noteq> None then Inl (invalid_output ''output is only supported for wait mode'')
      else if output_format \<noteq> None then Inl (invalid_output ''output_format is only supported for wait mode'')
      else Inr ())"

section \<open>Sizes of a terminal\<close>

record pty_size =
  ps_cols :: nat
  ps_rows :: nat
  ps_pixel_width :: nat
  ps_pixel_height :: nat

record terminal_request =
  tr_cols :: nat
  tr_rows :: nat
  tr_cell_width_px :: "nat option"
  tr_cell_height_px :: "nat option"

definition validate_dimension :: "string \<Rightarrow> nat \<Rightarrow> nat \<Rightarrow> nat \<Rightarrow> http_error + nat" where
  "validate_dimension name v low high =
     (if v < low \<or> v > high
      then Inl (invalid_request (fill_format ''{} must be between {} and {}'' [name, show_nat low, show_nat high]))
      else Inr v)"

text \<open>The bounds of columns and rows.\<close>

definition MIN_TERMINAL_COLS :: nat where "MIN_TERMINAL_COLS = 10"
definition MAX_TERMINAL_COLS :: nat where "MAX_TERMINAL_COLS = 500"
definition MIN_TERMINAL_ROWS :: nat where "MIN_TERMINAL_ROWS = 2"
definition MAX_TERMINAL_ROWS :: nat where "MAX_TERMINAL_ROWS = 300"

definition checked_size :: "string \<Rightarrow> terminal_request \<Rightarrow> http_error + pty_size" where
  "checked_size field t =
     and_then (validate_dimension (field @ ''cols'') (tr_cols t) MIN_TERMINAL_COLS MAX_TERMINAL_COLS) (\<lambda>cols.
     and_then (validate_dimension (field @ ''rows'') (tr_rows t) MIN_TERMINAL_ROWS MAX_TERMINAL_ROWS) (\<lambda>rows.
     Inr \<lparr>ps_cols = cols, ps_rows = rows, ps_pixel_width = unwrap_or 0 (tr_cell_width_px t),
          ps_pixel_height = unwrap_or 0 (tr_cell_height_px t)\<rparr>))"

definition terminal_size :: "terminal_request option \<Rightarrow> http_error + pty_size" where
  "terminal_size terminal = and_then (ok_or (invalid_request ''terminal is required for pty mode'') terminal)
     (checked_size ''terminal.'')"

section \<open>Bodies of requests\<close>

record target_request =
  tq_target :: "string option"
  tq_session_id :: "string option"
  tq_context :: "runtime_context option"

record run_request =
  rq_target :: "string option"
  rq_session_id :: "string option"
  rq_context :: "runtime_context option"
  rq_cwd :: "string option"
  rq_command :: "string list"
  rq_mode :: "string option"
  rq_terminal :: "terminal_request option"
  rq_output :: "string list option"
  rq_output_format :: "env_map option"

record launch_run_request =
  lq_session_id :: "string option"
  lq_context :: "runtime_context option"
  lq_vars :: "supplied_vars option"
  lq_args :: "string list option"
  lq_mode :: "string option"
  lq_terminal :: "terminal_request option"
  lq_output :: "string list option"
  lq_output_format :: "env_map option"

text \<open>The variables of a launch as an object of JSON, entry by entry, and its arguments; a number is seen as
  an integer of 64 bits or a float.\<close>

fun launch_vars_loop ::
  "(string \<Rightarrow> int option \<times> float_view option) \<Rightarrow> supplied_vars \<Rightarrow> (string \<times> json) list \<Rightarrow> string + supplied_vars" where
  "launch_vars_loop number_view vars [] = Inr vars"
| "launch_vars_loop number_view vars ((key, v) # rest) =
     and_then (case v of
         JString s \<Rightarrow> Inr (CvString s)
       | JBool b \<Rightarrow> Inr (CvBoolean b)
       | JNumber n \<Rightarrow> from_json_number key (fst (number_view n)) (snd (number_view n))
       | _ \<Rightarrow> Inl (fill_format ''invalid launch variable {}: value must be string, boolean, or number'' [key])) (\<lambda>c.
     and_then (map_err operation_error_text (supply_value vars key c)) (\<lambda>vars.
     launch_vars_loop number_view vars rest))"

definition launch_vars_of_json ::
  "(string \<Rightarrow> int option \<times> float_view option) \<Rightarrow> json \<Rightarrow> string + supplied_vars option" where
  "launch_vars_of_json number_view v = (case v of
     JNull \<Rightarrow> Inl ''launch variables must be an object''
   | JObject entries \<Rightarrow> map_ok Some (launch_vars_loop number_view [] entries)
   | _ \<Rightarrow> Inl ''invalid type, expected a launch variable object'')"

definition launch_args_of_json :: "json \<Rightarrow> string + string list option" where
  "launch_args_of_json v = (case v of
     JNull \<Rightarrow> Inl ''invalid launch args: args must be an array''
   | JArray elements \<Rightarrow> and_then (collect_ok (\<lambda>e. ok_or ''invalid launch args: invalid type, expected a string'' (json_str e))
       elements) (\<lambda>values. map_ok Some (map_err operation_error_text (launch_passthrough_args values)))
   | _ \<Rightarrow> Inl ''invalid launch args: invalid type, expected a sequence'')"

definition is_launch_args_error :: "string \<Rightarrow> bool" where
  "is_launch_args_error text \<longleftrightarrow> contains_str ''invalid launch args'' text \<or> contains_str ''launch args must'' text"

definition is_launch_var_error :: "string \<Rightarrow> bool" where
  "is_launch_var_error text \<longleftrightarrow> contains_str ''launch variable'' text \<or> contains_str ''launch var'' text"

text \<open>A body is what the decoder makes of it: an error, as it is shown, or a value.\<close>

definition parse_body :: "error_code \<Rightarrow> string + 'a \<Rightarrow> http_error + 'a" where
  "parse_body semantic_code decoded = map_err (\<lambda>text.
     if semantic_code = InvalidLaunchVar \<and> is_launch_args_error text then http_error_of 400 InvalidLaunchArgsCode text
     else if semantic_code = InvalidLaunchVar \<and> is_launch_var_error text then http_error_of 400 InvalidLaunchVar text
     else invalid_request text) decoded"

section \<open>Handling a request\<close>

text \<open>The routes with what their request is decoded to.\<close>

datatype http_request =
    GetStatus "(string \<times> string) list"
  | GetStatusAll "(string \<times> string) list"
  | GetTargets
  | PostUp "string + target_request"
  | PostStop "string + target_request"
  | PostRemove "string + target_request"
  | GetLaunches
  | GetLaunch string
  | PostLaunchRun string "string + launch_run_request"
  | PostRun "string + run_request"
  | GetPty string
  | OtherRoute string

record prepared_lease =
  pl_attach_token :: string
  pl_terminal :: pty_size
  pl_guard :: operation_guard
  pl_command :: prepared_command

type_synonym leases = "(string, prepared_lease) btree"

text \<open>The state of the server that a request sees: the configuration it was started with, the one that is
  loaded for an operation, and the leases. Functions of the encodings come along.\<close>

record app_state =
  as_config :: gateway_config
  as_loaded :: "gateway_config res"
  as_parse_f64 :: "string \<Rightarrow> float_view option"
  as_from_utf8 :: "string \<Rightarrow> string option"
  as_parse_json :: "string \<Rightarrow> json option"

text \<open>An answer is a response and the lease that it made.\<close>

type_synonym http_answer = "http_response \<times> (string \<times> prepared_lease) option"

definition respond :: "http_response \<Rightarrow> ('s, http_answer) io" where
  "respond response = pure (response, None)"

definition refuse :: "http_error \<Rightarrow> ('s, http_answer) io" where
  "refuse e = respond (error_response e)"

definition checked_io :: "http_error + 'a \<Rightarrow> ('a \<Rightarrow> ('s, http_answer) io) \<Rightarrow> ('s, http_answer) io" where
  "checked_io r f = (case r of Inl e \<Rightarrow> refuse e | Inr a \<Rightarrow> f a)"

definition metadata_response :: "operation_result op_res \<Rightarrow> http_response" where
  "metadata_response r = (case r of Inr result \<Rightarrow> metadata_result_response result | Inl e \<Rightarrow> operation_error_response e)"

definition handle_metadata ::
  "'s world \<Rightarrow> app_state \<Rightarrow> string option \<Rightarrow> string \<Rightarrow> http_error + (gateway_operation \<times> runtime_context) \<Rightarrow> ('s, http_answer) io" where
  "handle_metadata w a header action operation =
     checked_io (authorize_action (gc_http (as_config a)) header action) (\<lambda>_.
     checked_io operation (\<lambda>(op1, ctx).
     map_io (\<lambda>r. (metadata_response r, None))
       (execute_gateway_operation (as_parse_f64 a) w (as_loaded a) op1 False ctx)))"

definition target_operation ::
  "(string option \<Rightarrow> string option \<Rightarrow> gateway_operation) \<Rightarrow> string + target_request \<Rightarrow> http_error + (gateway_operation \<times> runtime_context)" where
  "target_operation operation_for decoded =
     map_ok (\<lambda>q. (operation_for (tq_target q) (tq_session_id q), unwrap_or [] (tq_context q))) (parse_body InvalidRequestCode decoded)"

definition status_all_request :: "(string \<times> string) list \<Rightarrow> http_error + (gateway_operation \<times> runtime_context)" where
  "status_all_request pairs = and_then (parse_status_query pairs) (\<lambda>q.
     if sq_target q \<noteq> None \<or> sq_session_id q \<noteq> None
     then Inl (invalid_request ''status/all query only accepts context.<key> parameters'')
     else Inr (OpStatusAll, sq_context q))"

definition execution_result_response :: "app_state \<Rightarrow> output_formats \<Rightarrow> operation_result op_res \<Rightarrow> http_response" where
  "execution_result_response a formats r = (case r of
     Inr (ResRun outcome) \<Rightarrow> execution_response (as_from_utf8 a) (as_parse_json a) outcome formats
   | Inr (ResLaunch outcome) \<Rightarrow> execution_response (as_from_utf8 a) (as_parse_json a) outcome formats
   | Inr _ \<Rightarrow> error_response (http_operation_failed ''operation returned an unexpected result'')
   | Inl e \<Rightarrow> operation_error_response e)"

text \<open>An operation that is waited for can be cancelled, by the shutdown or when its client goes away.\<close>

definition execute_http_execution ::
  "'s world \<Rightarrow> app_state \<Rightarrow> gateway_operation \<Rightarrow> output_formats \<Rightarrow> operation_mode \<Rightarrow> runtime_context \<Rightarrow> ('s, http_answer) io" where
  "execute_http_execution w a operation formats mode ctx =
     map_io (\<lambda>r. (execution_result_response a formats r, None))
       (execute_gateway_operation (as_parse_f64 a) w (as_loaded a) operation (mode = ModeWait) ctx)"

section \<open>Interactive sessions wait for their client\<close>

definition insert_lease ::
  "host \<Rightarrow> operation_guard \<Rightarrow> prepared_command \<Rightarrow> pty_size \<Rightarrow> (pty_lease_created \<times> string \<times> prepared_lease) res" where
  "insert_lease h guard prepared terminal =
     and_then (random_hex_token h) (\<lambda>id_token.
     and_then (random_hex_token h) (\<lambda>attach.
     let pty_id = ''pty_'' @ id_token; attach_token = ''awpt_'' @ attach in
     Inr (\<lparr>plc_pty_id = pty_id, plc_attach_token = attach_token, plc_session_id = ry_session_id (pc_ready prepared),
            plc_attach_url = ''/api/v1/pty/'' @ pty_id\<rparr>,
          pty_id, \<lparr>pl_attach_token = attach_token, pl_terminal = terminal, pl_guard = guard, pl_command = prepared\<rparr>)))"

definition lease_response :: "host \<Rightarrow> pty_size \<Rightarrow> (operation_guard \<times> prepared_command) op_res \<Rightarrow> http_answer" where
  "lease_response h terminal prepared = (case prepared of
     Inl e \<Rightarrow> (operation_error_response e, None)
   | Inr (guard, p) \<Rightarrow> (case insert_lease h guard p terminal of
       Inl _ \<Rightarrow> (error_response internal_operation_failed, None)
     | Inr (created, lease) \<Rightarrow> (\<lparr>hr_status = 201, hr_body = LeaseBody created\<rparr>, Some lease)))"

text \<open>Randomness is read after the session was prepared.\<close>

definition lease_io ::
  "'s world \<Rightarrow> pty_size \<Rightarrow> ('s, (operation_guard \<times> prepared_command) op_res) io \<Rightarrow> ('s, http_answer) io" where
  "lease_io w terminal m = bind_io m (\<lambda>prepared. bind_io (observe (w_host w)) (\<lambda>h. pure (lease_response h terminal prepared)))"

definition prepare_pty_run :: "'s world \<Rightarrow> app_state \<Rightarrow> run_request \<Rightarrow> ('s, http_answer) io" where
  "prepare_pty_run w a q =
     checked_io (reject_pty_output (rq_output q) (rq_output_format q)) (\<lambda>_.
     checked_io (terminal_size (rq_terminal q)) (\<lambda>terminal.
     lease_io w terminal (prepare_run_execution_with_config w (as_config a) (rq_target q) (rq_session_id q) (rq_cwd q)
       (rq_command q) (unwrap_or [] (rq_context q)))))"

definition prepare_pty_launch :: "'s world \<Rightarrow> app_state \<Rightarrow> string \<Rightarrow> launch_run_request \<Rightarrow> ('s, http_answer) io" where
  "prepare_pty_launch w a name q =
     checked_io (reject_pty_output (lq_output q) (lq_output_format q)) (\<lambda>_.
     checked_io (terminal_size (lq_terminal q)) (\<lambda>terminal.
     lease_io w terminal (prepare_launch_execution_with_config (as_parse_f64 a) w (as_config a) name (lq_session_id q)
       (unwrap_or [] (lq_vars q)) (unwrap_or [] (lq_args q)) (unwrap_or [] (lq_context q)))))"

definition handle_launch_run ::
  "'s world \<Rightarrow> app_state \<Rightarrow> string option \<Rightarrow> string \<Rightarrow> string + launch_run_request \<Rightarrow> ('s, http_answer) io" where
  "handle_launch_run w a header name decoded =
     checked_io (authorize_action (gc_http (as_config a)) header ''launch'') (\<lambda>_.
     checked_io (parse_body InvalidLaunchVar decoded) (\<lambda>q.
     if is_pty_mode (lq_mode q) then prepare_pty_launch w a name q
     else checked_io (execution_request_options (lq_mode q) (lq_output q) (lq_output_format q)) (\<lambda>(options, formats).
       execute_http_execution w a
         (OpLaunch name (lq_session_id q) (unwrap_or [] (lq_vars q)) (unwrap_or [] (lq_args q)) options)
         formats (xo_mode options) (unwrap_or [] (lq_context q)))))"

definition handle_run :: "'s world \<Rightarrow> app_state \<Rightarrow> string option \<Rightarrow> string + run_request \<Rightarrow> ('s, http_answer) io" where
  "handle_run w a header decoded =
     checked_io (authorize_action (gc_http (as_config a)) header ''run'') (\<lambda>_.
     checked_io (parse_body InvalidRequestCode decoded) (\<lambda>q.
     checked_io (validate_run_command (rq_command q)) (\<lambda>_.
     if is_pty_mode (rq_mode q) then prepare_pty_run w a q
     else checked_io (execution_request_options (rq_mode q) (rq_output q) (rq_output_format q)) (\<lambda>(options, formats).
       execute_http_execution w a
         (OpRun (rq_target q) (rq_session_id q) (rq_cwd q) (rq_command q) options)
         formats (xo_mode options) (unwrap_or [] (rq_context q))))))"

text \<open>A client attaches over a socket that the server upgrades to.\<close>

definition pty_attach :: "leases \<Rightarrow> string \<Rightarrow> http_response" where
  "pty_attach leases pty_id =
     (if bt_contains leases pty_id then \<lparr>hr_status = 101, hr_body = NoBody\<rparr>
      else error_response (not_found ''pty lease not found''))"

definition handle_not_found :: "app_state \<Rightarrow> string option \<Rightarrow> string \<Rightarrow> http_response" where
  "handle_not_found a header path =
     (if \<not> starts_with ''/api/v1/'' path then error_response (not_found ''route not found'')
      else (case authorize (gc_http (as_config a)) header of
          Inr _ \<Rightarrow> error_response (not_found ''route not found'') | Inl e \<Rightarrow> error_response e))"

definition handle_request ::
  "'s world \<Rightarrow> app_state \<Rightarrow> leases \<Rightarrow> string option \<Rightarrow> http_request \<Rightarrow> ('s, http_answer) io" where
  "handle_request w a leases header request = (case request of
     GetStatus pairs \<Rightarrow> handle_metadata w a header ''status''
       (map_ok (\<lambda>q. (OpStatus (sq_target q) (sq_session_id q), sq_context q)) (parse_status_query pairs))
   | GetStatusAll pairs \<Rightarrow> handle_metadata w a header ''status'' (status_all_request pairs)
   | GetTargets \<Rightarrow> handle_metadata w a header ''targets'' (Inr (OpTargets, []))
   | PostUp decoded \<Rightarrow> handle_metadata w a header ''up'' (target_operation OpUp decoded)
   | PostStop decoded \<Rightarrow> handle_metadata w a header ''stop'' (target_operation OpStop decoded)
   | PostRemove decoded \<Rightarrow> handle_metadata w a header ''remove'' (target_operation OpRemove decoded)
   | GetLaunches \<Rightarrow> handle_metadata w a header ''launches'' (Inr (OpLaunches, []))
   | GetLaunch name \<Rightarrow> handle_metadata w a header ''launch-show'' (Inr (OpLaunchShow name, []))
   | PostLaunchRun name decoded \<Rightarrow> handle_launch_run w a header name decoded
   | PostRun decoded \<Rightarrow> handle_run w a header decoded
   | GetPty pty_id \<Rightarrow> respond (pty_attach leases pty_id)
   | OtherRoute path \<Rightarrow> respond (handle_not_found a header path))"

section \<open>Requests without permission run nothing\<close>

fun request_action :: "http_request \<Rightarrow> string option" where
  "request_action (GetStatus _) = Some ''status''"
| "request_action (GetStatusAll _) = Some ''status''"
| "request_action GetTargets = Some ''targets''"
| "request_action (PostUp _) = Some ''up''"
| "request_action (PostStop _) = Some ''stop''"
| "request_action (PostRemove _) = Some ''remove''"
| "request_action GetLaunches = Some ''launches''"
| "request_action (GetLaunch _) = Some ''launch-show''"
| "request_action (PostLaunchRun _ _) = Some ''launch''"
| "request_action (PostRun _) = Some ''run''"
| "request_action (GetPty _) = None"
| "request_action (OtherRoute _) = None"

definition allowed :: "http_config \<Rightarrow> string option \<Rightarrow> string \<Rightarrow> bool" where
  "allowed cfg header action \<longleftrightarrow> action \<in> set (hc_enabled_actions cfg)
     \<and> (ha_type (hc_auth cfg) = AuthNone
        \<or> (\<exists>token. ha_token (hc_auth cfg) = Some token \<and> header = Some (''Bearer '' @ token) \<and> token \<noteq> []))"

lemma supplied_bearer_Some:
  assumes "supplied_bearer header = Some token"
  shows "header = Some (''Bearer '' @ token) \<and> token \<noteq> []"
proof (cases header)
  case (Some v)
  with assms show ?thesis
    by (auto simp: supplied_bearer_def strip_prefix_Some split: if_splits option.splits)
qed (use assms in \<open>simp add: supplied_bearer_def\<close>)

lemma authorize_Inr:
  assumes "authorize cfg header = Inr u"
  shows "ha_type (hc_auth cfg) = AuthNone
    \<or> (\<exists>token. ha_token (hc_auth cfg) = Some token \<and> header = Some (''Bearer '' @ token) \<and> token \<noteq> [])"
  using assms supplied_bearer_Some [of header]
  by (auto simp: authorize_def authorize_bearer_def constant_time_eq_iff as_bytes_inj
      split: http_auth_type.splits option.splits if_splits)

lemma authorize_Inl: "authorize cfg header = Inl e \<Longrightarrow> e = unauthorized ''unauthorized''"
  by (auto simp: authorize_def authorize_bearer_def split: http_auth_type.splits option.splits if_splits)

lemma authorize_action_Inr: "authorize_action cfg header action = Inr u \<Longrightarrow> allowed cfg header action"
  using authorize_Inr by (auto simp: authorize_action_def allowed_def res_simps split: if_splits)

lemma authorize_action_Inl:
  "authorize_action cfg header action = Inl e \<Longrightarrow> hr_status (error_response e) = 401
    \<or> hr_status (error_response e) = 403 \<and> action \<notin> set (hc_enabled_actions cfg)"
  using authorize_Inl [of cfg header]
  by (cases "authorize cfg header")
    (auto simp: authorize_action_def error_response_def unauthorized_def disabled_action_def http_error_of_def
      split: if_splits)

text \<open>C5. A request for an action is refused before its body is looked at, and runs nothing, unless the action is
  enabled and the request carries the token of the configuration, when it has one; every other
  request is answered without running anything.\<close>

theorem unauthorized_requests_run_nothing:
  "case request_action request of
     None \<Rightarrow> snd (handle_request w a leases header request st) = st
   | Some action \<Rightarrow> allowed (gc_http (as_config a)) header action
       \<or> (\<exists>e. handle_request w a leases header request st = ((error_response e, None), st)
           \<and> (hr_status (error_response e) = 401
              \<or> hr_status (error_response e) = 403 \<and> action \<notin> set (hc_enabled_actions (gc_http (as_config a)))))"
proof (cases "request_action request")
  case None
  then show ?thesis by (cases request) (simp_all add: handle_request_def respond_def pure_def)
next
  case (Some action)
  show ?thesis
  proof (cases "authorize_action (gc_http (as_config a)) header action")
    case (Inl e)
    with Some have "handle_request w a leases header request st = ((error_response e, None), st)"
      by (cases request) (auto simp: handle_request_def handle_metadata_def handle_launch_run_def handle_run_def
          checked_io_def refuse_def respond_def pure_def)
    with Some authorize_action_Inl [OF Inl] show ?thesis by auto
  next
    case (Inr u)
    with Some authorize_action_Inr show ?thesis by auto
  qed
qed

section \<open>Responses\<close>

text \<open>What every response keeps to: its status, the texts of an internal error, and that it makes a lease
  exactly when it says so.\<close>

definition INTERNAL_MESSAGES :: "string list" where
  "INTERNAL_MESSAGES = [INTERNAL_OPERATION_FAILED_MESSAGE, ''operation returned an unexpected result'',
     ''http operations must use wait or detach mode'', ''operation canceled'']"

definition sound_response :: "http_response \<Rightarrow> bool" where
  "sound_response r \<longleftrightarrow> hr_status r \<in> {101, 200, 202, 400, 401, 403, 404, 500}
     \<and> (if hr_status r = 500 then hr_body r \<in> ErrorBody ''operation_failed'' ` set INTERNAL_MESSAGES else True)"

definition sound_answer :: "http_answer \<Rightarrow> bool" where
  "sound_answer r \<longleftrightarrow> (case r of
     (response, None) \<Rightarrow> sound_response response
   | (response, Some (pty_id, lease)) \<Rightarrow> hr_status response = 201
       \<and> (case hr_body response of
            LeaseBody created \<Rightarrow> plc_pty_id created = pty_id \<and> plc_attach_token created = pl_attach_token lease
          | _ \<Rightarrow> False))"

definition answers_soundly :: "('s, http_answer) io \<Rightarrow> bool" where
  "answers_soundly m \<longleftrightarrow> (\<forall>st. sound_answer (fst (m st)))"

named_theorems sound

lemma sound_errors [sound]:
  "sound_response (error_response (unauthorized m))" "sound_response (error_response (disabled_action m))"
  "sound_response (error_response (not_found m))" "sound_response (error_response (invalid_request m))"
  "sound_response (error_response (invalid_mode m))" "sound_response (error_response (invalid_output m))"
  "sound_response (error_response (http_error_of 400 code m))" "sound_response (error_response internal_operation_failed)"
  by (simp_all add: sound_response_def error_response_def unauthorized_def disabled_action_def not_found_def
      invalid_request_def invalid_mode_def invalid_output_def internal_operation_failed_def http_operation_failed_def
      http_error_of_def INTERNAL_MESSAGES_def)

lemma sound_internal [sound]:
  "m \<in> set INTERNAL_MESSAGES \<Longrightarrow> sound_response (error_response (http_operation_failed m))"
  by (simp add: sound_response_def error_response_def http_operation_failed_def http_error_of_def)

lemma sound_operation_error [sound]: "sound_response (operation_error_response e)"
  by (cases e) (simp_all add: operation_error_response_def sound)

lemma sound_success [sound]: "sound_response (success_data result)"
  by (simp add: sound_response_def success_data_def)

lemma sound_metadata [sound]: "sound_response (metadata_response r)"
  by (auto simp: metadata_response_def metadata_result_response_def INTERNAL_MESSAGES_def intro!: sound
      split: sum.split operation_result.split)

lemma sound_execution [sound]: "sound_response (execution_response from_utf8 parse_json outcome formats)"
  by (auto simp: execution_response_def sound_response_def error_response_def http_operation_failed_def http_error_of_def
      INTERNAL_MESSAGES_def split: execution_outcome.split)

lemma sound_execution_result [sound]: "sound_response (execution_result_response a formats r)"
  by (auto simp: execution_result_response_def INTERNAL_MESSAGES_def intro!: sound
      split: sum.split operation_result.split)

lemma sound_lease [sound]: "sound_answer (lease_response h terminal prepared)"
  by (auto simp: lease_response_def sound_answer_def insert_lease_def Let_def res_simps intro!: sound split: sum.split)

lemma answers_pure [sound]: "sound_response r \<Longrightarrow> answers_soundly (respond r)"
  by (simp add: answers_soundly_def respond_def pure_def sound_answer_def)

lemma answers_map [sound]: "(\<And>r. sound_response (f r)) \<Longrightarrow> answers_soundly (map_io (\<lambda>r. (f r, None)) m)"
  by (simp add: answers_soundly_def map_io_def bind_io_def pure_def sound_answer_def case_prod_beta)

lemma answers_lease [sound]: "answers_soundly (lease_io w terminal m)"
  by (simp add: answers_soundly_def lease_io_def bind_io_def observe_def pure_def sound case_prod_beta)

text \<open>The checks of a request refuse it soundly.\<close>

definition refuses_soundly :: "http_error + 'a \<Rightarrow> bool" where
  "refuses_soundly r \<longleftrightarrow> (case r of Inl e \<Rightarrow> sound_response (error_response e) | Inr _ \<Rightarrow> True)"

lemma refuses_Inl: "refuses_soundly r \<Longrightarrow> r = Inl e \<Longrightarrow> sound_response (error_response e)"
  by (simp add: refuses_soundly_def)

lemma refuses_basic [sound]:
  "refuses_soundly (Inr x)" "sound_response (error_response e) \<Longrightarrow> refuses_soundly (Inl e)"
  "refuses_soundly r \<Longrightarrow> (\<And>x. refuses_soundly (f x)) \<Longrightarrow> refuses_soundly (and_then r f)"
  "refuses_soundly r \<Longrightarrow> refuses_soundly (map_ok g r)"
  "sound_response (error_response e) \<Longrightarrow> refuses_soundly (ok_or e supplied)"
proof -
  show "refuses_soundly (Inr x)" by (simp add: refuses_soundly_def)
  show "sound_response (error_response e) \<Longrightarrow> refuses_soundly (Inl e)" by (simp add: refuses_soundly_def)
  show "refuses_soundly r \<Longrightarrow> (\<And>x. refuses_soundly (f x)) \<Longrightarrow> refuses_soundly (and_then r f)"
    by (cases r) (simp_all add: refuses_soundly_def)
  show "refuses_soundly r \<Longrightarrow> refuses_soundly (map_ok g r)" by (cases r) (simp_all add: refuses_soundly_def)
  show "sound_response (error_response e) \<Longrightarrow> refuses_soundly (ok_or e supplied)"
    by (cases supplied) (simp_all add: refuses_soundly_def)
qed

lemma answers_checked [sound]:
  "refuses_soundly r \<Longrightarrow> (\<And>x. answers_soundly (f x)) \<Longrightarrow> answers_soundly (checked_io r f)"
  by (cases r) (simp_all add: checked_io_def refuse_def refuses_soundly_def sound)

lemma refuses_authorize_token [sound]: "refuses_soundly (authorize cfg header)"
  by (auto simp: authorize_def authorize_bearer_def intro!: sound split: http_auth_type.split option.split)

lemma refuses_authorize [sound]: "refuses_soundly (authorize_action cfg header action)"
  by (auto simp: authorize_action_def intro!: sound)

lemma refuses_body [sound]: "refuses_soundly (parse_body code decoded)"
  by (cases decoded) (auto simp: parse_body_def intro!: sound)

lemma refuses_status_query [sound]: "refuses_soundly (parse_status_query pairs)"
proof -
  have "refuses_soundly (status_query_loop q pairs)" for q
    by (induction q pairs rule: status_query_loop.induct) (auto intro!: sound split: option.split)
  then show ?thesis by (simp add: parse_status_query_def)
qed

lemma refuses_requests [sound]:
  "refuses_soundly (status_all_request pairs)" "refuses_soundly (target_operation f decoded)"
  "refuses_soundly (validate_run_command command)" "refuses_soundly (reject_pty_output out fmts)"
  unfolding status_all_request_def target_operation_def validate_run_command_def reject_pty_output_def
  by (auto intro!: sound)

lemma refuses_terminal [sound]: "refuses_soundly (terminal_size terminal)"
  unfolding terminal_size_def checked_size_def validate_dimension_def by (auto intro!: sound)

lemma refuses_selection [sound]: "refuses_soundly (output_selection out)"
proof -
  let ?add = "\<lambda>stream selected. and_then selected (\<lambda>seen.
            if stream \<in> set seen then Inl (invalid_output (fill_format ''duplicate output stream {}'' [stream]))
            else if stream \<in> {''stdout'', ''stderr''} then Inr (stream # seen)
            else Inl (invalid_output (fill_format ''unknown output stream {}'' [stream])))"
  have "refuses_soundly r \<Longrightarrow> refuses_soundly (fold ?add streams r)" for streams r
    by (induction streams arbitrary: r) (simp_all add: sound)
  from this [OF refuses_basic(1)] show ?thesis
    by (auto simp: output_selection_def intro!: sound split: option.split)
qed

lemma refuses_formats [sound]: "refuses_soundly (validate_output_formats fmts selection)"
proof -
  have "refuses_soundly (output_formats_loop selection formats fs)" for formats fs
    by (induction selection formats fs rule: output_formats_loop.induct)
      (auto simp: output_format_of_def intro!: sound)
  then show ?thesis by (auto simp: validate_output_formats_def intro!: sound split: option.split)
qed

lemma refuses_options [sound]: "refuses_soundly (execution_request_options mode out fmts)"
  unfolding execution_request_options_def by (auto intro!: sound)


end
