(* ===== verification/Pty_Sessions.thy ===== *)
theory Pty_Sessions
  imports Http_Api "HOL-Library.Multiset"
begin

text \<open>
  The interactive sessions of the HTTP API in \<open>gateway/http.rs\<close>: the leases of prepared sessions, which a
  client takes with the token of the lease and which expire, the session that runs over a socket, and the
  waits of a shutdown.

  What happens around a session is a sequence of events: what the socket receives and whether it takes what
  is sent, the output and the exit of the terminal, the signal of the shutdown. The lease manager sees the
  sequence of its calls and the passing of time, in milliseconds. What the decoder makes of a
  control message is a function \<open>decode\<close>.
\<close>

section \<open>Leases\<close>

definition PTY_ATTACH_LEASE_TTL :: nat where "PTY_ATTACH_LEASE_TTL = 30 * 1000"

definition bt_remove :: "'k \<Rightarrow> ('k, 'v) btree \<Rightarrow> ('k, 'v) btree" where
  "bt_remove k m = filter (\<lambda>e. fst e \<noteq> k) m"

definition consume_if_token :: "leases \<Rightarrow> string \<Rightarrow> string \<Rightarrow> prepared_lease option \<times> leases" where
  "consume_if_token leases pty_id attach_token = (case bt_get leases pty_id of
     Some lease \<Rightarrow>
       if constant_time_eq (as_bytes (pl_attach_token lease)) (as_bytes attach_token)
       then (Some lease, bt_remove pty_id leases) else (None, leases)
   | None \<Rightarrow> (None, leases))"

definition expire_lease :: "leases \<Rightarrow> string \<Rightarrow> prepared_lease option \<times> leases" where
  "expire_lease leases pty_id = (bt_get leases pty_id, bt_remove pty_id leases)"

definition cancel_all_leases :: "leases \<Rightarrow> (string \<times> prepared_lease) list \<times> leases" where
  "cancel_all_leases leases = (leases, [])"

text \<open>The end of a lease is the end of the session of its operation; a lease that no client took is
  canceled.\<close>

definition finish_pty_lease ::
  "'s world \<Rightarrow> runtime \<Rightarrow> prepared_lease \<Rightarrow> execution_outcome res \<Rightarrow> session_outcome \<Rightarrow> ('s, execution_outcome res) io" where
  "finish_pty_lease w r lease result outcome = finish_operation_session w r (pl_guard lease) result outcome"

definition cancel_pty_lease :: "'s world \<Rightarrow> runtime \<Rightarrow> prepared_lease \<Rightarrow> ('s, execution_outcome res) io" where
  "cancel_pty_lease w r lease = finish_pty_lease w r lease (Inr (Streamed 130)) OutcomeCanceled"

text \<open>The manager with its timers: every insertion starts a timer that expires the identifier. What was
  inserted, attached and canceled is kept with the identifiers.\<close>

record lease_server =
  ls_now :: nat
  ls_leases :: leases
  ls_timers :: "(nat \<times> string) list"
  ls_inserted :: "(string \<times> prepared_lease) list"
  ls_attached :: "(string \<times> prepared_lease) list"
  ls_canceled :: "(string \<times> prepared_lease) list"

datatype lease_call =
    InsertLease string prepared_lease
  | AttachLease string string
  | TimePasses nat
  | CancelAllLeases

definition no_leases :: lease_server where
  "no_leases = \<lparr>ls_now = 0, ls_leases = [], ls_timers = [], ls_inserted = [], ls_attached = [], ls_canceled = []\<rparr>"

definition taken :: "string \<Rightarrow> prepared_lease option \<Rightarrow> (string \<times> prepared_lease) list" where
  "taken pty_id lease = (case lease of Some l \<Rightarrow> [(pty_id, l)] | None \<Rightarrow> [])"

definition fire_timer :: "string \<Rightarrow> lease_server \<Rightarrow> lease_server" where
  "fire_timer pty_id s = (let (lease, leases) = expire_lease (ls_leases s) pty_id in
     s\<lparr>ls_leases := leases, ls_canceled := ls_canceled s @ taken pty_id lease\<rparr>)"

text \<open>When time passes the timers that are due fire, in their order.\<close>

fun lease_step :: "lease_call \<Rightarrow> lease_server \<Rightarrow> lease_server" where
  "lease_step (InsertLease pty_id lease) s =
     s\<lparr>ls_leases := bt_insert pty_id lease (ls_leases s), ls_timers := ls_timers s @ [(ls_now s + PTY_ATTACH_LEASE_TTL, pty_id)],
       ls_inserted := ls_inserted s @ [(pty_id, lease)]\<rparr>"
| "lease_step (AttachLease pty_id token) s = (let (lease, leases) = consume_if_token (ls_leases s) pty_id token in
     s\<lparr>ls_leases := leases, ls_attached := ls_attached s @ taken pty_id lease\<rparr>)"
| "lease_step (TimePasses ms) s = (let later = ls_now s + ms in
     fold fire_timer (map snd (filter (\<lambda>t. fst t \<le> later) (ls_timers s)))
       (s\<lparr>ls_now := later, ls_timers := filter (\<lambda>t. later < fst t) (ls_timers s)\<rparr>))"
| "lease_step CancelAllLeases s = (let (canceled, leases) = cancel_all_leases (ls_leases s) in
     s\<lparr>ls_leases := leases, ls_canceled := ls_canceled s @ canceled\<rparr>)"

definition lease_steps :: "lease_call list \<Rightarrow> lease_server \<Rightarrow> lease_server" where
  "lease_steps calls s = fold lease_step calls s"

section \<open>The messages of a client\<close>

definition MAX_WS_TEXT_BYTES :: nat where "MAX_WS_TEXT_BYTES = 64 * 1024"
definition MAX_WS_BINARY_BYTES :: nat where "MAX_WS_BINARY_BYTES = 256 * 1024"

datatype ws_message = WsText string | WsBinary string | WsPing | WsPong | WsClose

datatype pty_client_control = CtlAuth string | CtlResize terminal_request | CtlClose

definition parse_pty_control :: "(string \<Rightarrow> string + pty_client_control) \<Rightarrow> string \<Rightarrow> http_error + pty_client_control" where
  "parse_pty_control decode text =
     (if length text > MAX_WS_TEXT_BYTES then Inl (invalid_request ''pty control message is too large'')
      else map_err (\<lambda>e. invalid_request (''invalid pty control message: '' @ e)) (decode text))"

definition parse_pty_auth :: "(string \<Rightarrow> string + pty_client_control) \<Rightarrow> string \<Rightarrow> http_error + string" where
  "parse_pty_auth decode text = and_then (parse_pty_control decode text) (\<lambda>control. case control of
     CtlAuth token \<Rightarrow> if token \<noteq> [] then Inr token else Inl (unauthorized ''attach token is required'')
   | _ \<Rightarrow> Inl (unauthorized ''first pty message must be auth''))"

definition resize_size :: "pty_client_control \<Rightarrow> http_error + pty_size option" where
  "resize_size control = (case control of
     CtlResize t \<Rightarrow> map_ok Some (checked_size [] t) | _ \<Rightarrow> Inr None)"

text \<open>What is received before the client is known: a message, a failure with its text or the end of the
  socket, a change of the signal of the shutdown (nothing when its sender is gone), or the time is up.\<close>

datatype received = Message ws_message | ReceiveFailed string | SocketEnded

datatype auth_event = AuthReceived received | AuthShutdown "bool option" | AuthTimedOut

text \<open>Without an answer the socket is still waited for.\<close>

fun read_pty_auth_frame ::
  "(string \<Rightarrow> string + pty_client_control) \<Rightarrow> bool \<Rightarrow> auth_event list \<Rightarrow> (http_error + string) option" where
  "read_pty_auth_frame decode shut events =
     (if shut then Some (Inl (unauthorized ''pty attach canceled by shutdown''))
      else case events of
        [] \<Rightarrow> None
      | AuthReceived (Message m) # rest \<Rightarrow> (case m of
            WsText text \<Rightarrow> Some (parse_pty_auth decode text)
          | WsPing \<Rightarrow> read_pty_auth_frame decode False rest
          | WsPong \<Rightarrow> read_pty_auth_frame decode False rest
          | _ \<Rightarrow> Some (Inl (unauthorized ''first pty message must be auth'')))
      | AuthReceived (ReceiveFailed e) # rest \<Rightarrow> Some (Inl (unauthorized e))
      | AuthReceived SocketEnded # rest \<Rightarrow> Some (Inl (unauthorized ''pty attach closed before auth''))
      | AuthShutdown signal # rest \<Rightarrow>
          if signal \<noteq> Some False then Some (Inl (unauthorized ''pty attach canceled by shutdown''))
          else read_pty_auth_frame decode False rest
      | AuthTimedOut # rest \<Rightarrow> Some (Inl (unauthorized ''pty attach auth timed out'')))"

section \<open>An attached session\<close>

datatype ws_out =
    OutBinary string
  | OutError error_code string
  | OutReady "string option" string string "string option"
  | OutExit int
  | OutClose

datatype pty_effect = ToSocket ws_out | ToTerminal string | ResizeTerminal pty_size | TerminateTerminal

datatype pty_exit = ExitStatus int | WaitFailed error | WaitTaskFailed error

text \<open>The events of a session: output of the terminal (or its end) and whether the socket takes it, the
  signal of the shutdown, a message of the client and whether the terminal takes input, and the exit
  of the command with the output that is left, each chunk with whether the socket takes it. What a session leaves behind at its end is
  \<open>drop_pty_session\<close>.\<close>

datatype pty_event =
    PtyOutput "string option" bool
  | PtyShutdownSignal "bool option"
  | PtyReceived received bool
  | PtyExited pty_exit "(string \<times> bool) list"

fun drain_pty_output :: "(string \<times> bool) list \<Rightarrow> pty_effect list" where
  "drain_pty_output [] = []"
| "drain_pty_output ((chunk, sent) # rest) = ToSocket (OutBinary chunk) # (if sent then drain_pty_output rest else [])"

type_synonym session_result = "execution_outcome res \<times> session_outcome"

fun handle_pty_exit :: "pty_exit \<Rightarrow> (string \<times> bool) list \<Rightarrow> pty_effect list \<times> session_result" where
  "handle_pty_exit (ExitStatus code) left = (drain_pty_output left @ [ToSocket (OutExit code)],
     Inr (Streamed code), if code = 0 then OutcomeSuccess else OutcomeFailure)"
| "handle_pty_exit (WaitFailed e) left =
     (drain_pty_output left @ [ToSocket (OutError OperationFailedCode ''interactive session failed'')], Inl e, OutcomeFailure)"
| "handle_pty_exit (WaitTaskFailed e) left =
     (drain_pty_output left @ [ToSocket (OutError OperationFailedCode ''pty wait task failed'')], Inl e, OutcomeFailure)"

text \<open>The exit that is awaited after the terminal was terminated, none while it is outstanding.\<close>

fun finish_pty_exit :: "pty_event list \<Rightarrow> pty_effect list \<times> session_result option" where
  "finish_pty_exit [] = ([], None)"
| "finish_pty_exit (PtyExited exit left # _) = map_prod id Some (handle_pty_exit exit left)"
| "finish_pty_exit (_ # rest) = finish_pty_exit rest"

definition session_canceled :: session_result where
  "session_canceled = (Inr (Streamed 130), OutcomeCanceled)"

text \<open>What a control message does, and whether the session goes on.\<close>

definition pty_control :: "(string \<Rightarrow> string + pty_client_control) \<Rightarrow> string \<Rightarrow> pty_effect list \<times> bool" where
  "pty_control decode text = (case parse_pty_control decode text of
     Inl e \<Rightarrow> ([ToSocket (OutError (he_code e) (he_message e))], True)
   | Inr control \<Rightarrow> (case control of
       CtlResize _ \<Rightarrow> (case resize_size control of
           Inr (Some geometry) \<Rightarrow> ([ResizeTerminal geometry], True)
         | Inr None \<Rightarrow> ([], True)
         | Inl e \<Rightarrow> ([ToSocket (OutError (he_code e) (he_message e))], True))
     | CtlClose \<Rightarrow> ([TerminateTerminal], False)
     | CtlAuth _ \<Rightarrow> ([ToSocket (OutError InvalidRequestCode ''auth is only valid as the first pty message'')], True)))"

text \<open>The loop of a session; the output is no longer waited for once it has ended.\<close>

fun pty_loop ::
  "(string \<Rightarrow> string + pty_client_control) \<Rightarrow> bool \<Rightarrow> pty_event list \<Rightarrow> pty_effect list \<times> session_result option" where
  "pty_loop decode output_open [] = ([], None)"
| "pty_loop decode output_open (PtyOutput output sent # rest) =
     (if \<not> output_open then pty_loop decode False rest
      else case output of
        Some chunk \<Rightarrow>
          if sent then map_prod (Cons (ToSocket (OutBinary chunk))) id (pty_loop decode True rest)
          else ([ToSocket (OutBinary chunk), TerminateTerminal], Some session_canceled)
      | None \<Rightarrow> pty_loop decode False rest)"
| "pty_loop decode output_open (PtyShutdownSignal signal # rest) =
     (if signal \<noteq> Some False then ([TerminateTerminal], Some session_canceled) else pty_loop decode output_open rest)"
| "pty_loop decode output_open (PtyReceived (Message m) accepts # rest) = (case m of
     WsBinary chunk \<Rightarrow>
       if length chunk > MAX_WS_BINARY_BYTES
       then map_prod (Cons (ToSocket (OutError InvalidRequestCode ''pty input message is too large''))) id
              (pty_loop decode output_open rest)
       else if accepts then map_prod (Cons (ToTerminal chunk)) id (pty_loop decode output_open rest)
       else map_prod (Cons TerminateTerminal) id (finish_pty_exit rest)
   | WsText text \<Rightarrow>
       if snd (pty_control decode text)
       then map_prod (append (fst (pty_control decode text))) id (pty_loop decode output_open rest)
       else (fst (pty_control decode text), Some session_canceled)
   | WsClose \<Rightarrow> ([TerminateTerminal], Some session_canceled)
   | WsPing \<Rightarrow> pty_loop decode output_open rest
   | WsPong \<Rightarrow> pty_loop decode output_open rest)"
| "pty_loop decode output_open (PtyReceived (ReceiveFailed e) accepts # rest) = ([TerminateTerminal], Some session_canceled)"
| "pty_loop decode output_open (PtyReceived SocketEnded accepts # rest) = ([TerminateTerminal], Some session_canceled)"
| "pty_loop decode output_open (PtyExited exit left # rest) = map_prod id Some (handle_pty_exit exit left)"

text \<open>A session from the start of its terminal: whether it starts, whether the socket takes the first
  message, and whether a shutdown is under way then.\<close>

definition run_attached_pty ::
  "(string \<Rightarrow> string + pty_client_control) \<Rightarrow> ready_status \<Rightarrow> string option \<Rightarrow> error + unit \<Rightarrow> bool \<Rightarrow> bool \<Rightarrow> pty_event list
     \<Rightarrow> pty_effect list \<times> session_result option" where
  "run_attached_pty decode ready launch spawned sent shut events = (case spawned of
     Inl e \<Rightarrow> ([ToSocket (OutError OperationFailedCode ''failed to start interactive session''), ToSocket OutClose],
       Some (Inl (Context ''failed to spawn pty child'' e), OutcomeFailure))
   | Inr _ \<Rightarrow> map_prod (Cons (ToSocket (OutReady (ry_session_id ready) (ry_target ready) (ry_mode ready) launch))) id
       (if \<not> sent \<or> shut then ([TerminateTerminal], Some session_canceled) else pty_loop decode True events))"

text \<open>A socket, from the first message of its client to the end of its session, with the leases as they are
  then: the answer is what is sent, the lease that was taken with how its session ended, and the leases.\<close>

definition handle_pty_socket ::
  "(string \<Rightarrow> string + pty_client_control) \<Rightarrow> leases \<Rightarrow> string \<Rightarrow> bool \<Rightarrow> auth_event list \<Rightarrow> string option \<Rightarrow> error + unit
     \<Rightarrow> bool \<Rightarrow> bool \<Rightarrow> pty_event list \<Rightarrow> pty_effect list \<times> (prepared_lease \<times> session_result option) option \<times> leases" where
  "handle_pty_socket decode leases pty_id shut_before auth launch spawned sent shut events =
     (case read_pty_auth_frame decode shut_before auth of
        None \<Rightarrow> ([], None, leases)
      | Some (Inl e) \<Rightarrow> ([ToSocket (OutError (he_code e) (he_message e)), ToSocket OutClose], None, leases)
      | Some (Inr token) \<Rightarrow> (case consume_if_token leases pty_id token of
          (None, left) \<Rightarrow> ([ToSocket (OutError Unauthorized ''unauthorized''), ToSocket OutClose], None, left)
        | (Some lease, left) \<Rightarrow>
            let (effects, ended) = run_attached_pty decode (pc_ready (pl_command lease)) launch spawned sent shut events in
            (effects, Some (lease, ended), left)))"

section \<open>The waits of a shutdown\<close>

definition WAIT_SHUTDOWN_GRACE :: nat where "WAIT_SHUTDOWN_GRACE = 2 * 1000"
definition WAIT_SHUTDOWN_WAIT_TIMEOUT :: nat where "WAIT_SHUTDOWN_WAIT_TIMEOUT = 5 * 1000"
definition PTY_SHUTDOWN_WAIT_TIMEOUT :: nat where "PTY_SHUTDOWN_WAIT_TIMEOUT = 5 * 1000"

text \<open>\<open>active t\<close> is how many are active at the time \<open>t\<close>; the answer is the time of the end of the wait.\<close>

function await_idle :: "(nat \<Rightarrow> nat) \<Rightarrow> nat \<Rightarrow> nat \<Rightarrow> nat" where
  "await_idle active deadline clock =
     (if active clock = 0 \<or> deadline \<le> clock then clock else await_idle active deadline (clock + 50))"
  by pat_completeness auto

termination
  by (relation "measure (\<lambda>(active, deadline, clock). deadline - clock)") auto

definition cancel_active_after_grace :: "(nat \<Rightarrow> nat) \<Rightarrow> (nat \<Rightarrow> nat) \<Rightarrow> nat \<Rightarrow> nat \<Rightarrow> nat \<Rightarrow> nat option \<times> nat" where
  "cancel_active_after_grace active canceled grace wait_timeout clock =
     (let graced = await_idle active (clock + grace) clock in
      if active graced = 0 then (None, graced)
      else (Some graced, await_idle canceled (graced + wait_timeout) graced))"

definition cancel_active_and_wait :: "(nat \<Rightarrow> nat) \<Rightarrow> nat \<Rightarrow> nat \<Rightarrow> nat" where
  "cancel_active_and_wait active timeout clock = await_idle active (clock + timeout) clock"

text \<open>The operations that are active until and after their cancellation, and the sessions that are active
  after theirs; the answer is when the operations are canceled, if they are, when the sessions are told of
  the shutdown, and when the leases are canceled, which is last.\<close>

definition shutdown_times :: "(nat \<Rightarrow> nat) \<Rightarrow> (nat \<Rightarrow> nat) \<Rightarrow> (nat \<Rightarrow> nat) \<Rightarrow> nat \<Rightarrow> nat option \<times> nat \<times> nat" where
  "shutdown_times active canceled sessions clock =
     (let (cancel, waited) = cancel_active_after_grace active canceled WAIT_SHUTDOWN_GRACE WAIT_SHUTDOWN_WAIT_TIMEOUT clock in
      (cancel, waited, cancel_active_and_wait sessions PTY_SHUTDOWN_WAIT_TIMEOUT waited))"

section \<open>Bounds of a session\<close>

definition pty_effect_bounded :: "pty_effect \<Rightarrow> bool" where
  "pty_effect_bounded e = (case e of
     ToTerminal chunk \<Rightarrow> length chunk \<le> MAX_WS_BINARY_BYTES
   | ResizeTerminal terminal \<Rightarrow> ps_cols terminal \<in> {MIN_TERMINAL_COLS..MAX_TERMINAL_COLS}
       \<and> ps_rows terminal \<in> {MIN_TERMINAL_ROWS..MAX_TERMINAL_ROWS}
   | _ \<Rightarrow> True)"

lemma pty_effect_bounded_simps [simp]:
  "pty_effect_bounded (ToSocket out)" "pty_effect_bounded TerminateTerminal"
  "pty_effect_bounded (ToTerminal chunk) \<longleftrightarrow> length chunk \<le> MAX_WS_BINARY_BYTES"
  by (simp_all add: pty_effect_bounded_def)

lemma checked_size_Inr:
  "checked_size field t = Inr terminal \<Longrightarrow> pty_effect_bounded (ResizeTerminal terminal)"
  by (auto simp: checked_size_def validate_dimension_def pty_effect_bounded_def split: if_splits)

lemma drain_bounded: "list_all pty_effect_bounded (drain_pty_output left)"
  by (induction left rule: drain_pty_output.induct) simp_all

lemma exit_bounded: "list_all pty_effect_bounded (fst (handle_pty_exit exit left))"
  by (cases exit) (simp_all add: drain_bounded)

lemma awaited_exit_bounded: "list_all pty_effect_bounded (fst (finish_pty_exit events))"
  by (induction events rule: finish_pty_exit.induct) (simp_all add: exit_bounded)

lemma control_bounded: "list_all pty_effect_bounded (fst (pty_control decode text))"
proof -
  have "pty_effect_bounded (ResizeTerminal terminal)" if "map_ok Some (checked_size [] t) = Inr (Some terminal)" for t terminal
    using that checked_size_Inr by (cases "checked_size [] t") auto
  then show ?thesis
    by (auto simp: pty_control_def resize_size_def split: sum.split option.split pty_client_control.split)
qed

lemma loop_bounded: "list_all pty_effect_bounded (fst (pty_loop decode output_open events))"
proof (induction decode output_open events rule: pty_loop.induct)
  case (4 decode output_open m accepts rest)
  then show ?case
    using control_bounded [of decode]
    by (cases m) (auto simp: awaited_exit_bounded)
qed (auto simp: exit_bounded split: option.split)


section \<open>Sessions leave no command behind\<close>

definition exited :: "pty_event list \<Rightarrow> bool" where
  "exited events \<longleftrightarrow> list_ex (\<lambda>event. case event of PtyExited _ _ \<Rightarrow> True | _ \<Rightarrow> False) events"

lemma exited_simps [simp]:
  "\<not> exited []" "exited (PtyExited exit left # rest)"
  "exited (PtyOutput out sent # rest) = exited rest" "exited (PtyShutdownSignal signal # rest) = exited rest"
  "exited (PtyReceived message accepts # rest) = exited rest"
  by (simp_all add: exited_def)

lemma awaited_exit: "snd (finish_pty_exit events) \<noteq> None \<longleftrightarrow> exited events"
  by (induction events rule: finish_pty_exit.induct) auto

definition cleanly_ended :: "pty_event list \<Rightarrow> pty_effect list \<times> session_result option \<Rightarrow> bool" where
  "cleanly_ended events run = (case run of
     (effects, None) \<Rightarrow> True
   | (effects, Some (result, OutcomeCanceled)) \<Rightarrow> TerminateTerminal \<in> set effects \<and> result = Inr (Streamed 130)
   | (effects, Some (result, OutcomeSuccess)) \<Rightarrow> exited events \<and> result = Inr (Streamed 0)
   | (effects, Some (result, OutcomeFailure)) \<Rightarrow> exited events \<and> result \<noteq> Inr (Streamed 0))"

lemma cleanly_ended_canceled [simp]:
  "cleanly_ended events (effects, Some session_canceled) \<longleftrightarrow> TerminateTerminal \<in> set effects"
  "cleanly_ended events (effects, None)"
  by (simp_all add: cleanly_ended_def session_canceled_def)

lemma cleanly_ended_mono:
  assumes "cleanly_ended rest run" and "exited rest \<Longrightarrow> exited events"
  shows "cleanly_ended events run" "cleanly_ended events (map_prod (Cons e) id run)"
    "cleanly_ended events (map_prod (append es) id run)"
  using assms by (auto simp: cleanly_ended_def split: prod.splits option.splits session_outcome.splits)

lemma cleanly_ended_exit: "cleanly_ended (PtyExited exit left # rest) (map_prod id Some (handle_pty_exit exit left))"
  by (cases exit) (simp_all add: cleanly_ended_def)

lemma cleanly_ended_awaited: "cleanly_ended events (finish_pty_exit events)"
proof (induction events rule: finish_pty_exit.induct)
  case (2 exit left rest)
  then show ?case using cleanly_ended_exit by simp
qed (auto simp: cleanly_ended_def split: prod.splits option.splits session_outcome.splits)

lemma control_ends: "\<not> snd (pty_control decode text) \<Longrightarrow> TerminateTerminal \<in> set (fst (pty_control decode text))"
  by (auto simp: pty_control_def split: sum.splits option.splits pty_client_control.splits)

lemma loop_cleanly_ended: "cleanly_ended events (pty_loop decode output_open events)"
proof (induction decode output_open events rule: pty_loop.induct)
  case (2 decode output_open out sent rest)
  then show ?case by (cases out) (auto intro: cleanly_ended_mono [of rest])
next
  case (3 decode output_open signal rest)
  then show ?case by (auto intro: cleanly_ended_mono [of rest])
next
  case (4 decode output_open m accepts rest)
  then show ?case
    using control_ends [of decode]
    by (cases m) (auto intro: cleanly_ended_mono [of rest] cleanly_ended_mono [OF cleanly_ended_awaited])
qed (use cleanly_ended_exit in auto)

text \<open>C21. A session that ended left no command running in its container: either its command exited, and the outcome is the
  one of its status, or it was terminated, and the session is canceled with the status 130.\<close>

theorem no_command_outlives_its_session:
  "case spawned of Inl e \<Rightarrow> snd (run_attached_pty decode ready launch spawned sent shut events)
      = Some (Inl (Context ''failed to spawn pty child'' e), OutcomeFailure)
   | Inr _ \<Rightarrow> cleanly_ended events (run_attached_pty decode ready launch spawned sent shut events)"
proof (cases spawned)
  case (Inr u)
  show ?thesis
    using cleanly_ended_mono(2) [OF loop_cleanly_ended, of events events]
    by (auto simp: Inr run_attached_pty_def)
qed (simp add: run_attached_pty_def)

section \<open>The waits of a shutdown end\<close>

lemma await_idle_bounds:
  "clock \<le> await_idle active deadline clock \<and> await_idle active deadline clock \<le> max clock (deadline + 49)
    \<and> (active (await_idle active deadline clock) = 0 \<or> deadline \<le> await_idle active deadline clock)"
proof (induction active deadline clock rule: await_idle.induct)
  case (1 active deadline clock)
  then show ?case by (cases "active clock = 0 \<or> deadline \<le> clock") (auto simp: max_def split: if_splits)
qed

declare await_idle.simps [simp del]


section \<open>Every lease is taken once\<close>

lemma bt_ok_remove: "bt_ok m \<Longrightarrow> bt_ok (bt_remove k m)"
  by (simp add: bt_ok_def bt_remove_def sorted_wrt_map sorted_wrt_filter)

lemma bt_get_remove: "bt_get (bt_remove k m) = (bt_get m)(k := None)"
  by (auto simp: bt_get_def bt_remove_def fun_eq_iff) (induction m; auto)+

lemma bt_remove_absent: "bt_get m k = None \<Longrightarrow> bt_remove k m = m"
  by (force simp: bt_get_def bt_remove_def map_of_eq_None_iff intro: filter_True)

lemma taken_removed: "bt_ok m \<Longrightarrow> mset (taken k (bt_get m k)) + mset (bt_remove k m) = mset m"
proof (induction m)
  case (Cons e m)
  obtain k' v where e: "e = (k', v)" by force
  have ok: "bt_ok m" and apart: "k' \<notin> fst ` set m"
    using Cons.prems bt_ok_distinct [OF Cons.prems] by (auto simp: e bt_ok_def)
  then have "bt_get m k' = None" by (simp add: bt_get_def map_of_eq_None_iff)
  with Cons.IH [OF ok] bt_remove_absent [of m k'] show ?case
    by (cases "k = k'") (auto simp: e taken_def bt_get_def bt_remove_def split: option.splits)
qed (simp add: taken_def bt_get_def bt_remove_def)

lemma mset_insert_fresh: "k \<notin> set (map fst m) \<Longrightarrow> mset (bt_insert k v m) = add_mset (k, v) (mset m)"
  by (induction m) auto

definition lease_ok :: "lease_server \<Rightarrow> bool" where
  "lease_ok s \<longleftrightarrow> bt_ok (ls_leases s)
     \<and> list_all (\<lambda>(pty_id, _). list_ex (\<lambda>(due, k). k = pty_id \<and> due \<le> ls_now s + PTY_ATTACH_LEASE_TTL) (ls_timers s))
         (ls_leases s)
     \<and> (distinct (map fst (ls_inserted s)) \<longrightarrow>
         mset (ls_inserted s) = mset (ls_attached s) + mset (ls_canceled s) + mset (ls_leases s))"

lemma fire_timers:
  assumes "bt_ok (ls_leases s)"
  shows "\<exists>canceled. fold fire_timer ids s = s\<lparr>ls_leases := filter (\<lambda>e. fst e \<notin> set ids) (ls_leases s), ls_canceled := canceled\<rparr>
    \<and> mset canceled + mset (filter (\<lambda>e. fst e \<notin> set ids) (ls_leases s)) = mset (ls_canceled s) + mset (ls_leases s)"
  using assms
proof (induction ids arbitrary: s)
  case (Cons i ids)
  let ?s = "fire_timer i s"
  have s: "?s = s\<lparr>ls_leases := bt_remove i (ls_leases s), ls_canceled := ls_canceled s @ taken i (bt_get (ls_leases s) i)\<rparr>"
    by (simp add: fire_timer_def expire_lease_def)
  have rest: "filter (\<lambda>e. fst e \<notin> set ids) (bt_remove i (ls_leases s)) = filter (\<lambda>e. fst e \<notin> set (i # ids)) (ls_leases s)"
    by (simp add: bt_remove_def conj_commute)
  from Cons.IH [of ?s] Cons.prems obtain canceled where
    "fold fire_timer ids ?s = ?s\<lparr>ls_leases := filter (\<lambda>e. fst e \<notin> set (i # ids)) (ls_leases s), ls_canceled := canceled\<rparr>"
    "mset canceled + mset (filter (\<lambda>e. fst e \<notin> set (i # ids)) (ls_leases s))
      = mset (ls_canceled ?s) + mset (ls_leases ?s)"
    by (auto simp: s bt_ok_remove rest)
  with taken_removed [OF Cons.prems, of i] show ?case
    by (intro exI [of _ canceled]) (simp add: s ac_simps)
next
  case Nil
  show ?case by (intro exI [of _ "ls_canceled s"]) simp
qed

lemma lease_ok_step: "lease_ok s \<Longrightarrow> lease_ok (lease_step call s)"
proof (induction call s rule: lease_step.induct)
  case (1 pty_id lease s)
  let ?leases = "bt_insert pty_id lease (ls_leases s)"
  have fresh: "mset ?leases = add_mset (pty_id, lease) (mset (ls_leases s))"
    if "distinct (map fst (ls_inserted s @ [(pty_id, lease)]))"
      "mset (ls_inserted s) = mset (ls_attached s) + mset (ls_canceled s) + mset (ls_leases s)"
  proof -
    from that(2) have "set (ls_leases s) \<subseteq> set (ls_inserted s)"
      by (metis mset_subset_eq_add_right set_mset_mono set_mset_mset)
    with that(1) show ?thesis by (intro mset_insert_fresh) auto
  qed
  have "set (map fst ?leases) = insert pty_id (set (map fst (ls_leases s)))" by (rule bt_insert_keys)
  then have "fst ` set ?leases \<subseteq> insert pty_id (fst ` set (ls_leases s))" by simp
  moreover have "\<forall>k \<in> insert pty_id (fst ` set (ls_leases s)).
      list_ex (\<lambda>(due, k'). k' = k \<and> due \<le> ls_now s + PTY_ATTACH_LEASE_TTL)
        (ls_timers s @ [(ls_now s + PTY_ATTACH_LEASE_TTL, pty_id)])"
    using 1 by (fastforce simp: lease_ok_def list_all_iff)
  ultimately have "list_all (\<lambda>(k, _). list_ex (\<lambda>(due, k'). k' = k \<and> due \<le> ls_now s + PTY_ATTACH_LEASE_TTL)
        (ls_timers s @ [(ls_now s + PTY_ATTACH_LEASE_TTL, pty_id)])) ?leases"
    by (fastforce simp: list_all_iff)
  with 1 fresh show ?case
    by (simp add: lease_ok_def bt_ok_insert)
next
  case (2 pty_id token s)
  then show ?case
    using taken_removed [of "ls_leases s" pty_id]
    by (auto simp: lease_ok_def consume_if_token_def bt_ok_remove bt_ok_remove [unfolded bt_remove_def] taken_def ac_simps list_all_iff bt_remove_def
        split: option.split)
next
  case (3 ms s)
  let ?now = "ls_now s + ms"
  let ?due = "map snd (filter (\<lambda>t. fst t \<le> ?now) (ls_timers s))"
  let ?timers = "filter (\<lambda>t. ?now < fst t) (ls_timers s)"
  let ?leases = "filter (\<lambda>e. fst e \<notin> set ?due) (ls_leases s)"
  from 3 fire_timers [of "s\<lparr>ls_now := ?now, ls_timers := ?timers\<rparr>" ?due] obtain canceled where
    fired: "lease_step (TimePasses ms) s = s\<lparr>ls_now := ?now, ls_timers := ?timers, ls_leases := ?leases, ls_canceled := canceled\<rparr>"
      "mset canceled + mset ?leases = mset (ls_canceled s) + mset (ls_leases s)"
    by (auto simp: lease_ok_def Let_def)
  have timed: "list_ex (\<lambda>(due, k). k = fst e \<and> due \<le> ?now + PTY_ATTACH_LEASE_TTL) ?timers" if "e \<in> set ?leases" for e
  proof -
    from that 3 have "list_ex (\<lambda>(due, k). k = fst e \<and> due \<le> ls_now s + PTY_ATTACH_LEASE_TTL) (ls_timers s)"
      by (fastforce simp: lease_ok_def list_all_iff)
    then obtain t where "(t, fst e) \<in> set (ls_timers s)" "t \<le> ls_now s + PTY_ATTACH_LEASE_TTL"
      by (auto simp: list_ex_iff)
    moreover from this that have "?now < t" by (force simp: not_le)
    ultimately show ?thesis by (auto simp: list_ex_iff intro!: exI [of _ t])
  qed
  have "bt_ok ?leases" using 3 by (simp add: lease_ok_def bt_ok_def sorted_wrt_map sorted_wrt_filter)
  with 3 timed fired(2) show ?case
    by (auto simp: fired(1) lease_ok_def list_all_iff ac_simps simp del: lease_step.simps)
next
  case (4 s)
  then show ?case by (simp add: lease_ok_def cancel_all_leases_def)
qed

lemma lease_ok_steps: "lease_ok (lease_steps calls no_leases)"
proof -
  have "lease_ok s \<Longrightarrow> lease_ok (fold lease_step calls s)" for s
    by (induction calls arbitrary: s) (simp_all add: lease_ok_step)
  then show ?thesis by (simp add: lease_steps_def lease_ok_def no_leases_def)
qed

text \<open>C19. Whatever calls the manager of the leases sees, a prepared session with an identifier of its own is
  waiting, or was attached to one client, or was canceled, and only one of these.\<close>

theorem leases_are_taken_once:
  assumes "distinct (map fst (ls_inserted (lease_steps calls no_leases)))"
  shows "(let s = lease_steps calls no_leases in
      mset (ls_inserted s) = mset (ls_attached s) + mset (ls_canceled s) + mset (ls_leases s)
      \<and> distinct (map fst (ls_attached s @ ls_canceled s @ ls_leases s)))"
proof -
  let ?s = "lease_steps calls no_leases"
  have parts: "mset (ls_inserted ?s) = mset (ls_attached ?s @ ls_canceled ?s @ ls_leases ?s)"
    using lease_ok_steps [of calls] assms by (simp add: lease_ok_def ac_simps)
  then have "mset (map fst (ls_inserted ?s)) = mset (map fst (ls_attached ?s @ ls_canceled ?s @ ls_leases ?s))"
    by (simp only: mset_map)
  then have "distinct (map fst (ls_attached ?s @ ls_canceled ?s @ ls_leases ?s))"
    using assms mset_eq_imp_distinct_iff by blast
  with parts show ?thesis by (simp add: Let_def ac_simps)
qed

definition demo_lease :: prepared_lease where
  "demo_lease = \<lparr>pl_attach_token = ''t'', pl_terminal = \<lparr>ps_cols = 80, ps_rows = 24, ps_pixel_width = 0, ps_pixel_height = 0\<rparr>,
     pl_guard = no_guard, pl_command = \<lparr>pc_ready = \<lparr>ry_target = [], ry_session_id = None, ry_mode = [], ry_user = [],
       ry_image = [], ry_container = [], ry_access = [], ry_context = [], ry_container_pid = None, ry_ssh_socket = None,
       ry_ssh_tcp = None, ry_status = [], ry_local_ssh = None, ry_client_config = None,
       ry_host_socket_exposures = []\<rparr>,
       pc_spec = \<lparr>es_stdin_tty = False, es_stdout_tty = False, es_user = [], es_cwd = None, es_env = [],
         es_container_name = [], es_command = []\<rparr>\<rparr>\<rparr>"

definition demo_calls :: "lease_call list" where
  "demo_calls = [InsertLease ''a'' demo_lease, InsertLease ''b'' demo_lease, InsertLease ''c'' demo_lease,
     AttachLease ''b'' ''x'', AttachLease ''b'' ''t'', AttachLease ''b'' ''t'', CancelAllLeases]"

theorem leases_are_taken_once_witness:
  "mset (ls_inserted (lease_steps demo_calls no_leases)) = mset (ls_attached (lease_steps demo_calls no_leases))
      + mset (ls_canceled (lease_steps demo_calls no_leases)) + mset (ls_leases (lease_steps demo_calls no_leases))
    \<and> map fst (ls_attached (lease_steps demo_calls no_leases)) = [''b'']"
proof -
  have run: "map fst (ls_inserted (lease_steps demo_calls no_leases)) = [''a'', ''b'', ''c'']"
      "map fst (ls_attached (lease_steps demo_calls no_leases)) = [''b'']"
    by (simp_all add: demo_calls_def lease_steps_def no_leases_def consume_if_token_def cancel_all_leases_def bt_get_def
        bt_remove_def taken_def demo_lease_def constant_time_eq_iff as_bytes_inj MAX_SECRET_COMPARE_BYTES_def as_bytes_def)
  then show ?thesis using leases_are_taken_once [of demo_calls] by (simp add: Let_def)
qed

text \<open>No prepared session waits for its client for longer than thirty seconds: once that time has passed
  after whatever happened, none is left.\<close>

theorem leases_expire:
  "ls_leases (lease_steps (calls @ [TimePasses (PTY_ATTACH_LEASE_TTL + ms)]) no_leases) = []"
proof -
  let ?s = "lease_steps calls no_leases"
  have step: "lease_steps (calls @ [call]) no_leases = lease_step call ?s" for call by (simp add: lease_steps_def)
  have ok: "lease_ok ?s" by (rule lease_ok_steps)
  let ?now = "ls_now ?s + (PTY_ATTACH_LEASE_TTL + ms)"
  let ?due = "map snd (filter (\<lambda>t. fst t \<le> ?now) (ls_timers ?s))"
  have "fst e \<in> set ?due" if "e \<in> set (ls_leases ?s)" for e
  proof -
    from that ok have "list_ex (\<lambda>(due, k). k = fst e \<and> due \<le> ls_now ?s + PTY_ATTACH_LEASE_TTL) (ls_timers ?s)"
      by (fastforce simp: lease_ok_def list_all_iff)
    then show ?thesis by (force simp: list_ex_iff)
  qed
  then have "filter (\<lambda>e. fst e \<notin> set ?due) (ls_leases ?s) = []" by (simp add: filter_empty_conv)
  with fire_timers [of "?s\<lparr>ls_now := ?now, ls_timers := filter (\<lambda>t. ?now < fst t) (ls_timers ?s)\<rparr>" ?due] ok
  show ?thesis by (auto simp: step Let_def lease_ok_def)
qed

section \<open>Only the token attaches\<close>

lemma consume_Some:
  "consume_if_token leases pty_id token = (Some lease, left) \<Longrightarrow>
     bt_get leases pty_id = Some lease \<and> pl_attach_token lease = token \<and> left = bt_remove pty_id leases"
  by (auto simp: consume_if_token_def constant_time_eq_iff as_bytes_inj split: option.splits if_splits)

lemma consume_None: "consume_if_token leases pty_id token = (None, left) \<Longrightarrow> left = leases"
  by (auto simp: consume_if_token_def split: option.splits if_splits)

lemma auth_token:
  "read_pty_auth_frame decode shut events = Some (Inr token)
    \<Longrightarrow> list_ex (\<lambda>event. case event of
      AuthReceived (Message (WsText text)) \<Rightarrow> decode text = Inr (CtlAuth token) | _ \<Rightarrow> False) events"
proof (induction decode shut events rule: read_pty_auth_frame.induct)
  case (1 decode shut events)
  have auth: "decode sent = Inr (CtlAuth t)" if "parse_pty_auth decode sent = Inr t" for sent t
    using that by (cases "decode sent")
      (auto simp: parse_pty_auth_def parse_pty_control_def split: if_splits pty_client_control.splits)
  show ?case
  proof (cases events)
    case (Cons event rest)
    with 1 show ?thesis
      by (auto simp: auth split: if_splits auth_event.splits received.splits ws_message.splits)
  qed (use 1 in \<open>auto split: if_splits\<close>)
qed

declare read_pty_auth_frame.simps [simp del]

text \<open>C20. A client of a socket gets nothing from a session that it did not take: a session is taken by a message with the token
  of its lease, which is gone then, and without one nothing is started and every lease stays.\<close>

theorem socket_needs_the_token:
  "case handle_pty_socket decode leases pty_id shut_before auth launch spawned sent shut events of
     (effects, None, left) \<Rightarrow> left = leases
       \<and> list_all (\<lambda>e. case e of ToSocket (OutError _ _) \<Rightarrow> True | ToSocket OutClose \<Rightarrow> True | _ \<Rightarrow> False) effects
   | (effects, Some (lease, _), left) \<Rightarrow> bt_get leases pty_id = Some lease \<and> bt_get left = (bt_get leases)(pty_id := None)
       \<and> list_ex (\<lambda>event. case event of
           AuthReceived (Message (WsText text)) \<Rightarrow> decode text = Inr (CtlAuth (pl_attach_token lease)) | _ \<Rightarrow> False) auth"
proof (cases "read_pty_auth_frame decode shut_before auth")
  case (Some r)
  note authenticated = Some
  show ?thesis
  proof (cases r)
    case (Inr token)
    obtain lease left where consumed: "consume_if_token leases pty_id token = (lease, left)" by force
    note needs = auth_token [OF Some [unfolded Inr]]
    show ?thesis
    proof (cases lease)
      case None
      with consumed consume_None show ?thesis by (simp add: handle_pty_socket_def Some Inr)
    next
      case (Some l)
      note lease = consume_Some [OF consumed [unfolded Some]]
      with needs show ?thesis
        by (simp add: handle_pty_socket_def authenticated [unfolded Inr] consumed Some bt_get_remove case_prod_beta)
    qed
  qed (simp add: handle_pty_socket_def Some)
qed (simp add: handle_pty_socket_def)

end
