(* ===== verification/Bootstrap.thy ===== *)
theory Bootstrap
  imports Container_Runtime Gateway_Runtime
begin

text \<open>
  The bootstrap of a container: \<open>bootstrap.rs\<close> and the drop of privileges in \<open>unix_priv.rs\<close>. It enters the
  user and the group of the session into the account files, prepares their directories, runs the steps of
  the configuration as their users and becomes the agent.

  Reading, writing, looking at a path, changing an owner, the database of users and the processes of steps
  are effects of an outside. What was done is logged.
\<close>

section \<open>The account files\<close>

definition parse_id :: "string \<Rightarrow> nat" where
  "parse_id s = unwrap_or (u32_limit - 1) (parse_uint u32_limit s)"

definition account_fields :: "string \<Rightarrow> string list" where
  "account_fields line = split_char (CHR '':'') line"

definition group_gid_collision_policy_allows_existing_gid :: "string \<Rightarrow> nat \<Rightarrow> bool" where
  "group_gid_collision_policy_allows_existing_gid existing_gid requested_gid \<longleftrightarrow>
     parse_uint u32_limit existing_gid = Some requested_gid"

text \<open>The scan answers whether an entry is there.\<close>

fun scan_groups :: "string \<Rightarrow> nat \<Rightarrow> string list \<Rightarrow> bool res" where
  "scan_groups name gid [] = Inr False"
| "scan_groups name gid (line # lines) = (let fs = account_fields line in
     if length fs \<ge> 3 \<and> fs ! 0 = name then
       (if parse_id (fs ! 2) \<noteq> gid
        then Inl (Bail ''group {} exists with gid {}, expected {}'' [name, show_nat (parse_id (fs ! 2)), show_nat gid])
        else Inr True)
     else if length fs \<ge> 3 \<and> group_gid_collision_policy_allows_existing_gid (fs ! 2) gid then Inr True
     else scan_groups name gid lines)"

fun scan_users :: "string \<Rightarrow> nat \<Rightarrow> nat \<Rightarrow> string list \<Rightarrow> bool res" where
  "scan_users name uid gid [] = Inr False"
| "scan_users name uid gid (line # lines) = (let fs = account_fields line in
     if length fs \<ge> 7 \<and> fs ! 0 = name then
       (if parse_id (fs ! 2) \<noteq> uid \<or> parse_id (fs ! 3) \<noteq> gid
        then Inl (Bail ''user {} exists with uid:gid {}:{}, expected {}:{}''
          [name, show_nat (parse_id (fs ! 2)), show_nat (parse_id (fs ! 3)), show_nat uid, show_nat gid])
        else Inr True)
     else if length fs \<ge> 7 \<and> fs ! 2 = show_nat uid
     then Inl (Bail ''uid {} already used by user {}; session_uid must be unique or session_user must match''
       [show_nat uid, fs ! 0])
     else scan_users name uid gid lines)"

definition add_line :: "string \<Rightarrow> string \<Rightarrow> string" where
  "add_line raw line = (if ends_with [CHR 0x0A] raw then raw else raw @ [CHR 0x0A]) @ line @ [CHR 0x0A]"

definition group_line :: "string \<Rightarrow> nat \<Rightarrow> string" where
  "group_line name gid = join '':'' [name, ''x'', show_nat gid, []]"

definition passwd_line :: "string \<Rightarrow> nat \<Rightarrow> nat \<Rightarrow> string \<Rightarrow> string \<Rightarrow> string" where
  "passwd_line name uid gid home shell = join '':'' [name, ''x'', show_nat uid, show_nat gid, name, home, shell]"

text \<open>What a file holds afterwards; nothing is written when the entry is there.\<close>

definition group_update :: "string \<Rightarrow> nat \<Rightarrow> string \<Rightarrow> string option res" where
  "group_update name gid raw = map_ok (\<lambda>there. if there then None else Some (add_line raw (group_line name gid)))
     (scan_groups name gid (str_lines raw))"

definition passwd_update :: "string \<Rightarrow> nat \<Rightarrow> nat \<Rightarrow> string \<Rightarrow> string \<Rightarrow> string \<Rightarrow> string option res" where
  "passwd_update name uid gid home shell raw =
     map_ok (\<lambda>there. if there then None else Some (add_line raw (passwd_line name uid gid home shell)))
       (scan_users name uid gid (str_lines raw))"

section \<open>The outside\<close>

text \<open>A step runs with a cleared environment of a path and a home, and as a user with its groups unless it is
  root.\<close>

record step_process =
  sp_command :: "string list"
  sp_path :: string
  sp_home :: string
  sp_identity :: "(nat \<times> nat \<times> nat list) option"

record account =
  ac_uid :: nat
  ac_gid :: nat
  ac_home :: string

datatype boot_event =
    Wrote string string
  | MadeDir string
  | Chowned string nat nat
  | Ran step_process "exit_status res"
  | Agent string "string list"

text \<open>\<open>bo_run\<close> is what a started process answers to \<open>try_wait\<close> by the milliseconds since its start; a
  process that is killed ends.\<close>

record 's boot_world =
  bo_load :: "container_bootstrap_file res"
  bo_read :: "string \<Rightarrow> 's \<Rightarrow> string res"
  bo_write :: "string \<Rightarrow> string \<Rightarrow> 's \<Rightarrow> unit res \<times> 's"
  bo_lstat :: "string \<Rightarrow> 's \<Rightarrow> file_stat option res"
  bo_create_dir_all :: "string \<Rightarrow> 's \<Rightarrow> unit res \<times> 's"
  bo_chown :: "string \<Rightarrow> nat \<Rightarrow> nat \<Rightarrow> 's \<Rightarrow> unit res \<times> 's"
  bo_var :: "string \<Rightarrow> string option"
  bo_getpwnam :: "string \<Rightarrow> 's \<Rightarrow> account option"
  bo_groups :: "string \<Rightarrow> nat \<Rightarrow> 's \<Rightarrow> nat list res"
  bo_run :: "step_process \<Rightarrow> 's \<Rightarrow> (nat \<Rightarrow> exit_status option res) res \<times> 's"
  bo_exec :: "string \<Rightarrow> string list \<Rightarrow> 's \<Rightarrow> unit res"

type_synonym ('s, 'a) boot = "'s \<times> boot_event list \<Rightarrow> 'a res \<times> 's \<times> boot_event list"

definition boot_pure :: "'a res \<Rightarrow> ('s, 'a) boot" where
  "boot_pure r = (\<lambda>st. (r, st))"

definition boot_then :: "('s, 'a) boot \<Rightarrow> ('a \<Rightarrow> ('s, 'b) boot) \<Rightarrow> ('s, 'b) boot" where
  "boot_then m f = (\<lambda>st. case m st of (Inl e, st') \<Rightarrow> (Inl e, st') | (Inr a, st') \<Rightarrow> f a st')"

definition boot_see :: "('s \<Rightarrow> 'a res) \<Rightarrow> ('s, 'a) boot" where
  "boot_see f = (\<lambda>(s, log). (f s, s, log))"

definition boot_do :: "boot_event \<Rightarrow> ('s \<Rightarrow> 'a res \<times> 's) \<Rightarrow> ('s, 'a) boot" where
  "boot_do ev f = (\<lambda>(s, log). case f s of (r, s') \<Rightarrow> (r, s', log @ [ev]))"

definition boot_context :: "string \<Rightarrow> ('s, 'a) boot \<Rightarrow> ('s, 'a) boot" where
  "boot_context c m = (\<lambda>st. case m st of (r, st') \<Rightarrow> (with_context c r, st'))"

fun boot_each :: "('a \<Rightarrow> ('s, unit) boot) \<Rightarrow> 'a list \<Rightarrow> ('s, unit) boot" where
  "boot_each f [] = boot_pure (Inr ())"
| "boot_each f (x # xs) = boot_then (f x) (\<lambda>_. boot_each f xs)"

section \<open>The identity of the session\<close>

definition write_update :: "'s boot_world \<Rightarrow> string \<Rightarrow> string option \<Rightarrow> ('s, unit) boot" where
  "write_update w path update = (case update of
     None \<Rightarrow> boot_pure (Inr ())
   | Some contents \<Rightarrow> boot_context (''write '' @ path) (boot_do (Wrote path contents) (bo_write w path contents)))"

definition ensure_group :: "'s boot_world \<Rightarrow> string \<Rightarrow> nat \<Rightarrow> ('s, unit) boot" where
  "ensure_group w name gid =
     boot_then (boot_context ''read /etc/group'' (boot_see (bo_read w ''/etc/group''))) (\<lambda>raw.
     boot_then (boot_pure (group_update name gid raw)) (write_update w ''/etc/group''))"

definition ensure_passwd_entry ::
  "'s boot_world \<Rightarrow> string \<Rightarrow> nat \<Rightarrow> nat \<Rightarrow> string \<Rightarrow> string \<Rightarrow> ('s, unit) boot" where
  "ensure_passwd_entry w name uid gid home shell =
     boot_then (boot_context ''read /etc/passwd'' (boot_see (bo_read w ''/etc/passwd''))) (\<lambda>raw.
     boot_then (boot_pure (passwd_update name uid gid home shell raw)) (write_update w ''/etc/passwd''))"

definition chown_dir :: "'s boot_world \<Rightarrow> string \<Rightarrow> nat \<Rightarrow> nat \<Rightarrow> ('s, unit) boot" where
  "chown_dir w path uid gid = boot_context (''chown '' @ path) (boot_do (Chowned path uid gid) (bo_chown w path uid gid))"

definition ensure_dir_owned_if_created :: "'s boot_world \<Rightarrow> string \<Rightarrow> nat \<Rightarrow> nat \<Rightarrow> bool \<Rightarrow> ('s, unit) boot" where
  "ensure_dir_owned_if_created w path uid gid chown_existing =
     boot_then (boot_context (''stat '' @ path) (boot_see (bo_lstat w path))) (\<lambda>found. case found of
       Some st \<Rightarrow>
         if st_kind st = Symlink then boot_pure (Inl (Bail ''refusing to chown symlink {}'' [path]))
         else if st_kind st = Directory then (if chown_existing then chown_dir w path uid gid else boot_pure (Inr ()))
         else boot_pure (Inl (Bail ''{} exists but is not a directory'' [path]))
     | None \<Rightarrow>
         boot_then (boot_context (''create '' @ path) (boot_do (MadeDir path) (bo_create_dir_all w path))) (\<lambda>_.
         chown_dir w path uid gid))"

definition prepare_identity :: "'s boot_world \<Rightarrow> container_bootstrap_file \<Rightarrow> ('s, unit) boot" where
  "prepare_identity w cfg = (let i = cbf_identity cfg in
     boot_then (ensure_group w (bi_session_user i) (bi_session_gid i)) (\<lambda>_.
     boot_then (ensure_passwd_entry w (bi_session_user i) (bi_session_uid i) (bi_session_gid i) (bi_session_home i)
       (bi_session_shell i)) (\<lambda>_.
     boot_then (ensure_dir_owned_if_created w (bi_session_home i) (bi_session_uid i) (bi_session_gid i)
       (cbf_chown_existing_identity_dirs cfg)) (\<lambda>_.
     ensure_dir_owned_if_created w (bi_state_dir i) (bi_session_uid i) (bi_session_gid i)
       (cbf_chown_existing_identity_dirs cfg)))))"

section \<open>Steps\<close>

text \<open>A process is looked at every 100 milliseconds until it ends or its time is up; then it is killed.\<close>

function wait_with_timeout :: "(nat \<Rightarrow> exit_status option res) \<Rightarrow> nat \<Rightarrow> nat \<Rightarrow> exit_status res" where
  "wait_with_timeout polled limit elapsed = (case polled elapsed of
     Inl e \<Rightarrow> Inl e
   | Inr (Some status) \<Rightarrow> Inr status
   | Inr None \<Rightarrow>
       if limit \<le> elapsed then Inl (Bail ''bootstrap step timed out after {}s'' [show_nat (limit div 1000)])
       else wait_with_timeout polled limit (elapsed + 100))"
  by pat_completeness auto

termination
  by (relation "measure (\<lambda>(polled, limit, elapsed). limit - elapsed)") auto

declare wait_with_timeout.simps [simp del]

definition resolve_user :: "'s boot_world \<Rightarrow> string \<Rightarrow> 's \<Rightarrow> account res" where
  "resolve_user w name s =
     and_then (bail_if (CHR 0x00 \<in> set name) (Bail ''user contains NUL byte'' [])) (\<lambda>_.
     ok_or (Bail ''user {} does not exist'' [name]) (bo_getpwnam w name s))"

definition step_home :: "'s boot_world \<Rightarrow> container_bootstrap_file \<Rightarrow> string \<Rightarrow> 's \<Rightarrow> string res" where
  "step_home w cfg user s =
     (if user = ''root'' then Inr ''/root''
      else if user = bi_session_user (cbf_identity cfg) then Inr (bi_session_home (cbf_identity cfg))
      else map_ok ac_home (resolve_user w user s))"

definition step_identity :: "'s boot_world \<Rightarrow> string \<Rightarrow> 's \<Rightarrow> (nat \<times> nat \<times> nat list) option res" where
  "step_identity w user s =
     (if user = ''root'' then Inr None
      else and_then (resolve_user w user s) (\<lambda>a.
        map_ok (\<lambda>groups. Some (ac_uid a, ac_gid a, groups))
          (with_context (''resolve groups for bootstrap user '' @ user) (bo_groups w user (ac_gid a) s))))"

definition step_process_of :: "'s boot_world \<Rightarrow> container_bootstrap_file \<Rightarrow> bootstrap_step \<Rightarrow> 's \<Rightarrow> step_process res" where
  "step_process_of w cfg step s =
     and_then (step_home w cfg (bs_user step) s) (\<lambda>home.
     map_ok (\<lambda>identity. \<lparr>sp_command = bs_command step,
         sp_path = unwrap_or ''/usr/local/bin:/usr/bin:/bin:/usr/sbin:/sbin'' (bo_var w ''PATH''),
         sp_home = home, sp_identity = identity\<rparr>) (step_identity w (bs_user step) s))"

text \<open>A duration is in nanoseconds, and a whole number of milliseconds, in which the clock of a process counts.\<close>

definition step_timeout :: "bootstrap_step \<Rightarrow> nat res" where
  "step_timeout step = (case bs_timeout step of
     None \<Rightarrow> Inr 60000
   | Some t \<Rightarrow> map_ok (\<lambda>d. d div 1000000) (parse_duration t))"

definition run_process :: "'s boot_world \<Rightarrow> step_process \<Rightarrow> nat \<Rightarrow> ('s, exit_status) boot" where
  "run_process w p limit = (\<lambda>(s, log). case bo_run w p s of (started, s') \<Rightarrow>
     let r = and_then started (\<lambda>polled. wait_with_timeout polled limit 0) in (r, s', log @ [Ran p r]))"

definition run_step :: "'s boot_world \<Rightarrow> (exit_status \<Rightarrow> string) \<Rightarrow> container_bootstrap_file \<Rightarrow> bootstrap_step \<Rightarrow> ('s, unit) boot" where
  "run_step w status_text cfg step =
     boot_then (boot_see (step_process_of w cfg step)) (\<lambda>p.
     boot_then (boot_context (''run bootstrap step '' @ bs_name step)
       (boot_then (boot_pure (step_timeout step)) (run_process w p))) (\<lambda>status.
     boot_pure (bail_if (\<not> status_success status \<and> bs_required step)
       (Bail ''bootstrap step {} failed with {}'' [bs_name step, status_text status]))))"

section \<open>The bootstrap\<close>

text \<open>The agent replaces the process; its start answers only when it fails.\<close>

definition exec_agent :: "'s boot_world \<Rightarrow> container_bootstrap_file \<Rightarrow> ('s, unit) boot" where
  "exec_agent w cfg = (let args = [''--config'', cbf_agent_config cfg, ''run''] in
     boot_context (''exec '' @ cbf_agent_program cfg)
       (boot_do (Agent (cbf_agent_program cfg) args) (\<lambda>s. (bo_exec w (cbf_agent_program cfg) args s, s))))"

definition bootstrap_run :: "'s boot_world \<Rightarrow> (exit_status \<Rightarrow> string) \<Rightarrow> ('s, unit) boot" where
  "bootstrap_run w status_text = boot_then (boot_pure (bo_load w)) (\<lambda>cfg.
     boot_then (if cbf_skip_identity_prepare cfg then boot_pure (Inr ()) else prepare_identity w cfg) (\<lambda>_.
     boot_then (boot_each (run_step w status_text cfg) (cbf_steps cfg)) (\<lambda>_.
     exec_agent w cfg)))"

section \<open>Dropping privileges\<close>

datatype privilege_call = SetGroups "nat list" | SetGid nat | SetUid nat

fun in_turn :: "(privilege_call \<Rightarrow> unit res) \<Rightarrow> privilege_call list \<Rightarrow> privilege_call list \<times> unit res" where
  "in_turn call [] = ([], Inr ())"
| "in_turn call (c # cs) = (case call c of
     Inl e \<Rightarrow> ([c], Inl e) | Inr _ \<Rightarrow> map_prod (Cons c) id (in_turn call cs))"

definition drop_to_user_pre_exec ::
  "(privilege_call \<Rightarrow> unit res) \<Rightarrow> nat \<Rightarrow> nat \<Rightarrow> nat list \<Rightarrow> privilege_call list \<times> unit res" where
  "drop_to_user_pre_exec call uid gid groups = in_turn call [SetGroups groups, SetGid gid, SetUid uid]"

section \<open>Accounts\<close>

lemma strip_cr_id: "CHR 0x0D \<notin> set l \<Longrightarrow> strip_cr l = l"
  by (auto simp: strip_cr_def ends_with_iff)

lemma split_lines_plain: "CHR 0x0A \<notin> set line \<Longrightarrow> split_char (CHR 0x0A) line = [line]"
  by (auto simp: split_char_def intro: split_where_id)

lemma split_last: "last (split_char c s) = [] \<longleftrightarrow> s = [] \<or> last s = c"
proof (cases s rule: rev_cases)
  case (snoc r x)
  show ?thesis
  proof (cases "x = c")
    case True
    then show ?thesis using split_char_app [of c r "[]"] by (simp add: snoc split_char_def)
  next
    case False
    then show ?thesis using split_char_append [of c "[x]" r] by (simp add: snoc)
  qed
qed (simp add: split_char_def)

lemma str_lines_terminated:
  "str_lines (r @ [CHR 0x0A]) = map strip_cr (split_char (CHR 0x0A) r)"
  using split_char_app [of "CHR 0x0A" r "[]"] by (simp add: str_lines_def Let_def split_char_def)

lemma map_strip_cr: "CHR 0x0D \<notin> set raw \<Longrightarrow> map strip_cr (split_char c raw) = split_char c raw"
  by (rule map_idI) (metis split_char_def split_where_chars strip_cr_id subsetD)

lemma str_lines_add:
  assumes "CHR 0x0D \<notin> set raw" and line: "CHR 0x0A \<notin> set line" "CHR 0x0D \<notin> set line"
  shows "\<exists>pad. (pad = [] \<or> pad = [[]]) \<and> str_lines (add_line raw line) = str_lines raw @ pad @ [line]"
proof (cases "ends_with [CHR 0x0A] raw")
  case True
  then obtain r where raw: "raw = r @ [CHR 0x0A]" by (auto simp: ends_with_iff)
  have "add_line raw line = (r @ CHR 0x0A # line) @ [CHR 0x0A]" using True by (simp add: add_line_def raw)
  then have "str_lines (add_line raw line) = str_lines raw @ [] @ [line]"
    using line by (simp only: str_lines_terminated split_char_app split_lines_plain raw map_append)
      (simp add: strip_cr_id split_lines_plain)
  then show ?thesis by blast
next
  case False
  have new: "add_line raw line = (raw @ CHR 0x0A # line) @ [CHR 0x0A]" using False by (simp add: add_line_def)
  have lines: "str_lines (add_line raw line) = split_char (CHR 0x0A) raw @ [line]"
    using line assms(1) unfolding new str_lines_terminated split_char_app map_append
    by (simp add: split_lines_plain map_strip_cr strip_cr_id)
  show ?thesis
  proof (cases "raw = []")
    case True
    then have "str_lines (add_line raw line) = [[], line]" "str_lines raw = []"
      unfolding lines by (simp_all add: str_lines_def split_char_def)
    then show ?thesis by simp
  next
    case nonempty: False
    with False have "last (split_char (CHR 0x0A) raw) \<noteq> []" by (metis append_butlast_last_id ends_with_iff split_last)
    moreover have "split_char (CHR 0x0A) raw \<noteq> []" by (simp add: split_char_def)
    moreover have "map strip_cr (butlast (split_char (CHR 0x0A) raw)) = butlast (split_char (CHR 0x0A) raw)"
      using map_strip_cr [OF assms(1)] by (metis map_butlast)
    ultimately have "str_lines raw = split_char (CHR 0x0A) raw"
      by (simp add: str_lines_def Let_def)
    then show ?thesis by (simp add: lines)
  qed
qed

text \<open>What the account files say: the first entry of a name, and whether a group is known.\<close>

definition user_entry :: "string \<Rightarrow> string \<Rightarrow> bool" where
  "user_entry name line \<longleftrightarrow> length (account_fields line) \<ge> 7 \<and> account_fields line ! 0 = name"

definition user_ids :: "string \<Rightarrow> nat \<times> nat" where
  "user_ids line = (parse_id (account_fields line ! 2), parse_id (account_fields line ! 3))"

definition passwd_lookup :: "string \<Rightarrow> string \<Rightarrow> (nat \<times> nat) option" where
  "passwd_lookup raw name = map_option user_ids (find (user_entry name) (str_lines raw))"

lemma find_append: "find P (xs @ ys) = (case find P xs of Some x \<Rightarrow> Some x | None \<Rightarrow> find P ys)"
  by (induction xs) auto

lemma scan_users_True:
  "scan_users name uid gid lines = Inr True \<Longrightarrow> map_option user_ids (find (user_entry name) lines) = Some (uid, gid)"
  by (induction lines) (auto simp: Let_def user_entry_def user_ids_def split: if_splits)

lemma scan_users_False: "scan_users name uid gid lines = Inr False \<Longrightarrow> find (user_entry name) lines = None"
  by (induction lines) (auto simp: Let_def user_entry_def split: if_splits)

lemma scan_users_append:
  "scan_users name uid gid xs = Inr False \<Longrightarrow> scan_users name uid gid (xs @ ys) = scan_users name uid gid ys"
  by (induction xs) (auto simp: Let_def split: if_splits)

lemma account_fields_entry:
  assumes "CHR '':'' \<notin> set (concat fs)" "fs \<noteq> []"
  shows "account_fields (join '':'' fs) = fs"
  using assms
proof (induction fs rule: induct_list012)
  case (2 f)
  then show ?case by (auto simp: account_fields_def split_char_def intro: split_where_id)
next
  case (3 f g fs)
  then have "account_fields (f @ CHR '':'' # join '':'' (g # fs)) = [f] @ (g # fs)"
    unfolding account_fields_def split_char_app
    by (auto simp: split_char_def intro: split_where_id)
  then show ?case by simp
qed simp

lemma digits_plain: "x \<in> set (show_nat n) \<Longrightarrow> is_ascii_digit x"
  using show_nat_digits [of n] by (auto simp: list_all_iff)

definition plain_line :: "string list \<Rightarrow> bool" where
  "plain_line fs \<longleftrightarrow> list_all (\<lambda>f. list_all (\<lambda>c. c \<notin> {CHR '':'', CHR 0x0A, CHR 0x0D}) f) fs"

lemma plain_join:
  "plain_line fs \<Longrightarrow> CHR 0x0A \<notin> set (join '':'' fs) \<and> CHR 0x0D \<notin> set (join '':'' fs)"
  by (induction fs rule: induct_list012) (auto simp: plain_line_def list_all_iff)

lemma plain_fields: "plain_line fs \<Longrightarrow> fs \<noteq> [] \<Longrightarrow> account_fields (join '':'' fs) = fs"
  by (rule account_fields_entry) (auto simp: plain_line_def list_all_iff)

lemma plain_name: "name_ok v \<Longrightarrow> list_all (\<lambda>c. c \<notin> {CHR '':'', CHR 0x0A, CHR 0x0D}) v"
  by (auto simp: name_ok_def list_all_iff is_ascii_alphanumeric_def is_ascii_lowercase_def is_ascii_uppercase_def
      is_ascii_digit_def)

lemma plain_digits: "list_all (\<lambda>c. c \<notin> {CHR '':'', CHR 0x0A, CHR 0x0D}) (show_nat n)"
  using digits_plain [of _ n] by (force simp: list_all_iff is_ascii_digit_def)

lemma parse_id_show: "n < u32_limit \<Longrightarrow> parse_id (show_nat n) = n"
  by (simp add: parse_id_def parse_uint_show)

lemma plain_identity:
  assumes "bootstrap_identity_validate i = Inr ()"
  shows "plain_line [bi_session_user i, bi_session_home i, bi_session_shell i]"
  using assms plain_name [of "bi_session_user i"]
  by (auto simp: bootstrap_identity_validate_def validate_passwd_scalar_def res_simps plain_line_def list_all_iff
      list_ex_iff)


definition demo_identity :: bootstrap_identity where
  "demo_identity = \<lparr>bi_session_user = ''dev'', bi_session_uid = 7, bi_session_gid = 7, bi_session_home = ''/home/dev'',
     bi_session_shell = ''/bin/sh'', bi_state_dir = ''/s''\<rparr>"

definition demo_passwd :: string where
  "demo_passwd = ''root:x:0:0:root:/root:/bin/sh''"


section \<open>The agent starts last\<close>

text \<open>What the steps answered, and which agents were started.\<close>

fun step_answers :: "boot_event list \<Rightarrow> exit_status res list" where
  "step_answers [] = []"
| "step_answers (Ran p r # log) = r # step_answers log"
| "step_answers (_ # log) = step_answers log"

fun started_agents :: "boot_event list \<Rightarrow> (string \<times> string list) list" where
  "started_agents [] = []"
| "started_agents (Agent program args # log) = (program, args) # started_agents log"
| "started_agents (_ # log) = started_agents log"

lemma step_answers_append [simp]: "step_answers (xs @ ys) = step_answers xs @ step_answers ys"
  by (induction xs rule: step_answers.induct) simp_all

lemma started_agents_append [simp]: "started_agents (xs @ ys) = started_agents xs @ started_agents ys"
  by (induction xs rule: started_agents.induct) simp_all

text \<open>An action that neither runs a step nor starts an agent.\<close>

definition still :: "('s, 'a) boot \<Rightarrow> bool" where
  "still m \<longleftrightarrow> (\<forall>st. step_answers (snd (snd (m st))) = step_answers (snd st)
     \<and> started_agents (snd (snd (m st))) = started_agents (snd st))"

named_theorems still

lemma still_basic [still]:
  "still (boot_pure r)" "still (boot_see f)"
  "still m \<Longrightarrow> (\<And>a. still (g a)) \<Longrightarrow> still (boot_then m g)"
  "still m \<Longrightarrow> still (boot_context c m)"
  "step_answers [ev] = [] \<Longrightarrow> started_agents [ev] = [] \<Longrightarrow> still (boot_do ev h)"
  by (auto simp: still_def boot_pure_def boot_see_def boot_then_def boot_context_def boot_do_def
      split: prod.splits sum.splits) (metis prod.collapse snd_conv)+

lemma still_prepare_identity: "still (prepare_identity w cfg)"
  unfolding prepare_identity_def Let_def ensure_group_def ensure_passwd_entry_def ensure_dir_owned_if_created_def
    chown_dir_def write_update_def
  by (auto intro!: still split: option.split)

definition step_passed :: "bootstrap_step \<Rightarrow> exit_status res \<Rightarrow> bool" where
  "step_passed step answer \<longleftrightarrow> (case answer of
     Inl _ \<Rightarrow> False | Inr status \<Rightarrow> if bs_required step then status_success status else True)"

text \<open>A step that goes on has answered, and successfully if it is required.\<close>

definition steps_pass :: "bootstrap_step list \<Rightarrow> ('s, unit) boot \<Rightarrow> bool" where
  "steps_pass steps m \<longleftrightarrow> (\<forall>st. started_agents (snd (snd (m st))) = started_agents (snd st)
     \<and> (fst (m st) = Inr () \<longrightarrow> (\<exists>answers. step_answers (snd (snd (m st))) = step_answers (snd st) @ answers
          \<and> list_all2 step_passed steps answers)))"

lemma still_steps_pass: "still m \<Longrightarrow> steps_pass [] m"
  by (simp add: still_def steps_pass_def)

lemma steps_pass_then:
  assumes "steps_pass xs m" and "steps_pass ys m'"
  shows "steps_pass (xs @ ys) (boot_then m (\<lambda>_. m'))"
  unfolding steps_pass_def
proof (intro allI)
  fix st
  obtain r st' where m: "m st = (r, st')" by (cases "m st")
  obtain r' st'' where m': "m' st' = (r', st'')" by (cases "m' st'")
  from assms(1) m have first: "started_agents (snd st') = started_agents (snd st)"
    "r = Inr () \<Longrightarrow> \<exists>answers. step_answers (snd st') = step_answers (snd st) @ answers \<and> list_all2 step_passed xs answers"
    unfolding steps_pass_def by (metis fst_conv snd_conv)+
  from assms(2) m' have second: "started_agents (snd st'') = started_agents (snd st')"
    "r' = Inr () \<Longrightarrow> \<exists>answers. step_answers (snd st'') = step_answers (snd st') @ answers \<and> list_all2 step_passed ys answers"
    unfolding steps_pass_def by (metis fst_conv snd_conv)+
  show "started_agents (snd (snd (boot_then m (\<lambda>_. m') st))) = started_agents (snd st)
      \<and> (fst (boot_then m (\<lambda>_. m') st) = Inr () \<longrightarrow> (\<exists>answers.
          step_answers (snd (snd (boot_then m (\<lambda>_. m') st))) = step_answers (snd st) @ answers
          \<and> list_all2 step_passed (xs @ ys) answers))"
  proof (cases r)
    case (Inl e)
    with first show ?thesis by (simp add: boot_then_def m)
  next
    case (Inr u)
    with first second show ?thesis
      by (auto simp: boot_then_def m m' intro!: list_all2_appendI)
  qed
qed

lemma run_step_passes: "steps_pass [step] (run_step w status_text cfg step)"
  unfolding steps_pass_def
  by (auto simp: run_step_def boot_then_def boot_see_def boot_context_def boot_pure_def run_process_def Let_def
      step_passed_def bail_if_def split: prod.splits sum.splits if_splits)

lemma each_step_passes: "steps_pass steps (boot_each (run_step w status_text cfg) steps)"
proof (induction steps)
  case Nil
  show ?case by (simp add: still_steps_pass still)
next
  case (Cons step steps)
  from steps_pass_then [OF run_step_passes Cons] show ?case by simp
qed

text \<open>C23. The agent is started at most once and last: only when every step of the configuration ran, in its order, and
  each that is required succeeded.\<close>

theorem agent_starts_after_required_steps:
  "case bootstrap_run w status_text (s, []) of (r, _, log) \<Rightarrow>
     started_agents log = []
     \<or> (\<exists>cfg. bo_load w = Inr cfg
         \<and> started_agents log = [(cbf_agent_program cfg, [''--config'', cbf_agent_config cfg, ''run''])]
         \<and> list_all2 step_passed (cbf_steps cfg) (step_answers log)
         \<and> log \<noteq> [] \<and> started_agents [last log] = started_agents log)"
proof (cases "bo_load w")
  case (Inl e)
  then show ?thesis by (simp add: bootstrap_run_def boot_then_def boot_pure_def)
next
  case (Inr cfg)
  define prepare where "prepare = (if cbf_skip_identity_prepare cfg then boot_pure (Inr ()) else prepare_identity w cfg)"
  let ?steps = "boot_then prepare (\<lambda>_. boot_each (run_step w status_text cfg) (cbf_steps cfg))"
  have run: "bootstrap_run w status_text (s, []) = boot_then ?steps (\<lambda>_. exec_agent w cfg) (s, [])"
    by (simp add: bootstrap_run_def boot_then_def boot_pure_def Inr prepare_def split: prod.split sum.split)
  have "still prepare" by (simp add: prepare_def still still_prepare_identity)
  then have "steps_pass ([] @ cbf_steps cfg) ?steps"
    by (intro steps_pass_then [OF still_steps_pass each_step_passes])
  then have "started_agents (snd (snd (?steps (s, [])))) = started_agents (snd (s, []))
     \<and> (fst (?steps (s, [])) = Inr () \<longrightarrow> (\<exists>answers.
          step_answers (snd (snd (?steps (s, [])))) = step_answers (snd (s, [])) @ answers
          \<and> list_all2 step_passed ([] @ cbf_steps cfg) answers))"
    unfolding steps_pass_def by (rule spec)
  then have passed: "started_agents (snd (snd (?steps (s, [])))) = []"
    "fst (?steps (s, [])) = Inr () \<Longrightarrow> list_all2 step_passed (cbf_steps cfg) (step_answers (snd (snd (?steps (s, [])))))"
    by simp_all
  obtain r s' log where steps: "?steps (s, []) = (r, s', log)" by (metis prod_cases3)
  show ?thesis
  proof (cases r)
    case (Inl e)
    with passed steps show ?thesis by (simp add: run boot_then_def)
  next
    case ok: (Inr u)
    have "exec_agent w cfg (s', log) = (with_context (''exec '' @ cbf_agent_program cfg)
        (bo_exec w (cbf_agent_program cfg) [''--config'', cbf_agent_config cfg, ''run''] s'), s',
        log @ [Agent (cbf_agent_program cfg) [''--config'', cbf_agent_config cfg, ''run'']])"
      by (simp add: exec_agent_def boot_context_def boot_do_def Let_def)
    moreover have "boot_then ?steps (\<lambda>_. exec_agent w cfg) (s, []) = exec_agent w cfg (s', log)"
      by (simp add: boot_then_def [of ?steps "\<lambda>_. exec_agent w cfg"] steps ok)
    ultimately show ?thesis
      using passed steps ok Inr by (simp add: run)
  qed
qed

section \<open>Time and privileges\<close>

text \<open>The wait for a step does not depend on what its process would answer after its time and one more round.\<close>

lemma wait_is_bounded:
  "(\<And>t. t < limit + 100 \<Longrightarrow> polled t = polled' t) \<Longrightarrow> elapsed < limit + 100 \<Longrightarrow>
    wait_with_timeout polled limit elapsed = wait_with_timeout polled' limit elapsed"
proof (induction polled limit elapsed rule: wait_with_timeout.induct)
  case (1 polled limit elapsed)
  then show ?case
    by (subst (1 2) wait_with_timeout.simps) (auto split: sum.split option.split)
qed

text \<open>The user is changed last, after its groups.\<close>

lemma privileges_drop_in_order:
  "case drop_to_user_pre_exec call uid gid groups of
     (calls, Inr _) \<Rightarrow> calls = [SetGroups groups, SetGid gid, SetUid uid]
   | (calls, Inl _) \<Rightarrow> calls = take (length calls) [SetGroups groups, SetGid gid, SetUid uid]"
  by (auto simp: drop_to_user_pre_exec_def split: sum.split)

end
