(* ===== verification/Process_Start.thy ===== *)
theory Process_Start
  imports Rotation Control Ssh_Filter Gateway_Config Gateway_Runtime
begin

text \<open>
  How the processes start: \<open>agent.rs\<close>, \<open>agent/socket.rs\<close>, \<open>logging.rs\<close> and the program of the SSH command
  filter. The agent loads its file, decides which tasks run, and serves its control socket or waits for a
  signal; its sockets are bound in a private directory; logs go to a rotating file, to the standard
  error or nowhere.

  Files, the environment, the parser of log filters and the replacement of the process are an outside,
  which is asked at most once for each answer. Tasks that are started run as their own theories model
  them (\<open>Supervision\<close>, \<open>Idle_Cleanup\<close>, \<open>Control\<close>).
\<close>

section \<open>Steps until the first that fails\<close>

text \<open>A list of steps with what each is answered: what was done, and the answer.\<close>

fun perform :: "('e \<times> unit res) list \<Rightarrow> 'e list \<times> unit res" where
  "perform [] = ([], Inr ())"
| "perform ((e, r) # steps) = (case r of
     Inl x \<Rightarrow> ([e], Inl x)
   | Inr _ \<Rightarrow> (case perform steps of (es, q) \<Rightarrow> (e # es, q)))"

lemma perform_done: "snd (perform steps) = Inr () \<longleftrightarrow> list_all (\<lambda>(e, r). r = Inr ()) steps"
  by (induction steps rule: perform.induct) (auto split: sum.split prod.split)

text \<open>A step is taken only when those before it succeeded.\<close>

lemma perform_append: "e \<in> set (fst (perform (steps @ later)))
    \<longleftrightarrow> e \<in> set (fst (perform steps))
      \<or> list_all (\<lambda>(e, r). r = Inr ()) steps \<and> e \<in> set (fst (perform later))"
  by (induction steps rule: perform.induct) (auto split: sum.split prod.split)

lemma perform_effects: "e \<in> set (fst (perform steps)) \<Longrightarrow> e \<in> fst ` set steps"
  by (induction steps rule: perform.induct) (auto split: sum.splits prod.splits)

lemma perform_three: "e \<in> set (fst (perform (first @ second @ third)))
    \<longleftrightarrow> e \<in> set (fst (perform first))
      \<or> list_all (\<lambda>(e, r). r = Inr ()) first \<and> (e \<in> set (fst (perform second))
        \<or> list_all (\<lambda>(e, r). r = Inr ()) second \<and> e \<in> set (fst (perform third)))"
  by (simp add: perform_append)

section \<open>The sockets of the agent\<close>

datatype file_kind = SocketFile | OtherFile

record socket_outside =
  so_private_dir :: "string \<Rightarrow> unit res"
  so_chown :: "string \<Rightarrow> socket_owner \<Rightarrow> unit res"
  so_kind :: "string \<Rightarrow> file_kind option res"
  so_unlink :: "string \<Rightarrow> unit res"
  so_bind :: "string \<Rightarrow> unit res"
  so_chmod :: "string \<Rightarrow> nat \<Rightarrow> unit res"

datatype socket_effect =
    MadePrivate string
  | NulChecked string
  | Chowned string socket_owner
  | Examined string
  | Unlinked string
  | SocketBound string
  | Restricted string nat

definition unlink_socket_if_present :: "socket_outside \<Rightarrow> string \<Rightarrow> (socket_effect \<times> unit res) list" where
  "unlink_socket_if_present w path = (case so_kind w path of
     Inl e \<Rightarrow> [(Examined path, Inl (Context (''stat '' @ path) e))]
   | Inr None \<Rightarrow> [(Examined path, Inr ())]
   | Inr (Some kind) \<Rightarrow>
       [(Examined path, bail_if (kind \<noteq> SocketFile) (Bail ''refusing to unlink non-socket {}'' [path])),
        (Unlinked path, so_unlink w path)])"

definition apply_path_owner :: "socket_outside \<Rightarrow> string \<Rightarrow> socket_owner option \<Rightarrow> (socket_effect \<times> unit res) list" where
  "apply_path_owner w path owner = (case owner of
     None \<Rightarrow> []
   | Some owner \<Rightarrow>
       [(NulChecked path, case position (\<lambda>ch. ch = CHR 0x00) path of
           None \<Rightarrow> Inr ()
         | Some i \<Rightarrow> Inl (Context (''path contains NUL byte: '' @ path)
             (Bail ''nul byte found in provided data at position: {}'' [show_nat i]))),
        (Chowned path owner, with_context (''chown '' @ path) (so_chown w path owner))])"

definition prepare_parent :: "socket_outside \<Rightarrow> string \<Rightarrow> socket_owner option \<Rightarrow> (socket_effect \<times> unit res) list" where
  "prepare_parent w path owner = (case path_parent path of
     None \<Rightarrow> []
   | Some parent \<Rightarrow> (MadePrivate parent, so_private_dir w parent) # apply_path_owner w parent owner)"

definition bind_and_restrict :: "socket_outside \<Rightarrow> string \<Rightarrow> socket_owner option \<Rightarrow> (socket_effect \<times> unit res) list" where
  "bind_and_restrict w path owner =
     [(SocketBound path, so_bind w path), (Restricted path 384, so_chmod w path 384)] @ apply_path_owner w path owner"

definition bind_private_unix_socket ::
  "socket_outside \<Rightarrow> string \<Rightarrow> socket_owner option \<Rightarrow> socket_effect list \<times> unit res" where
  "bind_private_unix_socket w path owner =
     perform (prepare_parent w path owner @ unlink_socket_if_present w path @ bind_and_restrict w path owner)"

text \<open>A path that was given to the user of the sockets.\<close>

definition owned_by :: "socket_outside \<Rightarrow> socket_owner option \<Rightarrow> string \<Rightarrow> bool" where
  "owned_by w owner path = (case owner of None \<Rightarrow> True | Some owner \<Rightarrow> so_chown w path owner = Inr ())"

lemma apply_path_owner_done:
  "list_all (\<lambda>(e, r). r = Inr ()) (apply_path_owner w path owner) \<Longrightarrow> owned_by w owner path"
  by (cases owner; cases "so_chown w path (the owner)") (simp_all add: apply_path_owner_def owned_by_def)

lemma apply_path_owner_effects:
  "e \<in> fst ` set (apply_path_owner w path owner) \<Longrightarrow> (\<exists>p. e = NulChecked p) \<or> (\<exists>p u. e = Chowned p u)"
  by (auto simp: apply_path_owner_def split: option.splits)

lemma unlink_effects:
  "e \<in> set (fst (perform (unlink_socket_if_present w path))) \<Longrightarrow>
     e = Examined path \<or> e = Unlinked path \<and> so_kind w path = Inr (Some SocketFile)"
  by (auto simp: unlink_socket_if_present_def bail_if_def split: sum.splits option.splits if_splits)

lemma unlink_done:
  "list_all (\<lambda>(e, r). r = Inr ()) (unlink_socket_if_present w path) \<Longrightarrow> so_kind w path \<noteq> Inr (Some OtherFile)"
  by (auto simp: unlink_socket_if_present_def bail_if_def)

lemma prepare_parent_done:
  "list_all (\<lambda>(e, r). r = Inr ()) (prepare_parent w path owner) \<Longrightarrow> case path_parent path of
      None \<Rightarrow> True | Some parent \<Rightarrow> so_private_dir w parent = Inr () \<and> owned_by w owner parent"
  using apply_path_owner_done [of w "the (path_parent path)" owner]
  by (cases "path_parent path") (simp_all add: prepare_parent_def)

lemma prepare_parent_effects:
  assumes "e \<in> set (fst (perform (prepare_parent w path owner)))"
  shows "(\<exists>p. e = MadePrivate p \<or> e = NulChecked p) \<or> (\<exists>p u. e = Chowned p u)"
  using perform_effects [OF assms]
  by (cases "path_parent path") (auto simp: prepare_parent_def dest!: apply_path_owner_effects [OF imageI])

lemma bind_and_restrict_effects:
  assumes "e \<in> set (fst (perform (bind_and_restrict w path owner)))"
  shows "e = SocketBound path \<or> (\<exists>p m. e = Restricted p m) \<or> (\<exists>p. e = NulChecked p) \<or> (\<exists>p u. e = Chowned p u)"
  using perform_effects [OF assms] apply_path_owner_effects [of e w path owner]
  by (auto simp: bind_and_restrict_def)

lemma bind_and_restrict_done:
  assumes "list_all (\<lambda>(e, r). r = Inr ()) (bind_and_restrict w path owner)"
  shows "so_bind w path = Inr () \<and> so_chmod w path 384 = Inr () \<and> owned_by w owner path
    \<and> SocketBound path \<in> set (fst (perform (bind_and_restrict w path owner)))"
  using assms apply_path_owner_done [of w path owner] by (simp add: bind_and_restrict_def split: prod.split)

text \<open>C25. Before a socket of the agent is bound, its directory is private and belongs to the user of the sockets;
  nothing but a socket at that very path is unlinked; and it is given out only once it is bound, for its
  user alone to open, and his own.\<close>

theorem bound_sockets_are_private:
  "case bind_private_unix_socket w path owner of (effects, r) \<Rightarrow>
     list_all (\<lambda>e. case e of
         Unlinked p \<Rightarrow> p = path \<and> so_kind w path = Inr (Some SocketFile)
       | SocketBound p \<Rightarrow> p = path \<and> so_kind w path \<noteq> Inr (Some OtherFile)
           \<and> (case path_parent path of
               None \<Rightarrow> True
             | Some parent \<Rightarrow> so_private_dir w parent = Inr () \<and> owned_by w owner parent)
       | _ \<Rightarrow> True) effects
     \<and> (case r of Inl _ \<Rightarrow> True | Inr _ \<Rightarrow>
          SocketBound path \<in> set effects \<and> so_bind w path = Inr () \<and> so_chmod w path 384 = Inr () \<and> owned_by w owner path)"
proof -
  let ?parent = "prepare_parent w path owner" and ?unlink = "unlink_socket_if_present w path"
    and ?bind = "bind_and_restrict w path owner"
  let ?done = "list_all (\<lambda>(e, r). r = Inr ()) :: (socket_effect \<times> unit res) list \<Rightarrow> bool"
  let ?safe = "\<lambda>e. case e of
      Unlinked p \<Rightarrow> p = path \<and> so_kind w path = Inr (Some SocketFile)
    | SocketBound p \<Rightarrow> p = path \<and> so_kind w path \<noteq> Inr (Some OtherFile)
        \<and> (case path_parent path of
            None \<Rightarrow> True
          | Some parent \<Rightarrow> so_private_dir w parent = Inr () \<and> owned_by w owner parent)
    | _ \<Rightarrow> True"
  obtain effects r where run: "bind_private_unix_socket w path owner = (effects, r)" by force
  then have all: "perform (?parent @ ?unlink @ ?bind) = (effects, r)"
    by (simp add: bind_private_unix_socket_def)
  have effects: "e \<in> set effects \<longleftrightarrow> e \<in> set (fst (perform ?parent)) \<or> ?done ?parent \<and>
      (e \<in> set (fst (perform ?unlink)) \<or> ?done ?unlink \<and> e \<in> set (fst (perform ?bind)))" for e
    using perform_three [of e ?parent ?unlink ?bind] by (simp only: all fst_conv)
  have safe: "?safe e" if "e \<in> set effects" for e
    using that unfolding effects
  proof (elim disjE conjE)
    assume "e \<in> set (fst (perform ?parent))"
    from prepare_parent_effects [OF this] show ?thesis by (elim disjE exE) simp_all
  next
    assume "e \<in> set (fst (perform ?unlink))"
    from unlink_effects [OF this] show ?thesis by (elim disjE conjE) simp_all
  next
    assume "?done ?parent" "?done ?unlink" "e \<in> set (fst (perform ?bind))"
    from bind_and_restrict_effects [OF this(3)] prepare_parent_done [OF this(1)] unlink_done [OF this(2)]
    show ?thesis by (elim disjE exE) simp_all
  qed
  have "SocketBound path \<in> set effects \<and> so_bind w path = Inr () \<and> so_chmod w path 384 = Inr () \<and> owned_by w owner path"
    if "r = Inr ()"
  proof -
    have "?done (?parent @ ?unlink @ ?bind)" using that by (simp only: all snd_conv flip: perform_done)
    then show ?thesis using bind_and_restrict_done [of w path owner] by (simp add: effects)
  qed
  with safe run show ?thesis by (cases r) (simp_all add: list_all_iff del: Ball_def)
qed

section \<open>The files of a log\<close>

text \<open>The writer of \<open>logging.rs\<close>: it rotates as the log of a service does, but restricts a file that it
  opened and writes what the file takes. The outside says which steps and openings fail.\<close>

record log_faults =
  lf_step :: "rotation_step \<Rightarrow> bool"
  lf_open :: bool
  lf_chmod :: bool

definition no_faults :: log_faults where
  "no_faults = \<lparr>lf_step = \<lambda>_. False, lf_open = False, lf_chmod = False\<rparr>"

definition open_log_file :: "log_faults \<Rightarrow> string \<Rightarrow> file_system \<Rightarrow> nat res \<times> file_system" where
  "open_log_file faults path fs =
     (if lf_open faults then (Inl (Bail ''open {}'' [path]), fs)
      else (case open_append path fs of (file, fs') \<Rightarrow>
        (if lf_chmod faults then Inl (Bail ''chmod {} {}'' [''600'', path]) else Inr file, fs')))"

definition size_rotating_file_new ::
  "log_faults \<Rightarrow> unit res \<Rightarrow> string \<Rightarrow> string \<Rightarrow> nat \<Rightarrow> nat \<Rightarrow> file_system \<Rightarrow> service_log res" where
  "size_rotating_file_new faults private_dir directory file_prefix max_bytes max_files fs =
     and_then (with_context (''create log directory '' @ directory) private_dir) (\<lambda>_.
       let path = path_join directory (file_prefix @ ''.log'') in
       case open_log_file faults path fs of (opened, fs') \<Rightarrow>
         map_ok (\<lambda>file. \<lparr>sl_rotation = rotation_state_new path max_bytes max_files (length (fs_data fs' file)),
             sl_handle = file, sl_fs = fs'\<rparr>) opened)"

definition log_rotate_if_needed :: "log_faults \<Rightarrow> nat \<Rightarrow> service_log \<Rightarrow> unit res \<times> service_log" where
  "log_rotate_if_needed faults incoming log =
     (if \<not> should_rotate (sl_rotation log) incoming then (Inr (), log)
      else let plan = make_rotation_plan (sl_rotation log) in
        case run_steps (lf_step faults) (rp_steps plan) (sl_fs log) of
          (False, fs) \<Rightarrow> (Inl (Bail ''rename'' []), log\<lparr>sl_fs := fs\<rparr>)
        | (True, fs) \<Rightarrow> (case open_log_file faults (rp_active_path plan) fs of
            (Inr file, fs') \<Rightarrow> (Inr (), log\<lparr>sl_fs := fs', sl_rotation := reset_after_rotation (sl_rotation log),
              sl_handle := file\<rparr>)
          | (Inl e, fs') \<Rightarrow> (Inl e, log\<lparr>sl_fs := fs', sl_rotation := reset_after_rotation (sl_rotation log)\<rparr>)))"

text \<open>\<open>write\<close> fails or takes a part of the buffer, of a length that the file system chooses.\<close>

definition log_write :: "log_faults \<Rightarrow> (nat \<Rightarrow> nat res) \<Rightarrow> string \<Rightarrow> service_log \<Rightarrow> nat res \<times> service_log" where
  "log_write faults takes buffer log = (case log_rotate_if_needed faults (length buffer) log of
     (Inl e, log') \<Rightarrow> (Inl e, log')
   | (Inr _, log') \<Rightarrow> (case takes (length buffer) of
       Inl e \<Rightarrow> (Inl e, log')
     | Inr taken \<Rightarrow> let written = min taken (length buffer) in
         (Inr written, log'\<lparr>sl_fs := append_to (sl_handle log') (take written buffer) (sl_fs log'),
           sl_rotation := record_write written (sl_rotation log')\<rparr>)))"

lemma log_rotates_as_service_log:
  assumes "\<not> lf_chmod faults"
  shows "log_rotate_if_needed faults incoming log = rotate_if_needed (lf_step faults) (lf_open faults) incoming log"
  using assms by (simp add: log_rotate_if_needed_def rotate_if_needed_def open_log_file_def Let_def case_prod_beta
      split: bool.split)

text \<open>Where the file takes the whole buffer the writer is the one of the service logs, whose properties it has.\<close>

lemma log_writes_as_service_log:
  assumes "\<not> lf_chmod faults" and "takes (length buffer) = Inr (length buffer)"
  shows "log_write faults takes buffer log =
    (case write_all (lf_step faults) (lf_open faults) buffer log of
       (Inl e, log') \<Rightarrow> (Inl e, log') | (Inr _, log') \<Rightarrow> (Inr (length buffer), log'))"
  by (auto simp: log_write_def write_all_def log_rotates_as_service_log [OF assms(1)] assms(2) Let_def
      split: prod.split sum.split)

section \<open>Where a process logs to\<close>

record log_outside =
  lo_host :: "Gateway_Runtime.host"
  lo_filter :: "string \<Rightarrow> unit res"
  lo_private_dir :: "string \<Rightarrow> unit res"
  lo_faults :: log_faults
  lo_files :: file_system

datatype log_target = LogFile service_log | LogStandardError | LogNowhere

record log_setup =
  ls_directive :: string
  ls_target :: log_target

definition logging_init ::
  "log_outside \<Rightarrow> logging_config \<Rightarrow> string option \<Rightarrow> string \<Rightarrow> string \<Rightarrow> bool \<Rightarrow> log_setup res" where
  "logging_init w config level env_name file_prefix protocol_mode =
     (let directive = (case level of
            Some level \<Rightarrow> level
          | None \<Rightarrow> unwrap_or (lg_level config) (h_var (lo_host w) env_name))
      in and_then (with_context ''invalid log filter'' (lo_filter w directive)) (\<lambda>_.
        let console = (if protocol_mode then False else lg_console config) in
        case lg_directory config of
          Some directory \<Rightarrow> map_ok (\<lambda>writer. \<lparr>ls_directive = directive, ls_target = LogFile writer\<rparr>)
            (with_context (''initialize file logging for '' @ file_prefix)
              (size_rotating_file_new (lo_faults w) (lo_private_dir w directory) directory file_prefix
                (unwrap_or (100 * 1024 * 1024) (lg_max_bytes config)) (unwrap_or 5 (lg_max_files config)) (lo_files w)))
        | None \<Rightarrow> Inr \<lparr>ls_directive = directive,
            ls_target = (if console \<or> protocol_mode then LogStandardError else LogNowhere)\<rparr>))"

definition fallback_config :: "bool \<Rightarrow> logging_config" where
  "fallback_config console = logging_default\<lparr>lg_console := console\<rparr>"

definition render_gateway_logging_directory ::
  "Gateway_Runtime.host \<Rightarrow> logging_config \<Rightarrow> workspace_config \<Rightarrow> runtime_context \<Rightarrow> logging_config res" where
  "render_gateway_logging_directory h config workspace_cfg context = (case lg_directory config of
     None \<Rightarrow> Inr config
   | Some directory \<Rightarrow>
       and_then (user_current h) (\<lambda>user.
         let workspace = resolve_workspace (uc_home user) (ws_path workspace_cfg);
             state = path_join workspace (ws_state_dir workspace_cfg);
             vars = insert_template_vars context (bt_extend []
               [(''user'', uc_user user), (''uid'', show_nat (uc_uid user)), (''gid'', show_nat (uc_gid user)),
                (''home'', uc_home user), (''workspace'', workspace), (''state'', state), (''state_dir'', state)])
         in map_ok (\<lambda>rendered. config\<lparr>lg_directory := Some rendered\<rparr>) (render directory vars)))"

text \<open>A variable of the environment, for \<open>std::env::var\<close> and for \<open>std::env::var_os\<close>.\<close>

datatype env_value = EnvAbsent | EnvNotUnicode string | EnvValue string

fun env_os :: "env_value \<Rightarrow> string option" where
  "env_os EnvAbsent = None"
| "env_os (EnvNotUnicode bytes) = Some bytes"
| "env_os (EnvValue s) = Some s"

fun env_unicode :: "env_value \<Rightarrow> string option" where
  "env_unicode (EnvValue s) = Some s"
| "env_unicode _ = None"

definition DEFAULT_AGENT_STATE_DIR :: string where
  "DEFAULT_AGENT_STATE_DIR = ''/tmp/aw-gateway/container''"

definition render_agent_logging_directory :: "(string \<Rightarrow> env_value) \<Rightarrow> logging_config \<Rightarrow> logging_config res" where
  "render_agent_logging_directory env config = (case lg_directory config of
     None \<Rightarrow> Inr config
   | Some directory \<Rightarrow>
       let state_dir = unwrap_or DEFAULT_AGENT_STATE_DIR (env_unicode (env ''AW_CONTAINER_STATE_DIR''))
       in map_ok (\<lambda>rendered. config\<lparr>lg_directory := Some rendered\<rparr>) (render directory (service_vars state_dir)))"

definition init_gateway ::
  "log_outside \<Rightarrow> (string \<Rightarrow> gateway_config res) \<Rightarrow> string option \<Rightarrow> string option \<Rightarrow> bool \<Rightarrow> runtime_context \<Rightarrow> log_setup res" where
  "init_gateway w load config_path level protocol_mode context =
     and_then (case config_path of
         None \<Rightarrow> Inr (fallback_config (\<not> protocol_mode))
       | Some path \<Rightarrow>
           and_then (load path) (\<lambda>cfg.
           and_then (validate_supplied_context (gc_context_vars cfg) context) (\<lambda>_.
             with_context ''render gateway logging directory''
               (and_then (effective_workspace_defaults cfg) (\<lambda>workspace.
                  render_gateway_logging_directory (lo_host w) (gc_logging cfg) workspace context))))) (\<lambda>config.
       logging_init w config level ''AW_GATEWAY_LOG_LEVEL'' ''aw-gateway'' protocol_mode)"

definition init_agent ::
  "log_outside \<Rightarrow> (string \<Rightarrow> env_value) \<Rightarrow> (string \<Rightarrow> container_agent_file res) \<Rightarrow> string option \<Rightarrow> string option
    \<Rightarrow> log_setup res" where
  "init_agent w env load config_path level =
     and_then (case config_path of
         None \<Rightarrow> Inr (fallback_config True)
       | Some path \<Rightarrow>
           and_then (load path) (\<lambda>cfg.
             with_context ''render container-agent logging directory''
               (render_agent_logging_directory env (caf_logging cfg)))) (\<lambda>config.
       logging_init w config level ''AW_CONTAINER_AGENT_LOG_LEVEL'' ''aw-container-agent'' False)"

section \<open>The agent\<close>

record agent_outside =
  ao_host :: "Gateway_Runtime.host"
  ao_var :: "string \<Rightarrow> env_value"
  ao_read :: "string \<Rightarrow> string res"
  ao_decode :: "string \<Rightarrow> container_agent_file res"
  ao_private_dir :: "string \<Rightarrow> unit res"
  ao_exists :: "string \<Rightarrow> bool"
  ao_create_dir :: "string \<Rightarrow> unit res"
  ao_write :: "string \<Rightarrow> string \<Rightarrow> unit res"
  ao_default_config :: string

definition container_agent_file_load :: "agent_outside \<Rightarrow> string \<Rightarrow> container_agent_file res" where
  "container_agent_file_load w path =
     and_then (with_context (''read '' @ path) (ao_read w path)) (\<lambda>raw.
     and_then (with_context (''parse '' @ path) (ao_decode w raw)) (\<lambda>cfg.
     and_then (container_agent_file_validate cfg) (\<lambda>_. Inr cfg)))"

fun optional_env :: "string \<Rightarrow> env_value \<Rightarrow> string option res" where
  "optional_env name (EnvValue s) = Inr (Some s)"
| "optional_env name EnvAbsent = Inr None"
| "optional_env name (EnvNotUnicode _) = Inl (Bail ''{} must be valid Unicode'' [name])"

definition socket_owner_from_env :: "(string \<Rightarrow> env_value) \<Rightarrow> socket_owner option res" where
  "socket_owner_from_env env =
     and_then (optional_env ''AW_AUTHENTICATED_UID'' (env ''AW_AUTHENTICATED_UID'')) (\<lambda>uid.
     and_then (optional_env ''AW_AUTHENTICATED_GID'' (env ''AW_AUTHENTICATED_GID'')) (\<lambda>gid.
       socket_owner_from_values uid gid))"

definition configured_control_socket :: "control_socket_config option \<Rightarrow> string option" where
  "configured_control_socket config = (case config of
     Some (CsPath path) \<Rightarrow> Some path
   | Some (CsEnabled False) \<Rightarrow> None
   | Some (CsEnabled True) \<Rightarrow> Some ''{container_state_dir}/agent.sock''
   | None \<Rightarrow> Some ''{container_state_dir}/agent.sock'')"

text \<open>The tasks that are spawned, with the socket template and the target of the bridge, and what
  \<open>run_agent\<close> waits for in the end.\<close>

datatype agent_task =
    SuperviseService managed_service
  | RunBridge string string
  | RunIdleCleanup

datatype agent_wait = ServeControlSocket string | AwaitShutdownSignal

record agent_plan =
  ap_state :: agent_state
  ap_tasks :: "agent_task list"
  ap_wait :: agent_wait

text \<open>\<open>None\<close> is the panic of the \<open>expect\<close>. A control socket whose path does not render ends the process, and
  with it the tasks.\<close>

definition bridge_tasks :: "container_agent_config \<Rightarrow> agent_task list option" where
  "bridge_tasks agent = (case ca_ssh_bridge agent of
     None \<Rightarrow> Some []
   | Some bridge \<Rightarrow>
       if \<not> sb_enabled bridge then Some []
       else map_option (\<lambda>socket. [RunBridge socket (sb_target bridge)]) (sb_socket bridge))"

definition agent_wait_for :: "string \<Rightarrow> container_agent_config \<Rightarrow> agent_wait res" where
  "agent_wait_for state_dir agent = (case configured_control_socket (ca_control_socket agent) of
     None \<Rightarrow> Inr AwaitShutdownSignal
   | Some control_socket \<Rightarrow> map_ok ServeControlSocket (render control_socket (service_vars state_dir)))"

definition agent_state_dir :: "(string \<Rightarrow> env_value) \<Rightarrow> string" where
  "agent_state_dir env = unwrap_or DEFAULT_AGENT_STATE_DIR (env_os (env ''AW_CONTAINER_STATE_DIR''))"

definition run_agent :: "agent_outside \<Rightarrow> string option \<Rightarrow> agent_plan res option" where
  "run_agent w config_path = (case container_agent_file_load w (agent_config_path (ao_host w) config_path) of
     Inl e \<Rightarrow> Some (Inl e)
   | Inr cfg \<Rightarrow>
       let agent = caf_container_agent cfg; state_dir = agent_state_dir (ao_var w) in
       case and_then (ao_private_dir w state_dir) (\<lambda>_. socket_owner_from_env (ao_var w)) of
         Inl e \<Rightarrow> Some (Inl e)
       | Inr owner \<Rightarrow>
           let state = agent_started state_dir (ca_services agent) (ca_idle_cleanup agent)
                 (case ca_ssh_bridge agent of None \<Rightarrow> False | Some bridge \<Rightarrow> sb_enabled bridge)
                 (env_unicode (ao_var w ''AW_CONTAINER_CONTROL_TOKEN'')) owner
           in map_option (\<lambda>bridge.
                map_ok (\<lambda>waits. \<lparr>ap_state = state,
                    ap_tasks = map SuperviseService (ag_services state) @ bridge
                      @ (if ag_idle_cleanup state \<noteq> None then [RunIdleCleanup] else []),
                    ap_wait = waits\<rparr>)
                  (agent_wait_for state_dir agent))
                (bridge_tasks agent))"

text \<open>The start of the bridge, up to its loop: the socket is bound, then the bridge is ready.\<close>

definition bridge_start :: "socket_outside \<Rightarrow> agent_state \<Rightarrow> string \<Rightarrow> agent_state res" where
  "bridge_start w st socket_template =
     and_then (render socket_template (service_vars (ag_state_dir st))) (\<lambda>socket.
     and_then (snd (bind_private_unix_socket w socket (ag_socket_owner st))) (\<lambda>_.
       Inr (st\<lparr>ag_bridge_ready := True\<rparr>)))"

datatype agent_command = AgentConfigValidate | AgentConfigInit "string option" bool | AgentRun

text \<open>What the command prints, or the plan of a run.\<close>

definition agent_config_init :: "agent_outside \<Rightarrow> string option \<Rightarrow> string option \<Rightarrow> bool \<Rightarrow> string res" where
  "agent_config_init w config init_path force =
     (let path = (case init_path of Some path \<Rightarrow> path | None \<Rightarrow> agent_config_path (ao_host w) config) in
      if ao_exists w path \<and> \<not> force
      then Inl (Bail ''{} already exists; pass --force to overwrite'' [path])
      else and_then (case path_parent path of None \<Rightarrow> Inr () | Some parent \<Rightarrow> ao_create_dir w parent) (\<lambda>_.
        and_then (ao_write w path (ao_default_config w)) (\<lambda>_. Inr path)))"

definition agent_main :: "agent_outside \<Rightarrow> string option \<Rightarrow> agent_command option \<Rightarrow> (string + agent_plan) res option" where
  "agent_main w config command = (case command of
     Some AgentConfigValidate \<Rightarrow>
       Some (map_ok (\<lambda>_. Inl ''ok'') (container_agent_file_load w (agent_config_path (ao_host w) config)))
   | Some (AgentConfigInit init_path force) \<Rightarrow> Some (map_ok Inl (agent_config_init w config init_path force))
   | Some AgentRun \<Rightarrow> map_option (map_ok Inr) (run_agent w config)
   | None \<Rightarrow> map_option (map_ok Inr) (run_agent w config))"

section \<open>The program of the SSH command filter\<close>

definition load_policy :: "(string \<Rightarrow> string res) \<Rightarrow> (string \<Rightarrow> ssh_filter_policy res) \<Rightarrow> string \<Rightarrow> ssh_filter_policy res" where
  "load_policy read decode path =
     and_then (with_context (''read SSH command filter policy '' @ path) (read path)) (\<lambda>raw.
     and_then (with_context (''parse SSH command filter policy '' @ path) (decode raw)) Inr)"

text \<open>The process becomes a program with arguments, its own name first, or ends with a status after it printed
  lines to the standard error.\<close>

datatype filter_end = Becomes string "string list" | Exits int "string list"

definition login_shell :: "string option \<Rightarrow> filter_end" where
  "login_shell shell = (let program = unwrap_or ''/bin/sh'' shell in Becomes program [''-'' @ shell_basename program])"

definition shell_command_end :: "string option \<Rightarrow> string \<Rightarrow> filter_end" where
  "shell_command_end shell command =
     (let program = unwrap_or ''/bin/sh'' shell in Becomes program [program, ''-c'', command])"

definition filter_main ::
  "(string \<Rightarrow> string list option) \<Rightarrow> ssh_filter_policy res \<Rightarrow> string option \<Rightarrow> string option \<Rightarrow> filter_end res option" where
  "filter_main sw policy original shell = (case policy of
     Inl e \<Rightarrow> Some (Inl e)
   | Inr policy \<Rightarrow> (case decide_command sw policy original of
       None \<Rightarrow> None
     | Some LoginShell \<Rightarrow> Some (Inr (login_shell shell))
     | Some (RunCommand command) \<Rightarrow> Some (Inr (shell_command_end shell command))
     | Some RejectLegacyScp \<Rightarrow> Some (Inr (Exits 1 [''blocked by policy: legacy scp is not allowed'']))
     | Some RejectSftp \<Rightarrow> Some (Inr (Exits 1 [''blocked by policy: sftp is not allowed'']))
     | Some RejectComposedTransfer \<Rightarrow>
         map_option (\<lambda>displayed. Inr (Exits 1
           [''blocked by policy: shell composition invokes a restricted transfer command'',
            ''rejected SSH_ORIGINAL_COMMAND: '' @ displayed]))
           (format_ssh_original_command (unwrap_or [] original))))"

section \<open>Properties\<close>

lemma agent_template_renders:
  assumes "validate_template field t AGENT_TEMPLATE_VARS = Inr ()"
  shows "is_ok (render t (service_vars state_dir))"
proof -
  have "set AGENT_TEMPLATE_VARS = set (bt_keys (service_vars state_dir))"
    by (simp add: AGENT_TEMPLATE_VARS_def service_vars_def bt_keys_def)
  with assms show ?thesis
    unfolding render_is_ok_iff validate_template_strict validate_keys_iff by metis
qed

lemma loaded_agent_file:
  "container_agent_file_load w path = Inr cfg \<Longrightarrow> container_agent_file_validate cfg = Inr ()"
  by (auto simp: container_agent_file_load_def res_simps)

lemma default_control_socket_renders:
  "is_ok (render ''{container_state_dir}/agent.sock'' (service_vars state_dir))"
  by (rule agent_template_renders [of undefined]) (code_simp)

lemma accepted_agent_waits:
  assumes "container_agent_validate_agent_file agent = Inr ()"
  shows "\<exists>waits. agent_wait_for dir agent = Inr waits
    \<and> (waits = AwaitShutdownSignal \<longleftrightarrow> ca_control_socket agent = Some (CsEnabled False))"
proof -
  have "is_ok (render t (service_vars dir))" if "configured_control_socket (ca_control_socket agent) = Some t" for t
  proof (cases "Option.bind (ca_control_socket agent) control_socket_path")
    case None
    with that have "t = ''{container_state_dir}/agent.sock''"
      by (auto simp: configured_control_socket_def split: option.splits control_socket_config.splits bool.splits)
    then show ?thesis using default_control_socket_renders by simp
  next
    case (Some path)
    with that have "t = path"
      by (auto simp: configured_control_socket_def split: option.splits control_socket_config.splits bool.splits)
    with assms Some show ?thesis
      by (intro agent_template_renders [of "''container_agent.control_socket''"])
        (simp add: container_agent_validate_agent_file_def given_Inr)
  qed
  then show ?thesis
    by (cases "configured_control_socket (ca_control_socket agent)")
      (auto simp: agent_wait_for_def is_ok_iff configured_control_socket_def
        split: option.splits control_socket_config.splits bool.splits)
qed

lemma accepted_bridge:
  assumes "container_agent_validate_agent_file agent = Inr ()"
  shows "case ca_ssh_bridge agent of
      None \<Rightarrow> bridge_tasks agent = Some []
    | Some bridge \<Rightarrow> if sb_enabled bridge
        then \<exists>socket. bridge_tasks agent = Some [RunBridge socket (sb_target bridge)] \<and> is_ok (render socket (service_vars dir))
        else bridge_tasks agent = Some []"
proof (cases "ca_ssh_bridge agent")
  case (Some bridge)
  with assms have "ssh_bridge_validate_agent_file bridge = Inr ()"
    by (simp add: container_agent_validate_agent_file_def given_Inr)
  then show ?thesis using Some
    by (cases "sb_socket bridge")
      (auto simp: bridge_tasks_def ssh_bridge_validate_agent_file_def bail_if_Inr agent_template_renders split: if_splits)
qed (simp add: bridge_tasks_def)

lemma agent_file_services:
  assumes "container_agent_validate_agent_file agent = Inr ()"
  shows "list_all (\<lambda>m. is_ok (render_argv (sc_command (ms_config m)) (service_vars dir)))
    (map managed_service_new (ca_services agent))"
proof (cases "ca_enabled agent")
  case True
  with assms have "\<forall>s \<in> set (ca_services agent). service_validate s Literal = Inr ()"
    by (simp add: container_agent_validate_agent_file_def container_agent_validate_common_def validate_services_Inr)
  moreover have "is_ok (render_argv (sc_command s) (service_vars dir))" if "service_validate s Literal = Inr ()" for s
    using accepted_service_starts [of "managed_service_new s" Literal] that by (simp add: managed_service_new_def)
  ultimately show ?thesis by (simp add: list_all_iff managed_service_new_def)
next
  case False
  with assms have "ca_services agent = []"
    by (simp add: container_agent_validate_agent_file_def container_agent_validate_common_def bail_if_Inr)
  then show ?thesis by simp
qed

lemma agent_started_fields:
  "ag_services (agent_started dir services cleanup bridge token owner) = map managed_service_new services"
  "ag_bridge_ready (agent_started dir services cleanup bridge token owner) = (\<not> bridge)"
  "ag_socket_owner (agent_started dir services cleanup bridge token owner) = owner"
  "(if ag_idle_cleanup (agent_started dir services cleanup bridge token owner) \<noteq> None then [RunIdleCleanup] else [])
    = (case cleanup of None \<Rightarrow> []
        | Some c \<Rightarrow> if ic_owner c = OwnerAgent \<and> ic_action c \<noteq> ActionNone then [RunIdleCleanup] else [])"
  by (simp_all add: agent_started_def agent_state_new_def split: option.split)

lemma run_agent_plan:
  assumes "container_agent_file_load w (agent_config_path (ao_host w) config) = Inr cfg"
    and "and_then (ao_private_dir w (agent_state_dir (ao_var w))) (\<lambda>_. socket_owner_from_env (ao_var w)) = Inr owner"
    and "bridge_tasks (caf_container_agent cfg) = Some bridge"
    and "agent_wait_for (agent_state_dir (ao_var w)) (caf_container_agent cfg) = Inr waits"
  shows "run_agent w config = Some (Inr (let agent = caf_container_agent cfg;
      state = agent_started (agent_state_dir (ao_var w)) (ca_services agent) (ca_idle_cleanup agent)
        (case ca_ssh_bridge agent of None \<Rightarrow> False | Some b \<Rightarrow> sb_enabled b)
        (env_unicode (ao_var w ''AW_CONTAINER_CONTROL_TOKEN'')) owner
    in \<lparr>ap_state = state,
        ap_tasks = map (\<lambda>s. SuperviseService (managed_service_new s)) (ca_services agent) @ bridge
          @ (case ca_idle_cleanup agent of None \<Rightarrow> []
              | Some c \<Rightarrow> if ic_owner c = OwnerAgent \<and> ic_action c \<noteq> ActionNone then [RunIdleCleanup] else []),
        ap_wait = waits\<rparr>))"
  unfolding run_agent_def Let_def assms(1) sum.case assms(2,3) assms(4) option.map map_ok.simps agent_started_fields
  by (simp add: comp_def)


end
