(* ===== verification/Spec2Isabelle.thy ===== *)
theory Spec2Isabelle
  imports Launch_Args Gateway_Config Config_Loading Ssh_Filter Rotation Control Exec_Cancel Apple_Preflight Container_Spec
    Commands Pty_Sessions Bootstrap Process_Start
begin

text \<open>
  \<^bold>\<open>aw-gateway: a model of its configuration, access and supervision logic.\<close>

  The gateway reads a configuration of targets and launches, starts containers through a container
  runtime and lets users in over SSH; inside a container an agent supervises services, bridges SSH to
  a socket, answers a control socket and cleans up an idle container. This library models the logic
  of these parts from the Rust sources under \<open>src/src\<close>; every definition keeps the name of the
  function or type it models where the name is free.

  \<^bold>\<open>Shared parts.\<close> \<open>Prelude\<close>: fallible code as \<open>error + 'a\<close>, chains of checks, and the string and vector
  functions of the standard library that the code uses. \<open>Ordered_Maps\<close>: \<open>BTreeMap\<close> as a sorted
  association list, with the interface \<open>map_interface\<close> (lookup after insertion, invariant) that its
  clients rest on. \<open>Std_Paths\<close>: path components. \<open>Durations\<close>: numbers and \<open>parse_duration\<close>. \<open>Templates\<close>:
  \<open>template.rs\<close>, with rendering as substitution into the pieces of a template. \<open>Validation\<close>:
  \<open>config/validation.rs\<close>, names, image references (equivalent to a grammar), template policies, and
  the keyed merge that services and launch steps share.

  \<^bold>\<open>Configuration.\<close> \<open>Small_Configs\<close>: \<open>config/target/*.rs\<close>, layered settings; the locale \<open>overlay_contract\<close>
  states what a layer is and is interpreted for each of them. \<open>Services\<close>: \<open>config/agent.rs\<close>; the
  dependency search accepts exactly the acyclic graphs. \<open>Steps\<close>: \<open>config/steps.rs\<close>; the locale
  \<open>step_list\<close> states what the three kinds of steps share, and the merge of patches refines their
  application to an ordered key list. \<open>Launch_Config\<close>: \<open>config/launch.rs\<close>; an accepted launch renders.
  \<open>Context_Vars\<close>: \<open>context.rs\<close>, runtime contexts and their container labels. \<open>Template_Chain\<close>:
  \<open>config/resolver.rs\<close>, templates that use templates; resolution is the overlay of an unfolding, and the
  reference check accepts exactly the sets of templates that unfold. \<open>Target_Parts\<close> and \<open>Targets\<close>:
  \<open>config/target.rs\<close>, the input, the overlay and the effective form of a target, its checks and the name
  of its container. \<open>Net_Addr\<close>: parsing of socket addresses. \<open>Gateway_Config\<close>: \<open>config.rs\<close> and
  \<open>config/http.rs\<close>, the whole configuration; what it accepts resolves, separates contexts, and exposes
  no open API beyond the machine. \<open>Config_Loading\<close>: \<open>config/root.rs\<close> and \<open>config/include.rs\<close>, documents
  that extend and include others; loading returns with any bound above the number of documents.

  \<^bold>\<open>Access.\<close> \<open>Launch_Args\<close>: \<open>launch_args.rs\<close>, the flags of a launch. \<open>Ssh_Dispatch\<close>: \<open>action.rs\<close> and
  \<open>ssh_dispatch.rs\<close>, what an SSH command may do. \<open>Ssh_Filter\<close>: \<open>ssh_filter.rs\<close>, the filter of file
  transfers, with the nesting of shell scripts bounded by the length of the command (a nested script
  is shorter than the command that holds it, so that this depth always suffices).

  \<^bold>\<open>The container agent.\<close> \<open>Rotation\<close>: \<open>rotating_log.rs\<close> and the log writer of \<open>agent/service.rs\<close> on a
  directory of files. \<open>Supervision\<close>: \<open>agent/service.rs\<close> and \<open>agent/lifecycle.rs\<close>, how services are
  started, awaited, restarted with backoff and stopped in dependency order, and the delay of the forced
  exit. \<open>Idle_Cleanup\<close>: \<open>agent/process.rs\<close> and \<open>agent/idle.rs\<close>, the reap plan (closed under children)
  and the timing of the cleanup. \<open>Control\<close>: \<open>agent_control.rs\<close>, \<open>agent/control.rs\<close>, \<open>agent/bridge.rs\<close>,
  \<open>agent/status.rs\<close>, \<open>agent/state.rs\<close>, \<open>secret.rs\<close>; the server is a transition relation whose steps
  interleave connections, held sessions, bridge streams, idle rounds and the shutdown.

  \<^bold>\<open>The container runtime.\<close> \<open>Container_Runtime\<close>: \<open>runtime.rs\<close>, the command lines and environments of the
  container clients; values stay off the command line and still reach the container.
  \<open>Container_Listing\<close>: \<open>runtime/parse.rs\<close> and the listing and inspection of managed containers.
  \<open>Apple_Preflight\<close>: which sockets the Apple runtime may expose. \<open>Exec_Cancel\<close>: how a command in a
  container is cancelled, the signals that are sent and the sweep of stale markers.

  \<^bold>\<open>The gateway.\<close> \<open>Gateway_Runtime\<close>: \<open>gateway.rs\<close>, \<open>paths.rs\<close> and parts of \<open>gateway/*\<close>, the record of
  everything an operation works with and where it acts; a \<open>host\<close> record holds what the system answers.
  \<open>Host_Sockets\<close>: \<open>gateway/host_socket_exposures.rs\<close>, which sockets are exposed and the manifest that
  identifies them. \<open>Container_Spec\<close>: \<open>gateway/container_spec.rs\<close> and \<open>gateway/control_sockets.rs\<close>, the
  labels, mounts, environment and files of a container, and how a container is recognised.

  \<^bold>\<open>Operations.\<close> \<open>Gateway_World\<close>: the state in which an operation runs, its effects and their log, and
  rules of reasoning: \<open>triple\<close>, and what is known of the container from the log. \<open>Gateway_State\<close>:
  \<open>gateway/identity.rs\<close>, \<open>gateway/control_sockets.rs\<close>, \<open>gateway/published_port.rs\<close> and
  \<open>gateway/session.rs\<close>, what the gateway keeps on the host. \<open>Lifecycle\<close>: \<open>gateway/lifecycle.rs\<close>,
  \<open>gateway/health.rs\<close>, \<open>gateway/lifecycle_hooks.rs\<close> and \<open>gateway/agent_client.rs\<close>, how a container is started,
  made ready and stopped. \<open>Operations\<close>: \<open>gateway/workspace.rs\<close> and \<open>gateway/ops.rs\<close>, stop, remove, and the
  cleanup after a session; whatever an operation does, it changes a container only under its lock and
  after it saw its labels.

  \<^bold>\<open>Sessions and launches.\<close> \<open>Launching\<close>: \<open>gateway/ops/types.rs\<close>, \<open>gateway/model.rs\<close> and the launches of
  \<open>gateway.rs\<close>, typed variables, rendered commands and the listings of launches and targets. \<open>Execution\<close>:
  \<open>gateway/execution.rs\<close>, a session from the readiness of its target to its cleanup, with the steps and the command
  of a launch; it changes only containers of its own. \<open>Client_Access\<close>: \<open>gateway/client.rs\<close>, keys and
  client configurations. \<open>Dispatch\<close>: the operations of the gateway and what a request over SSH becomes.
  \<open>Rendering\<close>: \<open>gateway/render.rs\<close>, what results look like.

  \<^bold>\<open>The surfaces.\<close> \<open>Http_Api\<close>: \<open>gateway/http.rs\<close> and \<open>gateway/http/*\<close>, authorisation, handlers and answers; a
  request without the token runs nothing. \<open>Pty_Sessions\<close>: the terminals of \<open>gateway/http.rs\<close>, leases, sockets,
  sessions and the shutdown, whose loops are functions of what each round sees. \<open>Ssh_Sessions\<close>: the SSH
  commands and the listener of \<open>gateway.rs\<close> and \<open>gateway/listener.rs\<close>. \<open>Commands\<close>: the commands of \<open>gateway.rs\<close>; an
  action over SSH is its command.

  \<^bold>\<open>Starting.\<close> \<open>Bootstrap\<close>: \<open>bootstrap.rs\<close> and \<open>unix_priv.rs\<close>, the accounts and steps of a container up to the
  start of its agent. \<open>Process_Start\<close>: \<open>agent.rs\<close>, \<open>agent/socket.rs\<close>, \<open>logging.rs\<close> and the program of the SSH command
  filter; an accepted agent file starts what it configures and never panics.

  \<^bold>\<open>Conventions.\<close> An error is its format and arguments, without the quotes of a debug format. Loops that
  wait are functions of the list of what each round observes. Code that is not in the repository is an
  argument: \<open>shell_words::split\<close>, the JSON accessors, files, environment, processes, sockets, clock.
  Durations are numbers of nanoseconds up to \<open>Duration::MAX\<close>; secrets are compared on machine words.

  \<^bold>\<open>Not modelled.\<close> The HTTP and WebSocket server with its routes, the decoding of JSON and TOML, the relay of bytes
  between terminals, pipes and sockets, and a second signal while an operation is canceled: these are
  libraries and system calls. The definitions of the command line, the log subscriber and the entry points of
  the other processes are declarations for libraries.
\<close>

end
